(* ===== verification/Dongle_Prelude.thy ===== *)
theory Dongle_Prelude
  imports Main "HOL-Library.Word" "HOL-Library.Char_ord"
begin

text \<open>
  What the components share: the machine types of the firmware, the scan for the first
  slot of a fixed-capacity array, wrap-safe comparison of millisecond clocks, and
  little-endian integers. The C arrays of the sources are lists whose length is the
  declared capacity; a scan "for i in 0..capacity" is \<open>find_slot\<close>.
\<close>

unbundle bit_operations_syntax

section \<open>Machine types\<close>

type_synonym u8 = "8 word"
type_synonym u16 = "16 word"
type_synonym u32 = "32 word"
type_synonym u64 = "64 word"
type_synonym bytes = "u8 list"

named_theorems slot_simps "facts about scans and updates of slot arrays"
named_theorems le_simps "facts about little-endian integers"
named_theorems model_defs "the defining equations of small operations"

section \<open>First matching slot of an array\<close>

text \<open>The index of the first element that satisfies the predicate, as every
  \<open>for (i = 0; i < capacity; ++i) if (P(a[i])) return i;\<close> of the sources computes it.\<close>

fun find_slot :: "('a \<Rightarrow> bool) \<Rightarrow> 'a list \<Rightarrow> nat option" where
  "find_slot P [] = None"
| "find_slot P (x # xs) = (if P x then Some 0 else map_option Suc (find_slot P xs))"

lemma find_slot_None [slot_simps]: "find_slot P xs = None \<longleftrightarrow> (\<forall>x\<in>set xs. \<not> P x)"
  by (induction xs) auto

lemma find_slot_SomeD:
  "find_slot P xs = Some i \<Longrightarrow> i < length xs \<and> P (xs ! i) \<and> (\<forall>j<i. \<not> P (xs ! j))"
proof (induction xs arbitrary: i)
  case Nil
  then show ?case by simp
next
  case (Cons x xs)
  show ?case
  proof (cases "P x")
    case True
    with Cons.prems show ?thesis by simp
  next
    case False
    with Cons.prems obtain k where k: "find_slot P xs = Some k" "i = Suc k" by auto
    with Cons.IH have "k < length xs \<and> P (xs ! k) \<and> (\<forall>j<k. \<not> P (xs ! j))" by blast
    with k False show ?thesis by (auto simp: less_Suc_eq_0_disj)
  qed
qed

lemma find_slot_bound: "find_slot P xs = Some i \<Longrightarrow> i < length xs"
  by (drule find_slot_SomeD) simp

lemma find_slot_holds: "find_slot P xs = Some i \<Longrightarrow> P (xs ! i)"
  by (drule find_slot_SomeD) simp

lemma find_slot_least: "find_slot P xs = Some i \<Longrightarrow> j < i \<Longrightarrow> \<not> P (xs ! j)"
  by (drule find_slot_SomeD) simp

lemma find_slot_SomeI:
  "i < length xs \<Longrightarrow> P (xs ! i) \<Longrightarrow> (\<And>j. j < i \<Longrightarrow> \<not> P (xs ! j)) \<Longrightarrow> find_slot P xs = Some i"
proof (induction xs arbitrary: i)
  case Nil
  then show ?case by simp
next
  case (Cons x xs)
  show ?case
  proof (cases i)
    case 0
    with Cons.prems show ?thesis by simp
  next
    case (Suc k)
    with Cons.prems(3)[of 0] have nx: "\<not> P x" by simp
    have "find_slot P xs = Some k"
    proof (rule Cons.IH)
      show "k < length xs" using Cons.prems(1) Suc by simp
      show "P (xs ! k)" using Cons.prems(2) Suc by simp
      show "\<not> P (xs ! j)" if "j < k" for j
        using Cons.prems(3)[of "Suc j"] that Suc by simp
    qed
    with nx Suc show ?thesis by simp
  qed
qed

lemma find_slot_ex: "x \<in> set xs \<Longrightarrow> P x \<Longrightarrow> \<exists>i. find_slot P xs = Some i"
  using find_slot_None [of P xs] by (cases "find_slot P xs") auto

lemma find_slot_cong:
  "length xs = length ys \<Longrightarrow> (\<And>i. i < length xs \<Longrightarrow> P (xs ! i) = Q (ys ! i)) \<Longrightarrow>
   find_slot P xs = find_slot Q ys"
proof (induction xs ys rule: list_induct2)
  case (Cons x xs y ys)
  have "P x = Q y" using Cons.prems[of 0] by simp
  moreover have "find_slot P xs = find_slot Q ys"
    by (rule Cons.IH) (use Cons.prems in force)
  ultimately show ?case by simp
qed simp

section \<open>Arrays with one slot per key\<close>

text \<open>
  Every table of the firmware is an array of slots, a slot being free or holding a record
  with a key. \<open>slot_get\<close> is the record the table holds for a key, \<open>one_per_key\<close> that no
  key has two slots.
\<close>

definition slot_get :: "('r \<Rightarrow> bool) \<Rightarrow> ('r \<Rightarrow> 'k) \<Rightarrow> 'r list \<Rightarrow> 'k \<Rightarrow> 'r option" where
  "slot_get used key t k =
     (case find_slot (\<lambda>r. used r \<and> key r = k) t of None \<Rightarrow> None | Some i \<Rightarrow> Some (t ! i))"

definition one_per_key :: "('r \<Rightarrow> bool) \<Rightarrow> ('r \<Rightarrow> 'k) \<Rightarrow> 'r list \<Rightarrow> bool" where
  "one_per_key used key t \<longleftrightarrow> distinct (map key (filter used t))"

lemma one_per_key_iff:
  "one_per_key used key t \<longleftrightarrow>
     (\<forall>i<length t. \<forall>j<length t.
        used (t ! i) \<longrightarrow> used (t ! j) \<longrightarrow> key (t ! i) = key (t ! j) \<longrightarrow> i = j)"
proof (induction t)
  case Nil
  then show ?case by (simp add: one_per_key_def)
next
  case (Cons x xs)
  have "key x \<in> key ` {y \<in> set xs. used y} \<longleftrightarrow>
      (\<exists>j<length xs. used (xs ! j) \<and> key (xs ! j) = key x)"
    by (auto simp: in_set_conv_nth image_iff)
  then have step: "one_per_key used key (x # xs) \<longleftrightarrow>
      one_per_key used key xs \<and> (used x \<longrightarrow> (\<forall>j<length xs. used (xs ! j) \<longrightarrow> key (xs ! j) \<noteq> key x))"
    by (auto simp: one_per_key_def)
  show ?case
    unfolding step Cons.IH
    by (simp add: All_less_Suc2 eq_commute [of _ "key x"]) blast
qed

lemma one_per_keyD:
  "one_per_key used key t \<Longrightarrow> i < length t \<Longrightarrow> j < length t \<Longrightarrow> used (t ! i) \<Longrightarrow> used (t ! j) \<Longrightarrow>
   key (t ! i) = key (t ! j) \<Longrightarrow> i = j"
  by (auto simp: one_per_key_iff)

lemma slot_get_None:
  "slot_get used key t k = None \<longleftrightarrow> (\<forall>i<length t. used (t ! i) \<longrightarrow> key (t ! i) \<noteq> k)"
proof (cases "find_slot (\<lambda>r. used r \<and> key r = k) t")
  case None
  then have "\<forall>i<length t. used (t ! i) \<longrightarrow> key (t ! i) \<noteq> k"
    by (auto simp: find_slot_None all_set_conv_all_nth)
  with None show ?thesis by (simp add: slot_get_def)
next
  case (Some i)
  then have "i < length t \<and> used (t ! i) \<and> key (t ! i) = k"
    by (auto dest: find_slot_SomeD)
  with Some show ?thesis by (auto simp: slot_get_def)
qed

lemma slot_get_SomeD:
  "slot_get used key t k = Some r \<Longrightarrow> \<exists>i<length t. t ! i = r \<and> used r \<and> key r = k"
  by (auto simp: slot_get_def split: option.splits dest!: find_slot_SomeD)

lemma slot_get_mem:
  "slot_get used key t k = Some r \<Longrightarrow> r \<in> set t \<and> used r \<and> key r = k"
  by (auto dest!: slot_get_SomeD)

lemma slot_get_SomeI:
  assumes "one_per_key used key t" "i < length t" "used (t ! i)" "key (t ! i) = k"
  shows "slot_get used key t k = Some (t ! i)"
proof (cases "find_slot (\<lambda>r. used r \<and> key r = k) t")
  case None
  with assms show ?thesis by (auto simp: find_slot_None all_set_conv_all_nth)
next
  case (Some j)
  then have "j < length t" "used (t ! j)" "key (t ! j) = k"
    by (auto dest: find_slot_SomeD)
  with assms have "j = i" by (auto dest: one_per_keyD)
  with Some show ?thesis by (simp add: slot_get_def)
qed

text \<open>Writing one slot: a record whose key is not held by any other slot keeps the table
  single-keyed, and changes the lookup of the old and the new key only.\<close>

lemma one_per_key_update:
  assumes "one_per_key used key t"
    and "\<And>j. j < length t \<Longrightarrow> j \<noteq> i \<Longrightarrow> used r \<Longrightarrow> used (t ! j) \<Longrightarrow> key (t ! j) \<noteq> key r"
  shows "one_per_key used key (t[i := r])"
  using assms by (cases "i < length t") (force simp: one_per_key_iff nth_list_update)+

lemma slot_get_update_other:
  assumes inj: "one_per_key used key t" and i: "i < length t"
    and old: "used (t ! i) \<Longrightarrow> key (t ! i) \<noteq> k" and new: "used r \<Longrightarrow> key r \<noteq> k"
  shows "slot_get used key (t[i := r]) k = slot_get used key t k"
proof -
  have "find_slot (\<lambda>r. used r \<and> key r = k) (t[i := r]) = find_slot (\<lambda>r. used r \<and> key r = k) t"
    by (rule find_slot_cong) (use i old new in \<open>auto simp: nth_list_update\<close>)
  moreover have "(t[i := r]) ! j = t ! j"
    if "find_slot (\<lambda>r. used r \<and> key r = k) t = Some j" for j
    using find_slot_SomeD[OF that] old i by (cases "j = i") auto
  ultimately show ?thesis by (simp add: slot_get_def split: option.splits)
qed

lemma slot_get_update_same:
  assumes "one_per_key used key (t[i := r])" "i < length t" "used r" "key r = k"
  shows "slot_get used key (t[i := r]) k = Some r"
  using slot_get_SomeI[OF assms(1), of i k] assms(2-) by simp

lemma slot_get_clear:
  assumes inj: "one_per_key used key t" and i: "i < length t"
    and old: "used (t ! i)" "key (t ! i) = k" and new: "\<not> used r"
  shows "slot_get used key (t[i := r]) k = None"
  using assms by (auto simp: slot_get_None nth_list_update dest: one_per_keyD)

lemma slot_write:
  assumes inj: "one_per_key used key t" and i: "i < length t" and r: "used r"
    and other: "\<And>j. j < length t \<Longrightarrow> j \<noteq> i \<Longrightarrow> used (t ! j) \<Longrightarrow> key (t ! j) \<noteq> key r"
  shows "one_per_key used key (t[i := r])"
    and "slot_get used key (t[i := r]) (key r) = Some r"
    and "k \<noteq> key r \<Longrightarrow> slot_get used key (t[i := r]) k =
           (if used (t ! i) \<and> key (t ! i) = k then None else slot_get used key t k)"
proof -
  show inj': "one_per_key used key (t[i := r])"
    by (rule one_per_key_update [OF inj]) (use other in auto)
  show "slot_get used key (t[i := r]) (key r) = Some r"
    by (rule slot_get_update_same [OF inj' i r refl])
  show "slot_get used key (t[i := r]) k =
      (if used (t ! i) \<and> key (t ! i) = k then None else slot_get used key t k)" if k: "k \<noteq> key r"
  proof (cases "used (t ! i) \<and> key (t ! i) = k")
    case True
    with i inj k have "slot_get used key (t[i := r]) k = None"
      by (auto simp: slot_get_None nth_list_update dest: one_per_keyD)
    with True show ?thesis by simp
  next
    case False
    then have "slot_get used key (t[i := r]) k = slot_get used key t k"
      by (intro slot_get_update_other [OF inj i]) (use k in auto)
    with False show ?thesis by auto
  qed
qed

text \<open>The keys a table holds, how many there are, and when a free slot is left.\<close>

lemma dom_slot_get: "dom (slot_get used key t) = key ` set (filter used t)"
proof (intro set_eqI iffI)
  fix k assume "k \<in> dom (slot_get used key t)"
  then show "k \<in> key ` set (filter used t)"
    by (auto dest!: slot_get_SomeD)
next
  fix k assume "k \<in> key ` set (filter used t)"
  then have "slot_get used key t k \<noteq> None"
    by (auto simp: slot_get_None in_set_conv_nth)
  then show "k \<in> dom (slot_get used key t)" by blast
qed

lemma card_dom_slot_get:
  "one_per_key used key t \<Longrightarrow> card (dom (slot_get used key t)) = length (filter used t)"
  unfolding dom_slot_get one_per_key_def
  by (metis distinct_card length_map list.set_map)

lemma find_free_Some_iff:
  "(\<exists>i. find_slot (\<lambda>r. \<not> used r) t = Some i) \<longleftrightarrow> length (filter used t) < length t"
proof (induction t)
  case (Cons x xs)
  then show ?case using length_filter_le [of used xs] by (auto simp: less_Suc_eq_le)
qed simp

lemma slot_get_Nil [simp]: "slot_get used key [] k = None"
  by (simp add: slot_get_def)

lemma slot_get_Cons:
  "slot_get used key (x # xs) k = (if used x \<and> key x = k then Some x else slot_get used key xs k)"
  by (simp add: slot_get_def split: option.splits)

lemma one_per_key_Cons:
  "one_per_key used key (x # xs) \<longleftrightarrow>
     one_per_key used key xs \<and> (used x \<longrightarrow> slot_get used key xs (key x) = None)"
  using dom_slot_get [of used key xs] by (auto simp: one_per_key_def domIff [symmetric])

text \<open>A pass over all slots that keeps which slots are used and their keys.\<close>

lemma slot_get_map:
  "(\<And>r. used (g r) = used r) \<Longrightarrow> (\<And>r. used r \<Longrightarrow> key (g r) = key r) \<Longrightarrow>
   slot_get used key (map g t) k = map_option g (slot_get used key t k)"
  by (induction t) (auto simp: slot_get_Cons)

lemma one_per_key_map:
  "(\<And>r. used (g r) = used r) \<Longrightarrow> (\<And>r. used r \<Longrightarrow> key (g r) = key r) \<Longrightarrow>
   one_per_key used key (map g t) = one_per_key used key t"
  by (simp add: one_per_key_iff)

section \<open>Copying the used slots out\<close>

text \<open>\<open>for (i = 0; i < capacity && written < maxOut; ++i) if (used) out[written++] = f(a[i])\<close>.\<close>

fun collect :: "('r \<Rightarrow> bool) \<Rightarrow> ('r \<Rightarrow> 'o) \<Rightarrow> nat \<Rightarrow> 'r list \<Rightarrow> 'o list \<Rightarrow> 'o list" where
  "collect used f maxOut [] out = out"
| "collect used f maxOut (r # rs) out =
     (if \<not> length out < maxOut then out
      else collect used f maxOut rs (if used r then out @ [f r] else out))"

lemma collect_take:
  "length out \<le> maxOut \<Longrightarrow>
   collect used f maxOut rs out = out @ take (maxOut - length out) (map f (filter used rs))"
  by (induction rs arbitrary: out) (auto simp: Suc_diff_le take_Cons' not_less_eq_eq)

lemma map_le_cases: "f \<subseteq>\<^sub>m g \<Longrightarrow> f k \<in> {None, g k}"
  unfolding map_le_def by (cases "f k") (simp, metis domI insertI1 insert_commute)

section \<open>Running maxima\<close>

lemma Max_insert_step:
  fixes y :: "'a::linorder"
  assumes "finite A"
  shows "Max (insert (if y > m then y else m) A) = Max (insert m (insert y A))"
  using assms by (cases "A = {}") (auto simp: max_def)

section \<open>Millisecond clocks that roll over\<close>

text \<open>\<open>(nowMs - t) < 0x80000000\<close> on 32-bit unsigned values: the instant \<open>t\<close> lies at most
  half the clock's range in the past.\<close>

definition reached :: "u32 \<Rightarrow> u32 \<Rightarrow> bool" where
  "reached nowMs t \<longleftrightarrow> nowMs - t < 0x80000000"

lemma reached_after: "unat d < 2 ^ 31 \<Longrightarrow> reached (t + d) t"
  by (simp add: reached_def word_less_nat_alt)

lemma not_reached_before:
  assumes "0 < unat d" "unat d \<le> 2 ^ 31"
  shows "\<not> reached (t - d) t"
proof -
  have "t - d - t = - d" by simp
  moreover have "unat (- d) = 2 ^ 32 - unat d"
    using assms unat_sub_if' [of 0 d] by simp
  ultimately show ?thesis using assms by (simp add: reached_def word_less_nat_alt)
qed

section \<open>Little-endian integers\<close>

definition u16_le :: "u16 \<Rightarrow> bytes" where
  "u16_le v = [ucast v, ucast (drop_bit 8 v)]"

definition u32_le :: "u32 \<Rightarrow> bytes" where
  "u32_le v = [ucast v, ucast (drop_bit 8 v), ucast (drop_bit 16 v), ucast (drop_bit 24 v)]"

definition u64_le :: "u64 \<Rightarrow> bytes" where
  "u64_le v = map (\<lambda>i. ucast (drop_bit (8 * i) v)) [0..<8]"

lemma length_u16_le [simp]: "length (u16_le v) = 2"
  by (simp add: u16_le_def)

lemma length_u32_le [simp]: "length (u32_le v) = 4"
  by (simp add: u32_le_def)

lemma length_u64_le [simp]: "length (u64_le v) = 8"
  by (simp add: u64_le_def)

fun le_nat :: "bytes \<Rightarrow> nat" where
  "le_nat [] = 0"
| "le_nat (b # bs) = unat b + 256 * le_nat bs"

lemma unat_bound: "unat (v :: 'a::len word) < 2 ^ LENGTH('a)"
  by (rule unsigned_less)

lemma unat_drop_bit_div: "unat (drop_bit m v) = unat (v :: 'a::len word) div 2 ^ m"
  using unat_bound [of v] by (simp add: unsigned_drop_bit_eq take_bit_eq_mod flip: drop_bit_eq_div)

lemma le_nat_shifts:
  fixes v :: "'a::len word"
  shows "le_nat (map (\<lambda>i. ucast (drop_bit (8 * i) v)) [k..<k + n]) = (unat v div 2 ^ (8 * k)) mod 2 ^ (8 * n)"
proof (induction n arbitrary: k)
  case (Suc n)
  let ?d = "\<lambda>i. ucast (drop_bit (8 * i) v) :: u8"
  have head: "unat (?d k) = (unat v div 2 ^ (8 * k)) mod 256"
    by (simp add: unsigned_ucast_eq unat_drop_bit_div take_bit_eq_mod del: drop_bit_eq_div)
  have "le_nat (map ?d [k..<k + Suc n]) = unat (?d k) + 256 * le_nat (map ?d [Suc k..<Suc k + n])"
    by (simp add: upt_conv_Cons del: upt_Suc)
  also have "le_nat (map ?d [Suc k..<Suc k + n]) = (unat v div 2 ^ (8 * Suc k)) mod 2 ^ (8 * n)"
    by (rule Suc.IH)
  also have "unat v div 2 ^ (8 * Suc k) = (unat v div 2 ^ (8 * k)) div 256"
    by (simp add: div_mult2_eq [symmetric] power_add mult.commute)
  finally show ?case
    unfolding head using mod_mult2_eq [of "unat v div 2 ^ (8 * k)" 256 "2 ^ (8 * n)"]
    by (simp add: power_add ac_simps)
qed simp

lemma le_nat_all:
  fixes v :: "'a::len word"
  assumes "8 * n = LENGTH('a)"
  shows "le_nat (map (\<lambda>i. ucast (drop_bit (8 * i) v)) [0..<n]) = unat v"
  using le_nat_shifts [of v 0 n] unat_bound [of v] assms by simp

lemma le_nat_u64 [le_simps]: "le_nat (u64_le v) = unat v"
  unfolding u64_le_def by (rule le_nat_all) simp

lemma le_nat_u32 [le_simps]: "le_nat (u32_le v) = unat v"
proof -
  have "u32_le v = map (\<lambda>i. ucast (drop_bit (8 * i) v)) [0..<4]"
    by (simp add: u32_le_def upt_rec)
  then show ?thesis by (simp only:) (rule le_nat_all, simp)
qed

lemma le_nat_u16 [le_simps]: "le_nat (u16_le v) = unat v"
proof -
  have "u16_le v = map (\<lambda>i. ucast (drop_bit (8 * i) v)) [0..<2]"
    by (simp add: u16_le_def upt_rec)
  then show ?thesis by (simp only:) (rule le_nat_all, simp)
qed

lemma le_nat_u8 [le_simps]: "le_nat [v] = unat v"
  by simp

text \<open>The octets of a C string, without its terminating NUL.\<close>

definition cstr :: "string \<Rightarrow> bytes" where
  "cstr s = map of_char (takeWhile (\<lambda>c. c \<noteq> CHR 0x00) s)"

section \<open>Bounded queues of the operating system\<close>

text \<open>A FreeRTOS queue: its depth and its items, oldest first. \<open>queue_send\<close> is \<open>xQueueSend\<close> with no
  wait, \<open>queue_receive\<close> is \<open>xQueueReceive\<close>, where an empty queue is the timeout.\<close>

type_synonym 'a rtos_queue = "nat \<times> 'a list"

definition queue_send :: "'a \<Rightarrow> 'a rtos_queue \<Rightarrow> bool \<times> 'a rtos_queue" where
  "queue_send x q = (if length (snd q) < fst q then (True, fst q, snd q @ [x]) else (False, q))"

definition queue_receive :: "'a rtos_queue \<Rightarrow> ('a \<times> 'a rtos_queue) option" where
  "queue_receive q = (case snd q of [] \<Rightarrow> None | x # xs \<Rightarrow> Some (x, fst q, xs))"

text \<open>The octets of a text and the text of octets; \<open>c_text\<close> stops before the first NUL.\<close>

definition chars_of :: "bytes \<Rightarrow> string" where "chars_of bs = map (\<lambda>b. char_of (unat b)) bs"
definition c_text :: "bytes \<Rightarrow> string" where "c_text bs = chars_of (takeWhile (\<lambda>b. b \<noteq> 0) bs)"
definition bytes_of :: "string \<Rightarrow> bytes" where "bytes_of s = map of_char s"

end
