(* ===== verification/Table_Interfaces.thy ===== *)
theory Table_Interfaces
  imports Dongle_Prelude
begin

text \<open>
  The contracts of the fixed-capacity tables, as their clients see them. A bounded map
  refuses a new key when it is full (the hub binding table, the subscription rows); a
  bounded cache never refuses but may forget one other key (the peer table, the manifest
  entries, the pending manifest requests).
\<close>

section \<open>Bounded maps\<close>

locale bounded_map =
  fixes inv :: "'s \<Rightarrow> bool"
    and look :: "'s \<Rightarrow> 'k \<Rightarrow> 'v option"
    and valid :: "'k \<Rightarrow> 'v \<Rightarrow> bool"
    and put :: "'k \<Rightarrow> 'v \<Rightarrow> 's \<Rightarrow> 's \<times> bool"
    and cap :: nat
  assumes fin: "inv s \<Longrightarrow> finite (dom (look s))"
    and bounded: "inv s \<Longrightarrow> card (dom (look s)) \<le> cap"
    and put_inv: "inv s \<Longrightarrow> inv (fst (put k v s))"
    and put_ok: "inv s \<Longrightarrow> snd (put k v s) \<longleftrightarrow>
          valid k v \<and> (k \<in> dom (look s) \<or> card (dom (look s)) < cap)"
    and put_look: "inv s \<Longrightarrow> snd (put k v s) \<Longrightarrow> look (fst (put k v s)) = (look s)(k \<mapsto> v)"
    and put_refused: "inv s \<Longrightarrow> \<not> snd (put k v s) \<Longrightarrow> fst (put k v s) = s"
begin

lemma put_again:
  assumes "inv s" "snd (put k v s)" "valid k w"
  shows "snd (put k w (fst (put k v s)))"
    and "look (fst (put k w (fst (put k v s)))) = (look s)(k \<mapsto> w)"
proof -
  have i: "inv (fst (put k v s))" using assms(1) by (rule put_inv)
  show ok: "snd (put k w (fst (put k v s)))"
    using put_ok [OF i] put_look [OF assms(1,2)] assms(3) by simp
  show "look (fst (put k w (fst (put k v s)))) = (look s)(k \<mapsto> w)"
    using put_look [OF i ok] put_look [OF assms(1,2)] by simp
qed

lemma put_again_size:
  assumes "inv s" "k \<in> dom (look s)"
  shows "card (dom (look (fst (put k v s)))) = card (dom (look s))"
proof (cases "snd (put k v s)")
  case True
  with assms show ?thesis by (simp add: put_look insert_absorb)
next
  case False
  with assms show ?thesis by (simp add: put_refused)
qed

lemma put_frame:
  assumes "inv s" "k' \<noteq> k"
  shows "look (fst (put k v s)) k' = look s k'"
  using put_look [OF assms(1)] put_refused [OF assms(1)] assms(2)
  by (cases "snd (put k v s)") auto

lemma full_refuses_only_new:
  assumes "inv s" "valid k v" "\<not> snd (put k v s)"
  shows "k \<notin> dom (look s) \<and> card (dom (look s)) = cap"
  using put_ok [OF assms(1)] bounded [OF assms(1)] assms(2,3) by fastforce

end

text \<open>A bounded map whose keys can also be removed.\<close>

locale bounded_map_del = bounded_map +
  fixes del :: "'b \<Rightarrow> 'a \<Rightarrow> 'a \<times> bool"
  assumes del_inv: "inv s \<Longrightarrow> inv (fst (del k s))"
    and del_look: "inv s \<Longrightarrow> look (fst (del k s)) = (look s)(k := None)"
    and del_found: "inv s \<Longrightarrow> snd (del k s) \<longleftrightarrow> k \<in> dom (look s)"
begin

lemma del_makes_room:
  assumes "inv s" "k \<in> dom (look s)" "valid k' v"
  shows "snd (put k' v (fst (del k s)))"
proof -
  have i: "inv (fst (del k s))" using assms(1) by (rule del_inv)
  have "card (dom (look s) - {k}) < card (dom (look s))"
    using fin [OF assms(1)] assms(2) by (rule card_Diff1_less)
  then have "card (dom (look (fst (del k s)))) < cap"
    using bounded [OF assms(1)] by (simp add: del_look [OF assms(1)])
  then show ?thesis using put_ok [OF i] assms(3) by simp
qed

lemma put_del:
  assumes "inv s" "snd (put k v s)"
  shows "look (fst (del k (fst (put k v s)))) = (look s)(k := None)"
  using del_look [OF put_inv [OF assms(1)]] put_look [OF assms] by simp

end

section \<open>Bounded caches\<close>

locale bounded_cache =
  fixes inv :: "'s \<Rightarrow> bool"
    and look :: "'s \<Rightarrow> 'k \<Rightarrow> 'v option"
    and valid :: "'k \<Rightarrow> 'w \<Rightarrow> bool"
    and store :: "'k \<Rightarrow> 'w \<Rightarrow> 's \<Rightarrow> 's"
    and made :: "'k \<Rightarrow> 'w \<Rightarrow> 'v"
    and cap :: nat
  assumes fin: "inv s \<Longrightarrow> finite (dom (look s))"
    and store_inv: "inv s \<Longrightarrow> inv (store k w s)"
    and store_hit: "inv s \<Longrightarrow> valid k w \<Longrightarrow> look (store k w s) k = Some (made k w)"
    and store_miss: "inv s \<Longrightarrow> k' \<noteq> k \<Longrightarrow>
          look (store k w s) k' = look s k' \<or> look (store k w s) k' = None"
    and store_room: "inv s \<Longrightarrow> k \<in> dom (look s) \<or> card (dom (look s)) < cap \<Longrightarrow> k' \<noteq> k \<Longrightarrow>
          look (store k w s) k' = look s k'"
    and store_invalid: "inv s \<Longrightarrow> \<not> valid k w \<Longrightarrow> store k w s = s"
begin

text \<open>What a client may believe about the contents: at most what was stored, and all of it as
  long as no more keys than the capacity were ever used.\<close>

definition believe :: "'k \<Rightarrow> 'w \<Rightarrow> ('k \<rightharpoonup> 'v) \<Rightarrow> ('k \<rightharpoonup> 'v)" where
  "believe k w m = (if valid k w then m(k \<mapsto> made k w) else m)"

lemma store_keeps_or_forgets:
  "inv s \<Longrightarrow> k' \<noteq> k \<Longrightarrow> look (store k w s) k' = Some v \<Longrightarrow> look s k' = Some v"
  using store_miss [of s k' k w] by auto

lemma store_sound:
  assumes "inv s" "look s \<subseteq>\<^sub>m m"
  shows "look (store k w s) \<subseteq>\<^sub>m believe k w m"
proof (cases "valid k w")
  case True
  show ?thesis unfolding map_le_def
  proof
    fix k' assume d: "k' \<in> dom (look (store k w s))"
    show "look (store k w s) k' = believe k w m k'"
    proof (cases "k' = k")
      case True
      with \<open>valid k w\<close> assms(1) show ?thesis by (simp add: store_hit believe_def)
    next
      case False
      with d obtain v where v: "look (store k w s) k' = Some v" "look s k' = Some v"
        using store_keeps_or_forgets [OF assms(1)] by blast
      with assms(2) have "m k' = Some v" by (auto simp: map_le_def dom_def)
      with v False show ?thesis by (simp add: believe_def)
    qed
  qed
qed (simp add: assms store_invalid believe_def)

lemma store_complete:
  assumes "inv s" "look s = m" "card (dom (believe k w m)) \<le> cap"
  shows "look (store k w s) = believe k w m"
proof (cases "valid k w")
  case True
  have "card (insert k (dom (look s))) \<le> cap"
    using assms(2,3) True by (simp add: believe_def)
  then have "k \<in> dom (look s) \<or> card (dom (look s)) < cap"
    using fin [OF assms(1)] by (simp add: card_insert_if split: if_splits)
  then have "look (store k w s) k' = believe k w m k'" for k'
    using True assms(1,2) store_room [OF assms(1), of k k' w]
    by (cases "k' = k") (auto simp: believe_def store_hit)
  then show ?thesis by blast
qed (simp add: assms store_invalid believe_def)

end

end
