(* ===== verification/Hub_Registry.thy ===== *)
theory Hub_Registry
  imports Table_Interfaces
begin

text \<open>
  \<open>lib/HubRegistry\<close>: the operator's table \<open>child_source_id -> peer_source_id\<close> that the
  downstream relay is addressed by. The static array \<open>g_bindings\<close> is the state; slot 0 of
  \<open>source_id\<close> marks a free slot.
\<close>

section \<open>State and operations\<close>

record binding =
  b_child :: u32
  b_peer :: u32

type_synonym hub_table = "binding list"

definition kMaxBindings :: nat where
  "kMaxBindings = 8"

definition freeBinding :: binding where
  "freeBinding = \<lparr>b_child = 0, b_peer = 0\<rparr>"

definition hub_init :: hub_table where
  "hub_init = replicate kMaxBindings freeBinding"

definition findSlot :: "u32 \<Rightarrow> hub_table \<Rightarrow> nat option" where
  "findSlot childSourceId g = find_slot (\<lambda>b. b_child b = childSourceId) g"

definition hub_bind :: "u32 \<Rightarrow> u32 \<Rightarrow> hub_table \<Rightarrow> hub_table \<times> bool" where
  "hub_bind childSourceId peerSourceId g =
     (if childSourceId = 0 \<or> peerSourceId = 0 then (g, False)
      else case findSlot childSourceId g of
             Some existing \<Rightarrow> (g[existing := (g ! existing)\<lparr>b_peer := peerSourceId\<rparr>], True)
           | None \<Rightarrow>
               (case findSlot 0 g of
                  None \<Rightarrow> (g, False)
                | Some free \<Rightarrow>
                    (g[free := (g ! free)\<lparr>b_child := childSourceId, b_peer := peerSourceId\<rparr>], True)))"

definition hub_unbind :: "u32 \<Rightarrow> hub_table \<Rightarrow> hub_table \<times> bool" where
  "hub_unbind childSourceId g =
     (if childSourceId = 0 then (g, False)
      else case findSlot childSourceId g of
             None \<Rightarrow> (g, False)
           | Some slot \<Rightarrow> (g[slot := (g ! slot)\<lparr>b_child := 0, b_peer := 0\<rparr>], True))"

text \<open>\<open>outNull\<close> says that the caller passed a null out-pointer.\<close>

definition hub_lookup :: "u32 \<Rightarrow> bool \<Rightarrow> hub_table \<Rightarrow> u32 option" where
  "hub_lookup childSourceId outNull g =
     (if childSourceId = 0 \<or> outNull then None
      else case findSlot childSourceId g of
             None \<Rightarrow> None
           | Some slot \<Rightarrow> Some (b_peer (g ! slot)))"

text \<open>The loop of \<open>enumerate\<close> runs over the remaining slots with what is written so far.\<close>

fun enumerate_loop :: "nat \<Rightarrow> hub_table \<Rightarrow> binding list \<Rightarrow> binding list" where
  "enumerate_loop maxOut [] out = out"
| "enumerate_loop maxOut (b # bs) out =
     (if \<not> length out < maxOut then out
      else enumerate_loop maxOut bs (if b_child b \<noteq> 0 then out @ [b] else out))"

definition hub_enumerate :: "bool \<Rightarrow> nat \<Rightarrow> hub_table \<Rightarrow> binding list" where
  "hub_enumerate outNull maxOut g = (if outNull then [] else enumerate_loop maxOut g [])"

fun hub_count :: "hub_table \<Rightarrow> nat" where
  "hub_count [] = 0"
| "hub_count (b # bs) = (if b_child b \<noteq> 0 then Suc (hub_count bs) else hub_count bs)"

definition hub_clear :: "hub_table \<Rightarrow> hub_table" where
  "hub_clear g = map (\<lambda>b. b\<lparr>b_child := 0, b_peer := 0\<rparr>) g"

section \<open>The table as a bounded map\<close>

abbreviation bound :: "binding \<Rightarrow> bool" where
  "bound b \<equiv> b_child b \<noteq> 0"

definition hub_inv :: "hub_table \<Rightarrow> bool" where
  "hub_inv g \<longleftrightarrow> length g = kMaxBindings \<and> one_per_key bound b_child g \<and>
     (\<forall>b\<in>set g. bound b \<longrightarrow> b_peer b \<noteq> 0)"

definition hub_map :: "hub_table \<Rightarrow> u32 \<Rightarrow> u32 option" where
  "hub_map g k = map_option b_peer (slot_get bound b_child g k)"

lemma hub_init_slots:
  "hub_init = [freeBinding, freeBinding, freeBinding, freeBinding,
               freeBinding, freeBinding, freeBinding, freeBinding]"
  by (simp add: hub_init_def kMaxBindings_def numeral_eq_Suc)

lemma binding_update [simp]:
  "b\<lparr>b_peer := p\<rparr> = \<lparr>b_child = b_child b, b_peer = p\<rparr>"
  "b\<lparr>b_child := c, b_peer := p\<rparr> = \<lparr>b_child = c, b_peer = p\<rparr>"
  by (cases b; simp)+

lemma hub_inv_init: "hub_inv hub_init"
  by (simp add: hub_inv_def hub_init_def freeBinding_def kMaxBindings_def one_per_key_def
      numeral_eq_Suc)

lemma findSlot_bound: "k \<noteq> 0 \<Longrightarrow> findSlot k g = find_slot (\<lambda>b. bound b \<and> b_child b = k) g"
  unfolding findSlot_def by (rule find_slot_cong) auto

lemma hub_map_lookup: "hub_lookup k False g = hub_map g k"
proof (cases "k = 0")
  case True
  then have "slot_get bound b_child g k = None" by (simp add: slot_get_None)
  with True show ?thesis by (simp add: hub_lookup_def hub_map_def)
next
  case False
  then show ?thesis
    by (simp add: hub_lookup_def hub_map_def slot_get_def findSlot_bound split: option.splits)
qed

lemma dom_hub_map: "dom (hub_map g) = dom (slot_get bound b_child g)"
  by (auto simp: hub_map_def)

lemma hub_count_filter: "hub_count g = length (filter bound g)"
  by (induction g) auto

lemma hub_map_size: "hub_inv g \<Longrightarrow> card (dom (hub_map g)) = hub_count g"
  by (simp add: dom_hub_map card_dom_slot_get hub_inv_def hub_count_filter)

lemma findSlot_free: "findSlot 0 g = None \<longleftrightarrow> \<not> hub_count g < length g"
  using find_free_Some_iff [of bound g] unfolding findSlot_def hub_count_filter
  by (cases "find_slot (\<lambda>b. b_child b = 0) g") auto

text \<open>The three shapes of a call to \<open>bind\<close>: rebind in place, fill a free slot, refuse.\<close>

lemma hub_bind_cases:
  assumes "hub_inv g"
  obtains (refused) "hub_bind c p g = (g, False)"
      "c = 0 \<or> p = 0 \<or> (hub_map g c = None \<and> \<not> hub_count g < length g)"
  | (rebind) i where "c \<noteq> 0" "p \<noteq> 0" "i < length g" "b_child (g ! i) = c"
      "hub_bind c p g = (g[i := \<lparr>b_child = c, b_peer = p\<rparr>], True)" "hub_map g c \<noteq> None"
  | (fill) i where "c \<noteq> 0" "p \<noteq> 0" "i < length g" "\<not> bound (g ! i)" "hub_map g c = None"
      "hub_bind c p g = (g[i := \<lparr>b_child = c, b_peer = p\<rparr>], True)" "hub_count g < length g"
proof (cases "c = 0 \<or> p = 0")
  case True
  then show ?thesis by (intro refused) (auto simp: hub_bind_def)
next
  case False
  show ?thesis
  proof (cases "findSlot c g")
    case (Some i)
    then have i: "i < length g" "b_child (g ! i) = c"
      by (auto simp: findSlot_def dest: find_slot_SomeD)
    moreover have "hub_map g c \<noteq> None"
      using Some False by (simp add: hub_map_def slot_get_def findSlot_bound)
    ultimately show ?thesis using Some False
      by (intro rebind [of i]) (auto simp: hub_bind_def)
  next
    case None
    then have miss: "hub_map g c = None"
      using False by (simp add: hub_map_def slot_get_def findSlot_bound)
    show ?thesis
    proof (cases "findSlot 0 g")
      case (Some i)
      then have "i < length g" "\<not> bound (g ! i)"
        by (auto simp: findSlot_def dest: find_slot_SomeD)
      with Some None False miss findSlot_free [of g] show ?thesis
        by (intro fill [of i]) (auto simp: hub_bind_def)
    next
      case free: None
      with None False miss findSlot_free [of g] show ?thesis
        by (intro refused) (auto simp: hub_bind_def)
    qed
  qed
qed

lemma hub_write_slot:
  assumes g: "hub_inv g" and i: "i < length g" and cp: "c \<noteq> 0" "p \<noteq> 0"
    and slot: "b_child (g ! i) = c \<or> (\<not> bound (g ! i) \<and> hub_map g c = None)"
  defines "g' \<equiv> g[i := \<lparr>b_child = c, b_peer = p\<rparr>]"
  shows "hub_inv g'" and "hub_map g' = (hub_map g)(c \<mapsto> p)"
proof -
  have inj: "one_per_key bound b_child g" using g by (simp add: hub_inv_def)
  have other: "b_child (g ! j) \<noteq> c" if "j < length g" "j \<noteq> i" for j
  proof
    assume c: "b_child (g ! j) = c"
    with that cp have "hub_map g c \<noteq> None"
      by (auto simp: hub_map_def slot_get_None)
    with slot have "b_child (g ! i) = c" by simp
    with c that i cp inj show False by (auto dest: one_per_keyD)
  qed
  have inj': "one_per_key bound b_child g'"
    unfolding g'_def by (rule one_per_key_update [OF inj]) (use other in auto)
  have "\<forall>b\<in>set g'. bound b \<longrightarrow> b_peer b \<noteq> 0"
    using g cp by (auto simp: g'_def hub_inv_def dest!: set_update_subset_insert [THEN subsetD])
  with g inj' show "hub_inv g'" by (simp add: hub_inv_def g'_def)
  show "hub_map g' = (hub_map g)(c \<mapsto> p)"
  proof
    fix k
    show "hub_map g' k = ((hub_map g)(c \<mapsto> p)) k"
    proof (cases "k = c")
      case True
      have "slot_get bound b_child g' c = Some \<lparr>b_child = c, b_peer = p\<rparr>"
        using inj' i cp unfolding g'_def by (intro slot_get_update_same) auto
      with True show ?thesis by (simp add: hub_map_def)
    next
      case False
      have "slot_get bound b_child g' k = slot_get bound b_child g k"
        unfolding g'_def by (rule slot_get_update_other [OF inj i]) (use False slot in auto)
      with False show ?thesis by (simp add: hub_map_def)
    qed
  qed
qed

lemma hub_unbind_facts:
  assumes g: "hub_inv g"
  shows "hub_inv (fst (hub_unbind c g))"
    and "hub_map (fst (hub_unbind c g)) = (hub_map g)(c := None)"
    and "snd (hub_unbind c g) \<longleftrightarrow> c \<in> dom (hub_map g)"
proof -
  have inj: "one_per_key bound b_child g" using g by (simp add: hub_inv_def)
  have "hub_inv (fst (hub_unbind c g)) \<and>
      hub_map (fst (hub_unbind c g)) = (hub_map g)(c := None) \<and>
      (snd (hub_unbind c g) \<longleftrightarrow> c \<in> dom (hub_map g))"
  proof (cases "c = 0 \<or> findSlot c g = None")
    case True
    then have "hub_map g c = None"
    proof (cases "c = 0")
      case True
      then have "slot_get bound b_child g c = None" by (simp add: slot_get_None)
      then show ?thesis by (simp add: hub_map_def)
    next
      case False
      with \<open>c = 0 \<or> findSlot c g = None\<close> show ?thesis
        by (simp add: hub_map_def slot_get_def findSlot_bound)
    qed
    with True g show ?thesis by (auto simp: hub_unbind_def domIff fun_upd_idem_iff)
  next
    case False
    then obtain i where c: "c \<noteq> 0" and f: "findSlot c g = Some i" by auto
    then have i: "i < length g" "b_child (g ! i) = c"
      by (auto simp: findSlot_def dest: find_slot_SomeD)
    let ?g = "g[i := freeBinding]"
    have eq: "hub_unbind c g = (?g, True)"
      using c f by (simp add: hub_unbind_def freeBinding_def)
    have free: "\<not> bound freeBinding" by (simp add: freeBinding_def)
    have "one_per_key bound b_child ?g"
      by (rule one_per_key_update [OF inj]) (simp add: free)
    then have inv: "hub_inv ?g"
      using g free by (auto simp: hub_inv_def dest!: set_update_subset_insert [THEN subsetD])
    have "slot_get bound b_child ?g k = (if k = c then None else slot_get bound b_child g k)" for k
      using slot_get_clear [OF inj i(1) _ i(2) free] slot_get_update_other [OF inj i(1), of k freeBinding]
        i c free by auto
    then have "hub_map ?g = (hub_map g)(c := None)"
      by (auto simp: hub_map_def fun_eq_iff)
    moreover have "hub_map g c \<noteq> None"
      using i c by (auto simp: hub_map_def slot_get_None)
    ultimately show ?thesis using eq inv by auto
  qed
  then show "hub_inv (fst (hub_unbind c g))"
    and "hub_map (fst (hub_unbind c g)) = (hub_map g)(c := None)"
    and "snd (hub_unbind c g) \<longleftrightarrow> c \<in> dom (hub_map g)" by auto
qed

interpretation hub: bounded_map_del
  hub_inv hub_map "\<lambda>c p. c \<noteq> 0 \<and> p \<noteq> 0" hub_bind kMaxBindings hub_unbind
proof unfold_locales
  fix s k v assume s: "hub_inv s"
  have len: "length s = kMaxBindings" using s by (simp add: hub_inv_def)
  show "finite (dom (hub_map s))" by (simp add: dom_hub_map dom_slot_get)
  show "card (dom (hub_map s)) \<le> kMaxBindings"
    using hub_map_size [OF s] len length_filter_le [of bound s] by (simp add: hub_count_filter)
  show "hub_inv (fst (hub_bind k v s))"
    by (cases rule: hub_bind_cases [OF s, of k v]) (use s in \<open>auto intro: hub_write_slot\<close>)
  show "snd (hub_bind k v s) \<longleftrightarrow> (k \<noteq> 0 \<and> v \<noteq> 0) \<and>
      (k \<in> dom (hub_map s) \<or> card (dom (hub_map s)) < kMaxBindings)"
    by (cases rule: hub_bind_cases [OF s, of k v]) (use s in \<open>auto simp: hub_map_size len\<close>)
  show "hub_map (fst (hub_bind k v s)) = (hub_map s)(k \<mapsto> v)" if "snd (hub_bind k v s)"
    by (cases rule: hub_bind_cases [OF s, of k v]) (use s that in \<open>auto simp: hub_write_slot\<close>)
  show "fst (hub_bind k v s) = s" if "\<not> snd (hub_bind k v s)"
    by (cases rule: hub_bind_cases [OF s, of k v]) (use that in auto)
  show "hub_inv (fst (hub_unbind k s))" by (rule hub_unbind_facts [OF s])
  show "hub_map (fst (hub_unbind k s)) = (hub_map s)(k := None)" by (rule hub_unbind_facts [OF s])
  show "snd (hub_unbind k s) \<longleftrightarrow> k \<in> dom (hub_map s)" by (rule hub_unbind_facts [OF s])
qed

lemma hub_clear_facts:
  assumes "hub_inv g"
  shows "hub_inv (hub_clear g)" and "hub_map (hub_clear g) = Map.empty"
proof -
  have free: "\<forall>b\<in>set (hub_clear g). \<not> bound b" by (auto simp: hub_clear_def)
  then have "filter bound (hub_clear g) = []" by (simp add: filter_empty_conv)
  with assms free show "hub_inv (hub_clear g)"
    by (auto simp: hub_inv_def one_per_key_def hub_clear_def)
  have "slot_get bound b_child (hub_clear g) k = None" for k
    using free by (simp add: slot_get_None all_set_conv_all_nth)
  then show "hub_map (hub_clear g) = Map.empty"
    by (simp add: hub_map_def fun_eq_iff)
qed

section \<open>The abstract table and its refinement\<close>

text \<open>The operator's commands, and what they mean on a finite map of at most eight entries.\<close>

datatype hub_cmd = HubBind u32 u32 | HubUnbind u32 | HubClear

fun hub_exec :: "hub_cmd \<Rightarrow> hub_table \<Rightarrow> hub_table" where
  "hub_exec (HubBind c p) g = fst (hub_bind c p g)"
| "hub_exec (HubUnbind c) g = fst (hub_unbind c g)"
| "hub_exec HubClear g = hub_clear g"

fun hub_spec :: "hub_cmd \<Rightarrow> (u32 \<rightharpoonup> u32) \<Rightarrow> (u32 \<rightharpoonup> u32)" where
  "hub_spec (HubBind c p) m =
     (if c \<noteq> 0 \<and> p \<noteq> 0 \<and> (m c \<noteq> None \<or> card (dom m) < kMaxBindings) then m(c \<mapsto> p) else m)"
| "hub_spec (HubUnbind c) m = m(c := None)"
| "hub_spec HubClear m = Map.empty"

lemma hub_exec_spec:
  assumes g: "hub_inv g"
  shows "hub_inv (hub_exec cmd g) \<and> hub_map (hub_exec cmd g) = hub_spec cmd (hub_map g)"
proof (cases cmd)
  case (HubBind c p)
  show ?thesis
  proof (cases "snd (hub_bind c p g)")
    case True
    with HubBind hub.put_inv [OF g] hub.put_look [OF g] hub.put_ok [OF g, of c p] show ?thesis
      by (auto simp: domIff)
  next
    case False
    with HubBind hub.put_refused [OF g False] hub.put_ok [OF g, of c p] g show ?thesis
      by (auto simp: domIff)
  qed
next
  case (HubUnbind c)
  with g show ?thesis by (simp add: hub.del_inv hub.del_look)
next
  case HubClear
  with g show ?thesis by (simp add: hub_clear_facts)
qed

lemma hub_fold_spec:
  "hub_inv g \<Longrightarrow> hub_inv (fold hub_exec cmds g) \<and>
     hub_map (fold hub_exec cmds g) = fold hub_spec cmds (hub_map g)"
  by (induction cmds arbitrary: g) (auto simp: hub_exec_spec)

lemma hub_map_init: "hub_map hub_init = Map.empty"
proof -
  have "hub_map hub_init k = None" for k
    by (simp add: hub_map_def slot_get_None hub_init_def freeBinding_def)
  then show ?thesis by (simp add: fun_eq_iff)
qed

section \<open>Properties\<close>

text \<open>C1. The binding table is the operator's declared map: after any sequence of \<open>bind\<close>,
  \<open>unbind\<close> and \<open>clear\<close> commands from boot, \<open>lookup\<close> answers for every child exactly what the
  abstract map of at most eight entries holds (a new child is refused only when a zero id is
  given or eight other children are bound, and a refused command changes nothing).\<close>

theorem hub_lookup_refines_map:
  "hub_lookup k False (fold hub_exec cmds hub_init) = fold hub_spec cmds Map.empty k"
  using hub_fold_spec [OF hub_inv_init, of cmds] by (simp add: hub_map_lookup hub_map_init)

text \<open>Pointing an already bound child at another robot always succeeds, replaces only that
  child's robot, and never consumes a second slot, even when the table is full.\<close>

theorem hub_rebind_in_place:
  assumes "hub_inv g" and "hub_lookup c False g = Some p" and "q \<noteq> 0"
  shows "snd (hub_bind c q g) \<and> hub_count (fst (hub_bind c q g)) = hub_count g \<and>
    (\<forall>k. hub_lookup k False (fst (hub_bind c q g)) =
         (if k = c then Some q else hub_lookup k False g))"
proof -
  have c: "c \<in> dom (hub_map g)" "c \<noteq> 0"
    using assms(2) by (auto simp: hub_map_lookup [symmetric] hub_lookup_def split: if_splits)
  then have ok: "snd (hub_bind c q g)"
    using hub.put_ok [OF assms(1), of c q] assms(3) by simp
  have "hub_count (fst (hub_bind c q g)) = hub_count g"
    using hub.put_again_size [OF assms(1) c(1), of q] hub.put_inv [OF assms(1)]
    by (simp add: hub_map_size assms(1))
  with ok show ?thesis
    using hub.put_look [OF assms(1) ok] by (simp add: hub_map_lookup)
qed

theorem hub_rebind_in_place_witness:
  "snd (hub_bind 7 9 (fst (hub_bind 7 5 hub_init))) \<and>
   hub_lookup 7 False (fst (hub_bind 7 9 (fst (hub_bind 7 5 hub_init)))) = Some 9"
proof -
  have "hub_inv (fst (hub_bind 7 5 hub_init))" by (rule hub.put_inv [OF hub_inv_init])
  moreover have "hub_lookup 7 False (fst (hub_bind 7 5 hub_init)) = Some 5"
    by (simp add: hub_lookup_def hub_bind_def findSlot_def hub_init_slots freeBinding_def)
  ultimately show ?thesis using hub_rebind_in_place [of _ 7 5 9] by simp
qed

end
