(* ===== verification/Subscription_Registry.thy ===== *)
theory Subscription_Registry
  imports Table_Interfaces
begin

text \<open>
  \<open>lib/SubscriptionRegistry\<close>: one row per (source, topic) that a desktop client ever asked
  for, each with its table of client subscriptions and the state of the single aggregated
  subscription the dongle holds at the robot. The static \<open>g_rows\<close> and
  \<open>g_nextSubscriptionId\<close> are the fields of \<open>sub_registry\<close>; a default-constructed struct
  (\<open>ClientSub{}\<close>, \<open>TopicRow{}\<close>) is \<open>freeClient\<close>, \<open>freeRow\<close>.
\<close>

section \<open>State\<close>

definition kMaxTopics :: nat where "kMaxTopics = 8"
definition kMaxClientsPerTopic :: nat where "kMaxClientsPerTopic = 4"
definition kMinLeaseMs :: u32 where "kMinLeaseMs = 1000"
definition kMaxLeaseMs :: u32 where "kMaxLeaseMs = 300000"
definition kUpstreamRenewDivisor :: u32 where "kUpstreamRenewDivisor = 2"

record client_sub =
  cs_used :: bool
  cs_clientId :: u32
  cs_subscriptionId :: u32
  cs_requestedRateMillihz :: u32
  cs_requestedLeaseMs :: u32
  cs_leaseDeadlineMs :: u32

record topic_row =
  tr_used :: bool
  tr_sourceId :: u32
  tr_topicId :: u32
  tr_clients :: "client_sub list"
  tr_upstreamActive :: bool
  tr_pendingRequestSequence :: u32
  tr_upstreamRequestedRateMillihz :: u32
  tr_upstreamLeaseMs :: u32
  tr_upstreamRenewAtMs :: u32
  tr_upstreamSubscriptionId :: u32
  tr_effectiveRateMillihz :: u32
  tr_bytesTotal :: u64
  tr_samplesDroppedTotal :: u64

record sub_registry =
  sr_rows :: "topic_row list"
  sr_nextSubscriptionId :: u32

datatype upstream_kind = UpNone | UpSubscribe | UpUnsubscribe

record upstream_action =
  ua_kind :: upstream_kind
  ua_sourceId :: u32
  ua_topicId :: u32
  ua_rateMillihz :: u32
  ua_leaseMs :: u32
  ua_upstreamSubscriptionId :: u32

definition noAction :: upstream_action where
  "noAction = \<lparr>ua_kind = UpNone, ua_sourceId = 0, ua_topicId = 0, ua_rateMillihz = 0,
     ua_leaseMs = 0, ua_upstreamSubscriptionId = 0\<rparr>"

record subscribe_outcome =
  so_accepted :: bool
  so_subscriptionId :: u32
  so_upstream :: upstream_action

record unsubscribe_outcome =
  uo_found :: bool
  uo_upstream :: upstream_action

definition freeClient :: client_sub where
  "freeClient = \<lparr>cs_used = False, cs_clientId = 0, cs_subscriptionId = 0,
     cs_requestedRateMillihz = 0, cs_requestedLeaseMs = 0, cs_leaseDeadlineMs = 0\<rparr>"

definition freeRow :: topic_row where
  "freeRow = \<lparr>tr_used = False, tr_sourceId = 0, tr_topicId = 0,
     tr_clients = replicate kMaxClientsPerTopic freeClient, tr_upstreamActive = False,
     tr_pendingRequestSequence = 0, tr_upstreamRequestedRateMillihz = 0, tr_upstreamLeaseMs = 0,
     tr_upstreamRenewAtMs = 0, tr_upstreamSubscriptionId = 0, tr_effectiveRateMillihz = 0,
     tr_bytesTotal = 0, tr_samplesDroppedTotal = 0\<rparr>"

definition resetForTests :: sub_registry where
  "resetForTests = \<lparr>sr_rows = replicate kMaxTopics freeRow, sr_nextSubscriptionId = 1\<rparr>"

section \<open>Helpers of the anonymous namespace\<close>

definition nextSubscriptionId :: "sub_registry \<Rightarrow> u32 \<times> sub_registry" where
  "nextSubscriptionId s =
     (let id = sr_nextSubscriptionId s;
          bumped = id + 1
      in (id, s\<lparr>sr_nextSubscriptionId := (if bumped = 0 then 1 else bumped)\<rparr>))"

definition findRow :: "u32 \<Rightarrow> u32 \<Rightarrow> topic_row list \<Rightarrow> nat option" where
  "findRow sourceId topicId rs =
     find_slot (\<lambda>r. tr_used r \<and> tr_sourceId r = sourceId \<and> tr_topicId r = topicId) rs"

definition findOrCreateRow :: "u32 \<Rightarrow> u32 \<Rightarrow> topic_row list \<Rightarrow> topic_row list \<times> nat option" where
  "findOrCreateRow sourceId topicId rs =
     (case findRow sourceId topicId rs of
        Some existing \<Rightarrow> (rs, Some existing)
      | None \<Rightarrow>
          (case find_slot (\<lambda>r. \<not> tr_used r) rs of
             Some i \<Rightarrow>
               (rs[i := freeRow\<lparr>tr_used := True, tr_sourceId := sourceId, tr_topicId := topicId\<rparr>], Some i)
           | None \<Rightarrow> (rs, None)))"

fun refcount_of :: "client_sub list \<Rightarrow> nat" where
  "refcount_of [] = 0"
| "refcount_of (c # cs) = (if cs_used c then Suc (refcount_of cs) else refcount_of cs)"

definition refcount :: "topic_row \<Rightarrow> nat" where
  "refcount row = refcount_of (tr_clients row)"

fun unionRate_loop :: "client_sub list \<Rightarrow> u32 \<Rightarrow> u32" where
  "unionRate_loop [] maxRate = maxRate"
| "unionRate_loop (c # cs) maxRate =
     unionRate_loop cs (if cs_used c \<and> cs_requestedRateMillihz c > maxRate
                        then cs_requestedRateMillihz c else maxRate)"

definition unionRateMillihz :: "topic_row \<Rightarrow> u32" where
  "unionRateMillihz row = unionRate_loop (tr_clients row) 0"

fun unionLease_loop :: "client_sub list \<Rightarrow> u32 \<Rightarrow> u32" where
  "unionLease_loop [] maxLease = maxLease"
| "unionLease_loop (c # cs) maxLease =
     unionLease_loop cs (if cs_used c \<and> cs_requestedLeaseMs c > maxLease
                         then cs_requestedLeaseMs c else maxLease)"

definition unionLeaseMs :: "topic_row \<Rightarrow> u32" where
  "unionLeaseMs row = unionLease_loop (tr_clients row) 0"

definition clampLease :: "u32 \<Rightarrow> u32" where
  "clampLease requestedLeaseMs =
     (if requestedLeaseMs < kMinLeaseMs then kMinLeaseMs
      else if requestedLeaseMs > kMaxLeaseMs then kMaxLeaseMs
      else requestedLeaseMs)"

text \<open>The single decision point: what the robot must now be told about this topic.\<close>

definition evaluateUpstream :: "topic_row \<Rightarrow> u32 \<Rightarrow> upstream_action \<times> topic_row" where
  "evaluateUpstream row nowMs =
     (let action = noAction\<lparr>ua_sourceId := tr_sourceId row, ua_topicId := tr_topicId row\<rparr> in
      if refcount row = 0 then
        (if \<not> tr_upstreamActive row then (action, row)
         else (action\<lparr>ua_kind := UpUnsubscribe,
                      ua_upstreamSubscriptionId := tr_upstreamSubscriptionId row\<rparr>,
               row\<lparr>tr_upstreamActive := False, tr_upstreamRequestedRateMillihz := 0,
                   tr_upstreamLeaseMs := 0, tr_upstreamRenewAtMs := 0,
                   tr_effectiveRateMillihz := 0, tr_upstreamSubscriptionId := 0\<rparr>))
      else
        (let rate = unionRateMillihz row;
             lease = unionLeaseMs row;
             changed = (\<not> tr_upstreamActive row \<or> rate \<noteq> tr_upstreamRequestedRateMillihz row \<or>
                        lease \<noteq> tr_upstreamLeaseMs row);
             dueForRenewal = (tr_upstreamActive row \<and> nowMs - tr_upstreamRenewAtMs row < 0x80000000)
         in if \<not> changed \<and> \<not> dueForRenewal then (action, row)
            else (action\<lparr>ua_kind := UpSubscribe, ua_rateMillihz := rate, ua_leaseMs := lease\<rparr>,
                  row\<lparr>tr_upstreamActive := True, tr_upstreamRequestedRateMillihz := rate,
                      tr_upstreamLeaseMs := lease,
                      tr_upstreamRenewAtMs := nowMs + lease div kUpstreamRenewDivisor\<rparr>)))"

section \<open>Desktop-facing operations\<close>

definition refused :: subscribe_outcome where
  "refused = \<lparr>so_accepted = False, so_subscriptionId = 0, so_upstream = noAction\<rparr>"

text \<open>The slot a new or replaced subscription of this client goes to.\<close>

definition clientSlot :: "u32 \<Rightarrow> client_sub list \<Rightarrow> nat option" where
  "clientSlot clientId cs =
     (case find_slot (\<lambda>c. cs_used c \<and> cs_clientId c = clientId) cs of
        Some slot \<Rightarrow> Some slot
      | None \<Rightarrow> find_slot (\<lambda>c. \<not> cs_used c) cs)"

definition onDesktopSubscribe ::
  "u32 \<Rightarrow> u32 \<Rightarrow> u32 \<Rightarrow> u32 \<Rightarrow> u32 \<Rightarrow> u32 \<Rightarrow> sub_registry \<Rightarrow> subscribe_outcome \<times> sub_registry" where
  "onDesktopSubscribe clientId sourceId topicId requestedRateMillihz requestedLeaseMs nowMs s =
     (case findOrCreateRow sourceId topicId (sr_rows s) of
        (rs, None) \<Rightarrow> (refused, s\<lparr>sr_rows := rs\<rparr>)
      | (rs, Some r) \<Rightarrow>
          (let row = rs ! r;
               clampedLeaseMs = clampLease requestedLeaseMs;
               leaseDeadlineMs = nowMs + clampedLeaseMs
           in case find_slot (\<lambda>c. cs_used c \<and> cs_clientId c = clientId \<and>
                         cs_requestedRateMillihz c = requestedRateMillihz \<and>
                         cs_requestedLeaseMs c = clampedLeaseMs) (tr_clients row) of
                Some i \<Rightarrow>
                  (let client = (tr_clients row ! i)\<lparr>cs_leaseDeadlineMs := leaseDeadlineMs\<rparr>;
                       (action, row') = evaluateUpstream
                          (row\<lparr>tr_clients := (tr_clients row)[i := client]\<rparr>) nowMs
                   in (\<lparr>so_accepted = True, so_subscriptionId = cs_subscriptionId client,
                        so_upstream = action\<rparr>,
                       s\<lparr>sr_rows := rs[r := row']\<rparr>))
              | None \<Rightarrow>
                  (case clientSlot clientId (tr_clients row) of
                     None \<Rightarrow> (refused, s\<lparr>sr_rows := rs\<rparr>)
                   | Some slot \<Rightarrow>
                       (let (subId, s1) = nextSubscriptionId s;
                            client = \<lparr>cs_used = True, cs_clientId = clientId,
                                      cs_subscriptionId = subId,
                                      cs_requestedRateMillihz = requestedRateMillihz,
                                      cs_requestedLeaseMs = clampedLeaseMs,
                                      cs_leaseDeadlineMs = leaseDeadlineMs\<rparr>;
                            (action, row') = evaluateUpstream
                               (row\<lparr>tr_clients := (tr_clients row)[slot := client]\<rparr>) nowMs
                        in (\<lparr>so_accepted = True, so_subscriptionId = subId, so_upstream = action\<rparr>,
                            s1\<lparr>sr_rows := rs[r := row']\<rparr>)))))"

text \<open>The nested scan of \<open>onDesktopUnsubscribe\<close>: the first used row with a matching client.\<close>

definition matches_sub :: "u32 \<Rightarrow> u32 \<Rightarrow> client_sub \<Rightarrow> bool" where
  "matches_sub clientId subscriptionId c \<longleftrightarrow>
     cs_used c \<and> cs_clientId c = clientId \<and> cs_subscriptionId c = subscriptionId"

fun unsubscribe_loop ::
  "u32 \<Rightarrow> u32 \<Rightarrow> u32 \<Rightarrow> topic_row list \<Rightarrow> unsubscribe_outcome \<times> topic_row list" where
  "unsubscribe_loop clientId subscriptionId nowMs [] = (\<lparr>uo_found = False, uo_upstream = noAction\<rparr>, [])"
| "unsubscribe_loop clientId subscriptionId nowMs (row # rs) =
     (case (if tr_used row then find_slot (matches_sub clientId subscriptionId) (tr_clients row) else None) of
        Some i \<Rightarrow>
          (let (action, row') = evaluateUpstream
                 (row\<lparr>tr_clients := (tr_clients row)[i := freeClient]\<rparr>) nowMs
           in (\<lparr>uo_found = True, uo_upstream = action\<rparr>, row' # rs))
      | None \<Rightarrow>
          (let (outcome, rs') = unsubscribe_loop clientId subscriptionId nowMs rs
           in (outcome, row # rs')))"

definition onDesktopUnsubscribe ::
  "u32 \<Rightarrow> u32 \<Rightarrow> u32 \<Rightarrow> sub_registry \<Rightarrow> unsubscribe_outcome \<times> sub_registry" where
  "onDesktopUnsubscribe clientId subscriptionId nowMs s =
     (let (outcome, rs) = unsubscribe_loop clientId subscriptionId nowMs (sr_rows s)
      in (outcome, s\<lparr>sr_rows := rs\<rparr>))"

text \<open>
  The output buffer of \<open>onClientDisconnected\<close> and \<open>sweep\<close>: \<open>None\<close> is the null pointer,
  \<open>written\<close> the counter both loops keep.
\<close>

definition put_action ::
  "nat \<Rightarrow> upstream_action \<Rightarrow> nat \<times> upstream_action list option \<Rightarrow> nat \<times> upstream_action list option" where
  "put_action maxOut action st =
     (case st of (written, out) \<Rightarrow>
        if ua_kind action = UpNone then (written, out)
        else ((if written < maxOut then written + 1 else written),
              (if written < maxOut then map_option (\<lambda>buf. buf[written := action]) out else out)))"

definition drop_client :: "u32 \<Rightarrow> client_sub \<Rightarrow> client_sub" where
  "drop_client clientId c = (if cs_used c \<and> cs_clientId c = clientId then freeClient else c)"

definition disconnect_row :: "u32 \<Rightarrow> u32 \<Rightarrow> topic_row \<Rightarrow> upstream_action \<times> topic_row" where
  "disconnect_row clientId nowMs row =
     (if \<not> tr_used row then (noAction, row)
      else if \<not> list_ex (\<lambda>c. cs_used c \<and> cs_clientId c = clientId) (tr_clients row) then (noAction, row)
      else evaluateUpstream (row\<lparr>tr_clients := map (drop_client clientId) (tr_clients row)\<rparr>) nowMs)"

definition expire_client :: "u32 \<Rightarrow> client_sub \<Rightarrow> client_sub" where
  "expire_client nowMs c =
     (if cs_used c \<and> nowMs - cs_leaseDeadlineMs c < 0x80000000 then freeClient else c)"

definition sweep_row :: "u32 \<Rightarrow> topic_row \<Rightarrow> upstream_action \<times> topic_row" where
  "sweep_row nowMs row =
     (if \<not> tr_used row then (noAction, row)
      else evaluateUpstream (row\<lparr>tr_clients := map (expire_client nowMs) (tr_clients row)\<rparr>) nowMs)"

fun rows_loop ::
  "(topic_row \<Rightarrow> upstream_action \<times> topic_row) \<Rightarrow> nat \<Rightarrow> topic_row list \<Rightarrow>
     nat \<times> upstream_action list option \<Rightarrow> topic_row list \<times> nat \<times> upstream_action list option" where
  "rows_loop body maxOut [] st = ([], st)"
| "rows_loop body maxOut (row # rs) st =
     (let (action, row') = body row;
          (rs', st') = rows_loop body maxOut rs (put_action maxOut action st)
      in (row' # rs', st'))"

definition onClientDisconnected ::
  "u32 \<Rightarrow> u32 \<Rightarrow> upstream_action list option \<Rightarrow> nat \<Rightarrow> sub_registry \<Rightarrow>
     (nat \<times> upstream_action list option) \<times> sub_registry" where
  "onClientDisconnected clientId nowMs out maxOut s =
     (let (rs, st) = rows_loop (disconnect_row clientId nowMs) maxOut (sr_rows s) (0, out)
      in (st, s\<lparr>sr_rows := rs\<rparr>))"

definition sweep ::
  "u32 \<Rightarrow> upstream_action list option \<Rightarrow> nat \<Rightarrow> sub_registry \<Rightarrow>
     (nat \<times> upstream_action list option) \<times> sub_registry" where
  "sweep nowMs out maxOut s =
     (let (rs, st) = rows_loop (sweep_row nowMs) maxOut (sr_rows s) (0, out)
      in (st, s\<lparr>sr_rows := rs\<rparr>))"

section \<open>Robot-facing operations, counters and queries\<close>

definition update_row :: "u32 \<Rightarrow> u32 \<Rightarrow> (topic_row \<Rightarrow> topic_row) \<Rightarrow> sub_registry \<Rightarrow> sub_registry" where
  "update_row sourceId topicId f s =
     (case findRow sourceId topicId (sr_rows s) of
        None \<Rightarrow> s
      | Some r \<Rightarrow> s\<lparr>sr_rows := (sr_rows s)[r := f (sr_rows s ! r)]\<rparr>)"

definition noteUpstreamRequestSent :: "u32 \<Rightarrow> u32 \<Rightarrow> u32 \<Rightarrow> sub_registry \<Rightarrow> sub_registry" where
  "noteUpstreamRequestSent sourceId topicId sequence s =
     update_row sourceId topicId (\<lambda>r. r\<lparr>tr_pendingRequestSequence := sequence\<rparr>) s"

definition onUpstreamSubscribeResult :: "u32 \<Rightarrow> u8 \<Rightarrow> u32 \<Rightarrow> u32 \<Rightarrow> sub_registry \<Rightarrow> bool \<times> sub_registry" where
  "onUpstreamSubscribeResult replyToSequence status upstreamSubscriptionId effectiveRateMillihz s =
     (case find_slot (\<lambda>r. tr_used r \<and> tr_pendingRequestSequence r \<noteq> 0 \<and>
                          tr_pendingRequestSequence r = replyToSequence) (sr_rows s) of
        None \<Rightarrow> (False, s)
      | Some r \<Rightarrow>
          (let row = (sr_rows s ! r)\<lparr>tr_pendingRequestSequence := 0\<rparr>;
               row' = (if status = 0
                       then row\<lparr>tr_effectiveRateMillihz := effectiveRateMillihz,
                                tr_upstreamSubscriptionId := upstreamSubscriptionId\<rparr>
                       else row)
           in (True, s\<lparr>sr_rows := (sr_rows s)[r := row']\<rparr>)))"

definition upstreamSubscriptionId_of :: "u32 \<Rightarrow> u32 \<Rightarrow> sub_registry \<Rightarrow> u32" where
  "upstreamSubscriptionId_of sourceId topicId s =
     (case findRow sourceId topicId (sr_rows s) of
        None \<Rightarrow> 0
      | Some r \<Rightarrow> tr_upstreamSubscriptionId (sr_rows s ! r))"

definition recordForwarded :: "u32 \<Rightarrow> u32 \<Rightarrow> nat \<Rightarrow> sub_registry \<Rightarrow> sub_registry" where
  "recordForwarded sourceId topicId payloadBytes s =
     update_row sourceId topicId (\<lambda>r. r\<lparr>tr_bytesTotal := tr_bytesTotal r + of_nat payloadBytes\<rparr>) s"

definition recordDropped :: "u32 \<Rightarrow> u32 \<Rightarrow> sub_registry \<Rightarrow> sub_registry" where
  "recordDropped sourceId topicId s =
     update_row sourceId topicId (\<lambda>r. r\<lparr>tr_samplesDroppedTotal := tr_samplesDroppedTotal r + 1\<rparr>) s"

definition isWanted :: "u32 \<Rightarrow> u32 \<Rightarrow> sub_registry \<Rightarrow> bool" where
  "isWanted sourceId topicId s =
     (case findRow sourceId topicId (sr_rows s) of
        None \<Rightarrow> False
      | Some r \<Rightarrow> refcount (sr_rows s ! r) > 0)"

definition isKnownUnwanted :: "u32 \<Rightarrow> u32 \<Rightarrow> sub_registry \<Rightarrow> bool" where
  "isKnownUnwanted sourceId topicId s =
     (case findRow sourceId topicId (sr_rows s) of
        None \<Rightarrow> False
      | Some r \<Rightarrow> refcount (sr_rows s ! r) = 0)"

record topic_status_entry =
  ts_sourceId :: u32
  ts_topicId :: u16
  ts_subscriberCount :: u16
  ts_effectiveRateMillihz :: u32
  ts_bytesTotal :: u64
  ts_samplesDroppedTotal :: u64

fun snapshot_loop :: "nat \<Rightarrow> topic_row list \<Rightarrow> topic_status_entry list \<Rightarrow> topic_status_entry list" where
  "snapshot_loop maxOut [] out = out"
| "snapshot_loop maxOut (row # rs) out =
     (if \<not> length out < maxOut then out
      else if \<not> tr_used row then snapshot_loop maxOut rs out
      else snapshot_loop maxOut rs
        (out @ [\<lparr>ts_sourceId = tr_sourceId row, ts_topicId = ucast (tr_topicId row),
                 ts_subscriberCount = of_nat (refcount row),
                 ts_effectiveRateMillihz = tr_effectiveRateMillihz row,
                 ts_bytesTotal = tr_bytesTotal row,
                 ts_samplesDroppedTotal = tr_samplesDroppedTotal row\<rparr>]))"

definition topicStatusSnapshot :: "bool \<Rightarrow> nat \<Rightarrow> sub_registry \<Rightarrow> topic_status_entry list" where
  "topicStatusSnapshot outNull maxOut s = (if outNull then [] else snapshot_loop maxOut (sr_rows s) [])"

end
