(* ===== verification/Subscription_Proofs.thy ===== *)
theory Subscription_Proofs
  imports Subscription_Registry
begin

text \<open>
  Correctness of \<open>lib/SubscriptionRegistry\<close>: the registry invariant, the live subscriptions as
  an abstract map, and the agreement between what the robot was last asked and the union of
  the live requests.
\<close>

section \<open>Union of the live requests\<close>

definition live_rates :: "topic_row \<Rightarrow> u32 set" where
  "live_rates r = cs_requestedRateMillihz ` {c \<in> set (tr_clients r). cs_used c}"

definition live_leases :: "topic_row \<Rightarrow> u32 set" where
  "live_leases r = cs_requestedLeaseMs ` {c \<in> set (tr_clients r). cs_used c}"

lemma used_Cons:
  "f ` {x \<in> set (c # cs). cs_used x} =
     (if cs_used c then insert (f c) (f ` {x \<in> set cs. cs_used x}) else f ` {x \<in> set cs. cs_used x})"
  by auto

lemma unionRate_loop_Max:
  "unionRate_loop cs m = Max (insert m (cs_requestedRateMillihz ` {c \<in> set cs. cs_used c}))"
proof (induction cs arbitrary: m)
  case (Cons c cs)
  show ?case
    unfolding unionRate_loop.simps Cons.IH used_Cons
    by (cases "cs_used c") (simp_all add: Max_insert_step)
qed simp

lemma unionLease_loop_Max:
  "unionLease_loop cs m = Max (insert m (cs_requestedLeaseMs ` {c \<in> set cs. cs_used c}))"
proof (induction cs arbitrary: m)
  case (Cons c cs)
  show ?case
    unfolding unionLease_loop.simps Cons.IH used_Cons
    by (cases "cs_used c") (simp_all add: Max_insert_step)
qed simp

lemma unionRate_Max: "unionRateMillihz r = Max (insert 0 (live_rates r))"
  by (simp add: unionRateMillihz_def unionRate_loop_Max live_rates_def)

lemma unionLease_Max: "unionLeaseMs r = Max (insert 0 (live_leases r))"
  by (simp add: unionLeaseMs_def unionLease_loop_Max live_leases_def)

lemma refcount_filter: "refcount r = length (filter cs_used (tr_clients r))"
proof -
  have "refcount_of cs = length (filter cs_used cs)" for cs by (induction cs) auto
  then show ?thesis by (simp add: refcount_def)
qed

lemma refcount_pos: "refcount r > 0 \<longleftrightarrow> (\<exists>c\<in>set (tr_clients r). cs_used c)"
  by (auto simp: refcount_filter filter_empty_conv)

lemmas union_defs = refcount_def unionRateMillihz_def unionLeaseMs_def

section \<open>Rows\<close>

abbreviation row_key :: "topic_row \<Rightarrow> u32 \<times> u32" where
  "row_key r \<equiv> (tr_sourceId r, tr_topicId r)"

text \<open>What the dongle believes the robot was asked for this row, and the agreement with the
  union of its live clients.\<close>

definition asked :: "topic_row \<Rightarrow> (u32 \<times> u32) option" where
  "asked r = (if tr_upstreamActive r
              then Some (tr_upstreamRequestedRateMillihz r, tr_upstreamLeaseMs r) else None)"

definition wanted :: "topic_row \<Rightarrow> (u32 \<times> u32) option" where
  "wanted r = (if refcount r = 0 then None else Some (unionRateMillihz r, unionLeaseMs r))"

definition client_ok :: "client_sub \<Rightarrow> bool" where
  "client_ok c \<longleftrightarrow> (cs_used c \<longrightarrow>
     cs_subscriptionId c \<noteq> 0 \<and> kMinLeaseMs \<le> cs_requestedLeaseMs c \<and> cs_requestedLeaseMs c \<le> kMaxLeaseMs)"

definition clients_ok :: "client_sub list \<Rightarrow> bool" where
  "clients_ok cs \<longleftrightarrow> length cs = kMaxClientsPerTopic \<and> one_per_key cs_used cs_clientId cs \<and>
     (\<forall>c\<in>set cs. client_ok c)"

definition row_ok :: "topic_row \<Rightarrow> bool" where
  "row_ok r \<longleftrightarrow> clients_ok (tr_clients r) \<and> asked r = wanted r \<and> (\<not> tr_used r \<longrightarrow> r = freeRow)"

definition reg_inv :: "sub_registry \<Rightarrow> bool" where
  "reg_inv s \<longleftrightarrow> length (sr_rows s) = kMaxTopics \<and> one_per_key tr_used row_key (sr_rows s) \<and>
     (\<forall>r\<in>set (sr_rows s). row_ok r) \<and> sr_nextSubscriptionId s \<noteq> 0"

lemma asked_cong:
  "tr_upstreamActive r' = tr_upstreamActive r \<Longrightarrow>
   tr_upstreamRequestedRateMillihz r' = tr_upstreamRequestedRateMillihz r \<Longrightarrow>
   tr_upstreamLeaseMs r' = tr_upstreamLeaseMs r \<Longrightarrow> asked r' = asked r"
  by (simp add: asked_def)

lemma wanted_cong: "tr_clients r' = tr_clients r \<Longrightarrow> wanted r' = wanted r"
  by (simp add: wanted_def union_defs)

subsection \<open>The decision point\<close>

text \<open>The decision changes the upstream bookkeeping only.\<close>

lemma eval_frame [simp]:
  "tr_used (snd (evaluateUpstream r n)) = tr_used r"
  "tr_sourceId (snd (evaluateUpstream r n)) = tr_sourceId r"
  "tr_topicId (snd (evaluateUpstream r n)) = tr_topicId r"
  "tr_clients (snd (evaluateUpstream r n)) = tr_clients r"
  "tr_bytesTotal (snd (evaluateUpstream r n)) = tr_bytesTotal r"
  "tr_samplesDroppedTotal (snd (evaluateUpstream r n)) = tr_samplesDroppedTotal r"
  by (auto simp: evaluateUpstream_def Let_def)

text \<open>Whatever the row was before, after the decision the dongle's record agrees with the union.\<close>

lemma eval_in_sync: "asked (snd (evaluateUpstream r n)) = wanted r"
  by (auto simp: evaluateUpstream_def Let_def asked_def wanted_def union_defs)

definition action_effect :: "upstream_action \<Rightarrow> (u32 \<times> u32) option \<Rightarrow> (u32 \<times> u32) option" where
  "action_effect a old = (case ua_kind a of UpNone \<Rightarrow> old
     | UpSubscribe \<Rightarrow> Some (ua_rateMillihz a, ua_leaseMs a) | UpUnsubscribe \<Rightarrow> None)"

lemma eval_effect:
  "action_effect (fst (evaluateUpstream r n)) (asked r) = wanted r"
  by (auto simp: evaluateUpstream_def Let_def asked_def wanted_def action_effect_def noAction_def)

lemma eval_action_key:
  "ua_sourceId (fst (evaluateUpstream r n)) = tr_sourceId r"
  "ua_topicId (fst (evaluateUpstream r n)) = tr_topicId r"
  by (auto simp: evaluateUpstream_def Let_def noAction_def)

lemma eval_silent_iff:
  "ua_kind (fst (evaluateUpstream r n)) = UpNone \<longleftrightarrow>
     asked r = wanted r \<and> \<not> (tr_upstreamActive r \<and> reached n (tr_upstreamRenewAtMs r))"
  by (auto simp: evaluateUpstream_def Let_def asked_def wanted_def noAction_def reached_def)

lemma eval_unsubscribe_iff:
  "ua_kind (fst (evaluateUpstream r n)) = UpUnsubscribe \<longleftrightarrow> refcount r = 0 \<and> tr_upstreamActive r"
  by (auto simp: evaluateUpstream_def Let_def noAction_def)

lemma eval_row_ok:
  "clients_ok (tr_clients r) \<Longrightarrow> tr_used r \<Longrightarrow> row_ok (snd (evaluateUpstream r n))"
  by (simp add: row_ok_def eval_in_sync wanted_def union_defs)

section \<open>The registry invariant\<close>

lemma clients_ok_free: "clients_ok (tr_clients freeRow)"
  by (simp add: clients_ok_def freeRow_def client_ok_def freeClient_def kMaxClientsPerTopic_def
      one_per_key_def numeral_eq_Suc)

lemma row_ok_free: "row_ok freeRow"
  unfolding row_ok_def using clients_ok_free
  by (simp add: asked_def wanted_def freeRow_def freeClient_def refcount_filter kMaxClientsPerTopic_def)

lemma reg_inv_init: "reg_inv resetForTests"
  by (simp add: reg_inv_def resetForTests_def row_ok_free one_per_key_def kMaxTopics_def)
    (simp add: freeRow_def)

lemma reg_invD:
  assumes "reg_inv s"
  shows "length (sr_rows s) = kMaxTopics" and "one_per_key tr_used row_key (sr_rows s)"
    and "i < length (sr_rows s) \<Longrightarrow> row_ok (sr_rows s ! i)" and "sr_nextSubscriptionId s \<noteq> 0"
  using assms by (auto simp: reg_inv_def)

lemma reg_inv_write:
  assumes s: "reg_inv s" and i: "i < length (sr_rows s)" and r: "row_ok r" "tr_used r"
    and k: "\<And>j. j < length (sr_rows s) \<Longrightarrow> j \<noteq> i \<Longrightarrow> tr_used (sr_rows s ! j) \<Longrightarrow>
              row_key (sr_rows s ! j) \<noteq> row_key r"
    and n: "sr_nextSubscriptionId s' \<noteq> 0" and s': "sr_rows s' = (sr_rows s)[i := r]"
  shows "reg_inv s'"
  unfolding reg_inv_def s'
proof (intro conjI ballI)
  show "length ((sr_rows s)[i := r]) = kMaxTopics" using reg_invD(1) [OF s] by simp
  show "one_per_key tr_used row_key ((sr_rows s)[i := r])"
    by (rule one_per_key_update [OF reg_invD(2) [OF s]]) (use k in auto)
  show "row_ok x" if "x \<in> set ((sr_rows s)[i := r])" for x
    using that r(1) s by (auto simp: reg_inv_def dest!: set_update_subset_insert [THEN subsetD])
  show "sr_nextSubscriptionId s' \<noteq> 0" by (rule n)
qed

lemma reg_inv_same_row:
  assumes "reg_inv s" "i < length (sr_rows s)" "row_ok r" "tr_used r" "tr_used (sr_rows s ! i)"
    "row_key r = row_key (sr_rows s ! i)" "sr_nextSubscriptionId s' \<noteq> 0"
    "sr_rows s' = (sr_rows s)[i := r]"
  shows "reg_inv s'"
  by (rule reg_inv_write [OF assms(1-4) _ assms(7,8)])
    (use assms reg_invD(2) [OF assms(1)] in \<open>auto dest: one_per_keyD\<close>)

lemma findRow_SomeD:
  "findRow src tpc rs = Some i \<Longrightarrow> i < length rs \<and> tr_used (rs ! i) \<and> row_key (rs ! i) = (src, tpc)"
  by (auto simp: findRow_def dest: find_slot_SomeD)

lemma findRow_slot: "findRow src tpc rs = find_slot (\<lambda>r. tr_used r \<and> row_key r = (src, tpc)) rs"
  unfolding findRow_def by (rule find_slot_cong) auto

lemma slot_get_findRow:
  "slot_get tr_used row_key rs (src, tpc) =
     (case findRow src tpc rs of None \<Rightarrow> None | Some i \<Rightarrow> Some (rs ! i))"
  by (simp add: slot_get_def findRow_slot)

lemma update_row_inv:
  assumes s: "reg_inv s"
    and f: "\<And>r. tr_used (f r) = tr_used r" "\<And>r. row_key (f r) = row_key r"
      "\<And>r. row_ok r \<Longrightarrow> tr_used r \<Longrightarrow> row_ok (f r)"
  shows "reg_inv (update_row src tpc f s)"
proof (cases "findRow src tpc (sr_rows s)")
  case (Some i)
  then have i: "i < length (sr_rows s)" "tr_used (sr_rows s ! i)"
    by (auto dest: findRow_SomeD)
  have "reg_inv (s\<lparr>sr_rows := (sr_rows s)[i := f (sr_rows s ! i)]\<rparr>)"
    by (rule reg_inv_same_row [OF s i(1)])
      (use i s f reg_invD [OF s] in \<open>auto simp: prod_eq_iff\<close>)
  with Some show ?thesis by (simp add: update_row_def)
next
  case None
  with s show ?thesis by (simp add: update_row_def)
qed

lemma row_ok_bookkeeping:
  assumes "row_ok r" "tr_used r"
  shows "row_ok (r\<lparr>tr_pendingRequestSequence := q\<rparr>)" "row_ok (r\<lparr>tr_bytesTotal := b\<rparr>)"
    "row_ok (r\<lparr>tr_samplesDroppedTotal := b\<rparr>)"
    "row_ok (r\<lparr>tr_effectiveRateMillihz := e, tr_upstreamSubscriptionId := u\<rparr>)"
    "row_ok (r\<lparr>tr_pendingRequestSequence := q, tr_effectiveRateMillihz := e, tr_upstreamSubscriptionId := u\<rparr>)"
proof -
  have "row_ok r'" if "tr_clients r' = tr_clients r" "tr_used r' = tr_used r" "asked r' = asked r" for r'
    using that assms wanted_cong [of r' r] by (simp add: row_ok_def)
  then show "row_ok (r\<lparr>tr_pendingRequestSequence := q\<rparr>)" "row_ok (r\<lparr>tr_bytesTotal := b\<rparr>)"
    "row_ok (r\<lparr>tr_samplesDroppedTotal := b\<rparr>)"
    "row_ok (r\<lparr>tr_effectiveRateMillihz := e, tr_upstreamSubscriptionId := u\<rparr>)"
    "row_ok (r\<lparr>tr_pendingRequestSequence := q, tr_effectiveRateMillihz := e, tr_upstreamSubscriptionId := u\<rparr>)"
    by (simp_all add: asked_def)
qed

section \<open>Client tables\<close>

abbreviation clients_get :: "client_sub list \<Rightarrow> u32 \<Rightarrow> client_sub option" where
  "clients_get \<equiv> slot_get cs_used cs_clientId"

lemma clampLease_range: "kMinLeaseMs \<le> clampLease l \<and> clampLease l \<le> kMaxLeaseMs"
  by (auto simp: clampLease_def kMinLeaseMs_def kMaxLeaseMs_def not_less)

lemma clientSlot_SomeD:
  assumes "clients_ok cs" "clientSlot c cs = Some j"
  shows "j < length cs" "cs_used (cs ! j) \<Longrightarrow> cs_clientId (cs ! j) = c"
    "\<And>i. i < length cs \<Longrightarrow> i \<noteq> j \<Longrightarrow> cs_used (cs ! i) \<Longrightarrow> cs_clientId (cs ! i) \<noteq> c"
proof -
  have inj: "one_per_key cs_used cs_clientId cs" using assms(1) by (simp add: clients_ok_def)
  show "j < length cs" "cs_used (cs ! j) \<Longrightarrow> cs_clientId (cs ! j) = c"
    using assms(2) by (auto simp: clientSlot_def split: option.splits dest: find_slot_SomeD)
  show "cs_clientId (cs ! i) \<noteq> c" if "i < length cs" "i \<noteq> j" "cs_used (cs ! i)" for i
  proof (cases "find_slot (\<lambda>x. cs_used x \<and> cs_clientId x = c) cs")
    case None
    with that show ?thesis by (auto simp: find_slot_None all_set_conv_all_nth)
  next
    case (Some k)
    with assms(2) have "k = j" by (simp add: clientSlot_def)
    with find_slot_SomeD [OF Some] that inj show ?thesis by (auto dest: one_per_keyD)
  qed
qed

lemma clients_ok_write:
  assumes cs: "clients_ok cs" and j: "clientSlot (cs_clientId x) cs = Some j"
    and x: "cs_used x" "client_ok x"
  shows "clients_ok (cs[j := x])" and "clients_get (cs[j := x]) = (clients_get cs)(cs_clientId x \<mapsto> x)"
proof -
  note sl = clientSlot_SomeD [OF cs j]
  have inj: "one_per_key cs_used cs_clientId cs" using cs by (simp add: clients_ok_def)
  have inj': "one_per_key cs_used cs_clientId (cs[j := x])"
    by (rule one_per_key_update [OF inj]) (use sl in auto)
  with cs x show "clients_ok (cs[j := x])"
    by (auto simp: clients_ok_def dest!: set_update_subset_insert [THEN subsetD])
  have "clients_get (cs[j := x]) k = clients_get cs k" if "k \<noteq> cs_clientId x" for k
    by (rule slot_get_update_other [OF inj sl(1)]) (use that sl(2) in auto)
  moreover have "clients_get (cs[j := x]) (cs_clientId x) = Some x"
    using slot_get_update_same [OF inj' sl(1) x(1)] by simp
  ultimately show "clients_get (cs[j := x]) = (clients_get cs)(cs_clientId x \<mapsto> x)"
    by (auto simp: fun_eq_iff)
qed

lemma freeClient_simps [simp]: "\<not> cs_used freeClient" "client_ok freeClient"
  by (simp_all add: freeClient_def client_ok_def)

lemma clients_ok_free_slot:
  assumes cs: "clients_ok cs" and j: "j < length cs" "cs_used (cs ! j)"
  shows "clients_ok (cs[j := freeClient])"
    and "clients_get (cs[j := freeClient]) = (clients_get cs)(cs_clientId (cs ! j) := None)"
proof -
  have inj: "one_per_key cs_used cs_clientId cs" using cs by (simp add: clients_ok_def)
  show "clients_ok (cs[j := freeClient])"
    using cs one_per_key_update [OF inj, of j freeClient]
    by (auto simp: clients_ok_def dest!: set_update_subset_insert [THEN subsetD])
  have "clients_get (cs[j := freeClient]) k = clients_get cs k" if "k \<noteq> cs_clientId (cs ! j)" for k
    by (rule slot_get_update_other [OF inj j(1)]) (use that in auto)
  moreover have "clients_get (cs[j := freeClient]) (cs_clientId (cs ! j)) = None"
    by (rule slot_get_clear [OF inj j(1) j(2)]) simp_all
  ultimately show "clients_get (cs[j := freeClient]) = (clients_get cs)(cs_clientId (cs ! j) := None)"
    by (auto simp: fun_eq_iff)
qed

text \<open>Freeing every client that satisfies a predicate, as the disconnect and the sweep do.\<close>

definition free_if :: "(client_sub \<Rightarrow> bool) \<Rightarrow> client_sub \<Rightarrow> client_sub" where
  "free_if P c = (if cs_used c \<and> P c then freeClient else c)"

lemma free_if_eqs:
  "drop_client k = free_if (\<lambda>c. cs_clientId c = k)"
  "expire_client n = free_if (\<lambda>c. reached n (cs_leaseDeadlineMs c))"
  by (auto simp: drop_client_def expire_client_def free_if_def reached_def fun_eq_iff)

lemma clients_ok_free_if:
  assumes cs: "clients_ok cs"
  shows "clients_ok (map (free_if P) cs)"
    and "clients_get (map (free_if P) cs) k =
      (case clients_get cs k of None \<Rightarrow> None | Some c \<Rightarrow> if P c then None else Some c)"
proof -
  have inj: "one_per_key cs_used cs_clientId cs" using cs by (simp add: clients_ok_def)
  then have inj': "one_per_key cs_used cs_clientId (map (free_if P) cs)"
    by (auto simp: one_per_key_iff free_if_def)
  with cs show "clients_ok (map (free_if P) cs)"
    by (auto simp: clients_ok_def free_if_def)
  show "clients_get (map (free_if P) cs) k =
      (case clients_get cs k of None \<Rightarrow> None | Some c \<Rightarrow> if P c then None else Some c)"
  proof (cases "clients_get cs k")
    case None
    then have "clients_get (map (free_if P) cs) k = None"
      unfolding slot_get_None by (auto simp: free_if_def)
    with None show ?thesis by simp
  next
    case (Some c)
    then obtain i where i: "i < length cs" "cs ! i = c" "cs_used c" "cs_clientId c = k"
      by (auto dest: slot_get_SomeD)
    show ?thesis
    proof (cases "P c")
      case True
      have "clients_get (map (free_if P) cs) k = None"
        unfolding slot_get_None
        using True i inj by (auto simp: free_if_def dest: one_per_keyD)
      with True Some show ?thesis by simp
    next
      case False
      have "clients_get (map (free_if P) cs) k = Some (map (free_if P) cs ! i)"
        by (rule slot_get_SomeI [OF inj']) (use i False in \<open>auto simp: free_if_def\<close>)
      with False Some i show ?thesis by (simp add: free_if_def)
    qed
  qed
qed

section \<open>The abstract views and one row written\<close>

definition live :: "sub_registry \<Rightarrow> u32 \<times> u32 \<Rightarrow> u32 \<Rightarrow> client_sub option" where
  "live s k = (case slot_get tr_used row_key (sr_rows s) k of
     None \<Rightarrow> Map.empty | Some r \<Rightarrow> clients_get (tr_clients r))"

definition asked_map :: "sub_registry \<Rightarrow> u32 \<times> u32 \<Rightarrow> (u32 \<times> u32) option" where
  "asked_map s k = Option.bind (slot_get tr_used row_key (sr_rows s) k) asked"

definition apply_action ::
  "upstream_action \<Rightarrow> (u32 \<times> u32 \<rightharpoonup> u32 \<times> u32) \<Rightarrow> (u32 \<times> u32 \<rightharpoonup> u32 \<times> u32)" where
  "apply_action a m =
     (let k = (ua_sourceId a, ua_topicId a) in m(k := action_effect a (m k)))"

lemma apply_silent [simp]: "ua_kind a = UpNone \<Longrightarrow> apply_action a m = m"
  by (simp add: apply_action_def action_effect_def)

lemma apply_action_at:
  "apply_action a m k = (if k = (ua_sourceId a, ua_topicId a) then action_effect a (m k) else m k)"
  by (simp add: apply_action_def Let_def)

lemma client_write:
  assumes s: "reg_inv s" and i: "i < length (sr_rows s)" "tr_used (sr_rows s ! i)"
    and cs: "clients_ok cs" and n: "sr_nextSubscriptionId s' \<noteq> 0"
    and e: "evaluateUpstream ((sr_rows s ! i)\<lparr>tr_clients := cs\<rparr>) nowMs = (a, row')"
    and s': "sr_rows s' = (sr_rows s)[i := row']"
  shows "reg_inv s'"
    and "live s' = (live s)(row_key (sr_rows s ! i) := clients_get cs)"
    and "apply_action a (asked_map s) = asked_map s'"
proof -
  let ?r = "sr_rows s ! i" and ?q = "(sr_rows s ! i)\<lparr>tr_clients := cs\<rparr>"
  have row': "row' = snd (evaluateUpstream ?q nowMs)" and a: "a = fst (evaluateUpstream ?q nowMs)"
    using e by simp_all
  have fr: "tr_used row'" "row_key row' = row_key (sr_rows s ! i)" "tr_clients row' = cs"
    using i by (simp_all add: row')
  have inj: "one_per_key tr_used row_key (sr_rows s)" by (rule reg_invD(2) [OF s])
  have ok: "row_ok row'" unfolding row' by (rule eval_row_ok) (use cs i in auto)
  show inv': "reg_inv s'"
    by (rule reg_inv_same_row [OF s i(1) ok fr(1) i(2) _ n s']) (rule fr(2))
  have get: "slot_get tr_used row_key (sr_rows s') k =
      (if k = row_key ?r then Some row' else slot_get tr_used row_key (sr_rows s) k)" for k
    using slot_get_update_same [of tr_used row_key "sr_rows s" i row'] reg_invD(2) [OF inv']
      slot_get_update_other [OF inj i(1), of k row'] i fr unfolding s' by auto
  have old: "slot_get tr_used row_key (sr_rows s) (row_key ?r) = Some ?r"
    by (rule slot_get_SomeI [OF inj i(1) i(2) refl])
  show "live s' = (live s)(row_key ?r := clients_get cs)"
    by (auto simp: live_def get fr fun_eq_iff)
  have "asked ?q = asked ?r" by (simp add: asked_def)
  then have "action_effect a (asked ?r) = asked row'"
    using eval_effect [of ?q nowMs] eval_in_sync [of ?q nowMs] by (simp add: a row')
  moreover have "(ua_sourceId a, ua_topicId a) = row_key ?r" by (simp add: a eval_action_key)
  ultimately show "apply_action a (asked_map s) = asked_map s'"
    using old by (auto simp: apply_action_def asked_map_def get fun_eq_iff Let_def)
qed

lemma created_row:
  assumes s: "reg_inv s" and c: "findOrCreateRow src tpc (sr_rows s) = (rs, Some i)"
  shows "reg_inv (s\<lparr>sr_rows := rs\<rparr>)" and "i < length rs" and "tr_used (rs ! i)"
    and "row_key (rs ! i) = (src, tpc)" and "live (s\<lparr>sr_rows := rs\<rparr>) = live s"
    and "asked_map (s\<lparr>sr_rows := rs\<rparr>) = asked_map s"
proof -
  have "reg_inv (s\<lparr>sr_rows := rs\<rparr>) \<and> i < length rs \<and> tr_used (rs ! i) \<and>
    row_key (rs ! i) = (src, tpc) \<and> live (s\<lparr>sr_rows := rs\<rparr>) = live s \<and>
    asked_map (s\<lparr>sr_rows := rs\<rparr>) = asked_map s"
  proof (cases "findRow src tpc (sr_rows s)")
    case (Some j)
    with c have "rs = sr_rows s" "j = i" by (simp_all add: findOrCreateRow_def)
    with Some findRow_SomeD [OF Some] s show ?thesis by simp
  next
    case None
    let ?new = "freeRow\<lparr>tr_used := True, tr_sourceId := src, tr_topicId := tpc\<rparr>"
    from None c have free: "find_slot (\<lambda>r. \<not> tr_used r) (sr_rows s) = Some i"
      and rs: "rs = (sr_rows s)[i := ?new]"
      by (auto simp: findOrCreateRow_def split: option.splits)
    from find_slot_SomeD [OF free] have i: "i < length (sr_rows s)" "\<not> tr_used (sr_rows s ! i)" by auto
    have nokey: "row_key (sr_rows s ! j) \<noteq> (src, tpc)"
      if "j < length (sr_rows s)" "tr_used (sr_rows s ! j)" for j
      using None that by (auto simp: findRow_def find_slot_None all_set_conv_all_nth)
    have ok: "row_ok ?new"
      using row_ok_free wanted_cong [of ?new freeRow] asked_cong [of ?new freeRow]
      by (simp add: row_ok_def)
    have inv: "reg_inv (s\<lparr>sr_rows := rs\<rparr>)"
      by (rule reg_inv_write [OF s i(1) ok]) (use nokey rs reg_invD(4) [OF s] in auto)
    have inj: "one_per_key tr_used row_key (sr_rows s)" by (rule reg_invD(2) [OF s])
    have old: "slot_get tr_used row_key (sr_rows s) (src, tpc) = None"
      using nokey by (auto simp: slot_get_None)
    have get: "slot_get tr_used row_key rs k =
        (if k = (src, tpc) then Some ?new else slot_get tr_used row_key (sr_rows s) k)" for k
      using slot_get_update_same [of tr_used row_key "sr_rows s" i ?new] reg_invD(2) [OF inv]
        slot_get_update_other [OF inj i(1), of k ?new] i unfolding rs by auto
    have none: "clients_get (tr_clients ?new) = Map.empty" "asked ?new = None"
      by (auto simp: fun_eq_iff slot_get_None freeRow_def asked_def)
    have "live (s\<lparr>sr_rows := rs\<rparr>) = live s" "asked_map (s\<lparr>sr_rows := rs\<rparr>) = asked_map s"
      using none old by (auto simp: live_def asked_map_def get fun_eq_iff)
    with inv i rs show ?thesis by simp
  qed
  then show "reg_inv (s\<lparr>sr_rows := rs\<rparr>)" and "i < length rs" and "tr_used (rs ! i)"
    and "row_key (rs ! i) = (src, tpc)" and "live (s\<lparr>sr_rows := rs\<rparr>) = live s"
    and "asked_map (s\<lparr>sr_rows := rs\<rparr>) = asked_map s" by auto
qed

section \<open>Subscribe and unsubscribe\<close>

lemma nextSubscriptionId_facts:
  assumes "nextSubscriptionId s = (sid, s1)"
  shows "sid = sr_nextSubscriptionId s" "sr_rows s1 = sr_rows s" "sr_nextSubscriptionId s1 \<noteq> 0"
  using assms
  by (cases "sr_nextSubscriptionId s + 1 = 0"; force simp: nextSubscriptionId_def Let_def)+

definition new_client :: "u32 \<Rightarrow> u32 \<Rightarrow> u32 \<Rightarrow> u32 \<Rightarrow> u32 \<Rightarrow> client_sub" where
  "new_client c sid rate lease nowMs =
     \<lparr>cs_used = True, cs_clientId = c, cs_subscriptionId = sid, cs_requestedRateMillihz = rate,
      cs_requestedLeaseMs = clampLease lease, cs_leaseDeadlineMs = nowMs + clampLease lease\<rparr>"

lemma new_client_ok: "sid \<noteq> 0 \<Longrightarrow> client_ok (new_client c sid rate lease nowMs)"
  using clampLease_range [of lease] by (simp add: client_ok_def new_client_def)

definition same_request :: "u32 \<Rightarrow> u32 \<Rightarrow> u32 \<Rightarrow> client_sub \<Rightarrow> bool" where
  "same_request c rate lease x \<longleftrightarrow> cs_used x \<and> cs_clientId x = c \<and>
     cs_requestedRateMillihz x = rate \<and> cs_requestedLeaseMs x = clampLease lease"

text \<open>What a call of \<open>onDesktopSubscribe\<close> can do: refuse with the state unchanged, or write
  one client slot of the topic's row and evaluate it. The identifier is the old one exactly
  when this client holds the same request.\<close>

lemma same_request_slot:
  assumes cs: "clients_ok cs" and f: "find_slot (same_request c rate lease) cs = Some i"
  shows "clientSlot c cs = Some i"
    "(cs ! i)\<lparr>cs_leaseDeadlineMs := nowMs + clampLease lease\<rparr> =
       new_client c (cs_subscriptionId (cs ! i)) rate lease nowMs"
    "cs_subscriptionId (cs ! i) \<noteq> 0" "clients_get cs c = Some (cs ! i)" "same_request c rate lease (cs ! i)"
proof -
  have i: "i < length cs" and m: "same_request c rate lease (cs ! i)"
    using find_slot_SomeD [OF f] by auto
  have inj: "one_per_key cs_used cs_clientId cs" using cs by (simp add: clients_ok_def)
  have "find_slot (\<lambda>x. cs_used x \<and> cs_clientId x = c) cs = Some i"
  proof (rule find_slot_SomeI [OF i])
    show "cs_used (cs ! i) \<and> cs_clientId (cs ! i) = c" using m by (simp add: same_request_def)
    show "\<not> (cs_used (cs ! j) \<and> cs_clientId (cs ! j) = c)" if "j < i" for j
      using one_per_keyD [OF inj, of j i] i m that by (auto simp: same_request_def)
  qed
  then show "clientSlot c cs = Some i" by (simp add: clientSlot_def)
  show "(cs ! i)\<lparr>cs_leaseDeadlineMs := nowMs + clampLease lease\<rparr> =
      new_client c (cs_subscriptionId (cs ! i)) rate lease nowMs"
    using m by (cases "cs ! i") (simp add: new_client_def same_request_def)
  have "client_ok (cs ! i)" using cs i by (auto simp: clients_ok_def)
  then show "cs_subscriptionId (cs ! i) \<noteq> 0" using m by (simp add: client_ok_def same_request_def)
  show "clients_get cs c = Some (cs ! i)"
    by (rule slot_get_SomeI [OF inj i]) (use m in \<open>auto simp: same_request_def\<close>)
  show "same_request c rate lease (cs ! i)" by (rule m)
qed

lemma subscribe_facts:
  assumes s: "reg_inv s"
    and o: "onDesktopSubscribe c src tpc rate lease nowMs s = (out, s')"
  shows "reg_inv s' \<and> apply_action (so_upstream out) (asked_map s) = asked_map s' \<and>
    (if so_accepted out
     then live s' = (live s)((src, tpc) := (live s (src, tpc))
            (c \<mapsto> new_client c (so_subscriptionId out) rate lease nowMs)) \<and>
          so_subscriptionId out =
            (case live s (src, tpc) c of
               Some x \<Rightarrow> if same_request c rate lease x then cs_subscriptionId x else sr_nextSubscriptionId s
             | None \<Rightarrow> sr_nextSubscriptionId s)
     else live s' = live s \<and> out = refused)"
proof (cases "findOrCreateRow src tpc (sr_rows s)")
  case (Pair rs opt)
  show ?thesis
  proof (cases opt)
    case None
    with Pair have "rs = sr_rows s"
      by (auto simp: findOrCreateRow_def split: option.splits)
    with Pair None o s show ?thesis
      by (auto simp: onDesktopSubscribe_def refused_def noAction_def)
  next
    case (Some r)
    let ?s0 = "s\<lparr>sr_rows := rs\<rparr>" and ?cs = "tr_clients (rs ! r)"
    note cr = created_row [OF s Pair [unfolded Some]]
    have inj: "one_per_key tr_used row_key rs" using reg_invD(2) [OF cr(1)] by simp
    have "row_ok (rs ! r)" using reg_invD(3) [OF cr(1), of r] cr(2) by simp
    then have cs: "clients_ok ?cs" by (simp add: row_ok_def)
    have lv: "live s (src, tpc) = clients_get ?cs"
      unfolding cr(5) [symmetric] using slot_get_SomeI [OF inj cr(2,3,4)] by (simp add: live_def)
    have wrote: "reg_inv s' \<and> apply_action a (asked_map s) = asked_map s' \<and>
        live s' = (live s)((src, tpc) := (live s (src, tpc))(c \<mapsto> new_client c sid rate lease nowMs))"
      if "clientSlot c ?cs = Some i" "sid \<noteq> 0" "sr_nextSubscriptionId s' \<noteq> 0"
        "evaluateUpstream ((rs ! r)\<lparr>tr_clients := ?cs[i := new_client c sid rate lease nowMs]\<rparr>) nowMs = (a, row')"
        "sr_rows s' = rs[r := row']" for i sid a row'
    proof -
      let ?c = "new_client c sid rate lease nowMs"
      have idc: "cs_clientId ?c = c" "cs_used ?c" by (simp_all add: new_client_def)
      have w: "clients_ok (?cs[i := ?c])" "clients_get (?cs[i := ?c]) = (clients_get ?cs)(c \<mapsto> ?c)"
        using clients_ok_write [OF cs, of ?c i] that(1) new_client_ok [OF that(2)] idc by simp_all
      show ?thesis
        using client_write [OF cr(1) _ _ w(1) that(3), of r nowMs a row'] cr that w(2) lv by simp
    qed
    show ?thesis
    proof (cases "find_slot (same_request c rate lease) ?cs")
      case (Some i)
      note sr = same_request_slot [OF cs Some]
      obtain a row' where e: "evaluateUpstream ((rs ! r)\<lparr>tr_clients :=
          ?cs[i := new_client c (cs_subscriptionId (?cs ! i)) rate lease nowMs]\<rparr>) nowMs = (a, row')"
        by (cases "evaluateUpstream ((rs ! r)\<lparr>tr_clients :=
          ?cs[i := new_client c (cs_subscriptionId (?cs ! i)) rate lease nowMs]\<rparr>) nowMs")
      have eq: "out = \<lparr>so_accepted = True, so_subscriptionId = cs_subscriptionId (?cs ! i), so_upstream = a\<rparr>"
        "s' = s\<lparr>sr_rows := rs[r := row']\<rparr>"
        using o Pair \<open>opt = Some r\<close> Some e sr(2) [of nowMs]
        by (auto simp: onDesktopSubscribe_def same_request_def [abs_def] Let_def new_client_def)
      have "reg_inv s' \<and> apply_action a (asked_map s) = asked_map s' \<and>
        live s' = (live s)((src, tpc) := (live s (src, tpc))
          (c \<mapsto> new_client c (cs_subscriptionId (?cs ! i)) rate lease nowMs))"
        by (rule wrote [OF sr(1) sr(3) _ e]) (use eq reg_invD(4) [OF s] in simp_all)
      with eq lv sr(4,5) show ?thesis by simp
    next
      case None
      show ?thesis
      proof (cases "clientSlot c ?cs")
        case no_slot: None
        have "out = refused" "s' = ?s0"
          using o Pair \<open>opt = Some r\<close> None no_slot
          by (auto simp: onDesktopSubscribe_def same_request_def [abs_def] Let_def)
        with cr show ?thesis by (simp add: refused_def noAction_def)
      next
        case slot: (Some i)
        obtain sid s1 where n: "nextSubscriptionId s = (sid, s1)"
          by (cases "nextSubscriptionId s")
        note nf = nextSubscriptionId_facts [OF n]
        obtain a row' where e: "evaluateUpstream ((rs ! r)\<lparr>tr_clients :=
            ?cs[i := new_client c sid rate lease nowMs]\<rparr>) nowMs = (a, row')"
          by (cases "evaluateUpstream ((rs ! r)\<lparr>tr_clients :=
            ?cs[i := new_client c sid rate lease nowMs]\<rparr>) nowMs")
        have eq: "out = \<lparr>so_accepted = True, so_subscriptionId = sid, so_upstream = a\<rparr>"
          "s' = s1\<lparr>sr_rows := rs[r := row']\<rparr>"
          using o Pair \<open>opt = Some r\<close> None slot e n
          by (auto simp: onDesktopSubscribe_def same_request_def [abs_def] Let_def new_client_def)
        have "reg_inv s' \<and> apply_action a (asked_map s) = asked_map s' \<and>
          live s' = (live s)((src, tpc) := (live s (src, tpc))(c \<mapsto> new_client c sid rate lease nowMs))"
          by (rule wrote [OF slot _ _ e]) (use eq nf reg_invD(4) [OF s] in simp_all)
        moreover have "\<not> same_request c rate lease x" if "clients_get ?cs c = Some x" for x
          using None slot_get_SomeD [OF that] by (auto simp: find_slot_None)
        ultimately show ?thesis
          using eq nf lv by (auto split: option.splits)
      qed
    qed
  qed
qed

text \<open>The nested scan stops at the first used row that holds the subscription.\<close>

lemma unsubscribe_loop_find:
  "unsubscribe_loop c sid nowMs rs =
     (case find_slot (\<lambda>r. tr_used r \<and> find_slot (matches_sub c sid) (tr_clients r) \<noteq> None) rs of
        None \<Rightarrow> (\<lparr>uo_found = False, uo_upstream = noAction\<rparr>, rs)
      | Some r \<Rightarrow>
          (case find_slot (matches_sub c sid) (tr_clients (rs ! r)) of
             None \<Rightarrow> (\<lparr>uo_found = False, uo_upstream = noAction\<rparr>, rs)
           | Some i \<Rightarrow>
               (let e = evaluateUpstream ((rs ! r)\<lparr>tr_clients := (tr_clients (rs ! r))[i := freeClient]\<rparr>) nowMs
                in (\<lparr>uo_found = True, uo_upstream = fst e\<rparr>, rs[r := snd e]))))"
proof (induction rs)
  case (Cons x xs)
  show ?case
    by (cases "tr_used x"; cases "find_slot (matches_sub c sid) (tr_clients x)")
      (auto simp: Cons.IH Let_def split: option.splits prod.splits)
qed simp

lemma unsubscribe_facts:
  assumes s: "reg_inv s" and o: "onDesktopUnsubscribe c sid nowMs s = (out, s')"
  shows "reg_inv s' \<and> apply_action (uo_upstream out) (asked_map s) = asked_map s' \<and>
    (if uo_found out
     then \<exists>k x. live s k c = Some x \<and> cs_subscriptionId x = sid \<and>
            live s' = (live s)(k := (live s k)(c := None))
     else live s' = live s \<and> uo_upstream out = noAction \<and>
            (\<forall>k x. live s k c = Some x \<longrightarrow> cs_subscriptionId x \<noteq> sid))"
proof (cases "find_slot (\<lambda>r. tr_used r \<and> find_slot (matches_sub c sid) (tr_clients r) \<noteq> None) (sr_rows s)")
  case None
  have "cs_subscriptionId x \<noteq> sid" if "live s k c = Some x" for k x
  proof
    assume x: "cs_subscriptionId x = sid"
    from that obtain r where r: "slot_get tr_used row_key (sr_rows s) k = Some r"
      "clients_get (tr_clients r) c = Some x" by (auto simp: live_def split: option.splits)
    then have "r \<in> set (sr_rows s)" "tr_used r" "x \<in> set (tr_clients r)" "matches_sub c sid x"
      using x by (auto simp: matches_sub_def dest!: slot_get_SomeD)
    with None show False
      by (auto simp: find_slot_None)
  qed
  with None o s show ?thesis
    by (auto simp: onDesktopUnsubscribe_def unsubscribe_loop_find noAction_def)
next
  case (Some r)
  from find_slot_SomeD [OF this] obtain i where r: "r < length (sr_rows s)" "tr_used (sr_rows s ! r)"
    and i: "find_slot (matches_sub c sid) (tr_clients (sr_rows s ! r)) = Some i" by auto
  let ?cs = "tr_clients (sr_rows s ! r)"
  obtain a row' where e: "evaluateUpstream ((sr_rows s ! r)\<lparr>tr_clients := ?cs[i := freeClient]\<rparr>) nowMs = (a, row')"
    by (cases "evaluateUpstream ((sr_rows s ! r)\<lparr>tr_clients := ?cs[i := freeClient]\<rparr>) nowMs")
  have eq: "out = \<lparr>uo_found = True, uo_upstream = a\<rparr>" "s' = s\<lparr>sr_rows := (sr_rows s)[r := row']\<rparr>"
    using o Some i e by (auto simp: onDesktopUnsubscribe_def unsubscribe_loop_find Let_def)
  have cs: "clients_ok ?cs" using reg_invD(3) [OF s r(1)] by (simp add: row_ok_def)
  have m: "i < length ?cs" "cs_used (?cs ! i)" "cs_clientId (?cs ! i) = c" "cs_subscriptionId (?cs ! i) = sid"
    using find_slot_SomeD [OF i] by (auto simp: matches_sub_def)
  have w: "clients_ok (?cs[i := freeClient])" "clients_get (?cs[i := freeClient]) = (clients_get ?cs)(c := None)"
    using clients_ok_free_slot [OF cs m(1,2)] m(3) by simp_all
  have lv: "live s (row_key (sr_rows s ! r)) = clients_get ?cs"
    using slot_get_SomeI [OF reg_invD(2) [OF s] r(1,2) refl] by (simp add: live_def)
  have "clients_get ?cs c = Some (?cs ! i)"
    using slot_get_SomeI [of cs_used cs_clientId ?cs i c] cs m by (simp add: clients_ok_def)
  with lv m have "live s (row_key (sr_rows s ! r)) c = Some (?cs ! i) \<and> cs_subscriptionId (?cs ! i) = sid"
    by simp
  moreover have "reg_inv s' \<and> apply_action a (asked_map s) = asked_map s' \<and>
      live s' = (live s)(row_key (sr_rows s ! r) := (live s (row_key (sr_rows s ! r)))(c := None))"
    using client_write [OF s r w(1) _ e, of s'] reg_invD(4) [OF s] eq w(2) lv by simp
  ultimately show ?thesis using eq by auto
qed

section \<open>Passes over all rows\<close>

text \<open>A row body of the disconnect and of the sweep: frees some clients of a used row and, if it
  did anything, takes the decision.\<close>

definition row_pass :: "u32 \<Rightarrow> (client_sub \<Rightarrow> bool) \<Rightarrow> (topic_row \<Rightarrow> upstream_action \<times> topic_row) \<Rightarrow> bool" where
  "row_pass nowMs P body \<longleftrightarrow> (\<forall>r. body r =
     (if tr_used r \<and> (map (free_if P) (tr_clients r) \<noteq> tr_clients r \<or>
                      body r \<noteq> (noAction, r))
      then evaluateUpstream (r\<lparr>tr_clients := map (free_if P) (tr_clients r)\<rparr>) nowMs
      else (noAction, r)))"

lemma sweep_pass: "row_pass nowMs (\<lambda>c. reached nowMs (cs_leaseDeadlineMs c)) (sweep_row nowMs)"
  by (auto simp: row_pass_def sweep_row_def free_if_eqs)

lemma disconnect_pass: "row_pass nowMs (\<lambda>c. cs_clientId c = k) (disconnect_row k nowMs)"
proof -
  have "map (free_if (\<lambda>c. cs_clientId c = k)) cs = cs"
    if "\<not> list_ex (\<lambda>c. cs_used c \<and> cs_clientId c = k) cs" for cs
    using that by (intro map_idI) (auto simp: free_if_def list_ex_iff)
  then show ?thesis by (auto simp: row_pass_def disconnect_row_def free_if_eqs)
qed

lemma row_pass_facts:
  assumes p: "row_pass nowMs P body" and ok: "row_ok r"
  shows "tr_used (snd (body r)) = tr_used r" "row_key (snd (body r)) = row_key r"
    "row_ok (snd (body r))"
    "tr_used r \<Longrightarrow> tr_clients (snd (body r)) = map (free_if P) (tr_clients r)"
    "action_effect (fst (body r)) (asked r) = asked (snd (body r))"
    "ua_kind (fst (body r)) \<noteq> UpNone \<Longrightarrow> tr_used r \<and> (ua_sourceId (fst (body r)), ua_topicId (fst (body r))) = row_key r"
proof -
  let ?q = "r\<lparr>tr_clients := map (free_if P) (tr_clients r)\<rparr>"
  consider (idle) "body r = (noAction, r)" "tr_used r \<Longrightarrow> map (free_if P) (tr_clients r) = tr_clients r"
    | (act) "tr_used r" "body r = evaluateUpstream ?q nowMs"
    using p unfolding row_pass_def by metis
  then have "tr_used (snd (body r)) = tr_used r \<and> row_key (snd (body r)) = row_key r \<and>
    row_ok (snd (body r)) \<and> (tr_used r \<longrightarrow> tr_clients (snd (body r)) = map (free_if P) (tr_clients r)) \<and>
    action_effect (fst (body r)) (asked r) = asked (snd (body r)) \<and>
    (ua_kind (fst (body r)) \<noteq> UpNone \<longrightarrow> tr_used r \<and> (ua_sourceId (fst (body r)), ua_topicId (fst (body r))) = row_key r)"
  proof cases
    case idle
    with ok show ?thesis by (simp add: noAction_def action_effect_def)
  next
    case act
    have "clients_ok (tr_clients ?q)"
      using ok clients_ok_free_if(1) by (simp add: row_ok_def)
    then have "row_ok (snd (body r))" using act eval_row_ok [of ?q nowMs] by simp
    moreover have "asked ?q = asked r" by (simp add: asked_def)
    then have "action_effect (fst (body r)) (asked r) = asked (snd (body r))"
      using eval_effect [of ?q nowMs] eval_in_sync [of ?q nowMs] act by simp
    ultimately show ?thesis using act by (simp add: eval_action_key)
  qed
  then show "tr_used (snd (body r)) = tr_used r" "row_key (snd (body r)) = row_key r"
    "row_ok (snd (body r))"
    "tr_used r \<Longrightarrow> tr_clients (snd (body r)) = map (free_if P) (tr_clients r)"
    "action_effect (fst (body r)) (asked r) = asked (snd (body r))"
    "ua_kind (fst (body r)) \<noteq> UpNone \<Longrightarrow> tr_used r \<and> (ua_sourceId (fst (body r)), ua_topicId (fst (body r))) = row_key r"
    by auto
qed

definition loud :: "upstream_action list \<Rightarrow> upstream_action list" where
  "loud acts = filter (\<lambda>a. ua_kind a \<noteq> UpNone) acts"

lemma fold_loud: "fold apply_action (loud acts) m = fold apply_action acts m"
  by (induction acts arbitrary: m) (auto simp: loud_def)

lemma rows_loop_rows: "fst (rows_loop body maxOut rs st) = map (\<lambda>r. snd (body r)) rs"
  by (induction rs arbitrary: st) (simp_all add: Let_def split_beta)

lemma rows_loop_buffer:
  assumes "w + length rs \<le> length buf"
  shows "\<exists>buf'. snd (rows_loop body (length buf) rs (w, Some buf)) =
      (w + length (loud (map (\<lambda>r. fst (body r)) rs)), Some buf') \<and> length buf' = length buf \<and>
      take (w + length (loud (map (\<lambda>r. fst (body r)) rs))) buf' =
        take w buf @ loud (map (\<lambda>r. fst (body r)) rs)"
  using assms
proof (induction rs arbitrary: w buf)
  case (Cons r rs)
  obtain a r' where b: "body r = (a, r')" by (cases "body r")
  show ?case
  proof (cases "ua_kind a = UpNone")
    case True
    with Cons.IH [of w buf] Cons.prems b show ?thesis
      by (auto simp: put_action_def loud_def split: prod.splits)
  next
    case False
    have w: "w < length buf" using Cons.prems by simp
    have "take (Suc w) (buf[w := a]) = take w buf @ [a]"
      using w by (simp add: take_Suc_conv_app_nth)
    with Cons.IH [of "Suc w" "buf[w := a]"] Cons.prems b False w show ?thesis
      by (auto simp: put_action_def loud_def split: prod.splits)
  qed
qed (simp add: loud_def)

lemma fold_actions_rows:
  assumes "one_per_key tr_used row_key rs"
    and "\<And>r. r \<in> set rs \<Longrightarrow> ua_kind (act r) \<noteq> UpNone \<Longrightarrow>
          tr_used r \<and> (ua_sourceId (act r), ua_topicId (act r)) = row_key r"
  shows "fold apply_action (map act rs) m k =
    (case slot_get tr_used row_key rs k of None \<Rightarrow> m k | Some r \<Rightarrow> action_effect (act r) (m k))"
  using assms
proof (induction rs arbitrary: m)
  case (Cons x xs)
  have IH: "fold apply_action (map act xs) m' k =
      (case slot_get tr_used row_key xs k of None \<Rightarrow> m' k | Some r \<Rightarrow> action_effect (act r) (m' k))" for m'
    by (rule Cons.IH) (use Cons.prems in \<open>auto simp: one_per_key_Cons\<close>)
  show ?case
  proof (cases "ua_kind (act x) = UpNone")
    case True
    have quiet: "action_effect (act x) o' = o'" for o' using True by (simp add: action_effect_def)
    show ?thesis
    proof (cases "tr_used x \<and> row_key x = k")
      case hit: True
      then have "slot_get tr_used row_key xs k = None" using Cons.prems(1) by (auto simp: one_per_key_Cons)
      with hit True quiet IH show ?thesis by (auto simp: slot_get_Cons)
    next
      case False
      with True IH show ?thesis by (auto simp: slot_get_Cons)
    qed
  next
    case False
    with Cons.prems(2) [of x] have x: "tr_used x" "(ua_sourceId (act x), ua_topicId (act x)) = row_key x"
      by auto
    then have "slot_get tr_used row_key xs (row_key x) = None"
      using Cons.prems(1) by (simp add: one_per_key_Cons)
    moreover have "fold apply_action (map act (x # xs)) m k =
        (case slot_get tr_used row_key xs k of None \<Rightarrow> apply_action (act x) m k
         | Some r \<Rightarrow> action_effect (act r) (apply_action (act x) m k))"
      using IH [of "apply_action (act x) m"] by simp
    ultimately show ?thesis
      using x unfolding apply_action_at slot_get_Cons by (auto split: option.splits)
  qed
qed simp

lemma pass_facts:
  assumes s: "reg_inv s" and p: "row_pass nowMs P body"
    and s': "s' = s\<lparr>sr_rows := map (\<lambda>r. snd (body r)) (sr_rows s)\<rparr>"
  shows "reg_inv s'"
    and "fold apply_action (map (\<lambda>r. fst (body r)) (sr_rows s)) (asked_map s) = asked_map s'"
    and "live s' k c = (case live s k c of None \<Rightarrow> None | Some x \<Rightarrow> if P x then None else Some x)"
proof -
  let ?g = "\<lambda>r. snd (body r)" and ?rs = "sr_rows s"
  have ok: "row_ok r" if "r \<in> set ?rs" for r using s that by (simp add: reg_inv_def)
  note f = row_pass_facts [OF p ok]
  have inj: "one_per_key tr_used row_key ?rs" by (rule reg_invD(2) [OF s])
  have keep: "\<forall>i<length ?rs. tr_used (?g (?rs ! i)) = tr_used (?rs ! i) \<and> row_key (?g (?rs ! i)) = row_key (?rs ! i)"
    using f(1,2) by simp
  then have inj': "one_per_key tr_used row_key (map ?g ?rs)"
    using inj by (simp add: one_per_key_iff)
  show "reg_inv s'"
    using s inj' f(3) by (auto simp: reg_inv_def s')
  have get: "slot_get tr_used row_key (map ?g ?rs) k = map_option ?g (slot_get tr_used row_key ?rs k)" for k
  proof (cases "slot_get tr_used row_key ?rs k")
    case None
    with keep have "slot_get tr_used row_key (map ?g ?rs) k = None" by (simp add: slot_get_None)
    with None show ?thesis by simp
  next
    case (Some r)
    then obtain i where i: "i < length ?rs" "?rs ! i = r" "tr_used r" "row_key r = k"
      by (auto dest: slot_get_SomeD)
    then have "tr_used (?g r)" "row_key (?g r) = k" using keep by auto
    with i have "slot_get tr_used row_key (map ?g ?rs) k = Some (map ?g ?rs ! i)"
      by (intro slot_get_SomeI [OF inj']) simp_all
    with Some i show ?thesis by simp
  qed
  have mem: "r \<in> set ?rs" "tr_used r" if "slot_get tr_used row_key ?rs k = Some r" for r k
    using that by (auto dest!: slot_get_SomeD)
  show "fold apply_action (map (\<lambda>r. fst (body r)) ?rs) (asked_map s) = asked_map s'"
  proof
    fix k
    have "fold apply_action (map (\<lambda>r. fst (body r)) ?rs) (asked_map s) k =
      (case slot_get tr_used row_key ?rs k of None \<Rightarrow> asked_map s k
       | Some r \<Rightarrow> action_effect (fst (body r)) (asked_map s k))"
      by (rule fold_actions_rows [OF inj]) (rule f(6))
    also have "\<dots> = asked_map s' k"
      using mem f(5) by (auto simp: asked_map_def s' get split: option.splits)
    finally show "fold apply_action (map (\<lambda>r. fst (body r)) ?rs) (asked_map s) k = asked_map s' k" .
  qed
  show "live s' k c = (case live s k c of None \<Rightarrow> None | Some x \<Rightarrow> if P x then None else Some x)"
  proof (cases "slot_get tr_used row_key ?rs k")
    case None
    then show ?thesis by (simp add: live_def s' get)
  next
    case (Some r)
    have "clients_ok (tr_clients r)" using ok mem(1) [OF Some] by (simp add: row_ok_def)
    with Some show ?thesis
      using f(4) [OF mem(1) [OF Some] mem(2) [OF Some]] clients_ok_free_if(2)
      by (simp add: live_def s' get)
  qed
qed

section \<open>Histories\<close>

text \<open>Every call the firmware makes on the registry, with the actions it hands back to be sent
  (the callers pass a buffer of \<open>kMaxTopics\<close> entries and send the written prefix).\<close>

datatype sub_event =
    EvSubscribe u32 u32 u32 u32 u32 u32
  | EvUnsubscribe u32 u32 u32
  | EvDisconnect u32 u32
  | EvSweep u32
  | EvRequestSent u32 u32 u32
  | EvResult u32 u8 u32 u32
  | EvForwarded u32 u32 nat
  | EvDropped u32 u32

definition out_buffer :: "upstream_action list" where
  "out_buffer = replicate kMaxTopics noAction"

definition emitted :: "nat \<times> upstream_action list option \<Rightarrow> upstream_action list" where
  "emitted st = (case st of (written, Some buf) \<Rightarrow> take written buf | (written, None) \<Rightarrow> [])"

fun sub_exec :: "sub_event \<Rightarrow> sub_registry \<Rightarrow> upstream_action list \<times> sub_registry" where
  "sub_exec (EvSubscribe c src tpc rate lease nowMs) s =
     (let (out, s') = onDesktopSubscribe c src tpc rate lease nowMs s in ([so_upstream out], s'))"
| "sub_exec (EvUnsubscribe c sid nowMs) s =
     (let (out, s') = onDesktopUnsubscribe c sid nowMs s in ([uo_upstream out], s'))"
| "sub_exec (EvDisconnect c nowMs) s =
     (let (st, s') = onClientDisconnected c nowMs (Some out_buffer) kMaxTopics s in (emitted st, s'))"
| "sub_exec (EvSweep nowMs) s =
     (let (st, s') = sweep nowMs (Some out_buffer) kMaxTopics s in (emitted st, s'))"
| "sub_exec (EvRequestSent src tpc q) s = ([], noteUpstreamRequestSent src tpc q s)"
| "sub_exec (EvResult q status sid rate) s = ([], snd (onUpstreamSubscribeResult q status sid rate s))"
| "sub_exec (EvForwarded src tpc n) s = ([], recordForwarded src tpc n s)"
| "sub_exec (EvDropped src tpc) s = ([], recordDropped src tpc s)"

fun sub_run ::
  "sub_event list \<Rightarrow> sub_registry \<times> (u32 \<times> u32 \<rightharpoonup> u32 \<times> u32) \<Rightarrow>
     sub_registry \<times> (u32 \<times> u32 \<rightharpoonup> u32 \<times> u32)" where
  "sub_run [] st = st"
| "sub_run (e # es) st =
     (let (acts, s') = sub_exec e (fst st) in sub_run es (s', fold apply_action acts (snd st)))"

lemma pass_exec:
  assumes s: "reg_inv s" and p: "row_pass nowMs P body"
    and r: "rows_loop body kMaxTopics (sr_rows s) (0, Some out_buffer) = (rs, st)"
  shows "rs = map (\<lambda>r. snd (body r)) (sr_rows s)"
    and "emitted st = loud (map (\<lambda>r. fst (body r)) (sr_rows s))"
proof -
  show "rs = map (\<lambda>r. snd (body r)) (sr_rows s)"
    using rows_loop_rows [of body kMaxTopics "sr_rows s" "(0, Some out_buffer)"] r by simp
  have len: "length out_buffer = kMaxTopics" by (simp add: out_buffer_def)
  show "emitted st = loud (map (\<lambda>r. fst (body r)) (sr_rows s))"
    using rows_loop_buffer [of 0 "sr_rows s" out_buffer body] reg_invD(1) [OF s] r
    by (auto simp: len emitted_def)
qed

lemma update_row_views:
  assumes f: "\<And>r. tr_used (f r) = tr_used r" "\<And>r. row_key (f r) = row_key r"
    "\<And>r. tr_clients (f r) = tr_clients r" "\<And>r. asked (f r) = asked r"
    and s: "reg_inv s"
    and r: "findRow src tpc (sr_rows s) = Some i \<or> (i < length (sr_rows s) \<and> tr_used (sr_rows s ! i))"
    and s': "sr_rows s' = (sr_rows s)[i := f (sr_rows s ! i)]" "sr_nextSubscriptionId s' \<noteq> 0"
  shows "reg_inv s' \<and> asked_map s' = asked_map s \<and> live s' = live s"
proof -
  have i: "i < length (sr_rows s)" "tr_used (sr_rows s ! i)" using r by (auto dest: findRow_SomeD)
  have inj: "one_per_key tr_used row_key (sr_rows s)" by (rule reg_invD(2) [OF s])
  have "row_ok (f (sr_rows s ! i))"
    using reg_invD(3) [OF s i(1)] i f wanted_cong [of "f (sr_rows s ! i)" "sr_rows s ! i"]
    by (simp add: row_ok_def)
  then have inv: "reg_inv s'"
    by (rule reg_inv_same_row [OF s i(1) _ _ i(2) _ s'(2) s'(1)]) (use f i in auto)
  have get: "slot_get tr_used row_key (sr_rows s') k =
      (if k = row_key (sr_rows s ! i) then Some (f (sr_rows s ! i)) else slot_get tr_used row_key (sr_rows s) k)" for k
    using slot_get_update_same [of tr_used row_key "sr_rows s" i "f (sr_rows s ! i)"] reg_invD(2) [OF inv]
      slot_get_update_other [OF inj i(1), of k "f (sr_rows s ! i)"] i f unfolding s' by auto
  have old: "slot_get tr_used row_key (sr_rows s) (row_key (sr_rows s ! i)) = Some (sr_rows s ! i)"
    by (rule slot_get_SomeI [OF inj i refl])
  have "asked_map s' = asked_map s" "live s' = live s"
    using old f by (auto simp: asked_map_def live_def get fun_eq_iff)
  with inv show ?thesis by simp
qed

lemma bookkeeping_views:
  assumes s: "reg_inv s"
  shows "reg_inv (noteUpstreamRequestSent src tpc q s) \<and>
      asked_map (noteUpstreamRequestSent src tpc q s) = asked_map s"
    and "reg_inv (recordForwarded src tpc n s) \<and> asked_map (recordForwarded src tpc n s) = asked_map s"
    and "reg_inv (recordDropped src tpc s) \<and> asked_map (recordDropped src tpc s) = asked_map s"
    and "reg_inv (snd (onUpstreamSubscribeResult q st sid rate s)) \<and>
      asked_map (snd (onUpstreamSubscribeResult q st sid rate s)) = asked_map s"
proof -
  have upd: "reg_inv (update_row src tpc f s) \<and> asked_map (update_row src tpc f s) = asked_map s"
    if "\<And>r. tr_used (f r) = tr_used r" "\<And>r. row_key (f r) = row_key r"
      "\<And>r. tr_clients (f r) = tr_clients r" "\<And>r. asked (f r) = asked r" for f
  proof (cases "findRow src tpc (sr_rows s)")
    case None
    with s show ?thesis by (simp add: update_row_def)
  next
    case (Some i)
    with update_row_views [OF that s, of src tpc i "update_row src tpc f s"] reg_invD(4) [OF s]
    show ?thesis by (simp add: update_row_def)
  qed
  show "reg_inv (noteUpstreamRequestSent src tpc q s) \<and>
      asked_map (noteUpstreamRequestSent src tpc q s) = asked_map s"
    unfolding noteUpstreamRequestSent_def by (rule upd) (simp_all add: asked_def)
  show "reg_inv (recordForwarded src tpc n s) \<and> asked_map (recordForwarded src tpc n s) = asked_map s"
    unfolding recordForwarded_def by (rule upd) (simp_all add: asked_def)
  show "reg_inv (recordDropped src tpc s) \<and> asked_map (recordDropped src tpc s) = asked_map s"
    unfolding recordDropped_def by (rule upd) (simp_all add: asked_def)
  let ?f = "\<lambda>r. if st = 0 then r\<lparr>tr_pendingRequestSequence := 0, tr_effectiveRateMillihz := rate,
      tr_upstreamSubscriptionId := sid\<rparr> else r\<lparr>tr_pendingRequestSequence := 0\<rparr>"
  show "reg_inv (snd (onUpstreamSubscribeResult q st sid rate s)) \<and>
      asked_map (snd (onUpstreamSubscribeResult q st sid rate s)) = asked_map s"
  proof (cases "find_slot (\<lambda>r. tr_used r \<and> tr_pendingRequestSequence r \<noteq> 0 \<and>
                          tr_pendingRequestSequence r = q) (sr_rows s)")
    case None
    with s show ?thesis by (simp add: onUpstreamSubscribeResult_def)
  next
    case (Some i)
    then have "i < length (sr_rows s) \<and> tr_used (sr_rows s ! i)" by (auto dest: find_slot_SomeD)
    then show ?thesis
      using update_row_views [of ?f s src tpc i "snd (onUpstreamSubscribeResult q st sid rate s)"]
        Some s reg_invD(4) [OF s]
      by (auto simp: onUpstreamSubscribeResult_def Let_def asked_def)
  qed
qed

lemma sub_exec_facts:
  assumes s: "reg_inv s" and e: "sub_exec ev s = (acts, s')"
  shows "reg_inv s' \<and> fold apply_action acts (asked_map s) = asked_map s'"
proof (cases ev)
  case (EvSubscribe c src tpc rate lease nowMs)
  with e obtain out where "onDesktopSubscribe c src tpc rate lease nowMs s = (out, s')" "acts = [so_upstream out]"
    by (auto split: prod.splits)
  with subscribe_facts [OF s this(1)] show ?thesis by simp
next
  case (EvUnsubscribe c sid nowMs)
  with e obtain out where "onDesktopUnsubscribe c sid nowMs s = (out, s')" "acts = [uo_upstream out]"
    by (auto split: prod.splits)
  with unsubscribe_facts [OF s this(1)] show ?thesis by simp
next
  case (EvDisconnect c nowMs)
  obtain rs st where r: "rows_loop (disconnect_row c nowMs) kMaxTopics (sr_rows s) (0, Some out_buffer) = (rs, st)"
    by (cases "rows_loop (disconnect_row c nowMs) kMaxTopics (sr_rows s) (0, Some out_buffer)")
  note x = pass_exec [OF s disconnect_pass r]
  from e r EvDisconnect have "s' = s\<lparr>sr_rows := rs\<rparr>" "acts = emitted st"
    by (auto simp: onClientDisconnected_def)
  with x pass_facts(1,2) [OF s disconnect_pass refl] show ?thesis by (simp add: fold_loud)
next
  case (EvSweep nowMs)
  obtain rs st where r: "rows_loop (sweep_row nowMs) kMaxTopics (sr_rows s) (0, Some out_buffer) = (rs, st)"
    by (cases "rows_loop (sweep_row nowMs) kMaxTopics (sr_rows s) (0, Some out_buffer)")
  note x = pass_exec [OF s sweep_pass r]
  from e r EvSweep have "s' = s\<lparr>sr_rows := rs\<rparr>" "acts = emitted st"
    by (auto simp: sweep_def)
  with x pass_facts(1,2) [OF s sweep_pass refl] show ?thesis by (simp add: fold_loud)
qed (use e bookkeeping_views [OF s] in auto)

lemma sub_run_facts:
  "reg_inv s \<Longrightarrow> m = asked_map s \<Longrightarrow>
   reg_inv (fst (sub_run evs (s, m))) \<and> snd (sub_run evs (s, m)) = asked_map (fst (sub_run evs (s, m)))"
proof (induction evs arbitrary: s m)
  case (Cons e es)
  obtain acts s' where x: "sub_exec e s = (acts, s')" by (cases "sub_exec e s")
  show ?case
    using Cons.IH [of s' "fold apply_action acts m"] sub_exec_facts [OF Cons.prems(1) x] Cons.prems(2) x
    by simp
qed simp

text \<open>The aggregate of a set of live subscriptions: the highest rate and the longest lease.\<close>

definition union_of :: "(u32 \<rightharpoonup> client_sub) \<Rightarrow> (u32 \<times> u32) option" where
  "union_of f = (if f = Map.empty then None
     else Some (Max (cs_requestedRateMillihz ` ran f), Max (cs_requestedLeaseMs ` ran f)))"

lemma ran_empty_map_iff: "ran f = {} \<longleftrightarrow> f = Map.empty"
  by (cases "f = Map.empty") (force simp: ran_def fun_eq_iff)+

lemma ran_clients_get:
  "one_per_key cs_used cs_clientId cs \<Longrightarrow> ran (clients_get cs) = {c \<in> set cs. cs_used c}"
  by (auto simp: ran_def in_set_conv_nth dest!: slot_get_SomeD intro: slot_get_SomeI)

lemma Max_insert_0: "finite A \<Longrightarrow> A \<noteq> {} \<Longrightarrow> Max (insert (0::u32) A) = Max A"
  by (simp add: max_def)

lemma wanted_union: "clients_ok (tr_clients r) \<Longrightarrow> wanted r = union_of (clients_get (tr_clients r))"
proof -
  assume "clients_ok (tr_clients r)"
  then have ran: "ran (clients_get (tr_clients r)) = {c \<in> set (tr_clients r). cs_used c}"
    by (intro ran_clients_get) (simp add: clients_ok_def)
  have "refcount r = 0 \<longleftrightarrow> ran (clients_get (tr_clients r)) = {}"
    using refcount_pos [of r] unfolding ran by auto
  also have "\<dots> \<longleftrightarrow> clients_get (tr_clients r) = Map.empty"
    by (rule ran_empty_map_iff)
  finally have zero: "refcount r = 0 \<longleftrightarrow> clients_get (tr_clients r) = Map.empty" .
  show ?thesis
  proof (cases "refcount r = 0")
    case True
    with zero show ?thesis by (simp add: wanted_def union_of_def)
  next
    case False
    then have "live_rates r \<noteq> {}" "live_leases r \<noteq> {}"
      using refcount_pos [of r] by (auto simp: live_rates_def live_leases_def)
    then have "unionRateMillihz r = Max (live_rates r)" "unionLeaseMs r = Max (live_leases r)"
      unfolding unionRate_Max unionLease_Max
      by (simp_all add: Max_insert_0 live_rates_def live_leases_def)
    with False zero show ?thesis
      by (simp add: wanted_def union_of_def ran live_rates_def live_leases_def)
  qed
qed

lemma asked_map_union: "reg_inv s \<Longrightarrow> asked_map s k = union_of (live s k)"
proof (cases "slot_get tr_used row_key (sr_rows s) k")
  case None
  then show ?thesis by (simp add: asked_map_def live_def union_of_def)
next
  case (Some r)
  assume "reg_inv s"
  with Some have "row_ok r" by (auto simp: reg_inv_def dest!: slot_get_SomeD)
  then show ?thesis using Some wanted_union [of r]
    by (simp add: asked_map_def live_def row_ok_def)
qed

lemma slot_get_init: "slot_get tr_used row_key (sr_rows resetForTests) k = None"
  by (simp add: slot_get_None resetForTests_def freeRow_def)

lemma asked_map_init: "asked_map resetForTests = Map.empty"
  by (simp add: asked_map_def fun_eq_iff slot_get_init)

lemma live_SomeD:
  assumes "reg_inv s" and "live s k c = Some x"
  shows "cs_used x" "cs_clientId x = c" "client_ok x"
proof -
  obtain r where r: "slot_get tr_used row_key (sr_rows s) k = Some r" "clients_get (tr_clients r) c = Some x"
    using assms(2) by (auto simp: live_def split: option.splits)
  then have "row_ok r" using slot_get_mem [OF r(1)] assms(1) by (simp add: reg_inv_def)
  with slot_get_mem [OF r(2)] show "cs_used x" "cs_clientId x = c" "client_ok x"
    by (auto simp: row_ok_def clients_ok_def)
qed

section \<open>Properties\<close>

text \<open>C2. After any history of subscribe, unsubscribe, disconnect, sweep and bookkeeping calls from
  boot, what the robot was last asked for a topic (the effect of every action handed back so far)
  is exactly the aggregate of the clients now subscribed to it: nothing if there is none, otherwise
  the highest live rate and the longest live lease.\<close>

theorem robot_asked_is_union_of_live:
  "let (s, m) = sub_run evs (resetForTests, Map.empty) in m k = union_of (live s k)"
proof -
  have "reg_inv (fst (sub_run evs (resetForTests, Map.empty))) \<and>
      snd (sub_run evs (resetForTests, Map.empty)) = asked_map (fst (sub_run evs (resetForTests, Map.empty)))"
    by (rule sub_run_facts [OF reg_inv_init asked_map_init [symmetric]])
  then show ?thesis by (simp add: asked_map_union split_beta)
qed

text \<open>A subscribe that is accepted stores exactly that client's request (lease clamped to one
  second .. five minutes, deadline one lease ahead) under its topic, and leaves every other
  client of every topic as it was; one that is refused changes no subscription. A repeated
  identical request is answered with the identifier it already has, anything else with the next
  unused identifier.\<close>

theorem subscribe_refines_live:
  assumes "reg_inv s" and "onDesktopSubscribe c src tpc rate lease nowMs s = (out, s')"
  shows "(if so_accepted out
     then live s' = (live s)((src, tpc) := (live s (src, tpc))
            (c \<mapsto> new_client c (so_subscriptionId out) rate lease nowMs)) \<and>
          so_subscriptionId out =
            (case live s (src, tpc) c of
               Some x \<Rightarrow> if same_request c rate lease x then cs_subscriptionId x else sr_nextSubscriptionId s
             | None \<Rightarrow> sr_nextSubscriptionId s)
     else live s' = live s \<and> out = refused)"
  using subscribe_facts [OF assms] by blast

theorem subscribe_refines_live_witness:
  "live (snd (onDesktopSubscribe 5 1 2 3000 10 0 resetForTests)) (1, 2) 5 = Some (new_client 5 1 3000 10 0)"
proof -
  obtain out s' where o: "onDesktopSubscribe 5 1 2 3000 10 0 resetForTests = (out, s')"
    by (cases "onDesktopSubscribe 5 1 2 3000 10 0 resetForTests")
  have "so_accepted (fst (onDesktopSubscribe 5 1 2 3000 10 0 resetForTests))" by code_simp
  moreover have "sr_nextSubscriptionId resetForTests = 1" "live resetForTests (1, 2) 5 = None"
    by (simp_all add: resetForTests_def [THEN arg_cong [where f = sr_nextSubscriptionId]] live_def slot_get_init)
  ultimately show ?thesis
    using subscribe_refines_live [OF reg_inv_init o] o by auto
qed

text \<open>Unsubscribing removes at most the named subscription of that client and nothing else;
  an unknown identifier changes nothing and causes no radio traffic.\<close>

theorem unsubscribe_refines_live:
  assumes "reg_inv s" and "onDesktopUnsubscribe c sid nowMs s = (out, s')"
  shows "(if uo_found out
     then \<exists>k x. live s k c = Some x \<and> cs_subscriptionId x = sid \<and>
            live s' = (live s)(k := (live s k)(c := None))
     else live s' = live s \<and> uo_upstream out = noAction \<and>
            (\<forall>k x. live s k c = Some x \<longrightarrow> cs_subscriptionId x \<noteq> sid))"
  using unsubscribe_facts [OF assms] by blast

theorem unsubscribe_refines_live_witness:
  "live (snd (onDesktopUnsubscribe 5 1 7 resetForTests)) = live resetForTests"
proof -
  obtain out s' where o: "onDesktopUnsubscribe 5 1 7 resetForTests = (out, s')"
    by (cases "onDesktopUnsubscribe 5 1 7 resetForTests")
  have "\<not> uo_found (fst (onDesktopUnsubscribe 5 1 7 resetForTests))" by code_simp
  then show ?thesis using unsubscribe_refines_live [OF reg_inv_init o] o by auto
qed

text \<open>Lease expiry is exact across the 32-bit millisecond rollover: a sweep run \<open>d\<close>
  milliseconds (less than 2^31) after the deadline was set keeps the client if its lease has not
  run out and drops it if it has.\<close>

theorem sweep_expires_exactly:
  assumes "reg_inv s" and "live s k c = Some x" and "cs_leaseDeadlineMs x = t + cs_requestedLeaseMs x"
    and "unat d < 2 ^ 31"
  shows "live (snd (sweep (t + d) (Some out_buffer) kMaxTopics s)) k c =
    (if d < cs_requestedLeaseMs x then Some x else None)"
proof -
  let ?l = "cs_requestedLeaseMs x"
  have l: "unat ?l \<le> 300000"
    using live_SomeD [OF assms(1,2)] by (simp add: client_ok_def kMaxLeaseMs_def word_le_nat_alt)
  have diff: "t + d - cs_leaseDeadlineMs x = d - ?l" using assms(3) by simp
  have "reached (t + d) (cs_leaseDeadlineMs x) \<longleftrightarrow> \<not> d < ?l"
  proof (cases "d < ?l")
    case True
    then have "unat (d - ?l) = unat d + 2 ^ 32 - unat ?l"
      by (simp add: unat_sub_if' word_less_nat_alt)
    with True l show ?thesis unfolding reached_def diff by (simp add: word_less_nat_alt)
  next
    case False
    then have "unat (d - ?l) = unat d - unat ?l" by (simp add: unat_sub_if' word_less_nat_alt)
    with False assms(4) show ?thesis unfolding reached_def diff by (simp add: word_less_nat_alt)
  qed
  moreover obtain rs st where r: "rows_loop (sweep_row (t + d)) kMaxTopics (sr_rows s) (0, Some out_buffer) = (rs, st)"
    by (cases "rows_loop (sweep_row (t + d)) kMaxTopics (sr_rows s) (0, Some out_buffer)")
  moreover have "snd (sweep (t + d) (Some out_buffer) kMaxTopics s) =
      s\<lparr>sr_rows := map (\<lambda>r. snd (sweep_row (t + d) r)) (sr_rows s)\<rparr>"
    using r pass_exec(1) [OF assms(1) sweep_pass r] by (simp add: sweep_def)
  ultimately show ?thesis
    using pass_facts(3) [OF assms(1) sweep_pass, of _ "t + d" k c] assms(2) by simp
qed

theorem sweep_expires_exactly_witness:
  "let s = snd (onDesktopSubscribe 5 1 2 3000 2000 (-500) resetForTests) in
   live (snd (sweep (-500 + 1999) (Some out_buffer) kMaxTopics s)) (1, 2) 5 = Some (new_client 5 1 3000 2000 (-500)) \<and>
   live (snd (sweep (-500 + 2000) (Some out_buffer) kMaxTopics s)) (1, 2) 5 = None"
proof -
  let ?s = "snd (onDesktopSubscribe 5 1 2 3000 2000 (-500) resetForTests)"
  let ?x = "new_client 5 1 3000 2000 (-500)"
  obtain out s' where o: "onDesktopSubscribe 5 1 2 3000 2000 (-500) resetForTests = (out, s')"
    by (cases "onDesktopSubscribe 5 1 2 3000 2000 (-500) resetForTests")
  have s: "reg_inv ?s" using subscribe_facts [OF reg_inv_init o] o by simp
  have "so_accepted (fst (onDesktopSubscribe 5 1 2 3000 2000 (-500) resetForTests))"
    "so_subscriptionId (fst (onDesktopSubscribe 5 1 2 3000 2000 (-500) resetForTests)) = 1"
    by code_simp+
  then have x: "live ?s (1, 2) 5 = Some ?x"
    using subscribe_facts [OF reg_inv_init o] o by simp
  have l: "cs_requestedLeaseMs ?x = 2000" "cs_leaseDeadlineMs ?x = -500 + cs_requestedLeaseMs ?x"
    by (simp_all add: new_client_def clampLease_def kMinLeaseMs_def kMaxLeaseMs_def)
  show ?thesis
    using sweep_expires_exactly [OF s x l(2), of 1999] sweep_expires_exactly [OF s x l(2), of 2000]
    by (simp add: l Let_def)
qed

text \<open>The sweep hands the robot a frame for a topic exactly when one is needed: with the
  record of what was asked in agreement with the live union, a pass is silent unless a client's
  departure changed the union or the renewal instant (half the lease) has been reached.\<close>

theorem sweep_silent_iff:
  assumes "row_ok r" and "tr_used r"
  shows "ua_kind (fst (sweep_row nowMs r)) = UpNone \<longleftrightarrow>
    union_of (clients_get (map (expire_client nowMs) (tr_clients r))) = union_of (clients_get (tr_clients r)) \<and>
    \<not> (tr_upstreamActive r \<and> reached nowMs (tr_upstreamRenewAtMs r))"
proof -
  let ?q = "r\<lparr>tr_clients := map (expire_client nowMs) (tr_clients r)\<rparr>"
  have ok: "clients_ok (tr_clients r)" using assms(1) by (simp add: row_ok_def)
  then have ok': "clients_ok (tr_clients ?q)" by (simp add: free_if_eqs clients_ok_free_if)
  have "sweep_row nowMs r = evaluateUpstream ?q nowMs" using assms(2) by (simp add: sweep_row_def)
  moreover have "asked ?q = asked r" by (simp add: asked_def)
  moreover have "asked r = wanted r" using assms(1) by (simp add: row_ok_def)
  ultimately show ?thesis
    using eval_silent_iff [of ?q nowMs] wanted_union [OF ok] wanted_union [OF ok']
    by (simp add: eq_commute)
qed

theorem sweep_silent_iff_witness:
  "let r = sr_rows (snd (onDesktopSubscribe 5 1 2 3000 2000 0 resetForTests)) ! 0 in
   ua_kind (fst (sweep_row 999 r)) = UpNone \<and> ua_kind (fst (sweep_row 1000 r)) \<noteq> UpNone"
proof -
  let ?s = "snd (onDesktopSubscribe 5 1 2 3000 2000 0 resetForTests)"
  let ?r = "sr_rows ?s ! 0"
  obtain out s' where o: "onDesktopSubscribe 5 1 2 3000 2000 0 resetForTests = (out, s')"
    by (cases "onDesktopSubscribe 5 1 2 3000 2000 0 resetForTests")
  have s: "reg_inv ?s" using subscribe_facts [OF reg_inv_init o] o by simp
  have ok: "row_ok ?r" using reg_invD(3) [OF s, of 0] reg_invD(1) [OF s] by (simp add: kMaxTopics_def)
  have u: "tr_used ?r" by code_simp
  have "map (expire_client 999) (tr_clients ?r) = tr_clients ?r"
    "\<not> reached 999 (tr_upstreamRenewAtMs ?r)" "tr_upstreamActive ?r" "reached 1000 (tr_upstreamRenewAtMs ?r)"
    by code_simp+
  with sweep_silent_iff [OF ok u, of 999] sweep_silent_iff [OF ok u, of 1000] show ?thesis
    by (simp add: Let_def)
qed

end
