(* ===== verification/Btp_Types.thy ===== *)
theory Btp_Types
  imports Dongle_Prelude
begin

text \<open>
  The vocabulary of the BTP library (a sibling repository) as far as the firmware reads it:
  the message types and decoder verdicts it switches on, the logical header fields it looks
  at, and byte views. The library's own functions are parameters of the models that call them.
\<close>

datatype message_type =
  MtInvalid | MtTelemetry | MtCommand | MtControl | MtLog | MtTerminal

datatype message_error =
    MeOk | MePayloadTooShort | MeReservedNotZero | MeTrailingBytes | MeLengthOverflow
  | MeCountTooLarge | MeZeroField | MeNotAscending | MeOther u8

record btp_header =
  hd_type :: message_type
  hd_object_id :: u16
  hd_source_id :: u32
  hd_boot_id :: u32
  hd_sequence :: u32
  hd_timestamp_us :: u64

text \<open>\<open>btp::ByteView\<close>: a pointer and a size. The null pointer can come with any size.\<close>

datatype byte_view = NullView nat | View bytes

fun view_size :: "byte_view \<Rightarrow> nat" where
  "view_size (NullView n) = n"
| "view_size (View bs) = length bs"

fun view_null :: "byte_view \<Rightarrow> bool" where
  "view_null (NullView n) = True"
| "view_null (View bs) = False"

fun view_bytes :: "byte_view \<Rightarrow> bytes" where
  "view_bytes (NullView n) = []"
| "view_bytes (View bs) = bs"

record logical_message =
  lm_type :: message_type
  lm_object_id :: u16
  lm_timestamp_us :: u64
  lm_payload :: byte_view

text \<open>What handing frames one by one to a send callback does, stopping at the first refusal:
  the documented behaviour of the library's senders.\<close>

fun run_frames :: "(bytes \<Rightarrow> 'c \<Rightarrow> bool \<times> 'c) \<Rightarrow> bytes list \<Rightarrow> 'c \<Rightarrow> bool \<times> 'c" where
  "run_frames send [] c = (True, c)"
| "run_frames send (f # fs) c =
     (case send f c of (ok, c') \<Rightarrow> if ok then run_frames send fs c' else (False, c'))"

end
