(* ===== verification/Peer_Table.thy ===== *)
theory Peer_Table
  imports Table_Interfaces
begin

text \<open>
  The peer identity table of \<open>lib/BtpTransport\<close>: one slot per ESP-NOW MAC from which a
  channel-C frame has passed authentication, with the last heartbeat verdict and the round
  trip of the last ping. The static array \<open>g_peers\<close> is the state; every operation holds the
  table's critical section for its whole body, so operations are atomic steps. A nullable
  pointer argument is an option.
\<close>

section \<open>State and operations\<close>

type_synonym mac = "u8 \<times> u8 \<times> u8 \<times> u8 \<times> u8 \<times> u8"

definition kPeerIdentityCapacity :: nat where "kPeerIdentityCapacity = 16"

record peer_identity =
  pi_used :: bool
  pi_mac :: mac
  pi_sourceId :: u32
  pi_bootId :: u32
  pi_lastAuthenticatedMs :: u32
  pi_linkOk :: bool
  pi_rssi :: "8 word"
  pi_pingPending :: bool
  pi_pingSequence :: u32
  pi_pingSentMs :: u32
  pi_rttMs :: u32

type_synonym peer_table = "peer_identity list"

definition freePeer :: peer_identity where
  "freePeer = \<lparr>pi_used = False, pi_mac = (0, 0, 0, 0, 0, 0), pi_sourceId = 0, pi_bootId = 0,
     pi_lastAuthenticatedMs = 0, pi_linkOk = False, pi_rssi = -128, pi_pingPending = False,
     pi_pingSequence = 0, pi_pingSentMs = 0, pi_rttMs = 0\<rparr>"

definition peers_init :: peer_table where
  "peers_init = replicate kPeerIdentityCapacity freePeer"

definition sameMac :: "mac \<Rightarrow> mac \<Rightarrow> bool" where
  "sameMac lhs rhs \<longleftrightarrow> lhs = rhs"

definition find_mac :: "mac \<Rightarrow> peer_table \<Rightarrow> nat option" where
  "find_mac mac t = find_slot (\<lambda>p. pi_used p \<and> sameMac (pi_mac p) mac) t"

definition rememberAuthenticatedPeer ::
  "mac option \<Rightarrow> u32 \<Rightarrow> u32 \<Rightarrow> u32 \<Rightarrow> 8 word \<Rightarrow> peer_table \<Rightarrow> peer_table" where
  "rememberAuthenticatedPeer macPtr sourceId bootId nowMs rssi t =
     (case macPtr of
        None \<Rightarrow> t
      | Some mac \<Rightarrow>
          if sourceId = 0 \<or> bootId = 0 then t
          else case find_mac mac t of
                 Some i \<Rightarrow>
                   t[i := (t ! i)\<lparr>pi_sourceId := sourceId, pi_bootId := bootId,
                        pi_lastAuthenticatedMs := nowMs, pi_rssi := rssi\<rparr>]
               | None \<Rightarrow>
                   (case find_slot (\<lambda>p. \<not> pi_used p) t of
                      Some i \<Rightarrow>
                        t[i := (t ! i)\<lparr>pi_used := True, pi_mac := mac, pi_sourceId := sourceId,
                             pi_bootId := bootId, pi_lastAuthenticatedMs := nowMs, pi_rssi := rssi,
                             pi_linkOk := False\<rparr>]
                    | None \<Rightarrow>
                        t[0 := (t ! 0)\<lparr>pi_used := True, pi_mac := mac, pi_sourceId := sourceId,
                             pi_bootId := bootId, pi_lastAuthenticatedMs := nowMs, pi_rssi := rssi,
                             pi_linkOk := False\<rparr>]))"

definition notePeerLinkResult :: "mac option \<Rightarrow> bool \<Rightarrow> peer_table \<Rightarrow> peer_table" where
  "notePeerLinkResult macPtr delivered t =
     (case macPtr of
        None \<Rightarrow> t
      | Some mac \<Rightarrow>
          (case find_mac mac t of
             Some i \<Rightarrow> t[i := (t ! i)\<lparr>pi_linkOk := delivered\<rparr>]
           | None \<Rightarrow> t))"

definition notePingSent :: "mac option \<Rightarrow> u32 \<Rightarrow> u32 \<Rightarrow> peer_table \<Rightarrow> peer_table" where
  "notePingSent macPtr sequence nowMs t =
     (case macPtr of
        None \<Rightarrow> t
      | Some mac \<Rightarrow>
          (case find_mac mac t of
             Some i \<Rightarrow> t[i := (t ! i)\<lparr>pi_pingPending := True, pi_pingSequence := sequence,
                            pi_pingSentMs := nowMs\<rparr>]
           | None \<Rightarrow> t))"

definition notePingReply :: "mac option \<Rightarrow> u32 \<Rightarrow> u32 \<Rightarrow> peer_table \<Rightarrow> peer_table" where
  "notePingReply macPtr replyToSequence nowMs t =
     (case macPtr of
        None \<Rightarrow> t
      | Some mac \<Rightarrow>
          (case find_mac mac t of
             Some i \<Rightarrow>
               if pi_pingPending (t ! i) \<and> pi_pingSequence (t ! i) = replyToSequence
               then t[i := (t ! i)\<lparr>pi_rttMs := nowMs - pi_pingSentMs (t ! i), pi_pingPending := False\<rparr>]
               else t
           | None \<Rightarrow> t))"

record peer_snapshot =
  ps_mac :: mac
  ps_sourceId :: u32
  ps_bootId :: u32
  ps_lastAuthenticatedMs :: u32
  ps_linkOk :: bool
  ps_rssi :: "8 word"
  ps_rttMs :: u32

definition snapshot_of :: "peer_identity \<Rightarrow> peer_snapshot" where
  "snapshot_of p = \<lparr>ps_mac = pi_mac p, ps_sourceId = pi_sourceId p, ps_bootId = pi_bootId p,
     ps_lastAuthenticatedMs = pi_lastAuthenticatedMs p, ps_linkOk = pi_linkOk p, ps_rssi = pi_rssi p,
     ps_rttMs = pi_rttMs p\<rparr>"

definition enumeratePeers :: "bool \<Rightarrow> nat \<Rightarrow> peer_table \<Rightarrow> peer_snapshot list" where
  "enumeratePeers outNull maxOut t =
     (if outNull \<or> maxOut = 0 then [] else collect pi_used snapshot_of maxOut t [])"

text \<open>\<open>None\<close> is the result false; the out-pointers receive the pair otherwise.\<close>

definition lookupPeer :: "mac option \<Rightarrow> peer_table \<Rightarrow> (u32 \<times> u32) option" where
  "lookupPeer macPtr t =
     (case macPtr of
        None \<Rightarrow> None
      | Some mac \<Rightarrow>
          (case find_mac mac t of
             Some i \<Rightarrow> Some (pi_sourceId (t ! i), pi_bootId (t ! i))
           | None \<Rightarrow> None))"

definition lookupPeerMacBySourceId :: "u32 \<Rightarrow> bool \<Rightarrow> peer_table \<Rightarrow> (mac \<times> u32) option" where
  "lookupPeerMacBySourceId sourceId outNull t =
     (if sourceId = 0 \<or> outNull then None
      else case find_slot (\<lambda>p. pi_used p \<and> pi_sourceId p = sourceId) t of
             Some i \<Rightarrow> Some (pi_mac (t ! i), pi_bootId (t ! i))
           | None \<Rightarrow> None)"

definition resetPeerTableForTests :: "peer_table \<Rightarrow> peer_table" where
  "resetPeerTableForTests t = map (\<lambda>_. freePeer\<lparr>pi_rssi := 0\<rparr>) t"

text \<open>\<open>source_id_from_mac\<close>: the last four octets of the MAC, big-endian; BTP reserves 0.\<close>

definition source_id_from_mac :: "mac option \<Rightarrow> u32" where
  "source_id_from_mac macPtr =
     (case macPtr of
        None \<Rightarrow> 0
      | Some (m0, m1, m2, m3, m4, m5) \<Rightarrow>
          (let sourceId = push_bit 24 (ucast m2) OR push_bit 16 (ucast m3) OR
                          push_bit 8 (ucast m4) OR ucast m5
           in if sourceId = 0 then 1 else sourceId))"

section \<open>The table as a bounded cache of identities\<close>

definition peers_inv :: "peer_table \<Rightarrow> bool" where
  "peers_inv t \<longleftrightarrow> length t = kPeerIdentityCapacity \<and> one_per_key pi_used pi_mac t \<and>
     (\<forall>p\<in>set t. pi_used p \<longrightarrow> pi_sourceId p \<noteq> 0 \<and> pi_bootId p \<noteq> 0)"

definition identity_of :: "peer_identity \<Rightarrow> u32 \<times> u32" where
  "identity_of p = (pi_sourceId p, pi_bootId p)"

definition identities :: "peer_table \<Rightarrow> mac \<Rightarrow> (u32 \<times> u32) option" where
  "identities t m = map_option identity_of (slot_get pi_used pi_mac t m)"

lemma find_mac_eq: "find_mac m t = find_slot (\<lambda>p. pi_used p \<and> pi_mac p = m) t"
  by (simp add: find_mac_def sameMac_def)

lemma lookupPeer_identities: "lookupPeer (Some m) t = identities t m"
  by (simp add: lookupPeer_def identities_def slot_get_def find_mac_eq identity_of_def split: option.splits)

lemma peers_inv_init: "peers_inv peers_init"
  by (auto simp: peers_inv_def peers_init_def one_per_key_iff freePeer_def)

lemma identities_init: "identities peers_init = Map.empty"
  by (simp add: identities_def peers_init_def freePeer_def fun_eq_iff slot_get_None)

text \<open>Writing to slot \<open>i\<close> a record for a MAC that no other slot holds.\<close>

lemma peers_write:
  assumes t: "peers_inv t" and i: "i < length t"
    and p: "pi_used p" "pi_sourceId p \<noteq> 0" "pi_bootId p \<noteq> 0"
    and other: "\<And>j. j < length t \<Longrightarrow> j \<noteq> i \<Longrightarrow> pi_used (t ! j) \<Longrightarrow> pi_mac (t ! j) \<noteq> pi_mac p"
  shows "peers_inv (t[i := p])"
    and "slot_get pi_used pi_mac (t[i := p]) (pi_mac p) = Some p"
    and "m \<noteq> pi_mac p \<Longrightarrow> \<not> (pi_used (t ! i) \<and> pi_mac (t ! i) = m) \<Longrightarrow>
           slot_get pi_used pi_mac (t[i := p]) m = slot_get pi_used pi_mac t m"
    and "m \<noteq> pi_mac p \<Longrightarrow> pi_used (t ! i) \<Longrightarrow> pi_mac (t ! i) = m \<Longrightarrow>
           slot_get pi_used pi_mac (t[i := p]) m = None"
proof -
  have inj: "one_per_key pi_used pi_mac t" using t by (simp add: peers_inv_def)
  have inj': "one_per_key pi_used pi_mac (t[i := p])"
    by (rule one_per_key_update [OF inj]) (use other in auto)
  show "peers_inv (t[i := p])"
    using t p inj' by (auto simp: peers_inv_def dest!: set_update_subset_insert [THEN subsetD])
  show "slot_get pi_used pi_mac (t[i := p]) (pi_mac p) = Some p"
    by (rule slot_get_update_same [OF inj' i p(1) refl])
  show "slot_get pi_used pi_mac (t[i := p]) m = slot_get pi_used pi_mac t m"
    if "m \<noteq> pi_mac p" "\<not> (pi_used (t ! i) \<and> pi_mac (t ! i) = m)"
    by (rule slot_get_update_other [OF inj i]) (use that in auto)
  show "slot_get pi_used pi_mac (t[i := p]) m = None"
    if "m \<noteq> pi_mac p" "pi_used (t ! i)" "pi_mac (t ! i) = m"
    using that i inj by (auto simp: slot_get_None nth_list_update dest: one_per_keyD)
qed

lemma remember_cases:
  assumes t: "peers_inv t" and ids: "src \<noteq> 0" "boot \<noteq> 0"
  obtains i p where "i < length t" "pi_used p" "pi_mac p = m" "identity_of p = (src, boot)"
    "rememberAuthenticatedPeer (Some m) src boot nowMs rssi t = t[i := p]"
    "(pi_used (t ! i) \<and> pi_mac (t ! i) = m) \<or>
     (slot_get pi_used pi_mac t m = None \<and> (\<not> pi_used (t ! i) \<or> (i = 0 \<and> (\<forall>q\<in>set t. pi_used q))))"
    "pi_linkOk p \<longrightarrow> pi_used (t ! i) \<and> pi_mac (t ! i) = m"
proof (cases "find_mac m t")
  case (Some i)
  then have "i < length t" "pi_used (t ! i)" "pi_mac (t ! i) = m"
    by (auto simp: find_mac_eq dest: find_slot_SomeD)
  with Some ids show ?thesis
    by (intro that [of i "(t ! i)\<lparr>pi_sourceId := src, pi_bootId := boot,
                        pi_lastAuthenticatedMs := nowMs, pi_rssi := rssi\<rparr>"])
       (auto simp: rememberAuthenticatedPeer_def identity_of_def)
next
  case None
  then have miss: "slot_get pi_used pi_mac t m = None"
    by (simp add: slot_get_def find_mac_eq)
  let ?new = "\<lambda>i. (t ! i)\<lparr>pi_used := True, pi_mac := m, pi_sourceId := src,
                 pi_bootId := boot, pi_lastAuthenticatedMs := nowMs, pi_rssi := rssi, pi_linkOk := False\<rparr>"
  show ?thesis
  proof (cases "find_slot (\<lambda>p. \<not> pi_used p) t")
    case (Some i)
    then have "i < length t" "\<not> pi_used (t ! i)" by (auto dest: find_slot_SomeD)
    with None Some ids miss show ?thesis
      by (intro that [of i "?new i"]) (auto simp: rememberAuthenticatedPeer_def identity_of_def)
  next
    case full: None
    have "0 < length t" using t by (simp add: peers_inv_def kPeerIdentityCapacity_def)
    moreover have "\<forall>q\<in>set t. pi_used q" using full by (simp add: find_slot_None)
    ultimately show ?thesis using None full ids miss
      by (intro that [of 0 "?new 0"]) (auto simp: rememberAuthenticatedPeer_def identity_of_def)
  qed
qed

lemma remember_facts:
  fixes m k :: mac and nowMs :: u32 and rssi :: "8 word"
  assumes t: "peers_inv t" and ids: "src \<noteq> 0" "boot \<noteq> 0"
  defines "t' \<equiv> rememberAuthenticatedPeer (Some m) src boot nowMs rssi t"
  shows "peers_inv t'" and "identities t' m = Some (src, boot)"
    and "k \<noteq> m \<Longrightarrow> identities t' k = identities t k \<or> identities t' k = None"
    and "k \<noteq> m \<Longrightarrow> m \<in> dom (identities t) \<or> card (dom (identities t)) < kPeerIdentityCapacity \<Longrightarrow>
           identities t' k = identities t k"
proof -
  obtain i p where ip: "i < length t" "pi_used p" "pi_mac p = m" "identity_of p = (src, boot)"
    and t': "t' = t[i := p]"
    and how: "(pi_used (t ! i) \<and> pi_mac (t ! i) = m) \<or>
     (slot_get pi_used pi_mac t m = None \<and> (\<not> pi_used (t ! i) \<or> (i = 0 \<and> (\<forall>q\<in>set t. pi_used q))))"
    unfolding t'_def by (rule remember_cases [OF t ids, of m nowMs rssi]) blast
  have inj: "one_per_key pi_used pi_mac t" using t by (simp add: peers_inv_def)
  have other: "pi_mac (t ! j) \<noteq> pi_mac p" if "j < length t" "j \<noteq> i" "pi_used (t ! j)" for j
    using how that ip inj by (auto simp: slot_get_None dest: one_per_keyD)
  have pid: "pi_sourceId p \<noteq> 0" "pi_bootId p \<noteq> 0" using ip ids by (auto simp: identity_of_def)
  note w = peers_write [OF t ip(1,2) pid other]
  show "peers_inv t'" unfolding t' by (rule w)
  show "identities t' m = Some (src, boot)" using w(2) ip by (simp add: identities_def t')
  have same: "identities t' k = identities t k" if "k \<noteq> m" "\<not> (pi_used (t ! i) \<and> pi_mac (t ! i) = k)"
    using w(3) that ip by (simp add: identities_def t')
  show "identities t' k = identities t k \<or> identities t' k = None" if "k \<noteq> m"
  proof (cases "pi_used (t ! i) \<and> pi_mac (t ! i) = k")
    case True
    with w(4) [of k] that ip show ?thesis by (simp add: identities_def t')
  next
    case False
    with same [OF that] show ?thesis by simp
  qed
  show "identities t' k = identities t k"
    if "k \<noteq> m" "m \<in> dom (identities t) \<or> card (dom (identities t)) < kPeerIdentityCapacity"
  proof (rule same [OF that(1)])
    have "length (filter pi_used t) = card (dom (slot_get pi_used pi_mac t))"
      by (rule card_dom_slot_get [OF inj, symmetric])
    moreover have "dom (slot_get pi_used pi_mac t) = dom (identities t)"
      by (auto simp: identities_def)
    moreover have "filter pi_used t = t" if "\<forall>q\<in>set t. pi_used q"
      using that by (simp add: filter_id_conv)
    ultimately have "\<not> (\<forall>q\<in>set t. pi_used q)" if "card (dom (identities t)) < kPeerIdentityCapacity"
      using that t by (metis less_irrefl peers_inv_def)
    then show "\<not> (pi_used (t ! i) \<and> pi_mac (t ! i) = k)"
      using how that by (auto simp: identities_def domIff)
  qed
qed

lemma remember_ignored:
  "src = 0 \<or> boot = 0 \<Longrightarrow> rememberAuthenticatedPeer (Some m) src boot nowMs rssi t = t"
  by (auto simp: rememberAuthenticatedPeer_def)

text \<open>The cache contract, with what a frame tells of its MAC packed into one value.\<close>

type_synonym frame_facts = "u32 \<times> u32 \<times> u32 \<times> 8 word"

definition frame_ok :: "mac \<Rightarrow> frame_facts \<Rightarrow> bool" where
  "frame_ok m w \<longleftrightarrow> fst w \<noteq> 0 \<and> fst (snd w) \<noteq> 0"

definition frame_store :: "mac \<Rightarrow> frame_facts \<Rightarrow> peer_table \<Rightarrow> peer_table" where
  "frame_store m w t = (case w of (src, boot, nowMs, rssi) \<Rightarrow> rememberAuthenticatedPeer (Some m) src boot nowMs rssi t)"

definition frame_identity :: "mac \<Rightarrow> frame_facts \<Rightarrow> u32 \<times> u32" where
  "frame_identity m w = (fst w, fst (snd w))"

lemmas frame_defs = frame_ok_def frame_store_def frame_identity_def

interpretation peers: bounded_cache
  peers_inv identities frame_ok frame_store frame_identity kPeerIdentityCapacity
proof unfold_locales
  fix t :: peer_table and k k' :: mac and w :: frame_facts
  obtain src boot nowMs rssi where w: "w = (src, boot, nowMs, rssi)" by (cases w)
  assume t: "peers_inv t"
  show "finite (dom (identities t))"
    using dom_slot_get [of pi_used pi_mac t] by (simp add: identities_def dom_def)
  show "peers_inv (frame_store k w t)"
    using t w remember_facts(1) [OF t] remember_ignored
    by (cases "src = 0 \<or> boot = 0") (auto simp: frame_defs)
  show "identities (frame_store k w t) k = Some (frame_identity k w)" if "frame_ok k w"
    using that w remember_facts(2) [OF t] by (auto simp: frame_defs)
  show "identities (frame_store k w t) k' = identities t k' \<or> identities (frame_store k w t) k' = None"
    if "k' \<noteq> k"
    using that w remember_facts(3) [OF t, of src boot k'] remember_ignored
    by (cases "src = 0 \<or> boot = 0") (auto simp: frame_defs)
  show "identities (frame_store k w t) k' = identities t k'"
    if "k \<in> dom (identities t) \<or> card (dom (identities t)) < kPeerIdentityCapacity" "k' \<noteq> k"
    using that w remember_facts(4) [OF t, of src boot k'] remember_ignored
    by (cases "src = 0 \<or> boot = 0") (auto simp: frame_defs)
  show "frame_store k w t = t" if "\<not> frame_ok k w"
    using that w remember_ignored by (auto simp: frame_defs)
qed

text \<open>A note on a known peer rewrites one slot without touching its identity.\<close>

lemma note_slot:
  assumes t: "peers_inv t" and f: "find_mac m t = Some i"
    and p: "pi_used p = pi_used (t ! i)" "pi_mac p = pi_mac (t ! i)" "identity_of p = identity_of (t ! i)"
  shows "peers_inv (t[i := p])" and "identities (t[i := p]) = identities t"
    and "slot_get pi_used pi_mac (t[i := p]) m = Some p"
    and "k \<noteq> m \<Longrightarrow> slot_get pi_used pi_mac (t[i := p]) k = slot_get pi_used pi_mac t k"
proof -
  have i: "i < length t" "pi_used (t ! i)" "pi_mac (t ! i) = m"
    using f by (auto simp: find_mac_eq dest: find_slot_SomeD)
  have inj: "one_per_key pi_used pi_mac t" using t by (simp add: peers_inv_def)
  have "t ! i \<in> set t" using i by simp
  with t i p have pid: "pi_sourceId p \<noteq> 0" "pi_bootId p \<noteq> 0"
    by (auto simp: peers_inv_def identity_of_def)
  have other: "pi_mac (t ! j) \<noteq> pi_mac p" if "j < length t" "j \<noteq> i" "pi_used (t ! j)" for j
    using that i p inj by (auto dest: one_per_keyD)
  have u: "pi_used p" using p i by simp
  note w = peers_write [OF t i(1) u pid other]
  show "peers_inv (t[i := p])" by (rule w)
  show same: "slot_get pi_used pi_mac (t[i := p]) m = Some p" using w(2) p i by simp
  show other': "slot_get pi_used pi_mac (t[i := p]) k = slot_get pi_used pi_mac t k" if "k \<noteq> m" for k
    using w(3) [of k] that p i by simp
  have old: "slot_get pi_used pi_mac t m = Some (t ! i)"
    using f by (simp add: slot_get_def find_mac_eq)
  show "identities (t[i := p]) = identities t"
  proof
    fix k show "identities (t[i := p]) k = identities t k"
      using same other' old p by (cases "k = m") (simp_all add: identities_def)
  qed
qed

lemma note_facts:
  assumes "peers_inv t"
  shows "peers_inv (notePeerLinkResult mp ok t) \<and> identities (notePeerLinkResult mp ok t) = identities t"
    and "peers_inv (notePingSent mp q now t) \<and> identities (notePingSent mp q now t) = identities t"
    and "peers_inv (notePingReply mp q now t) \<and> identities (notePingReply mp q now t) = identities t"
  using assms note_slot [OF assms]
  by (auto simp: notePeerLinkResult_def notePingSent_def notePingReply_def identity_of_def
      split: option.splits)

section \<open>Histories\<close>

datatype peer_event =
    PeerFrame "mac option" u32 u32 u32 "8 word"
  | PeerProbe "mac option" bool
  | PeerPing "mac option" u32 u32
  | PeerPong "mac option" u32 u32

fun peer_exec :: "peer_event \<Rightarrow> peer_table \<Rightarrow> peer_table" where
  "peer_exec (PeerFrame mp src boot nowMs rssi) t = rememberAuthenticatedPeer mp src boot nowMs rssi t"
| "peer_exec (PeerProbe mp ok) t = notePeerLinkResult mp ok t"
| "peer_exec (PeerPing mp q nowMs) t = notePingSent mp q nowMs t"
| "peer_exec (PeerPong mp q nowMs) t = notePingReply mp q nowMs t"

text \<open>What an unbounded memory of authenticated frames would hold.\<close>

fun peer_spec :: "peer_event \<Rightarrow> (mac \<rightharpoonup> u32 \<times> u32) \<Rightarrow> (mac \<rightharpoonup> u32 \<times> u32)" where
  "peer_spec (PeerFrame (Some m) src boot nowMs rssi) h =
     (if src \<noteq> 0 \<and> boot \<noteq> 0 then h(m \<mapsto> (src, boot)) else h)"
| "peer_spec _ h = h"

lemma peer_exec_facts:
  assumes t: "peers_inv t"
  shows "peers_inv (peer_exec e t)"
    and "identities t \<subseteq>\<^sub>m h \<Longrightarrow> identities (peer_exec e t) \<subseteq>\<^sub>m peer_spec e h"
    and "identities t = h \<Longrightarrow> card (dom (peer_spec e h)) \<le> kPeerIdentityCapacity \<Longrightarrow>
           identities (peer_exec e t) = peer_spec e h"
proof -
  have "peers_inv (peer_exec e t) \<and>
    (identities t \<subseteq>\<^sub>m h \<longrightarrow> identities (peer_exec e t) \<subseteq>\<^sub>m peer_spec e h) \<and>
    (identities t = h \<longrightarrow> card (dom (peer_spec e h)) \<le> kPeerIdentityCapacity \<longrightarrow>
      identities (peer_exec e t) = peer_spec e h)"
  proof (cases e)
    case (PeerFrame mp src boot nowMs rssi)
    show ?thesis
    proof (cases mp)
      case None
      with PeerFrame t show ?thesis by (simp add: rememberAuthenticatedPeer_def)
    next
      case (Some m)
      note x = PeerFrame Some peers.believe_def
      show ?thesis
        using peers.store_inv [OF t, of m "(src, boot, nowMs, rssi)"]
          peers.store_sound [OF t, of h m "(src, boot, nowMs, rssi)"]
          peers.store_complete [OF t, of h m "(src, boot, nowMs, rssi)"]
        by (auto simp: x frame_defs split: if_splits)
    qed
  qed (use note_facts [OF t] t in auto)
  then show "peers_inv (peer_exec e t)"
    and "identities t \<subseteq>\<^sub>m h \<Longrightarrow> identities (peer_exec e t) \<subseteq>\<^sub>m peer_spec e h"
    and "identities t = h \<Longrightarrow> card (dom (peer_spec e h)) \<le> kPeerIdentityCapacity \<Longrightarrow>
           identities (peer_exec e t) = peer_spec e h" by blast+
qed

lemma peer_spec_grows: "dom h \<subseteq> dom (peer_spec e h)"
  by (cases "(e, h)" rule: peer_spec.cases) auto

lemma fold_peer_spec_grows: "dom h \<subseteq> dom (fold peer_spec es h)"
proof (induction es arbitrary: h)
  case (Cons e es)
  show ?case using peer_spec_grows [of h e] Cons.IH [of "peer_spec e h"] by auto
qed simp

lemma finite_fold_peer_spec: "finite (dom h) \<Longrightarrow> finite (dom (fold peer_spec es h))"
proof (induction es arbitrary: h)
  case (Cons e es)
  have "finite (dom (peer_spec e h))" using Cons.prems by (cases "(e, h)" rule: peer_spec.cases) auto
  with Cons.IH show ?case by simp
qed simp

lemma peer_run_inv: "peers_inv t \<Longrightarrow> peers_inv (fold peer_exec es t)"
  by (induction es arbitrary: t) (auto intro: peer_exec_facts)

lemma peer_run_sound:
  "peers_inv t \<Longrightarrow> identities t \<subseteq>\<^sub>m h \<Longrightarrow> identities (fold peer_exec es t) \<subseteq>\<^sub>m fold peer_spec es h"
  by (induction es arbitrary: t h) (auto intro: peer_exec_facts)

lemma peer_run_complete:
  "peers_inv t \<Longrightarrow> identities t = h \<Longrightarrow> finite (dom h) \<Longrightarrow>
   card (dom (fold peer_spec es h)) \<le> kPeerIdentityCapacity \<Longrightarrow>
   identities (fold peer_exec es t) = fold peer_spec es h"
proof (induction es arbitrary: t h)
  case (Cons e es)
  have fin: "finite (dom (peer_spec e h))"
    using Cons.prems(3) finite_fold_peer_spec [of h "[e]"] by simp
  have "card (dom (peer_spec e h)) \<le> card (dom (fold peer_spec es (peer_spec e h)))"
    by (rule card_mono [OF finite_fold_peer_spec [OF fin] fold_peer_spec_grows])
  with Cons.prems have "identities (peer_exec e t) = peer_spec e h"
    by (intro peer_exec_facts(3)) auto
  with Cons.prems fin show ?case
    using Cons.IH [of "peer_exec e t" "peer_spec e h"] peer_exec_facts(1) by auto
qed simp

section \<open>Properties\<close>

text \<open>C3. After any history of authenticated frames, heartbeat verdicts and pings from boot, the
  identity the table reports for a MAC is the one the last authenticated frame of that MAC carried,
  or none because it was evicted; and nothing is ever evicted while at most sixteen MACs have been
  heard.\<close>

theorem lookupPeer_last_heard:
  "lookupPeer (Some m) (fold peer_exec es peers_init) \<in> {None, fold peer_spec es Map.empty m} \<and>
   (card (dom (fold peer_spec es Map.empty)) \<le> kPeerIdentityCapacity \<longrightarrow>
      lookupPeer (Some m) (fold peer_exec es peers_init) = fold peer_spec es Map.empty m)"
proof -
  have "identities (fold peer_exec es peers_init) \<subseteq>\<^sub>m fold peer_spec es Map.empty"
    by (rule peer_run_sound [OF peers_inv_init]) (simp add: identities_init)
  then have "identities (fold peer_exec es peers_init) m \<in> {None, fold peer_spec es Map.empty m}"
    by (rule map_le_cases)
  then show ?thesis
    using peer_run_complete [OF peers_inv_init identities_init, of es]
    by (simp add: lookupPeer_identities)
qed

theorem lookupPeer_last_heard_witness:
  "lookupPeer (Some (1, 2, 3, 4, 5, 6))
     (fold peer_exec [PeerFrame (Some (1, 2, 3, 4, 5, 6)) 7 8 100 0, PeerProbe (Some (1, 2, 3, 4, 5, 6)) True,
        PeerFrame (Some (9, 2, 3, 4, 5, 6)) 5 5 100 0, PeerFrame (Some (1, 2, 3, 4, 5, 6)) 7 9 200 0] peers_init) =
   Some (7, 9)"
  using lookupPeer_last_heard [of "(1, 2, 3, 4, 5, 6)"
      "[PeerFrame (Some (1, 2, 3, 4, 5, 6)) 7 8 100 0, PeerProbe (Some (1, 2, 3, 4, 5, 6)) True,
        PeerFrame (Some (9, 2, 3, 4, 5, 6)) 5 5 100 0, PeerFrame (Some (1, 2, 3, 4, 5, 6)) 7 9 200 0]"]
  by (simp add: kPeerIdentityCapacity_def)

text \<open>Addressing a robot by its source id is sound and complete: after any history the MAC found
  for an id is one whose current identity in the table is that id with the boot id returned, and
  none is found only if no MAC of the table has it.\<close>

theorem reverse_lookup_agrees:
  fixes es defines "t \<equiv> fold peer_exec es peers_init"
  assumes "src \<noteq> 0"
  shows "case lookupPeerMacBySourceId src False t of
      Some (m, boot) \<Rightarrow> lookupPeer (Some m) t = Some (src, boot)
    | None \<Rightarrow> (\<forall>m boot. lookupPeer (Some m) t \<noteq> Some (src, boot))"
proof (cases "find_slot (\<lambda>p. pi_used p \<and> pi_sourceId p = src) t")
  case None
  then have "\<forall>p\<in>set t. pi_used p \<longrightarrow> pi_sourceId p \<noteq> src" by (auto simp: find_slot_None)
  then have "identities t m \<noteq> Some (src, boot)" for m boot
    by (auto simp: identities_def identity_of_def dest!: slot_get_mem)
  with None assms(2) show ?thesis by (simp add: lookupPeerMacBySourceId_def lookupPeer_identities)
next
  case (Some i)
  have "peers_inv t" unfolding t_def by (rule peer_run_inv [OF peers_inv_init])
  then have "one_per_key pi_used pi_mac t" by (simp add: peers_inv_def)
  moreover have "i < length t" "pi_used (t ! i)" "pi_sourceId (t ! i) = src"
    using Some by (auto dest: find_slot_SomeD)
  ultimately have "slot_get pi_used pi_mac t (pi_mac (t ! i)) = Some (t ! i)"
    by (intro slot_get_SomeI) auto
  then have "identities t (pi_mac (t ! i)) = Some (src, pi_bootId (t ! i))"
    using \<open>pi_sourceId (t ! i) = src\<close> by (simp add: identities_def identity_of_def)
  with Some assms(2) show ?thesis by (simp add: lookupPeerMacBySourceId_def lookupPeer_identities)
qed

theorem reverse_lookup_agrees_witness:
  "lookupPeer (Some (1, 2, 3, 4, 5, 6))
     (fold peer_exec [PeerFrame (Some (1, 2, 3, 4, 5, 6)) 7 8 100 0] peers_init) = Some (7, 8)"
proof -
  let ?t = "fold peer_exec [PeerFrame (Some (1, 2, 3, 4, 5, 6)) 7 8 100 0] peers_init"
  have "lookupPeerMacBySourceId 7 False ?t = Some ((1, 2, 3, 4, 5, 6), 8)" by code_simp
  then show ?thesis using reverse_lookup_agrees [of 7 "[PeerFrame (Some (1, 2, 3, 4, 5, 6)) 7 8 100 0]"] by simp
qed

text \<open>The round trip: a reply that carries the sequence of the pending ping of that MAC records
  the elapsed milliseconds (across the clock rollover) and ends the measurement, so a duplicate or
  any other reply changes nothing.\<close>

theorem ping_measures_round_trip:
  assumes "peers_inv t" and "lookupPeer (Some m) t = Some ident"
  shows "let t1 = notePingSent (Some m) q t0 t; t2 = notePingReply (Some m) q (t0 + d) t1 in
    map_option pi_rttMs (slot_get pi_used pi_mac t2 m) = Some d \<and>
    (q' \<noteq> q \<longrightarrow> notePingReply (Some m) q' now t1 = t1) \<and>
    notePingReply (Some m) q' now t2 = t2"
proof -
  obtain i where f: "find_mac m t = Some i"
    using assms(2) by (auto simp: lookupPeer_def split: option.splits)
  then have i: "i < length t" "pi_used (t ! i)" "pi_mac (t ! i) = m"
    by (auto simp: find_mac_eq dest: find_slot_SomeD)
  let ?p = "(t ! i)\<lparr>pi_pingPending := True, pi_pingSequence := q, pi_pingSentMs := t0\<rparr>"
  let ?r = "?p\<lparr>pi_rttMs := d, pi_pingPending := False\<rparr>"
  have same: "find_mac m (t[i := p]) = Some i" if "pi_used p" "pi_mac p = m" for p
    using f find_slot_least [OF f [unfolded find_mac_eq]] that i
    by (auto simp: find_mac_eq intro!: find_slot_SomeI)
  have t1: "notePingSent (Some m) q t0 t = t[i := ?p]" using f by (simp add: notePingSent_def)
  have t2: "notePingReply (Some m) q (t0 + d) (t[i := ?p]) = t[i := ?r]"
    using same [of ?p] i by (simp add: notePingReply_def)
  have "slot_get pi_used pi_mac (t[i := ?r]) m = Some ?r"
    by (rule note_slot(3) [OF assms(1) f]) (simp_all add: identity_of_def)
  then show ?thesis
    using t1 t2 same [of ?p] same [of ?r] i by (simp add: Let_def notePingReply_def)
qed

theorem ping_measures_round_trip_witness:
  "let t = rememberAuthenticatedPeer (Some (1, 2, 3, 4, 5, 6)) 7 8 100 0 peers_init;
       t2 = notePingReply (Some (1, 2, 3, 4, 5, 6)) 3 (-10 + 25) (notePingSent (Some (1, 2, 3, 4, 5, 6)) 3 (-10) t)
   in map_option pi_rttMs (slot_get pi_used pi_mac t2 (1, 2, 3, 4, 5, 6)) = Some 25"
proof -
  let ?t = "rememberAuthenticatedPeer (Some (1, 2, 3, 4, 5, 6)) 7 8 100 0 peers_init"
  have "peers_inv ?t" by (rule remember_facts(1) [OF peers_inv_init]) simp_all
  moreover have "lookupPeer (Some (1, 2, 3, 4, 5, 6)) ?t = Some (7, 8)" by code_simp
  ultimately show ?thesis
    using ping_measures_round_trip [of ?t "(1, 2, 3, 4, 5, 6)" "(7, 8)" 3 "-10" 25] by (simp add: Let_def)
qed

text \<open>A full table gives its first slot to a new peer with the round trip of the evicted one still
  in it: the peer that takes over slot 0 is reported with an \<open>rttMs\<close> that was never measured on it,
  although the heartbeat verdict is cleared.\<close>

theorem eviction_inherits_rtt:
  assumes "peers_inv t" and "\<forall>p\<in>set t. pi_used p" and "lookupPeer (Some m) t = None"
    and "src \<noteq> 0" and "boot \<noteq> 0"
  shows "slot_get pi_used pi_mac (rememberAuthenticatedPeer (Some m) src boot nowMs rssi t) m =
    Some (\<lparr>pi_used = True, pi_mac = m, pi_sourceId = src, pi_bootId = boot,
      pi_lastAuthenticatedMs = nowMs, pi_linkOk = False, pi_rssi = rssi,
      pi_pingPending = pi_pingPending (t ! 0), pi_pingSequence = pi_pingSequence (t ! 0),
      pi_pingSentMs = pi_pingSentMs (t ! 0), pi_rttMs = pi_rttMs (t ! 0)\<rparr>)"
proof -
  have f: "find_mac m t = None" using assms(3) by (simp add: lookupPeer_def split: option.splits)
  have full: "find_slot (\<lambda>p. \<not> pi_used p) t = None" using assms(2) by (simp add: find_slot_None)
  let ?p = "(t ! 0)\<lparr>pi_used := True, pi_mac := m, pi_sourceId := src, pi_bootId := boot,
    pi_lastAuthenticatedMs := nowMs, pi_rssi := rssi, pi_linkOk := False\<rparr>"
  have t': "rememberAuthenticatedPeer (Some m) src boot nowMs rssi t = t[0 := ?p]"
    using f full assms(4,5) by (simp add: rememberAuthenticatedPeer_def)
  have len: "0 < length t" using assms(1) by (simp add: peers_inv_def kPeerIdentityCapacity_def)
  have other: "pi_mac (t ! j) \<noteq> pi_mac ?p" if "j < length t" "j \<noteq> 0" "pi_used (t ! j)" for j
    using f that by (auto simp: find_mac_eq find_slot_None all_set_conv_all_nth)
  have "slot_get pi_used pi_mac (t[0 := ?p]) (pi_mac ?p) = Some ?p"
    by (rule peers_write(2) [OF assms(1) len _ _ _ other]) (use assms(4,5) in simp_all)
  then show ?thesis unfolding t' by (cases "t ! 0") simp
qed

theorem eviction_inherits_rtt_witness:
  "let full = map (\<lambda>i. PeerFrame (Some (2, 0, 0, 0, 0, of_nat i)) 7 8 100 0) [0..<16];
       ping = [PeerPing (Some (2, 0, 0, 0, 0, 0)) 3 10, PeerPong (Some (2, 0, 0, 0, 0, 0)) 3 35];
       t = rememberAuthenticatedPeer (Some (4, 0, 0, 0, 0, 0)) 9 9 200 0 (fold peer_exec (full @ ping) peers_init)
   in map_option pi_rttMs (slot_get pi_used pi_mac t (4, 0, 0, 0, 0, 0)) = Some 25"
proof -
  let ?es = "map (\<lambda>i. PeerFrame (Some (2, 0, 0, 0, 0, of_nat i)) 7 8 100 0) [0..<16] @
    [PeerPing (Some (2, 0, 0, 0, 0, 0)) 3 10, PeerPong (Some (2, 0, 0, 0, 0, 0)) 3 35]"
  have "list_all pi_used (fold peer_exec ?es peers_init)"
    "lookupPeer (Some (4, 0, 0, 0, 0, 0)) (fold peer_exec ?es peers_init) = None"
    "pi_rttMs (fold peer_exec ?es peers_init ! 0) = 25"
    by code_simp+
  then show ?thesis
    using eviction_inherits_rtt [OF peer_run_inv [OF peers_inv_init], of ?es "(4, 0, 0, 0, 0, 0)" 9 9 200 0]
    by (simp add: Let_def list_all_iff)
qed

end
