(* ===== verification/Btp_Command.thy ===== *)
theory Btp_Command
  imports Btp_Types Peer_Table
begin

text \<open>
  The rest of \<open>lib/BtpTransport\<close>: the send wrappers around the library's endpoint, and the
  COMMAND_REQUEST / COMMAND_RESULT envelopes of namespace \<open>btp_command\<close>. The endpoint's
  \<open>send_logical\<close> and \<open>encode_fragment\<close> and the library's payload codecs are arguments; the
  state \<open>'c\<close> is the caller's context with everything its send callback changes.
\<close>

section \<open>Send wrappers\<close>

definition kMaxLogicalPayloadSize :: nat where "kMaxLogicalPayloadSize = 600"
definition kAeadTagSize :: nat where "kAeadTagSize = 16"

type_synonym seal_fn = "btp_header \<Rightarrow> bytes \<Rightarrow> bytes option"
type_synonym 'c send_fn = "mac \<Rightarrow> bytes \<Rightarrow> 'c \<Rightarrow> bool \<times> 'c"
type_synonym 'c status_fn = "mac \<Rightarrow> bytes \<Rightarrow> u32 \<Rightarrow> 'c \<Rightarrow> (bool \<times> bool) \<times> 'c"

text \<open>The endpoint's sender: message, scratch size, sealer, callback and callback state.\<close>

type_synonym 'a endpoint_send =
  "logical_message \<Rightarrow> nat \<Rightarrow> seal_fn \<Rightarrow> (bytes \<Rightarrow> 'a \<Rightarrow> bool \<times> 'a) \<Rightarrow> 'a \<Rightarrow> bool \<times> 'a"

definition macSendThunk :: "'c send_fn \<Rightarrow> mac \<Rightarrow> bytes \<Rightarrow> 'c \<Rightarrow> bool \<times> 'c" where
  "macSendThunk fn mac frame ctx = fn mac frame ctx"

text \<open>\<open>MacSendStatusAdapter\<close>: the context and the conjunction of the verdicts so far.\<close>

definition macSendStatusThunk ::
  "'c status_fn \<Rightarrow> mac \<Rightarrow> u32 \<Rightarrow> bytes \<Rightarrow> 'c \<times> bool \<Rightarrow> bool \<times> 'c \<times> bool" where
  "macSendStatusThunk fn mac timeoutMs frame adapter =
     (case adapter of (ctx, allDelivered) \<Rightarrow>
        case fn mac frame timeoutMs ctx of
          ((ok, delivered), ctx') \<Rightarrow>
            if \<not> ok then (False, ctx', allDelivered)
            else (True, ctx', allDelivered \<and> delivered))"

definition bad_view :: "byte_view \<Rightarrow> bool" where
  "bad_view v \<longleftrightarrow> view_null v \<and> view_size v \<noteq> 0"

definition sendLogical ::
  "'c endpoint_send \<Rightarrow> 'c send_fn option \<Rightarrow> mac option \<Rightarrow> message_type \<Rightarrow> u16 \<Rightarrow> byte_view \<Rightarrow>
     u64 \<Rightarrow> seal_fn option \<Rightarrow> 'c \<Rightarrow> bool \<times> 'c" where
  "sendLogical send_logical send mac type objectId payload timestampUs seal ctx =
     (case (send, seal, mac) of
        (Some fn, Some sl, Some m) \<Rightarrow>
          if bad_view payload then (False, ctx)
          else if view_size payload > kMaxLogicalPayloadSize then (False, ctx)
          else send_logical
                 \<lparr>lm_type = type, lm_object_id = objectId, lm_timestamp_us = timestampUs, lm_payload = payload\<rparr>
                 (kMaxLogicalPayloadSize + kAeadTagSize) sl (macSendThunk fn m) ctx
      | _ \<Rightarrow> (False, ctx))"

text \<open>The result, \<open>outDelivered\<close> and the context.\<close>

definition sendLogicalWithStatus ::
  "('c \<times> bool) endpoint_send \<Rightarrow> 'c status_fn option \<Rightarrow> mac option \<Rightarrow> message_type \<Rightarrow> u16 \<Rightarrow>
     byte_view \<Rightarrow> u64 \<Rightarrow> u32 \<Rightarrow> seal_fn option \<Rightarrow> 'c \<Rightarrow> bool \<times> bool \<times> 'c" where
  "sendLogicalWithStatus send_logical send mac type objectId payload timestampUs timeoutMs seal ctx =
     (case (send, seal, mac) of
        (Some fn, Some sl, Some m) \<Rightarrow>
          if bad_view payload then (False, False, ctx)
          else if view_size payload > kMaxLogicalPayloadSize then (False, False, ctx)
          else (case send_logical
                 \<lparr>lm_type = type, lm_object_id = objectId, lm_timestamp_us = timestampUs, lm_payload = payload\<rparr>
                 (kMaxLogicalPayloadSize + kAeadTagSize) sl (macSendStatusThunk fn m timeoutMs) (ctx, True) of
                  (ok, ctx', allDelivered) \<Rightarrow>
                    if \<not> ok then (False, False, ctx') else (True, allDelivered, ctx'))
      | _ \<Rightarrow> (False, False, ctx))"

definition encodeSingleFrame ::
  "(logical_message \<Rightarrow> u32 \<Rightarrow> u16 \<Rightarrow> u16 \<Rightarrow> nat \<Rightarrow> seal_fn \<Rightarrow> bytes option) \<Rightarrow> message_type \<Rightarrow> u16 \<Rightarrow>
     u32 \<Rightarrow> u64 \<Rightarrow> byte_view \<Rightarrow> nat \<Rightarrow> seal_fn option \<Rightarrow> bytes option" where
  "encodeSingleFrame encode_fragment type objectId sequence timestampUs payload outputCapacity seal =
     (case seal of
        None \<Rightarrow> None
      | Some sl \<Rightarrow>
          if sequence = 0 \<or> bad_view payload then None
          else encode_fragment
                 \<lparr>lm_type = type, lm_object_id = objectId, lm_timestamp_us = timestampUs, lm_payload = payload\<rparr>
                 sequence 0 1 outputCapacity sl)"

section \<open>Command envelopes\<close>

definition kCommandRequestObjectId :: u16 where "kCommandRequestObjectId = 0x0001"
definition kCommandResultObjectId :: u16 where "kCommandResultObjectId = 0x0002"
definition kShellActionId :: u16 where "kShellActionId = 0x0001"
definition kShellActionVersion :: u16 where "kShellActionVersion = 0x0001"
definition kMaxShellCommandSize :: nat where "kMaxShellCommandSize = 512"
definition kMaxResultMessageSize :: nat where "kMaxResultMessageSize = 400"

datatype parse_error =
    PeOk | PeWrongType | PeWrongObject | PeInvalidEnvelope | PePayloadTooShort | PeWrongTarget
  | PeInvalidAction | PeInvalidFlags | PeSizeMismatch | PeParametersTooLarge
  | PeUnsupportedAction | PeInvalidShellText | PeOutputTooSmall

record request_view =
  rq_target_source_id :: u32
  rq_target_boot_id :: u32
  rq_action_id :: u16
  rq_action_version :: u16
  rq_parameters :: byte_view

text \<open>\<open>ResultView\<close> has the fields of the library's \<open>CommandResult\<close>; the enumerations \<open>Status\<close>
  and \<open>ErrorCode\<close> are casts of the raw octet and word.\<close>

record result_view =
  rs_request_source_id :: u32
  rs_request_boot_id :: u32
  rs_reply_to_sequence :: u32
  rs_action_id :: u16
  rs_action_version :: u16
  rs_status :: u8
  rs_error_code :: u16
  rs_message :: byte_view
  rs_result :: byte_view

definition request_error :: "message_error \<Rightarrow> parse_error" where
  "request_error err =
     (case err of
        MePayloadTooShort \<Rightarrow> PePayloadTooShort
      | MeReservedNotZero \<Rightarrow> PeInvalidFlags
      | MeTrailingBytes \<Rightarrow> PeSizeMismatch
      | MeLengthOverflow \<Rightarrow> PeSizeMismatch
      | MeCountTooLarge \<Rightarrow> PeParametersTooLarge
      | _ \<Rightarrow> PeInvalidEnvelope)"

text \<open>The decoder's verdict and, when it is \<open>MeOk\<close>, the decoded fields.\<close>

definition parse_request ::
  "(bytes \<Rightarrow> message_error \<times> request_view) \<Rightarrow> btp_header \<Rightarrow> byte_view \<Rightarrow> u32 \<Rightarrow> u32 \<Rightarrow> bool \<Rightarrow>
     parse_error \<times> request_view option" where
  "parse_request decode_command_request header payload local_source_id local_boot_id outNull =
     (if outNull \<or> bad_view payload then (PeInvalidEnvelope, None)
      else if hd_type header \<noteq> MtCommand then (PeWrongType, None)
      else if hd_object_id header \<noteq> kCommandRequestObjectId then (PeWrongObject, None)
      else (case decode_command_request (view_bytes payload) of (err, cmd) \<Rightarrow>
        if err \<noteq> MeOk then (request_error err, None)
        else if rq_target_source_id cmd \<noteq> local_source_id \<or> rq_target_boot_id cmd \<noteq> local_boot_id
          then (PeWrongTarget, None)
        else if view_size (rq_parameters cmd) > kMaxShellCommandSize then (PeParametersTooLarge, None)
        else (PeOk, Some cmd)))"

fun shell_text_ok :: "bytes \<Rightarrow> bool" where
  "shell_text_ok [] = True"
| "shell_text_ok (byte # rest) =
     (if byte = 0 \<or> byte = 0x0D \<or> byte = 0x0A \<or> byte = 0x7F \<or> (byte < 0x20 \<and> byte \<noteq> 0x09)
      then False else shell_text_ok rest)"

text \<open>\<open>output\<close> is the caller's buffer, whose length is its capacity.\<close>

definition copy_shell_command :: "request_view \<Rightarrow> bytes option \<Rightarrow> parse_error \<times> bytes option" where
  "copy_shell_command request output =
     (if rq_action_id request \<noteq> kShellActionId \<or> rq_action_version request \<noteq> kShellActionVersion
        then (PeUnsupportedAction, output)
      else if view_null (rq_parameters request) \<or> view_size (rq_parameters request) = 0 \<or>
              view_size (rq_parameters request) > kMaxShellCommandSize
        then (PeInvalidShellText, output)
      else case output of
        None \<Rightarrow> (PeOutputTooSmall, output)
      | Some buf \<Rightarrow>
          if length buf \<le> view_size (rq_parameters request) then (PeOutputTooSmall, output)
          else if \<not> shell_text_ok (view_bytes (rq_parameters request)) then (PeInvalidShellText, output)
          else (let ps = view_bytes (rq_parameters request)
                in (PeOk, Some (ps @ [0] @ drop (length ps + 1) buf))))"

definition parse_result ::
  "(bytes \<Rightarrow> message_error \<times> result_view) \<Rightarrow> btp_header \<Rightarrow> byte_view \<Rightarrow> bool \<Rightarrow>
     parse_error \<times> result_view option" where
  "parse_result decode_command_result header payload outNull =
     (if outNull \<or> bad_view payload then (PeInvalidEnvelope, None)
      else if hd_type header \<noteq> MtCommand then (PeWrongType, None)
      else if hd_object_id header \<noteq> kCommandResultObjectId then (PeWrongObject, None)
      else (case decode_command_result (view_bytes payload) of (err, res) \<Rightarrow>
        if err = MeOk then (PeOk, Some res)
        else if err = MePayloadTooShort then (PePayloadTooShort, None)
        else (PeSizeMismatch, None)))"

text \<open>The octets written; the empty list is the result 0.\<close>

definition build_result ::
  "(result_view \<Rightarrow> nat \<Rightarrow> bytes option) \<Rightarrow> u32 \<Rightarrow> u32 \<Rightarrow> u32 \<Rightarrow> u16 \<Rightarrow> u16 \<Rightarrow> u8 \<Rightarrow> u16 \<Rightarrow>
     string option \<Rightarrow> byte_view \<Rightarrow> nat \<Rightarrow> bytes" where
  "build_result encode_command_result request_source_id request_boot_id reply_to_sequence action_id
     action_version status error_code message result output_capacity =
     (let msg = (case message of None \<Rightarrow> NullView 0 | Some s \<Rightarrow> View (cstr s)) in
      if view_size msg > kMaxResultMessageSize then []
      else if view_size result > 0 \<and> view_null result then []
      else (case encode_command_result
                   \<lparr>rs_request_source_id = request_source_id, rs_request_boot_id = request_boot_id,
                    rs_reply_to_sequence = reply_to_sequence, rs_action_id = action_id,
                    rs_action_version = action_version, rs_status = status, rs_error_code = error_code,
                    rs_message = msg, rs_result = result\<rparr> output_capacity of
              Some bs \<Rightarrow> bs
            | None \<Rightarrow> []))"

fun parse_error_string :: "parse_error \<Rightarrow> string" where
  "parse_error_string PeOk = ''ok''"
| "parse_error_string PeWrongType = ''not a COMMAND message''"
| "parse_error_string PeWrongObject = ''unexpected command object_id''"
| "parse_error_string PeInvalidEnvelope = ''invalid logical envelope''"
| "parse_error_string PePayloadTooShort = ''command payload too short''"
| "parse_error_string PeWrongTarget = ''command target does not match this dongle''"
| "parse_error_string PeInvalidAction = ''invalid action identity''"
| "parse_error_string PeInvalidFlags = ''command reserved field is nonzero''"
| "parse_error_string PeSizeMismatch = ''command parameter size mismatch''"
| "parse_error_string PeParametersTooLarge = ''command parameters too large''"
| "parse_error_string PeUnsupportedAction = ''unsupported action''"
| "parse_error_string PeInvalidShellText = ''invalid shell command bytes''"
| "parse_error_string PeOutputTooSmall = ''shell output buffer too small''"

definition status_string :: "u8 \<Rightarrow> string" where
  "status_string status =
     (if status = 0 then ''success'' else if status = 1 then ''rejected''
      else if status = 2 then ''failed'' else if status = 3 then ''timeout''
      else if status = 4 then ''cancelled'' else if status = 5 then ''unsupported''
      else if status = 6 then ''busy'' else ''unknown'')"

section \<open>Lemmas\<close>

definition line_octet :: "u8 \<Rightarrow> bool" where
  "line_octet b \<longleftrightarrow> (0x20 \<le> b \<and> b \<noteq> 0x7F) \<or> b = 0x09"

lemma shell_text_ok_iff: "shell_text_ok bs \<longleftrightarrow> (\<forall>b\<in>set bs. line_octet b)"
proof (induction bs)
  case (Cons b bs)
  have "(b = 0 \<or> b = 0x0D \<or> b = 0x0A \<or> b = 0x7F \<or> (b < 0x20 \<and> b \<noteq> 0x09)) \<longleftrightarrow> \<not> line_octet b"
    by (auto simp: line_octet_def not_less)
  with Cons show ?case by simp
qed simp

text \<open>The frames a send hands out, with the two verdicts of the callback for each of them.\<close>

fun frame_verdicts :: "'c status_fn \<Rightarrow> mac \<Rightarrow> u32 \<Rightarrow> bytes list \<Rightarrow> 'c \<Rightarrow> (bool \<times> bool) list \<times> 'c" where
  "frame_verdicts fn m timeoutMs [] ctx = ([], ctx)"
| "frame_verdicts fn m timeoutMs (f # fs) ctx =
     (case fn m f timeoutMs ctx of
        (v, ctx') \<Rightarrow> (case frame_verdicts fn m timeoutMs fs ctx' of (vs, ctx'') \<Rightarrow> (v # vs, ctx'')))"

lemma run_frames_status:
  "run_frames (macSendStatusThunk fn m timeoutMs) (f # fs) (ctx, a) =
     (case fn m f timeoutMs ctx of ((ok, del), ctx') \<Rightarrow>
        if ok then run_frames (macSendStatusThunk fn m timeoutMs) fs (ctx', a \<and> del) else (False, ctx', a))"
  by (auto simp: macSendStatusThunk_def split: prod.splits)

lemma run_frames_verdicts:
  "run_frames (macSendStatusThunk fn m timeoutMs) fs (ctx, a) = (True, ctx', a') \<Longrightarrow>
   \<exists>vs. frame_verdicts fn m timeoutMs fs ctx = (vs, ctx') \<and> length vs = length fs \<and>
     (\<forall>v\<in>set vs. fst v) \<and> (a' \<longleftrightarrow> a \<and> (\<forall>v\<in>set vs. snd v))"
proof (induction fs arbitrary: ctx a)
  case (Cons f fs)
  obtain ok del ctx1 where f: "fn m f timeoutMs ctx = ((ok, del), ctx1)"
    by (cases "fn m f timeoutMs ctx") auto
  with Cons.prems have ok: "ok"
    and r: "run_frames (macSendStatusThunk fn m timeoutMs) fs (ctx1, a \<and> del) = (True, ctx', a')"
    by (auto simp: run_frames_status simp del: run_frames.simps split: if_splits)
  from Cons.IH [OF r] f ok show ?case by auto
qed simp

lemma mac_word_octets:
  fixes c d e f :: u8
  defines "w \<equiv> push_bit 24 (ucast c) OR push_bit 16 (ucast d) OR push_bit 8 (ucast e) OR (ucast f :: u32)"
  shows "ucast (drop_bit 24 w) = c" and "ucast (drop_bit 16 w) = d" and "ucast (drop_bit 8 w) = e"
    and "ucast w = f"
  unfolding w_def by (rule bit_word_eqI; auto simp: bit_simps dest: bit_imp_le_length)+

section \<open>Properties\<close>

text \<open>C4. A delivery report covers every fragment: when \<open>sendLogicalWithStatus\<close> returns true, the
  message went out as a sequence of frames each accepted by the radio, and \<open>outDelivered\<close> is true
  exactly if each of them was acknowledged; when it returns false, \<open>outDelivered\<close> is false.\<close>

theorem delivered_means_every_fragment:
  assumes runs: "\<And>msg n sl th c. fst (send_logical msg n sl th c) \<Longrightarrow>
      \<exists>fs. send_logical msg n sl th c = run_frames th fs c"
    and res: "sendLogicalWithStatus send_logical (Some fn) (Some m) type objectId payload ts timeoutMs seal ctx =
      (ok, delivered, ctx')"
  shows "(ok \<longrightarrow> (\<exists>fs vs. frame_verdicts fn m timeoutMs fs ctx = (vs, ctx') \<and> length vs = length fs \<and>
            (\<forall>v\<in>set vs. fst v) \<and> (delivered \<longleftrightarrow> (\<forall>v\<in>set vs. snd v)))) \<and>
         (\<not> ok \<longrightarrow> \<not> delivered)"
proof (cases seal)
  case None
  with res show ?thesis by (auto simp: sendLogicalWithStatus_def)
next
  case (Some sl)
  let ?msg = "\<lparr>lm_type = type, lm_object_id = objectId, lm_timestamp_us = ts, lm_payload = payload\<rparr>"
  let ?th = "macSendStatusThunk fn m timeoutMs"
  obtain ok' c' a' where s: "send_logical ?msg (kMaxLogicalPayloadSize + kAeadTagSize) sl ?th (ctx, True) = (ok', c', a')"
    by (cases "send_logical ?msg (kMaxLogicalPayloadSize + kAeadTagSize) sl ?th (ctx, True)") auto
  show ?thesis
  proof (cases "bad_view payload \<or> view_size payload > kMaxLogicalPayloadSize \<or> \<not> ok'")
    case True
    with res Some s show ?thesis by (auto simp: sendLogicalWithStatus_def split: if_splits)
  next
    case False
    with res Some s have "ok" "delivered = a'" "ctx' = c'" by (auto simp: sendLogicalWithStatus_def)
    moreover obtain fs where "run_frames ?th fs (ctx, True) = (True, c', a')"
      using runs [of ?msg "kMaxLogicalPayloadSize + kAeadTagSize" sl ?th "(ctx, True)"] s False by auto
    note run_frames_verdicts [OF this]
    ultimately show ?thesis by auto
  qed
qed

theorem delivered_means_every_fragment_witness:
  "let radio = (\<lambda>(m::mac) (f::bytes) (t::u32) (n::nat). ((True, n = 0), n + 1));
       ep = (\<lambda>(msg::logical_message) (n::nat) (sl::seal_fn) th c. run_frames th [[1::u8], [2]] c)
   in sendLogicalWithStatus ep (Some radio) (Some (1, 2, 3, 4, 5, 6)) MtCommand 1 (View [7]) 0 50 (Some (\<lambda>h p. Some p)) 0
      = (True, False, 2) \<and>
      (\<exists>fs vs. frame_verdicts radio (1, 2, 3, 4, 5, 6) 50 fs 0 = (vs, 2) \<and> length vs = length fs \<and>
         (\<forall>v\<in>set vs. fst v) \<and> \<not> (\<forall>v\<in>set vs. snd v))"
proof -
  let ?radio = "\<lambda>(m::mac) (f::bytes) (t::u32) (n::nat). ((True, n = 0), n + 1)"
  let ?ep = "\<lambda>(msg::logical_message) (n::nat) (sl::seal_fn) th c. run_frames th [[1::u8], [2]] c"
  have r: "sendLogicalWithStatus ?ep (Some ?radio) (Some (1, 2, 3, 4, 5, 6)) MtCommand 1 (View [7]) 0 50
      (Some (\<lambda>h p. Some p)) 0 = (True, False, 2)"
    by (simp add: sendLogicalWithStatus_def macSendStatusThunk_def bad_view_def
        kMaxLogicalPayloadSize_def kAeadTagSize_def)
  have "(True \<longrightarrow> (\<exists>fs vs. frame_verdicts ?radio (1, 2, 3, 4, 5, 6) 50 fs 0 = (vs, 2) \<and> length vs = length fs \<and>
            (\<forall>v\<in>set vs. fst v) \<and> (False \<longleftrightarrow> (\<forall>v\<in>set vs. snd v)))) \<and> (\<not> True \<longrightarrow> \<not> False)"
    by (rule delivered_means_every_fragment [OF _ r]) blast
  with r show ?thesis by (simp add: Let_def)
qed

text \<open>The shell line of a command is accepted exactly when it is one line of 1..512 octets that
  are printable or tab (no NUL, CR, LF, DEL or other control octet) for the shell action and it
  fits the buffer with its terminator; then the buffer starts with that line and a NUL, and in every
  other case the buffer is untouched.\<close>

theorem copy_shell_command_accepts:
  "(copy_shell_command rq (Some buf) = (PeOk, out) \<longleftrightarrow>
     rq_action_id rq = kShellActionId \<and> rq_action_version rq = kShellActionVersion \<and>
     (\<exists>ps. rq_parameters rq = View ps \<and> ps \<noteq> [] \<and> length ps \<le> 512 \<and> length ps < length buf \<and>
        (\<forall>b\<in>set ps. line_octet b) \<and> out = Some (ps @ [0] @ drop (length ps + 1) buf))) \<and>
   (fst (copy_shell_command rq (Some buf)) = PeOk \<or> snd (copy_shell_command rq (Some buf)) = Some buf)"
  by (cases "rq_parameters rq";
      auto simp: copy_shell_command_def shell_text_ok_iff kMaxShellCommandSize_def Let_def)

theorem copy_shell_command_accepts_witness:
  "copy_shell_command \<lparr>rq_target_source_id = 5, rq_target_boot_id = 6, rq_action_id = 1,
     rq_action_version = 1, rq_parameters = View [0x6C, 0x73]\<rparr> (Some [1, 2, 3, 4]) =
   (PeOk, Some [0x6C, 0x73, 0, 4])"
  by (subst copy_shell_command_accepts [THEN conjunct1])
     (simp add: kShellActionId_def kShellActionVersion_def line_octet_def)

text \<open>What a valid request leads to: a request that parses is a COMMAND request for exactly this
  dongle and this boot, and its shell line never fails for lack of space in a buffer of 513 octets
  (the longest line and its terminator).\<close>

theorem parsed_request_fits_shell_buffer:
  assumes "parse_request decode h payload src boot False = (PeOk, Some rq)"
    and "length buf = kMaxShellCommandSize + 1"
  shows "hd_type h = MtCommand \<and> hd_object_id h = kCommandRequestObjectId \<and>
    decode (view_bytes payload) = (MeOk, rq) \<and>
    rq_target_source_id rq = src \<and> rq_target_boot_id rq = boot \<and>
    fst (copy_shell_command rq (Some buf)) \<in> {PeOk, PeUnsupportedAction, PeInvalidShellText}"
  using assms
  by (auto simp: parse_request_def copy_shell_command_def Let_def split: if_splits prod.splits)

theorem parsed_request_fits_shell_buffer_witness:
  "let rq = \<lparr>rq_target_source_id = 5, rq_target_boot_id = 6, rq_action_id = 1, rq_action_version = 1,
             rq_parameters = View [0x6C, 0x73]\<rparr>
   in fst (copy_shell_command rq (Some (replicate 513 0))) \<in> {PeOk, PeUnsupportedAction, PeInvalidShellText}"
proof -
  let ?rq = "\<lparr>rq_target_source_id = 5, rq_target_boot_id = 6, rq_action_id = 1, rq_action_version = 1,
             rq_parameters = View [0x6C, 0x73]\<rparr>"
  let ?h = "\<lparr>hd_type = MtCommand, hd_object_id = 1, hd_source_id = 9, hd_boot_id = 9, hd_sequence = 1,
             hd_timestamp_us = 0\<rparr>"
  have "parse_request (\<lambda>_. (MeOk, ?rq)) ?h (View [1]) 5 6 False = (PeOk, Some ?rq)"
    by (simp add: parse_request_def bad_view_def kCommandRequestObjectId_def kMaxShellCommandSize_def)
  moreover have "length (replicate 513 (0::u8)) = kMaxShellCommandSize + 1"
    by (simp add: kMaxShellCommandSize_def)
  ultimately show ?thesis
    using parsed_request_fits_shell_buffer [of "\<lambda>_. (MeOk, ?rq)" ?h "View [1]" 5 6 ?rq "replicate 513 0"]
    by (simp add: Let_def)
qed

text \<open>A result built by one side parses back field for field on the other, for any library codec
  whose decoder inverts its encoder, when the message is at most 400 octets and the buffer large
  enough (the builder returned octets).\<close>

theorem result_round_trip:
  assumes codec: "\<And>r n bs. encode r n = Some bs \<Longrightarrow> decode bs = (MeOk, r)"
    and built: "build_result encode src boot seq aid ver status code (Some msg) result cap = bs" "bs \<noteq> []"
    and h: "hd_type h = MtCommand" "hd_object_id h = kCommandResultObjectId"
  shows "parse_result decode h (View bs) False = (PeOk, Some
    \<lparr>rs_request_source_id = src, rs_request_boot_id = boot, rs_reply_to_sequence = seq,
     rs_action_id = aid, rs_action_version = ver, rs_status = status, rs_error_code = code,
     rs_message = View (cstr msg), rs_result = result\<rparr>)"
  using built h codec
  by (auto simp: build_result_def parse_result_def bad_view_def Let_def split: if_splits option.splits)

theorem result_round_trip_witness:
  "parse_result (\<lambda>_. (MeOk, \<lparr>rs_request_source_id = 1, rs_request_boot_id = 2, rs_reply_to_sequence = 3,
      rs_action_id = 1, rs_action_version = 1, rs_status = 0, rs_error_code = 0,
      rs_message = View (cstr ''ok''), rs_result = View []\<rparr>))
    \<lparr>hd_type = MtCommand, hd_object_id = 2, hd_source_id = 9, hd_boot_id = 9, hd_sequence = 1, hd_timestamp_us = 0\<rparr>
    (View [42]) False = (PeOk, Some \<lparr>rs_request_source_id = 1, rs_request_boot_id = 2, rs_reply_to_sequence = 3,
      rs_action_id = 1, rs_action_version = 1, rs_status = 0, rs_error_code = 0,
      rs_message = View (cstr ''ok''), rs_result = View []\<rparr>)"
proof -
  let ?r = "\<lparr>rs_request_source_id = 1, rs_request_boot_id = 2, rs_reply_to_sequence = 3,
      rs_action_id = 1, rs_action_version = 1, rs_status = 0, rs_error_code = 0,
      rs_message = View (cstr ''ok''), rs_result = View []\<rparr>"
  let ?enc = "\<lambda>r (n::nat). if r = ?r then Some [42::u8] else None"
  have "build_result ?enc 1 2 3 1 1 0 0 (Some ''ok'') (View []) 500 = [42]"
    by (simp add: build_result_def kMaxResultMessageSize_def cstr_def)
  then show ?thesis
    by (intro result_round_trip [where encode = ?enc and cap = 500])
       (auto simp: kCommandResultObjectId_def split: if_splits)
qed

text \<open>The identity derived from a MAC is never the reserved 0, and two MACs get the same one only
  if their last four octets agree, except for the pair ending 0:0:0:0 and 0:0:0:1.\<close>

theorem source_id_identifies_mac:
  "source_id_from_mac (Some (a, b, c, d, e, f)) \<noteq> 0 \<and>
   (source_id_from_mac (Some (a, b, c, d, e, f)) = source_id_from_mac (Some (a', b', c', d', e', f')) \<longleftrightarrow>
      (c, d, e, f) = (c', d', e', f') \<or>
      {(c, d, e, f), (c', d', e', f')} = {(0, 0, 0, 0), (0, 0, 0, 1)})"
proof -
  let ?w = "\<lambda>(c::u8, d::u8, e::u8, f::u8).
    push_bit 24 (ucast c) OR push_bit 16 (ucast d) OR push_bit 8 (ucast e) OR (ucast f :: u32)"
  have inj: "?w q = ?w q' \<longleftrightarrow> q = q'" for q q'
  proof
    obtain c d e f c' d' e' f' where q: "q = (c, d, e, f)" "q' = (c', d', e', f')"
      by (cases q; cases q')
    assume "?w q = ?w q'"
    then show "q = q'"
      using mac_word_octets [of c d e f] mac_word_octets [of c' d' e' f'] by (simp add: q)
  qed simp
  define W where "W = ?w"
  have inj: "W q = W q' \<longleftrightarrow> q = q'" for q q' unfolding W_def by (rule inj)
  have "W (0, 0, 0, 0) = 0" "W (0, 0, 0, 1) = 1" by (simp_all add: W_def)
  then have zero: "W q = 0 \<longleftrightarrow> q = (0, 0, 0, 0)" and one: "W q = 1 \<longleftrightarrow> q = (0, 0, 0, 1)" for q
    using inj by metis+
  have id: "source_id_from_mac (Some (a, b, c, d, e, f)) =
      (if (c, d, e, f) = (0, 0, 0, 0) then 1 else W (c, d, e, f))" for a b c d e f
    using zero [of "(c, d, e, f)"] by (simp add: source_id_from_mac_def Let_def W_def)
  show ?thesis
    unfolding id by (auto simp: zero one inj eq_commute [of 1 "W _"] doubleton_eq_iff)
qed

end
