(* ===== verification/Byte_Writer.thy ===== *)
theory Byte_Writer
  imports Dongle_Prelude
begin

text \<open>
  The append cursor both \<open>lib/DonglePublisher\<close> and \<open>lib/ManifestCache\<close> define locally
  (class \<open>Writer\<close>, the same \<open>raw\<close> in both): an output buffer, its capacity and a position.
  An append is a state transformer that returns whether it fitted. Its contract is the locale
  \<open>byte_sink\<close>, and \<open>emits f bs\<close> says that \<open>f\<close> appends exactly \<open>bs\<close> or fails.
\<close>

section \<open>The cursor\<close>

record writer =
  wr_out :: bytes
  wr_capacity :: nat
  wr_pos :: nat

definition writer_on :: "bytes \<Rightarrow> writer" where
  "writer_on out = \<lparr>wr_out = out, wr_capacity = length out, wr_pos = 0\<rparr>"

type_synonym append = "writer \<Rightarrow> bool \<times> writer"

definition raw :: "bytes \<Rightarrow> append" where
  "raw data w =
     (if wr_pos w + length data > wr_capacity w then (False, w)
      else (True, w\<lparr>wr_out := take (wr_pos w) (wr_out w) @ data @ drop (wr_pos w + length data) (wr_out w),
                    wr_pos := wr_pos w + length data\<rparr>))"

definition put_u8 :: "u8 \<Rightarrow> append" where "put_u8 v = raw [v]"
definition put_u16 :: "u16 \<Rightarrow> append" where "put_u16 v = raw (u16_le v)"
definition put_u32 :: "u32 \<Rightarrow> append" where "put_u32 v = raw (u32_le v)"
definition put_u64 :: "u64 \<Rightarrow> append" where "put_u64 v = raw (u64_le v)"

text \<open>\<open>f64\<close> copies the memory of a double; the argument is its IEEE-754 bit pattern.\<close>

definition put_f64 :: "u64 \<Rightarrow> append" where "put_f64 bits = raw (u64_le bits)"

text \<open>\<open>a && b && c\<close> on appends: the first failure ends the chain.\<close>

fun wr_all :: "append list \<Rightarrow> append" where
  "wr_all [] w = (True, w)"
| "wr_all (f # fs) w = (case f w of (ok, w') \<Rightarrow> if ok then wr_all fs w' else (False, w'))"

text \<open>\<open>None\<close> is the null pointer.\<close>

definition put_utf8 :: "string option \<Rightarrow> append" where
  "put_utf8 txt w =
     (let bs = (case txt of None \<Rightarrow> [] | Some s \<Rightarrow> cstr s) in
      if length bs > 0xFFFF then (False, w)
      else (case put_u16 (of_nat (length bs)) w of
              (ok, w') \<Rightarrow> if \<not> ok then (False, w')
                          else if length bs = 0 then (True, w') else raw bs w'))"

definition patch :: "nat \<Rightarrow> bytes \<Rightarrow> writer \<Rightarrow> writer" where
  "patch offset bs w = w\<lparr>wr_out := take offset (wr_out w) @ bs @ drop (offset + length bs) (wr_out w)\<rparr>"

definition patchU16 :: "nat \<Rightarrow> u16 \<Rightarrow> writer \<Rightarrow> writer" where
  "patchU16 offset value = patch offset (u16_le value)"

definition patchU32 :: "nat \<Rightarrow> u32 \<Rightarrow> writer \<Rightarrow> writer" where
  "patchU32 offset value = patch offset (u32_le value)"

section \<open>The contract of a byte sink\<close>

locale byte_sink =
  fixes inv :: "'s \<Rightarrow> bool"
    and put :: "bytes \<Rightarrow> 's \<Rightarrow> bool \<times> 's"
    and contents :: "'s \<Rightarrow> bytes"
    and room :: "'s \<Rightarrow> nat"
  assumes put_inv: "inv s \<Longrightarrow> inv (snd (put bs s))"
    and put_ok: "inv s \<Longrightarrow> fst (put bs s) \<longleftrightarrow> length bs \<le> room s"
    and put_contents: "inv s \<Longrightarrow> fst (put bs s) \<Longrightarrow> contents (snd (put bs s)) = contents s @ bs"
    and put_room: "inv s \<Longrightarrow> fst (put bs s) \<Longrightarrow> room (snd (put bs s)) = room s - length bs"
    and put_refused: "inv s \<Longrightarrow> \<not> fst (put bs s) \<Longrightarrow> snd (put bs s) = s"
begin

fun put_all :: "bytes list \<Rightarrow> 's \<Rightarrow> bool \<times> 's" where
  "put_all [] s = (True, s)"
| "put_all (b # bs) s = (case put b s of (ok, s') \<Rightarrow> if ok then put_all bs s' else (False, s'))"

lemma put_all_facts:
  "inv s \<Longrightarrow> inv (snd (put_all bss s)) \<and> (fst (put_all bss s) \<longleftrightarrow> length (concat bss) \<le> room s) \<and>
     (fst (put_all bss s) \<longrightarrow> contents (snd (put_all bss s)) = contents s @ concat bss)"
proof (induction bss arbitrary: s)
  case (Cons b bss)
  obtain ok s' where p: "put b s = (ok, s')" by (cases "put b s")
  show ?case
  proof (cases ok)
    case True
    with Cons.IH [of s'] Cons.prems p put_inv [of s b] put_ok [of s b] put_contents [of s b] put_room [of s b]
    show ?thesis by auto
  next
    case False
    with Cons.prems p put_inv [of s b] put_ok [of s b] show ?thesis by simp
  qed
qed simp

end

definition wr_inv :: "writer \<Rightarrow> bool" where
  "wr_inv w \<longleftrightarrow> wr_pos w \<le> wr_capacity w \<and> wr_capacity w \<le> length (wr_out w)"

definition wr_contents :: "writer \<Rightarrow> bytes" where
  "wr_contents w = take (wr_pos w) (wr_out w)"

definition wr_room :: "writer \<Rightarrow> nat" where
  "wr_room w = wr_capacity w - wr_pos w"

interpretation cursor: byte_sink wr_inv raw wr_contents wr_room
  by unfold_locales (auto simp: wr_inv_def raw_def wr_contents_def wr_room_def)

section \<open>Appends that emit a fixed string\<close>

definition advance :: "bytes \<Rightarrow> writer \<Rightarrow> writer" where
  "advance bs w = w\<lparr>wr_out := take (wr_pos w) (wr_out w) @ bs @ drop (wr_pos w + length bs) (wr_out w),
                    wr_pos := wr_pos w + length bs\<rparr>"

definition emits :: "append \<Rightarrow> bytes \<Rightarrow> bool" where
  "emits f bs \<longleftrightarrow> (\<forall>w. wr_inv w \<longrightarrow>
     (if wr_pos w + length bs \<le> wr_capacity w then f w = (True, advance bs w) else \<not> fst (f w)))"

lemma emits_raw: "emits (raw bs) bs"
  by (auto simp: emits_def raw_def advance_def)

lemma emits_puts [le_simps]:
  "emits (put_u8 a) [a]" "emits (put_u16 b) (u16_le b)" "emits (put_u32 c) (u32_le c)"
  "emits (put_u64 d) (u64_le d)" "emits (put_f64 d) (u64_le d)"
  by (simp_all add: put_u8_def put_u16_def put_u32_def put_u64_def put_f64_def emits_raw)

lemma advance_inv:
  "wr_inv w \<Longrightarrow> wr_pos w + length bs \<le> wr_capacity w \<Longrightarrow> wr_inv (advance bs w)"
  by (auto simp: wr_inv_def advance_def)

lemma advance_fields [simp]:
  "wr_pos (advance bs w) = wr_pos w + length bs" "wr_capacity (advance bs w) = wr_capacity w"
  by (simp_all add: advance_def)

lemma advance_append:
  "wr_inv w \<Longrightarrow> wr_pos w + length as \<le> wr_capacity w \<Longrightarrow>
   advance (as @ bs) w = advance bs (advance as w)"
  by (auto simp: advance_def wr_inv_def ac_simps)

lemma emits_True: "wr_inv w \<Longrightarrow> emits f bs \<Longrightarrow> wr_pos w + length bs \<le> wr_capacity w \<Longrightarrow> f w = (True, advance bs w)"
  by (simp add: emits_def)

lemma emits_Nil: "emits (\<lambda>w. (True, w)) []"
  by (auto simp: emits_def advance_def wr_inv_def)

lemma emits_seq:
  assumes f: "emits f as" and g: "emits g bs"
  shows "emits (\<lambda>w. case f w of (ok, w') \<Rightarrow> if ok then g w' else (False, w')) (as @ bs)"
  unfolding emits_def
proof (intro allI impI)
  fix w assume w: "wr_inv w"
  show "if wr_pos w + length (as @ bs) \<le> wr_capacity w
        then (case f w of (ok, w') \<Rightarrow> if ok then g w' else (False, w')) = (True, advance (as @ bs) w)
        else \<not> fst (case f w of (ok, w') \<Rightarrow> if ok then g w' else (False, w'))"
  proof (cases "wr_pos w + length as \<le> wr_capacity w")
    case True
    with w f have fw: "f w = (True, advance as w)" by (simp add: emits_def)
    have "wr_inv (advance as w)" by (rule advance_inv [OF w True])
    with g have "if wr_pos w + length as + length bs \<le> wr_capacity w
        then g (advance as w) = (True, advance bs (advance as w)) else \<not> fst (g (advance as w))"
      by (auto simp: emits_def)
    with fw advance_append [OF w True, of bs] show ?thesis by (auto simp: add.assoc)
  next
    case False
    with w f have "\<not> fst (f w)" by (auto simp: emits_def)
    with False show ?thesis by (auto split: prod.splits)
  qed
qed

lemma emits_wr_all: "list_all2 emits fs bss \<Longrightarrow> emits (wr_all fs) (concat bss)"
proof (induction fs bss rule: list_all2_induct)
  case Nil
  have "wr_all [] = (\<lambda>w. (True, w))" by (simp add: fun_eq_iff)
  then show ?case by (simp add: emits_Nil)
next
  case (Cons f fs b bss)
  have "wr_all (f # fs) = (\<lambda>w. case f w of (ok, w') \<Rightarrow> if ok then wr_all fs w' else (False, w'))"
    by (simp add: fun_eq_iff)
  with emits_seq [OF Cons(1,3)] show ?case by simp
qed

definition utf8_bytes :: "string option \<Rightarrow> bytes" where
  "utf8_bytes txt = (case txt of None \<Rightarrow> [] | Some s \<Rightarrow> cstr s)"

lemma emits_utf8:
  assumes "length (utf8_bytes txt) \<le> 0xFFFF"
  shows "emits (put_utf8 txt) (u16_le (of_nat (length (utf8_bytes txt))) @ utf8_bytes txt)"
proof -
  let ?bs = "utf8_bytes txt"
  have g: "emits (if length ?bs = 0 then (\<lambda>w. (True, w)) else raw ?bs) ?bs"
    using emits_raw emits_Nil by auto
  have "put_utf8 txt = (\<lambda>w. case put_u16 (of_nat (length ?bs)) w of (ok, w') \<Rightarrow>
      if ok then (if length ?bs = 0 then (\<lambda>w. (True, w)) else raw ?bs) w' else (False, w'))"
    using assms by (auto simp: put_utf8_def utf8_bytes_def Let_def fun_eq_iff split: prod.splits)
  with emits_seq [OF emits_puts(2) g] show ?thesis by simp
qed

text \<open>A size prefix that is reserved first and patched once the content is known.\<close>

lemma patch_reserved:
  assumes w: "wr_inv w" and fit: "wr_pos w + length zs + length bs \<le> wr_capacity w"
    and len: "length xs = length zs"
  shows "patch (wr_pos w) xs (advance (zs @ bs) w) = advance (xs @ bs) w"
  using assms by (cases w) (auto simp: patch_def advance_def wr_inv_def min_def simp flip: length_0_conv)

end
