(* ===== verification/Dongle_Publisher.thy ===== *)
theory Dongle_Publisher
  imports Byte_Writer Subscription_Registry Peer_Table
begin

text \<open>
  \<open>lib/DonglePublisher\<close>: the dongle's own \<open>hub.*\<close> topics. The schema tables, the manifest
  records generated from them, the three payload packers, and the publish scheduler. The
  emit callback and the snapshot provider act on a world \<open>'e\<close> that is threaded through;
  the static variables are the fields of \<open>publisher\<close>.
\<close>

section \<open>Schema tables\<close>

definition kTypeUint8 :: u8 where "kTypeUint8 = 0x01"
definition kTypeUint32 :: u8 where "kTypeUint32 = 0x03"
definition kTypeUint64 :: u8 where "kTypeUint64 = 0x04"
definition kTypeInt8 :: u8 where "kTypeInt8 = 0x05"
definition kEncodingPackedLe :: u8 where "kEncodingPackedLe = 0x05"
definition kTopicFlagSubscribable :: u8 where "kTopicFlagSubscribable = 0x01"
definition kFieldFlagVariableCount :: u8 where "kFieldFlagVariableCount = 0x02"
definition kPeersKeepAliveMs :: u32 where "kPeersKeepAliveMs = 1000"
definition kLinkMaxRateMillihz :: u32 where "kLinkMaxRateMillihz = 5000"
definition kUsbMaxRateMillihz :: u32 where "kUsbMaxRateMillihz = 5000"
definition kPeersMaxRateMillihz :: u32 where "kPeersMaxRateMillihz = 2000"
definition kLinkTopicId :: u16 where "kLinkTopicId = 0x0F01"
definition kUsbTopicId :: u16 where "kUsbTopicId = 0x0F02"
definition kPeersTopicId :: u16 where "kPeersTopicId = 0x0F03"
definition kSchemaVersion :: u16 where "kSchemaVersion = 4"
definition kMaxPeers :: nat where "kMaxPeers = 16"
definition kUsbDropClassCount :: nat where "kUsbDropClassCount = 4"
definition kRecordsCapacity :: nat where "kRecordsCapacity = 2048"

record field_desc =
  fd_fieldId :: u16
  fd_order :: u16
  fd_name :: string
  fd_type :: u8
  fd_unit :: string
  fd_elementCount :: u16
  fd_maxElementCount :: u16
  fd_flags :: u8

record topic_desc =
  td_topicId :: u16
  td_name :: string
  td_maxRateMillihz :: u32
  td_fields :: "field_desc list"

definition kLinkFields :: "field_desc list" where
  "kLinkFields =
     [field_desc.make 1 0 ''datagrams'' kTypeUint32 ''1'' 1 0 0,
      field_desc.make 2 1 ''fragments_accepted'' kTypeUint32 ''1'' 1 0 0,
      field_desc.make 3 2 ''routed_telemetry'' kTypeUint32 ''1'' 1 0 0,
      field_desc.make 4 3 ''routed_log'' kTypeUint32 ''1'' 1 0 0,
      field_desc.make 5 4 ''routed_command'' kTypeUint32 ''1'' 1 0 0,
      field_desc.make 6 5 ''routed_control'' kTypeUint32 ''1'' 1 0 0,
      field_desc.make 7 6 ''routed_terminal'' kTypeUint32 ''1'' 1 0 0,
      field_desc.make 8 7 ''dropped_rx'' kTypeUint32 ''1'' 1 0 0,
      field_desc.make 9 8 ''dropped_decode'' kTypeUint32 ''1'' 1 0 0,
      field_desc.make 10 9 ''dropped_crc'' kTypeUint32 ''1'' 1 0 0,
      field_desc.make 11 10 ''dropped_reassembly'' kTypeUint32 ''1'' 1 0 0,
      field_desc.make 12 11 ''dropped_queue_full'' kTypeUint32 ''1'' 1 0 0]"

definition kUsbFields :: "field_desc list" where
  "kUsbFields =
     [field_desc.make 1 0 ''frames_rx'' kTypeUint64 ''1'' 1 0 0,
      field_desc.make 2 1 ''frames_tx'' kTypeUint64 ''1'' 1 0 0,
      field_desc.make 3 2 ''crc_errors'' kTypeUint64 ''1'' 1 0 0,
      field_desc.make 4 3 ''decode_errors'' kTypeUint64 ''1'' 1 0 0,
      field_desc.make 5 4 ''reassembly_rejected'' kTypeUint64 ''1'' 1 0 0,
      field_desc.make 6 5 ''telemetry_dropped'' kTypeUint64 ''1'' 1 0 0,
      field_desc.make 7 6 ''dropped_by_class'' kTypeUint64 ''1'' (of_nat kUsbDropClassCount) 0 0,
      field_desc.make 8 7 ''relay_down_ok'' kTypeUint64 ''1'' 1 0 0,
      field_desc.make 9 8 ''relay_down_unbound'' kTypeUint64 ''1'' 1 0 0,
      field_desc.make 10 9 ''relay_down_no_peer'' kTypeUint64 ''1'' 1 0 0,
      field_desc.make 11 10 ''relay_down_oversized'' kTypeUint64 ''1'' 1 0 0,
      field_desc.make 12 11 ''relay_down_send_failed'' kTypeUint64 ''1'' 1 0 0]"

definition kPeersFields :: "field_desc list" where
  "kPeersFields =
     [field_desc.make 1 0 ''channel'' kTypeUint8 ''1'' 0 (of_nat kMaxPeers) kFieldFlagVariableCount,
      field_desc.make 2 1 ''source_id'' kTypeUint32 ''1'' 0 (of_nat kMaxPeers) kFieldFlagVariableCount,
      field_desc.make 3 2 ''boot_id'' kTypeUint32 ''1'' 0 (of_nat kMaxPeers) kFieldFlagVariableCount,
      field_desc.make 4 3 ''mac'' kTypeUint8 ''1'' 0 (of_nat (kMaxPeers * 6)) kFieldFlagVariableCount,
      field_desc.make 5 4 ''last_seen_ms'' kTypeUint32 ''ms'' 0 (of_nat kMaxPeers) kFieldFlagVariableCount,
      field_desc.make 6 5 ''online'' kTypeUint8 ''1'' 0 (of_nat kMaxPeers) kFieldFlagVariableCount,
      field_desc.make 7 6 ''rssi'' kTypeInt8 ''dBm'' 0 (of_nat kMaxPeers) kFieldFlagVariableCount,
      field_desc.make 8 7 ''rtt_ms'' kTypeUint32 ''ms'' 0 (of_nat kMaxPeers) kFieldFlagVariableCount]"

definition kTopics :: "topic_desc list" where
  "kTopics =
     [topic_desc.make kLinkTopicId ''hub.link'' kLinkMaxRateMillihz kLinkFields,
      topic_desc.make kUsbTopicId ''hub.usb'' kUsbMaxRateMillihz kUsbFields,
      topic_desc.make kPeersTopicId ''hub.peers'' kPeersMaxRateMillihz kPeersFields]"

section \<open>Manifest records\<close>

text \<open>The reserve-and-patch frame both record writers have: a size prefix written as zero, the
  content, and the size of the content patched in at the end.\<close>

definition sized_record :: "append \<Rightarrow> append" where
  "sized_record body w =
     (let sizeOffset = wr_pos w in
      case put_u32 0 w of
        (ok, w1) \<Rightarrow>
          if \<not> ok then (False, w1)
          else (let contentStart = wr_pos w1 in
                case body w1 of
                  (ok2, w2) \<Rightarrow>
                    if \<not> ok2 then (False, w2)
                    else (True, patchU32 sizeOffset (of_nat (wr_pos w2 - contentStart)) w2)))"

definition f64_one :: u64 where "f64_one = 0x3FF0000000000000"
definition f64_zero :: u64 where "f64_zero = 0"

definition writeFieldRecord :: "field_desc \<Rightarrow> append" where
  "writeFieldRecord field =
     sized_record (wr_all
       [put_u16 (fd_fieldId field), put_u16 (fd_order field), put_u8 (fd_type field),
        put_u8 (fd_flags field), put_u16 (fd_elementCount field), put_u16 (fd_maxElementCount field),
        put_f64 f64_one, put_f64 f64_zero, put_u16 0,
        put_utf8 (Some (fd_name field)), put_utf8 (Some (fd_unit field)), put_utf8 (Some '''')])"

definition writeTopicRecord :: "topic_desc \<Rightarrow> append" where
  "writeTopicRecord topic =
     sized_record (wr_all
       ([put_u16 (td_topicId topic), put_u16 kSchemaVersion, put_u8 kEncodingPackedLe,
         put_u8 kTopicFlagSubscribable, put_u16 (of_nat (length (td_fields topic))),
         put_u32 (td_maxRateMillihz topic), put_utf8 (Some (td_name topic)), put_utf8 (Some '''')] @
        map writeFieldRecord (td_fields topic)))"

text \<open>The records buffer, its size, the number of topics in it and whether it was built.\<close>

record records_state =
  rc_records :: bytes
  rc_recordsSize :: nat
  rc_recordsTopicCount :: u16
  rc_recordsBuilt :: bool

definition records_init :: records_state where
  "records_init = \<lparr>rc_records = replicate kRecordsCapacity 0, rc_recordsSize = 0,
     rc_recordsTopicCount = 0, rc_recordsBuilt = False\<rparr>"

fun write_topics :: "topic_desc list \<Rightarrow> u16 \<Rightarrow> writer \<Rightarrow> u16 \<times> writer" where
  "write_topics [] written w = (written, w)"
| "write_topics (topic # ts) written w =
     (case writeTopicRecord topic w of
        (ok, w') \<Rightarrow> if \<not> ok then (written, w') else write_topics ts (written + 1) w')"

text \<open>The pointer, the size and the count the caller gets, and the new state.\<close>

definition topicRecords :: "records_state \<Rightarrow> (bytes \<times> nat \<times> u16) \<times> records_state" where
  "topicRecords s =
     (let s' = (if rc_recordsBuilt s then s
                else (case write_topics kTopics 0 (writer_on (rc_records s)) of
                        (written, w) \<Rightarrow> s\<lparr>rc_records := wr_out w, rc_recordsSize := wr_pos w,
                                          rc_recordsTopicCount := written, rc_recordsBuilt := True\<rparr>))
      in ((rc_records s', rc_recordsSize s', rc_recordsTopicCount s'), s'))"

fun find_topic :: "u16 \<Rightarrow> topic_desc list \<Rightarrow> u32 option" where
  "find_topic topicId [] = None"
| "find_topic topicId (topic # ts) =
     (if td_topicId topic = topicId then Some (td_maxRateMillihz topic) else find_topic topicId ts)"

definition hub_lookupTopicMaxRateMillihz :: "u16 \<Rightarrow> bool \<Rightarrow> u32 option" where
  "hub_lookupTopicMaxRateMillihz topicId outNull = (if outNull then None else find_topic topicId kTopics)"

section \<open>Payloads\<close>

record link_counters =
  lc_datagrams :: u32
  lc_fragmentsAccepted :: u32
  lc_routedTelemetry :: u32
  lc_routedLog :: u32
  lc_routedCommand :: u32
  lc_routedControl :: u32
  lc_routedTerminal :: u32
  lc_droppedRx :: u32
  lc_droppedDecode :: u32
  lc_droppedCrc :: u32
  lc_droppedReassembly :: u32
  lc_droppedQueueFull :: u32

record usb_counters =
  uc_framesRx :: u64
  uc_framesTx :: u64
  uc_crcErrors :: u64
  uc_decodeErrors :: u64
  uc_reassemblyRejected :: u64
  uc_telemetryDropped :: u64
  uc_droppedByClass :: "u64 \<times> u64 \<times> u64 \<times> u64"
  uc_relayDownOk :: u64
  uc_relayDownUnbound :: u64
  uc_relayDownNoPeer :: u64
  uc_relayDownOversized :: u64
  uc_relayDownSendFailed :: u64

record peer_record =
  pr_sourceId :: u32
  pr_bootId :: u32
  pr_mac :: mac
  pr_lastSeenAgeMs :: u32
  pr_online :: bool
  pr_rssi :: "8 word"
  pr_rttMs :: u32

definition kLinkPayloadSize :: nat where "kLinkPayloadSize = 2 + 12 * 4"
definition kUsbPayloadSize :: nat where "kUsbPayloadSize = 2 + 6 * 8 + kUsbDropClassCount * 8 + 5 * 8"
definition kPeersPayloadOverhead :: nat where "kPeersPayloadOverhead = 2 + 8 * 2"
definition kPeersPayloadBytesPerPeer :: nat where "kPeersPayloadBytesPerPeer = 25"
definition kMaxPeersPayloadSize :: nat where
  "kMaxPeersPayloadSize = kPeersPayloadOverhead + kPeersPayloadBytesPerPeer * kMaxPeers"

text \<open>What a packer returns: the size (0 on failure) and the output buffer.\<close>

definition pack_with :: "append \<Rightarrow> bytes \<Rightarrow> nat \<times> bytes" where
  "pack_with body buf = (case body (writer_on buf) of (ok, w) \<Rightarrow> (if ok then wr_pos w else 0, wr_out w))"

definition packLink :: "link_counters \<Rightarrow> bytes option \<Rightarrow> nat \<times> bytes option" where
  "packLink c output =
     (case output of
        None \<Rightarrow> (0, None)
      | Some buf \<Rightarrow>
          if length buf < kLinkPayloadSize then (0, Some buf)
          else map_prod id Some (pack_with (wr_all
            [put_u16 kSchemaVersion, put_u32 (lc_datagrams c), put_u32 (lc_fragmentsAccepted c),
             put_u32 (lc_routedTelemetry c), put_u32 (lc_routedLog c), put_u32 (lc_routedCommand c),
             put_u32 (lc_routedControl c), put_u32 (lc_routedTerminal c), put_u32 (lc_droppedRx c),
             put_u32 (lc_droppedDecode c), put_u32 (lc_droppedCrc c), put_u32 (lc_droppedReassembly c),
             put_u32 (lc_droppedQueueFull c)]) buf))"

definition drop_classes :: "usb_counters \<Rightarrow> u64 list" where
  "drop_classes c = (case uc_droppedByClass c of (a, b, d, e) \<Rightarrow> [a, b, d, e])"

definition packUsb :: "usb_counters \<Rightarrow> bytes option \<Rightarrow> nat \<times> bytes option" where
  "packUsb c output =
     (case output of
        None \<Rightarrow> (0, None)
      | Some buf \<Rightarrow>
          if length buf < kUsbPayloadSize then (0, Some buf)
          else map_prod id Some (pack_with (wr_all
            ([put_u16 kSchemaVersion, put_u64 (uc_framesRx c), put_u64 (uc_framesTx c),
              put_u64 (uc_crcErrors c), put_u64 (uc_decodeErrors c), put_u64 (uc_reassemblyRejected c),
              put_u64 (uc_telemetryDropped c)] @
             map put_u64 (drop_classes c) @
             [put_u64 (uc_relayDownOk c), put_u64 (uc_relayDownUnbound c), put_u64 (uc_relayDownNoPeer c),
              put_u64 (uc_relayDownOversized c), put_u64 (uc_relayDownSendFailed c)])) buf))"

definition mac_octets :: "mac \<Rightarrow> bytes" where
  "mac_octets m = (case m of (a, b, c, d, e, f) \<Rightarrow> [a, b, c, d, e, f])"

text \<open>\<open>None\<close> for the records is the null pointer, which counts as no peers.\<close>

definition packPeers :: "peer_record list option \<Rightarrow> nat \<Rightarrow> bytes option \<Rightarrow> nat \<times> bytes option" where
  "packPeers peersPtr count0 output =
     (case output of
        None \<Rightarrow> (0, None)
      | Some buf \<Rightarrow>
          (let count1 = (if peersPtr = None then 0 else count0);
               count = (if count1 > kMaxPeers then kMaxPeers else count1);
               peers = take count (case peersPtr of None \<Rightarrow> [] | Some ps \<Rightarrow> ps);
               needed = kPeersPayloadOverhead + kPeersPayloadBytesPerPeer * count;
               elementCount = of_nat count
           in if length buf < needed then (0, Some buf)
              else map_prod id Some (pack_with (wr_all
                ([put_u16 kSchemaVersion, put_u16 elementCount] @ map (\<lambda>i. put_u8 (of_nat i)) [0..<count] @
                 [put_u16 elementCount] @ map (\<lambda>p. put_u32 (pr_sourceId p)) peers @
                 [put_u16 elementCount] @ map (\<lambda>p. put_u32 (pr_bootId p)) peers @
                 [put_u16 (of_nat (count * 6))] @
                   concat (map (\<lambda>p. map put_u8 (mac_octets (pr_mac p))) peers) @
                 [put_u16 elementCount] @ map (\<lambda>p. put_u32 (pr_lastSeenAgeMs p)) peers @
                 [put_u16 elementCount] @ map (\<lambda>p. put_u8 (if pr_online p then 1 else 0)) peers @
                 [put_u16 elementCount] @ map (\<lambda>p. put_u8 (pr_rssi p)) peers @
                 [put_u16 elementCount] @ map (\<lambda>p. put_u32 (pr_rttMs p)) peers)) buf)))"

section \<open>Publish scheduling\<close>

record topic_state =
  ts_subscribed :: bool
  ts_periodMs :: u32
  ts_lastPublishMs :: u32
  ts_published :: bool

record snapshot =
  sn_link :: link_counters
  sn_usb :: usb_counters
  sn_peers :: "peer_record list"
  sn_peerCount :: nat

record 'e publisher =
  pb_link :: topic_state
  pb_usb :: topic_state
  pb_peers :: topic_state
  pb_peersFingerprint :: u32
  pb_peersFingerprintValid :: bool
  pb_snapshotProvider :: "('e \<Rightarrow> snapshot \<times> 'e) option"

definition idleTopic :: topic_state where
  "idleTopic = \<lparr>ts_subscribed = False, ts_periodMs = 0, ts_lastPublishMs = 0, ts_published = False\<rparr>"

definition publisher_init :: "'e publisher" where
  "publisher_init = \<lparr>pb_link = idleTopic, pb_usb = idleTopic, pb_peers = idleTopic,
     pb_peersFingerprint = 0, pb_peersFingerprintValid = False, pb_snapshotProvider = None\<rparr>"

definition schemaMaxRateFor :: "u16 \<Rightarrow> u32" where
  "schemaMaxRateFor topicId = (case find_topic topicId kTopics of Some r \<Rightarrow> r | None \<Rightarrow> 0)"

definition periodMsFromRate :: "u32 \<Rightarrow> u32" where
  "periodMsFromRate rateMillihz =
     (if rateMillihz = 0 then 0
      else (let period = 1000000 div rateMillihz in if period = 0 then 1 else period))"

definition fnv_mix :: "u32 \<Rightarrow> u8 \<Rightarrow> u32" where
  "fnv_mix hash byte = (hash XOR ucast byte) * 16777619"

definition peer_mix :: "u32 \<Rightarrow> peer_record \<Rightarrow> u32" where
  "peer_mix hash p =
     (let h1 = foldl (\<lambda>h b. fnv_mix (fnv_mix h (ucast (drop_bit (8 * b) (pr_sourceId p))))
                              (ucast (drop_bit (8 * b) (pr_bootId p)))) hash [0..<4];
          h2 = foldl fnv_mix h1 (mac_octets (pr_mac p))
      in fnv_mix h2 (if pr_online p then 1 else 0))"

definition peersFingerprint :: "peer_record list \<Rightarrow> nat \<Rightarrow> u32" where
  "peersFingerprint peers count =
     foldl peer_mix (fnv_mix 2166136261 (of_nat count)) (take count peers)"

type_synonym 'e emit_fn = "u16 \<Rightarrow> bytes \<Rightarrow> 'e \<Rightarrow> bool \<times> 'e"

definition publish ::
  "u32 \<Rightarrow> u16 \<Rightarrow> bytes \<Rightarrow> 'e emit_fn \<Rightarrow> 'e \<times> sub_registry \<Rightarrow> bool \<times> 'e \<times> sub_registry" where
  "publish selfSourceId topicId payload emit st =
     (case st of (e, reg) \<Rightarrow>
        case emit topicId payload e of
          (ok, e') \<Rightarrow>
            if ok then (True, e', recordForwarded selfSourceId (ucast topicId) (length payload) reg)
            else (False, e', recordDropped selfSourceId (ucast topicId) reg))"

definition duePeriodic :: "topic_state \<Rightarrow> u32 \<Rightarrow> bool" where
  "duePeriodic state nowMs =
     (if \<not> ts_subscribed state then False
      else if \<not> ts_published state then True
      else nowMs - ts_lastPublishMs state \<ge> ts_periodMs state)"

definition subscribe_topic :: "u16 \<Rightarrow> u32 \<Rightarrow> topic_state \<Rightarrow> topic_state" where
  "subscribe_topic topicId rateMillihz st =
     (let effective = (if rateMillihz \<noteq> 0 then rateMillihz else schemaMaxRateFor topicId);
          period = periodMsFromRate effective
      in st\<lparr>ts_subscribed := True, ts_periodMs := (if period = 0 then 1000 else period)\<rparr>)"

definition onLocalSubscribe :: "u16 \<Rightarrow> u32 \<Rightarrow> 'e publisher \<Rightarrow> 'e publisher" where
  "onLocalSubscribe topicId rateMillihz s =
     (if topicId = kLinkTopicId then s\<lparr>pb_link := subscribe_topic topicId rateMillihz (pb_link s)\<rparr>
      else if topicId = kUsbTopicId then s\<lparr>pb_usb := subscribe_topic topicId rateMillihz (pb_usb s)\<rparr>
      else if topicId = kPeersTopicId then s\<lparr>pb_peers := subscribe_topic topicId rateMillihz (pb_peers s)\<rparr>
      else s)"

definition unsubscribe_topic :: "topic_state \<Rightarrow> topic_state" where
  "unsubscribe_topic st = st\<lparr>ts_subscribed := False, ts_published := False\<rparr>"

definition onLocalUnsubscribe :: "u16 \<Rightarrow> 'e publisher \<Rightarrow> 'e publisher" where
  "onLocalUnsubscribe topicId s =
     (if topicId = kLinkTopicId then s\<lparr>pb_link := unsubscribe_topic (pb_link s)\<rparr>
      else if topicId = kUsbTopicId then s\<lparr>pb_usb := unsubscribe_topic (pb_usb s)\<rparr>
      else if topicId = kPeersTopicId
        then s\<lparr>pb_peers := unsubscribe_topic (pb_peers s), pb_peersFingerprintValid := False\<rparr>
      else s)"

definition hasSubscribers :: "'e publisher \<Rightarrow> bool" where
  "hasSubscribers s \<longleftrightarrow> ts_subscribed (pb_link s) \<or> ts_subscribed (pb_usb s) \<or> ts_subscribed (pb_peers s)"

definition setSnapshotProvider :: "('e \<Rightarrow> snapshot \<times> 'e) option \<Rightarrow> 'e publisher \<Rightarrow> 'e publisher" where
  "setSnapshotProvider provider s = s\<lparr>pb_snapshotProvider := provider\<rparr>"

text \<open>Packing into a fresh buffer and handing the payload on when there is one.\<close>

definition emit_packed ::
  "u32 \<Rightarrow> u16 \<Rightarrow> nat \<times> bytes option \<Rightarrow> 'e emit_fn \<Rightarrow> 'e \<times> sub_registry \<Rightarrow> nat \<times> 'e \<times> sub_registry" where
  "emit_packed selfSourceId topicId packed emit st =
     (case packed of
        (sz, Some buf) \<Rightarrow>
          if sz > 0
          then (case publish selfSourceId topicId (take sz buf) emit st of (ok, st') \<Rightarrow> (if ok then 1 else 0, st'))
          else (0, st)
      | (_, None) \<Rightarrow> (0, st))"

definition mark_published :: "u32 \<Rightarrow> topic_state \<Rightarrow> topic_state" where
  "mark_published nowMs st = st\<lparr>ts_lastPublishMs := nowMs, ts_published := True\<rparr>"

text \<open>The three blocks of \<open>tick\<close>, each on the state, the world and the registry.\<close>

definition tick_link ::
  "u32 \<Rightarrow> u32 \<Rightarrow> 'e emit_fn \<Rightarrow> snapshot \<Rightarrow> 'e publisher \<Rightarrow> 'e \<times> sub_registry \<Rightarrow>
     nat \<times> 'e publisher \<times> 'e \<times> sub_registry" where
  "tick_link selfSourceId nowMs emit snap s st =
     (if duePeriodic (pb_link s) nowMs
      then (case emit_packed selfSourceId kLinkTopicId
                   (packLink (sn_link snap) (Some (replicate kLinkPayloadSize 0))) emit st of
              (n, st') \<Rightarrow> (n, s\<lparr>pb_link := mark_published nowMs (pb_link s)\<rparr>, st'))
      else (0, s, st))"

definition tick_usb ::
  "u32 \<Rightarrow> u32 \<Rightarrow> 'e emit_fn \<Rightarrow> snapshot \<Rightarrow> 'e publisher \<Rightarrow> 'e \<times> sub_registry \<Rightarrow>
     nat \<times> 'e publisher \<times> 'e \<times> sub_registry" where
  "tick_usb selfSourceId nowMs emit snap s st =
     (if duePeriodic (pb_usb s) nowMs
      then (case emit_packed selfSourceId kUsbTopicId
                   (packUsb (sn_usb snap) (Some (replicate kUsbPayloadSize 0))) emit st of
              (n, st') \<Rightarrow> (n, s\<lparr>pb_usb := mark_published nowMs (pb_usb s)\<rparr>, st'))
      else (0, s, st))"

definition tick_peers ::
  "u32 \<Rightarrow> u32 \<Rightarrow> 'e emit_fn \<Rightarrow> snapshot \<Rightarrow> 'e publisher \<Rightarrow> 'e \<times> sub_registry \<Rightarrow>
     nat \<times> 'e publisher \<times> 'e \<times> sub_registry" where
  "tick_peers selfSourceId nowMs emit snap s st =
     (if \<not> ts_subscribed (pb_peers s) then (0, s, st)
      else
        (let count = (if sn_peerCount snap < kMaxPeers then sn_peerCount snap else kMaxPeers);
             fingerprint = peersFingerprint (sn_peers snap) count;
             changed = (\<not> pb_peersFingerprintValid s \<or> fingerprint \<noteq> pb_peersFingerprint s);
             elapsed = nowMs - ts_lastPublishMs (pb_peers s);
             due = (\<not> ts_published (pb_peers s) \<or>
                    (elapsed \<ge> ts_periodMs (pb_peers s) \<and>
                     (changed \<or> elapsed \<ge> kPeersKeepAliveMs)))
         in if \<not> due then (0, s, st)
            else (case emit_packed selfSourceId kPeersTopicId
                         (packPeers (Some (sn_peers snap)) count (Some (replicate kMaxPeersPayloadSize 0)))
                         emit st of
                    (n, st') \<Rightarrow>
                      (n, s\<lparr>pb_peers := mark_published nowMs (pb_peers s),
                            pb_peersFingerprint := fingerprint, pb_peersFingerprintValid := True\<rparr>, st'))))"

definition tick ::
  "u32 \<Rightarrow> u32 \<Rightarrow> 'e emit_fn option \<Rightarrow> 'e publisher \<Rightarrow> 'e \<times> sub_registry \<Rightarrow>
     nat \<times> 'e publisher \<times> 'e \<times> sub_registry" where
  "tick selfSourceId nowMs emitPtr s st =
     (case (emitPtr, pb_snapshotProvider s) of
        (Some emit, Some provider) \<Rightarrow>
          if \<not> hasSubscribers s then (0, s, st)
          else
            (case provider (fst st) of
               (snap, e1) \<Rightarrow>
                 case tick_link selfSourceId nowMs emit snap s (e1, snd st) of
                   (n1, s1, st1) \<Rightarrow>
                     case tick_usb selfSourceId nowMs emit snap s1 st1 of
                       (n2, s2, st2) \<Rightarrow>
                         case tick_peers selfSourceId nowMs emit snap s2 st2 of
                           (n3, s3, st3) \<Rightarrow> (n1 + n2 + n3, s3, st3))
      | _ \<Rightarrow> (0, s, st))"

end
