(* ===== verification/Manifest_Cache.thy ===== *)
theory Manifest_Cache
  imports Btp_Types Dongle_Publisher
begin

text \<open>
  \<open>lib/ManifestCache\<close>: one cached manifest per robot, the chase for missing ones, and the
  answers to catalog requests. The static variables are the fields of \<open>manifest_cache\<close>. The
  library's \<open>ManifestReader\<close> and \<open>ManifestWriter\<close> are the arguments \<open>reader_ops\<close> and
  \<open>writer_ops\<close>; this dongle's identity comes from \<open>BtpTransport\<close> as an argument pair.
\<close>

section \<open>State\<close>

definition kStatusSuccess :: u8 where "kStatusSuccess = 0x00"
definition kStatusRejected :: u8 where "kStatusRejected = 0x01"
definition kErrorNone :: u16 where "kErrorNone = 0x0000"
definition kErrorStaleTargetBoot :: u16 where "kErrorStaleTargetBoot = 0x0009"
definition kErrorNotFound :: u16 where "kErrorNotFound = 0x000B"
definition kFlagNotModified :: u8 where "kFlagNotModified = 0x01"
definition kFlagCatalogComplete :: u8 where "kFlagCatalogComplete = 0x02"
definition kSelfConfigRevision :: u32 where "kSelfConfigRevision = 3"
definition kSelfName :: string where "kSelfName = ''t_dongle_develop''"
definition kManifestFormatVersion :: u16 where "kManifestFormatVersion = 3"
definition kSourceRoleDongle :: u8 where "kSourceRoleDongle = 0x02"
definition kCapacity :: nat where "kCapacity = 8"
definition kMaxRecordsBytes :: nat where "kMaxRecordsBytes = 2048"
definition kMaxNameLength :: nat where "kMaxNameLength = 64"
definition kMaxSourceInfoBytes :: nat where "kMaxSourceInfoBytes = 512"
definition kRequestCooldownMs :: u32 where "kRequestCooldownMs = 3000"
definition kFastRequestCooldownMs :: u32 where "kFastRequestCooldownMs = 1000"
definition kFastRequestAttempts :: u32 where "kFastRequestAttempts = 3"

record manifest_entry =
  me_used :: bool
  me_sourceId :: u32
  me_bootId :: u32
  me_uuid :: bytes
  me_role :: u8
  me_online :: bool
  me_configRevision :: u32
  me_name :: bytes
  me_topicCount :: u16
  me_actionCount :: u16
  me_records :: bytes
  me_recordsSize :: nat
  me_topicRecordsSize :: nat
  me_sourceInfo :: bytes
  me_sourceInfoSize :: u16
  me_lastSeenMs :: u32

record pending_request =
  mp_used :: bool
  mp_sourceId :: u32
  mp_bootId :: u32
  mp_lastRequestedMs :: u32
  mp_attempts :: u32

record manifest_diag =
  dg_primeSent :: u32
  dg_ingestOk :: u32
  dg_ingestFail :: u32
  dg_consumeRejected :: u32
  dg_targetedRx :: u32
  dg_targetedHit :: u32
  dg_targetedMiss :: u32

record manifest_cache =
  mc_entries :: "manifest_entry list"
  mc_pending :: "pending_request list"
  mc_catalogRevision :: u32
  mc_selfUuid :: bytes
  mc_selfSourceInfo :: "bytes option"
  mc_diag :: manifest_diag

definition freeEntry :: manifest_entry where
  "freeEntry = \<lparr>me_used = False, me_sourceId = 0, me_bootId = 0, me_uuid = replicate 16 0, me_role = 0,
     me_online = False, me_configRevision = 0, me_name = replicate (kMaxNameLength + 1) 0,
     me_topicCount = 0, me_actionCount = 0, me_records = replicate kMaxRecordsBytes 0, me_recordsSize = 0,
     me_topicRecordsSize = 0, me_sourceInfo = replicate kMaxSourceInfoBytes 0, me_sourceInfoSize = 0,
     me_lastSeenMs = 0\<rparr>"

definition freePending :: pending_request where
  "freePending = \<lparr>mp_used = False, mp_sourceId = 0, mp_bootId = 0, mp_lastRequestedMs = 0, mp_attempts = 0\<rparr>"

definition zeroDiag :: manifest_diag where
  "zeroDiag = \<lparr>dg_primeSent = 0, dg_ingestOk = 0, dg_ingestFail = 0, dg_consumeRejected = 0,
     dg_targetedRx = 0, dg_targetedHit = 0, dg_targetedMiss = 0\<rparr>"

definition cache_reset :: manifest_cache where
  "cache_reset = \<lparr>mc_entries = replicate kCapacity freeEntry, mc_pending = replicate kCapacity freePending,
     mc_catalogRevision = 1, mc_selfUuid = replicate 16 0, mc_selfSourceInfo = None, mc_diag = zeroDiag\<rparr>"

definition kEmptySourceInfo :: bytes where "kEmptySourceInfo = [0, 0]"

section \<open>Slots\<close>

definition read_u16_le :: "bytes \<Rightarrow> nat \<Rightarrow> u16" where
  "read_u16_le bs i = ucast (bs ! i) OR push_bit 8 (ucast (bs ! (i + 1)))"

definition read_u32_le :: "bytes \<Rightarrow> nat \<Rightarrow> u32" where
  "read_u32_le bs i = ucast (bs ! i) OR push_bit 8 (ucast (bs ! (i + 1))) OR
     push_bit 16 (ucast (bs ! (i + 2))) OR push_bit 24 (ucast (bs ! (i + 3)))"

definition findEntry :: "u32 \<Rightarrow> manifest_entry list \<Rightarrow> nat option" where
  "findEntry sourceId es = find_slot (\<lambda>e. me_used e \<and> me_sourceId e = sourceId) es"

text \<open>One pass that stops at the first free slot and remembers the oldest used one.\<close>

fun alloc_loop :: "('r \<Rightarrow> bool) \<Rightarrow> ('r \<Rightarrow> u32) \<Rightarrow> 'r list \<Rightarrow> nat \<Rightarrow> (nat \<times> 'r) option \<Rightarrow> nat option" where
  "alloc_loop used stamp [] i oldest = map_option fst oldest"
| "alloc_loop used stamp (r # rs) i oldest =
     (if \<not> used r then Some i
      else alloc_loop used stamp rs (i + 1)
             (case oldest of
                None \<Rightarrow> Some (i, r)
              | Some (j, old) \<Rightarrow> if stamp r < stamp old then Some (i, r) else Some (j, old)))"

definition findOrAllocateEntry :: "u32 \<Rightarrow> manifest_entry list \<Rightarrow> nat" where
  "findOrAllocateEntry sourceId es =
     (case findEntry sourceId es of
        Some existing \<Rightarrow> existing
      | None \<Rightarrow> the (alloc_loop me_used me_lastSeenMs es 0 None))"

definition findPending :: "u32 \<Rightarrow> pending_request list \<Rightarrow> nat option" where
  "findPending sourceId ps = find_slot (\<lambda>p. mp_used p \<and> mp_sourceId p = sourceId) ps"

definition findOrAllocatePending :: "u32 \<Rightarrow> pending_request list \<Rightarrow> nat" where
  "findOrAllocatePending sourceId ps =
     (case findPending sourceId ps of
        Some existing \<Rightarrow> existing
      | None \<Rightarrow> the (alloc_loop mp_used mp_lastRequestedMs ps 0 None))"

text \<open>The insertion sort of \<open>collectSortedEntries\<close>: the inner loop moves larger entries of the
  sorted prefix up and puts the key where it stops.\<close>

fun shift_up :: "manifest_entry list \<Rightarrow> manifest_entry \<Rightarrow> nat \<Rightarrow> manifest_entry list" where
  "shift_up out key 0 = out[0 := key]"
| "shift_up out key (Suc j) =
     (if me_sourceId (out ! j) > me_sourceId key then shift_up (out[Suc j := out ! j]) key j
      else out[Suc j := key])"

fun sort_loop :: "nat \<Rightarrow> nat \<Rightarrow> manifest_entry list \<Rightarrow> manifest_entry list" where
  "sort_loop i 0 out = out"
| "sort_loop i (Suc n) out = sort_loop (i + 1) n (shift_up out (out ! i) i)"

definition collectSortedEntries :: "manifest_entry list \<Rightarrow> manifest_entry list" where
  "collectSortedEntries es =
     (let out = filter me_used es in sort_loop 1 (length out - 1) out)"

section \<open>Building a response\<close>

record manifest_header =
  mh_request_source_id :: u32
  mh_request_boot_id :: u32
  mh_reply_to_sequence :: u32
  mh_status :: u8
  mh_flags :: u8
  mh_error_code :: u16
  mh_manifest_format_version :: u16
  mh_config_revision :: u32
  mh_source_uuid :: bytes
  mh_described_source_id :: u32
  mh_described_boot_id :: u32
  mh_source_role :: u8
  mh_source_flags :: u8
  mh_catalog_index :: u16
  mh_catalog_count :: u16
  mh_topic_count :: u16
  mh_action_count :: u16
  mh_source_name :: bytes

record 'w writer_ops =
  wo_begin :: "manifest_header \<Rightarrow> nat \<Rightarrow> 'w option"
  wo_put_raw_source_info :: "bytes \<Rightarrow> 'w \<Rightarrow> 'w option"
  wo_put_raw_records :: "bytes \<Rightarrow> bytes \<Rightarrow> 'w \<Rightarrow> 'w option"
  wo_finish :: "'w \<Rightarrow> bytes option"

text \<open>\<open>kSourceOnline\<close> of the library is bit 0 of the source flags; the records blob is given up to
  its size, and the empty list stands for a null pointer. The empty result is the size 0.\<close>

definition writeManifestData ::
  "'w writer_ops \<Rightarrow> btp_header \<Rightarrow> u8 \<Rightarrow> u8 \<Rightarrow> u16 \<Rightarrow> u16 \<Rightarrow> u16 \<Rightarrow> u32 \<Rightarrow> bytes option \<Rightarrow> u32 \<Rightarrow> u32 \<Rightarrow>
     u8 \<Rightarrow> bool \<Rightarrow> bytes \<Rightarrow> bytes option \<Rightarrow> bytes \<Rightarrow> nat \<Rightarrow> nat \<Rightarrow> bytes" where
  "writeManifestData ops requestHeader status flags errorCode catalogIndex catalogCount configRevision uuid
     describedSourceId describedBootId role online name sourceInfo recordsBlob topicRecordsSize capacity =
     (let header = \<lparr>mh_request_source_id = hd_source_id requestHeader,
            mh_request_boot_id = hd_boot_id requestHeader, mh_reply_to_sequence = hd_sequence requestHeader,
            mh_status = status, mh_flags = flags, mh_error_code = errorCode,
            mh_manifest_format_version = kManifestFormatVersion, mh_config_revision = configRevision,
            mh_source_uuid = (case uuid of Some u \<Rightarrow> take 16 u | None \<Rightarrow> replicate 16 0),
            mh_described_source_id = describedSourceId, mh_described_boot_id = describedBootId,
            mh_source_role = role, mh_source_flags = (if online then 1 else 0),
            mh_catalog_index = catalogIndex, mh_catalog_count = catalogCount,
            mh_topic_count = 0, mh_action_count = 0, mh_source_name = name\<rparr>;
          written =
            (case wo_begin ops header capacity of
               None \<Rightarrow> None
             | Some w \<Rightarrow>
                 (case (case sourceInfo of
                          None \<Rightarrow> Some w
                        | Some info \<Rightarrow> if length info \<ge> 2 then wo_put_raw_source_info ops info w else Some w) of
                    None \<Rightarrow> None
                  | Some w1 \<Rightarrow>
                      (case wo_put_raw_records ops (take topicRecordsSize recordsBlob)
                              (drop topicRecordsSize recordsBlob) w1 of
                         None \<Rightarrow> None
                       | Some w2 \<Rightarrow> wo_finish ops w2)))
      in (case written of Some bs \<Rightarrow> bs | None \<Rightarrow> []))"

section \<open>This dongle's own information block\<close>

type_synonym info_entry = "string option \<times> string option \<times> string option"

fun info_loop :: "info_entry list \<Rightarrow> u16 \<Rightarrow> writer \<Rightarrow> bool \<times> u16 \<times> writer" where
  "info_loop [] written w = (True, written, w)"
| "info_loop ((key, label, val) # es) written w =
     (if \<not> written < 0xFFFF then (True, written, w)
      else case val of
        None \<Rightarrow> info_loop es written w
      | Some v \<Rightarrow>
          if cstr v = [] then info_loop es written w
          else (case wr_all [put_utf8 key, put_utf8 label, put_utf8 val] w of
                  (ok, w') \<Rightarrow> if \<not> ok then (False, written, w') else info_loop es (written + 1) w'))"

text \<open>A null array has no usable value in any of its entries.\<close>

definition serializeSourceInfo :: "info_entry list option \<Rightarrow> bytes \<Rightarrow> nat \<times> bytes" where
  "serializeSourceInfo entries buf =
     (let countOffset = wr_pos (writer_on buf) in
      case put_u16 0 (writer_on buf) of
        (ok, w) \<Rightarrow>
          if \<not> ok then (0, wr_out w)
          else (case info_loop (case entries of None \<Rightarrow> [] | Some es \<Rightarrow> es) 0 w of
                  (ok2, written, w') \<Rightarrow>
                    if \<not> ok2 then (0, wr_out w')
                    else (let w'' = patchU16 countOffset written w' in (wr_pos w'', wr_out w''))))"

definition configure :: "bytes option \<Rightarrow> bytes option \<Rightarrow> manifest_cache \<Rightarrow> manifest_cache" where
  "configure selfUuid selfSourceInfo s =
     (let s1 = (case selfUuid of Some u \<Rightarrow> s\<lparr>mc_selfUuid := take 16 u\<rparr> | None \<Rightarrow> s)
      in s1\<lparr>mc_selfSourceInfo :=
              (case selfSourceInfo of Some info \<Rightarrow> if length info \<ge> 2 then Some info else None | None \<Rightarrow> None)\<rparr>)"

section \<open>The chase for a missing manifest\<close>

definition shouldRequestManifest :: "u32 \<Rightarrow> u32 \<Rightarrow> u32 \<Rightarrow> manifest_cache \<Rightarrow> bool \<times> manifest_cache" where
  "shouldRequestManifest sourceId bootId nowMs s =
     (if sourceId = 0 \<or> bootId = 0 then (False, s)
      else if (case findEntry sourceId (mc_entries s) of
                 Some i \<Rightarrow> me_bootId (mc_entries s ! i) = bootId | None \<Rightarrow> False) then (False, s)
      else if (case findPending sourceId (mc_pending s) of
                 Some i \<Rightarrow>
                   (let pending = mc_pending s ! i;
                        cooldown = (if mp_attempts pending \<le> kFastRequestAttempts
                                    then kFastRequestCooldownMs else kRequestCooldownMs)
                    in nowMs - mp_lastRequestedMs pending < cooldown)
               | None \<Rightarrow> False) then (False, s)
      else
        (let i = findOrAllocatePending sourceId (mc_pending s);
             slot = mc_pending s ! i;
             sameSource = (mp_used slot \<and> mp_sourceId slot = sourceId);
             slot' = \<lparr>mp_used = True, mp_sourceId = sourceId, mp_bootId = bootId, mp_lastRequestedMs = nowMs,
                      mp_attempts = (if sameSource then mp_attempts slot + 1 else 1)\<rparr>
         in (True, s\<lparr>mc_pending := (mc_pending s)[i := slot']\<rparr>)))"

definition buildRequest ::
  "(u32 \<Rightarrow> u32 \<Rightarrow> u32 \<Rightarrow> nat \<Rightarrow> bytes option) \<Rightarrow> u32 \<Rightarrow> u32 \<Rightarrow> u32 \<Rightarrow> nat \<Rightarrow> bytes" where
  "buildRequest encode_manifest_request targetSourceId targetBootId knownRevision outputCapacity =
     (case encode_manifest_request targetSourceId targetBootId knownRevision outputCapacity of
        Some bs \<Rightarrow> bs | None \<Rightarrow> [])"

section \<open>Ingesting a manifest\<close>

record reader_ops =
  ro_header :: "bytes \<Rightarrow> manifest_header option"
  ro_raw_source_info :: "bytes \<Rightarrow> bytes option"
  ro_raw_records :: "bytes \<Rightarrow> (bytes \<times> bytes) option"

text \<open>\<open>memcpy\<close> to the start of a fixed array keeps what lies behind.\<close>

definition overwrite :: "bytes \<Rightarrow> bytes \<Rightarrow> bytes" where
  "overwrite src dst = src @ drop (length src) dst"

definition entry_update ::
  "manifest_header \<Rightarrow> bytes \<Rightarrow> bytes \<Rightarrow> bytes \<Rightarrow> u32 \<Rightarrow> manifest_entry \<Rightarrow> manifest_entry" where
  "entry_update h info rawTopics rawActions nowMs entry =
     (let notModified = (mh_flags h AND kFlagNotModified \<noteq> 0);
          e1 = entry\<lparr>me_used := True, me_sourceId := mh_described_source_id h,
                 me_bootId := mh_described_boot_id h, me_uuid := take 16 (mh_source_uuid h),
                 me_role := mh_source_role h, me_online := (mh_source_flags h AND 1 \<noteq> 0),
                 me_configRevision := mh_config_revision h, me_lastSeenMs := nowMs,
                 me_sourceInfo := overwrite info (me_sourceInfo entry),
                 me_sourceInfoSize := of_nat (length info)\<rparr>
      in if notModified then e1
         else (let name = mh_source_name h;
                   copyLen = (if length name < kMaxNameLength then length name else kMaxNameLength)
               in e1\<lparr>me_name := overwrite (take copyLen name @ [0]) (me_name entry),
                     me_records := overwrite (rawTopics @ rawActions) (me_records entry),
                     me_recordsSize := length rawTopics + length rawActions,
                     me_topicRecordsSize := length rawTopics,
                     me_topicCount := mh_topic_count h, me_actionCount := mh_action_count h\<rparr>))"

definition release_pending :: "u32 \<Rightarrow> pending_request list \<Rightarrow> pending_request list" where
  "release_pending sourceId ps =
     (case findPending sourceId ps of
        Some i \<Rightarrow> ps[i := (ps ! i)\<lparr>mp_used := False\<rparr>]
      | None \<Rightarrow> ps)"

definition ingestManifestDataImpl :: "reader_ops \<Rightarrow> bytes \<Rightarrow> u32 \<Rightarrow> manifest_cache \<Rightarrow> bool \<times> manifest_cache" where
  "ingestManifestDataImpl ops payload nowMs s =
     (case ro_header ops payload of
        None \<Rightarrow> (False, s)
      | Some h \<Rightarrow>
          if mh_status h \<noteq> kStatusSuccess then (False, s)
          else if mh_described_source_id h = 0 \<or> mh_described_boot_id h = 0 then (False, s)
          else (case ro_raw_source_info ops payload of
            None \<Rightarrow> (False, s)
          | Some rawInfo \<Rightarrow>
              if length rawInfo \<ge> 2 \<and> length rawInfo > kMaxSourceInfoBytes then (False, s)
              else
                (let info = (if length rawInfo \<ge> 2 then rawInfo else kEmptySourceInfo);
                     notModified = (mh_flags h AND kFlagNotModified \<noteq> 0)
                 in if notModified \<and> (mh_topic_count h \<noteq> 0 \<or> mh_action_count h \<noteq> 0) then (False, s)
                    else (case ro_raw_records ops payload of
                      None \<Rightarrow> (False, s)
                    | Some (rawTopics, rawActions) \<Rightarrow>
                        if \<not> notModified \<and> length rawTopics + length rawActions > kMaxRecordsBytes then (False, s)
                        else
                          (let sid = mh_described_source_id h;
                               found = findEntry sid (mc_entries s);
                               isNew = (found = None)
                           in if isNew \<and> notModified then (False, s)
                              else
                                (let i = findOrAllocateEntry sid (mc_entries s);
                                     entry = mc_entries s ! i;
                                     changed = (isNew \<or> me_bootId entry \<noteq> mh_described_boot_id h \<or>
                                                me_configRevision entry \<noteq> mh_config_revision h)
                                 in (True, s\<lparr>mc_entries := (mc_entries s)
                                                [i := entry_update h info rawTopics rawActions nowMs entry],
                                             mc_pending := release_pending sid (mc_pending s),
                                             mc_catalogRevision :=
                                               (if changed then mc_catalogRevision s + 1
                                                else mc_catalogRevision s)\<rparr>)))))))"

definition ingestManifestData :: "reader_ops \<Rightarrow> bytes \<Rightarrow> u32 \<Rightarrow> manifest_cache \<Rightarrow> bool \<times> manifest_cache" where
  "ingestManifestData ops payload nowMs s =
     (case ingestManifestDataImpl ops payload nowMs s of
        (ok, s') \<Rightarrow>
          (let d = mc_diag s' in
           if ok then (ok, s'\<lparr>mc_diag := d\<lparr>dg_ingestOk := dg_ingestOk d + 1\<rparr>\<rparr>)
           else (ok, s'\<lparr>mc_diag := d\<lparr>dg_ingestFail := dg_ingestFail d + 1\<rparr>\<rparr>)))"

definition notePrimeSent :: "manifest_cache \<Rightarrow> manifest_cache" where
  "notePrimeSent s = s\<lparr>mc_diag := (mc_diag s)\<lparr>dg_primeSent := dg_primeSent (mc_diag s) + 1\<rparr>\<rparr>"

definition noteConsumeRejected :: "manifest_cache \<Rightarrow> manifest_cache" where
  "noteConsumeRejected s = s\<lparr>mc_diag := (mc_diag s)\<lparr>dg_consumeRejected := dg_consumeRejected (mc_diag s) + 1\<rparr>\<rparr>"

section \<open>Diagnostics and catalog answers\<close>

definition diagnostics ::
  "manifest_cache \<Rightarrow> manifest_diag \<times> (u32 \<times> u32 \<times> u32 \<times> u16 \<times> u16 \<times> u16 \<times> bool) list \<times> (u32 \<times> u32 \<times> u32) list" where
  "diagnostics s =
     (mc_diag s,
      collect me_used (\<lambda>e. (me_sourceId e, me_bootId e, me_configRevision e, me_topicCount e,
                            me_actionCount e, of_nat (me_recordsSize e), me_online e)) kCapacity (mc_entries s) [],
      collect mp_used (\<lambda>p. (mp_sourceId p, mp_bootId p, mp_attempts p)) kCapacity (mc_pending s) [])"

definition enumerationCount :: "manifest_cache \<Rightarrow> nat" where
  "enumerationCount s = 1 + length (filter me_used (mc_entries s))"

text \<open>\<open>name\<close> and \<open>sourceInfo\<close> of an entry as the C string and the sized block the code reads.\<close>

definition entry_name :: "manifest_entry \<Rightarrow> bytes" where
  "entry_name e = takeWhile (\<lambda>b. b \<noteq> 0) (me_name e)"

definition entry_info :: "manifest_entry \<Rightarrow> bytes" where
  "entry_info e = take (unat (me_sourceInfoSize e)) (me_sourceInfo e)"

definition entry_records :: "manifest_entry \<Rightarrow> bytes" where
  "entry_records e = take (me_recordsSize e) (me_records e)"

text \<open>The own records as \<open>DonglePublisher::topicRecords\<close> returns them.\<close>

definition self_records :: "records_state \<Rightarrow> bytes" where
  "self_records rs = (case fst (topicRecords rs) of (recs, n, _) \<Rightarrow> take n recs)"

definition buildEnumerationResponse ::
  "'w writer_ops \<Rightarrow> u32 \<times> u32 \<Rightarrow> records_state \<Rightarrow> nat \<Rightarrow> btp_header \<Rightarrow> nat \<Rightarrow> manifest_cache \<Rightarrow> bytes" where
  "buildEnumerationResponse ops self rs index requestHeader outputCapacity s =
     (let total = enumerationCount s in
      if index \<ge> total then []
      else
        (let flags = (if index + 1 = total then kFlagCatalogComplete else 0) in
         if index = 0 then
           writeManifestData ops requestHeader kStatusSuccess flags kErrorNone (of_nat index) (of_nat total)
             kSelfConfigRevision (Some (mc_selfUuid s)) (fst self) (snd self) kSourceRoleDongle True
             (cstr kSelfName) (mc_selfSourceInfo s) (self_records rs) (length (self_records rs)) outputCapacity
         else
           (let sorted = collectSortedEntries (mc_entries s);
                sortedIndex = index - 1
            in if sortedIndex \<ge> length sorted then []
               else
                 (let entry = sorted ! sortedIndex in
                  writeManifestData ops requestHeader kStatusSuccess flags kErrorNone (of_nat index) (of_nat total)
                    (me_configRevision entry) (Some (me_uuid entry)) (me_sourceId entry) (me_bootId entry)
                    (me_role entry) (me_online entry) (entry_name entry) (Some (entry_info entry))
                    (entry_records entry) (me_topicRecordsSize entry) outputCapacity))))"

definition count_targeted :: "bool \<Rightarrow> manifest_cache \<Rightarrow> manifest_cache" where
  "count_targeted hit s =
     (let d = (mc_diag s)\<lparr>dg_targetedRx := dg_targetedRx (mc_diag s) + 1\<rparr>
      in s\<lparr>mc_diag := (if hit then d\<lparr>dg_targetedHit := dg_targetedHit d + 1\<rparr>
                       else d\<lparr>dg_targetedMiss := dg_targetedMiss d + 1\<rparr>)\<rparr>)"

definition reject_with ::
  "'w writer_ops \<Rightarrow> btp_header \<Rightarrow> u16 \<Rightarrow> string \<Rightarrow> nat \<Rightarrow> bytes" where
  "reject_with ops requestHeader errorCode why outputCapacity =
     writeManifestData ops requestHeader kStatusRejected kFlagCatalogComplete errorCode 0 1 0 None 0 0 0 False
       (cstr why) None [] 0 outputCapacity"

definition buildTargetedResponse ::
  "'w writer_ops \<Rightarrow> u32 \<times> u32 \<Rightarrow> records_state \<Rightarrow> u32 \<Rightarrow> u32 \<Rightarrow> u32 \<Rightarrow> btp_header \<Rightarrow> nat \<Rightarrow> manifest_cache \<Rightarrow>
     bytes \<times> manifest_cache" where
  "buildTargetedResponse ops self rs targetSourceId targetBootId knownRevision requestHeader outputCapacity s =
     (let isSelf = (targetSourceId = fst self);
          entryPtr = (if isSelf then None
                      else map_option (\<lambda>i. mc_entries s ! i) (findEntry targetSourceId (mc_entries s)));
          s' = count_targeted (isSelf \<or> entryPtr \<noteq> None) s
      in if \<not> isSelf \<and> entryPtr = None
         then (reject_with ops requestHeader kErrorNotFound ''unknown source'' outputCapacity, s')
         else
           (let entry = (case entryPtr of Some e \<Rightarrow> e | None \<Rightarrow> freeEntry);
                foundBootId = (if isSelf then snd self else me_bootId entry)
            in if targetBootId \<noteq> 0 \<and> targetBootId \<noteq> foundBootId
               then (reject_with ops requestHeader kErrorStaleTargetBoot ''boot mismatch'' outputCapacity, s')
               else
                 (let foundRevision = (if isSelf then kSelfConfigRevision else me_configRevision entry);
                      foundUuid = (if isSelf then mc_selfUuid s else me_uuid entry);
                      foundRole = (if isSelf then kSourceRoleDongle else me_role entry);
                      foundOnline = (if isSelf then True else me_online entry);
                      foundName = (if isSelf then cstr kSelfName else entry_name entry);
                      foundInfo = (if isSelf then mc_selfSourceInfo s else Some (entry_info entry));
                      answer = (\<lambda>flags recs topicSize.
                        writeManifestData ops requestHeader kStatusSuccess flags kErrorNone 0 1 foundRevision
                          (Some foundUuid) targetSourceId foundBootId foundRole foundOnline foundName foundInfo
                          recs topicSize outputCapacity)
                  in if knownRevision \<noteq> 0 \<and> knownRevision = foundRevision
                     then (answer (kFlagNotModified OR kFlagCatalogComplete) [] 0, s')
                     else
                       (let recs = (if isSelf then self_records rs else entry_records entry)
                        in (answer kFlagCatalogComplete recs
                              (if isSelf then length recs else me_topicRecordsSize entry), s')))))"

text \<open>The walk over the cached topic records. Sizes are \<open>size_t\<close>, 32 bits on the target: the sums
  are taken modulo \<open>2 ^ 32\<close>.\<close>

function rate_walk :: "bytes \<Rightarrow> nat \<Rightarrow> u16 \<Rightarrow> nat \<Rightarrow> nat \<Rightarrow> u32 option" where
  "rate_walk recs recordsSize topicId pos 0 = None"
| "rate_walk recs recordsSize topicId pos (Suc left) =
     (if (pos + 4) mod 2 ^ 32 > recordsSize then None
      else
        (let contentSize = read_u32_le recs pos;
             recordTotalLen = (4 + unat contentSize) mod 2 ^ 32
         in if (pos + recordTotalLen) mod 2 ^ 32 > recordsSize \<or> contentSize < 12 then None
            else if read_u16_le recs (pos + 4) = topicId then Some (read_u32_le recs (pos + 4 + 8))
            else rate_walk recs recordsSize topicId ((pos + recordTotalLen) mod 2 ^ 32) left))"
  by pat_completeness auto
termination by (relation "measure (\<lambda>(_, _, _, _, left). left)") auto

definition lookupTopicMaxRateMillihz ::
  "u32 \<Rightarrow> u32 \<Rightarrow> u32 \<Rightarrow> bool \<Rightarrow> manifest_cache \<Rightarrow> u32 option" where
  "lookupTopicMaxRateMillihz selfSourceId sourceId topicId outNull s =
     (if outNull \<or> topicId = 0 \<or> topicId > 0xFFFF then None
      else if sourceId = selfSourceId then hub_lookupTopicMaxRateMillihz (ucast topicId) False
      else (case findEntry sourceId (mc_entries s) of
              None \<Rightarrow> None
            | Some i \<Rightarrow>
                (let entry = mc_entries s ! i in
                 rate_walk (me_records entry) (me_recordsSize entry) (ucast topicId) 0
                   (unat (me_topicCount entry)))))"

end
