(* ===== verification/Publisher_Proofs.thy ===== *)
theory Publisher_Proofs
  imports Dongle_Publisher
begin

text \<open>
  Lemmas and properties of the publisher: the record and payload bytes as functions of the
  tables and samples, a decoder driven by the schema tables, and the exact behaviour of a
  scheduling tick.
\<close>

section \<open>The bytes of a record\<close>

definition sized :: "bytes \<Rightarrow> bytes" where
  "sized bs = u32_le (of_nat (length bs)) @ bs"

definition utf8_u16 :: "string \<Rightarrow> bytes" where
  "utf8_u16 s = u16_le (of_nat (length (cstr s))) @ cstr s"

lemma length_sized [simp]: "length (sized bs) = 4 + length bs"
  by (simp add: sized_def)

lemma length_utf8_u16 [simp]: "length (utf8_u16 s) = 2 + length (cstr s)"
  by (simp add: utf8_u16_def)

lemma emits_sized:
  assumes "emits body bs"
  shows "emits (sized_record body) (sized bs)"
  unfolding emits_def
proof (intro allI impI)
  fix w assume w: "wr_inv w"
  let ?z = "u32_le 0"
  have z: "if wr_pos w + 4 \<le> wr_capacity w then put_u32 0 w = (True, advance ?z w) else \<not> fst (put_u32 0 w)"
    using emits_puts(3) [of 0] w by (simp add: emits_def)
  show "if wr_pos w + length (sized bs) \<le> wr_capacity w then sized_record body w = (True, advance (sized bs) w)
        else \<not> fst (sized_record body w)"
  proof (cases "wr_pos w + 4 \<le> wr_capacity w")
    case False
    with z have "\<not> fst (put_u32 0 w)" by simp
    with False show ?thesis by (auto simp: sized_record_def Let_def split: prod.splits)
  next
    case True
    with z have p: "put_u32 0 w = (True, advance ?z w)" by simp
    have w1: "wr_inv (advance ?z w)" using advance_inv [OF w, of ?z] True by simp
    with assms have b: "if wr_pos w + 4 + length bs \<le> wr_capacity w
        then body (advance ?z w) = (True, advance bs (advance ?z w)) else \<not> fst (body (advance ?z w))"
      by (auto simp: emits_def)
    show ?thesis
    proof (cases "wr_pos w + 4 + length bs \<le> wr_capacity w")
      case False
      with b p show ?thesis by (auto simp: sized_record_def Let_def split: prod.splits)
    next
      case fits: True
      have "patch (wr_pos w) (u32_le (of_nat (length bs))) (advance (?z @ bs) w) = advance (sized bs) w"
        unfolding sized_def by (rule patch_reserved [OF w]) (use fits in simp_all)
      with fits b p advance_append [OF w, of ?z bs] True show ?thesis
        by (simp add: sized_record_def Let_def patchU32_def)
    qed
  qed
qed

definition field_content :: "field_desc \<Rightarrow> bytes" where
  "field_content f = u16_le (fd_fieldId f) @ u16_le (fd_order f) @ [fd_type f, fd_flags f] @
     u16_le (fd_elementCount f) @ u16_le (fd_maxElementCount f) @ u64_le f64_one @ u64_le f64_zero @
     u16_le 0 @ utf8_u16 (fd_name f) @ utf8_u16 (fd_unit f) @ utf8_u16 ''''"

definition topic_content :: "topic_desc \<Rightarrow> bytes" where
  "topic_content t = u16_le (td_topicId t) @ u16_le kSchemaVersion @
     [kEncodingPackedLe, kTopicFlagSubscribable] @ u16_le (of_nat (length (td_fields t))) @
     u32_le (td_maxRateMillihz t) @ utf8_u16 (td_name t) @ utf8_u16 '''' @
     concat (map (\<lambda>f. sized (field_content f)) (td_fields t))"

definition short_text :: "string \<Rightarrow> bool" where
  "short_text s \<longleftrightarrow> length (cstr s) \<le> 0xFFFF"

lemma emits_text: "short_text s \<Longrightarrow> emits (put_utf8 (Some s)) (utf8_u16 s)"
  using emits_utf8 [of "Some s"] by (simp add: short_text_def utf8_bytes_def utf8_u16_def)

lemma short_empty [simp]: "short_text ''''"
  by (simp add: short_text_def cstr_def)

lemma emits_field:
  assumes "short_text (fd_name f)" "short_text (fd_unit f)"
  shows "emits (writeFieldRecord f) (sized (field_content f))"
proof -
  have "emits (wr_all
       [put_u16 (fd_fieldId f), put_u16 (fd_order f), put_u8 (fd_type f),
        put_u8 (fd_flags f), put_u16 (fd_elementCount f), put_u16 (fd_maxElementCount f),
        put_f64 f64_one, put_f64 f64_zero, put_u16 0,
        put_utf8 (Some (fd_name f)), put_utf8 (Some (fd_unit f)), put_utf8 (Some '''')])
     (concat [u16_le (fd_fieldId f), u16_le (fd_order f), [fd_type f], [fd_flags f],
        u16_le (fd_elementCount f), u16_le (fd_maxElementCount f), u64_le f64_one, u64_le f64_zero,
        u16_le 0, utf8_u16 (fd_name f), utf8_u16 (fd_unit f), utf8_u16 ''''])"
    by (rule emits_wr_all) (simp add: emits_puts emits_text assms)
  from emits_sized [OF this] show ?thesis
    unfolding writeFieldRecord_def field_content_def by simp
qed

definition topic_short :: "topic_desc \<Rightarrow> bool" where
  "topic_short t \<longleftrightarrow> short_text (td_name t) \<and>
     (\<forall>f\<in>set (td_fields t). short_text (fd_name f) \<and> short_text (fd_unit f))"

lemma emits_topic:
  assumes "topic_short t"
  shows "emits (writeTopicRecord t) (sized (topic_content t))"
proof -
  let ?head = "[u16_le (td_topicId t), u16_le kSchemaVersion, [kEncodingPackedLe], [kTopicFlagSubscribable],
       u16_le (of_nat (length (td_fields t))), u32_le (td_maxRateMillihz t), utf8_u16 (td_name t), utf8_u16 '''']"
  have "emits (wr_all
       ([put_u16 (td_topicId t), put_u16 kSchemaVersion, put_u8 kEncodingPackedLe,
         put_u8 kTopicFlagSubscribable, put_u16 (of_nat (length (td_fields t))),
         put_u32 (td_maxRateMillihz t), put_utf8 (Some (td_name t)), put_utf8 (Some '''')] @
        map writeFieldRecord (td_fields t)))
      (concat (?head @ map (\<lambda>f. sized (field_content f)) (td_fields t)))"
  proof (intro emits_wr_all list_all2_appendI)
    show "list_all2 emits (map writeFieldRecord (td_fields t)) (map (\<lambda>f. sized (field_content f)) (td_fields t))"
      using assms by (auto simp: list_all2_map1 list_all2_map2 topic_short_def intro!: list.rel_refl_strong emits_field)
  qed (use assms in \<open>simp add: emits_puts emits_text topic_short_def\<close>)
  from emits_sized [OF this] show ?thesis
    unfolding writeTopicRecord_def topic_content_def by simp
qed


lemma write_topics_emits:
  "wr_inv w \<Longrightarrow> \<forall>t\<in>set ts. topic_short t \<Longrightarrow>
   wr_pos w + length (concat (map (\<lambda>t. sized (topic_content t)) ts)) \<le> wr_capacity w \<Longrightarrow>
   write_topics ts n w = (n + of_nat (length ts), advance (concat (map (\<lambda>t. sized (topic_content t)) ts)) w)"
proof (induction ts arbitrary: n w)
  case Nil
  then show ?case using emits_True [OF Nil(1) emits_Nil] by (simp add: wr_inv_def)
next
  case (Cons t ts)
  let ?b = "sized (topic_content t)"
  have fit: "wr_pos w + length ?b \<le> wr_capacity w" using Cons.prems(3) by simp
  have "writeTopicRecord t w = (True, advance ?b w)"
    by (rule emits_True [OF Cons.prems(1) emits_topic fit]) (use Cons.prems(2) in simp)
  with Cons.IH [of "advance ?b w" "n + 1"] advance_inv [OF Cons.prems(1) fit] Cons.prems
    advance_append [OF Cons.prems(1) fit]
  show ?case by (simp add: add.assoc)
qed

text \<open>The records of the three topics, and their size.\<close>

definition hub_record_bytes :: bytes where
  "hub_record_bytes = concat (map (\<lambda>t. sized (topic_content t)) kTopics)"

lemma length_cstr: "length (cstr s) = length (takeWhile (\<lambda>c. c \<noteq> CHR 0x00) s)"
  by (simp add: cstr_def)

lemmas field_tables = kLinkFields_def kUsbFields_def kPeersFields_def field_desc.make_def

lemma kTopics_short: "\<forall>t\<in>set kTopics. topic_short t"
  by (simp add: kTopics_def topic_desc.make_def topic_short_def short_text_def length_cstr field_tables)

lemma length_field_content:
  "length (field_content f) = 34 + length (cstr (fd_name f)) + length (cstr (fd_unit f))"
  by (simp add: field_content_def length_cstr)

lemma length_hub_record_bytes: "length hub_record_bytes = 1741"
  by (simp add: hub_record_bytes_def kTopics_def topic_desc.make_def topic_content_def length_field_content
      length_cstr field_tables)

lemma topicRecords_bytes:
  assumes "length (rc_records s) = kRecordsCapacity" "\<not> rc_recordsBuilt s"
  shows "topicRecords s =
    ((hub_record_bytes @ drop 1741 (rc_records s), 1741, 3),
     \<lparr>rc_records = hub_record_bytes @ drop 1741 (rc_records s), rc_recordsSize = 1741,
      rc_recordsTopicCount = 3, rc_recordsBuilt = True\<rparr>)"
proof -
  have w: "wr_inv (writer_on (rc_records s))" by (simp add: wr_inv_def writer_on_def)
  have "write_topics kTopics 0 (writer_on (rc_records s)) = (of_nat (length kTopics), advance hub_record_bytes (writer_on (rc_records s)))"
    using write_topics_emits [OF w kTopics_short, of 0] length_hub_record_bytes assms(1)
    by (simp add: hub_record_bytes_def writer_on_def kRecordsCapacity_def)
  moreover have "length kTopics = 3" by (simp add: kTopics_def)
  ultimately show ?thesis
    using assms by (simp add: topicRecords_def advance_def writer_on_def length_hub_record_bytes Let_def)
qed

section \<open>Decoding a payload by the schema\<close>

text \<open>A PACKED_LE reader as the schema tables describe it to a client: a field is an array of
  unsigned values of the type's width; a variable array is preceded by its 16-bit count.\<close>

definition type_width :: "u8 \<Rightarrow> nat" where
  "type_width t = (if t = kTypeUint8 \<or> t = kTypeInt8 then 1 else if t = kTypeUint32 then 4 else 8)"

fun take_elems :: "nat \<Rightarrow> nat \<Rightarrow> bytes \<Rightarrow> (nat list \<times> bytes) option" where
  "take_elems w 0 bs = Some ([], bs)"
| "take_elems w (Suc n) bs =
     (if length bs < w then None
      else case take_elems w n (drop w bs) of
             None \<Rightarrow> None
           | Some (xs, rest) \<Rightarrow> Some (le_nat (take w bs) # xs, rest))"

definition decode_field :: "field_desc \<Rightarrow> bytes \<Rightarrow> (nat list \<times> bytes) option" where
  "decode_field f bs =
     (if fd_flags f AND kFieldFlagVariableCount \<noteq> 0
      then (if length bs < 2 \<or> le_nat (take 2 bs) > unat (fd_maxElementCount f) then None
            else take_elems (type_width (fd_type f)) (le_nat (take 2 bs)) (drop 2 bs))
      else take_elems (type_width (fd_type f)) (unat (fd_elementCount f)) bs)"

fun decode_fields :: "field_desc list \<Rightarrow> bytes \<Rightarrow> nat list list option" where
  "decode_fields [] bs = (if bs = [] then Some [] else None)"
| "decode_fields (f # fs) bs =
     (case decode_field f bs of
        None \<Rightarrow> None
      | Some (xs, rest) \<Rightarrow> map_option ((#) xs) (decode_fields fs rest))"

definition decode_payload :: "field_desc list \<Rightarrow> bytes \<Rightarrow> nat list list option" where
  "decode_payload fs bs = (if take 2 bs = u16_le kSchemaVersion then decode_fields fs (drop 2 bs) else None)"

lemma take_elems_map:
  "(\<And>x. x \<in> set xs \<Longrightarrow> length (e x) = w) \<Longrightarrow>
   take_elems w (length xs) (concat (map e xs) @ rest) = Some (map (\<lambda>x. le_nat (e x)) xs, rest)"
  by (induction xs) auto

lemma decode_fixed:
  assumes "fd_flags f = 0" "type_width (fd_type f) = w" "unat (fd_elementCount f) = length xs"
    "\<And>x. x \<in> set xs \<Longrightarrow> length (e x) = w"
  shows "decode_field f (concat (map e xs) @ rest) = Some (map (\<lambda>x. le_nat (e x)) xs, rest)"
  using assms take_elems_map [of xs e w rest] by (simp add: decode_field_def)

lemma decode_var:
  assumes "fd_flags f = kFieldFlagVariableCount" "type_width (fd_type f) = w"
    "length xs \<le> unat (fd_maxElementCount f)" "\<And>x. x \<in> set xs \<Longrightarrow> length (e x) = w"
  shows "decode_field f (u16_le (of_nat (length xs)) @ concat (map e xs) @ rest) =
    Some (map (\<lambda>x. le_nat (e x)) xs, rest)"
proof -
  have "length xs < 2 ^ 16" using assms(3) unat_bound [of "fd_maxElementCount f"] by simp
  then have "unat (of_nat (length xs) :: u16) = length xs"
    by (simp add: unat_of_nat take_bit_eq_mod)
  then have c: "le_nat (u16_le (of_nat (length xs))) = length xs"
    by (simp add: le_nat_u16)
  have "kFieldFlagVariableCount AND kFieldFlagVariableCount \<noteq> 0"
    by (simp add: kFieldFlagVariableCount_def)
  then show ?thesis
    using assms take_elems_map [of xs e w rest] by (simp add: decode_field_def c)
qed

lemma pack_with_emits:
  assumes "emits body bs" "length bs \<le> length buf"
  shows "pack_with body buf = (length bs, bs @ drop (length bs) buf)"
proof -
  have "body (writer_on buf) = (True, advance bs (writer_on buf))"
    by (rule emits_True [OF _ assms(1)]) (use assms(2) in \<open>simp_all add: wr_inv_def writer_on_def\<close>)
  then show ?thesis by (simp add: pack_with_def advance_def writer_on_def)
qed

lemma emits_concat_map:
  "(\<And>x. x \<in> set xs \<Longrightarrow> emits (f x) (e x)) \<Longrightarrow> list_all2 emits (map f xs) (map e xs)"
  by (simp add: list_all2_map1 list_all2_map2 list.rel_refl_strong)

lemma decode_singles:
  assumes "length xs = length fs"
    "\<And>f. f \<in> set fs \<Longrightarrow> fd_flags f = 0 \<and> fd_elementCount f = 1 \<and> type_width (fd_type f) = w"
    "\<And>x. x \<in> set xs \<Longrightarrow> length (e x) = w"
  shows "decode_fields (fs @ gs) (concat (map e xs) @ rest) =
    map_option ((@) (map (\<lambda>x. [le_nat (e x)]) xs)) (decode_fields gs rest)"
  using assms
proof (induction xs fs rule: list_induct2)
  case Nil
  then show ?case by (cases "decode_fields gs rest") auto
next
  case (Cons x xs f fs)
  have "decode_field f (concat (map e [x]) @ (concat (map e xs) @ rest)) =
      Some (map (\<lambda>x. le_nat (e x)) [x], concat (map e xs) @ rest)"
    using Cons.prems(1) [of f] Cons.prems(2) by (intro decode_fixed [where w = w]) auto
  then show ?case using Cons by (cases "decode_fields gs rest") auto
qed

section \<open>What each packer writes\<close>

definition link_values :: "link_counters \<Rightarrow> u32 list" where
  "link_values c = [lc_datagrams c, lc_fragmentsAccepted c, lc_routedTelemetry c, lc_routedLog c,
     lc_routedCommand c, lc_routedControl c, lc_routedTerminal c, lc_droppedRx c, lc_droppedDecode c,
     lc_droppedCrc c, lc_droppedReassembly c, lc_droppedQueueFull c]"

definition usb_values :: "usb_counters \<Rightarrow> u64 list" where
  "usb_values c = [uc_framesRx c, uc_framesTx c, uc_crcErrors c, uc_decodeErrors c,
     uc_reassemblyRejected c, uc_telemetryDropped c]"

definition relay_values :: "usb_counters \<Rightarrow> u64 list" where
  "relay_values c = [uc_relayDownOk c, uc_relayDownUnbound c, uc_relayDownNoPeer c,
     uc_relayDownOversized c, uc_relayDownSendFailed c]"

definition link_bytes :: "link_counters \<Rightarrow> bytes" where
  "link_bytes c = u16_le kSchemaVersion @ concat (map u32_le (link_values c))"

definition usb_bytes :: "usb_counters \<Rightarrow> bytes" where
  "usb_bytes c = u16_le kSchemaVersion @ concat (map u64_le (usb_values c)) @
     concat (map u64_le (drop_classes c)) @ concat (map u64_le (relay_values c))"

lemma length_link_bytes [simp]: "length (link_bytes c) = 50"
  by (simp add: link_bytes_def link_values_def)

lemma length_usb_bytes [simp]: "length (usb_bytes c) = 122"
  by (simp add: usb_bytes_def usb_values_def relay_values_def drop_classes_def split: prod.splits)

lemma packLink_bytes:
  "50 \<le> length buf \<Longrightarrow> packLink c (Some buf) = (50, Some (link_bytes c @ drop 50 buf))"
proof -
  assume fit: "50 \<le> length buf"
  have "emits (wr_all (put_u16 kSchemaVersion # map put_u32 (link_values c)))
      (concat (u16_le kSchemaVersion # map u32_le (link_values c)))"
    by (intro emits_wr_all) (simp add: emits_puts emits_concat_map)
  then have "emits (wr_all (put_u16 kSchemaVersion # map put_u32 (link_values c))) (link_bytes c)"
    by (simp add: link_bytes_def)
  from pack_with_emits [OF this, of buf] fit show ?thesis
    by (simp add: packLink_def kLinkPayloadSize_def link_values_def)
qed

lemma packUsb_bytes:
  "122 \<le> length buf \<Longrightarrow> packUsb c (Some buf) = (122, Some (usb_bytes c @ drop 122 buf))"
proof -
  assume fit: "122 \<le> length buf"
  let ?fs = "[put_u16 kSchemaVersion] @ map put_u64 (usb_values c) @ map put_u64 (drop_classes c) @
      map put_u64 (relay_values c)"
  have "emits (wr_all ?fs)
      (concat ([u16_le kSchemaVersion] @ map u64_le (usb_values c) @ map u64_le (drop_classes c) @
        map u64_le (relay_values c)))"
    by (intro emits_wr_all list_all2_appendI) (simp_all add: emits_puts emits_concat_map)
  then have "emits (wr_all ?fs) (usb_bytes c)" by (simp add: usb_bytes_def)
  from pack_with_emits [OF this, of buf] fit show ?thesis
    by (simp add: packUsb_def kUsbPayloadSize_def kUsbDropClassCount_def usb_values_def relay_values_def)
qed

definition column :: "('a \<Rightarrow> bytes) \<Rightarrow> 'a list \<Rightarrow> bytes" where
  "column e xs = u16_le (of_nat (length xs)) @ concat (map e xs)"

definition all_octets :: "peer_record list \<Rightarrow> bytes" where
  "all_octets ps = concat (map (\<lambda>p. mac_octets (pr_mac p)) ps)"

definition peers_bytes :: "peer_record list \<Rightarrow> bytes" where
  "peers_bytes ps = u16_le kSchemaVersion @
     column (\<lambda>i. [of_nat i]) [0..<length ps] @ column (\<lambda>p. u32_le (pr_sourceId p)) ps @
     column (\<lambda>p. u32_le (pr_bootId p)) ps @ column (\<lambda>b. [b]) (all_octets ps) @
     column (\<lambda>p. u32_le (pr_lastSeenAgeMs p)) ps @ column (\<lambda>p. [if pr_online p then 1 else 0]) ps @
     column (\<lambda>p. [pr_rssi p]) ps @ column (\<lambda>p. u32_le (pr_rttMs p)) ps"

lemma length_column: "(\<And>x. x \<in> set xs \<Longrightarrow> length (e x) = w) \<Longrightarrow> length (column e xs) = 2 + w * length xs"
proof -
  assume "\<And>x. x \<in> set xs \<Longrightarrow> length (e x) = w"
  then have "length (concat (map e xs)) = w * length xs" by (induction xs) auto
  then show ?thesis by (simp add: column_def)
qed

lemma length_all_octets [simp]: "length (all_octets ps) = 6 * length ps"
  by (induction ps) (auto simp: all_octets_def mac_octets_def split: prod.splits)

lemma length_peers_bytes [simp]: "length (peers_bytes ps) = 18 + 25 * length ps"
  by (simp add: peers_bytes_def length_column [where w = 1] length_column [where w = 4])

lemma packPeers_bytes:
  assumes "count = length ps" "length ps \<le> kMaxPeers" "18 + 25 * length ps \<le> length buf"
  shows "packPeers (Some ps) count (Some buf) =
    (18 + 25 * length ps, Some (peers_bytes ps @ drop (18 + 25 * length ps) buf))"
proof -
  let ?n = "of_nat (length ps) :: u16"
  let ?col = "\<lambda>f. [put_u16 ?n] @ map f ps"
  let ?fs = "([put_u16 kSchemaVersion] @ [put_u16 ?n] @ map (\<lambda>i. put_u8 (of_nat i)) [0..<length ps]) @
     ?col (\<lambda>p. put_u32 (pr_sourceId p)) @ ?col (\<lambda>p. put_u32 (pr_bootId p)) @
     ([put_u16 (of_nat (length ps * 6))] @ map put_u8 (all_octets ps)) @
     ?col (\<lambda>p. put_u32 (pr_lastSeenAgeMs p)) @ ?col (\<lambda>p. put_u8 (if pr_online p then 1 else 0)) @
     ?col (\<lambda>p. put_u8 (pr_rssi p)) @ ?col (\<lambda>p. put_u32 (pr_rttMs p))"
  let ?bc = "\<lambda>e. [u16_le ?n] @ map e ps"
  let ?bs = "([u16_le kSchemaVersion] @ [u16_le ?n] @ map (\<lambda>i. [of_nat i]) [0..<length ps]) @
     ?bc (\<lambda>p. u32_le (pr_sourceId p)) @ ?bc (\<lambda>p. u32_le (pr_bootId p)) @
     ([u16_le (of_nat (length ps * 6))] @ map (\<lambda>b. [b]) (all_octets ps)) @
     ?bc (\<lambda>p. u32_le (pr_lastSeenAgeMs p)) @ ?bc (\<lambda>p. [if pr_online p then 1 else 0]) @
     ?bc (\<lambda>p. [pr_rssi p]) @ ?bc (\<lambda>p. u32_le (pr_rttMs p))"
  have "emits (wr_all ?fs) (concat ?bs)"
    by (intro emits_wr_all list_all2_appendI emits_concat_map) (simp_all add: emits_puts)
  moreover have "concat ?bs = peers_bytes ps"
    by (simp add: peers_bytes_def column_def mult.commute)
  ultimately have e: "emits (wr_all ?fs) (peers_bytes ps)" by simp
  have m: "concat (map (\<lambda>p. map put_u8 (mac_octets (pr_mac p))) ps) = map put_u8 (all_octets ps)"
    by (simp add: all_octets_def map_concat comp_def)
  show ?thesis
    using pack_with_emits [OF e, of buf] assms
    by (simp add: packPeers_def kPeersPayloadOverhead_def kPeersPayloadBytesPerPeer_def Let_def m)
qed

section \<open>The tables describe the payloads\<close>

lemma decode_link: "decode_payload kLinkFields (link_bytes c) = Some (map (\<lambda>x. [unat x]) (link_values c))"
proof -
  have "decode_fields (kLinkFields @ []) (concat (map u32_le (link_values c)) @ []) =
      map_option ((@) (map (\<lambda>x. [le_nat (u32_le x)]) (link_values c))) (decode_fields [] [])"
  proof (rule decode_singles [where w = 4])
    show "length (link_values c) = length kLinkFields" by (simp add: link_values_def field_tables)
    show "fd_flags f = 0 \<and> fd_elementCount f = 1 \<and> type_width (fd_type f) = 4" if "f \<in> set kLinkFields" for f
      using that by (auto simp: field_tables type_width_def kTypeUint32_def kTypeUint8_def kTypeInt8_def)
  qed simp
  then show ?thesis by (simp add: decode_payload_def link_bytes_def le_simps)
qed

lemma decode_usb: "decode_payload kUsbFields (usb_bytes c) =
   Some (map (\<lambda>x. [unat x]) (usb_values c) @ [map unat (drop_classes c)] @ map (\<lambda>x. [unat x]) (relay_values c))"
proof -
  let ?A = "take 6 kUsbFields" and ?F = "kUsbFields ! 6" and ?B = "drop 7 kUsbFields"
  have split: "kUsbFields = ?A @ (?F # ?B @ [])" by (simp add: kUsbFields_def)
  let ?r = "concat (map u64_le (relay_values c)) @ []"
  let ?m = "concat (map u64_le (drop_classes c)) @ ?r"
  note types = field_tables type_width_def kTypeUint64_def kTypeUint32_def kTypeUint8_def kTypeInt8_def
  have b: "decode_fields (?B @ []) ?r =
      map_option ((@) (map (\<lambda>x. [le_nat (u64_le x)]) (relay_values c))) (decode_fields [] [])"
    by (rule decode_singles [where w = 8]) (auto simp: relay_values_def types)
  have f: "decode_field ?F ?m = Some (map (\<lambda>x. le_nat (u64_le x)) (drop_classes c), ?r)"
    by (rule decode_fixed [where w = 8]) (auto simp: types drop_classes_def kUsbDropClassCount_def split: prod.splits)
  have "decode_fields (?A @ (?F # ?B @ [])) (concat (map u64_le (usb_values c)) @ ?m) =
      map_option ((@) (map (\<lambda>x. [le_nat (u64_le x)]) (usb_values c))) (decode_fields (?F # ?B @ []) ?m)"
    by (rule decode_singles [where w = 8]) (auto simp: usb_values_def types)
  with f b show ?thesis
    unfolding split [symmetric] by (simp add: decode_payload_def usb_bytes_def le_simps)
qed

lemma decode_column:
  assumes "fd_flags f = kFieldFlagVariableCount" "type_width (fd_type f) = w"
    "length xs \<le> unat (fd_maxElementCount f)" "\<And>x. x \<in> set xs \<Longrightarrow> length (e x) = w"
  shows "decode_fields (f # fs) (column e xs @ rest) =
    map_option ((#) (map (\<lambda>x. le_nat (e x)) xs)) (decode_fields fs rest)"
  using decode_var [where rest = rest, OF assms] by (simp add: column_def)

lemma decode_last_column:
  assumes "fd_flags f = kFieldFlagVariableCount" "type_width (fd_type f) = w"
    "length xs \<le> unat (fd_maxElementCount f)" "\<And>x. x \<in> set xs \<Longrightarrow> length (e x) = w"
  shows "decode_fields [f] (column e xs) = Some [map (\<lambda>x. le_nat (e x)) xs]"
  using decode_column [where fs = "[]" and rest = "[]", OF assms] by simp

definition peers_columns :: "peer_record list \<Rightarrow> nat list list" where
  "peers_columns ps =
     [[0..<length ps], map (unat \<circ> pr_sourceId) ps, map (unat \<circ> pr_bootId) ps,
      map unat (all_octets ps), map (unat \<circ> pr_lastSeenAgeMs) ps,
      map (\<lambda>p. if pr_online p then 1 else 0) ps, map (unat \<circ> pr_rssi) ps, map (unat \<circ> pr_rttMs) ps]"

lemma decode_peers:
  assumes "length ps \<le> kMaxPeers"
  shows "decode_payload kPeersFields (peers_bytes ps) = Some (peers_columns ps)"
proof -
  note types = type_width_def kTypeUint64_def kTypeUint32_def kTypeUint8_def kTypeInt8_def kMaxPeers_def
  have small: "map (\<lambda>i. unat (of_nat i :: u8)) [0..<length ps] = [0..<length ps]"
    using assms by (intro map_idI) (auto simp: kMaxPeers_def unat_of_nat take_bit_eq_mod)
  have "decode_fields kPeersFields (drop 2 (peers_bytes ps)) = Some (peers_columns ps)"
    using assms small
    by (simp add: peers_bytes_def kPeersFields_def field_desc.make_def decode_column [where w = 1]
        decode_column [where w = 4] decode_last_column [where w = 4] types
        le_simps peers_columns_def comp_def if_distrib del: decode_fields.simps(2) cong: if_cong)
  then show ?thesis by (simp add: decode_payload_def peers_bytes_def)
qed

section \<open>A scheduling tick\<close>

text \<open>An observer's world: the frames handed to the wire so far. \<open>acc\<close> says which topics the
  queue accepts; the provider fills in the given snapshot.\<close>

type_synonym wire = "(u16 \<times> bytes) list"

definition wire_emit :: "(u16 \<Rightarrow> bool) \<Rightarrow> wire emit_fn" where
  "wire_emit acc t bs log = (acc t, log @ [(t, bs)])"

definition tick_with ::
  "u32 \<Rightarrow> (u16 \<Rightarrow> bool) \<Rightarrow> u32 \<Rightarrow> snapshot \<Rightarrow> wire publisher \<Rightarrow> wire \<times> sub_registry \<Rightarrow>
     nat \<times> wire publisher \<times> wire \<times> sub_registry" where
  "tick_with self acc nowMs snap s st =
     tick self nowMs (Some (wire_emit acc)) (setSnapshotProvider (Some (\<lambda>log. (snap, log))) s) st"

definition shown_peers :: "snapshot \<Rightarrow> peer_record list" where
  "shown_peers snap = take (min (sn_peerCount snap) kMaxPeers) (sn_peers snap)"

definition peers_due :: "'e publisher \<Rightarrow> u32 \<Rightarrow> snapshot \<Rightarrow> bool" where
  "peers_due s nowMs snap \<longleftrightarrow> ts_subscribed (pb_peers s) \<and>
     (\<not> ts_published (pb_peers s) \<or>
      (nowMs - ts_lastPublishMs (pb_peers s) \<ge> ts_periodMs (pb_peers s) \<and>
       (\<not> pb_peersFingerprintValid s \<or>
        peersFingerprint (sn_peers snap) (min (sn_peerCount snap) kMaxPeers) \<noteq> pb_peersFingerprint s \<or>
        nowMs - ts_lastPublishMs (pb_peers s) \<ge> kPeersKeepAliveMs)))"

text \<open>When a periodic topic is due: right after subscribing, then whenever its period has passed.\<close>

definition periodic_due :: "topic_state \<Rightarrow> u32 \<Rightarrow> bool" where
  "periodic_due st nowMs \<longleftrightarrow> ts_subscribed st \<and>
     (ts_published st \<longrightarrow> ts_periodMs st \<le> nowMs - ts_lastPublishMs st)"

lemma duePeriodic_iff [model_defs]: "duePeriodic st nowMs = periodic_due st nowMs"
  by (auto simp: duePeriodic_def periodic_due_def)

definition due_frames :: "'e publisher \<Rightarrow> u32 \<Rightarrow> snapshot \<Rightarrow> wire" where
  "due_frames s nowMs snap =
     (if periodic_due (pb_link s) nowMs then [(kLinkTopicId, link_bytes (sn_link snap))] else []) @
     (if periodic_due (pb_usb s) nowMs then [(kUsbTopicId, usb_bytes (sn_usb snap))] else []) @
     (if peers_due s nowMs snap then [(kPeersTopicId, peers_bytes (shown_peers snap))] else [])"

lemma emit_packed_wire:
  assumes "packed = (n, Some buf)" "take n buf = bs" "0 < n" "length bs = n"
  shows "emit_packed self t packed (wire_emit acc) (log, reg) =
    (if acc t then 1 else 0, log @ [(t, bs)],
     if acc t then recordForwarded self (ucast t) n reg else recordDropped self (ucast t) reg)"
  using assms by (simp add: emit_packed_def publish_def wire_emit_def)

lemma emit_link: "emit_packed self t (packLink c (Some (replicate kLinkPayloadSize 0))) (wire_emit acc) (log, reg) =
    (if acc t then 1 else 0, log @ [(t, link_bytes c)],
     if acc t then recordForwarded self (ucast t) 50 reg else recordDropped self (ucast t) reg)"
  by (rule emit_packed_wire [OF packLink_bytes]) (simp_all add: kLinkPayloadSize_def)

lemma emit_usb: "emit_packed self t (packUsb c (Some (replicate kUsbPayloadSize 0))) (wire_emit acc) (log, reg) =
    (if acc t then 1 else 0, log @ [(t, usb_bytes c)],
     if acc t then recordForwarded self (ucast t) 122 reg else recordDropped self (ucast t) reg)"
  by (rule emit_packed_wire [OF packUsb_bytes]) (simp_all add: kUsbPayloadSize_def kUsbDropClassCount_def)

lemma packPeers_take:
  assumes "count \<le> length ps" "count \<le> kMaxPeers"
  shows "packPeers (Some ps) count out = packPeers (Some (take count ps)) count out"
  using assms by (cases out) (simp_all add: packPeers_def Let_def)

lemma emit_peers:
  assumes "count \<le> length ps" "count \<le> kMaxPeers"
  shows "emit_packed self t (packPeers (Some ps) count (Some (replicate kMaxPeersPayloadSize 0))) (wire_emit acc) (log, reg) =
    (if acc t then 1 else 0, log @ [(t, peers_bytes (take count ps))],
     if acc t then recordForwarded self (ucast t) (18 + 25 * count) reg else recordDropped self (ucast t) reg)"
proof -
  have l: "length (take count ps) = count" using assms by simp
  show ?thesis
    unfolding packPeers_take [OF assms]
    by (rule emit_packed_wire [OF packPeers_bytes [where ps = "take count ps", unfolded l]])
       (use assms l in \<open>simp_all add: kMaxPeersPayloadSize_def kPeersPayloadOverhead_def
          kPeersPayloadBytesPerPeer_def kMaxPeers_def\<close>)
qed

text \<open>The topic state each \<open>hub.*\<close> id stands for, and whether a tick publishes it.\<close>

definition topic_of :: "u16 \<Rightarrow> 'e publisher \<Rightarrow> topic_state" where
  "topic_of t s = (if t = kLinkTopicId then pb_link s else if t = kUsbTopicId then pb_usb s else pb_peers s)"

lemma topic_ids_distinct [simp]:
  "kLinkTopicId \<noteq> kUsbTopicId" "kLinkTopicId \<noteq> kPeersTopicId" "kUsbTopicId \<noteq> kPeersTopicId"
  "kUsbTopicId \<noteq> kLinkTopicId" "kPeersTopicId \<noteq> kLinkTopicId" "kPeersTopicId \<noteq> kUsbTopicId"
  by (simp_all add: kLinkTopicId_def kUsbTopicId_def kPeersTopicId_def)

definition count_accepted :: "(u16 \<Rightarrow> bool) \<Rightarrow> wire \<Rightarrow> nat" where
  "count_accepted acc fs = length (filter (\<lambda>f. acc (fst f)) fs)"

lemma tick_link_wire:
  "tick_link self nowMs (wire_emit acc) snap s (log, reg) = (n, s', log', reg') \<Longrightarrow>
   (let fs = (if periodic_due (pb_link s) nowMs then [(kLinkTopicId, link_bytes (sn_link snap))] else [])
    in log' = log @ fs \<and> n = count_accepted acc fs \<and>
       s' = (if fs = [] then s else s\<lparr>pb_link := mark_published nowMs (pb_link s)\<rparr>))"
  by (auto simp: tick_link_def duePeriodic_iff emit_link count_accepted_def split: if_splits)

lemma tick_usb_wire:
  "tick_usb self nowMs (wire_emit acc) snap s (log, reg) = (n, s', log', reg') \<Longrightarrow>
   (let fs = (if periodic_due (pb_usb s) nowMs then [(kUsbTopicId, usb_bytes (sn_usb snap))] else [])
    in log' = log @ fs \<and> n = count_accepted acc fs \<and>
       s' = (if fs = [] then s else s\<lparr>pb_usb := mark_published nowMs (pb_usb s)\<rparr>))"
  by (auto simp: tick_usb_def duePeriodic_iff emit_usb count_accepted_def split: if_splits)

lemma tick_peers_wire:
  assumes "length (sn_peers snap) = kMaxPeers"
    and "tick_peers self nowMs (wire_emit acc) snap s (log, reg) = (n, s', log', reg')"
  shows "(let fs = (if peers_due s nowMs snap then [(kPeersTopicId, peers_bytes (shown_peers snap))] else [])
    in log' = log @ fs \<and> n = count_accepted acc fs \<and>
       pb_link s' = pb_link s \<and> pb_usb s' = pb_usb s \<and>
       pb_peers s' = (if fs = [] then pb_peers s else mark_published nowMs (pb_peers s)))"
proof -
  let ?c = "min (sn_peerCount snap) kMaxPeers"
  have c: "(if sn_peerCount snap < kMaxPeers then sn_peerCount snap else kMaxPeers) = ?c" by simp
  have pk: "emit_packed self kPeersTopicId (packPeers (Some (sn_peers snap)) ?c (Some (replicate kMaxPeersPayloadSize 0)))
      (wire_emit acc) (log, reg) = (if acc kPeersTopicId then 1 else 0, log @ [(kPeersTopicId, peers_bytes (shown_peers snap))],
       if acc kPeersTopicId then recordForwarded self (ucast kPeersTopicId) (18 + 25 * ?c) reg
       else recordDropped self (ucast kPeersTopicId) reg)"
    using emit_peers [of ?c "sn_peers snap"] assms(1) by (simp add: shown_peers_def)
  show ?thesis
  proof (cases "peers_due s nowMs snap")
    case True
    then show ?thesis using assms(2)
      unfolding tick_peers_def c Let_def pk by (auto simp: peers_due_def count_accepted_def)
  next
    case False
    then show ?thesis using assms(2)
      unfolding tick_peers_def c Let_def pk by (auto simp: peers_due_def count_accepted_def split: if_splits)
  qed
qed

lemma tick_facts:
  assumes "length (sn_peers snap) = kMaxPeers"
    and "tick_with self acc nowMs snap s (log, reg) = (n, s', log', reg')"
  shows "log' = log @ due_frames s nowMs snap" and "n = count_accepted acc (due_frames s nowMs snap)"
    and "t \<in> {kLinkTopicId, kUsbTopicId, kPeersTopicId} \<Longrightarrow>
      topic_of t s' = (if t \<in> fst ` set (due_frames s nowMs snap)
                       then mark_published nowMs (topic_of t s) else topic_of t s)"
proof -
  let ?s = "s\<lparr>pb_snapshotProvider := Some (\<lambda>log. (snap, log))\<rparr>"
  let ?ids = "{kLinkTopicId, kUsbTopicId, kPeersTopicId}"
  have "log' = log @ due_frames s nowMs snap \<and> n = count_accepted acc (due_frames s nowMs snap) \<and>
     (t \<in> ?ids \<longrightarrow> topic_of t s' = (if t \<in> fst ` set (due_frames s nowMs snap)
                       then mark_published nowMs (topic_of t s) else topic_of t s))"
  proof (cases "hasSubscribers s")
    case False
    with assms(2) show ?thesis
      by (auto simp: tick_with_def tick_def setSnapshotProvider_def hasSubscribers_def due_frames_def
          periodic_due_def peers_due_def count_accepted_def topic_of_def)
  next
    case True
    obtain n1 s1 l1 r1 where 1: "tick_link self nowMs (wire_emit acc) snap ?s (log, reg) = (n1, s1, l1, r1)"
      by (cases "tick_link self nowMs (wire_emit acc) snap ?s (log, reg)")
    obtain n2 s2 l2 r2 where 2: "tick_usb self nowMs (wire_emit acc) snap s1 (l1, r1) = (n2, s2, l2, r2)"
      by (cases "tick_usb self nowMs (wire_emit acc) snap s1 (l1, r1)")
    obtain n3 s3 l3 r3 where 3: "tick_peers self nowMs (wire_emit acc) snap s2 (l2, r2) = (n3, s3, l3, r3)"
      by (cases "tick_peers self nowMs (wire_emit acc) snap s2 (l2, r2)")
    have "hasSubscribers ?s" using True by (simp add: hasSubscribers_def)
    then have r: "n = n1 + n2 + n3" "s' = s3" "log' = l3"
      using assms(2) 1 2 3 by (simp_all add: tick_with_def tick_def setSnapshotProvider_def)
    define a b c where "a = periodic_due (pb_link s) nowMs" and "b = periodic_due (pb_usb s) nowMs"
      and "c = peers_due s nowMs snap"
    have f1: "l1 = log @ (if a then [(kLinkTopicId, link_bytes (sn_link snap))] else [])"
      "n1 = (if a \<and> acc kLinkTopicId then 1 else 0)"
      "s1 = (if a then ?s\<lparr>pb_link := mark_published nowMs (pb_link s)\<rparr> else ?s)"
      using tick_link_wire [OF 1] by (auto simp: a_def count_accepted_def Let_def)
    have "periodic_due (pb_usb s1) nowMs = b" by (simp add: f1(3) b_def)
    then have f2: "l2 = l1 @ (if b then [(kUsbTopicId, usb_bytes (sn_usb snap))] else [])"
      "n2 = (if b \<and> acc kUsbTopicId then 1 else 0)"
      "s2 = (if b then s1\<lparr>pb_usb := mark_published nowMs (pb_usb s1)\<rparr> else s1)"
      using tick_usb_wire [OF 2] by (auto simp: count_accepted_def Let_def)
    have "peers_due s2 nowMs snap = c" by (simp add: f1(3) f2(3) c_def peers_due_def)
    then have f3: "l3 = l2 @ (if c then [(kPeersTopicId, peers_bytes (shown_peers snap))] else [])"
      "n3 = (if c \<and> acc kPeersTopicId then 1 else 0)"
      "pb_link s3 = pb_link s2" "pb_usb s3 = pb_usb s2"
      "pb_peers s3 = (if c then mark_published nowMs (pb_peers s2) else pb_peers s2)"
      using tick_peers_wire [OF assms(1) 3] by (auto simp: count_accepted_def Let_def)
    have d: "due_frames s nowMs snap = (if a then [(kLinkTopicId, link_bytes (sn_link snap))] else []) @
        (if b then [(kUsbTopicId, usb_bytes (sn_usb snap))] else []) @
        (if c then [(kPeersTopicId, peers_bytes (shown_peers snap))] else [])"
      by (simp add: due_frames_def a_def b_def c_def)
    have "log' = log @ due_frames s nowMs snap" unfolding d r f1(1) f2(1) f3(1) by simp
    moreover have "n = count_accepted acc (due_frames s nowMs snap)"
      unfolding d r f1(2) f2(2) f3(2) by (simp add: count_accepted_def)
    moreover have "topic_of t s' = (if t \<in> fst ` set (due_frames s nowMs snap)
        then mark_published nowMs (topic_of t s) else topic_of t s)" if "t \<in> ?ids"
      using that unfolding d r by (auto simp: topic_of_def f3 f2(3) f1(3))
    ultimately show ?thesis by blast
  qed
  then show "log' = log @ due_frames s nowMs snap" and "n = count_accepted acc (due_frames s nowMs snap)"
    and "t \<in> ?ids \<Longrightarrow> topic_of t s' = (if t \<in> fst ` set (due_frames s nowMs snap)
                       then mark_published nowMs (topic_of t s) else topic_of t s)" by blast+
qed

text \<open>The instants at which a topic is handed to the wire along a run of ticks.\<close>

fun pub_times ::
  "u32 \<Rightarrow> (u16 \<Rightarrow> bool) \<Rightarrow> u16 \<Rightarrow> (u32 \<times> snapshot) list \<Rightarrow> wire publisher \<Rightarrow> sub_registry \<Rightarrow> u32 list" where
  "pub_times self acc t [] s reg = []"
| "pub_times self acc t ((nowMs, snap) # xs) s reg =
     (case tick_with self acc nowMs snap s ([], reg) of
        (n, s', log, reg') \<Rightarrow>
          (if t \<in> fst ` set log then [nowMs] else []) @ pub_times self acc t xs s' reg')"

lemma due_needs_period:
  assumes "t \<in> {kLinkTopicId, kUsbTopicId, kPeersTopicId}" "t \<in> fst ` set (due_frames s nowMs snap)"
    "ts_published (topic_of t s)"
  shows "ts_periodMs (topic_of t s) \<le> nowMs - ts_lastPublishMs (topic_of t s)"
  using assms by (auto simp: due_frames_def periodic_due_def peers_due_def topic_of_def split: if_splits)

lemma pub_times_gaps:
  assumes "t \<in> {kLinkTopicId, kUsbTopicId, kPeersTopicId}" "ts_periodMs (topic_of t s) = p"
    "\<And>x. x \<in> set xs \<Longrightarrow> length (sn_peers (snd x)) = kMaxPeers"
  shows "successively (\<lambda>a b. p \<le> b - a) (pub_times self acc t xs s reg) \<and>
    (ts_published (topic_of t s) \<and> pub_times self acc t xs s reg \<noteq> [] \<longrightarrow>
       p \<le> hd (pub_times self acc t xs s reg) - ts_lastPublishMs (topic_of t s))"
  using assms(2,3)
proof (induction xs arbitrary: s reg)
  case (Cons x xs)
  obtain nowMs snap where x: "x = (nowMs, snap)" by (cases x)
  obtain n s' log reg' where tk: "tick_with self acc nowMs snap s ([], reg) = (n, s', log, reg')"
    by (cases "tick_with self acc nowMs snap s ([], reg)")
  have len: "length (sn_peers snap) = kMaxPeers" using Cons.prems(2) [of x] x by simp
  note f = tick_facts [OF len tk]
  have st: "topic_of t s' = (if t \<in> fst ` set log then mark_published nowMs (topic_of t s) else topic_of t s)"
    using f(1) f(3) [OF assms(1)] by simp
  then have p': "ts_periodMs (topic_of t s') = p" using Cons.prems(1) by (simp add: mark_published_def)
  note IH = Cons.IH [OF p', of reg'] Cons.prems(2)
  show ?case
  proof (cases "t \<in> fst ` set log")
    case False
    with st IH x tk show ?thesis by simp
  next
    case True
    with f(1) have due: "ts_published (topic_of t s) \<longrightarrow> p \<le> nowMs - ts_lastPublishMs (topic_of t s)"
      using due_needs_period [OF assms(1), of s nowMs snap] Cons.prems(1) by simp
    let ?r = "pub_times self acc t xs s' reg'"
    have "successively (\<lambda>a b. p \<le> b - a) ?r \<and> (?r \<noteq> [] \<longrightarrow> p \<le> hd ?r - nowMs)"
      using IH(1) Cons.prems(2) st True by (simp add: mark_published_def)
    with True due x tk show ?thesis by (cases ?r) auto
  qed
qed simp

section \<open>Properties\<close>

text \<open>The dongle describes all three of its topics: however often the manifest records are asked
  for, the caller gets the same 1741 octets, the complete size-prefixed records of \<open>hub.link\<close>,
  \<open>hub.usb\<close> and \<open>hub.peers\<close>, and the count 3.\<close>

theorem hub_records_complete:
  "let ((records, n, count), s) = topicRecords (((snd \<circ> topicRecords) ^^ k) records_init)
   in take n records = concat (map (\<lambda>t. sized (topic_content t)) kTopics) \<and> n = 1741 \<and> count = 3"
proof -
  let ?full = "hub_record_bytes @ drop 1741 (rc_records records_init)"
  let ?s = "\<lparr>rc_records = ?full, rc_recordsSize = 1741, rc_recordsTopicCount = 3, rc_recordsBuilt = True\<rparr>"
  have first: "topicRecords records_init = ((?full, 1741, 3), ?s)"
    by (rule topicRecords_bytes) (simp_all add: records_init_def)
  have again: "topicRecords ?s = ((?full, 1741, 3), ?s)" by (simp add: topicRecords_def)
  have "((snd \<circ> topicRecords) ^^ k) records_init \<in> {records_init, ?s}"
  proof (induction k)
    case (Suc k)
    then show ?case using first again by auto
  qed simp
  then have "topicRecords (((snd \<circ> topicRecords) ^^ k) records_init) = ((?full, 1741, 3), ?s)"
    using first again by auto
  then show ?thesis by (simp add: length_hub_record_bytes) (simp add: hub_record_bytes_def)
qed

text \<open>C5. The schema tables and the packers agree: reading a payload by the field list the manifest
  declares gives back every counter of \<open>hub.link\<close> and \<open>hub.usb\<close> and every column of \<open>hub.peers\<close>,
  uses the whole payload, and the packers write nothing behind it.\<close>

theorem payloads_match_schema:
  assumes "length buf = kMaxPeersPayloadSize" and "length ps \<le> kMaxPeers"
  shows "(case packLink l (Some buf) of (n, Some out) \<Rightarrow> n = 50 \<and> drop n out = drop n buf \<and>
            decode_payload kLinkFields (take n out) = Some (map (\<lambda>x. [unat x]) (link_values l))) \<and>
         (case packUsb u (Some buf) of (n, Some out) \<Rightarrow> n = 122 \<and> drop n out = drop n buf \<and>
            decode_payload kUsbFields (take n out) =
              Some (map (\<lambda>x. [unat x]) (usb_values u) @ [map unat (drop_classes u)] @ map (\<lambda>x. [unat x]) (relay_values u))) \<and>
         (case packPeers (Some ps) (length ps) (Some buf) of (n, Some out) \<Rightarrow>
            n = 18 + 25 * length ps \<and> drop n out = drop n buf \<and>
            decode_payload kPeersFields (take n out) = Some (peers_columns ps))"
proof -
  have b: "length buf = 418"
    using assms(1) by (simp add: kMaxPeersPayloadSize_def kPeersPayloadOverhead_def kPeersPayloadBytesPerPeer_def kMaxPeers_def)
  have p: "18 + 25 * length ps \<le> length buf" using assms(2) b by (simp add: kMaxPeers_def)
  show ?thesis
    using packLink_bytes [of buf l] packUsb_bytes [of buf u] packPeers_bytes [OF refl assms(2) p] b
    by (simp add: decode_link decode_usb decode_peers [OF assms(2)])
qed

theorem payloads_match_schema_witness:
  "let p = \<lparr>pr_sourceId = 7, pr_bootId = 8, pr_mac = (1, 2, 3, 4, 5, 6), pr_lastSeenAgeMs = 300,
             pr_online = True, pr_rssi = -60, pr_rttMs = 12\<rparr>
   in case packPeers (Some [p]) 1 (Some (replicate 418 0)) of (n, Some out) \<Rightarrow>
        n = 43 \<and> decode_payload kPeersFields (take n out) =
          Some [[0], [7], [8], [1, 2, 3, 4, 5, 6], [300], [1], [196], [12]]"
proof -
  let ?p = "\<lparr>pr_sourceId = 7, pr_bootId = 8, pr_mac = (1, 2, 3, 4, 5, 6), pr_lastSeenAgeMs = 300,
             pr_online = True, pr_rssi = -60, pr_rttMs = 12\<rparr>"
  have "length (replicate 418 (0::u8)) = kMaxPeersPayloadSize" "length [?p] \<le> kMaxPeers"
    by (simp_all add: kMaxPeersPayloadSize_def kPeersPayloadOverhead_def kPeersPayloadBytesPerPeer_def kMaxPeers_def)
  from payloads_match_schema [OF this, THEN conjunct2, THEN conjunct2] show ?thesis
    unfolding Let_def by (auto simp: peers_columns_def all_octets_def mac_octets_def split: prod.splits option.splits)
qed

text \<open>A tick hands to the wire exactly the frames that are due, in the order link, usb, peers, each
  with the packed current sample, and returns how many of them the queue accepted: a periodic topic
  is due right after subscribing and then once per period; the peer list when its membership changed
  or a second has passed, never inside the granted period; nothing is due without a subscriber.\<close>

theorem tick_publishes_due:
  assumes "length (sn_peers snap) = kMaxPeers"
    and "tick_with self acc nowMs snap s (log, reg) = (n, s', log', reg')"
  shows "log' = log @ due_frames s nowMs snap \<and> n = count_accepted acc (due_frames s nowMs snap)"
  using tick_facts [OF assms] by blast

definition sample0 :: snapshot where
  "sample0 = \<lparr>sn_link = \<lparr>lc_datagrams = 1, lc_fragmentsAccepted = 2, lc_routedTelemetry = 3, lc_routedLog = 4,
       lc_routedCommand = 5, lc_routedControl = 6, lc_routedTerminal = 7, lc_droppedRx = 8, lc_droppedDecode = 9,
       lc_droppedCrc = 10, lc_droppedReassembly = 11, lc_droppedQueueFull = 12\<rparr>,
     sn_usb = \<lparr>uc_framesRx = 1, uc_framesTx = 2, uc_crcErrors = 3, uc_decodeErrors = 4, uc_reassemblyRejected = 5,
       uc_telemetryDropped = 6, uc_droppedByClass = (7, 8, 9, 10), uc_relayDownOk = 11, uc_relayDownUnbound = 12,
       uc_relayDownNoPeer = 13, uc_relayDownOversized = 14, uc_relayDownSendFailed = 15\<rparr>,
     sn_peers = replicate 16 \<lparr>pr_sourceId = 0, pr_bootId = 0, pr_mac = (0, 0, 0, 0, 0, 0), pr_lastSeenAgeMs = 0,
       pr_online = False, pr_rssi = 0, pr_rttMs = 0\<rparr>, sn_peerCount = 0\<rparr>"

theorem tick_publishes_due_witness:
  "fst (snd (snd (tick_with 9 (\<lambda>_. True) 100 sample0
     (onLocalSubscribe kLinkTopicId 5000 publisher_init) ([], resetForTests)))) =
   [(kLinkTopicId, link_bytes (sn_link sample0))]"
proof -
  let ?s = "onLocalSubscribe kLinkTopicId 5000 publisher_init :: wire publisher"
  obtain n s' log' reg' where t: "tick_with 9 (\<lambda>_. True) 100 sample0 ?s ([], resetForTests) = (n, s', log', reg')"
    by (cases "tick_with 9 (\<lambda>_. True) 100 sample0 ?s ([], resetForTests)")
  have "length (sn_peers sample0) = kMaxPeers" by (simp add: sample0_def kMaxPeers_def)
  from tick_publishes_due [OF this t] t show ?thesis
    by (simp add: due_frames_def periodic_due_def peers_due_def onLocalSubscribe_def subscribe_topic_def
        publisher_init_def idleTopic_def Let_def)
qed

text \<open>A subscription is never served faster than its period: along any run of ticks, two
  successive publications of a topic are at least its period apart (on the rolling 32-bit clock).\<close>

theorem publications_keep_period:
  assumes "t \<in> {kLinkTopicId, kUsbTopicId, kPeersTopicId}"
    and "\<forall>x\<in>set xs. length (sn_peers (snd x)) = kMaxPeers"
    and "Suc i < length (pub_times self acc t xs s reg)"
  shows "ts_periodMs (topic_of t s) \<le>
    pub_times self acc t xs s reg ! Suc i - pub_times self acc t xs s reg ! i"
proof -
  have "successively (\<lambda>a b. ts_periodMs (topic_of t s) \<le> b - a) (pub_times self acc t xs s reg)"
    using pub_times_gaps [OF assms(1) refl] assms(2) by blast
  then show ?thesis using assms(3) by (simp add: successively_conv_nth)
qed

theorem publications_keep_period_witness:
  "let s = onLocalSubscribe kLinkTopicId 5000 publisher_init;
       times = pub_times 9 (\<lambda>_. True) kLinkTopicId [(10, sample0), (150, sample0), (250, sample0)] s resetForTests
   in times = [10, 250] \<and> ts_periodMs (topic_of kLinkTopicId s) = 200 \<and> 200 \<le> times ! 1 - times ! 0"
proof -
  let ?s = "onLocalSubscribe kLinkTopicId 5000 publisher_init :: wire publisher"
  let ?xs = "[(10, sample0), (150, sample0), (250, sample0)]"
  have times: "pub_times 9 (\<lambda>_. True) kLinkTopicId ?xs ?s resetForTests = [10, 250]" by code_simp
  have per: "ts_periodMs (topic_of kLinkTopicId ?s) = 200" by code_simp
  show ?thesis
    using publications_keep_period [of kLinkTopicId ?xs 0 9 "\<lambda>_. True" ?s resetForTests] times per
    by (simp add: sample0_def kMaxPeers_def)
qed

text \<open>The period of a granted rate is rounded down to whole milliseconds: the topic is published
  at the granted rate exactly when the rate divides 10^6, and otherwise slightly faster.\<close>

lemma period_rounds_down:
  assumes "0 < r" and "r \<le> 1000000"
  shows "unat (periodMsFromRate r) * unat r \<le> 1000000 \<and>
    1000000 < (unat (periodMsFromRate r) + 1) * unat r \<and>
    (unat (periodMsFromRate r) * unat r < 1000000 \<longleftrightarrow> \<not> unat r dvd 1000000)"
proof -
  let ?n = "unat r"
  have n: "0 < ?n" "?n \<le> 1000000" using assms by (simp_all add: word_less_nat_alt word_le_nat_alt)
  have "unat (1000000 div r) = 1000000 div ?n" by (simp add: unat_div)
  moreover have "0 < 1000000 div ?n" using n by (simp add: div_greater_zero_iff)
  ultimately have p: "unat (periodMsFromRate r) = 1000000 div ?n"
    using assms(1) by (auto simp: periodMsFromRate_def Let_def)
  have "1000000 div ?n * ?n + 1000000 mod ?n = 1000000" by (rule div_mult_mod_eq)
  moreover have "1000000 mod ?n < ?n" using n by simp
  moreover have "(1000000 div ?n + 1) * ?n = 1000000 div ?n * ?n + ?n" by simp
  moreover have "?n dvd 1000000 \<longleftrightarrow> 1000000 mod ?n = 0" by (rule dvd_eq_mod_eq_0)
  ultimately show ?thesis unfolding p by linarith
qed

lemma period_rounds_down_example:
  "unat (periodMsFromRate 3000) * 3000 < 1000000"
  using period_rounds_down [of 3000] by (simp add: dvd_eq_mod_eq_0)

end
