(* ===== verification/Manifest_Proofs.thy ===== *)
theory Manifest_Proofs
  imports Manifest_Cache Publisher_Proofs "HOL-Library.Multiset"
begin

text \<open>
  Lemmas and properties of the manifest cache: allocation, the invariant and the contents
  after an ingest, the cadence of requests, the order of an enumeration, the answers to a
  targeted request, and the walk over topic records.
\<close>

section \<open>Slot allocation\<close>

lemma alloc_free:
  "find_slot (\<lambda>r. \<not> used r) t = Some i \<Longrightarrow> alloc_loop used stamp t k old = Some (k + i)"
  by (induction t arbitrary: i k old) (auto split: if_splits)

lemma alloc_full_from:
  "\<forall>r\<in>set t. used r \<Longrightarrow>
   (alloc_loop used stamp t k (Some (j, x)) = Some j \<and> (\<forall>r\<in>set t. stamp x \<le> stamp r)) \<or>
   (\<exists>m<length t. alloc_loop used stamp t k (Some (j, x)) = Some (k + m) \<and>
      stamp (t ! m) < stamp x \<and> (\<forall>r\<in>set t. stamp (t ! m) \<le> stamp r))"
proof (induction t arbitrary: k j x)
  case (Cons r t)
  show ?case
  proof (cases "stamp r < stamp x")
    case True
    from Cons.IH [of "k + 1" k r] Cons.prems consider
      (keep) "alloc_loop used stamp t (k + 1) (Some (k, r)) = Some k" "\<forall>q\<in>set t. stamp r \<le> stamp q"
    | (later) m where "m < length t" "alloc_loop used stamp t (k + 1) (Some (k, r)) = Some (k + 1 + m)"
        "stamp (t ! m) < stamp r" "\<forall>q\<in>set t. stamp (t ! m) \<le> stamp q" by auto
    then show ?thesis
    proof cases
      case keep
      with True Cons.prems show ?thesis by (intro disjI2 exI [of _ 0]) auto
    next
      case later
      with True Cons.prems show ?thesis by (intro disjI2 exI [of _ "Suc m"]) auto
    qed
  next
    case False
    from Cons.IH [of "k + 1" j x] Cons.prems consider
      (keep) "alloc_loop used stamp t (k + 1) (Some (j, x)) = Some j" "\<forall>q\<in>set t. stamp x \<le> stamp q"
    | (later) m where "m < length t" "alloc_loop used stamp t (k + 1) (Some (j, x)) = Some (k + 1 + m)"
        "stamp (t ! m) < stamp x" "\<forall>q\<in>set t. stamp (t ! m) \<le> stamp q" by auto
    then show ?thesis
    proof cases
      case keep
      with False Cons.prems show ?thesis by (intro disjI1) auto
    next
      case later
      with False Cons.prems show ?thesis by (intro disjI2 exI [of _ "Suc m"]) auto
    qed
  qed
qed simp

lemma alloc_full:
  assumes "\<forall>r\<in>set t. used r" "t \<noteq> []"
  shows "\<exists>i<length t. alloc_loop used stamp t 0 None = Some i \<and> (\<forall>r\<in>set t. stamp (t ! i) \<le> stamp r)"
proof -
  obtain r t' where t: "t = r # t'" using assms(2) by (cases t) auto
  from assms(1) alloc_full_from [of t' used stamp 1 0 r] t show ?thesis
    by (fastforce intro: exI [of _ 0] exI [of _ "Suc _"] less_imp_le)
qed

text \<open>Where a record for a key goes: its own slot, else the first free one, else the one with the
  smallest stamp.\<close>

lemma alloc_cases:
  assumes "t \<noteq> []"
  obtains (own) i where "find_slot (\<lambda>r. used r \<and> key r = k) t = Some i"
      "i < length t" "used (t ! i)" "key (t ! i) = k"
  | (free) i where "slot_get used key t k = None" "alloc_loop used stamp t 0 None = Some i"
      "i < length t" "\<not> used (t ! i)" "find_slot (\<lambda>r. used r \<and> key r = k) t = None"
  | (evict) i where "slot_get used key t k = None" "alloc_loop used stamp t 0 None = Some i"
      "i < length t" "\<forall>r\<in>set t. used r" "\<forall>r\<in>set t. stamp (t ! i) \<le> stamp r"
      "find_slot (\<lambda>r. used r \<and> key r = k) t = None"
proof (cases "find_slot (\<lambda>r. used r \<and> key r = k) t")
  case (Some i)
  with own show ?thesis by (auto dest: find_slot_SomeD)
next
  case None
  then have miss: "slot_get used key t k = None" by (simp add: slot_get_def)
  show ?thesis
  proof (cases "find_slot (\<lambda>r. \<not> used r) t")
    case (Some i)
    then have "i < length t" "\<not> used (t ! i)" by (auto dest: find_slot_SomeD)
    with free [OF miss _ _ _ None] alloc_free [OF Some, of stamp 0 None] show ?thesis by simp
  next
    case full: None
    then have "\<forall>r\<in>set t. used r" by (simp add: find_slot_None)
    with alloc_full [OF this assms, of stamp] evict [OF miss] None show ?thesis by blast
  qed
qed

section \<open>Sorting the entries\<close>

lemma shift_up_sorted:
  "sorted (map me_sourceId xs) \<Longrightarrow>
   shift_up (xs @ y # zs) key (length xs) =
     filter (\<lambda>e. me_sourceId e \<le> me_sourceId key) xs @ key #
     filter (\<lambda>e. me_sourceId key < me_sourceId e) xs @ zs"
proof (induction xs arbitrary: y zs rule: rev_induct)
  case (snoc x xs)
  have s: "sorted (map me_sourceId xs)" "\<forall>e\<in>set xs. me_sourceId e \<le> me_sourceId x"
    using snoc.prems by (auto simp: sorted_append)
  show ?case
  proof (cases "me_sourceId key < me_sourceId x")
    case True
    then have "shift_up ((xs @ [x]) @ y # zs) key (length (xs @ [x])) = shift_up (xs @ x # x # zs) key (length xs)"
      by (simp add: nth_append list_update_append)
    with True snoc.IH [OF s(1), of x "x # zs"] show ?thesis by (simp add: not_le)
  next
    case False
    then have "\<forall>e\<in>set xs. me_sourceId e \<le> me_sourceId key" using s(2) by force
    then have f: "filter (\<lambda>e. me_sourceId e \<le> me_sourceId key) xs = xs"
      "filter (\<lambda>e. me_sourceId key < me_sourceId e) xs = []"
      by (auto simp: filter_id_conv filter_empty_conv not_less)
    with False show ?thesis by (simp add: nth_append list_update_append)
  qed
qed simp

lemma sort_loop_facts:
  "sorted (map me_sourceId xs) \<Longrightarrow> length xs = i \<Longrightarrow> length zs = n \<Longrightarrow>
   sorted (map me_sourceId (sort_loop i n (xs @ zs))) \<and> mset (sort_loop i n (xs @ zs)) = mset (xs @ zs)"
proof (induction n arbitrary: i xs zs)
  case (Suc n)
  then obtain z zs' where zs: "zs = z # zs'" by (cases zs) auto
  let ?xs = "filter (\<lambda>e. me_sourceId e \<le> me_sourceId z) xs @ z # filter (\<lambda>e. me_sourceId z < me_sourceId e) xs"
  have "shift_up (xs @ zs) ((xs @ zs) ! i) i = ?xs @ zs'"
    using shift_up_sorted [OF Suc.prems(1), of z zs' z] Suc.prems(2) zs by (simp add: nth_append)
  then have step: "sort_loop i (Suc n) (xs @ zs) = sort_loop (i + 1) n (?xs @ zs')" by simp
  have perm: "mset ?xs = add_mset z (mset xs)"
    using multiset_partition [of "mset xs" "\<lambda>e. me_sourceId e \<le> me_sourceId z"] by (simp add: not_le)
  have "sorted (map me_sourceId ?xs)"
    using Suc.prems(1) by (auto simp: sorted_append sorted_filter intro: less_imp_le order_trans)
  moreover have "length ?xs = i + 1"
    using perm Suc.prems(2) by (metis One_nat_def add.right_neutral add_Suc_right size_add_mset size_mset)
  ultimately show ?case
    using Suc.IH [of ?xs "i + 1" zs'] Suc.prems(3) zs perm step by simp
qed simp

lemma collectSorted_facts:
  "sorted (map me_sourceId (collectSortedEntries es)) \<and>
   mset (collectSortedEntries es) = mset (filter me_used es)"
proof (cases "filter me_used es")
  case Nil
  then show ?thesis by (simp add: collectSortedEntries_def)
next
  case (Cons e r)
  then show ?thesis using sort_loop_facts [of "[e]" 1 r "length r"]
    by (simp add: collectSortedEntries_def Let_def)
qed

section \<open>The cache as a bounded cache of descriptions\<close>

definition entry_ok :: "manifest_entry \<Rightarrow> bool" where
  "entry_ok e \<longleftrightarrow> length (me_uuid e) \<le> 16 \<and> length (me_name e) = kMaxNameLength + 1 \<and>
     length (me_records e) = kMaxRecordsBytes \<and> length (me_sourceInfo e) = kMaxSourceInfoBytes \<and>
     me_topicRecordsSize e \<le> me_recordsSize e \<and> me_recordsSize e \<le> kMaxRecordsBytes \<and>
     unat (me_sourceInfoSize e) \<le> kMaxSourceInfoBytes \<and>
     (me_used e \<longrightarrow> me_sourceId e \<noteq> 0 \<and> me_bootId e \<noteq> 0 \<and> 2 \<le> unat (me_sourceInfoSize e))"

definition cache_inv :: "manifest_cache \<Rightarrow> bool" where
  "cache_inv s \<longleftrightarrow> length (mc_entries s) = kCapacity \<and> one_per_key me_used me_sourceId (mc_entries s) \<and>
     (\<forall>e\<in>set (mc_entries s). entry_ok e) \<and>
     length (mc_pending s) = kCapacity \<and> one_per_key mp_used mp_sourceId (mc_pending s)"

text \<open>What the cache tells of a source.\<close>

record description =
  ds_bootId :: u32
  ds_uuid :: bytes
  ds_role :: u8
  ds_online :: bool
  ds_configRevision :: u32
  ds_name :: bytes
  ds_topicCount :: u16
  ds_actionCount :: u16
  ds_topics :: bytes
  ds_actions :: bytes
  ds_info :: bytes

definition describe :: "manifest_entry \<Rightarrow> description" where
  "describe e = \<lparr>ds_bootId = me_bootId e, ds_uuid = me_uuid e, ds_role = me_role e, ds_online = me_online e,
     ds_configRevision = me_configRevision e, ds_name = entry_name e, ds_topicCount = me_topicCount e,
     ds_actionCount = me_actionCount e, ds_topics = take (me_topicRecordsSize e) (entry_records e),
     ds_actions = drop (me_topicRecordsSize e) (entry_records e), ds_info = entry_info e\<rparr>"

definition cached :: "manifest_cache \<Rightarrow> u32 \<Rightarrow> description option" where
  "cached s sid = map_option describe (slot_get me_used me_sourceId (mc_entries s) sid)"

lemma cache_inv_reset: "cache_inv cache_reset"
  by (auto simp: cache_inv_def cache_reset_def one_per_key_iff freeEntry_def freePending_def entry_ok_def
      kMaxNameLength_def kMaxRecordsBytes_def kMaxSourceInfoBytes_def)

lemma cached_reset: "cached cache_reset = Map.empty"
  by (simp add: cached_def cache_reset_def freeEntry_def fun_eq_iff slot_get_None)

text \<open>A decoded manifest, as the reader hands it out, and the reader that hands out exactly that.\<close>

type_synonym decoded = "manifest_header \<times> bytes \<times> bytes \<times> bytes"

definition reads :: "decoded \<Rightarrow> reader_ops" where
  "reads d = (case d of (h, info, topics, actions) \<Rightarrow>
     \<lparr>ro_header = \<lambda>_. Some h, ro_raw_source_info = \<lambda>_. Some info, ro_raw_records = \<lambda>_. Some (topics, actions)\<rparr>)"

definition not_modified :: "manifest_header \<Rightarrow> bool" where
  "not_modified h \<longleftrightarrow> mh_flags h AND kFlagNotModified \<noteq> 0"

text \<open>A full manifest within the cache's budget.\<close>

definition full_ok :: "decoded \<Rightarrow> bool" where
  "full_ok d \<longleftrightarrow> (case d of (h, info, topics, actions) \<Rightarrow>
     mh_status h = kStatusSuccess \<and> mh_described_source_id h \<noteq> 0 \<and> mh_described_boot_id h \<noteq> 0 \<and>
     \<not> not_modified h \<and> length info \<le> kMaxSourceInfoBytes \<and> length topics + length actions \<le> kMaxRecordsBytes)"

definition description_of :: "decoded \<Rightarrow> description" where
  "description_of d = (case d of (h, info, topics, actions) \<Rightarrow>
     \<lparr>ds_bootId = mh_described_boot_id h, ds_uuid = take 16 (mh_source_uuid h), ds_role = mh_source_role h,
      ds_online = (mh_source_flags h AND 1 \<noteq> 0), ds_configRevision = mh_config_revision h,
      ds_name = takeWhile (\<lambda>b. b \<noteq> 0) (take kMaxNameLength (mh_source_name h)),
      ds_topicCount = mh_topic_count h, ds_actionCount = mh_action_count h,
      ds_topics = topics, ds_actions = actions,
      ds_info = (if length info \<ge> 2 then info else kEmptySourceInfo)\<rparr>)"

lemma findOrAllocateEntry_cases:
  assumes "cache_inv s"
  obtains (own) i where "findOrAllocateEntry sid (mc_entries s) = i" "findEntry sid (mc_entries s) = Some i"
      "i < length (mc_entries s)" "me_used (mc_entries s ! i)" "me_sourceId (mc_entries s ! i) = sid"
  | (fresh) i where "findOrAllocateEntry sid (mc_entries s) = i" "findEntry sid (mc_entries s) = None"
      "i < length (mc_entries s)" "slot_get me_used me_sourceId (mc_entries s) sid = None"
      "me_used (mc_entries s ! i) \<longrightarrow> (\<forall>e\<in>set (mc_entries s). me_used e \<and>
         me_lastSeenMs (mc_entries s ! i) \<le> me_lastSeenMs e)"
proof -
  have ne: "mc_entries s \<noteq> []" using assms by (auto simp: cache_inv_def kCapacity_def)
  show ?thesis
    by (cases rule: alloc_cases [where used = me_used and key = me_sourceId and k = sid and stamp = me_lastSeenMs, OF ne])
       (use own fresh in \<open>auto simp: findOrAllocateEntry_def findEntry_def\<close>)
qed

lemma writes_at_key:
  assumes inj: "one_per_key used key t" and i: "i < length t" and r: "used r" "key r = k"
    and at: "(used (t ! i) \<and> key (t ! i) = k) \<or> slot_get used key t k = None"
  shows "one_per_key used key (t[i := r])"
    and "slot_get used key (t[i := r]) k = Some r"
    and "k' \<noteq> k \<Longrightarrow> slot_get used key (t[i := r]) k' =
           (if used (t ! i) \<and> key (t ! i) = k' then None else slot_get used key t k')"
proof -
  have other: "key (t ! j) \<noteq> key r" if "j < length t" "j \<noteq> i" "used (t ! j)" for j
    using at that i r inj by (auto simp: slot_get_None dest: one_per_keyD)
  note w = slot_write [OF inj i r(1) other]
  show "one_per_key used key (t[i := r])" by (rule w)
  show "slot_get used key (t[i := r]) k = Some r" using w(2) r(2) by simp
  show "slot_get used key (t[i := r]) k' =
      (if used (t ! i) \<and> key (t ! i) = k' then None else slot_get used key t k')" if "k' \<noteq> k"
    using w(3) that r(2) by simp
qed

lemma release_pending_inv:
  assumes "one_per_key mp_used mp_sourceId ps"
  shows "one_per_key mp_used mp_sourceId (release_pending sid ps)" "length (release_pending sid ps) = length ps"
    "slot_get mp_used mp_sourceId (release_pending sid ps) sid = None"
    "k \<noteq> sid \<Longrightarrow> slot_get mp_used mp_sourceId (release_pending sid ps) k = slot_get mp_used mp_sourceId ps k"
proof -
  have "one_per_key mp_used mp_sourceId (release_pending sid ps) \<and> length (release_pending sid ps) = length ps \<and>
    slot_get mp_used mp_sourceId (release_pending sid ps) sid = None \<and>
    (k \<noteq> sid \<longrightarrow> slot_get mp_used mp_sourceId (release_pending sid ps) k = slot_get mp_used mp_sourceId ps k)"
  proof (cases "findPending sid ps")
    case None
    then have "slot_get mp_used mp_sourceId ps sid = None" by (simp add: findPending_def slot_get_def)
    with None assms show ?thesis by (simp add: release_pending_def)
  next
    case (Some i)
    then have i: "i < length ps" "mp_used (ps ! i)" "mp_sourceId (ps ! i) = sid"
      by (auto simp: findPending_def dest: find_slot_SomeD)
    let ?r = "(ps ! i)\<lparr>mp_used := False\<rparr>"
    have "one_per_key mp_used mp_sourceId (ps[i := ?r])"
      by (rule one_per_key_update [OF assms]) simp
    moreover have "slot_get mp_used mp_sourceId (ps[i := ?r]) sid = None"
      by (rule slot_get_clear [OF assms i]) simp
    moreover have "k \<noteq> sid \<longrightarrow> slot_get mp_used mp_sourceId (ps[i := ?r]) k = slot_get mp_used mp_sourceId ps k"
      using slot_get_update_other [OF assms i(1), of k ?r] i by auto
    ultimately show ?thesis using Some by (simp add: release_pending_def)
  qed
  then show "one_per_key mp_used mp_sourceId (release_pending sid ps)" "length (release_pending sid ps) = length ps"
    "slot_get mp_used mp_sourceId (release_pending sid ps) sid = None"
    "k \<noteq> sid \<Longrightarrow> slot_get mp_used mp_sourceId (release_pending sid ps) k = slot_get mp_used mp_sourceId ps k"
    by blast+
qed

lemma takeWhile_terminated: "takeWhile (\<lambda>b. b \<noteq> 0) (xs @ 0 # ys) = takeWhile (\<lambda>b. b \<noteq> (0::u8)) xs"
  by (induction xs) auto

lemma unat_u16_small: "n < 65536 \<Longrightarrow> unat (of_nat n :: u16) = n"
  by (simp add: unat_of_nat take_bit_eq_mod)

lemma entry_update_full:
  fixes nowMs :: u32
  assumes "full_ok (h, info, topics, actions)" "entry_ok e"
  defines "info' \<equiv> (if length info \<ge> 2 then info else kEmptySourceInfo)"
  defines "e' \<equiv> entry_update h info' topics actions nowMs e"
  shows "entry_ok e'" "me_used e'" "me_sourceId e' = mh_described_source_id h" "me_lastSeenMs e' = nowMs"
    "describe e' = description_of (h, info, topics, actions)"
proof -
  have f: "\<not> mh_flags h AND kFlagNotModified \<noteq> 0" "length info \<le> 512" "length topics + length actions \<le> 2048"
    "mh_described_source_id h \<noteq> 0" "mh_described_boot_id h \<noteq> 0"
    using assms(1) by (simp_all add: full_ok_def not_modified_def kMaxSourceInfoBytes_def kMaxRecordsBytes_def)
  have e: "length (me_name e) = 65" "length (me_records e) = 2048" "length (me_sourceInfo e) = 512"
    using assms(2) by (simp_all add: entry_ok_def kMaxNameLength_def kMaxRecordsBytes_def kMaxSourceInfoBytes_def)
  have il: "2 \<le> length info'" "length info' \<le> 512"
    using f(2) by (simp_all add: info'_def kEmptySourceInfo_def)
  then have iu: "unat (of_nat (length info') :: u16) = length info'" by (intro unat_u16_small) simp
  have nm: "(if length n < 64 then take (length n) n else take 64 n) = take 64 n" for n :: bytes by simp
  have e': "e' = e\<lparr>me_used := True, me_sourceId := mh_described_source_id h,
      me_bootId := mh_described_boot_id h, me_uuid := take 16 (mh_source_uuid h),
      me_role := mh_source_role h, me_online := (mh_source_flags h AND 1 \<noteq> 0),
      me_configRevision := mh_config_revision h, me_lastSeenMs := nowMs,
      me_sourceInfo := overwrite info' (me_sourceInfo e), me_sourceInfoSize := of_nat (length info'),
      me_name := overwrite (take 64 (mh_source_name h) @ [0]) (me_name e),
      me_records := overwrite (topics @ actions) (me_records e),
      me_recordsSize := length topics + length actions, me_topicRecordsSize := length topics,
      me_topicCount := mh_topic_count h, me_actionCount := mh_action_count h\<rparr>"
    using f(1) by (simp add: e'_def entry_update_def Let_def kMaxNameLength_def)
  show "entry_ok e'"
    using f e il iu by (simp add: e' entry_ok_def overwrite_def kMaxNameLength_def kMaxRecordsBytes_def kMaxSourceInfoBytes_def)
  show "me_used e'" "me_sourceId e' = mh_described_source_id h" "me_lastSeenMs e' = nowMs" by (simp_all add: e')
  show "describe e' = description_of (h, info, topics, actions)"
    by (simp add: e' describe_def description_of_def entry_name_def entry_info_def entry_records_def
        overwrite_def takeWhile_terminated iu info'_def [symmetric] kMaxNameLength_def)
qed

lemma ingest_full:
  assumes s: "cache_inv s" and d: "full_ok (h, info, topics, actions)"
  defines "sid \<equiv> mh_described_source_id h"
  obtains i e' where "ingestManifestDataImpl (reads (h, info, topics, actions)) p nowMs s = (True, s\<lparr>mc_entries := (mc_entries s)[i := e'],
        mc_pending := release_pending sid (mc_pending s),
        mc_catalogRevision := mc_catalogRevision s +
          (if findEntry sid (mc_entries s) = None \<or> me_bootId (mc_entries s ! i) \<noteq> mh_described_boot_id h \<or>
              me_configRevision (mc_entries s ! i) \<noteq> mh_config_revision h then 1 else 0)\<rparr>)"
    "i < length (mc_entries s)" "entry_ok e'" "me_used e'" "me_sourceId e' = sid" "me_lastSeenMs e' = nowMs"
    "describe e' = description_of (h, info, topics, actions)"
    "(me_used (mc_entries s ! i) \<and> me_sourceId (mc_entries s ! i) = sid) \<or>
     slot_get me_used me_sourceId (mc_entries s) sid = None \<and>
     (me_used (mc_entries s ! i) \<longrightarrow> (\<forall>e\<in>set (mc_entries s). me_used e \<and> me_lastSeenMs (mc_entries s ! i) \<le> me_lastSeenMs e))"
proof -
  let ?i = "findOrAllocateEntry sid (mc_entries s)"
  let ?info = "if length info \<ge> 2 then info else kEmptySourceInfo"
  let ?e' = "entry_update h ?info topics actions nowMs (mc_entries s ! ?i)"
  have i: "?i < length (mc_entries s)" by (rule findOrAllocateEntry_cases [OF s, of sid]) auto
  then have "entry_ok (mc_entries s ! ?i)" using s by (simp add: cache_inv_def)
  note e = entry_update_full [OF d this, where nowMs = nowMs]
  have f: "mh_status h = kStatusSuccess" "mh_described_source_id h \<noteq> 0" "mh_described_boot_id h \<noteq> 0"
     "\<not> (mh_flags h AND kFlagNotModified \<noteq> 0)" "length info \<le> kMaxSourceInfoBytes"
     "length topics + length actions \<le> kMaxRecordsBytes"
    using d by (simp_all add: full_ok_def not_modified_def)
  show ?thesis
  proof (rule that [OF _ i e(1,2) _ e(4,5)])
    show "ingestManifestDataImpl (reads (h, info, topics, actions)) p nowMs s = (True, s\<lparr>mc_entries := (mc_entries s)[?i := ?e'],
        mc_pending := release_pending sid (mc_pending s),
        mc_catalogRevision := mc_catalogRevision s +
          (if findEntry sid (mc_entries s) = None \<or> me_bootId (mc_entries s ! ?i) \<noteq> mh_described_boot_id h \<or>
              me_configRevision (mc_entries s ! ?i) \<noteq> mh_config_revision h then 1 else 0)\<rparr>)"
      using f by (simp add: ingestManifestDataImpl_def reads_def Let_def sid_def)
    show "me_sourceId ?e' = sid" using e(3) by (simp add: sid_def)
    show "(me_used (mc_entries s ! ?i) \<and> me_sourceId (mc_entries s ! ?i) = sid) \<or>
     slot_get me_used me_sourceId (mc_entries s) sid = None \<and>
     (me_used (mc_entries s ! ?i) \<longrightarrow> (\<forall>e\<in>set (mc_entries s). me_used e \<and> me_lastSeenMs (mc_entries s ! ?i) \<le> me_lastSeenMs e))"
      by (rule findOrAllocateEntry_cases [OF s, of sid]) auto
  qed
qed

lemma ingest_full_facts:
  fixes p :: bytes and nowMs :: u32
  assumes s: "cache_inv s" and d: "full_ok (h, info, topics, actions)"
  defines "sid \<equiv> mh_described_source_id h"
    and "s' \<equiv> snd (ingestManifestDataImpl (reads (h, info, topics, actions)) p nowMs s)"
  shows "cache_inv s'" and "cached s' sid = Some (description_of (h, info, topics, actions))"
    and "k \<noteq> sid \<Longrightarrow> cached s' k = cached s k \<or> cached s' k = None"
    and "k \<noteq> sid \<Longrightarrow> sid \<in> dom (cached s) \<or> card (dom (cached s)) < kCapacity \<Longrightarrow> cached s' k = cached s k"
proof -
  obtain i e' where r: "mc_entries s' = (mc_entries s)[i := e']" "mc_pending s' = release_pending sid (mc_pending s)"
    and i: "i < length (mc_entries s)"
    and e: "entry_ok e'" "me_used e'" "me_sourceId e' = sid" "describe e' = description_of (h, info, topics, actions)"
    and at: "(me_used (mc_entries s ! i) \<and> me_sourceId (mc_entries s ! i) = sid) \<or>
     slot_get me_used me_sourceId (mc_entries s) sid = None \<and>
     (me_used (mc_entries s ! i) \<longrightarrow> (\<forall>e\<in>set (mc_entries s). me_used e \<and> me_lastSeenMs (mc_entries s ! i) \<le> me_lastSeenMs e))"
    unfolding s'_def sid_def by (rule ingest_full [OF s d, of p nowMs]) auto
  have inj: "one_per_key me_used me_sourceId (mc_entries s)" using s by (simp add: cache_inv_def)
  have at': "(me_used (mc_entries s ! i) \<and> me_sourceId (mc_entries s ! i) = sid) \<or>
     slot_get me_used me_sourceId (mc_entries s) sid = None" using at by auto
  note w = writes_at_key [OF inj i e(2,3) at']
  show "cache_inv s'"
    using s w(1) e(1) release_pending_inv [of "mc_pending s" sid]
    by (auto simp: cache_inv_def r dest!: set_update_subset_insert [THEN subsetD])
  show "cached s' sid = Some (description_of (h, info, topics, actions))"
    using w(2) e(4) by (simp add: cached_def r)
  show "cached s' k = cached s k \<or> cached s' k = None" if "k \<noteq> sid"
    using w(3) [OF that] by (simp add: cached_def r)
  show "cached s' k = cached s k"
    if "k \<noteq> sid" "sid \<in> dom (cached s) \<or> card (dom (cached s)) < kCapacity"
  proof -
    have "length (filter me_used (mc_entries s)) = card (dom (slot_get me_used me_sourceId (mc_entries s)))"
      by (rule card_dom_slot_get [OF inj, symmetric])
    moreover have "dom (slot_get me_used me_sourceId (mc_entries s)) = dom (cached s)" by (auto simp: cached_def)
    moreover have "filter me_used (mc_entries s) = mc_entries s" if "\<forall>e\<in>set (mc_entries s). me_used e"
      using that by (simp add: filter_id_conv)
    ultimately have "\<not> (\<forall>e\<in>set (mc_entries s). me_used e)" if "card (dom (cached s)) < kCapacity"
      using that s by (metis cache_inv_def less_irrefl)
    then have "\<not> (me_used (mc_entries s ! i) \<and> me_sourceId (mc_entries s ! i) = k)"
      using at that by (auto simp: cached_def domIff)
    with w(3) [OF that(1)] show ?thesis by (simp add: cached_def r)
  qed
qed

lemma ingest_rejects_full:
  "\<not> full_ok (h, info, topics, actions) \<Longrightarrow> \<not> not_modified h \<Longrightarrow>
   ingestManifestDataImpl (reads (h, info, topics, actions)) p nowMs s = (False, s)"
  by (auto simp: ingestManifestDataImpl_def reads_def full_ok_def not_modified_def kMaxSourceInfoBytes_def Let_def)

text \<open>The cache contract for full manifests.\<close>

definition full_ok_for :: "u32 \<Rightarrow> decoded \<times> u32 \<Rightarrow> bool" where
  "full_ok_for k w \<longleftrightarrow> full_ok (fst w) \<and> mh_described_source_id (fst (fst w)) = k"

definition ingest_full_for :: "u32 \<Rightarrow> decoded \<times> u32 \<Rightarrow> manifest_cache \<Rightarrow> manifest_cache" where
  "ingest_full_for k w s =
     (if mh_described_source_id (fst (fst w)) = k \<and> \<not> not_modified (fst (fst w))
      then snd (ingestManifestDataImpl (reads (fst w)) [] (snd w) s) else s)"

definition described_by :: "u32 \<Rightarrow> decoded \<times> u32 \<Rightarrow> description" where
  "described_by k w = description_of (fst w)"

interpretation manifests: bounded_cache
  cache_inv cached full_ok_for ingest_full_for described_by kCapacity
proof unfold_locales
  fix s :: manifest_cache and k k' :: u32 and w :: "decoded \<times> u32"
  obtain h info topics actions nowMs where w: "w = ((h, info, topics, actions), nowMs)" by (cases w) auto
  assume s: "cache_inv s"
  note full = ingest_full_facts [OF s, of h info topics actions]
  have nm: "full_ok (h, info, topics, actions) \<Longrightarrow> \<not> not_modified h" by (simp add: full_ok_def)
  show "finite (dom (cached s))"
    using dom_slot_get [of me_used me_sourceId "mc_entries s"] by (simp add: cached_def dom_def)
  show bad: "ingest_full_for k w s = s" if "\<not> full_ok_for k w"
    using that ingest_rejects_full [of h info topics actions "[]" nowMs s]
    by (auto simp: ingest_full_for_def full_ok_for_def w)
  have good: "ingest_full_for k w s = snd (ingestManifestDataImpl (reads (h, info, topics, actions)) [] nowMs s)"
    "full_ok (h, info, topics, actions)" "mh_described_source_id h = k" if "full_ok_for k w"
    using that nm by (auto simp: ingest_full_for_def full_ok_for_def w)
  show "cache_inv (ingest_full_for k w s)"
    using full(1) good bad s by (cases "full_ok_for k w") auto
  show "cached (ingest_full_for k w s) k = Some (described_by k w)" if "full_ok_for k w"
    using full(2) good [OF that] by (simp add: described_by_def w)
  show "cached (ingest_full_for k w s) k' = cached s k' \<or> cached (ingest_full_for k w s) k' = None" if "k' \<noteq> k"
    using full(3) [of k'] good bad that by (cases "full_ok_for k w") auto
  show "cached (ingest_full_for k w s) k' = cached s k'"
    if "k \<in> dom (cached s) \<or> card (dom (cached s)) < kCapacity" "k' \<noteq> k"
    using full(4) [of k'] good bad that by (cases "full_ok_for k w") auto
qed

section \<open>Histories of manifest messages\<close>

definition decoded_of :: "reader_ops \<Rightarrow> bytes \<Rightarrow> decoded option" where
  "decoded_of ops p =
     (case (ro_header ops p, ro_raw_source_info ops p, ro_raw_records ops p) of
        (Some h, Some info, Some (topics, actions)) \<Rightarrow> Some (h, info, topics, actions)
      | _ \<Rightarrow> None)"

lemma ingest_decoded:
  "ingestManifestDataImpl ops p nowMs s =
     (case decoded_of ops p of Some d \<Rightarrow> ingestManifestDataImpl (reads d) [] nowMs s | None \<Rightarrow> (False, s))"
proof (cases "ro_header ops p")
  case (Some h)
  show ?thesis
  proof (cases "ro_raw_source_info ops p")
    case (Some info)
    show ?thesis
      by (cases "ro_raw_records ops p")
         (auto simp: ingestManifestDataImpl_def decoded_of_def reads_def Let_def \<open>ro_header ops p = Some h\<close> Some)
  qed (simp add: ingestManifestDataImpl_def decoded_of_def Some)
qed (simp add: ingestManifestDataImpl_def decoded_of_def)

text \<open>A NOT_MODIFIED answer the code accepts, and what it refreshes.\<close>

definition nm_ok :: "decoded \<Rightarrow> bool" where
  "nm_ok d \<longleftrightarrow> (case d of (h, info, topics, actions) \<Rightarrow>
     mh_status h = kStatusSuccess \<and> mh_described_source_id h \<noteq> 0 \<and> mh_described_boot_id h \<noteq> 0 \<and>
     not_modified h \<and> length info \<le> kMaxSourceInfoBytes \<and> mh_topic_count h = 0 \<and> mh_action_count h = 0)"

definition refresh :: "decoded \<Rightarrow> description \<Rightarrow> description" where
  "refresh d x = (case d of (h, info, topics, actions) \<Rightarrow>
     x\<lparr>ds_bootId := mh_described_boot_id h, ds_uuid := take 16 (mh_source_uuid h), ds_role := mh_source_role h,
       ds_online := (mh_source_flags h AND 1 \<noteq> 0), ds_configRevision := mh_config_revision h,
       ds_info := (if length info \<ge> 2 then info else kEmptySourceInfo)\<rparr>)"

lemma entry_update_nm:
  fixes nowMs :: u32
  assumes "nm_ok (h, info, topics, actions)" "entry_ok e"
  defines "info' \<equiv> (if length info \<ge> 2 then info else kEmptySourceInfo)"
  defines "e' \<equiv> entry_update h info' topics actions nowMs e"
  shows "entry_ok e'" "me_used e'" "me_sourceId e' = mh_described_source_id h"
    "describe e' = refresh (h, info, topics, actions) (describe e)"
proof -
  have f: "mh_flags h AND kFlagNotModified \<noteq> 0" "length info \<le> 512"
    "mh_described_source_id h \<noteq> 0" "mh_described_boot_id h \<noteq> 0"
    using assms(1) by (simp_all add: nm_ok_def not_modified_def kMaxSourceInfoBytes_def)
  have il: "2 \<le> length info'" "length info' \<le> 512"
    using f(2) by (simp_all add: info'_def kEmptySourceInfo_def)
  then have iu: "unat (of_nat (length info') :: u16) = length info'" by (intro unat_u16_small) simp
  have e': "e' = e\<lparr>me_used := True, me_sourceId := mh_described_source_id h,
      me_bootId := mh_described_boot_id h, me_uuid := take 16 (mh_source_uuid h),
      me_role := mh_source_role h, me_online := (mh_source_flags h AND 1 \<noteq> 0),
      me_configRevision := mh_config_revision h, me_lastSeenMs := nowMs,
      me_sourceInfo := overwrite info' (me_sourceInfo e), me_sourceInfoSize := of_nat (length info')\<rparr>"
    using f(1) by (simp add: e'_def entry_update_def Let_def)
  show "entry_ok e'"
    using f il iu assms(2) by (simp add: e' entry_ok_def overwrite_def kMaxSourceInfoBytes_def)
  show "me_used e'" "me_sourceId e' = mh_described_source_id h" by (simp_all add: e')
  show "describe e' = refresh (h, info, topics, actions) (describe e)"
    by (simp add: e' describe_def refresh_def entry_name_def entry_info_def entry_records_def
        overwrite_def iu info'_def [symmetric])
qed

lemma findEntry_cached: "findEntry sid (mc_entries s) = None \<longleftrightarrow> cached s sid = None"
  by (simp add: findEntry_def cached_def slot_get_def split: option.splits)

lemma ingest_nm_facts:
  fixes nowMs :: u32 and info topics actions :: bytes
  assumes s: "cache_inv s" and nm: "not_modified h"
  defines "d \<equiv> (h, info, topics, actions)" and "sid \<equiv> mh_described_source_id h"
  defines "s' \<equiv> snd (ingestManifestDataImpl (reads (h, info, topics, actions)) [] nowMs s)"
  shows "cache_inv s'" and "cached s' =
    (if nm_ok d then (case cached s sid of None \<Rightarrow> cached s | Some x \<Rightarrow> (cached s)(sid \<mapsto> refresh d x)) else cached s)"
proof -
  have "cache_inv s' \<and> cached s' =
    (if nm_ok d then (case cached s sid of None \<Rightarrow> cached s | Some x \<Rightarrow> (cached s)(sid \<mapsto> refresh d x)) else cached s)"
  proof (cases "nm_ok d \<and> cached s sid \<noteq> None")
    case False
    then have "ingestManifestDataImpl (reads (h, info, topics, actions)) [] nowMs s = (False, s)"
      using nm findEntry_cached [of sid s]
      by (auto simp: ingestManifestDataImpl_def reads_def nm_ok_def not_modified_def d_def sid_def
          kMaxSourceInfoBytes_def Let_def)
    with False s show ?thesis by (auto simp: s'_def split: option.splits)
  next
    case True
    then obtain i where f: "findEntry sid (mc_entries s) = Some i"
      using findEntry_cached [of sid s] by (cases "findEntry sid (mc_entries s)") auto
    then have i: "i < length (mc_entries s)" "me_used (mc_entries s ! i)" "me_sourceId (mc_entries s ! i) = sid"
      by (auto simp: findEntry_def dest: find_slot_SomeD)
    let ?info = "if length info \<ge> 2 then info else kEmptySourceInfo"
    let ?e' = "entry_update h ?info topics actions nowMs (mc_entries s ! i)"
    have ok: "entry_ok (mc_entries s ! i)" using s i by (simp add: cache_inv_def)
    note e = entry_update_nm [OF True [THEN conjunct1, unfolded d_def] ok, where nowMs = nowMs]
    have r: "mc_entries s' = (mc_entries s)[i := ?e']" "mc_pending s' = release_pending sid (mc_pending s)"
      using True nm f by (auto simp: s'_def ingestManifestDataImpl_def reads_def nm_ok_def not_modified_def d_def sid_def
          findOrAllocateEntry_def Let_def)
    have inj: "one_per_key me_used me_sourceId (mc_entries s)" using s by (simp add: cache_inv_def)
    have e3: "me_sourceId ?e' = sid" using e(3) by (simp add: sid_def)
    note w = writes_at_key [OF inj i(1) e(2) e3]
    have inv: "cache_inv s'"
      using s w(1) i e(1) release_pending_inv [of "mc_pending s" sid]
      by (auto simp: cache_inv_def r dest!: set_update_subset_insert [THEN subsetD])
    have x: "cached s sid = Some (describe (mc_entries s ! i))"
      using f by (simp add: cached_def slot_get_def findEntry_def)
    have "cached s' k = ((cached s)(sid \<mapsto> refresh d (describe (mc_entries s ! i)))) k" for k
      using w(2,3) i e(4) by (cases "k = sid") (auto simp: cached_def r d_def)
    with x True inv show ?thesis by (auto simp: fun_eq_iff)
  qed
  then show "cache_inv s'" and "cached s' =
    (if nm_ok d then (case cached s sid of None \<Rightarrow> cached s | Some x \<Rightarrow> (cached s)(sid \<mapsto> refresh d x)) else cached s)"
    by blast+
qed

text \<open>The history of a cache: manifest messages and chase decisions; and what an unbounded memory
  of the accepted messages would hold.\<close>

datatype manifest_event = ManifestMsg bytes u32 | ManifestChase u32 u32 u32

fun manifest_exec :: "reader_ops \<Rightarrow> manifest_event \<Rightarrow> manifest_cache \<Rightarrow> manifest_cache" where
  "manifest_exec ops (ManifestMsg p nowMs) s = snd (ingestManifestData ops p nowMs s)"
| "manifest_exec ops (ManifestChase sid boot nowMs) s = snd (shouldRequestManifest sid boot nowMs s)"

fun manifest_spec :: "reader_ops \<Rightarrow> manifest_event \<Rightarrow> (u32 \<rightharpoonup> description) \<Rightarrow> (u32 \<rightharpoonup> description)" where
  "manifest_spec ops (ManifestMsg p nowMs) m =
     (case decoded_of ops p of
        None \<Rightarrow> m
      | Some d \<Rightarrow>
          (let sid = mh_described_source_id (fst d) in
           if full_ok d then m(sid \<mapsto> description_of d)
           else if nm_ok d then (case m sid of None \<Rightarrow> m | Some x \<Rightarrow> m(sid \<mapsto> refresh d x))
           else m))"
| "manifest_spec ops (ManifestChase sid boot nowMs) m = m"

lemma cached_upd:
  "mc_entries s' = mc_entries s \<Longrightarrow> cached s' = cached s"
  by (simp add: cached_def fun_eq_iff)

text \<open>The two outcomes of a chase decision.\<close>

definition asks :: "u32 \<Rightarrow> u32 \<Rightarrow> u32 \<Rightarrow> manifest_cache \<Rightarrow> bool" where
  "asks sid boot nowMs s \<longleftrightarrow> sid \<noteq> 0 \<and> boot \<noteq> 0 \<and>
     (\<forall>e. slot_get me_used me_sourceId (mc_entries s) sid = Some e \<longrightarrow> me_bootId e \<noteq> boot) \<and>
     (\<forall>p. slot_get mp_used mp_sourceId (mc_pending s) sid = Some p \<longrightarrow>
        \<not> nowMs - mp_lastRequestedMs p <
          (if mp_attempts p \<le> kFastRequestAttempts then kFastRequestCooldownMs else kRequestCooldownMs))"

definition asked_slot :: "u32 \<Rightarrow> u32 \<Rightarrow> u32 \<Rightarrow> pending_request \<Rightarrow> pending_request" where
  "asked_slot sid boot nowMs p = \<lparr>mp_used = True, mp_sourceId = sid, mp_bootId = boot, mp_lastRequestedMs = nowMs,
     mp_attempts = (if mp_used p \<and> mp_sourceId p = sid then mp_attempts p + 1 else 1)\<rparr>"

lemma chase_result:
  "shouldRequestManifest sid boot nowMs s =
    (let i = findOrAllocatePending sid (mc_pending s) in
     if asks sid boot nowMs s
     then (True, s\<lparr>mc_pending := (mc_pending s)[i := asked_slot sid boot nowMs (mc_pending s ! i)]\<rparr>)
     else (False, s))"
proof -
  have e: "(case findEntry sid (mc_entries s) of Some i \<Rightarrow> me_bootId (mc_entries s ! i) = boot | None \<Rightarrow> False) \<longleftrightarrow>
      \<not> (\<forall>e. slot_get me_used me_sourceId (mc_entries s) sid = Some e \<longrightarrow> me_bootId e \<noteq> boot)"
    by (auto simp: findEntry_def slot_get_def split: option.splits)
  have p: "(case findPending sid (mc_pending s) of
         Some i \<Rightarrow> (let pending = mc_pending s ! i;
                        cooldown = (if mp_attempts pending \<le> kFastRequestAttempts
                                    then kFastRequestCooldownMs else kRequestCooldownMs)
                    in nowMs - mp_lastRequestedMs pending < cooldown)
       | None \<Rightarrow> False) \<longleftrightarrow>
      \<not> (\<forall>p. slot_get mp_used mp_sourceId (mc_pending s) sid = Some p \<longrightarrow>
        \<not> nowMs - mp_lastRequestedMs p <
          (if mp_attempts p \<le> kFastRequestAttempts then kFastRequestCooldownMs else kRequestCooldownMs))"
    by (auto simp: findPending_def slot_get_def Let_def split: option.splits)
  show ?thesis
    unfolding shouldRequestManifest_def e p asks_def asked_slot_def by (auto simp only: Let_def split: if_split)
qed

lemma pending_slot:
  fixes sid :: u32
  assumes "cache_inv s"
  defines "i \<equiv> findOrAllocatePending sid (mc_pending s)"
  shows "i < length (mc_pending s)"
    and "(mp_used (mc_pending s ! i) \<and> mp_sourceId (mc_pending s ! i) = sid) \<or>
      slot_get mp_used mp_sourceId (mc_pending s) sid = None"
    and "slot_get mp_used mp_sourceId (mc_pending s) sid = Some p \<Longrightarrow> mc_pending s ! i = p"
    and "slot_get mp_used mp_sourceId (mc_pending s) sid = None \<Longrightarrow>
      \<not> (mp_used (mc_pending s ! i) \<and> mp_sourceId (mc_pending s ! i) = sid)"
proof -
  have ne: "mc_pending s \<noteq> []" using assms by (auto simp: cache_inv_def kCapacity_def)
  have "i < length (mc_pending s) \<and> ((mp_used (mc_pending s ! i) \<and> mp_sourceId (mc_pending s ! i) = sid) \<or>
      slot_get mp_used mp_sourceId (mc_pending s) sid = None) \<and>
      (slot_get mp_used mp_sourceId (mc_pending s) sid = Some p \<longrightarrow> mc_pending s ! i = p) \<and>
      (slot_get mp_used mp_sourceId (mc_pending s) sid = None \<longrightarrow>
        \<not> (mp_used (mc_pending s ! i) \<and> mp_sourceId (mc_pending s ! i) = sid))"
  proof (cases rule: alloc_cases [where used = mp_used and key = mp_sourceId and k = sid and stamp = mp_lastRequestedMs, OF ne])
    case (1 j)
    then have "i = j" "slot_get mp_used mp_sourceId (mc_pending s) sid = Some (mc_pending s ! j)"
      by (simp_all add: i_def findOrAllocatePending_def findPending_def slot_get_def)
    with 1 show ?thesis by simp
  next
    case (2 j)
    then have "i = j" by (simp add: i_def findOrAllocatePending_def findPending_def)
    with 2 show ?thesis by simp
  next
    case (3 j)
    then have "i = j" by (simp add: i_def findOrAllocatePending_def findPending_def)
    moreover have "\<not> (mp_used (mc_pending s ! j) \<and> mp_sourceId (mc_pending s ! j) = sid)"
      using 3(1,3) by (auto simp: slot_get_None)
    ultimately show ?thesis using 3 by simp
  qed
  then show "i < length (mc_pending s)"
    and "(mp_used (mc_pending s ! i) \<and> mp_sourceId (mc_pending s ! i) = sid) \<or>
      slot_get mp_used mp_sourceId (mc_pending s) sid = None"
    and "slot_get mp_used mp_sourceId (mc_pending s) sid = Some p \<Longrightarrow> mc_pending s ! i = p"
    and "slot_get mp_used mp_sourceId (mc_pending s) sid = None \<Longrightarrow>
      \<not> (mp_used (mc_pending s ! i) \<and> mp_sourceId (mc_pending s ! i) = sid)" by simp_all
qed

lemma chase_entries:
  assumes "cache_inv s"
  shows "cache_inv (snd (shouldRequestManifest sid boot nowMs s))"
    and "cached (snd (shouldRequestManifest sid boot nowMs s)) = cached s"
proof -
  have inj: "one_per_key mp_used mp_sourceId (mc_pending s)" using assms by (simp add: cache_inv_def)
  let ?i = "findOrAllocatePending sid (mc_pending s)"
  have "one_per_key mp_used mp_sourceId ((mc_pending s)[?i := asked_slot sid boot nowMs (mc_pending s ! ?i)])"
    by (rule writes_at_key(1) [OF inj pending_slot(1) [OF assms] _ _ pending_slot(2) [OF assms]])
       (simp_all add: asked_slot_def)
  then show "cache_inv (snd (shouldRequestManifest sid boot nowMs s))"
    using assms by (simp add: chase_result cache_inv_def Let_def)
  show "cached (snd (shouldRequestManifest sid boot nowMs s)) = cached s"
    by (rule cached_upd) (simp add: chase_result Let_def)
qed

lemma diag_views:
  "cache_inv (s\<lparr>mc_diag := d\<rparr>) = cache_inv s" "cached (s\<lparr>mc_diag := d\<rparr>) = cached s"
  by (simp_all add: cache_inv_def cached_def fun_eq_iff)

lemma ingest_views:
  "cache_inv (snd (ingestManifestData ops p nowMs s)) = cache_inv (snd (ingestManifestDataImpl ops p nowMs s))"
  "cached (snd (ingestManifestData ops p nowMs s)) = cached (snd (ingestManifestDataImpl ops p nowMs s))"
  by (auto simp: ingestManifestData_def diag_views Let_def split: prod.splits)

lemma manifest_step:
  assumes s: "cache_inv s"
  shows "cache_inv (manifest_exec ops ev s)"
    and "cached s \<subseteq>\<^sub>m m \<Longrightarrow> cached (manifest_exec ops ev s) \<subseteq>\<^sub>m manifest_spec ops ev m"
    and "cached s = m \<Longrightarrow> card (dom (manifest_spec ops ev m)) \<le> kCapacity \<Longrightarrow>
           cached (manifest_exec ops ev s) = manifest_spec ops ev m"
proof -
  have "cache_inv (manifest_exec ops ev s) \<and>
    (cached s \<subseteq>\<^sub>m m \<longrightarrow> cached (manifest_exec ops ev s) \<subseteq>\<^sub>m manifest_spec ops ev m) \<and>
    (cached s = m \<longrightarrow> card (dom (manifest_spec ops ev m)) \<le> kCapacity \<longrightarrow>
       cached (manifest_exec ops ev s) = manifest_spec ops ev m)"
  proof (cases ev)
    case (ManifestChase sid boot nowMs)
    with chase_entries [OF s, of sid boot nowMs] show ?thesis by simp
  next
    case (ManifestMsg p nowMs)
    show ?thesis
    proof (cases "decoded_of ops p")
      case None
      with ManifestMsg s show ?thesis by (simp add: ingest_views ingest_decoded [of ops])
    next
      case (Some d)
      obtain h info topics actions where d: "d = (h, info, topics, actions)" by (cases d)
      let ?sid = "mh_described_source_id h"
      let ?s = "snd (ingestManifestDataImpl (reads d) [] nowMs s)"
      have x: "cache_inv (manifest_exec ops ev s) = cache_inv ?s" "cached (manifest_exec ops ev s) = cached ?s"
        using ManifestMsg Some by (simp_all add: ingest_views ingest_decoded [of ops])
      show ?thesis
      proof (cases "not_modified h")
        case False
        then have sp: "manifest_spec ops ev m = manifests.believe ?sid (d, nowMs) m"
          using ManifestMsg Some
          by (simp add: manifests.believe_def full_ok_for_def described_by_def d nm_ok_def Let_def)
        have "ingest_full_for ?sid (d, nowMs) s = ?s" using False by (simp add: ingest_full_for_def d)
        then show ?thesis
          unfolding x sp using manifests.store_inv [OF s] manifests.store_sound [OF s] manifests.store_complete [OF s]
          by metis
      next
        case True
        then have nf: "\<not> full_ok d" by (simp add: full_ok_def d)
        have fd: "fst d = h" by (simp add: d)
        note nm = ingest_nm_facts [OF s True, of info topics actions nowMs, folded d]
        have sp: "manifest_spec ops ev m = (if nm_ok d then (case m ?sid of None \<Rightarrow> m | Some y \<Rightarrow> m(?sid \<mapsto> refresh d y)) else m)"
          using ManifestMsg Some nf fd by (simp add: Let_def)
        have "cached ?s \<subseteq>\<^sub>m manifest_spec ops ev m" if le: "cached s \<subseteq>\<^sub>m m"
        proof (cases "cached s ?sid")
          case None
          have "cached s \<subseteq>\<^sub>m m(?sid \<mapsto> y)" for y
            using le None by (auto simp: map_le_def dom_def)
          with None nm(2) sp le show ?thesis by (simp split: option.splits)
        next
          case (Some y)
          then have "m ?sid = Some y" using le by (auto simp: map_le_def dom_def)
          with Some nm(2) sp le show ?thesis by (auto simp: map_le_def)
        qed
        then show ?thesis
          unfolding x sp nm(2) using nm(1) by (cases "nm_ok d"; cases "m ?sid") auto
      qed
    qed
  qed
  then show "cache_inv (manifest_exec ops ev s)"
    and "cached s \<subseteq>\<^sub>m m \<Longrightarrow> cached (manifest_exec ops ev s) \<subseteq>\<^sub>m manifest_spec ops ev m"
    and "cached s = m \<Longrightarrow> card (dom (manifest_spec ops ev m)) \<le> kCapacity \<Longrightarrow>
           cached (manifest_exec ops ev s) = manifest_spec ops ev m" by blast+
qed

lemma manifest_run_inv: "cache_inv s \<Longrightarrow> cache_inv (fold (manifest_exec ops) evs s)"
  by (induction evs arbitrary: s) (auto intro: manifest_step)

lemma manifest_run_sound:
  "cache_inv s \<Longrightarrow> cached s \<subseteq>\<^sub>m m \<Longrightarrow> cached (fold (manifest_exec ops) evs s) \<subseteq>\<^sub>m fold (manifest_spec ops) evs m"
  by (induction evs arbitrary: s m) (auto intro: manifest_step)

lemma manifest_spec_dom:
  "dom m \<subseteq> dom (manifest_spec ops ev m)" "finite (dom m) \<Longrightarrow> finite (dom (manifest_spec ops ev m))"
  by (cases ev; auto simp: Let_def split: option.splits)+

lemma fold_manifest_spec_dom:
  "dom m \<subseteq> dom (fold (manifest_spec ops) evs m)"
  "finite (dom m) \<Longrightarrow> finite (dom (fold (manifest_spec ops) evs m))"
proof -
  have "dom m \<subseteq> dom (fold (manifest_spec ops) evs m) \<and>
    (finite (dom m) \<longrightarrow> finite (dom (fold (manifest_spec ops) evs m)))"
  proof (induction evs arbitrary: m)
    case (Cons e es)
    show ?case
      using Cons.IH [of "manifest_spec ops e m"] manifest_spec_dom [of m ops e] by auto
  qed simp
  then show "dom m \<subseteq> dom (fold (manifest_spec ops) evs m)"
    "finite (dom m) \<Longrightarrow> finite (dom (fold (manifest_spec ops) evs m))" by blast+
qed

lemma manifest_run_complete:
  "cache_inv s \<Longrightarrow> cached s = m \<Longrightarrow> finite (dom m) \<Longrightarrow>
   card (dom (fold (manifest_spec ops) evs m)) \<le> kCapacity \<Longrightarrow>
   cached (fold (manifest_exec ops) evs s) = fold (manifest_spec ops) evs m"
proof (induction evs arbitrary: s m)
  case (Cons e es)
  have fin: "finite (dom (manifest_spec ops e m))" by (rule manifest_spec_dom(2) [OF Cons.prems(3)])
  have "card (dom (manifest_spec ops e m)) \<le> card (dom (fold (manifest_spec ops) es (manifest_spec ops e m)))"
    by (rule card_mono [OF fold_manifest_spec_dom(2) [OF fin] fold_manifest_spec_dom(1)])
  with Cons.prems have "cached (manifest_exec ops e s) = manifest_spec ops e m"
    by (intro manifest_step(3)) auto
  with Cons.prems fin show ?case
    using Cons.IH [of "manifest_exec ops e s" "manifest_spec ops e m"] manifest_step(1) by auto
qed simp

section \<open>The chase cadence\<close>

fun chase_times :: "u32 \<Rightarrow> (u32 \<times> u32) list \<Rightarrow> manifest_cache \<Rightarrow> u32 list" where
  "chase_times sid [] s = []"
| "chase_times sid ((boot, nowMs) # cs) s =
     (case shouldRequestManifest sid boot nowMs s of
        (ask, s') \<Rightarrow> (if ask then [nowMs] else []) @ chase_times sid cs s')"

definition cooldown_after :: "nat \<Rightarrow> u32" where
  "cooldown_after n = (if n \<le> 3 then 1000 else 3000)"

lemma chase_pending:
  assumes s: "cache_inv s"
    and p: "slot_get mp_used mp_sourceId (mc_pending s) sid = Some p"
    and r: "shouldRequestManifest sid boot nowMs s = (ask, s')"
  shows "cache_inv s'" and "\<not> ask \<Longrightarrow> s' = s"
    and "ask \<Longrightarrow> cooldown_after (unat (mp_attempts p)) \<le> nowMs - mp_lastRequestedMs p \<and>
      slot_get mp_used mp_sourceId (mc_pending s') sid =
        Some \<lparr>mp_used = True, mp_sourceId = sid, mp_bootId = boot, mp_lastRequestedMs = nowMs,
              mp_attempts = mp_attempts p + 1\<rparr>"
proof -
  show "cache_inv s'" using chase_entries(1) [OF s, of sid boot nowMs] r by simp
  show "s' = s" if "\<not> ask" using r that by (auto simp: chase_result Let_def split: if_splits)
  assume a: "ask"
  let ?i = "findOrAllocatePending sid (mc_pending s)"
  let ?q = "asked_slot sid boot nowMs (mc_pending s ! ?i)"
  have inj: "one_per_key mp_used mp_sourceId (mc_pending s)" using s by (simp add: cache_inv_def)
  have ip: "mc_pending s ! ?i = p" by (rule pending_slot(3) [OF s p])
  have mem: "mp_used p" "mp_sourceId p = sid" using slot_get_mem [OF p] by simp_all
  have as: "asks sid boot nowMs s" and s': "s' = s\<lparr>mc_pending := (mc_pending s)[?i := ?q]\<rparr>"
    using r a by (auto simp: chase_result Let_def split: if_splits)
  have "slot_get mp_used mp_sourceId ((mc_pending s)[?i := ?q]) sid = Some ?q"
    by (rule writes_at_key(2) [OF inj pending_slot(1) [OF s] _ _ pending_slot(2) [OF s]])
       (simp_all add: asked_slot_def)
  moreover have "cooldown_after (unat (mp_attempts p)) =
      (if mp_attempts p \<le> kFastRequestAttempts then kFastRequestCooldownMs else kRequestCooldownMs)"
    by (simp add: cooldown_after_def word_le_nat_alt kFastRequestAttempts_def kFastRequestCooldownMs_def kRequestCooldownMs_def)
  ultimately show "cooldown_after (unat (mp_attempts p)) \<le> nowMs - mp_lastRequestedMs p \<and>
      slot_get mp_used mp_sourceId (mc_pending s') sid =
        Some \<lparr>mp_used = True, mp_sourceId = sid, mp_bootId = boot, mp_lastRequestedMs = nowMs,
              mp_attempts = mp_attempts p + 1\<rparr>"
    using as p ip mem by (auto simp: asks_def s' asked_slot_def not_less)
qed

lemma chase_gaps:
  assumes "cache_inv s" "slot_get mp_used mp_sourceId (mc_pending s) sid = Some p"
    "unat (mp_attempts p) = n" "mp_lastRequestedMs p = prev" "n + length (chase_times sid cs s) < 2 ^ 32"
    "i < length (chase_times sid cs s)"
  shows "cooldown_after (n + i) \<le> chase_times sid cs s ! i - (if i = 0 then prev else chase_times sid cs s ! (i - 1))"
  using assms
proof (induction cs arbitrary: s p n prev i)
  case (Cons c cs)
  obtain boot nowMs where c: "c = (boot, nowMs)" by (cases c)
  obtain ask s' where r: "shouldRequestManifest sid boot nowMs s = (ask, s')"
    by (cases "shouldRequestManifest sid boot nowMs s")
  note f = chase_pending [OF Cons.prems(1,2) r]
  show ?case
  proof (cases ask)
    case False
    then have eq: "chase_times sid (c # cs) s = chase_times sid cs s" using f(2) r c by simp
    show ?thesis unfolding eq
      by (rule Cons.IH [OF Cons.prems(1,2,3,4)]) (use Cons.prems(5,6) eq in simp_all)
  next
    case True
    let ?p = "\<lparr>mp_used = True, mp_sourceId = sid, mp_bootId = boot, mp_lastRequestedMs = nowMs,
              mp_attempts = mp_attempts p + 1\<rparr>"
    note g = f(3) [OF True]
    have times: "chase_times sid (c # cs) s = nowMs # chase_times sid cs s'" using r c True by simp
    have "n + 1 < 2 ^ 32" using Cons.prems(5) unfolding times by simp
    then have n': "unat (mp_attempts ?p) = n + 1" using Cons.prems(3) by (simp add: unat_word_ariths)
    show ?thesis
    proof (cases i)
      case 0
      with g times Cons.prems(3,4) show ?thesis by simp
    next
      case (Suc k)
      have "cooldown_after (n + 1 + k) \<le> chase_times sid cs s' ! k - (if k = 0 then nowMs else chase_times sid cs s' ! (k - 1))"
        by (rule Cons.IH [OF f(1) g [THEN conjunct2] n'])
           (use Cons.prems(5,6) times Suc in auto)
      with times Suc show ?thesis by (cases k) auto
    qed
  qed
qed simp

lemma chase_first:
  assumes s: "cache_inv s" and none: "slot_get mp_used mp_sourceId (mc_pending s) sid = None"
    and r: "shouldRequestManifest sid boot nowMs s = (True, s')"
  shows "slot_get mp_used mp_sourceId (mc_pending s') sid =
    Some \<lparr>mp_used = True, mp_sourceId = sid, mp_bootId = boot, mp_lastRequestedMs = nowMs, mp_attempts = 1\<rparr>"
proof -
  let ?i = "findOrAllocatePending sid (mc_pending s)"
  let ?q = "asked_slot sid boot nowMs (mc_pending s ! ?i)"
  have inj: "one_per_key mp_used mp_sourceId (mc_pending s)" using s by (simp add: cache_inv_def)
  have s': "s' = s\<lparr>mc_pending := (mc_pending s)[?i := ?q]\<rparr>"
    using r by (auto simp: chase_result Let_def split: if_splits)
  have "slot_get mp_used mp_sourceId ((mc_pending s)[?i := ?q]) sid = Some ?q"
    by (rule writes_at_key(2) [OF inj pending_slot(1) [OF s] _ _ pending_slot(2) [OF s]])
       (simp_all add: asked_slot_def)
  moreover have "?q = \<lparr>mp_used = True, mp_sourceId = sid, mp_bootId = boot, mp_lastRequestedMs = nowMs, mp_attempts = 1\<rparr>"
    using pending_slot(4) [OF s none] by (auto simp: asked_slot_def)
  ultimately show ?thesis by (simp add: s')
qed

lemma chase_idle:
  "shouldRequestManifest sid boot nowMs s = (False, s') \<Longrightarrow> s' = s"
  by (auto simp: chase_result Let_def split: if_splits)

lemma chase_gaps_fresh:
  assumes "cache_inv s" "slot_get mp_used mp_sourceId (mc_pending s) sid = None"
    "length (chase_times sid cs s) < 2 ^ 32" "Suc i < length (chase_times sid cs s)"
  shows "cooldown_after (i + 1) \<le> chase_times sid cs s ! Suc i - chase_times sid cs s ! i"
  using assms
proof (induction cs arbitrary: s)
  case (Cons c cs)
  obtain boot nowMs where c: "c = (boot, nowMs)" by (cases c)
  obtain ask s' where r: "shouldRequestManifest sid boot nowMs s = (ask, s')"
    by (cases "shouldRequestManifest sid boot nowMs s")
  show ?case
  proof (cases ask)
    case False
    with r c chase_idle [of sid boot nowMs s s'] Cons show ?thesis by simp
  next
    case True
    have inv: "cache_inv s'" using chase_entries(1) [OF Cons.prems(1), of sid boot nowMs] r by simp
    have p: "slot_get mp_used mp_sourceId (mc_pending s') sid =
        Some \<lparr>mp_used = True, mp_sourceId = sid, mp_bootId = boot, mp_lastRequestedMs = nowMs, mp_attempts = 1\<rparr>"
      by (rule chase_first [OF Cons.prems(1,2)]) (use r True in simp)
    have times: "chase_times sid (c # cs) s = nowMs # chase_times sid cs s'" using r c True by simp
    show ?thesis
      using chase_gaps [OF inv p refl refl, of cs i] Cons.prems(3,4) unfolding times
      by (cases i) simp_all
  qed
qed simp

section \<open>Walking topic records\<close>

lemma u32_octets:
  "ucast (ucast v :: u8) OR push_bit 8 (ucast (ucast (drop_bit 8 v) :: u8)) OR
   push_bit 16 (ucast (ucast (drop_bit 16 v) :: u8)) OR push_bit 24 (ucast (ucast (drop_bit 24 v) :: u8)) = (v :: u32)"
proof (rule bit_word_eqI)
  fix n assume "n < LENGTH(32)"
  then consider "n < 8" | "8 \<le> n" "n < 16" | "16 \<le> n" "n < 24" | "24 \<le> n" "n < 32" by fastforce
  then show "bit ((ucast (ucast v :: u8) :: u32) OR push_bit 8 (ucast (ucast (drop_bit 8 v) :: u8)) OR
     push_bit 16 (ucast (ucast (drop_bit 16 v) :: u8)) OR push_bit 24 (ucast (ucast (drop_bit 24 v) :: u8))) n = bit v n"
    by cases (simp_all add: bit_simps less_diff_conv2)
qed

lemma read_u32_append:
  "length pre = i \<Longrightarrow> read_u32_le (pre @ u32_le v @ post) i = v"
  by (simp add: read_u32_le_def u32_le_def nth_append u32_octets)

lemma read_u16_append:
  "length pre = i \<Longrightarrow> read_u16_le (pre @ u16_le v @ post) i = v"
  by (simp add: read_u16_le_def u16_le_def nth_append, rule bit_word_eqI)
     (auto simp: bit_simps dest: bit_imp_le_length)

text \<open>The content of a topic record as far as the walk reads it.\<close>

definition topic_head :: "u16 \<times> bytes \<times> u32 \<times> bytes \<Rightarrow> bytes" where
  "topic_head t = (case t of (tid, mid, rate, post) \<Rightarrow> u16_le tid @ mid @ u32_le rate @ post)"

definition head_ok :: "u16 \<times> bytes \<times> u32 \<times> bytes \<Rightarrow> bool" where
  "head_ok t \<longleftrightarrow> (case t of (tid, mid, rate, post) \<Rightarrow> length mid = 6)"

definition topic_run :: "(u16 \<times> bytes \<times> u32 \<times> bytes) list \<Rightarrow> bytes" where
  "topic_run ts = concat (map (\<lambda>t. sized (topic_head t)) ts)"

fun first_rate :: "u16 \<Rightarrow> (u16 \<times> bytes \<times> u32 \<times> bytes) list \<Rightarrow> u32 option" where
  "first_rate tid [] = None"
| "first_rate tid ((t, mid, rate, post) # ts) = (if t = tid then Some rate else first_rate tid ts)"

lemma rate_walk_step:
  assumes "read_u32_le recs pos = v" "read_u16_le recs (pos + 4) = i" "read_u32_le recs (pos + 4 + 8) = rate"
    "unat v = n" "12 \<le> n" "pos + (4 + n) \<le> m" "m \<le> 4096"
  shows "rate_walk recs m tid pos (Suc k) = (if i = tid then Some rate else rate_walk recs m tid (pos + (4 + n)) k)"
proof -
  have "\<not> v < 12" using assms(4,5) by (simp add: word_less_nat_alt)
  moreover have "(4 + n) mod 2 ^ 32 = 4 + n" "(pos + (4 + n)) mod 2 ^ 32 = pos + (4 + n)"
    "(pos + 4) mod 2 ^ 32 = pos + 4" "\<not> pos + 4 > m" "\<not> pos + (4 + n) > m"
    using assms(6,7) by simp_all
  ultimately show ?thesis
    unfolding rate_walk.simps assms(1-4) Let_def by simp
qed

lemma rate_walk_run:
  "\<forall>t\<in>set ts. head_ok t \<Longrightarrow> n = length pre + length (topic_run ts) \<Longrightarrow> n \<le> m \<Longrightarrow> m \<le> 4096 \<Longrightarrow>
   rate_walk (pre @ topic_run ts @ behind) m tid (length pre) (length ts) = first_rate tid ts"
proof (induction ts arbitrary: pre)
  case (Cons t ts)
  obtain i mid rate post where t: "t = (i, mid, rate, post)" by (cases t)
  then have mid: "length mid = 6" using Cons.prems(1) by (simp add: head_ok_def)
  let ?c = "topic_head t" and ?recs = "pre @ topic_run (t # ts) @ behind"
  let ?len = "12 + length post"
  have c: "?c = u16_le i @ mid @ u32_le rate @ post" by (simp add: t topic_head_def)
  then have lc: "length ?c = ?len" using mid by simp
  have run: "topic_run (t # ts) = u32_le (of_nat ?len) @ ?c @ topic_run ts"
    using lc by (simp add: topic_run_def sized_def)
  have fit: "length pre + 4 + ?len \<le> m" using Cons.prems(2,3) by (simp add: run lc)
  then have small: "?len < 4096" using Cons.prems(4) by simp
  have sz: "read_u32_le ?recs (length pre) = of_nat ?len"
    by (simp add: run read_u32_append)
  have un: "unat (of_nat ?len :: u32) = ?len"
    using small by (simp add: unat_of_nat take_bit_eq_mod del: of_nat_add)
  have id: "read_u16_le ?recs (length pre + 4) = i"
    using read_u16_append [of "pre @ u32_le (of_nat ?len)" "length pre + 4" i "mid @ u32_le rate @ post @ topic_run ts @ behind"]
    by (simp add: run c)
  have rt: "read_u32_le ?recs (length pre + 4 + 8) = rate"
    using read_u32_append [of "pre @ u32_le (of_nat ?len) @ u16_le i @ mid" "length pre + 4 + 8" rate "post @ topic_run ts @ behind"] mid
    by (simp add: run c)
  have IH: "rate_walk ((pre @ u32_le (of_nat ?len) @ ?c) @ topic_run ts @ behind) m tid
      (length (pre @ u32_le (of_nat ?len) @ ?c)) (length ts) = first_rate tid ts"
    by (rule Cons.IH) (use Cons.prems in \<open>simp_all add: run\<close>)
  have "rate_walk ?recs m tid (length pre) (Suc (length ts)) =
      (if i = tid then Some rate else rate_walk ?recs m tid (length pre + (4 + ?len)) (length ts))"
    by (rule rate_walk_step [OF sz id rt un]) (use fit Cons.prems(4) in simp_all)
  note step = this
  have e: "length pre + (4 + ?len) = length (pre @ u32_le (of_nat ?len) @ ?c)" by (simp add: lc)
  have e2: "?recs = (pre @ u32_le (of_nat ?len) @ ?c) @ topic_run ts @ behind" by (simp add: run)
  have tail: "rate_walk ?recs m tid (length pre + (4 + ?len)) (length ts) = first_rate tid ts"
    unfolding e e2 by (rule IH)
  have "first_rate tid (t # ts) = (if i = tid then Some rate else first_rate tid ts)" by (simp add: t)
  with step tail show ?case by (simp only: length_Cons)
qed simp

lemma hub_record_run:
  "hub_record_bytes = topic_run (map (\<lambda>t. (td_topicId t,
      u16_le kSchemaVersion @ [kEncodingPackedLe, kTopicFlagSubscribable] @ u16_le (of_nat (length (td_fields t))),
      td_maxRateMillihz t, drop 12 (topic_content t))) kTopics)"
  by (simp add: hub_record_bytes_def topic_run_def comp_def topic_head_def topic_content_def sized_def)

section \<open>The information block\<close>

text \<open>A reader of the block: the count, then that many triples of sized texts.\<close>

definition read_text :: "bytes \<Rightarrow> (bytes \<times> bytes) option" where
  "read_text bs =
     (if length bs < 2 then None
      else (let n = le_nat (take 2 bs) in
            if length bs < 2 + n then None else Some (take n (drop 2 bs), drop (2 + n) bs)))"

fun read_triples :: "nat \<Rightarrow> bytes \<Rightarrow> (bytes \<times> bytes \<times> bytes) list option" where
  "read_triples 0 bs = (if bs = [] then Some [] else None)"
| "read_triples (Suc n) bs =
     (case read_text bs of None \<Rightarrow> None
      | Some (k, b1) \<Rightarrow> (case read_text b1 of None \<Rightarrow> None
      | Some (l, b2) \<Rightarrow> (case read_text b2 of None \<Rightarrow> None
      | Some (v, b3) \<Rightarrow> map_option ((#) (k, l, v)) (read_triples n b3))))"

definition read_block :: "bytes \<Rightarrow> (bytes \<times> bytes \<times> bytes) list option" where
  "read_block bs = (if length bs < 2 then None else read_triples (le_nat (take 2 bs)) (drop 2 bs))"

definition has_value :: "info_entry \<Rightarrow> bool" where
  "has_value e \<longleftrightarrow> utf8_bytes (snd (snd e)) \<noteq> []"

definition info_texts :: "info_entry \<Rightarrow> bytes \<times> bytes \<times> bytes" where
  "info_texts e = (utf8_bytes (fst e), utf8_bytes (fst (snd e)), utf8_bytes (snd (snd e)))"

definition text_bytes :: "bytes \<Rightarrow> bytes" where
  "text_bytes b = u16_le (of_nat (length b)) @ b"

definition triple_bytes :: "bytes \<times> bytes \<times> bytes \<Rightarrow> bytes" where
  "triple_bytes t = (case t of (k, l, v) \<Rightarrow> text_bytes k @ text_bytes l @ text_bytes v)"

definition texts_ok :: "info_entry \<Rightarrow> bool" where
  "texts_ok e \<longleftrightarrow> (case info_texts e of (k, l, v) \<Rightarrow> length k \<le> 0xFFFF \<and> length l \<le> 0xFFFF \<and> length v \<le> 0xFFFF)"

lemma read_text_bytes: "length b \<le> 0xFFFF \<Longrightarrow> read_text (text_bytes b @ rest) = Some (b, rest)"
  by (simp add: read_text_def text_bytes_def le_nat_u16 unat_u16_small Let_def)

lemma read_triples_bytes:
  "\<forall>e\<in>set es. texts_ok e \<Longrightarrow>
   read_triples (length es) (concat (map (triple_bytes \<circ> info_texts) es)) = Some (map info_texts es)"
proof (induction es)
  case (Cons e es)
  obtain k l v where t: "info_texts e = (k, l, v)" by (cases "info_texts e")
  then have "length k \<le> 0xFFFF" "length l \<le> 0xFFFF" "length v \<le> 0xFFFF"
    using Cons.prems by (auto simp: texts_ok_def)
  with Cons t show ?case by (simp add: triple_bytes_def read_text_bytes)
qed simp

lemma emits_entry:
  assumes "texts_ok e"
  shows "emits (wr_all [put_utf8 (fst e), put_utf8 (fst (snd e)), put_utf8 (snd (snd e))]) (triple_bytes (info_texts e))"
proof -
  have "emits (wr_all [put_utf8 (fst e), put_utf8 (fst (snd e)), put_utf8 (snd (snd e))])
      (concat [text_bytes (utf8_bytes (fst e)), text_bytes (utf8_bytes (fst (snd e))), text_bytes (utf8_bytes (snd (snd e)))])"
    by (rule emits_wr_all) (use assms in \<open>simp add: texts_ok_def info_texts_def text_bytes_def emits_utf8\<close>)
  then show ?thesis by (simp add: triple_bytes_def info_texts_def)
qed

lemma info_loop_emits:
  "wr_inv w \<Longrightarrow> \<forall>e\<in>set es. texts_ok e \<Longrightarrow> unat n + length (filter has_value es) < 0xFFFF \<Longrightarrow>
   (let bs = concat (map (triple_bytes \<circ> info_texts) (filter has_value es)) in
    if wr_pos w + length bs \<le> wr_capacity w
    then info_loop es n w = (True, n + of_nat (length (filter has_value es)), advance bs w)
    else \<not> fst (info_loop es n w))"
proof (induction es arbitrary: n w)
  case Nil
  then show ?case using emits_True [OF Nil(1) emits_Nil] by (simp add: wr_inv_def)
next
  case (Cons e es)
  obtain key label val where e: "e = (key, label, val)" by (cases e)
  have n: "n < 0xFFFF" using Cons.prems(3) by (simp add: word_less_nat_alt)
  show ?case
  proof (cases "has_value e")
    case False
    then have "info_loop (e # es) n w = info_loop es n w"
      using n by (auto simp: e has_value_def utf8_bytes_def split: option.splits)
    with Cons.IH [OF Cons.prems(1), of n] Cons.prems False show ?thesis by (simp add: Let_def)
  next
    case True
    let ?b = "triple_bytes (info_texts e)"
    have em: "emits (wr_all [put_utf8 key, put_utf8 label, put_utf8 val]) ?b"
      using emits_entry [of e] Cons.prems(2) by (simp add: e)
    have step: "info_loop (e # es) n w = (case wr_all [put_utf8 key, put_utf8 label, put_utf8 val] w of
        (ok, w') \<Rightarrow> if \<not> ok then (False, n, w') else info_loop es (n + 1) w')"
      using n True by (auto simp: e has_value_def utf8_bytes_def simp del: wr_all.simps split: option.splits)
    show ?thesis
    proof (cases "wr_pos w + length ?b \<le> wr_capacity w")
      case False
      with em Cons.prems(1) have "\<not> fst (wr_all [put_utf8 key, put_utf8 label, put_utf8 val] w)"
        by (auto simp: emits_def simp del: wr_all.simps)
      with step False True show ?thesis
        by (auto simp: Let_def simp del: wr_all.simps info_loop.simps split: prod.splits)
    next
      case fit: True
      have adv: "wr_all [put_utf8 key, put_utf8 label, put_utf8 val] w = (True, advance ?b w)"
        by (rule emits_True [OF Cons.prems(1) em fit])
      have "unat (n + 1) = unat n + 1" using Cons.prems(3) by (simp add: unat_word_ariths)
      with Cons.IH [OF advance_inv [OF Cons.prems(1) fit], of "n + 1"] Cons.prems True
      show ?thesis unfolding step adv
        by (auto simp: Let_def advance_append [OF Cons.prems(1) fit] add.assoc simp del: info_loop.simps)
    qed
  qed
qed

section \<open>Two consequences at the edges\<close>

text \<open>A manifest whose information block is over the budget is rejected as a whole.\<close>

lemma oversized_info_rejected:
  "kMaxSourceInfoBytes < length info \<Longrightarrow>
   ingestManifestDataImpl (reads (h, info, topics, actions)) p nowMs s = (False, s)"
  by (auto simp: ingestManifestDataImpl_def reads_def kMaxSourceInfoBytes_def Let_def)

text \<open>The eviction compares time stamps as plain numbers: the source that is forgotten has the
  numerically smallest one, which after the clock rolled over is the one heard last.\<close>

lemma eviction_takes_smallest_stamp:
  assumes s: "cache_inv s" and d: "full_ok (h, info, topics, actions)"
    and k: "slot_get me_used me_sourceId (mc_entries s) k = Some e"
    and gone: "slot_get me_used me_sourceId
      (mc_entries (snd (ingestManifestDataImpl (reads (h, info, topics, actions)) p nowMs s))) k = None"
  shows "\<forall>e'\<in>set (mc_entries s). me_used e' \<and> me_lastSeenMs e \<le> me_lastSeenMs e'"
proof -
  let ?sid = "mh_described_source_id h"
  obtain i e' where r: "mc_entries (snd (ingestManifestDataImpl (reads (h, info, topics, actions)) p nowMs s)) = (mc_entries s)[i := e']"
    and i: "i < length (mc_entries s)" and e: "me_used e'" "me_sourceId e' = ?sid"
    and at: "(me_used (mc_entries s ! i) \<and> me_sourceId (mc_entries s ! i) = ?sid) \<or>
     slot_get me_used me_sourceId (mc_entries s) ?sid = None \<and>
     (me_used (mc_entries s ! i) \<longrightarrow> (\<forall>e\<in>set (mc_entries s). me_used e \<and> me_lastSeenMs (mc_entries s ! i) \<le> me_lastSeenMs e))"
    by (rule ingest_full [OF s d, of p nowMs]) auto
  have inj: "one_per_key me_used me_sourceId (mc_entries s)" using s by (simp add: cache_inv_def)
  have at': "(me_used (mc_entries s ! i) \<and> me_sourceId (mc_entries s ! i) = ?sid) \<or>
     slot_get me_used me_sourceId (mc_entries s) ?sid = None" using at by auto
  note w = writes_at_key [OF inj i e at']
  have ne: "k \<noteq> ?sid" using w(2) gone r by auto
  with w(3) [of k] gone k r have here: "me_used (mc_entries s ! i)" "me_sourceId (mc_entries s ! i) = k"
    by (auto split: if_splits)
  then have "e = mc_entries s ! i" using slot_get_SomeI [OF inj i] k by simp
  with here at ne show ?thesis by auto
qed

section \<open>Properties\<close>

text \<open>C6. The cache is a faithful, bounded memory of manifests. After any history of MANIFEST_DATA
  payloads (malformed, rejected, full or NOT_MODIFIED) and chase decisions from boot, and for any
  decoder, what it tells of a source is exactly what the accepted messages of that source said, or
  nothing because it was evicted; no field of an evicted source shows through, and nothing is
  evicted while at most eight sources were described.\<close>

theorem cache_tells_last_manifest:
  "cached (fold (manifest_exec ops) evs cache_reset) sid \<in> {None, fold (manifest_spec ops) evs Map.empty sid} \<and>
   (card (dom (fold (manifest_spec ops) evs Map.empty)) \<le> kCapacity \<longrightarrow>
      cached (fold (manifest_exec ops) evs cache_reset) sid = fold (manifest_spec ops) evs Map.empty sid)"
proof -
  have "cached (fold (manifest_exec ops) evs cache_reset) \<subseteq>\<^sub>m fold (manifest_spec ops) evs Map.empty"
    by (rule manifest_run_sound [OF cache_inv_reset]) (simp add: cached_reset)
  then have "cached (fold (manifest_exec ops) evs cache_reset) sid \<in> {None, fold (manifest_spec ops) evs Map.empty sid}"
    by (rule map_le_cases)
  then show ?thesis
    using manifest_run_complete [OF cache_inv_reset cached_reset, of ops evs] by simp
qed

definition robot_header :: "u32 \<Rightarrow> u32 \<Rightarrow> manifest_header" where
  "robot_header sid boot = \<lparr>mh_request_source_id = 1, mh_request_boot_id = 1, mh_reply_to_sequence = 1,
     mh_status = 0, mh_flags = 0, mh_error_code = 0, mh_manifest_format_version = 3, mh_config_revision = 5,
     mh_source_uuid = replicate 16 7, mh_described_source_id = sid, mh_described_boot_id = boot,
     mh_source_role = 1, mh_source_flags = 1, mh_catalog_index = 0, mh_catalog_count = 1,
     mh_topic_count = 0, mh_action_count = 0, mh_source_name = [0x72, 0x31]\<rparr>"

lemma robot_ok: "sid \<noteq> 0 \<Longrightarrow> boot \<noteq> 0 \<Longrightarrow> full_ok (robot_header sid boot, [], [], [])"
  by (simp add: full_ok_def robot_header_def not_modified_def kStatusSuccess_def)

theorem cache_tells_last_manifest_witness:
  "cached (fold (manifest_exec (reads (robot_header 7 9, [], [], []))) [ManifestMsg [] 100, ManifestChase 8 3 120] cache_reset) 7 =
   Some (description_of (robot_header 7 9, [], [], []))"
proof -
  have "decoded_of (reads (robot_header 7 9, [], [], [])) [] = Some (robot_header 7 9, [], [], [])"
    by (simp add: decoded_of_def reads_def)
  then have sp: "fold (manifest_spec (reads (robot_header 7 9, [], [], []))) [ManifestMsg [] 100, ManifestChase 8 3 120] Map.empty =
      [7 \<mapsto> description_of (robot_header 7 9, [], [], [])]"
    using robot_ok [of 7 9] by (simp add: Let_def) (simp add: robot_header_def)
  show ?thesis
    using cache_tells_last_manifest [of "reads (robot_header 7 9, [], [], [])"
        "[ManifestMsg [] 100, ManifestChase 8 3 120]" 7]
    unfolding sp by (simp add: kCapacity_def)
qed


lemma chase_run_example:
  "chase_times 7 [(1, 0), (2, 500), (2, 1000), (3, 2000), (4, 3000), (5, 4000), (6, 6000)] cache_reset =
   [0, 1000, 2000, 3000, 6000]"
  by code_simp


text \<open>An enumeration lists every cached source exactly once, in ascending order of source id: after
  any history the sorted entries are strictly ascending, are the used entries, describe what the
  cache tells of each source, and with the dongle itself make up the announced count.\<close>

theorem enumeration_sorted_complete:
  fixes ops evs defines "s \<equiv> fold (manifest_exec ops) evs cache_reset"
  shows "let es = collectSortedEntries (mc_entries s) in
    sorted_wrt (<) (map me_sourceId es) \<and> 1 + length es = enumerationCount s \<and>
    cached s sid = map_option describe (find (\<lambda>e. me_sourceId e = sid) es)"
proof -
  let ?es = "collectSortedEntries (mc_entries s)"
  have s: "cache_inv s" unfolding s_def by (rule manifest_run_inv [OF cache_inv_reset])
  have so: "sorted (map me_sourceId ?es)" and ms: "mset ?es = mset (filter me_used (mc_entries s))"
    using collectSorted_facts [of "mc_entries s"] by auto
  have inj: "one_per_key me_used me_sourceId (mc_entries s)" using s by (simp add: cache_inv_def)
  have "mset (map me_sourceId ?es) = mset (map me_sourceId (filter me_used (mc_entries s)))" using ms by simp
  then have di: "distinct (map me_sourceId ?es)"
    using inj unfolding one_per_key_def by (metis mset_eq_imp_distinct_iff)
  have st: "sorted_wrt (<) (map me_sourceId ?es)" using so di by (simp add: strict_sorted_iff)
  have len: "1 + length ?es = enumerationCount s"
    unfolding enumerationCount_def by (metis ms size_mset)
  have se: "set ?es = {e \<in> set (mc_entries s). me_used e}" using ms by (metis set_filter set_mset_mset)
  have "cached s sid = map_option describe (find (\<lambda>e. me_sourceId e = sid) ?es)"
  proof (cases "slot_get me_used me_sourceId (mc_entries s) sid")
    case None
    then have "\<forall>e\<in>set ?es. me_sourceId e \<noteq> sid"
      using se by (auto simp: slot_get_None in_set_conv_nth)
    then have "find (\<lambda>e. me_sourceId e = sid) ?es = None" by (simp add: find_None_iff)
    with None show ?thesis by (simp add: cached_def)
  next
    case (Some e)
    then have e: "e \<in> set ?es" "me_sourceId e = sid" using se slot_get_mem [OF Some] by auto
    then obtain e' where f: "find (\<lambda>e. me_sourceId e = sid) ?es = Some e'"
      using find_None_iff [of "\<lambda>e. me_sourceId e = sid" ?es] by (cases "find (\<lambda>e. me_sourceId e = sid) ?es") auto
    then have "e' \<in> set ?es" "me_sourceId e' = sid" by (auto simp: find_Some_iff)
    with e di have "e' = e" by (metis distinct_map inj_onD)
    with Some f show ?thesis by (simp add: cached_def)
  qed
  with st len show ?thesis by (simp add: Let_def)
qed

text \<open>The rate a topic may be subscribed at is read correctly from the verbatim records: over any
  run of well-framed topic records the walk finds the rate of the first record of that topic or
  none; in particular the records the dongle serves for itself say exactly what its own table does.\<close>

theorem rate_lookup_agrees_with_records:
  assumes "\<forall>t\<in>set ts. head_ok t" and "length (topic_run ts) \<le> kMaxRecordsBytes"
  shows "rate_walk (topic_run ts @ behind) (length (topic_run ts)) tid 0 (length ts) = first_rate tid ts \<and>
    rate_walk (fst (fst (topicRecords records_init))) (fst (snd (fst (topicRecords records_init)))) tid 0
      (unat (snd (snd (fst (topicRecords records_init))))) = hub_lookupTopicMaxRateMillihz tid False"
proof
  show "rate_walk (topic_run ts @ behind) (length (topic_run ts)) tid 0 (length ts) = first_rate tid ts"
    using rate_walk_run [of ts "length (topic_run ts)" "[]" "length (topic_run ts)" behind tid] assms
    by (simp add: kMaxRecordsBytes_def del: rate_walk.simps)
  let ?hs = "map (\<lambda>t. (td_topicId t,
      u16_le kSchemaVersion @ [kEncodingPackedLe, kTopicFlagSubscribable] @ u16_le (of_nat (length (td_fields t))),
      td_maxRateMillihz t, drop 12 (topic_content t))) kTopics"
  have r: "topicRecords records_init =
    ((hub_record_bytes @ drop 1741 (rc_records records_init), 1741, 3),
     \<lparr>rc_records = hub_record_bytes @ drop 1741 (rc_records records_init), rc_recordsSize = 1741,
      rc_recordsTopicCount = 3, rc_recordsBuilt = True\<rparr>)"
    by (rule topicRecords_bytes) (simp_all add: records_init_def)
  have "rate_walk (hub_record_bytes @ drop 1741 (rc_records records_init)) 1741 tid 0 (length ?hs) = first_rate tid ?hs"
    using rate_walk_run [of ?hs 1741 "[]" 1741 "drop 1741 (rc_records records_init)" tid] length_hub_record_bytes
    unfolding hub_record_run [symmetric] by (simp add: head_ok_def del: rate_walk.simps)
  moreover have "length ?hs = 3" by (simp add: kTopics_def)
  moreover have "first_rate tid ?hs = hub_lookupTopicMaxRateMillihz tid False"
    by (simp add: hub_lookupTopicMaxRateMillihz_def kTopics_def topic_desc.make_def)
  ultimately show "rate_walk (fst (fst (topicRecords records_init))) (fst (snd (fst (topicRecords records_init)))) tid 0
      (unat (snd (snd (fst (topicRecords records_init))))) = hub_lookupTopicMaxRateMillihz tid False"
    by (simp add: r del: rate_walk.simps)
qed

theorem rate_lookup_agrees_with_records_witness:
  "let ts = [(3, replicate 6 0, 5000, [1]), (4, replicate 6 0, 2000, [])] in
   rate_walk (topic_run ts @ [9, 9]) (length (topic_run ts)) 4 0 2 = Some 2000"
proof -
  let ?ts = "[(3, replicate 6 0, 5000, [1]), (4, replicate 6 0, 2000, [])]"
  have "\<forall>t\<in>set ?ts. head_ok t" "length (topic_run ?ts) \<le> kMaxRecordsBytes"
    by (simp_all add: head_ok_def topic_run_def topic_head_def kMaxRecordsBytes_def)
  note rates = rate_lookup_agrees_with_records [OF this, of "[9, 9]" 4, THEN conjunct1]
  have two: "length ?ts = 2" by simp
  from rates show ?thesis unfolding two
    by (simp add: Let_def del: rate_walk.simps)
qed

text \<open>The dongle's own information block is readable: the octets written decode to exactly the
  entries that have a value, in order, and the writer fails only when they do not fit.\<close>

theorem info_block_round_trip:
  assumes "\<forall>e\<in>set es. texts_ok e" and "length es < 0xFFFF" and "2 \<le> length buf"
  shows "let bs = concat (map (triple_bytes \<circ> info_texts) (filter has_value es));
             (n, out) = serializeSourceInfo (Some es) buf
         in if 2 + length bs \<le> length buf
            then n = 2 + length bs \<and> read_block (take n out) = Some (map info_texts (filter has_value es))
            else n = 0"
proof -
  let ?vs = "filter has_value es"
  let ?bs = "concat (map (triple_bytes \<circ> info_texts) ?vs)"
  let ?w0 = "writer_on buf"
  have w0: "wr_inv ?w0" by (simp add: wr_inv_def writer_on_def)
  have p: "put_u16 0 ?w0 = (True, advance (u16_le 0) ?w0)"
    by (rule emits_True [OF w0 emits_puts(2)]) (use assms(3) in \<open>simp add: writer_on_def\<close>)
  have w1: "wr_inv (advance (u16_le 0) ?w0)"
    by (rule advance_inv [OF w0]) (use assms(3) in \<open>simp add: writer_on_def\<close>)
  have vs: "length ?vs < 0xFFFF" by (rule le_less_trans [OF length_filter_le assms(2)])
  have cap: "wr_pos (advance (u16_le 0) ?w0) = 2" "wr_capacity (advance (u16_le 0) ?w0) = length buf"
    by (simp_all add: writer_on_def)
  note loop = info_loop_emits [OF w1 assms(1), of 0, unfolded cap Let_def]
  show ?thesis
  proof (cases "2 + length ?bs \<le> length buf")
    case False
    with loop vs p show ?thesis
      by (auto simp: serializeSourceInfo_def Let_def split: prod.splits)
  next
    case True
    let ?n = "of_nat (length ?vs) :: u16"
    have "patch 0 (u16_le ?n) (advance (u16_le 0 @ ?bs) ?w0) = advance (u16_le ?n @ ?bs) ?w0"
      using patch_reserved [OF w0, of "u16_le 0" ?bs "u16_le ?n"] True by (simp add: writer_on_def)
    then have "serializeSourceInfo (Some es) buf = (2 + length ?bs, u16_le ?n @ ?bs @ drop (2 + length ?bs) buf)"
      using loop vs p True advance_append [OF w0, of "u16_le 0" ?bs] assms(3)
      by (simp add: serializeSourceInfo_def Let_def patchU16_def) (simp add: writer_on_def advance_def)
    moreover have "read_block (u16_le ?n @ ?bs) = Some (map info_texts ?vs)"
      using read_triples_bytes [of ?vs] assms(1) vs by (simp add: read_block_def le_nat_u16 unat_u16_small)
    ultimately show ?thesis using True by (simp add: Let_def)
  qed
qed

theorem info_block_round_trip_witness:
  "let es = [(Some ''fw'', Some ''Firmware'', Some ''1.2''), (Some ''x'', None, Some '''')];
       (n, out) = serializeSourceInfo (Some es) (replicate 64 0)
   in read_block (take n out) = Some (map info_texts [(Some ''fw'', Some ''Firmware'', Some ''1.2'')])"
proof -
  let ?es = "[(Some ''fw'', Some ''Firmware'', Some ''1.2''), (Some ''x'', None, Some '''')]"
  have "\<forall>e\<in>set ?es. texts_ok e" by (simp add: texts_ok_def info_texts_def utf8_bytes_def length_cstr)
  moreover have "filter has_value ?es = [(Some ''fw'', Some ''Firmware'', Some ''1.2'')]"
    by (simp add: has_value_def utf8_bytes_def cstr_def)
  moreover have "length (triple_bytes (info_texts (Some ''fw'', Some ''Firmware'', Some ''1.2''))) = 19"
    by (simp add: triple_bytes_def info_texts_def utf8_bytes_def text_bytes_def length_cstr)
  ultimately have x: "\<forall>e\<in>set ?es. texts_ok e" "filter has_value ?es = [(Some ''fw'', Some ''Firmware'', Some ''1.2'')]"
    "length (triple_bytes (info_texts (Some ''fw'', Some ''Firmware'', Some ''1.2''))) = 19" by simp_all
  obtain n out where so: "serializeSourceInfo (Some ?es) (replicate 64 0) = (n, out)"
    by (cases "serializeSourceInfo (Some ?es) (replicate 64 0)")
  from info_block_round_trip [OF x(1), of "replicate 64 0", unfolded x(2) so Let_def prod.case] x(3) show ?thesis
    unfolding Let_def so by auto
qed
end
