(* ===== verification/Key_Store.thy ===== *)
theory Key_Store
  imports Dongle_Prelude "HOL-Library.Monad_Syntax"
begin

text \<open>
  The model of lib/DongleKeyStore: the self-contained SHA-256, HMAC-SHA256 and
  PBKDF2-HMAC-SHA256 of DongleKeyStore.cpp, the derivation of key L from the operator's
  password, and the key holder with its two persistence back ends.

  A C array is a list of its declared length. \<open>sha256_finish\<close> pads with a loop that looks for
  a fill level of 56 octets; the loop is a partial function, so that not returning is \<open>None\<close>,
  and every caller threads that option. The NVS libraries (ESP-IDF nvs_*, Arduino
  Preferences) are records of functions on a world of the caller's choice.
\<close>

unbundle bit_operations_syntax

section \<open>SHA-256\<close>

definition kShaDigestSize :: nat where "kShaDigestSize = 32"
definition kShaBlockSize :: nat where "kShaBlockSize = 64"

definition kShaRoundConstants :: "u32 list" where
  "kShaRoundConstants =
    [0x428A2F98, 0x71374491, 0xB5C0FBCF, 0xE9B5DBA5,
     0x3956C25B, 0x59F111F1, 0x923F82A4, 0xAB1C5ED5,
     0xD807AA98, 0x12835B01, 0x243185BE, 0x550C7DC3,
     0x72BE5D74, 0x80DEB1FE, 0x9BDC06A7, 0xC19BF174,
     0xE49B69C1, 0xEFBE4786, 0x0FC19DC6, 0x240CA1CC,
     0x2DE92C6F, 0x4A7484AA, 0x5CB0A9DC, 0x76F988DA,
     0x983E5152, 0xA831C66D, 0xB00327C8, 0xBF597FC7,
     0xC6E00BF3, 0xD5A79147, 0x06CA6351, 0x14292967,
     0x27B70A85, 0x2E1B2138, 0x4D2C6DFC, 0x53380D13,
     0x650A7354, 0x766A0ABB, 0x81C2C92E, 0x92722C85,
     0xA2BFE8A1, 0xA81A664B, 0xC24B8B70, 0xC76C51A3,
     0xD192E819, 0xD6990624, 0xF40E3585, 0x106AA070,
     0x19A4C116, 0x1E376C08, 0x2748774C, 0x34B0BCB5,
     0x391C0CB3, 0x4ED8AA4A, 0x5B9CCA4F, 0x682E6FF3,
     0x748F82EE, 0x78A5636F, 0x84C87814, 0x8CC70208,
     0x90BEFFFA, 0xA4506CEB, 0xBEF9A3F7, 0xC67178F2]"

definition rotate_right :: "u32 \<Rightarrow> nat \<Rightarrow> u32" where
  "rotate_right value bits = (drop_bit bits value OR push_bit (32 - bits) value)"

record sha256 =
  sha_state :: "u32 list"
  sha_block :: bytes
  sha_pending :: nat
  sha_total :: u64

definition Sha256 :: sha256 where
  "Sha256 = \<lparr>sha_state = [0x6A09E667, 0xBB67AE85, 0x3C6EF372, 0xA54FF53A,
                         0x510E527F, 0x9B05688C, 0x1F83D9AB, 0x5BE0CD19],
             sha_block = replicate 64 0, sha_pending = 0, sha_total = 0\<rparr>"

text \<open>The first sixteen words of the schedule, then the loop that extends it in place.\<close>

definition block_word :: "bytes \<Rightarrow> nat \<Rightarrow> u32" where
  "block_word block i =
     (push_bit 24 (ucast (block ! (i * 4))) OR push_bit 16 (ucast (block ! (i * 4 + 1))) OR
      push_bit 8 (ucast (block ! (i * 4 + 2))) OR ucast (block ! (i * 4 + 3)))"

definition extend_word :: "nat \<Rightarrow> u32 list \<Rightarrow> u32 list" where
  "extend_word i w =
     (let s0 = rotate_right (w ! (i - 15)) 7 XOR rotate_right (w ! (i - 15)) 18 XOR drop_bit 3 (w ! (i - 15));
          s1 = rotate_right (w ! (i - 2)) 17 XOR rotate_right (w ! (i - 2)) 19 XOR drop_bit 10 (w ! (i - 2))
      in w[i := w ! (i - 16) + s0 + w ! (i - 7) + s1])"

definition schedule :: "bytes \<Rightarrow> u32 list" where
  "schedule block =
     fold extend_word [16..<64] (fold (\<lambda>i w. w[i := block_word block i]) [0..<16] (replicate 64 0))"

type_synonym regs = "u32 \<times> u32 \<times> u32 \<times> u32 \<times> u32 \<times> u32 \<times> u32 \<times> u32"

definition sha_round :: "u32 list \<Rightarrow> nat \<Rightarrow> regs \<Rightarrow> regs" where
  "sha_round w i = (\<lambda>(a, b, c, d, e, f, g, h).
     let sigma1 = rotate_right e 6 XOR rotate_right e 11 XOR rotate_right e 25;
         chosen = (e AND f) XOR (NOT e AND g);
         t1 = h + sigma1 + chosen + kShaRoundConstants ! i + w ! i;
         sigma0 = rotate_right a 2 XOR rotate_right a 13 XOR rotate_right a 22;
         majority = (a AND b) XOR (a AND c) XOR (b AND c);
         t2 = sigma0 + majority
     in (t1 + t2, a, b, c, d + t1, e, f, g))"

definition sha256_compress :: "sha256 \<Rightarrow> sha256" where
  "sha256_compress sha =
     (let w = schedule (sha_block sha);
          st = sha_state sha;
          (a, b, c, d, e, f, g, h) = fold (sha_round w) [0..<64]
             (st ! 0, st ! 1, st ! 2, st ! 3, st ! 4, st ! 5, st ! 6, st ! 7)
      in sha\<lparr>sha_state := [st ! 0 + a, st ! 1 + b, st ! 2 + c, st ! 3 + d,
                          st ! 4 + e, st ! 5 + f, st ! 6 + g, st ! 7 + h]\<rparr>)"

definition sha256_octet :: "u8 \<Rightarrow> sha256 \<Rightarrow> sha256" where
  "sha256_octet b sha =
     (let sha = sha\<lparr>sha_block := (sha_block sha)[sha_pending sha := b], sha_pending := sha_pending sha + 1\<rparr>
      in if sha_pending sha = kShaBlockSize then (sha256_compress sha)\<lparr>sha_pending := 0\<rparr> else sha)"

definition sha256_update :: "sha256 \<Rightarrow> bytes \<Rightarrow> sha256" where
  "sha256_update sha data =
     fold sha256_octet data (sha\<lparr>sha_total := sha_total sha + of_nat (length data)\<rparr>)"

text \<open>\<open>while (sha.pending != kShaBlockSize - 8U) sha256_update(sha, &zero, 1U);\<close>\<close>

partial_function (option) pad_loop :: "sha256 \<Rightarrow> sha256 option" where
  "pad_loop sha =
     (if sha_pending sha = kShaBlockSize - 8 then Some sha else pad_loop (sha256_update sha [0]))"

declare pad_loop.simps [code]

definition digest_word :: "u32 \<Rightarrow> bytes" where
  "digest_word s = [ucast (drop_bit 24 s), ucast (drop_bit 16 s), ucast (drop_bit 8 s), ucast s]"

definition sha256_finish :: "sha256 \<Rightarrow> bytes option" where
  "sha256_finish sha =
     (let bits = sha_total sha * 8 in do {
        sha \<leftarrow> pad_loop (sha256_update sha [0x80]);
        let sha = sha\<lparr>sha_block := fold (\<lambda>i blk. blk[kShaBlockSize - 8 + i := ucast (drop_bit (56 - 8 * i) bits)])
                                      [0..<8] (sha_block sha)\<rparr>;
        let sha = sha256_compress sha;
        Some (concat (map (\<lambda>i. digest_word (sha_state sha ! i)) [0..<8]))
      })"

section \<open>HMAC and PBKDF2\<close>

text \<open>\<open>std::memcpy(dst, src, n)\<close> over the start of a buffer.\<close>

definition memcpy_to :: "bytes \<Rightarrow> bytes \<Rightarrow> nat \<Rightarrow> bytes" where
  "memcpy_to dst src n = take n src @ drop n dst"

definition padded_key :: "bytes \<Rightarrow> bytes option" where
  "padded_key key =
     (let zeros = replicate kShaBlockSize 0 in
      if length key > kShaBlockSize
      then map_option (\<lambda>d. memcpy_to zeros d kShaDigestSize) (sha256_finish (sha256_update Sha256 key))
      else Some (memcpy_to zeros key (length key)))"

definition hmac_sha256 :: "bytes \<Rightarrow> bytes \<Rightarrow> bytes option" where
  "hmac_sha256 key message = do {
     pk \<leftarrow> padded_key key;
     let ipad = map (\<lambda>i. pk ! i XOR 0x36) [0..<kShaBlockSize];
     inner \<leftarrow> sha256_finish (sha256_update (sha256_update Sha256 ipad) message);
     let opad = map (\<lambda>i. pk ! i XOR 0x5C) [0..<kShaBlockSize];
     sha256_finish (sha256_update (sha256_update Sha256 opad) inner)
   }"

text \<open>The loop \<open>for (i = 1; i < iterations; ++i)\<close> over the pair of the last block U and the
  accumulated exclusive or.\<close>

fun pbkdf2_loop :: "bytes \<Rightarrow> nat \<Rightarrow> bytes \<Rightarrow> bytes \<Rightarrow> bytes option" where
  "pbkdf2_loop password 0 u accumulated = Some accumulated"
| "pbkdf2_loop password (Suc n) u accumulated = do {
     nxt \<leftarrow> hmac_sha256 password u;
     pbkdf2_loop password n nxt (map (\<lambda>j. accumulated ! j XOR nxt ! j) [0..<kShaDigestSize])
   }"

definition pbkdf2_hmac_sha256 :: "bytes \<Rightarrow> bytes \<Rightarrow> nat \<Rightarrow> nat \<Rightarrow> bytes option" where
  "pbkdf2_hmac_sha256 password salt iterations out_key_size =
     (let s = length salt;
          block_input = (memcpy_to (replicate (64 + 4) 0) salt s)[s := 0, s + 1 := 0, s + 2 := 0, s + 3 := 1]
      in do {
        u \<leftarrow> hmac_sha256 password (take (s + 4) block_input);
        accumulated \<leftarrow> pbkdf2_loop password (iterations - 1) u u;
        Some (take out_key_size accumulated)
      })"

section \<open>Key L\<close>

definition kKeyLength :: nat where "kKeyLength = 16"
definition kVerifyLength :: nat where "kVerifyLength = 8"
definition kIterations :: nat where "kIterations = 200000"
definition kSaltLength :: nat where "kSaltLength = 16"
definition kVerifyLabelLLength :: nat where "kVerifyLabelLLength = 13"

definition ascii :: "string \<Rightarrow> bytes" where "ascii = map of_char"

definition kSalt :: bytes where "kSalt = ascii ''bally-kdf-salt-1''"
definition kVerifyLabelL :: bytes where "kVerifyLabelL = ascii ''bally-canal-c''"

definition deriveKeyL :: "bytes \<Rightarrow> bytes option" where
  "deriveKeyL password = pbkdf2_hmac_sha256 password (take kSaltLength kSalt) kIterations kKeyLength"

definition verifyTagL :: "bytes \<Rightarrow> bytes option" where
  "verifyTagL key =
     map_option (take kVerifyLength) (hmac_sha256 (take kKeyLength key) (take kVerifyLabelLLength kVerifyLabelL))"

text \<open>\<open>g_keyL\<close> and \<open>g_hasKeyL\<close>.\<close>

record key_holder =
  g_keyL :: bytes
  g_hasKeyL :: bool

definition holder_init :: key_holder where
  "holder_init = \<lparr>g_keyL = replicate kKeyLength 0, g_hasKeyL = False\<rparr>"

definition wipe :: "bytes \<Rightarrow> bytes" where
  "wipe data = map (\<lambda>_. 0) data"

definition setKeyL :: "bytes \<Rightarrow> key_holder \<Rightarrow> key_holder" where
  "setKeyL key st = st\<lparr>g_keyL := memcpy_to (g_keyL st) key kKeyLength, g_hasKeyL := True\<rparr>"

definition hasKeyL :: "key_holder \<Rightarrow> bool" where
  "hasKeyL st = g_hasKeyL st"

definition keyL :: "key_holder \<Rightarrow> bytes option" where
  "keyL st = (if g_hasKeyL st then Some (g_keyL st) else None)"

definition clearKeyL :: "key_holder \<Rightarrow> key_holder" where
  "clearKeyL st = st\<lparr>g_keyL := wipe (g_keyL st), g_hasKeyL := False\<rparr>"

section \<open>Persistence\<close>

datatype esp_err = ESP_OK | ESP_ERR_NVS_NO_FREE_PAGES | ESP_ERR_NVS_NEW_VERSION_FOUND | ESP_ERR_OTHER

text \<open>The ESP-IDF calls: each acts on the world \<open>'n\<close>. \<open>nvs_open\<close> takes the namespace and whether
  it is opened for writing and gives a handle; \<open>nvs_get_blob\<close> with a null buffer gives the
  stored size, with a buffer of a capacity the octets it wrote (their number is \<open>readSize\<close>).\<close>

record ('n, 'h) nvs_api =
  nvs_flash_init :: "'n \<Rightarrow> esp_err \<times> 'n"
  nvs_flash_erase :: "'n \<Rightarrow> 'n"
  nvs_open :: "string \<Rightarrow> bool \<Rightarrow> 'n \<Rightarrow> esp_err \<times> 'h \<times> 'n"
  nvs_set_blob :: "'h \<Rightarrow> string \<Rightarrow> bytes \<Rightarrow> 'n \<Rightarrow> esp_err \<times> 'n"
  nvs_commit :: "'h \<Rightarrow> 'n \<Rightarrow> esp_err \<times> 'n"
  nvs_blob_size :: "'h \<Rightarrow> string \<Rightarrow> 'n \<Rightarrow> esp_err \<times> nat"
  nvs_get_blob :: "'h \<Rightarrow> string \<Rightarrow> nat \<Rightarrow> 'n \<Rightarrow> esp_err \<times> bytes"
  nvs_close :: "'h \<Rightarrow> 'n \<Rightarrow> 'n"

definition kNvsNamespace :: string where "kNvsNamespace = ''ballykey''"
definition kNvsKeyName :: string where "kNvsKeyName = ''key_l''"

definition ensureNvsReady :: "('n, 'h) nvs_api \<Rightarrow> 'n \<Rightarrow> bool \<times> 'n" where
  "ensureNvsReady api w =
     (let (result, w) = nvs_flash_init api w;
          (result, w) = (if result = ESP_ERR_NVS_NO_FREE_PAGES \<or> result = ESP_ERR_NVS_NEW_VERSION_FOUND
                         then nvs_flash_init api (nvs_flash_erase api w) else (result, w))
      in (result = ESP_OK, w))"

definition open_ready :: "('n, 'h) nvs_api \<Rightarrow> bool \<Rightarrow> 'n \<Rightarrow> 'h option \<times> 'n" where
  "open_ready api rw w =
     (let (ready, w) = ensureNvsReady api w in
      if \<not> ready then (None, w)
      else let (r, h, w) = nvs_open api kNvsNamespace rw w
           in if r \<noteq> ESP_OK then (None, w) else (Some h, w))"

definition saveToNvs :: "('n, 'h) nvs_api \<Rightarrow> key_holder \<Rightarrow> 'n \<Rightarrow> bool \<times> 'n" where
  "saveToNvs api st w =
     (if \<not> g_hasKeyL st then (False, w)
      else case open_ready api True w of
        (None, w) \<Rightarrow> (False, w)
      | (Some h, w) \<Rightarrow>
          let (setResult, w) = nvs_set_blob api h kNvsKeyName (take kKeyLength (g_keyL st)) w;
              (commitResult, w) = (if setResult = ESP_OK then nvs_commit api h w else (setResult, w));
              w = nvs_close api h w
          in (commitResult = ESP_OK, w))"

definition loadFromNvs :: "('n, 'h) nvs_api \<Rightarrow> key_holder \<Rightarrow> 'n \<Rightarrow> bool \<times> key_holder \<times> 'n" where
  "loadFromNvs api st w =
     (case open_ready api False w of
        (None, w) \<Rightarrow> (False, st, w)
      | (Some h, w) \<Rightarrow>
          let (sizeResult, storedSize) = nvs_blob_size api h kNvsKeyName w in
          if sizeResult \<noteq> ESP_OK \<or> storedSize \<noteq> kKeyLength then (False, st, nvs_close api h w)
          else let (readResult, blob) = nvs_get_blob api h kNvsKeyName kKeyLength w;
                   loaded = memcpy_to (replicate kKeyLength 0) blob (length blob);
                   w = nvs_close api h w
               in if readResult \<noteq> ESP_OK \<or> length blob \<noteq> kKeyLength then (False, st, w)
                  else (True, setKeyL loaded st, w))"

text \<open>The Arduino build persists through \<open>Preferences\<close>: \<open>begin\<close> takes the namespace and whether
  it is read only, \<open>putBytes\<close> gives the number of octets written, \<open>getBytes\<close> the octets read.\<close>

record 'p prefs_api =
  prefs_begin :: "string \<Rightarrow> bool \<Rightarrow> 'p \<Rightarrow> bool \<times> 'p"
  prefs_putBytes :: "string \<Rightarrow> bytes \<Rightarrow> 'p \<Rightarrow> nat \<times> 'p"
  prefs_getBytesLength :: "string \<Rightarrow> 'p \<Rightarrow> nat"
  prefs_getBytes :: "string \<Rightarrow> nat \<Rightarrow> 'p \<Rightarrow> bytes"
  prefs_end :: "'p \<Rightarrow> 'p"

definition saveToPreferences :: "'p prefs_api \<Rightarrow> key_holder \<Rightarrow> 'p \<Rightarrow> bool \<times> 'p" where
  "saveToPreferences api st w =
     (if \<not> g_hasKeyL st then (False, w)
      else let (ok, w) = prefs_begin api kNvsNamespace False w in
        if \<not> ok then (False, w)
        else let (written, w) = prefs_putBytes api kNvsKeyName (take kKeyLength (g_keyL st)) w
             in (written = kKeyLength, prefs_end api w))"

definition loadFromPreferences :: "'p prefs_api \<Rightarrow> key_holder \<Rightarrow> 'p \<Rightarrow> bool \<times> key_holder \<times> 'p" where
  "loadFromPreferences api st w =
     (let (ok, w) = prefs_begin api kNvsNamespace True w in
      if \<not> ok then (False, st, w)
      else if prefs_getBytesLength api kNvsKeyName w \<noteq> kKeyLength then (False, st, prefs_end api w)
      else let blob = prefs_getBytes api kNvsKeyName kKeyLength w;
               loaded = memcpy_to (replicate kKeyLength 0) blob (length blob);
               w = prefs_end api w
           in if length blob \<noteq> kKeyLength then (False, st, w)
              else (True, setKeyL loaded st, w))"

end
