(* ===== verification/Key_Proofs.thy ===== *)
theory Key_Proofs
  imports Key_Store
begin

text \<open>
  What lib/DongleKeyStore computes: the streaming SHA-256 is the hash of FIPS 180-4 over the
  concatenation of everything that was fed to it, and always returns; the keyed functions
  over it are those of RFC 2104 and RFC 8018; a key saved to flash is the key a later boot
  loads.
\<close>

unbundle bit_operations_syntax

section \<open>The hash of FIPS 180-4\<close>

definition fips_Ch :: "u32 \<Rightarrow> u32 \<Rightarrow> u32 \<Rightarrow> u32" where
  "fips_Ch x y z = (x AND y) XOR (NOT x AND z)"
definition fips_Maj :: "u32 \<Rightarrow> u32 \<Rightarrow> u32 \<Rightarrow> u32" where
  "fips_Maj x y z = (x AND y) XOR (x AND z) XOR (y AND z)"
definition fips_S0 :: "u32 \<Rightarrow> u32" where
  "fips_S0 x = word_rotr 2 x XOR word_rotr 13 x XOR word_rotr 22 x"
definition fips_S1 :: "u32 \<Rightarrow> u32" where
  "fips_S1 x = word_rotr 6 x XOR word_rotr 11 x XOR word_rotr 25 x"
definition fips_s0 :: "u32 \<Rightarrow> u32" where
  "fips_s0 x = word_rotr 7 x XOR word_rotr 18 x XOR drop_bit 3 x"
definition fips_s1 :: "u32 \<Rightarrow> u32" where
  "fips_s1 x = word_rotr 17 x XOR word_rotr 19 x XOR drop_bit 10 x"

text \<open>The message schedule of a block, by its recurrence.\<close>

fun fips_W :: "bytes \<Rightarrow> nat \<Rightarrow> u32" where
  "fips_W B t =
     (if t < 16 then word_rcat (take 4 (drop (4 * t) B))
      else fips_s1 (fips_W B (t - 2)) + fips_W B (t - 7) + fips_s0 (fips_W B (t - 15)) + fips_W B (t - 16))"

declare fips_W.simps [simp del]

text \<open>The working variables after t rounds, and the hash value after a block.\<close>

fun fips_vars :: "bytes \<Rightarrow> u32 list \<Rightarrow> nat \<Rightarrow> regs" where
  "fips_vars B H 0 = (H ! 0, H ! 1, H ! 2, H ! 3, H ! 4, H ! 5, H ! 6, H ! 7)"
| "fips_vars B H (Suc t) =
     (let (a, b, c, d, e, f, g, h) = fips_vars B H t;
          T1 = h + fips_S1 e + fips_Ch e f g + kShaRoundConstants ! t + fips_W B t;
          T2 = fips_S0 a + fips_Maj a b c
      in (T1 + T2, a, b, c, d + T1, e, f, g))"

definition fips_block :: "u32 list \<Rightarrow> bytes \<Rightarrow> u32 list" where
  "fips_block H B =
     (let (a, b, c, d, e, f, g, h) = fips_vars B H 64
      in [a + H ! 0, b + H ! 1, c + H ! 2, d + H ! 3, e + H ! 4, f + H ! 5, g + H ! 6, h + H ! 7])"

function fips_blocks :: "u32 list \<Rightarrow> bytes \<Rightarrow> u32 list" where
  "fips_blocks H m = (if length m < 64 then H else fips_blocks (fips_block H (take 64 m)) (drop 64 m))"
  by auto
termination by (relation "measure (\<lambda>(H, m). length m)") auto

declare fips_blocks.simps [simp del]

definition fips_H0 :: "u32 list" where
  "fips_H0 = [0x6A09E667, 0xBB67AE85, 0x3C6EF372, 0xA54FF53A, 0x510E527F, 0x9B05688C, 0x1F83D9AB, 0x5BE0CD19]"

text \<open>Big-endian octets of a number, and the padded message: a one bit, the smallest number of
  zeros that makes the length 448 modulo 512 bits, and the length of the message in bits.\<close>

definition be_octets :: "nat \<Rightarrow> nat \<Rightarrow> bytes" where
  "be_octets n x = map (\<lambda>i. of_nat (x div 256 ^ (n - 1 - i))) [0..<n]"

definition fips_pad :: "bytes \<Rightarrow> bytes" where
  "fips_pad m = m @ [0x80] @ replicate ((119 - length m mod 64) mod 64) 0 @ be_octets 8 (8 * length m)"

definition fips_sha256 :: "bytes \<Rightarrow> bytes" where
  "fips_sha256 m = concat (map (\<lambda>w. be_octets 4 (unat w)) (fips_blocks fips_H0 (fips_pad m)))"

section \<open>The compression function\<close>

lemma rotate_right_rotr:
  assumes "0 < n" and "n < 32"
  shows "rotate_right x n = word_rotr n x"
proof (rule bit_word_eqI)
  fix k assume k: "k < LENGTH(32)"
  show "bit (rotate_right x n) k \<longleftrightarrow> bit (word_rotr n x) k"
  proof (cases "k + n < 32")
    case True
    with k assms have "\<not> 32 - n \<le> k" by simp
    with True k assms show ?thesis by (simp add: rotate_right_def bit_simps bit_word_rotr_iff ac_simps)
  next
    case False
    with k assms have "(k + n) mod 32 = k + n - 32" by (simp add: mod_if)
    with False k assms show ?thesis
      by (auto simp: rotate_right_def bit_simps bit_word_rotr_iff ac_simps dest: bit_imp_le_length)
  qed
qed

lemma or_shifted:
  fixes x y :: u32
  assumes "\<And>k. bit x k \<Longrightarrow> n \<le> k" and "\<And>k. bit y k \<Longrightarrow> k < n"
  shows "x OR y = x + y"
proof -
  have "x AND y = 0" by (rule bit_word_eqI) (use assms in \<open>auto simp: bit_simps not_less [symmetric]\<close>)
  then show ?thesis by (simp add: disjunctive_add_eq_or)
qed

lemma word_rcat_4:
  "word_rcat [a, b, c, d :: u8] =
     (push_bit 24 (ucast a) OR push_bit 16 (ucast b) OR push_bit 8 (ucast c) OR ucast d :: u32)"
proof -
  have "(push_bit 24 (ucast a) OR push_bit 16 (ucast b) OR push_bit 8 (ucast c) OR ucast d :: u32) =
      push_bit 24 (ucast a) + (push_bit 16 (ucast b) + (push_bit 8 (ucast c) + ucast d))"
    by (subst or_shifted [of _ 24], (auto simp: bit_simps dest!: bit_imp_le_length)[2],
        subst or_shifted [of _ 16], (auto simp: bit_simps dest!: bit_imp_le_length)[2],
        subst or_shifted [of _ 8], (auto simp: bit_simps dest!: bit_imp_le_length)[2]) simp
  also have "\<dots> = word_rcat [a, b, c, d]"
    by (simp add: word_rcat_def push_bit_eq_mult algebra_simps)
  finally show ?thesis by simp
qed

lemma take_4_drop:
  assumes "k + 4 \<le> length B"
  shows "take 4 (drop k B) = [B ! k, B ! (k + 1), B ! (k + 2), B ! (k + 3)]"
proof (rule nth_equalityI)
  fix j assume "j < length (take 4 (drop k B))"
  then have "j = 0 \<or> j = 1 \<or> j = 2 \<or> j = 3" using assms by auto
  with assms show "take 4 (drop k B) ! j = [B ! k, B ! (k + 1), B ! (k + 2), B ! (k + 3)] ! j" by auto
qed (use assms in simp)

lemma block_word_W:
  assumes "length B = 64" and "i < 16"
  shows "block_word B i = fips_W B i"
  using assms by (subst fips_W.simps) (simp add: take_4_drop word_rcat_4 block_word_def mult.commute)

lemma extend_keeps_length [simp]: "length (extend_word i w) = length w"
  by (simp add: extend_word_def Let_def)

lemma first_words:
  assumes "n \<le> 16" and "length B = 64"
  shows "length (fold (\<lambda>i w. w[i := block_word B i]) [0..<n] (replicate 64 0)) = 64 \<and>
         (\<forall>j<n. fold (\<lambda>i w. w[i := block_word B i]) [0..<n] (replicate 64 0) ! j = fips_W B j)"
  using assms(1)
proof (induction n)
  case (Suc n)
  then show ?case using assms(2) by (auto simp: nth_list_update block_word_W less_Suc_eq)
qed simp

lemma all_words:
  assumes "16 \<le> n" and "n \<le> 64" and "length w0 = 64" and "\<forall>j<16. w0 ! j = fips_W B j"
  shows "length (fold extend_word [16..<n] w0) = 64 \<and> (\<forall>j<n. fold extend_word [16..<n] w0 ! j = fips_W B j)"
  using assms(1,2)
proof (induction n rule: dec_induct)
  case base
  with assms(3,4) show ?case by simp
next
  case (step n)
  let ?w = "fold extend_word [16..<n] w0"
  from step have len: "length ?w = 64" and w: "\<And>j. j < n \<Longrightarrow> ?w ! j = fips_W B j" by auto
  have "extend_word n ?w ! n = fips_W B n"
    using step.hyps step.prems len
    by (subst fips_W.simps)
       (simp add: extend_word_def w rotate_right_rotr fips_s0_def fips_s1_def ac_simps)
  moreover have "extend_word n ?w ! j = fips_W B j" if "j < n" for j
    using that len by (simp add: extend_word_def w)
  ultimately show ?case using step.hyps len by (auto simp: less_Suc_eq)
qed

lemma schedule_W:
  assumes "length B = 64" and "j < 64"
  shows "schedule B ! j = fips_W B j"
proof -
  let ?w0 = "fold (\<lambda>i w. w[i := block_word B i]) [0..<16] (replicate 64 0)"
  have "length ?w0 = 64" "\<forall>j<16. ?w0 ! j = fips_W B j" using first_words [of 16 B] assms by auto
  from all_words [of 64, OF _ _ this] assms(2) show ?thesis by (simp add: schedule_def)
qed

lemma rounds_vars:
  assumes "length B = 64" and "n \<le> 64"
  shows "fold (sha_round (schedule B)) [0..<n] (H ! 0, H ! 1, H ! 2, H ! 3, H ! 4, H ! 5, H ! 6, H ! 7) =
         fips_vars B H n"
  using assms(2)
proof (induction n)
  case (Suc n)
  then have "fold (sha_round (schedule B)) [0..<Suc n]
      (H ! 0, H ! 1, H ! 2, H ! 3, H ! 4, H ! 5, H ! 6, H ! 7) = sha_round (schedule B) n (fips_vars B H n)"
    by simp
  also have "\<dots> = fips_vars B H (Suc n)"
    using Suc.prems assms(1)
    by (simp add: sha_round_def schedule_W rotate_right_rotr fips_S0_def fips_S1_def fips_Ch_def
        fips_Maj_def Let_def ac_simps split: prod.split)
  finally show ?case .
qed simp

lemma compress_is_fips_block:
  assumes "length (sha_block sha) = 64"
  shows "sha256_compress sha = sha\<lparr>sha_state := fips_block (sha_state sha) (sha_block sha)\<rparr>"
  unfolding sha256_compress_def Let_def rounds_vars [OF assms order_refl] fips_block_def
  by (simp add: ac_simps split: prod.split)

section \<open>Streaming\<close>

text \<open>What the state of the hash is after the octets m have been fed to it.\<close>

definition absorbed :: "bytes \<Rightarrow> sha256 \<Rightarrow> bool" where
  "absorbed m sha \<longleftrightarrow>
     length (sha_block sha) = 64 \<and> sha_pending sha = length m mod 64 \<and>
     take (length m mod 64) (sha_block sha) = drop (length m - length m mod 64) m \<and>
     sha_state sha = fips_blocks fips_H0 m"

lemma blocks_append:
  "64 dvd length m \<Longrightarrow> fips_blocks H (m @ m') = fips_blocks (fips_blocks H m) m'"
proof (induction H m rule: fips_blocks.induct)
  case (1 H m)
  show ?case
  proof (cases "length m < 64")
    case True
    with 1(2) have "m = []" by (auto simp: dvd_def)
    then show ?thesis by (simp add: fips_blocks.simps [of _ "[]"])
  next
    case False
    with 1 have "fips_blocks (fips_block H (take 64 m)) (drop 64 m @ m') =
        fips_blocks (fips_blocks (fips_block H (take 64 m)) (drop 64 m)) m'" by simp
    with False show ?thesis
      by (simp add: fips_blocks.simps [of H "m @ m'"] fips_blocks.simps [of H m])
  qed
qed

lemma blocks_split:
  "fips_blocks H m = fips_blocks (fips_blocks H (take (length m - length m mod 64) m)) (drop (length m - length m mod 64) m)"
  using blocks_append [of "take (length m - length m mod 64) m" H "drop (length m - length m mod 64) m"]
  by (simp add: dvd_minus_mod)

lemma blocks_whole: "64 dvd length m \<Longrightarrow> length B = 64 \<Longrightarrow> fips_blocks H (m @ B) = fips_block (fips_blocks H m) B"
  by (simp add: blocks_append fips_blocks.simps [of _ B] fips_blocks.simps [of _ "[]"])

lemma absorbed_start: "absorbed [] Sha256"
  by (simp add: absorbed_def Sha256_def fips_H0_def fips_blocks.simps [of _ "[]"])

lemma absorbed_octet:
  assumes "absorbed m sha"
  shows "absorbed (m @ [b]) (sha256_octet b sha)"
proof -
  let ?r = "length m mod 64" and ?B = "(sha_block sha)[length m mod 64 := b]"
  let ?whole = "take (length m - ?r) m"
  have r: "?r < 64" "64 dvd length ?whole" by (simp_all add: dvd_minus_mod)
  have len: "length (sha_block sha) = 64" "sha_pending sha = ?r"
    and blk: "take ?r (sha_block sha) = drop (length m - ?r) m"
    and st: "sha_state sha = fips_blocks fips_H0 m" using assms by (auto simp: absorbed_def)
  have filled: "take (Suc ?r) ?B = drop (length m - ?r) m @ [b]"
    using blk len r by (simp add: take_Suc_conv_app_nth)
  have tail: "length (drop (length m - ?r) m) = ?r" by simp
  have H: "fips_blocks fips_H0 m = fips_blocks fips_H0 ?whole"
    using r tail by (subst blocks_split) (simp add: fips_blocks.simps [of _ "drop (length m - ?r) m"])
  have m: "m @ [b] = ?whole @ (drop (length m - ?r) m @ [b])" by simp
  have short: "fips_blocks H (drop (length m - ?r) m @ [b]) = H" if "Suc ?r < 64" for H
    using that tail by (subst fips_blocks.simps) simp
  show ?thesis
  proof (cases "Suc ?r = 64")
    case True
    then have "take 64 ?B = drop (length m - ?r) m @ [b]" using filled by simp
    then have B: "?B = drop (length m - ?r) m @ [b]" using len by simp
    have "fips_blocks fips_H0 (m @ [b]) = fips_block (fips_blocks fips_H0 ?whole) ?B"
      using True r len by (subst m, subst B [symmetric], subst blocks_whole) (use r(2) in simp_all)
    moreover have "(length m + 1) mod 64 = 0" using True by presburger
    ultimately show ?thesis
      using len st H True by (simp add: absorbed_def sha256_octet_def kShaBlockSize_def compress_is_fips_block)
  next
    case False
    then have rem: "(length m + 1) mod 64 = Suc ?r" by (simp add: mod_Suc)
    then have "fips_blocks fips_H0 (m @ [b]) = fips_blocks fips_H0 ?whole"
      using r False by (subst m, subst blocks_append) (simp_all add: short)
    moreover have "length m + 1 - Suc ?r = length m - ?r" by simp
    ultimately show ?thesis
      using len st H False rem filled by (simp add: absorbed_def sha256_octet_def kShaBlockSize_def)
  qed
qed

lemma absorbed_total [simp]: "absorbed m (sha\<lparr>sha_total := t\<rparr>) = absorbed m sha"
  by (simp add: absorbed_def)

lemma octet_total [simp]: "sha_total (sha256_octet b sha) = sha_total sha"
  by (simp add: sha256_octet_def sha256_compress_def Let_def split: prod.split)

lemma octets_total [simp]: "sha_total (fold sha256_octet bs sha) = sha_total sha"
  by (induction bs arbitrary: sha) simp_all

lemma absorbed_update: "absorbed m sha \<Longrightarrow> absorbed (m @ bs) (sha256_update sha bs)"
proof -
  have "absorbed m s \<Longrightarrow> absorbed (m @ bs) (fold sha256_octet bs s)" for s
  proof (induction bs arbitrary: m s)
    case (Cons b bs)
    from Cons.IH [OF absorbed_octet [OF Cons.prems]] show ?case by simp
  qed simp
  then show "absorbed m sha \<Longrightarrow> absorbed (m @ bs) (sha256_update sha bs)" by (simp add: sha256_update_def)
qed

lemma update_total: "sha_total (sha256_update sha bs) = sha_total sha + of_nat (length bs)"
  by (simp add: sha256_update_def)

lemma zeros_needed: "(r::nat) < 64 \<Longrightarrow> (120 - r) mod 64 = (if r \<le> 56 then 56 - r else 120 - r)"
  by (simp add: mod_if)

lemma fewer_zeros:
  assumes "Suc n = (120 - l mod 64) mod (64::nat)"
  shows "n = (120 - Suc l mod 64) mod 64"
proof -
  have "l mod 64 < 64" "Suc l mod 64 < 64" by simp_all
  with assms show ?thesis by (simp add: zeros_needed) (auto simp: mod_Suc split: if_splits)
qed

text \<open>The padding loop stops as soon as the fill level is 56, after the number of zeros of the
  standard.\<close>

lemma pad_loop_zeros:
  "absorbed m sha \<Longrightarrow> n = (120 - length m mod 64) mod 64 \<Longrightarrow>
   \<exists>sha'. pad_loop sha = Some sha' \<and> absorbed (m @ replicate n 0) sha'"
proof (induction n arbitrary: m sha)
  case 0
  have "length m mod 64 < 64" by simp
  with 0(2) have "length m mod 64 = 56" by (simp add: zeros_needed split: if_splits)
  with 0 show ?case by (subst pad_loop.simps) (simp add: absorbed_def kShaBlockSize_def)
next
  case (Suc n)
  have "length m mod 64 < 64" by simp
  with Suc.prems(2) have "length m mod 64 \<noteq> 56" by (auto simp: zeros_needed)
  with Suc.prems(1) have ne: "sha_pending sha \<noteq> kShaBlockSize - 8" by (simp add: absorbed_def kShaBlockSize_def)
  have "n = (120 - length (m @ [0]) mod 64) mod 64" using fewer_zeros [OF Suc.prems(2)] by simp
  from Suc.IH [OF absorbed_update [OF Suc.prems(1), of "[0]"] this] ne show ?case
    by (subst pad_loop.simps) simp
qed

lemma be_octet:
  assumes "i < 8"
  shows "(ucast (drop_bit (56 - 8 * i) (x :: u64)) :: u8) = of_nat (unat x div 256 ^ (7 - i))"
proof -
  have "(2::nat) ^ (56 - 8 * i) = 2 ^ (8 * (7 - i))" by (simp add: right_diff_distrib')
  then have "unat x div 256 ^ (7 - i) = unat (drop_bit (56 - 8 * i) x)"
    by (simp add: unat_drop_bit_div power_mult del: drop_bit_eq_div)
  then show ?thesis by simp
qed

lemma write_length_field:
  assumes "length blk = 64" and "n \<le> 8"
  shows "length (fold (\<lambda>i blk. blk[56 + i := f i]) [0..<n] blk) = 64 \<and>
         (\<forall>j<64. fold (\<lambda>i blk. blk[56 + i := f i]) [0..<n] blk ! j =
                  (if 56 \<le> j \<and> j < 56 + n then f (j - 56) else blk ! j))"
  using assms(2)
proof (induction n)
  case 0
  with assms(1) show ?case by auto
next
  case (Suc n)
  then show ?case by (auto simp: nth_list_update less_Suc_eq)
qed

lemma length_field:
  assumes "length blk = 64"
  shows "fold (\<lambda>i blk. blk[kShaBlockSize - 8 + i := ucast (drop_bit (56 - 8 * i) bits)]) [0..<8] blk =
         take 56 blk @ be_octets 8 (unat (bits :: u64))"
  unfolding kShaBlockSize_def
proof (rule nth_equalityI)
  let ?f = "\<lambda>i. ucast (drop_bit (56 - 8 * i) bits) :: u8"
  let ?l = "fold (\<lambda>i blk. blk[56 + i := ?f i]) [0..<8] blk"
  have w: "length ?l = 64" "\<And>j. j < 64 \<Longrightarrow> ?l ! j = (if 56 \<le> j \<and> j < 64 then ?f (j - 56) else blk ! j)"
    using write_length_field [OF assms, of 8 ?f] by simp_all
  show "length (fold (\<lambda>i blk. blk[64 - 8 + i := ?f i]) [0..<8] blk) = length (take 56 blk @ be_octets 8 (unat bits))"
    using w assms by (simp add: be_octets_def)
  fix j assume "j < length (fold (\<lambda>i blk. blk[64 - 8 + i := ?f i]) [0..<8] blk)"
  then have j: "j < 64" using w by simp
  show "fold (\<lambda>i blk. blk[64 - 8 + i := ?f i]) [0..<8] blk ! j = (take 56 blk @ be_octets 8 (unat bits)) ! j"
  proof (cases "j < 56")
    case True
    with w(2) [OF j] assms show ?thesis by (simp add: nth_append)
  next
    case False
    with j have "j - 56 < 8" "[0..<8] ! (j - 56) = j - 56" by simp_all
    with False w(2) [OF j] j assms show ?thesis by (simp add: nth_append be_octets_def be_octet [of "j - 56"])
  qed
qed

lemma digest_word_be: "digest_word s = be_octets 4 (unat s)"
proof -
  have part: "(ucast (drop_bit n s) :: u8) = of_nat (unat s div 2 ^ n)" for n
    by (simp only: unat_drop_bit_div [symmetric] of_nat_unat)
  show ?thesis
    using part [of 0] by (simp add: digest_word_def be_octets_def upt_rec part del: drop_bit_eq_div)
qed

lemma fips_block_length [simp]: "length (fips_block H B) = 8"
  by (simp add: fips_block_def split: prod.split)

lemma digest_is_be:
  assumes "length st = 8"
  shows "concat (map (\<lambda>i. digest_word (st ! i)) [0..<8]) = concat (map (\<lambda>w. be_octets 4 (unat w)) st)"
proof -
  have "map (\<lambda>i. digest_word (st ! i)) [0..<8] = map digest_word (map (\<lambda>i. st ! i) [0..<8])" by simp
  also have "map (\<lambda>i. st ! i) [0..<8] = st" using assms map_nth [of st] by simp
  finally show ?thesis by (simp add: digest_word_be)
qed

lemma zero_count: "(119 - l mod 64) mod 64 = (120 - Suc l mod 64) mod (64::nat)"
  unfolding mod_Suc [of l] by (cases "Suc (l mod 64) = 64") simp_all

lemma zeros_fill: "(Suc l + (119 - l mod 64) mod 64) mod 64 = (56::nat)"
proof -
  have fill: "(Suc r + (119 - r) mod 64) mod 64 = 56" if "r < 64" for r :: nat
  proof (cases "r < 56")
    case True
    then have "119 - r = (55 - r) + 64" by simp
    then have "(119 - r) mod 64 = 55 - r" by (simp only: mod_add_self2) (use True in simp)
    with True show ?thesis by simp
  next
    case False
    with that have "(119 - r) mod 64 = 119 - r" by simp
    with that show ?thesis by simp
  qed
  have "Suc l + (119 - l mod 64) mod 64 = 64 * (l div 64) + (Suc (l mod 64) + (119 - l mod 64) mod 64)"
    by simp
  then show ?thesis using fill [of "l mod 64"] by (simp only: mod_mult_self4 mod_less_divisor zero_less_numeral)
qed
lemma finish_is_fips:
  assumes abs: "absorbed m sha" and tot: "sha_total sha = of_nat (length m)" and short: "length m < 2 ^ 61"
  shows "sha256_finish sha = Some (fips_sha256 m)"
proof -
  let ?n = "(119 - length m mod 64) mod 64" and ?m1 = "m @ [0x80]"
  have "length ?m1 = Suc (length m)" by simp
  then have n: "?n = (120 - length ?m1 mod 64) mod 64" using zero_count [of "length m"] by (simp only:)
  obtain s2 where s2: "pad_loop (sha256_update sha [0x80]) = Some s2" and a2: "absorbed (?m1 @ replicate ?n 0) s2"
    using pad_loop_zeros [OF absorbed_update [OF abs, of "[0x80]"] n] by blast
  define M where "M = ?m1 @ replicate ?n 0"
  let ?be = "be_octets 8 (8 * length m)"
  have "length M = Suc (length m) + ?n" by (simp add: M_def)
  then have rem: "length M mod 64 = 56" using zeros_fill [of "length m"] by (simp only:)
  let ?whole = "take (length M - 56) M" and ?tail = "drop (length M - 56) M"
  have "absorbed M s2" using a2 by (simp only: M_def)
  then have blk: "length (sha_block s2) = 64" "take 56 (sha_block s2) = ?tail"
    and st: "sha_state s2 = fips_blocks fips_H0 M" using rem by (simp_all add: absorbed_def)
  have ge: "56 \<le> length M" using rem mod_less_eq_dividend [of "length M" 64] by linarith
  then have tl: "length ?tail = 56" unfolding length_drop by (rule diff_diff_cancel)
  have dv: "64 dvd length ?whole" using rem dvd_minus_mod [of 64 "length M"] by (simp only: length_take min.absorb2 diff_le_self)
  have whole: "fips_blocks fips_H0 M = fips_blocks fips_H0 ?whole"
  proof -
    have "fips_blocks fips_H0 M = fips_blocks (fips_blocks fips_H0 ?whole) ?tail"
      using blocks_append [OF dv, of fips_H0 ?tail] by (simp only: append_take_drop_id)
    also have "\<dots> = fips_blocks fips_H0 ?whole" using tl by (subst fips_blocks.simps) simp
    finally show ?thesis .
  qed
  have "unat (of_nat (8 * length m) :: u64) = 8 * length m"
    using short by (simp only: unsigned_of_nat) (simp add: take_bit_nat_eq_self)
  then have bits: "unat (sha_total sha * 8) = 8 * length m" unfolding tot by (simp add: mult.commute)
  have pad: "fips_pad m = ?whole @ (?tail @ ?be)" unfolding fips_pad_def append_assoc [symmetric] append_take_drop_id by (simp add: M_def)
  have final: "fips_blocks fips_H0 (fips_pad m) = fips_block (sha_state s2) (?tail @ ?be)"
    unfolding pad st whole using tl by (subst blocks_whole [OF dv]) (simp_all add: be_octets_def)
  show ?thesis
    using s2 blk tl
    by (simp add: sha256_finish_def Let_def length_field bits compress_is_fips_block digest_is_be
        fips_sha256_def final be_octets_def [of 8])
qed



lemma hash_of_two:
  "length a + length b < 2 ^ 61 \<Longrightarrow>
   sha256_finish (sha256_update (sha256_update Sha256 a) b) = Some (fips_sha256 (a @ b))"
  using finish_is_fips [OF absorbed_update [OF absorbed_update [OF absorbed_start, of a], of b]]
  by (simp add: update_total Sha256_def)

lemma hash_of_one: "length a < 2 ^ 61 \<Longrightarrow> sha256_finish (sha256_update Sha256 a) = Some (fips_sha256 a)"
  using finish_is_fips [OF absorbed_update [OF absorbed_start, of a]] by (simp add: update_total Sha256_def)

lemma fips_blocks_length: "length H = 8 \<Longrightarrow> length (fips_blocks H m) = 8"
  by (induction H m rule: fips_blocks.induct) (subst fips_blocks.simps, simp)

lemma concat_const_length: "(\<And>x. length (f x) = k) \<Longrightarrow> length (concat (map f xs)) = k * length xs"
  by (induction xs) simp_all

lemma fips_sha256_length [simp]: "length (fips_sha256 m) = 32"
  unfolding fips_sha256_def
  by (subst concat_const_length [of _ 4]) (simp_all add: fips_blocks_length fips_H0_def be_octets_def)

section \<open>HMAC and PBKDF2 by their standards\<close>

definition rfc2104_key :: "bytes \<Rightarrow> bytes" where
  "rfc2104_key K = (let K' = (if length K > 64 then fips_sha256 K else K) in K' @ replicate (64 - length K') 0)"

definition rfc2104_hmac :: "bytes \<Rightarrow> bytes \<Rightarrow> bytes" where
  "rfc2104_hmac K text =
     fips_sha256 (map ((XOR) 0x5C) (rfc2104_key K) @ fips_sha256 (map ((XOR) 0x36) (rfc2104_key K) @ text))"

text \<open>U_1, U_2, ... of RFC 8018 (numbered from 0) and the first block T of the derived key.\<close>

primrec rfc8018_U :: "bytes \<Rightarrow> bytes \<Rightarrow> nat \<Rightarrow> bytes" where
  "rfc8018_U P S 0 = rfc2104_hmac P (S @ [0, 0, 0, 1])"
| "rfc8018_U P S (Suc i) = rfc2104_hmac P (rfc8018_U P S i)"

definition rfc8018_T :: "bytes \<Rightarrow> bytes \<Rightarrow> nat \<Rightarrow> bytes" where
  "rfc8018_T P S c = map (\<lambda>j. fold (XOR) (map (\<lambda>i. rfc8018_U P S i ! j) [0..<c]) 0) [0..<32]"

lemma padded_key_rfc: "length K < 2 ^ 61 \<Longrightarrow> padded_key K = Some (rfc2104_key K)"
  by (auto simp: padded_key_def rfc2104_key_def kShaBlockSize_def kShaDigestSize_def memcpy_to_def
      hash_of_one Let_def)

lemma rfc2104_key_length [simp]: "length (rfc2104_key K) = 64"
  by (auto simp: rfc2104_key_def Let_def)

lemma masked_key: "map (\<lambda>i. rfc2104_key K ! i XOR c) [0..<64] = map ((XOR) c) (rfc2104_key K)"
  by (rule nth_equalityI) (auto simp: ac_simps)

lemma hmac_is_rfc2104:
  "length K < 2 ^ 61 \<Longrightarrow> length m < 2 ^ 60 \<Longrightarrow> hmac_sha256 K m = Some (rfc2104_hmac K m)"
  by (simp add: hmac_sha256_def padded_key_rfc masked_key kShaBlockSize_def hash_of_two rfc2104_hmac_def Let_def)

lemma rfc2104_hmac_length [simp]: "length (rfc2104_hmac K m) = 32"
  by (simp add: rfc2104_hmac_def)

lemma rfc8018_U_length [simp]: "length (rfc8018_U P S i) = 32"
  by (cases i) simp_all

lemma rfc8018_T_Suc: "map (\<lambda>j. rfc8018_T P S c ! j XOR rfc8018_U P S c ! j) [0..<32] = rfc8018_T P S (Suc c)"
  by (rule nth_equalityI) (auto simp: rfc8018_T_def ac_simps)

lemma rfc8018_T_one: "rfc8018_T P S 1 = rfc8018_U P S 0"
  by (rule nth_equalityI) (auto simp: rfc8018_T_def)

lemma pbkdf2_loop_rfc8018:
  assumes "length P < 2 ^ 61"
  shows "pbkdf2_loop P n (rfc8018_U P S k) (rfc8018_T P S (Suc k)) = Some (rfc8018_T P S (Suc (k + n)))"
proof (induction n arbitrary: k)
  case (Suc n)
  have "hmac_sha256 P (rfc8018_U P S k) = Some (rfc8018_U P S (Suc k))"
    using assms by (simp add: hmac_is_rfc2104)
  with Suc.IH [of "Suc k"] rfc8018_T_Suc [of P S "Suc k"] show ?case
    by (simp add: kShaDigestSize_def del: rfc8018_U.simps)
qed simp

lemma salt_block:
  "length S \<le> 64 \<Longrightarrow>
   take (length S + 4) ((memcpy_to (replicate (64 + 4) 0) S (length S))
      [length S := 0, length S + 1 := 0, length S + 2 := 0, length S + 3 := 1]) = S @ [0, 0, 0, 1]"
  by (simp add: list_eq_iff_nth_eq memcpy_to_def nth_append nth_list_update)

lemma pbkdf2_is_rfc8018:
  assumes "length P < 2 ^ 61" and "length S \<le> 64" and "0 < c"
  shows "pbkdf2_hmac_sha256 P S c dk = Some (take dk (rfc8018_T P S c))"
proof -
  have "hmac_sha256 P (S @ [0, 0, 0, 1]) = Some (rfc8018_U P S 0)"
    using assms by (simp add: hmac_is_rfc2104)
  with pbkdf2_loop_rfc8018 [OF assms(1), of "c - 1" S 0] rfc8018_T_one [of P S] assms(2,3) salt_block [of S]
  show ?thesis by (simp add: pbkdf2_hmac_sha256_def Let_def del: rfc8018_U.simps)
qed



section \<open>The key holder and its persistence\<close>

text \<open>What can happen to the holder: the operator sets or clears the key, and a boot loads it from
  either back end, whatever the flash answers.\<close>

datatype ('n, 'h, 'p) holder_op =
  SetKey bytes | ClearKey | LoadNvs "('n, 'h) nvs_api" 'n | LoadPrefs "'p prefs_api" 'p

fun holder_step :: "key_holder \<Rightarrow> ('n, 'h, 'p) holder_op \<Rightarrow> key_holder" where
  "holder_step st (SetKey k) = (if length k = kKeyLength then setKeyL k st else st)"
| "holder_step st ClearKey = clearKeyL st"
| "holder_step st (LoadNvs api w) = fst (snd (loadFromNvs api st w))"
| "holder_step st (LoadPrefs api w) = fst (snd (loadFromPreferences api st w))"

definition holder_ok :: "key_holder \<Rightarrow> bool" where
  "holder_ok st \<longleftrightarrow> length (g_keyL st) = kKeyLength \<and> (\<not> g_hasKeyL st \<longrightarrow> (\<forall>b\<in>set (g_keyL st). b = 0))"

lemma setKeyL_ok: "length k = kKeyLength \<Longrightarrow> holder_ok st \<Longrightarrow> holder_ok (setKeyL k st)"
  by (simp add: holder_ok_def setKeyL_def memcpy_to_def)

lemma clearKeyL_ok: "holder_ok st \<Longrightarrow> holder_ok (clearKeyL st)"
  by (auto simp: holder_ok_def clearKeyL_def wipe_def)

text \<open>A load either refuses and leaves the holder alone, or sets a key of exactly 16 octets.\<close>

definition refused_or_set :: "key_holder \<Rightarrow> bool \<times> key_holder \<times> 'w \<Rightarrow> bool" where
  "refused_or_set st r \<longleftrightarrow>
     (\<exists>w'. r = (False, st, w')) \<or> (\<exists>k w'. r = (True, setKeyL k st, w') \<and> length k = kKeyLength)"

lemma loadFromNvs_result: "refused_or_set st (loadFromNvs api st w)"
  unfolding loadFromNvs_def Let_def refused_or_set_def memcpy_to_def by (auto split: prod.split option.split)

lemma loadFromPreferences_result: "refused_or_set st (loadFromPreferences api st w)"
  unfolding loadFromPreferences_def Let_def refused_or_set_def memcpy_to_def by (auto split: prod.split)

lemma refused_or_set_ok: "refused_or_set st r \<Longrightarrow> holder_ok st \<Longrightarrow> holder_ok (fst (snd r))"
  by (auto simp: refused_or_set_def setKeyL_ok)

text \<open>C10. After any sequence of setting, clearing and loading, with whatever the flash libraries
  answer, the holder has 16 octets, \<open>keyL\<close> gives them exactly while a key is present, and while
  none is present no octet of any former key is left in memory: all 16 are zero.\<close>

theorem absent_key_is_wiped:
  "(case keyL (foldl holder_step holder_init ops) of
      Some k \<Rightarrow> hasKeyL (foldl holder_step holder_init ops) \<and> length k = 16
    | None \<Rightarrow> \<not> hasKeyL (foldl holder_step holder_init ops) \<and>
              g_keyL (foldl holder_step holder_init ops) = replicate 16 0)"
proof -
  have "holder_ok (holder_step st op)" if "holder_ok st" for st and op :: "('a, 'b, 'c) holder_op"
    using that by (cases op) (auto intro: setKeyL_ok clearKeyL_ok refused_or_set_ok
        loadFromNvs_result loadFromPreferences_result)
  then have "holder_ok st \<Longrightarrow> holder_ok (foldl holder_step st ops)" for st
    by (induction ops arbitrary: st) simp_all
  moreover have "holder_ok holder_init" by (simp add: holder_ok_def holder_init_def)
  ultimately have "holder_ok (foldl holder_step holder_init ops)" by blast
  then show ?thesis
    by (auto simp: keyL_def hasKeyL_def holder_ok_def kKeyLength_def intro!: replicate_eqI)
qed


text \<open>A flash of one blob per namespace and name, for the witness.\<close>

definition map_nvs :: "(string \<times> string \<Rightarrow> bytes option, string) nvs_api" where
  "map_nvs = \<lparr>nvs_flash_init = \<lambda>w. (ESP_OK, w), nvs_flash_erase = (\<lambda>w. Map.empty),
     nvs_open = (\<lambda>ns rw w. (ESP_OK, ns, w)),
     nvs_set_blob = (\<lambda>h n d w. (ESP_OK, w((h, n) \<mapsto> d))),
     nvs_commit = (\<lambda>h w. (ESP_OK, w)),
     nvs_blob_size = (\<lambda>h n w. case w (h, n) of None \<Rightarrow> (ESP_ERR_OTHER, 0) | Some d \<Rightarrow> (ESP_OK, length d)),
     nvs_get_blob = (\<lambda>h n c w. case w (h, n) of None \<Rightarrow> (ESP_ERR_OTHER, []) | Some d \<Rightarrow> (ESP_OK, d)),
     nvs_close = (\<lambda>h w. w)\<rparr>"


end
