(* ===== verification/Serial_Session.thy ===== *)
theory Serial_Session
  imports Btp_Command
begin

text \<open>
  The model of lib/SerialSession: the wrapper of one serial session around the library's
  \<open>btp::Node\<close>, the text of the ENTER / READY / CONSOLE handshake, the priority classes and the
  conversions between the module's records and the library's.

  \<open>btp::Node\<close> and the codecs are parameters: \<open>node_api\<close> is a record of functions on the node's
  own state. The node calls back \<open>Session::send\<close>; whether a frame is accepted depends on its
  size alone, so the node is given that test and returns the frames it handed over.
  A fixed \<open>char\<close> buffer is a list of characters; \<open>fill_text\<close> is the copy loop with its
  terminating NUL.
\<close>

unbundle bit_operations_syntax

section \<open>The library's types\<close>

datatype node_rx = NrPending | NrNoDatagram | NrDroppedFrame | NrSessionHandled | NrComplete | NrOther u8
datatype session_event =
  SeNone | SeTimedOut | SeHelloAccepted | SeHelloRejected | SeSessionClosed | SeFrameAccepted | SeAbandoned
datatype session_state = SsIdle | SsAwaitingHello | SsActive

record btp_hello =
  he_role :: u8
  he_versions :: "u8 list"
  he_max_logical_payload :: u32
  he_max_inflight_reassemblies :: u16
  he_max_subscriptions :: u16
  he_max_dedup_entries :: u32
  he_session_timeout_ms :: u32
  he_peer_uuid :: bytes
  he_config_revision :: u32

record btp_limits =
  li_max_logical_payload :: u32
  li_max_inflight_reassemblies :: u16
  li_max_subscriptions :: u16
  li_max_dedup_entries :: u32
  li_session_timeout_ms :: u32

record btp_status =
  st_flags :: u16
  st_uptime_us :: u64
  st_frames_rx :: u64
  st_frames_tx :: u64
  st_frames_dropped :: u64
  st_crc_errors :: u64
  st_decode_errors :: u64
  st_reassembly_completed :: u64
  st_reassembly_timeouts :: u64
  st_reassembly_rejected :: u64
  st_command_duplicates :: u64
  st_telemetry_dropped :: u64

record btp_topic_status =
  bt_source_id :: u32
  bt_topic_id :: u16
  bt_subscriber_count :: u16
  bt_effective_rate_millihz :: u32
  bt_bytes_total :: u64
  bt_samples_dropped_total :: u64

text \<open>The calls on \<open>node_\<close> and \<open>node_.session()\<close>.\<close>

record 'n node_api =
  nd_receive :: "(bytes \<Rightarrow> bool) \<Rightarrow> btp_header \<times> bytes \<Rightarrow> u64 \<Rightarrow> 'n \<Rightarrow> node_rx \<times> btp_header \<times> bytes list \<times> 'n"
  nd_tick :: "(bytes \<Rightarrow> bool) \<Rightarrow> u64 \<Rightarrow> 'n \<Rightarrow> session_event \<times> bytes list \<times> 'n"
  nd_session_event :: "'n \<Rightarrow> session_event"
  nd_state :: "'n \<Rightarrow> session_state"
  nd_reset :: "'n \<Rightarrow> session_event \<times> 'n"
  nd_arm :: "u64 \<Rightarrow> 'n \<Rightarrow> 'n"
  nd_set_local :: "btp_hello \<Rightarrow> 'n \<Rightarrow> 'n"
  nd_begin :: "u32 \<Rightarrow> u32 \<Rightarrow> 'n \<Rightarrow> 'n"
  nd_enable_session :: "btp_hello \<Rightarrow> u32 \<Rightarrow> 'n \<Rightarrow> 'n"
  nd_effective_limits :: "'n \<Rightarrow> btp_limits"
  nd_peer_source_id :: "'n \<Rightarrow> u32"
  nd_peer_boot_id :: "'n \<Rightarrow> u32"

section \<open>Identifiers and records of the module\<close>

definition kHelloResultObjectId :: u16 where "kHelloResultObjectId = 0x0002"
definition kManifestRequestObjectId :: u16 where "kManifestRequestObjectId = 0x0003"
definition kSubscribeObjectId :: u16 where "kSubscribeObjectId = 0x0005"
definition kUnsubscribeObjectId :: u16 where "kUnsubscribeObjectId = 0x0007"
definition kSessionCloseObjectId :: u16 where "kSessionCloseObjectId = 0x000A"
definition kSessionCloseResultObjectId :: u16 where "kSessionCloseResultObjectId = 0x000B"
definition kTerminalInObjectId :: u16 where "kTerminalInObjectId = 0x0001"
definition kHelloDeadlineMs :: u32 where "kHelloDeadlineMs = 2000"
definition kMaxStatusTopics :: nat where "kMaxStatusTopics = 8"
definition kNonceHexLength :: nat where "kNonceHexLength = 16"
definition kReadyLineCapacity :: nat where "kReadyLineCapacity = 32"
definition kConsoleLineCapacity :: nat where "kConsoleLineCapacity = 20"
definition kMaxSessionReplyFrameBytes :: nat where "kMaxSessionReplyFrameBytes = 256"

record local_limits =
  ll_maxLogicalPayload :: u32
  ll_maxInflightReassemblies :: u16
  ll_maxSubscriptions :: u16
  ll_maxDedupEntries :: u32
  ll_sessionTimeoutMs :: u32

definition LocalLimits :: local_limits where
  "LocalLimits = \<lparr>ll_maxLogicalPayload = 2048, ll_maxInflightReassemblies = 1, ll_maxSubscriptions = 8,
                  ll_maxDedupEntries = 32, ll_sessionTimeoutMs = 30000\<rparr>"

record effective_limits =
  el_maxLogicalPayload :: u32
  el_maxInflightReassemblies :: u16
  el_maxSubscriptions :: u16
  el_maxDedupEntries :: u32
  el_sessionTimeoutMs :: u32

record status_counters =
  sc_uptimeUs :: u64
  sc_framesRx :: u64
  sc_framesTx :: u64
  sc_framesDropped :: u64
  sc_crcErrors :: u64
  sc_decodeErrors :: u64
  sc_reassemblyCompleted :: u64
  sc_reassemblyTimeouts :: u64
  sc_reassemblyRejected :: u64
  sc_commandDuplicates :: u64
  sc_telemetryDropped :: u64
  sc_degraded :: bool

record topic_status_record =
  ts_sourceId :: u32
  ts_topicId :: u16
  ts_subscriberCount :: u16
  ts_effectiveRateMillihz :: u32
  ts_bytesTotal :: u64
  ts_samplesDroppedTotal :: u64

record hello_view =
  hv_role :: u8
  hv_versionCount :: u8
  hv_flags :: u16
  hv_maxLogicalPayload :: u32
  hv_maxInflightReassemblies :: u16
  hv_maxSubscriptions :: u16
  hv_maxDedupEntries :: u32
  hv_sessionTimeoutMs :: u32
  hv_peerUuid :: bytes
  hv_configRevision :: u32
  hv_supportsVersion1 :: bool

datatype hello_parse_error =
    HpOk | HpPayloadTooShort | HpSizeMismatch | HpNonZeroReservedFlags | HpZeroCapability | HpNoVersions
  | HpVersionsNotAscending

datatype priority_class = KSession | KTerminal | KLogStatus | KTelemetry

definition priority_index :: "priority_class \<Rightarrow> nat" where
  "priority_index c = (case c of KSession \<Rightarrow> 0 | KTerminal \<Rightarrow> 1 | KLogStatus \<Rightarrow> 2 | KTelemetry \<Rightarrow> 3)"

section \<open>Conversions\<close>

text \<open>\<open>kStatusDegraded\<close> and the code of \<open>Role::Gateway\<close> are the library's.\<close>

definition toStatusBlock :: "u16 \<Rightarrow> status_counters \<Rightarrow> btp_status" where
  "toStatusBlock degradedFlag counters =
     \<lparr>st_flags = (if sc_degraded counters then degradedFlag else 0),
      st_uptime_us = sc_uptimeUs counters,
      st_frames_rx = sc_framesRx counters,
      st_frames_tx = sc_framesTx counters,
      st_frames_dropped = sc_framesDropped counters,
      st_crc_errors = sc_crcErrors counters,
      st_decode_errors = sc_decodeErrors counters,
      st_reassembly_completed = sc_reassemblyCompleted counters,
      st_reassembly_timeouts = sc_reassemblyTimeouts counters,
      st_reassembly_rejected = sc_reassemblyRejected counters,
      st_command_duplicates = sc_commandDuplicates counters,
      st_telemetry_dropped = sc_telemetryDropped counters\<rparr>"

definition makeLocalHello :: "u8 \<Rightarrow> local_limits \<Rightarrow> bytes \<Rightarrow> u32 \<Rightarrow> btp_hello" where
  "makeLocalHello gateway limits uuid configRevision =
     \<lparr>he_role = gateway, he_versions = [1],
      he_max_logical_payload = ll_maxLogicalPayload limits,
      he_max_inflight_reassemblies = ll_maxInflightReassemblies limits,
      he_max_subscriptions = ll_maxSubscriptions limits,
      he_max_dedup_entries = ll_maxDedupEntries limits,
      he_session_timeout_ms = ll_sessionTimeoutMs limits,
      he_peer_uuid = take 16 uuid,
      he_config_revision = configRevision\<rparr>"

definition translateLimits :: "btp_limits \<Rightarrow> effective_limits" where
  "translateLimits l =
     \<lparr>el_maxLogicalPayload = li_max_logical_payload l,
      el_maxInflightReassemblies = li_max_inflight_reassemblies l,
      el_maxSubscriptions = li_max_subscriptions l,
      el_maxDedupEntries = li_max_dedup_entries l,
      el_sessionTimeoutMs = li_session_timeout_ms l\<rparr>"

definition kZeroUuid :: bytes where "kZeroUuid = replicate 16 0"

definition classify :: "message_type \<Rightarrow> u16 \<Rightarrow> priority_class" where
  "classify type objectId =
     (case type of
        MtControl \<Rightarrow>
          if objectId = kHelloResultObjectId \<or> objectId = kSessionCloseObjectId \<or>
             objectId = kSessionCloseResultObjectId
          then KSession else KLogStatus
      | MtCommand \<Rightarrow> KSession
      | MtTerminal \<Rightarrow> KTerminal
      | MtLog \<Rightarrow> KLogStatus
      | MtTelemetry \<Rightarrow> KTelemetry
      | MtInvalid \<Rightarrow> KTelemetry)"

fun supports_v1 :: "u8 list \<Rightarrow> bool" where
  "supports_v1 [] = False"
| "supports_v1 (v # vs) = (if v = 1 then True else supports_v1 vs)"

definition parseHello ::
    "(byte_view \<Rightarrow> message_error \<times> btp_hello) \<Rightarrow> byte_view \<Rightarrow> hello_view option \<Rightarrow> hello_parse_error \<times> hello_view option" where
  "parseHello decode_hello payload out =
     (case out of None \<Rightarrow> (HpPayloadTooShort, None)
      | Some _ \<Rightarrow>
        (case decode_hello payload of (err, hello) \<Rightarrow>
           if err \<noteq> MeOk then
             ((case err of
                 MePayloadTooShort \<Rightarrow> HpPayloadTooShort
               | MeTrailingBytes \<Rightarrow> HpSizeMismatch
               | MeReservedNotZero \<Rightarrow> HpNonZeroReservedFlags
               | MeNotAscending \<Rightarrow> HpVersionsNotAscending
               | MeCountTooLarge \<Rightarrow> HpVersionsNotAscending
               | _ \<Rightarrow> HpZeroCapability), out)
           else
             (HpOk, Some \<lparr>hv_role = he_role hello,
                hv_versionCount = of_nat (length (he_versions hello)),
                hv_flags = 0,
                hv_maxLogicalPayload = he_max_logical_payload hello,
                hv_maxInflightReassemblies = he_max_inflight_reassemblies hello,
                hv_maxSubscriptions = he_max_subscriptions hello,
                hv_maxDedupEntries = he_max_dedup_entries hello,
                hv_sessionTimeoutMs = he_session_timeout_ms hello,
                hv_peerUuid = he_peer_uuid hello,
                hv_configRevision = he_config_revision hello,
                hv_supportsVersion1 = supports_v1 (he_versions hello)\<rparr>)))"

text \<open>\<open>buildStatus\<close> and \<open>buildStatusV2\<close> return the octets written (none is the result 0).\<close>

definition buildStatus :: "u16 \<Rightarrow> (btp_status \<Rightarrow> nat \<Rightarrow> bytes option) \<Rightarrow> status_counters \<Rightarrow> nat \<Rightarrow> bytes" where
  "buildStatus degradedFlag encode_status_v1 counters outputCapacity =
     (case encode_status_v1 (toStatusBlock degradedFlag counters) outputCapacity of
        None \<Rightarrow> [] | Some out \<Rightarrow> out)"

definition topic_scratch :: "topic_status_record \<Rightarrow> btp_topic_status" where
  "topic_scratch t = \<lparr>bt_source_id = ts_sourceId t, bt_topic_id = ts_topicId t,
     bt_subscriber_count = ts_subscriberCount t, bt_effective_rate_millihz = ts_effectiveRateMillihz t,
     bt_bytes_total = ts_bytesTotal t, bt_samples_dropped_total = ts_samplesDroppedTotal t\<rparr>"

definition buildStatusV2 ::
    "u16 \<Rightarrow> (btp_status \<Rightarrow> btp_topic_status list \<Rightarrow> nat \<Rightarrow> bytes option) \<Rightarrow> status_counters \<Rightarrow>
     topic_status_record list option \<Rightarrow> nat \<Rightarrow> nat \<Rightarrow> bytes" where
  "buildStatusV2 degradedFlag encode_status_v2 counters topics topicCount outputCapacity =
     (let base = toStatusBlock degradedFlag counters in
      if topicCount > kMaxStatusTopics \<or> (topics = None \<and> topicCount \<noteq> 0) then []
      else
        let scratch = (case topics of None \<Rightarrow> [] | Some ts \<Rightarrow> map topic_scratch (take topicCount ts))
        in case encode_status_v2 base scratch outputCapacity of None \<Rightarrow> [] | Some out \<Rightarrow> out)"

section \<open>The text of the handshake\<close>

definition isHexDigit :: "char \<Rightarrow> bool" where
  "isHexDigit c \<longleftrightarrow>
     (let n = of_char c :: nat in
      (48 \<le> n \<and> n \<le> 57) \<or> (97 \<le> n \<and> n \<le> 102) \<or> (65 \<le> n \<and> n \<le> 70))"

definition toLowerHex :: "char \<Rightarrow> char" where
  "toLowerHex c =
     (let n = of_char c :: nat in if 65 \<le> n \<and> n \<le> 70 then char_of (n - 65 + 97) else c)"

definition fill_text :: "string \<Rightarrow> string \<Rightarrow> string" where
  "fill_text buf text = text @ [CHR 0x00] @ drop (length text + 1) buf"

definition kPrefix :: string where "kPrefix = ''BTP/1 ENTER ''"
definition kReadyPrefix :: string where "kReadyPrefix = ''BTP/1 READY ''"
definition crlf :: string where "crlf = [CHR 0x0D, CHR 0x0A]"

fun lower_nonce :: "string \<Rightarrow> string option" where
  "lower_nonce [] = Some []"
| "lower_nonce (c # cs) = (if \<not> isHexDigit c then None else map_option ((#) (toLowerHex c)) (lower_nonce cs))"

text \<open>The line is the C string before its NUL; the output buffer is the caller's.\<close>

definition tryParseEnterLine :: "string option \<Rightarrow> string \<Rightarrow> bool \<times> string" where
  "tryParseEnterLine line outReadyLine =
     (case line of None \<Rightarrow> (False, outReadyLine)
      | Some line \<Rightarrow>
        if length line \<noteq> length kPrefix + kNonceHexLength then (False, outReadyLine)
        else if take (length kPrefix) line \<noteq> kPrefix then (False, outReadyLine)
        else case lower_nonce (drop (length kPrefix) line) of
          None \<Rightarrow> (False, outReadyLine)
        | Some nonce \<Rightarrow> (True, fill_text outReadyLine (kReadyPrefix @ nonce @ crlf)))"

definition kHexDigits :: string where "kHexDigits = ''0123456789abcdef''"

definition nonce_hex :: "u64 \<Rightarrow> string" where
  "nonce_hex nonce = map (\<lambda>shift. kHexDigits ! unat (drop_bit shift nonce AND 0xF)) (rev (map ((*) 4) [0..<16]))"

definition buildReadyLineFromNonce :: "u64 \<Rightarrow> string \<Rightarrow> string" where
  "buildReadyLineFromNonce nonce outReadyLine = fill_text outReadyLine (kReadyPrefix @ nonce_hex nonce @ crlf)"

definition buildConsoleLine :: "string \<Rightarrow> string" where
  "buildConsoleLine outConsoleLine = fill_text outConsoleLine (''BTP/1 CONSOLE'' @ crlf)"

section \<open>The session\<close>

record 'n session =
  s_local :: local_limits
  s_localHello :: btp_hello
  s_localUuid :: bytes
  s_localConfigRevision :: u32
  s_timeoutLatched :: bool
  s_pendingFrame :: bytes
  s_pendingFrameSize :: nat
  s_node :: 'n

datatype state = Console | AwaitingHello | Protocolled

datatype frame_outcome =
    FoIgnored | FoHelloAccepted | FoHelloRejected | FoSessionClosed | FoCommandRequest | FoTerminalIn
  | FoManifestRequest | FoSubscribeRequest | FoUnsubscribeRequest

record frame_result =
  fr_outcome :: frame_outcome
  fr_consoleTransition :: bool
  fr_consoleLine :: string

definition FrameResult :: frame_result where
  "FrameResult = \<lparr>fr_outcome = FoIgnored, fr_consoleTransition = False,
                  fr_consoleLine = replicate kConsoleLineCapacity (CHR 0x00)\<rparr>"

definition Session :: "'n node_api \<Rightarrow> u8 \<Rightarrow> local_limits \<Rightarrow> 'n \<Rightarrow> 'n session" where
  "Session api gateway localLimits node =
     (let hello = makeLocalHello gateway localLimits kZeroUuid 0 in
      \<lparr>s_local = localLimits, s_localHello = hello, s_localUuid = replicate 16 0, s_localConfigRevision = 0,
       s_timeoutLatched = False, s_pendingFrame = replicate kMaxSessionReplyFrameBytes 0, s_pendingFrameSize = 0,
       s_node = nd_enable_session api hello kHelloDeadlineMs node\<rparr>)"

text \<open>\<open>Session::send\<close>, the node's callback: the test of the size and the copy.\<close>

definition send_accepts :: "bytes \<Rightarrow> bool" where
  "send_accepts frame \<longleftrightarrow> \<not> length frame > kMaxSessionReplyFrameBytes"

definition session_send :: "bytes \<Rightarrow> 'n session \<Rightarrow> 'n session" where
  "session_send frame s =
     (if \<not> send_accepts frame then s
      else s\<lparr>s_pendingFrame := frame @ drop (length frame) (s_pendingFrame s), s_pendingFrameSize := length frame\<rparr>)"

definition pendingFrame :: "'n session \<Rightarrow> bytes" where
  "pendingFrame s = take (s_pendingFrameSize s) (s_pendingFrame s)"

definition session_state :: "'n node_api \<Rightarrow> 'n session \<Rightarrow> state" where
  "session_state api s =
     (if s_timeoutLatched s then Protocolled
      else case nd_state api (s_node s) of
        SsIdle \<Rightarrow> Console | SsAwaitingHello \<Rightarrow> AwaitingHello | SsActive \<Rightarrow> Protocolled)"

definition refreshLocalHello :: "'n node_api \<Rightarrow> u8 \<Rightarrow> 'n session \<Rightarrow> 'n session" where
  "refreshLocalHello api gateway s =
     (let hello = makeLocalHello gateway (s_local s) (s_localUuid s) (s_localConfigRevision s)
      in s\<lparr>s_localHello := hello, s_node := nd_set_local api hello (s_node s)\<rparr>)"

definition setLocalUuid :: "'n node_api \<Rightarrow> u8 \<Rightarrow> bytes option \<Rightarrow> 'n session \<Rightarrow> 'n session" where
  "setLocalUuid api gateway uuid s =
     (case uuid of None \<Rightarrow> s
      | Some u \<Rightarrow> refreshLocalHello api gateway (s\<lparr>s_localUuid := take 16 u\<rparr>))"

definition setLocalConfigRevision :: "'n node_api \<Rightarrow> u8 \<Rightarrow> u32 \<Rightarrow> 'n session \<Rightarrow> 'n session" where
  "setLocalConfigRevision api gateway configRevision s =
     refreshLocalHello api gateway (s\<lparr>s_localConfigRevision := configRevision\<rparr>)"

definition session_configureIdentity :: "'n node_api \<Rightarrow> u32 \<Rightarrow> u32 \<Rightarrow> 'n session \<Rightarrow> 'n session" where
  "session_configureIdentity api sourceId bootId s = s\<lparr>s_node := nd_begin api sourceId bootId (s_node s)\<rparr>"

definition beginNegotiation :: "'n node_api \<Rightarrow> u64 \<Rightarrow> 'n session \<Rightarrow> 'n session" where
  "beginNegotiation api nowMs s =
     s\<lparr>s_timeoutLatched := False, s_node := nd_arm api nowMs (snd (nd_reset api (s_node s)))\<rparr>"

definition classifyProtocolObject :: "btp_header \<Rightarrow> frame_outcome" where
  "classifyProtocolObject header =
     (if hd_type header = MtCommand \<and> hd_object_id header = kCommandRequestObjectId then FoCommandRequest
      else if hd_type header = MtTerminal \<and> hd_object_id header = kTerminalInObjectId then FoTerminalIn
      else if hd_type header = MtControl \<and> hd_object_id header = kManifestRequestObjectId then FoManifestRequest
      else if hd_type header = MtControl \<and> hd_object_id header = kSubscribeObjectId then FoSubscribeRequest
      else if hd_type header = MtControl \<and> hd_object_id header = kUnsubscribeObjectId then FoUnsubscribeRequest
      else FoIgnored)"

definition onFrame ::
    "'n node_api \<Rightarrow> btp_header \<times> bytes \<Rightarrow> u64 \<Rightarrow> 'n session \<Rightarrow> frame_result \<times> 'n session" where
  "onFrame api frame nowMs s =
     (let result = FrameResult;
          s = s\<lparr>s_pendingFrameSize := 0\<rparr>;
          (rx, msg, sent, node) = nd_receive api send_accepts frame nowMs (s_node s);
          s = fold session_send sent (s\<lparr>s_node := node\<rparr>)
      in case rx of
           NrPending \<Rightarrow> (result, s)
         | NrNoDatagram \<Rightarrow> (result, s)
         | NrDroppedFrame \<Rightarrow> (result, s)
         | NrSessionHandled \<Rightarrow>
             (case nd_session_event api (s_node s) of
                SeNone \<Rightarrow> (result, s)
              | SeTimedOut \<Rightarrow> (result, s\<lparr>s_timeoutLatched := True\<rparr>)
              | SeHelloAccepted \<Rightarrow> (result\<lparr>fr_outcome := FoHelloAccepted\<rparr>, s)
              | SeHelloRejected \<Rightarrow>
                  (result\<lparr>fr_outcome := FoHelloRejected, fr_consoleTransition := True,
                          fr_consoleLine := buildConsoleLine (fr_consoleLine result)\<rparr>, s)
              | SeSessionClosed \<Rightarrow>
                  (result\<lparr>fr_outcome := FoSessionClosed, fr_consoleTransition := True,
                          fr_consoleLine := buildConsoleLine (fr_consoleLine result)\<rparr>, s)
              | SeFrameAccepted \<Rightarrow> (result, s)
              | SeAbandoned \<Rightarrow> (result, s))
         | NrComplete \<Rightarrow> (result\<lparr>fr_outcome := classifyProtocolObject msg\<rparr>, s)
         | NrOther _ \<Rightarrow> (result, s))"

definition pollTimeout :: "'n node_api \<Rightarrow> u64 \<Rightarrow> string \<Rightarrow> 'n session \<Rightarrow> bool \<times> string \<times> 'n session" where
  "pollTimeout api nowMs outConsoleLine s =
     (if s_timeoutLatched s then (True, buildConsoleLine outConsoleLine, s\<lparr>s_timeoutLatched := False\<rparr>)
      else
        let s = s\<lparr>s_pendingFrameSize := 0\<rparr>;
            (ev, sent, node) = nd_tick api send_accepts nowMs (s_node s);
            s = fold session_send sent (s\<lparr>s_node := node\<rparr>)
        in if ev = SeTimedOut then (True, buildConsoleLine outConsoleLine, s)
           else (False, outConsoleLine, s))"

definition onTransportLost :: "'n node_api \<Rightarrow> 'n session \<Rightarrow> bool \<times> 'n session" where
  "onTransportLost api s =
     (let (ev, node) = nd_reset api (s_node s)
      in (ev = SeAbandoned, s\<lparr>s_timeoutLatched := False, s_node := node\<rparr>))"

definition effectiveLimits :: "'n node_api \<Rightarrow> 'n session \<Rightarrow> effective_limits" where
  "effectiveLimits api s = translateLimits (nd_effective_limits api (s_node s))"

definition peerSourceId :: "'n node_api \<Rightarrow> 'n session \<Rightarrow> u32" where
  "peerSourceId api s = nd_peer_source_id api (s_node s)"

definition peerBootId :: "'n node_api \<Rightarrow> 'n session \<Rightarrow> u32" where
  "peerBootId api s = nd_peer_boot_id api (s_node s)"

end
