(* ===== verification/Serial_Session_Proofs.thy ===== *)
theory Serial_Session_Proofs
  imports Serial_Session
begin

text \<open>
  What lib/SerialSession guarantees: which lines enter the protocol and what they are answered
  with, that a timeout the node noticed while a frame arrived is reported exactly once, and that
  the reply a caller finds staged is exactly the one the node last handed over.
\<close>

unbundle bit_operations_syntax

section \<open>Hexadecimal nonces\<close>

text \<open>The value of a hexadecimal digit of either case, and of a string of them.\<close>

definition lower_digits :: string where "lower_digits = ''0123456789abcdef''"
definition hex_chars :: "char set" where "hex_chars = set ''0123456789abcdefABCDEF''"

definition hex_digit :: "char \<Rightarrow> nat" where
  "hex_digit c = (case find (\<lambda>d. c = lower_digits ! d \<or> c = ''0123456789ABCDEF'' ! d) [0..<16] of
                    Some d \<Rightarrow> d | None \<Rightarrow> 0)"

definition hex_value :: "string \<Rightarrow> nat" where
  "hex_value h = foldl (\<lambda>v c. 16 * v + hex_digit c) 0 h"

lemma hex_chars_ok:
  "\<forall>c\<in>hex_chars. isHexDigit c \<and> toLowerHex c = lower_digits ! hex_digit c \<and> hex_digit c < 16"
  by code_simp

lemma hex_codes: "\<forall>n\<in>set ([48..<58] @ [97..<103] @ [65..<71]). char_of (n :: nat) \<in> hex_chars"
  by code_simp

lemma isHexDigit_iff: "isHexDigit c \<longleftrightarrow> c \<in> hex_chars"
proof
  assume "isHexDigit c"
  then have "(of_char c :: nat) \<in> set ([48..<58] @ [97..<103] @ [65..<71])"
    unfolding isHexDigit_def Let_def set_append Un_iff set_upt atLeastLessThan_iff by linarith
  with hex_codes have "char_of (of_char c :: nat) \<in> hex_chars" by blast
  then show "c \<in> hex_chars" by simp
qed (use hex_chars_ok in blast)

lemma lower_nonce_eq:
  "lower_nonce h = (if set h \<subseteq> hex_chars then Some (map (\<lambda>c. lower_digits ! hex_digit c) h) else None)"
proof (induction h)
  case (Cons c h)
  then show ?case using hex_chars_ok by (auto simp: isHexDigit_iff)
qed simp

lemma hex_value_snoc [simp]: "hex_value (h @ [c]) = 16 * hex_value h + hex_digit c"
  by (simp add: hex_value_def)

lemma hex_value_bound: "set h \<subseteq> hex_chars \<Longrightarrow> hex_value h < 16 ^ length h"
proof (induction h rule: rev_induct)
  case Nil
  then show ?case by (simp add: hex_value_def)
next
  case (snoc c h)
  then have "hex_digit c < 16" "hex_value h < 16 ^ length h" using hex_chars_ok by auto
  then show ?case by simp
qed

lemma hex_value_digit:
  "set h \<subseteq> hex_chars \<Longrightarrow> i < length h \<Longrightarrow> hex_value h div 16 ^ (length h - 1 - i) mod 16 = hex_digit (h ! i)"
proof (induction h rule: rev_induct)
  case (snoc c h)
  then have d: "hex_digit c < 16" using hex_chars_ok by auto
  show ?case
  proof (cases "i = length h")
    case True
    with d show ?thesis by simp
  next
    case False
    with snoc.prems have i: "i < length h" by simp
    have "(16 * hex_value h + hex_digit c) div 16 = hex_value h" using d by simp
    moreover have "length (h @ [c]) - 1 - i = Suc (length h - 1 - i)" using i by simp
    ultimately have "hex_value (h @ [c]) div 16 ^ (length (h @ [c]) - 1 - i) = hex_value h div 16 ^ (length h - 1 - i)"
      by (simp only: hex_value_snoc power_Suc div_mult2_eq)
    with snoc i show ?thesis by (simp add: nth_append)
  qed
qed simp

lemma low_nibble: "unat (drop_bit s (n :: u64) AND 0xF) = unat n div 2 ^ s mod 16"
proof -
  have "(0xF :: u64) = mask 4" by (simp add: mask_eq_exp_minus_1)
  then have "drop_bit s n AND 0xF = take_bit 4 (drop_bit s n)" by (simp add: take_bit_eq_mask)
  then have "unat (drop_bit s n AND 0xF) = take_bit 4 (unat (drop_bit s n))" by (simp only: unsigned_take_bit_eq)
  then show ?thesis by (simp add: take_bit_eq_mod unat_drop_bit_div del: drop_bit_eq_div)
qed

lemma nonce_hex_of_value:
  assumes "length h = 16" and "set h \<subseteq> hex_chars"
  shows "nonce_hex (of_nat (hex_value h)) = map (\<lambda>c. lower_digits ! hex_digit c) h"
proof (rule nth_equalityI)
  fix i assume "i < length (nonce_hex (of_nat (hex_value h)))"
  then have i: "i < 16" by (simp add: nonce_hex_def)
  have "hex_value h < 2 ^ 64" using hex_value_bound [OF assms(2)] assms(1) by simp
  then have v: "unat (of_nat (hex_value h) :: u64) = hex_value h"
    by (simp add: unsigned_of_nat take_bit_nat_eq_self)
  have "rev (map ((*) 4) [0..<16]) ! i = 4 * (15 - i)" using i by (simp add: rev_nth)
  then have "nonce_hex (of_nat (hex_value h)) ! i = kHexDigits ! (hex_value h div 2 ^ (4 * (15 - i)) mod 16)"
    using i by (simp add: nonce_hex_def low_nibble v del: rev_map)
  also have "\<dots> = kHexDigits ! hex_digit (h ! i)"
    using hex_value_digit [OF assms(2), of i] i assms(1) by (simp add: power_mult)
  finally show "nonce_hex (of_nat (hex_value h)) ! i = map (\<lambda>c. lower_digits ! hex_digit c) h ! i"
    using i assms(1) by (simp add: kHexDigits_def lower_digits_def)
qed (use assms in \<open>simp add: nonce_hex_def\<close>)

lemma kPrefix_length: "length kPrefix = 12" by (simp add: kPrefix_def)

text \<open>A console line enters the protocol exactly when it is "BTP/1 ENTER " followed by sixteen
  hexadecimal digits of either case; the answer is the READY line of the 64-bit number they
  denote, the same line the local command path builds from a nonce, and any other line leaves
  the caller's buffer untouched.\<close>

theorem enter_line_answered:
  "(tryParseEnterLine (Some line) buf = (True, out) \<longleftrightarrow>
      (\<exists>h. line = ''BTP/1 ENTER '' @ h \<and> length h = 16 \<and> (\<forall>c\<in>set h. c \<in> hex_chars) \<and>
           out = buildReadyLineFromNonce (of_nat (hex_value h)) buf)) \<and>
   (fst (tryParseEnterLine (Some line) buf) \<or> snd (tryParseEnterLine (Some line) buf) = buf)"
proof (cases "\<exists>h. line = ''BTP/1 ENTER '' @ h \<and> length h = 16")
  case True
  then obtain h where h: "line = ''BTP/1 ENTER '' @ h" "length h = 16" by blast
  have "tryParseEnterLine (Some line) buf =
      (if set h \<subseteq> hex_chars then (True, buildReadyLineFromNonce (of_nat (hex_value h)) buf) else (False, buf))"
    using h by (simp add: tryParseEnterLine_def kPrefix_def kNonceHexLength_def lower_nonce_eq
        nonce_hex_of_value buildReadyLineFromNonce_def)
  then show ?thesis using h by auto
next
  case False
  have "take 12 line \<noteq> ''BTP/1 ENTER ''" if "length line = 28"
  proof
    assume "take 12 line = ''BTP/1 ENTER ''"
    then have "line = ''BTP/1 ENTER '' @ drop 12 line" using append_take_drop_id [of 12 line] by (simp only:)
    moreover have "length (drop 12 line) = 16" using that by simp
    ultimately show False using False by blast
  qed
  then have "tryParseEnterLine (Some line) buf = (False, buf)"
    by (simp add: tryParseEnterLine_def kNonceHexLength_def kPrefix_length) (auto simp: kPrefix_def)
  with False show ?thesis by auto
qed

theorem enter_line_answered_witness:
  "tryParseEnterLine (Some ''BTP/1 ENTER 00000000DEADbeef'') (replicate 32 (CHR 0x00)) =
     (True, buildReadyLineFromNonce (of_nat (hex_value ''00000000DEADbeef'')) (replicate 32 (CHR 0x00)))"
  by (subst enter_line_answered [THEN conjunct1])
     (rule exI [of _ "''00000000DEADbeef''"], simp add: hex_chars_def)

section \<open>Timeouts\<close>

lemma session_send_frame [simp]:
  "s_node (session_send f s) = s_node s"
  "s_timeoutLatched (session_send f s) = s_timeoutLatched s"
  by (simp_all add: session_send_def)

lemma session_sends_frame [simp]:
  "s_node (fold session_send fs s) = s_node s"
  "s_timeoutLatched (fold session_send fs s) = s_timeoutLatched s"
  by (induction fs arbitrary: s) simp_all

text \<open>What the node signals: a deadline it found expired while it handled a frame or a tick.\<close>

definition frame_signals :: "'n node_api \<Rightarrow> btp_header \<times> bytes \<Rightarrow> u64 \<Rightarrow> 'n session \<Rightarrow> bool" where
  "frame_signals api f t s =
     (case nd_receive api send_accepts f t (s_node s) of
        (rx, m, sent, node) \<Rightarrow> rx = NrSessionHandled \<and> nd_session_event api node = SeTimedOut)"

definition tick_signals :: "'n node_api \<Rightarrow> u64 \<Rightarrow> 'n session \<Rightarrow> bool" where
  "tick_signals api t s \<longleftrightarrow> fst (nd_tick api send_accepts t (s_node s)) = SeTimedOut"

lemma onFrame_latches:
  "s_timeoutLatched (snd (onFrame api f t s)) \<longleftrightarrow> s_timeoutLatched s \<or> frame_signals api f t s"
  by (cases "nd_receive api send_accepts f t (s_node s)")
     (auto simp: onFrame_def frame_signals_def Let_def split: node_rx.split session_event.split)

text \<open>The calls of the serial task on a session, with the number of timeouts reported and signalled.\<close>

datatype session_op =
  OpFrame "btp_header \<times> bytes" u64 | OpPoll u64 string | OpBegin u64 | OpLost

fun session_run :: "'n node_api \<Rightarrow> session_op list \<Rightarrow> 'n session \<Rightarrow> nat \<times> nat \<times> 'n session" where
  "session_run api [] s = (0, 0, s)"
| "session_run api (OpFrame f t # ops) s =
     (let (rep, sig, s') = session_run api ops (snd (onFrame api f t s))
      in (rep, sig + (if frame_signals api f t s then 1 else 0), s'))"
| "session_run api (OpPoll t buf # ops) s =
     (let (told, line, s1) = pollTimeout api t buf s; (rep, sig, s') = session_run api ops s1
      in (rep + (if told then 1 else 0), sig + (if \<not> s_timeoutLatched s \<and> tick_signals api t s then 1 else 0), s'))"
| "session_run api (OpBegin t # ops) s = session_run api ops (beginNegotiation api t s)"
| "session_run api (OpLost # ops) s = session_run api ops (snd (onTransportLost api s))"

lemma poll_report:
  "fst (pollTimeout api t buf s) \<longleftrightarrow> s_timeoutLatched s \<or> tick_signals api t s"
  "\<not> s_timeoutLatched (snd (snd (pollTimeout api t buf s)))"
  by (auto simp: pollTimeout_def tick_signals_def Let_def split: prod.split)

lemma reports_bounded:
  "case session_run api ops s of (rep, sig, s') \<Rightarrow>
     rep + (if s_timeoutLatched s' then 1 else 0) \<le> sig + (if s_timeoutLatched s then 1 else 0 :: nat)"
proof (induction ops arbitrary: s)
  case (Cons op ops)
  show ?case
  proof (cases op)
    case (OpFrame f t)
    with Cons [of "snd (onFrame api f t s)"] show ?thesis
      by (auto simp: onFrame_latches split: prod.splits if_splits)
  next
    case (OpPoll t buf)
    obtain told line s1 where p: "pollTimeout api t buf s = (told, line, s1)" by (cases "pollTimeout api t buf s") auto
    with OpPoll Cons [of s1] poll_report [of api t buf s] show ?thesis
      by (auto split: prod.splits if_splits)
  next
    case (OpBegin t)
    with Cons [of "beginNegotiation api t s"] show ?thesis
      by (auto simp: beginNegotiation_def split: prod.splits if_splits)
  next
    case OpLost
    with Cons [of "snd (onTransportLost api s)"] show ?thesis
      by (auto simp: onTransportLost_def split: prod.splits if_splits)
  qed
qed simp

lemma frames_keep_latch:
  "s_timeoutLatched s \<Longrightarrow> s_timeoutLatched (fold (\<lambda>(f, t) s. snd (onFrame api f t s)) frames s)"
  by (induction frames arbitrary: s) (auto simp: onFrame_latches)

text \<open>C12. A timeout the node finds expired while a frame arrives is never lost and never reported
  twice: whatever frames follow, the session keeps looking Protocolled, the next poll reports it
  with the CONSOLE line without touching the node, and the state after that is the node's own.
  Over any history of frames, polls, negotiations and transport losses there are at most as many
  reports as the node signalled timeouts.\<close>

theorem timeout_reported_exactly_once:
  assumes "frame_signals api f t s"
    and "s' = fold (\<lambda>(f, t) s. snd (onFrame api f t s)) frames (snd (onFrame api f t s))"
  shows "session_state api s' = Protocolled \<and>
         (\<exists>s''. pollTimeout api t' buf s' = (True, ''BTP/1 CONSOLE'' @ [CHR 0x0D, CHR 0x0A, CHR 0x00] @ drop 16 buf, s'') \<and>
            s_node s'' = s_node s' \<and> \<not> s_timeoutLatched s'') \<and>
         (\<forall>rep sig z ops s0. \<not> s_timeoutLatched s0 \<and> session_run api ops s0 = (rep, sig, z) \<longrightarrow> rep \<le> sig)"
proof -
  have "s_timeoutLatched s'"
    unfolding assms(2) by (rule frames_keep_latch) (simp add: onFrame_latches assms(1))
  moreover have "rep \<le> sig" if "\<not> s_timeoutLatched s0" "session_run api ops s0 = (rep, sig, z)" for rep sig z ops s0
    using reports_bounded [where ops = ops and s = s0 and api = api] that by (simp split: if_splits)
  ultimately show ?thesis
    by (auto simp: session_state_def pollTimeout_def buildConsoleLine_def fill_text_def crlf_def numeral_eq_Suc)
qed

text \<open>A node that expires on every frame, for the witnesses; it hands over one frame of three octets
  and one that does not fit.\<close>

definition expiring_node :: "nat node_api" where
  "expiring_node =
     \<lparr>nd_receive = (\<lambda>ok f t n. (NrSessionHandled, fst f, [[1, 2, 3], replicate 300 0], n + 1)),
      nd_tick = (\<lambda>ok t n. (SeNone, [], n)), nd_session_event = (\<lambda>n. SeTimedOut), nd_state = (\<lambda>n. SsIdle),
      nd_reset = (\<lambda>n. (SeAbandoned, 0)), nd_arm = (\<lambda>t n. n), nd_set_local = (\<lambda>h n. n),
      nd_begin = (\<lambda>a b n. n), nd_enable_session = (\<lambda>h d n. n),
      nd_effective_limits = (\<lambda>n. \<lparr>li_max_logical_payload = 0, li_max_inflight_reassemblies = 0,
         li_max_subscriptions = 0, li_max_dedup_entries = 0, li_session_timeout_ms = 0\<rparr>),
      nd_peer_source_id = (\<lambda>n. 0), nd_peer_boot_id = (\<lambda>n. 0)\<rparr>"

definition some_frame :: "btp_header \<times> bytes" where
  "some_frame = (\<lparr>hd_type = MtTelemetry, hd_object_id = 1, hd_source_id = 2, hd_boot_id = 3, hd_sequence = 4,
                  hd_timestamp_us = 5\<rparr>, [])"

theorem timeout_reported_exactly_once_witness:
  "\<exists>s''. pollTimeout expiring_node 9 (replicate 20 (CHR 0x00))
      (snd (onFrame expiring_node some_frame 7 (Session expiring_node 0 LocalLimits 0))) =
     (True, ''BTP/1 CONSOLE'' @ [CHR 0x0D, CHR 0x0A, CHR 0x00] @ replicate 4 (CHR 0x00), s'') \<and>
     \<not> s_timeoutLatched s''"
proof -
  let ?s = "Session expiring_node 0 LocalLimits 0"
  have "frame_signals expiring_node some_frame 7 ?s" by (simp add: frame_signals_def expiring_node_def)
  from timeout_reported_exactly_once [OF this, of _ "[]" 9 "replicate 20 (CHR 0x00)", OF refl]
  show ?thesis by auto
qed


section \<open>The staged reply\<close>

lemma fold_sends:
  assumes "length (s_pendingFrame s) = kMaxSessionReplyFrameBytes"
  shows "length (s_pendingFrame (fold session_send fs s)) = kMaxSessionReplyFrameBytes \<and>
         pendingFrame (fold session_send fs s) =
           (case filter send_accepts fs of [] \<Rightarrow> pendingFrame s | gs \<Rightarrow> last gs)"
  using assms
proof (induction fs rule: rev_induct)
  case (snoc f fs)
  then show ?case
    by (auto simp: session_send_def send_accepts_def pendingFrame_def split: list.splits)
qed simp

text \<open>The reply staged by a frame: what the caller finds is exactly the last frame of at most 256
  octets that the node handed over while it processed this frame, and nothing if there was none
  (in particular never the reply of an earlier frame); the staging buffer keeps its 256 octets.\<close>

theorem staged_reply_is_this_frames:
  assumes "length (s_pendingFrame s) = 256" and "nd_receive api send_accepts f t (s_node s) = (rx, m, sent, node)"
  shows "pendingFrame (snd (onFrame api f t s)) =
           (case filter (\<lambda>g. length g \<le> 256) sent of [] \<Rightarrow> [] | gs \<Rightarrow> last gs) \<and>
         length (s_pendingFrame (snd (onFrame api f t s))) = 256"
proof -
  let ?s = "fold session_send sent (s\<lparr>s_pendingFrameSize := 0, s_node := node\<rparr>)"
  have acc: "filter send_accepts sent = filter (\<lambda>g. length g \<le> 256) sent"
    by (rule filter_cong) (auto simp: send_accepts_def kMaxSessionReplyFrameBytes_def)
  have "pendingFrame (snd (onFrame api f t s)) = pendingFrame ?s \<and>
        s_pendingFrame (snd (onFrame api f t s)) = s_pendingFrame ?s"
    using assms(2)
    by (auto simp: onFrame_def pendingFrame_def Let_def split: node_rx.split session_event.split)
  moreover have none: "pendingFrame (s\<lparr>s_pendingFrameSize := 0, s_node := node\<rparr>) = []"
    by (simp add: pendingFrame_def)
  ultimately show ?thesis using fold_sends [of "s\<lparr>s_pendingFrameSize := 0, s_node := node\<rparr>" sent] assms(1) acc
    by (simp add: kMaxSessionReplyFrameBytes_def split: list.split)
qed

theorem staged_reply_is_this_frames_witness:
  "pendingFrame (snd (onFrame expiring_node some_frame 7 (Session expiring_node 0 LocalLimits 0))) = [1, 2, 3]"
proof -
  let ?s = "Session expiring_node 0 LocalLimits 0"
  have "length (s_pendingFrame ?s) = 256" by (simp add: Session_def kMaxSessionReplyFrameBytes_def Let_def)
  moreover have "nd_receive expiring_node send_accepts some_frame 7 (s_node ?s) =
      (NrSessionHandled, fst some_frame, [[1, 2, 3], replicate 300 0], s_node ?s + 1)"
    by (simp add: expiring_node_def)
  ultimately show ?thesis by (simp add: staged_reply_is_this_frames)
qed

end
