(* ===== verification/Radio_Scheduler.thy ===== *)
theory Radio_Scheduler
  imports Dongle_Prelude
begin

text \<open>
  The model of lib/RadioTxScheduler: which priority class owns the next transmission. The choice
  is work-conserving, gives a 4:2:1 share when every class is busy, and never makes a class that
  has something to send wait for more than six other transmissions.
\<close>

datatype priority = Critical | Control | Data

definition kPriorityCount :: nat where "kPriorityCount = 3"
definition kScheduleLength :: nat where "kScheduleLength = 7"

definition class_index :: "priority \<Rightarrow> nat" where
  "class_index p = (case p of Critical \<Rightarrow> 0 | Control \<Rightarrow> 1 | Data \<Rightarrow> 2)"

record selection =
  se_found :: bool
  se_priority :: priority
  se_nextCursor :: nat

definition pattern :: "priority list" where
  "pattern = [Critical, Critical, Control, Critical, Control, Critical, Data]"

fun choose_loop :: "nat \<Rightarrow> bool list \<Rightarrow> nat \<Rightarrow> selection" where
  "choose_loop 0 available cursor = \<lparr>se_found = False, se_priority = Critical, se_nextCursor = cursor\<rparr>"
| "choose_loop (Suc attempts) available cursor =
     (let candidate = pattern ! cursor; cursor = (cursor + 1) mod kScheduleLength in
      if available ! class_index candidate
      then \<lparr>se_found = True, se_priority = candidate, se_nextCursor = cursor\<rparr>
      else choose_loop attempts available cursor)"

definition choose_tx :: "bool list option \<Rightarrow> nat \<Rightarrow> selection" where
  "choose_tx available cursor =
     (case available of
        None \<Rightarrow> \<lparr>se_found = False, se_priority = Critical, se_nextCursor = 0\<rparr>
      | Some av \<Rightarrow> choose_loop kScheduleLength av (cursor mod kScheduleLength))"

text \<open>The number of entries of the pattern from a cursor to the next one of a class.\<close>

definition distance :: "priority \<Rightarrow> nat \<Rightarrow> nat" where
  "distance p cursor = length (takeWhile (\<lambda>k. pattern ! ((cursor + k) mod 7) \<noteq> p) [0..<7])"

text \<open>All cursors and availabilities, checked by evaluation.\<close>

lemma choose_all:
  "\<forall>cursor\<in>set [0..<7]. \<forall>a\<in>{True, False}. \<forall>b\<in>{True, False}. \<forall>c\<in>{True, False}.
     let s = choose_loop kScheduleLength [a, b, c] cursor in
     (se_found s \<longleftrightarrow> a \<or> b \<or> c) \<and> se_nextCursor s < 7 \<and>
     (se_found s \<longrightarrow> [a, b, c] ! class_index (se_priority s)) \<and>
     (\<forall>p\<in>{Critical, Control, Data}. [a, b, c] ! class_index p \<longrightarrow>
        distance p cursor < 7 \<and> (se_priority s = p \<or> distance p (se_nextCursor s) < distance p cursor))"
  by code_simp

lemma ex_class: "(\<exists>p. P (class_index p)) \<longleftrightarrow> P 0 \<or> P 1 \<or> P 2"
proof
  assume "\<exists>p. P (class_index p)"
  then obtain p where "P (class_index p)" ..
  then show "P 0 \<or> P 1 \<or> P 2" by (cases p) (simp_all add: class_index_def)
next
  assume "P 0 \<or> P 1 \<or> P 2"
  then show "\<exists>p. P (class_index p)"
    by (metis class_index_def priority.simps(7) priority.simps(8) priority.simps(9))
qed

lemma choose_tx_cases:
  assumes "length av = 3"
  shows "se_found (choose_tx (Some av) cursor) \<longleftrightarrow> (\<exists>p. av ! class_index p)"
    and "se_nextCursor (choose_tx (Some av) cursor) < 7"
    and "se_found (choose_tx (Some av) cursor) \<Longrightarrow> av ! class_index (se_priority (choose_tx (Some av) cursor))"
    and "av ! class_index p \<Longrightarrow> distance p (cursor mod 7) < 7 \<and>
           (se_priority (choose_tx (Some av) cursor) = p \<or>
            distance p (se_nextCursor (choose_tx (Some av) cursor)) < distance p (cursor mod 7))"
proof -
  obtain a b c where av: "av = [a, b, c]" using assms by (auto simp: length_Suc_conv numeral_eq_Suc)
  define s where "s = choose_tx (Some av) cursor"
  have s: "s = choose_loop kScheduleLength [a, b, c] (cursor mod 7)"
    by (simp add: s_def choose_tx_def av kScheduleLength_def)
  have "cursor mod 7 \<in> set [0..<7]" by simp
  with choose_all have "(se_found s \<longleftrightarrow> a \<or> b \<or> c) \<and> se_nextCursor s < 7 \<and>
     (se_found s \<longrightarrow> [a, b, c] ! class_index (se_priority s)) \<and>
     (\<forall>p\<in>{Critical, Control, Data}. [a, b, c] ! class_index p \<longrightarrow>
        distance p (cursor mod 7) < 7 \<and>
        (se_priority s = p \<or> distance p (se_nextCursor s) < distance p (cursor mod 7)))"
    unfolding s Let_def by blast
  note all = this [folded av]
  have idx: "(\<exists>p. av ! class_index p) \<longleftrightarrow> a \<or> b \<or> c" unfolding av by (simp add: ex_class)
  show "se_found (choose_tx (Some av) cursor) \<longleftrightarrow> (\<exists>p. av ! class_index p)"
    "se_nextCursor (choose_tx (Some av) cursor) < 7"
    "se_found (choose_tx (Some av) cursor) \<Longrightarrow> av ! class_index (se_priority (choose_tx (Some av) cursor))"
    unfolding idx s_def [symmetric] using all by blast+
  have "p \<in> {Critical, Control, Data}" by (cases p) simp_all
  with all show "av ! class_index p \<Longrightarrow> distance p (cursor mod 7) < 7 \<and>
           (se_priority (choose_tx (Some av) cursor) = p \<or>
            distance p (se_nextCursor (choose_tx (Some av) cursor)) < distance p (cursor mod 7))"
    unfolding s_def [symmetric] by blast
qed

text \<open>The classes granted along a sequence of choices, the cursor threaded through.\<close>

fun grants :: "nat \<Rightarrow> bool list list \<Rightarrow> priority list" where
  "grants cursor [] = []"
| "grants cursor (av # avs) =
     (let s = choose_tx (Some av) cursor in
      if se_found s then se_priority s # grants (se_nextCursor s) avs else grants (se_nextCursor s) avs)"

lemma granted_within_distance:
  assumes "\<forall>av\<in>set avs. length av = 3 \<and> av ! class_index p" and "distance p (cursor mod 7) < length avs"
  shows "p \<in> set (grants cursor avs)"
  using assms
proof (induction avs arbitrary: cursor)
  case (Cons av avs)
  let ?s = "choose_tx (Some av) cursor"
  have l: "length av = 3" and a: "av ! class_index p" using Cons.prems by auto
  have f: "se_found ?s" using choose_tx_cases(1) [OF l] a by blast
  have n: "se_nextCursor ?s mod 7 = se_nextCursor ?s" using choose_tx_cases(2) [OF l, of cursor] by simp
  from choose_tx_cases(4) [OF l a, of cursor] show ?case
  proof (elim conjE disjE)
    assume "distance p (se_nextCursor ?s) < distance p (cursor mod 7)"
    with Cons.prems n have "p \<in> set (grants (se_nextCursor ?s) avs)" by (intro Cons.IH) auto
    with f show ?thesis by (simp add: Let_def)
  qed (use f in \<open>simp add: Let_def\<close>)
qed simp

text \<open>C13. The radio scheduler wastes no slot and starves nobody. From any cursor it finds a class
  exactly when some class has a frame and then picks one that has; whatever the other classes do,
  a class that keeps having a frame is granted within seven consecutive choices; and with all
  three classes busy any seven consecutive choices are four Critical, two Control and one Data.\<close>

theorem radio_scheduler_fair:
  assumes "length av = 3" and "length avs = 7" and "\<forall>bs\<in>set avs. length bs = 3 \<and> bs ! class_index p"
  shows "(se_found (choose_tx (Some av) cursor) \<longleftrightarrow> av ! 0 \<or> av ! 1 \<or> av ! 2) \<and>
         (se_found (choose_tx (Some av) cursor) \<longrightarrow> av ! class_index (se_priority (choose_tx (Some av) cursor))) \<and>
         p \<in> set (grants cursor avs) \<and>
         (let g = grants cursor (replicate 7 [True, True, True]) in
          count_list g Critical = 4 \<and> count_list g Control = 2 \<and> count_list g Data = 1)"
proof -
  have some: "(\<exists>p. av ! class_index p) \<longleftrightarrow> av ! 0 \<or> av ! 1 \<or> av ! 2"
    by (rule ex_class)
  have "bs \<in> set avs" if "bs = avs ! 0" for bs using that assms(2) by simp
  then have "distance p (cursor mod 7) < length avs"
    using choose_tx_cases(4) [of "avs ! 0" p cursor] assms(2,3) by auto
  with assms(3) have granted: "p \<in> set (grants cursor avs)" by (rule granted_within_distance)
  have shares: "\<forall>k\<in>set [0..<7]. let g = grants k (replicate 7 [True, True, True]) in
      count_list g Critical = 4 \<and> count_list g Control = 2 \<and> count_list g Data = 1"
    by code_simp
  have same: "choose_tx (Some bs) (cursor mod 7) = choose_tx (Some bs) cursor" for bs
    by (simp add: choose_tx_def kScheduleLength_def)
  have "replicate 7 [True, True, True] = [True, True, True] # replicate 6 [True, True, True]"
    by (simp add: numeral_eq_Suc)
  then have "grants cursor (replicate 7 [True, True, True]) = grants (cursor mod 7) (replicate 7 [True, True, True])"
    by (simp only: grants.simps same)
  moreover have "cursor mod 7 \<in> set [0..<7]" by simp
  ultimately have "let g = grants cursor (replicate 7 [True, True, True]) in
      count_list g Critical = 4 \<and> count_list g Control = 2 \<and> count_list g Data = 1"
    using shares by (simp only:)
  with granted choose_tx_cases(1) [OF assms(1), of cursor] choose_tx_cases(3) [OF assms(1), of cursor] some
  show ?thesis by blast
qed

theorem radio_scheduler_fair_witness:
  "se_found (choose_tx (Some [False, False, True]) 3) \<and> Data \<in> set (grants 0 (replicate 7 [True, True, True]))"
proof -
  have pre: "length [False, False, True] = 3" "length [True, True, True] = 3"
    "length (replicate 7 [True, True, True]) = 7"
    "\<forall>bs\<in>set (replicate 7 [True, True, True]). length bs = 3 \<and> bs ! class_index Data"
    by (simp_all add: class_index_def)
  show ?thesis
    using radio_scheduler_fair [OF pre(1,3,4), of 3] radio_scheduler_fair [OF pre(2,3,4), of 0] by force
qed

end
