(* ===== verification/Radio_Tx.thy ===== *)
theory Radio_Tx
  imports Radio_Scheduler Peer_Table
begin

text \<open>
  The model of the transmission half of lib/EspNowManager: three bounded FreeRTOS queues, the one
  worker task that hands frames to the driver and waits for its callback, and the callers that
  wait for a delivery status through one of four completion slots.

  The tasks interleave. An atomic step is the code between two blocking or shared-memory
  operations: a critical section, a queue or semaphore call, a call of the driver. \<open>worker_pc\<close> and
  \<open>caller_pc\<close> are the program counters; the caller that holds slot i is caller i (between
  \<open>acquireCompletionSlot\<close> and \<open>releaseCompletionSlot\<close> a slot has one holder). \<open>tx_log\<close> and
  \<open>tx_acquired\<close> are not in the code: they record what the driver was given, what it answered and
  what callers were told, and how often a slot was taken. A blocking receive returns what is in
  the queue; when the queue is empty it may time out at any moment, so the real timing is
  one of the behaviours of the model.
\<close>

unbundle bit_operations_syntax

section \<open>Constants and state\<close>

definition kTxQueueDepth :: "nat list" where "kTxQueueDepth = [6, 4, 12]"
definition kNoCompletionSlot :: nat where "kNoCompletionSlot = 0xFF"
definition kCompletionSlotCount :: nat where "kCompletionSlotCount = 4"
definition kAsyncCallbackTimeoutMs :: u32 where "kAsyncCallbackTimeoutMs = 60"
definition kLateCallbackGraceMs :: u32 where "kLateCallbackGraceMs = 100"
definition kDriverStatusDepth :: nat where "kDriverStatusDepth = 4"
definition MAX_DATA_LEN :: nat where "MAX_DATA_LEN = 250"

record tx_request =
  tq_mac :: mac
  tq_data :: bytes
  tq_slot :: nat
  tq_generation :: u32
  tq_enqueuedMs :: u32
  tq_timeoutMs :: u32

text \<open>\<open>cp_signal\<close>: the binary semaphore, \<open>None\<close> before it is created.\<close>

record completion_slot =
  cp_signal :: "bool option"
  cp_inUse :: bool
  cp_generation :: u32
  cp_callbackReceived :: bool
  cp_delivered :: bool

text \<open>\<open>WGive i k\<close>: the semaphore of slot i is about to be given, then \<open>k\<close>. \<open>WSend\<close> is after the
  checks and before the driver call, \<open>WWait\<close> in the loop that waits for the callback (its start
  and its budget), \<open>WGraceStart\<close> and \<open>WGrace\<close> in the wait for a late callback.\<close>

datatype worker_pc =
    WLoop
  | WSend tx_request u32
  | WWait tx_request u32 u32
  | WGraceStart tx_request
  | WGrace tx_request u32
  | WGive nat worker_pc
  | WStopped

datatype caller_pc =
    CFree
  | CDrain u32 tx_request priority
  | CEnqueue u32 tx_request priority
  | CWait tx_request
  | CRead tx_request
  | CRelease tx_request "bool option"

datatype tx_event =
    EvAccepted tx_request
  | EvStatus tx_request mac bool
  | EvReturned tx_request "bool option"

record tx_state =
  tx_queues :: "tx_request list list"
  tx_status :: "(mac \<times> bool) list"
  tx_slots :: "completion_slot list"
  tx_worker :: worker_pc
  tx_cursor :: nat
  tx_running :: bool
  tx_enqueued :: "u32 list"
  tx_dropped :: "u32 list"
  tx_driverRejected :: u32
  tx_callbackTimeouts :: u32
  tx_callbacksReceived :: u32
  tx_callers :: "caller_pc list"
  tx_acquired :: "nat list"
  tx_log :: "tx_event list"

section \<open>Shared helpers\<close>

definition completionStillActive :: "tx_request \<Rightarrow> completion_slot list \<Rightarrow> bool" where
  "completionStillActive request slots =
     (if tq_slot request = kNoCompletionSlot \<or> tq_slot request \<ge> kCompletionSlotCount then True
      else let slot = slots ! tq_slot request
           in cp_inUse slot \<and> cp_generation slot = tq_generation request)"

text \<open>\<open>completeRequest\<close>: its critical section, then the semaphore to give, if any.\<close>

definition completeRequest :: "tx_request \<Rightarrow> bool \<Rightarrow> bool \<Rightarrow> worker_pc \<Rightarrow> tx_state \<Rightarrow> tx_state" where
  "completeRequest request callbackReceived delivered k st =
     (if tq_slot request = kNoCompletionSlot \<or> tq_slot request \<ge> kCompletionSlotCount then st\<lparr>tx_worker := k\<rparr>
      else
        let i = tq_slot request; slot = tx_slots st ! i in
        if cp_inUse slot \<and> cp_generation slot = tq_generation request then
          st\<lparr>tx_slots := (tx_slots st)[i := slot\<lparr>cp_callbackReceived := callbackReceived, cp_delivered := delivered\<rparr>],
             tx_worker := (if cp_signal slot \<noteq> None then WGive i k else k)\<rparr>
        else st\<lparr>tx_worker := k\<rparr>)"

definition semaphore_give :: "nat \<Rightarrow> completion_slot list \<Rightarrow> completion_slot list" where
  "semaphore_give i slots = slots[i := (slots ! i)\<lparr>cp_signal := Some True\<rparr>]"

definition bump :: "nat \<Rightarrow> u32 list \<Rightarrow> u32 list" where
  "bump i counters = counters[i := counters ! i + 1]"

definition dequeueScheduled :: "tx_state \<Rightarrow> tx_request option \<times> tx_state" where
  "dequeueScheduled st =
     (let available = map (\<lambda>q. q \<noteq> []) (tx_queues st);
          selected = choose_tx (Some available) (tx_cursor st);
          st = st\<lparr>tx_cursor := se_nextCursor selected\<rparr>
      in if \<not> se_found selected then (None, st)
         else let i = class_index (se_priority selected) in
           case tx_queues st ! i of
             [] \<Rightarrow> (None, st)
           | r # rs \<Rightarrow> (Some r, st\<lparr>tx_queues := (tx_queues st)[i := rs]\<rparr>))"

definition enqueueRequest :: "tx_request \<Rightarrow> priority \<Rightarrow> tx_state \<Rightarrow> bool \<times> tx_state" where
  "enqueueRequest request prio st =
     (let index = class_index prio in
      if \<not> tx_running st \<or> length (tx_queues st ! index) \<ge> kTxQueueDepth ! index
      then (False, st\<lparr>tx_dropped := bump index (tx_dropped st)\<rparr>)
      else (True, st\<lparr>tx_queues := (tx_queues st)[index := tx_queues st ! index @ [request]],
                     tx_enqueued := bump index (tx_enqueued st)\<rparr>))"

section \<open>The worker task\<close>

text \<open>The head of the loop up to the driver call; an empty set of queues blocks until a notification
  and tries again.\<close>

definition worker_pick :: "u32 \<Rightarrow> tx_state \<Rightarrow> tx_state" where
  "worker_pick now st =
     (if \<not> tx_running st then st\<lparr>tx_worker := WStopped\<rparr>
      else case dequeueScheduled st of
        (None, st) \<Rightarrow> st
      | (Some request, st) \<Rightarrow>
          if \<not> completionStillActive request (tx_slots st) then st
          else if tq_slot request \<noteq> kNoCompletionSlot then
            let elapsed = now - tq_enqueuedMs request in
            if elapsed \<ge> tq_timeoutMs request then completeRequest request False False WLoop st
            else st\<lparr>tx_worker := WSend request (tq_timeoutMs request - elapsed)\<rparr>
          else st\<lparr>tx_worker := WSend request kAsyncCallbackTimeoutMs\<rparr>)"

definition worker_send :: "bool \<Rightarrow> u32 \<Rightarrow> tx_request \<Rightarrow> u32 \<Rightarrow> tx_state \<Rightarrow> tx_state" where
  "worker_send accepted now request budget st =
     (let st = st\<lparr>tx_status := []\<rparr> in
      if \<not> accepted
      then completeRequest request False False WLoop (st\<lparr>tx_driverRejected := tx_driverRejected st + 1\<rparr>)
      else st\<lparr>tx_worker := WWait request now budget, tx_log := tx_log st @ [EvAccepted request]\<rparr>)"

definition worker_missed :: "tx_request \<Rightarrow> tx_state \<Rightarrow> tx_state" where
  "worker_missed request st =
     completeRequest request False False (WGraceStart request)
       (st\<lparr>tx_callbackTimeouts := tx_callbackTimeouts st + 1\<rparr>)"

definition worker_wait :: "u32 \<Rightarrow> tx_request \<Rightarrow> u32 \<Rightarrow> u32 \<Rightarrow> tx_state \<Rightarrow> tx_state" where
  "worker_wait now request started budget st =
     (if \<not> now - started < budget then worker_missed request st
      else case tx_status st of
        [] \<Rightarrow> worker_missed request st
      | (m, ok) # rest \<Rightarrow>
          let st = st\<lparr>tx_status := rest\<rparr> in
          if m \<noteq> tq_mac request then st
          else completeRequest request True ok WLoop
            (st\<lparr>tx_callbacksReceived := tx_callbacksReceived st + 1,
                tx_log := tx_log st @ [EvStatus request m ok]\<rparr>))"

definition worker_grace :: "u32 \<Rightarrow> tx_request \<Rightarrow> u32 \<Rightarrow> tx_state \<Rightarrow> tx_state" where
  "worker_grace now request started st =
     (if tx_running st \<and> now - started < kLateCallbackGraceMs then
        case tx_status st of
          [] \<Rightarrow> st
        | (m, ok) # rest \<Rightarrow>
            if m = tq_mac request
            then st\<lparr>tx_callbacksReceived := tx_callbacksReceived st + 1, tx_status := [], tx_worker := WLoop\<rparr>
            else st\<lparr>tx_status := rest\<rparr>
      else st\<lparr>tx_status := [], tx_worker := WLoop\<rparr>)"

fun worker_step :: "bool \<Rightarrow> u32 \<Rightarrow> tx_state \<Rightarrow> tx_state" where
  "worker_step accepted now st =
     (case tx_worker st of
        WLoop \<Rightarrow> worker_pick now st
      | WSend r budget \<Rightarrow> worker_send accepted now r budget st
      | WWait r started budget \<Rightarrow> worker_wait now r started budget st
      | WGraceStart r \<Rightarrow> st\<lparr>tx_worker := WGrace r now\<rparr>
      | WGrace r started \<Rightarrow> worker_grace now r started st
      | WGive i k \<Rightarrow> st\<lparr>tx_slots := semaphore_give i (tx_slots st), tx_worker := k\<rparr>
      | WStopped \<Rightarrow> st)"

text \<open>\<open>handleSendStatic\<close>: the driver's callback, at any time.\<close>

definition handleSendStatic :: "mac \<Rightarrow> bool \<Rightarrow> tx_state \<Rightarrow> tx_state" where
  "handleSendStatic m ok st =
     (if length (tx_status st) < kDriverStatusDepth then st\<lparr>tx_status := tx_status st @ [(m, ok)]\<rparr> else st)"

section \<open>The callers\<close>

definition payload_ok :: "bytes option \<Rightarrow> bool" where
  "payload_ok payload = (case payload of None \<Rightarrow> False | Some bs \<Rightarrow> length bs \<noteq> 0 \<and> \<not> length bs > MAX_DATA_LEN)"

definition sendToMac :: "bool \<Rightarrow> u32 \<Rightarrow> mac option \<Rightarrow> bytes option \<Rightarrow> priority \<Rightarrow> tx_state \<Rightarrow> bool \<times> tx_state" where
  "sendToMac initialized now m payload prio st =
     (case (m, payload) of
        (Some m, Some bs) \<Rightarrow>
          if \<not> initialized \<or> \<not> payload_ok payload then (False, st)
          else enqueueRequest \<lparr>tq_mac = m, tq_data = bs, tq_slot = kNoCompletionSlot, tq_generation = 0,
                 tq_enqueuedMs = now, tq_timeoutMs = kAsyncCallbackTimeoutMs\<rparr> prio st
      | _ \<Rightarrow> (False, st))"

definition slot_free :: "completion_slot \<Rightarrow> bool" where
  "slot_free slot \<longleftrightarrow> \<not> cp_inUse slot \<and> cp_signal slot \<noteq> None"

definition acquireCompletionSlot :: "completion_slot list \<Rightarrow> (nat \<times> u32) option \<times> completion_slot list" where
  "acquireCompletionSlot slots =
     (case find_slot slot_free (take kCompletionSlotCount slots) of
        None \<Rightarrow> (None, slots)
      | Some i \<Rightarrow>
          let g = cp_generation (slots ! i) + 1;
              g = (if g = 0 then g + 1 else g)
          in (Some (i, g), slots[i := (slots ! i)\<lparr>cp_inUse := True, cp_generation := g,
                                   cp_callbackReceived := False, cp_delivered := False\<rparr>]))"

definition releaseCompletionSlot :: "nat \<Rightarrow> u32 \<Rightarrow> completion_slot list \<Rightarrow> completion_slot list" where
  "releaseCompletionSlot index g slots =
     (if index \<ge> kCompletionSlotCount then slots
      else if cp_inUse (slots ! index) \<and> cp_generation (slots ! index) = g
      then slots[index := (slots ! index)\<lparr>cp_inUse := False, cp_callbackReceived := False, cp_delivered := False\<rparr>]
      else slots)"

definition put_caller :: "nat \<Rightarrow> caller_pc \<Rightarrow> tx_state \<Rightarrow> tx_state" where
  "put_caller i pc st = st\<lparr>tx_callers := (tx_callers st)[i := pc]\<rparr>"

text \<open>\<open>sendToMacWithStatus\<close> up to the acquisition. \<open>None\<close> is the immediate refusal. The request it
  will enqueue is built with the acquired slot and generation; its time is read at the same step.\<close>

definition sendToMacWithStatus ::
    "bool \<Rightarrow> u32 \<Rightarrow> mac option \<Rightarrow> bytes option \<Rightarrow> u32 \<Rightarrow> priority \<Rightarrow> tx_state \<Rightarrow> nat option \<times> tx_state" where
  "sendToMacWithStatus initialized now m payload timeoutMs prio st =
     (case (m, payload) of
        (Some m, Some bs) \<Rightarrow>
          if \<not> initialized \<or> \<not> payload_ok payload \<or> timeoutMs = 0 then (None, st)
          else (case acquireCompletionSlot (tx_slots st) of
            (None, slots) \<Rightarrow> (None, st)
          | (Some (i, g), slots) \<Rightarrow>
              (Some i, put_caller i (CDrain g \<lparr>tq_mac = m, tq_data = bs, tq_slot = i, tq_generation = g,
                     tq_enqueuedMs = now, tq_timeoutMs = timeoutMs\<rparr> prio)
                (st\<lparr>tx_slots := slots, tx_acquired := (tx_acquired st)[i := tx_acquired st ! i + 1]\<rparr>)))
      | _ \<Rightarrow> (None, st))"

text \<open>What the caller returns: \<open>None\<close> is the result \<open>false\<close>, \<open>Some d\<close> the result \<open>true\<close> with \<open>outDelivered = d\<close>.\<close>

definition caller_return :: "nat \<Rightarrow> tx_request \<Rightarrow> bool option \<Rightarrow> tx_state \<Rightarrow> tx_state" where
  "caller_return i r result st =
     put_caller i CFree
       (st\<lparr>tx_slots := releaseCompletionSlot i (tq_generation r) (tx_slots st),
           tx_log := tx_log st @ [EvReturned r result]\<rparr>)"

text \<open>The rest of \<open>sendToMacWithStatus\<close>, one blocking or shared operation at a time; \<open>timed_out\<close> says
  that the wait for the semaphore ends without it.\<close>

definition caller_step :: "bool \<Rightarrow> nat \<Rightarrow> tx_state \<Rightarrow> tx_state" where
  "caller_step timed_out i st =
     (case tx_callers st ! i of
        CFree \<Rightarrow> st
      | CDrain g r prio \<Rightarrow>
          put_caller i (CEnqueue g r prio)
            (st\<lparr>tx_slots := (tx_slots st)[i := (tx_slots st ! i)\<lparr>cp_signal := Some False\<rparr>]\<rparr>)
      | CEnqueue g r prio \<Rightarrow>
          (case enqueueRequest r prio st of
             (False, st) \<Rightarrow> caller_return i r None st
           | (True, st) \<Rightarrow> put_caller i (CWait r) st)
      | CWait r \<Rightarrow>
          if timed_out then caller_return i r None st
          else if cp_signal (tx_slots st ! i) = Some True
          then put_caller i (CRead r)
                 (st\<lparr>tx_slots := (tx_slots st)[i := (tx_slots st ! i)\<lparr>cp_signal := Some False\<rparr>]\<rparr>)
          else st
      | CRead r \<Rightarrow>
          let slot = tx_slots st ! i in
          if cp_inUse slot \<and> cp_generation slot = tq_generation r
          then put_caller i (CRelease r (if cp_callbackReceived slot then Some (cp_delivered slot) else None)) st
          else put_caller i (CRelease r None) st
      | CRelease r result \<Rightarrow> caller_return i r result st)"

section \<open>Start and stop\<close>

definition freeSlot :: completion_slot where
  "freeSlot = \<lparr>cp_signal = None, cp_inUse = False, cp_generation = 0, cp_callbackReceived = False, cp_delivered = False\<rparr>"

text \<open>\<open>startTxScheduler\<close>: whether FreeRTOS could create the queues, the status queue, the semaphores
  and the task decides; every failure destroys what was created.\<close>

definition startTxScheduler :: "bool list \<Rightarrow> bool \<Rightarrow> bool list \<Rightarrow> bool \<Rightarrow> tx_state option" where
  "startTxScheduler queuesCreated statusCreated signalsCreated taskCreated =
     (if \<not> list_all id (take kPriorityCount queuesCreated) then None
      else if \<not> statusCreated then None
      else if \<not> list_all id (take kCompletionSlotCount signalsCreated) then None
      else if \<not> taskCreated then None
      else Some \<lparr>tx_queues = replicate kPriorityCount [], tx_status = [],
                 tx_slots = replicate kCompletionSlotCount (freeSlot\<lparr>cp_signal := Some False\<rparr>),
                 tx_worker = WLoop, tx_cursor = 0, tx_running = True,
                 tx_enqueued = replicate kPriorityCount 0, tx_dropped = replicate kPriorityCount 0,
                 tx_driverRejected = 0, tx_callbackTimeouts = 0, tx_callbacksReceived = 0,
                 tx_callers = replicate kCompletionSlotCount CFree,
                 tx_acquired = replicate kCompletionSlotCount 0, tx_log = []\<rparr>)"

definition stopTxScheduler :: "tx_state \<Rightarrow> tx_state" where
  "stopTxScheduler st = st\<lparr>tx_running := False, tx_worker := WStopped\<rparr>"

definition peekTxSchedulerCounters :: "tx_state \<Rightarrow> u32 list \<times> u32 list \<times> u32 \<times> u32 \<times> u32" where
  "peekTxSchedulerCounters st =
     (map (\<lambda>i. tx_enqueued st ! i) [0..<kPriorityCount], map (\<lambda>i. tx_dropped st ! i) [0..<kPriorityCount],
      tx_driverRejected st, tx_callbackTimeouts st, tx_callbacksReceived st)"

section \<open>The interleaved system\<close>

inductive tx_step :: "tx_state \<Rightarrow> tx_state \<Rightarrow> bool" where
  worker: "tx_step st (worker_step accepted now st)"
| callback: "tx_step st (handleSendStatic m ok st)"
| post: "sendToMac initialized now m payload prio st = (ok, st') \<Longrightarrow> tx_step st st'"
| call: "sendToMacWithStatus initialized now m payload timeoutMs prio st = (i, st') \<Longrightarrow> tx_step st st'"
| caller: "i < kCompletionSlotCount \<Longrightarrow> tx_step st (caller_step timed_out i st)"
| stop: "tx_step st (stopTxScheduler st)"

inductive tx_reachable :: "tx_state \<Rightarrow> bool" where
  start: "startTxScheduler qs s ss t = Some st \<Longrightarrow> tx_reachable st"
| step: "tx_reachable st \<Longrightarrow> tx_step st st' \<Longrightarrow> tx_reachable st'"

end
