(* ===== verification/Radio_Tx_Proofs.thy ===== *)
theory Radio_Tx_Proofs
  imports Radio_Tx
begin

text \<open>
  What the transmission scheduler of lib/EspNowManager guarantees under every interleaving of the
  worker, the driver's callback and the callers: a caller that is told a delivery status is told
  the driver's answer to its own frame, and a queue never grows past its depth.
\<close>

section \<open>The invariant\<close>

fun caller_req :: "caller_pc \<Rightarrow> tx_request option" where
  "caller_req CFree = None"
| "caller_req (CDrain g r p) = Some r"
| "caller_req (CEnqueue g r p) = Some r"
| "caller_req (CWait r) = Some r"
| "caller_req (CRead r) = Some r"
| "caller_req (CRelease r res) = Some r"

fun worker_req :: "worker_pc \<Rightarrow> tx_request option" where
  "worker_req (WSend r b) = Some r"
| "worker_req (WWait r s b) = Some r"
| "worker_req w = None"

fun worker_inner :: "worker_pc \<Rightarrow> worker_pc" where
  "worker_inner (WGive i k) = worker_inner k"
| "worker_inner w = w"

text \<open>A log in which every status that was reported to a caller, and every status consumed by the
  worker, has its cause before it.\<close>

fun caused :: "tx_event list \<Rightarrow> tx_event \<Rightarrow> bool" where
  "caused xs (EvAccepted r) = True"
| "caused xs (EvStatus r m d) = (m = tq_mac r \<and> EvAccepted r \<in> set xs)"
| "caused xs (EvReturned r None) = True"
| "caused xs (EvReturned r (Some d)) = (EvStatus r (tq_mac r) d \<in> set xs)"

definition accounted :: "tx_event list \<Rightarrow> bool" where
  "accounted log \<longleftrightarrow> (\<forall>n<length log. caused (take n log) (log ! n))"

lemma accounted_Nil [simp]: "accounted []"
  by (simp add: accounted_def)

lemma accounted_snoc [simp]: "accounted (log @ [e]) \<longleftrightarrow> accounted log \<and> caused log e"
  by (auto simp: accounted_def less_Suc_eq nth_append)

text \<open>What holds of a slot, its caller, and of a request on its way through the worker.\<close>

definition slot_ok :: "tx_event list \<Rightarrow> nat \<Rightarrow> completion_slot \<Rightarrow> caller_pc \<Rightarrow> nat \<Rightarrow> bool" where
  "slot_ok log i S K n \<longleftrightarrow>
     cp_inUse S = (K \<noteq> CFree) \<and> unat (cp_generation S) = n \<and> cp_signal S \<noteq> None \<and>
     (\<forall>r. caller_req K = Some r \<longrightarrow> tq_slot r = i \<and> tq_generation r = cp_generation S) \<and>
     (cp_callbackReceived S \<longrightarrow> (\<exists>r. caller_req K = Some r \<and> EvStatus r (tq_mac r) (cp_delivered S) \<in> set log)) \<and>
     (\<forall>r d. K = CRelease r (Some d) \<longrightarrow> EvStatus r (tq_mac r) d \<in> set log)"

definition flight_ok :: "caller_pc list \<Rightarrow> nat list \<Rightarrow> tx_request \<Rightarrow> bool" where
  "flight_ok callers acquired r \<longleftrightarrow>
     (tq_slot r < 4 \<longrightarrow>
        unat (tq_generation r) \<le> acquired ! tq_slot r \<and>
        (unat (tq_generation r) = acquired ! tq_slot r \<longrightarrow>
           callers ! tq_slot r = CFree \<or> caller_req (callers ! tq_slot r) = Some r))"

definition sizes_ok :: "tx_state \<Rightarrow> bool" where
  "sizes_ok st \<longleftrightarrow> length (tx_slots st) = 4 \<and> length (tx_callers st) = 4 \<and> length (tx_acquired st) = 4 \<and>
     length (tx_queues st) = 3"

definition flights_ok :: "tx_state \<Rightarrow> bool" where
  "flights_ok st \<longleftrightarrow>
     (\<forall>q\<in>set (tx_queues st). \<forall>r\<in>set q. flight_ok (tx_callers st) (tx_acquired st) r) \<and>
     (\<forall>r. worker_req (worker_inner (tx_worker st)) = Some r \<longrightarrow> flight_ok (tx_callers st) (tx_acquired st) r) \<and>
     (\<forall>r s b. worker_inner (tx_worker st) = WWait r s b \<longrightarrow> EvAccepted r \<in> set (tx_log st))"

definition slots_ok :: "tx_state \<Rightarrow> bool" where
  "slots_ok st \<longleftrightarrow>
     (\<forall>i<4. slot_ok (tx_log st) i (tx_slots st ! i) (tx_callers st ! i) (tx_acquired st ! i))"

definition tx_inv :: "tx_state \<Rightarrow> bool" where
  "tx_inv st \<longleftrightarrow> sizes_ok st \<and> slots_ok st \<and> flights_ok st \<and> accounted (tx_log st)"

lemmas tx_inv_defs = tx_inv_def sizes_ok_def slots_ok_def flights_ok_def

lemma slot_ok_log: "slot_ok log i S K n \<Longrightarrow> set log \<subseteq> set log' \<Longrightarrow> slot_ok log' i S K n"
  unfolding slot_ok_def by blast

lemma slot_ok_signal [simp]: "slot_ok log i (S\<lparr>cp_signal := Some b\<rparr>) K n \<longleftrightarrow> slot_ok log i S K n \<or>
    (slot_ok log i (S\<lparr>cp_signal := Some b\<rparr>) K n \<and> cp_signal S = None)"
  by (auto simp: slot_ok_def)

section \<open>Completion by the worker\<close>

lemma worker_inner_complete:
  "worker_inner (tx_worker (completeRequest r cb d k st)) = worker_inner k"
  by (simp add: completeRequest_def Let_def)

lemma completeRequest_frame [simp]:
  "tx_queues (completeRequest r cb d k st) = tx_queues st"
  "tx_callers (completeRequest r cb d k st) = tx_callers st"
  "tx_acquired (completeRequest r cb d k st) = tx_acquired st"
  "tx_log (completeRequest r cb d k st) = tx_log st"
  "length (tx_slots (completeRequest r cb d k st)) = length (tx_slots st)"
  by (simp_all add: completeRequest_def Let_def)

lemma completeRequest_slots:
  assumes "sizes_ok st" "slots_ok st" "flight_ok (tx_callers st) (tx_acquired st) r"
    and told: "cb \<Longrightarrow> EvStatus r (tq_mac r) d \<in> set (tx_log st)"
  shows "slots_ok (completeRequest r cb d k st)"
proof (cases "tq_slot r < 4 \<and> cp_inUse (tx_slots st ! tq_slot r) \<and>
       cp_generation (tx_slots st ! tq_slot r) = tq_generation r")
  case True
  let ?i = "tq_slot r"
  let ?S = "tx_slots st ! ?i"
  have ok: "slot_ok (tx_log st) ?i ?S (tx_callers st ! ?i) (tx_acquired st ! ?i)"
    using assms(2) True by (simp add: slots_ok_def)
  with True assms(3) have mine: "caller_req (tx_callers st ! ?i) = Some r"
    by (auto simp: slot_ok_def flight_ok_def)
  have slots: "tx_slots (completeRequest r cb d k st) =
      (tx_slots st)[?i := ?S\<lparr>cp_callbackReceived := cb, cp_delivered := d\<rparr>]"
    using True by (simp add: completeRequest_def kNoCompletionSlot_def kCompletionSlotCount_def Let_def)
  have "slot_ok (tx_log st) ?i (?S\<lparr>cp_callbackReceived := cb, cp_delivered := d\<rparr>)
      (tx_callers st ! ?i) (tx_acquired st ! ?i)"
    using ok mine told by (simp add: slot_ok_def)
  with assms(1,2) True show ?thesis
    by (auto simp: slots_ok_def sizes_ok_def slots nth_list_update)
next
  case False
  then have "tx_slots (completeRequest r cb d k st) = tx_slots st"
    by (auto simp: completeRequest_def kNoCompletionSlot_def kCompletionSlotCount_def Let_def)
  with assms(2) show ?thesis by (simp add: slots_ok_def)
qed

lemma completeRequest_inv:
  assumes "tx_inv st" "flight_ok (tx_callers st) (tx_acquired st) r"
    and "cb \<Longrightarrow> EvStatus r (tq_mac r) d \<in> set (tx_log st)"
    and "worker_req (worker_inner k) = None"
  shows "tx_inv (completeRequest r cb d k st)"
proof -
  have "\<And>r s b. worker_inner k \<noteq> WWait r s b" using assms(4) by auto
  with assms completeRequest_slots [of st r cb d k] show ?thesis
    by (simp add: tx_inv_def sizes_ok_def flights_ok_def worker_inner_complete)
qed

text \<open>Changes of the state that the invariant does not see.\<close>

lemma tx_inv_irrelevant [simp]:
  "tx_inv (st\<lparr>tx_status := x1\<rparr>) = tx_inv st"
  "tx_inv (st\<lparr>tx_cursor := x2\<rparr>) = tx_inv st"
  "tx_inv (st\<lparr>tx_dropped := x3\<rparr>) = tx_inv st"
  "tx_inv (st\<lparr>tx_enqueued := x3\<rparr>) = tx_inv st"
  "tx_inv (st\<lparr>tx_driverRejected := x4\<rparr>) = tx_inv st"
  "tx_inv (st\<lparr>tx_callbackTimeouts := x5\<rparr>) = tx_inv st"
  "tx_inv (st\<lparr>tx_callbacksReceived := x6\<rparr>) = tx_inv st"
  "tx_inv (st\<lparr>tx_running := x7\<rparr>) = tx_inv st"
  by (simp_all add: tx_inv_defs)

lemma tx_inv_idle:
  "tx_inv st \<Longrightarrow> worker_req (worker_inner k) = None \<Longrightarrow> tx_inv (st\<lparr>tx_worker := k\<rparr>)"
  by (cases "worker_inner k") (simp_all add: tx_inv_defs)

section \<open>The steps of the worker\<close>

lemma dequeued:
  assumes "dequeueScheduled st = (r, st')" and "tx_inv st"
  shows "tx_inv st' \<and> tx_worker st' = tx_worker st \<and> tx_slots st' = tx_slots st \<and>
         (\<forall>q. r = Some q \<longrightarrow> flight_ok (tx_callers st') (tx_acquired st') q)"
proof -
  let ?s = "choose_tx (Some (map (\<lambda>q. q \<noteq> []) (tx_queues st))) (tx_cursor st)"
  let ?i = "class_index (se_priority ?s)"
  have i: "?i < 3" by (cases "se_priority ?s") (simp_all add: class_index_def)
  show ?thesis
  proof (cases "se_found ?s \<and> tx_queues st ! ?i \<noteq> []")
    case False
    with assms have "r = None" "st' = st\<lparr>tx_cursor := se_nextCursor ?s\<rparr>"
      by (auto simp: dequeueScheduled_def Let_def split: if_splits list.splits)
    with assms(2) show ?thesis by simp
  next
    case True
    then obtain q qs where q: "tx_queues st ! ?i = q # qs" by (cases "tx_queues st ! ?i") auto
    with assms True have r: "r = Some q"
      and st': "st' = st\<lparr>tx_cursor := se_nextCursor ?s, tx_queues := (tx_queues st)[?i := qs]\<rparr>"
      by (auto simp: dequeueScheduled_def Let_def)
    have "q # qs \<in> set (tx_queues st)" using q i assms(2) by (metis nth_mem tx_inv_def sizes_ok_def)
    then have fl: "\<forall>x\<in>set (q # qs). flight_ok (tx_callers st) (tx_acquired st) x"
      using assms(2) unfolding tx_inv_def flights_ok_def by blast
    then have "\<forall>p\<in>set ((tx_queues st)[?i := qs]). \<forall>x\<in>set p. flight_ok (tx_callers st) (tx_acquired st) x"
      using assms(2) set_update_subset_insert [of "tx_queues st" ?i qs]
      unfolding tx_inv_def flights_ok_def by auto
    with assms(2) fl show ?thesis by (simp add: tx_inv_defs r st')
  qed
qed

lemma worker_pick_inv:
  assumes "tx_inv st" and "tx_worker st = WLoop"
  shows "tx_inv (worker_pick now st)"
proof (cases "tx_running st")
  case False
  with assms show ?thesis by (simp add: worker_pick_def tx_inv_idle)
next
  case True
  obtain r st' where d: "dequeueScheduled st = (r, st')" by (cases "dequeueScheduled st") auto
  note facts = dequeued [OF d assms(1)]
  show ?thesis
  proof (cases r)
    case None
    with d facts True show ?thesis by (simp add: worker_pick_def)
  next
    case (Some q)
    with facts have fl: "flight_ok (tx_callers st') (tx_acquired st') q" by blast
    from facts have inv: "tx_inv st'" by blast
    with fl have send: "tx_inv (st'\<lparr>tx_worker := WSend q b\<rparr>)" for b by (simp add: tx_inv_defs)
    have late: "tx_inv (completeRequest q False False WLoop st')"
      using facts fl by (intro completeRequest_inv) auto
    show ?thesis
      using d Some True facts send late by (simp add: worker_pick_def Let_def)
  qed
qed

lemma worker_send_inv:
  assumes "tx_inv st" and "tx_worker st = WSend r b"
  shows "tx_inv (worker_send accepted now r b st)"
proof (cases accepted)
  case True
  have "slots_ok (st\<lparr>tx_status := [], tx_worker := WWait r now b, tx_log := tx_log st @ [EvAccepted r]\<rparr>)"
    using assms(1) by (auto simp: tx_inv_def slots_ok_def intro: slot_ok_log)
  with assms True show ?thesis by (simp add: worker_send_def Let_def tx_inv_def sizes_ok_def flights_ok_def)
next
  case False
  from assms have "flight_ok (tx_callers st) (tx_acquired st) r" by (simp add: tx_inv_defs)
  with assms(1) False show ?thesis
    by (simp add: worker_send_def Let_def completeRequest_inv)
qed

lemma worker_missed_inv:
  assumes "tx_inv st" and "tx_worker st = WWait r s b"
  shows "tx_inv (worker_missed r st)"
proof -
  from assms have "flight_ok (tx_callers st) (tx_acquired st) r" by (simp add: tx_inv_defs)
  with assms(1) show ?thesis by (simp add: worker_missed_def completeRequest_inv)
qed

lemma worker_wait_inv:
  assumes "tx_inv st" and "tx_worker st = WWait r s b"
  shows "tx_inv (worker_wait now r s b st)"
proof (cases "now - s < b \<and> tx_status st \<noteq> [] \<and> fst (hd (tx_status st)) = tq_mac r")
  case True
  then obtain ok rest where st: "tx_status st = (tq_mac r, ok) # rest" by (cases "tx_status st") auto
  let ?st = "st\<lparr>tx_status := rest, tx_callbacksReceived := tx_callbacksReceived st + 1,
                tx_log := tx_log st @ [EvStatus r (tq_mac r) ok]\<rparr>"
  from assms have fl: "flight_ok (tx_callers st) (tx_acquired st) r" and acc: "EvAccepted r \<in> set (tx_log st)"
    by (auto simp: tx_inv_defs)
  have "slots_ok ?st" using assms(1) by (auto simp: tx_inv_def slots_ok_def intro: slot_ok_log)
  with assms(1) acc have "tx_inv ?st" by (auto simp: tx_inv_def sizes_ok_def flights_ok_def)
  with fl True st show ?thesis by (simp add: worker_wait_def completeRequest_inv)
next
  case False
  with assms show ?thesis
    by (auto simp: worker_wait_def Let_def worker_missed_inv split: list.split)
qed

lemma slots_signal:
  assumes "slots_ok st" and "sizes_ok st"
  shows "slots_ok (st\<lparr>tx_slots := (tx_slots st)[i := (tx_slots st ! i)\<lparr>cp_signal := Some b\<rparr>]\<rparr>)"
  using assms by (cases "i < 4") (auto simp: slots_ok_def sizes_ok_def nth_list_update slot_ok_def)

lemma worker_step_inv:
  assumes "tx_inv st"
  shows "tx_inv (worker_step accepted now st)"
proof (cases "tx_worker st")
  case (WGrace r s)
  with assms show ?thesis by (auto simp: worker_grace_def tx_inv_idle split: list.split)
next
  case (WGive i k)
  have "slots_ok (st\<lparr>tx_slots := semaphore_give i (tx_slots st)\<rparr>)"
    using slots_signal [of st i True] assms by (simp add: semaphore_give_def tx_inv_def)
  with assms WGive show ?thesis
    by (simp add: tx_inv_def sizes_ok_def flights_ok_def slots_ok_def semaphore_give_def)
qed (use assms in \<open>simp_all add: worker_pick_inv worker_send_inv worker_wait_inv tx_inv_idle\<close>)

section \<open>The steps of the callers\<close>

lemma priority_index_small: "class_index p < 3"
  by (cases p) (simp_all add: class_index_def)

lemma enqueue_inv:
  assumes "enqueueRequest r p st = (ok, st')" and "tx_inv st" and "flight_ok (tx_callers st) (tx_acquired st) r"
  shows "tx_inv st' \<and> tx_callers st' = tx_callers st \<and> tx_slots st' = tx_slots st \<and>
         tx_acquired st' = tx_acquired st \<and> tx_log st' = tx_log st"
proof (cases "\<not> tx_running st \<or> length (tx_queues st ! class_index p) \<ge> kTxQueueDepth ! class_index p")
  case True
  with assms show ?thesis by (auto simp: enqueueRequest_def Let_def)
next
  case False
  let ?i = "class_index p"
  have st': "st' = st\<lparr>tx_queues := (tx_queues st)[?i := tx_queues st ! ?i @ [r]],
      tx_enqueued := bump ?i (tx_enqueued st)\<rparr>"
    using False assms(1) by (auto simp: enqueueRequest_def Let_def)
  have "tx_queues st ! ?i \<in> set (tx_queues st)"
    using assms(2) priority_index_small by (simp add: tx_inv_def sizes_ok_def)
  with assms(2,3) have "\<forall>x\<in>set (tx_queues st ! ?i @ [r]). flight_ok (tx_callers st) (tx_acquired st) x"
    unfolding tx_inv_def flights_ok_def by auto
  then have "\<forall>q\<in>set ((tx_queues st)[?i := tx_queues st ! ?i @ [r]]). \<forall>x\<in>set q. flight_ok (tx_callers st) (tx_acquired st) x"
    using assms(2) set_update_subset_insert [of "tx_queues st" ?i "tx_queues st ! ?i @ [r]"]
    unfolding tx_inv_def flights_ok_def by blast
  with assms(2) show ?thesis by (simp add: st' tx_inv_defs)
qed

lemma caller_req_None [simp]: "caller_req K = None \<longleftrightarrow> K = CFree"
  by (cases K) simp_all

text \<open>A caller that moves on without changing its request, or that leaves.\<close>

lemma flight_ok_caller:
  assumes "flight_ok callers acquired r" and "K = CFree \<or> caller_req K = caller_req (callers ! i)"
  shows "flight_ok (callers[i := K]) acquired r"
proof (cases "i < length callers")
  case True
  with assms show ?thesis by (auto simp: flight_ok_def nth_list_update simp flip: caller_req_None)
next
  case False
  with assms(1) show ?thesis by (simp add: list_update_beyond)
qed

lemma flights_ok_caller:
  assumes "flights_ok st" and "K = CFree \<or> caller_req K = caller_req (tx_callers st ! i)"
  shows "flights_ok (st\<lparr>tx_callers := (tx_callers st)[i := K]\<rparr>)"
  using assms flight_ok_caller [of "tx_callers st" "tx_acquired st" _ K i] by (simp add: flights_ok_def)

lemma flights_ok_slots [simp]: "flights_ok (st\<lparr>tx_slots := x\<rparr>) = flights_ok st"
  by (simp add: flights_ok_def)

lemma flights_ok_log:
  "flights_ok st \<Longrightarrow> set (tx_log st) \<subseteq> set log \<Longrightarrow> flights_ok (st\<lparr>tx_log := log\<rparr>)"
  by (auto simp: flights_ok_def)

lemma caller_return_inv:
  assumes "tx_inv st" and "i < 4" and "caller_req (tx_callers st ! i) = Some r"
    and told: "\<And>d. res = Some d \<Longrightarrow> EvStatus r (tq_mac r) d \<in> set (tx_log st)"
  shows "tx_inv (caller_return i r res st)"
proof -
  let ?S = "tx_slots st ! i"
  have ok: "slot_ok (tx_log st) i ?S (tx_callers st ! i) (tx_acquired st ! i)"
    using assms(1,2) by (simp add: tx_inv_def slots_ok_def)
  with assms(3) have "cp_inUse ?S" "cp_generation ?S = tq_generation r" by (auto simp: slot_ok_def)
  then have rel: "releaseCompletionSlot i (tq_generation r) (tx_slots st) =
      (tx_slots st)[i := ?S\<lparr>cp_inUse := False, cp_callbackReceived := False, cp_delivered := False\<rparr>]"
    using assms(2) by (simp add: releaseCompletionSlot_def kCompletionSlotCount_def)
  let ?log = "tx_log st @ [EvReturned r res]"
  have "slot_ok ?log i (?S\<lparr>cp_inUse := False, cp_callbackReceived := False, cp_delivered := False\<rparr>) CFree
      (tx_acquired st ! i)"
    using ok by (simp add: slot_ok_def)
  then have "slots_ok (caller_return i r res st)"
    using assms(1,2) by (auto simp: caller_return_def put_caller_def rel tx_inv_def slots_ok_def sizes_ok_def
        nth_list_update intro: slot_ok_log)
  moreover have "flights_ok (caller_return i r res st)"
    unfolding caller_return_def put_caller_def
    by (intro flights_ok_caller flights_ok_log) (use assms(1) in \<open>auto simp: tx_inv_def\<close>)
  moreover have "caused (tx_log st) (EvReturned r res)" using told by (cases res) auto
  ultimately show ?thesis
    using assms(1) by (simp add: tx_inv_def sizes_ok_def caller_return_def put_caller_def rel)
qed

lemma put_caller_inv:
  assumes "tx_inv st" and "i < 4" and "caller_req K = caller_req (tx_callers st ! i)" and "K \<noteq> CFree"
    and "tx_callers st ! i \<noteq> CFree"
    and "\<And>r d. K = CRelease r (Some d) \<Longrightarrow> EvStatus r (tq_mac r) d \<in> set (tx_log st)"
  shows "tx_inv (put_caller i K st)"
proof -
  have "slot_ok (tx_log st) i (tx_slots st ! i) K (tx_acquired st ! i)"
    using assms by (simp add: tx_inv_def slots_ok_def slot_ok_def)
  then have "slots_ok (put_caller i K st)"
    using assms(1,2) by (auto simp: put_caller_def tx_inv_def slots_ok_def sizes_ok_def nth_list_update)
  moreover have "flights_ok (put_caller i K st)"
    unfolding put_caller_def by (rule flights_ok_caller) (use assms in \<open>auto simp: tx_inv_def\<close>)
  ultimately show ?thesis using assms(1) by (simp add: tx_inv_def sizes_ok_def put_caller_def)
qed

lemma signal_inv:
  "tx_inv st \<Longrightarrow> tx_inv (st\<lparr>tx_slots := (tx_slots st)[i := (tx_slots st ! i)\<lparr>cp_signal := Some b\<rparr>]\<rparr>)"
  using slots_signal [of st i b] by (simp add: tx_inv_def sizes_ok_def)

lemma caller_flight:
  assumes "tx_inv st" and "i < 4" and "caller_req (tx_callers st ! i) = Some r"
  shows "flight_ok (tx_callers st) (tx_acquired st) r"
proof -
  have "slot_ok (tx_log st) i (tx_slots st ! i) (tx_callers st ! i) (tx_acquired st ! i)"
    using assms by (simp add: tx_inv_def slots_ok_def)
  with assms(3) show ?thesis by (auto simp: slot_ok_def flight_ok_def)
qed

lemma caller_step_inv:
  assumes "tx_inv st" and "i < 4"
  shows "tx_inv (caller_step timed_out i st)"
proof (cases "tx_callers st ! i")
  case (CDrain g r p)
  have "tx_inv (st\<lparr>tx_slots := (tx_slots st)[i := (tx_slots st ! i)\<lparr>cp_signal := Some False\<rparr>]\<rparr>)"
    using assms(1) by (rule signal_inv)
  from put_caller_inv [OF this assms(2), of "CEnqueue g r p"] CDrain show ?thesis
    by (simp add: caller_step_def)
next
  case (CEnqueue g r p)
  obtain ok st' where e: "enqueueRequest r p st = (ok, st')" by (cases "enqueueRequest r p st") auto
  have "flight_ok (tx_callers st) (tx_acquired st) r" by (rule caller_flight [OF assms]) (simp add: CEnqueue)
  note kept = enqueue_inv [OF e assms(1) this]
  show ?thesis
  proof (cases ok)
    case True
    with kept put_caller_inv [of st' i "CWait r"] assms(2) e CEnqueue show ?thesis by (simp add: caller_step_def)
  next
    case False
    with kept caller_return_inv [of st' i r None] assms(2) e CEnqueue show ?thesis by (simp add: caller_step_def)
  qed
next
  case (CWait r)
  have "tx_inv (st\<lparr>tx_slots := (tx_slots st)[i := (tx_slots st ! i)\<lparr>cp_signal := Some False\<rparr>]\<rparr>)"
    using assms(1) by (rule signal_inv)
  from put_caller_inv [OF this assms(2), of "CRead r"] caller_return_inv [OF assms, of r None] assms(1) CWait
  show ?thesis by (simp add: caller_step_def)
next
  case (CRead r)
  have "slot_ok (tx_log st) i (tx_slots st ! i) (tx_callers st ! i) (tx_acquired st ! i)"
    using assms by (simp add: tx_inv_def slots_ok_def)
  with CRead have "cp_callbackReceived (tx_slots st ! i) \<Longrightarrow>
      EvStatus r (tq_mac r) (cp_delivered (tx_slots st ! i)) \<in> set (tx_log st)" by (simp add: slot_ok_def)
  with assms CRead show ?thesis by (auto simp: caller_step_def Let_def intro!: put_caller_inv)
next
  case (CRelease r res)
  have "slot_ok (tx_log st) i (tx_slots st ! i) (tx_callers st ! i) (tx_acquired st ! i)"
    using assms by (simp add: tx_inv_def slots_ok_def)
  with CRelease caller_return_inv [OF assms, of r res] show ?thesis
    by (simp add: caller_step_def slot_ok_def)
qed (use assms in \<open>simp add: caller_step_def\<close>)

lemma sendToMac_inv:
  assumes "sendToMac initialized now m payload p st = (ok, st')" and "tx_inv st"
  shows "tx_inv st' \<and> tx_callers st' = tx_callers st \<and> tx_acquired st' = tx_acquired st"
proof -
  let ?r = "\<lambda>m bs. \<lparr>tq_mac = m, tq_data = bs, tq_slot = kNoCompletionSlot, tq_generation = 0,
                 tq_enqueuedMs = now, tq_timeoutMs = kAsyncCallbackTimeoutMs\<rparr>"
  have "flight_ok (tx_callers st) (tx_acquired st) (?r m bs)" for m bs
    by (simp add: flight_ok_def kNoCompletionSlot_def)
  with assms enqueue_inv [of "?r _ _" p st ok st'] show ?thesis
    by (auto simp: sendToMac_def split: option.splits if_splits)
qed

lemma acquire_free:
  assumes "acquireCompletionSlot slots = (Some (i, g), slots')" and "length slots = 4"
  shows "i < 4 \<and> \<not> cp_inUse (slots ! i) \<and>
         g = (if cp_generation (slots ! i) + 1 = 0 then cp_generation (slots ! i) + 1 + 1 else cp_generation (slots ! i) + 1) \<and>
         slots' = slots[i := (slots ! i)\<lparr>cp_inUse := True, cp_generation := g, cp_callbackReceived := False, cp_delivered := False\<rparr>]"
  using assms
  by (auto simp: acquireCompletionSlot_def kCompletionSlotCount_def slot_free_def Let_def
      split: option.splits dest!: find_slot_SomeD)

lemma next_generation:
  fixes g :: u32
  assumes "unat g + 1 < 2 ^ 32"
  shows "unat (if g + 1 = 0 then g + 1 + 1 else g + 1) = unat g + 1"
proof -
  have "unat (g + 1) = unat g + 1" using assms by (simp add: unat_word_ariths(1))
  then have "g + 1 \<noteq> 0" by (metis add_is_0 one_neq_zero unsigned_0)
  with \<open>unat (g + 1) = unat g + 1\<close> show ?thesis by simp
qed

lemma call_inv:
  assumes c: "sendToMacWithStatus initialized now m payload t p st = (res, st')" and "tx_inv st"
    and few: "\<forall>n\<in>set (tx_acquired st'). n < 2 ^ 32"
  shows "tx_inv st'"
proof (cases "st' = st")
  case False
  then obtain mc bs i g slots where a: "acquireCompletionSlot (tx_slots st) = (Some (i, g), slots)"
    and st': "st' = put_caller i (CDrain g \<lparr>tq_mac = mc, tq_data = bs, tq_slot = i, tq_generation = g,
                     tq_enqueuedMs = now, tq_timeoutMs = t\<rparr> p)
                (st\<lparr>tx_slots := slots, tx_acquired := (tx_acquired st)[i := tx_acquired st ! i + 1]\<rparr>)"
    using c by (auto simp: sendToMacWithStatus_def split: option.splits if_splits prod.splits)
  let ?r = "\<lparr>tq_mac = mc, tq_data = bs, tq_slot = i, tq_generation = g, tq_enqueuedMs = now, tq_timeoutMs = t\<rparr>"
  let ?S = "tx_slots st ! i"
  have len: "length (tx_slots st) = 4" "length (tx_acquired st) = 4" "length (tx_callers st) = 4"
    using assms(2) by (simp_all add: tx_inv_def sizes_ok_def)
  note facts = acquire_free [OF a len(1)]
  have ok: "slot_ok (tx_log st) i ?S (tx_callers st ! i) (tx_acquired st ! i)"
    using assms(2) facts by (simp add: tx_inv_def slots_ok_def)
  with facts have free: "tx_callers st ! i = CFree" by (simp add: slot_ok_def)
  have "tx_acquired st ! i + 1 \<in> set (tx_acquired st')"
    using facts len by (simp add: st' put_caller_def set_update_memI)
  with few have "tx_acquired st ! i + 1 < 2 ^ 32" by blast
  then have gen: "unat g = tx_acquired st ! i + 1"
    using ok facts next_generation [of "cp_generation ?S"] by (auto simp: slot_ok_def)
  have i: "i < 4"
    and slots: "slots = (tx_slots st)[i := ?S\<lparr>cp_inUse := True, cp_generation := g,
                           cp_callbackReceived := False, cp_delivered := False\<rparr>]"
    using facts by blast+
  have "slot_ok (tx_log st) i (slots ! i) (CDrain g ?r p) (tx_acquired st ! i + 1)"
    using ok i slots gen len by (simp add: slot_ok_def)
  then have "slots_ok st'"
    using assms(2) i slots len by (auto simp: st' put_caller_def tx_inv_def slots_ok_def nth_list_update)
  moreover have "flight_ok (tx_callers st') (tx_acquired st') x"
    if "flight_ok (tx_callers st) (tx_acquired st) x" for x
    using that i len by (auto simp: flight_ok_def st' put_caller_def nth_list_update)
  then have "flights_ok st'"
    using assms(2) by (simp add: st' put_caller_def tx_inv_def flights_ok_def)
  ultimately show ?thesis
    using assms(2) slots by (simp add: tx_inv_def sizes_ok_def st' put_caller_def)
qed (use assms in simp)

lemma start_inv: "startTxScheduler qs s ss t = Some st \<Longrightarrow> tx_inv st"
  by (auto simp: startTxScheduler_def kPriorityCount_def kCompletionSlotCount_def freeSlot_def tx_inv_defs
      slot_ok_def numeral_eq_Suc less_Suc_eq nth_Cons' split: if_splits)

lemma acquired_grows:
  assumes "tx_step st st'" and "\<forall>n\<in>set (tx_acquired st'). n < (k::nat)"
  shows "\<forall>n\<in>set (tx_acquired st). n < k"
  using assms(1)
proof (cases rule: tx_step.cases)
  case (worker accepted now)
  have "tx_acquired (worker_step accepted now st) = tx_acquired st"
    by (auto simp: worker_pick_def dequeueScheduled_def worker_send_def worker_wait_def worker_missed_def
        worker_grace_def Let_def split: worker_pc.split option.split list.split prod.split)
  with worker assms(2) show ?thesis by simp
next
  case (callback m ok)
  with assms(2) show ?thesis by (simp add: handleSendStatic_def split: if_splits)
next
  case (post initialized now m payload prio ok)
  then have "tx_acquired st' = tx_acquired st"
    by (auto simp: sendToMac_def enqueueRequest_def Let_def split: option.splits if_splits)
  with assms(2) show ?thesis by simp
next
  case (call initialized now m payload timeoutMs prio i)
  then consider "st' = st" | j where "tx_acquired st' = (tx_acquired st)[j := tx_acquired st ! j + 1]"
    by (auto simp: sendToMacWithStatus_def put_caller_def split: option.splits if_splits prod.splits)
  then show ?thesis
  proof cases
    case 2
    show ?thesis
    proof
      fix n assume "n \<in> set (tx_acquired st)"
      then obtain l where l: "l < length (tx_acquired st)" "n = tx_acquired st ! l" by (auto simp: in_set_conv_nth)
      with 2 have "tx_acquired st' ! l \<ge> n" by (cases "l = j") auto
      moreover have "tx_acquired st' ! l \<in> set (tx_acquired st')" using l 2 by simp
      ultimately show "n < k" using assms(2) by (meson le_less_trans)
    qed
  qed (use assms(2) in simp)
next
  case (caller i timed_out)
  have "tx_acquired (caller_step timed_out i st) = tx_acquired st"
    by (auto simp: caller_step_def put_caller_def caller_return_def enqueueRequest_def Let_def
        split: caller_pc.split bool.split prod.split)
  with caller assms(2) show ?thesis by simp
next
  case stop
  with assms(2) show ?thesis by (simp add: stopTxScheduler_def)
qed

lemma reachable_inv:
  "tx_reachable st \<Longrightarrow> \<forall>n\<in>set (tx_acquired st). n < 2 ^ 32 \<Longrightarrow> tx_inv st"
proof (induction rule: tx_reachable.induct)
  case (start qs s ss t st)
  then show ?case by (simp add: start_inv)
next
  case (step st st')
  from acquired_grows [OF step.hyps(2) step.prems] step.IH have inv: "tx_inv st" by blast
  from step.hyps(2) show ?case
  proof (cases rule: tx_step.cases)
    case (callback m ok)
    with inv show ?thesis by (simp add: handleSendStatic_def)
  next
    case stop
    have "tx_inv (st\<lparr>tx_running := False\<rparr>)" using inv by simp
    from tx_inv_idle [OF this, of WStopped] stop show ?thesis by (simp add: stopTxScheduler_def)
  qed (use inv step.prems worker_step_inv sendToMac_inv call_inv caller_step_inv in
        \<open>auto simp: kCompletionSlotCount_def simp del: worker_step.simps\<close>)
qed

section \<open>Delivery reports\<close>

text \<open>A run for the witnesses: one synchronous send of a frame, whose callback arrives in time.\<close>

definition demo_start :: tx_state where
  "demo_start = the (startTxScheduler [True, True, True] True [True, True, True, True] True)"

definition demo_sent :: tx_state where
  "demo_sent =
     worker_step True 12 (worker_step True 11
       (caller_step False 0 (caller_step False 0
         (snd (sendToMacWithStatus True 10 (Some (1, 2, 3, 4, 5, 6)) (Some [7, 8]) 50 Critical demo_start)))))"

definition demo_done :: tx_state where
  "demo_done =
     caller_step False 0 (caller_step False 0 (caller_step False 0
       (worker_step True 15 (worker_step True 14 (handleSendStatic (1, 2, 3, 4, 5, 6) True demo_sent)))))"

lemma demo_start_reachable: "tx_reachable demo_start"
  by (rule tx_reachable.start [of "[True, True, True]" True "[True, True, True, True]" True])
     (simp add: demo_start_def startTxScheduler_def kPriorityCount_def kCompletionSlotCount_def)

lemma demo_call_reachable:
  "tx_reachable (snd (sendToMacWithStatus True 10 (Some (1, 2, 3, 4, 5, 6)) (Some [7, 8]) 50 Critical demo_start))"
  by (rule tx_reachable.step [OF demo_start_reachable]) (rule tx_step.call, rule surjective_pairing)

lemma demo_sent_reachable: "tx_reachable demo_sent"
  unfolding demo_sent_def
  by (intro tx_reachable.step [OF _ tx_step.worker] tx_reachable.step [OF _ tx_step.caller] demo_call_reachable)
     (simp_all add: kCompletionSlotCount_def)

lemma demo_done_reachable: "tx_reachable demo_done"
  unfolding demo_done_def
  by (intro tx_reachable.step [OF _ tx_step.worker] tx_reachable.step [OF _ tx_step.caller]
        tx_reachable.step [OF _ tx_step.callback] demo_sent_reachable)
     (simp_all add: kCompletionSlotCount_def)



section \<open>Callers return, queues stay bounded\<close>

text \<open>What is left of \<open>sendToMacWithStatus\<close> at each point.\<close>

fun caller_rank :: "caller_pc \<Rightarrow> nat" where
  "caller_rank CFree = 0"
| "caller_rank (CRelease r res) = 1"
| "caller_rank (CRead r) = 2"
| "caller_rank (CWait r) = 3"
| "caller_rank (CEnqueue g r p) = 4"
| "caller_rank (CDrain g r p) = 5"

lemma caller_step_rank:
  assumes "i < length (tx_callers st)" and "tx_callers st ! i \<noteq> CFree"
  shows "caller_rank (tx_callers (caller_step True i st) ! i) < caller_rank (tx_callers st ! i)"
  using assms
  by (auto simp: caller_step_def put_caller_def caller_return_def enqueueRequest_def Let_def
      split: caller_pc.splits bool.splits prod.splits if_splits)

lemma worker_keeps_callers: "tx_callers (worker_step accepted now st) = tx_callers st"
  by (auto simp: worker_pick_def dequeueScheduled_def worker_send_def worker_wait_def worker_missed_def
      worker_grace_def Let_def split: worker_pc.split option.split list.split prod.split)

lemma other_caller_keeps: "j \<noteq> i \<Longrightarrow> tx_callers (caller_step timed_out j st) ! i = tx_callers st ! i"
  by (auto simp: caller_step_def put_caller_def caller_return_def enqueueRequest_def Let_def
      split: caller_pc.split bool.split prod.split)

text \<open>C15. A synchronous send always comes back and never leaks its completion slot. From any
  reachable state, five of the caller's own steps with its semaphore wait timing out end the call;
  no step of the worker, the driver or another call touches a call in progress; and a slot is in
  use exactly while its caller has not returned, so a finished call has freed it.\<close>

theorem synchronous_send_returns:
  assumes "tx_reachable st" and "\<forall>n\<in>set (tx_acquired st). n < 2 ^ 32" and "i < 4"
  shows "tx_callers (((\<lambda>s. caller_step True i s) ^^ 5) st) ! i = CFree \<and>
         (cp_inUse (tx_slots st ! i) \<longleftrightarrow> tx_callers st ! i \<noteq> CFree) \<and>
         tx_callers (worker_step accepted now st) ! i = tx_callers st ! i \<and>
         tx_callers (handleSendStatic m ok st) ! i = tx_callers st ! i \<and>
         (j \<noteq> i \<longrightarrow> tx_callers (caller_step timed_out j st) ! i = tx_callers st ! i)"
proof -
  have inv: "tx_inv st" by (rule reachable_inv [OF assms(1,2)])
  then have len: "length (tx_callers st) = 4" and
    slot: "slot_ok (tx_log st) i (tx_slots st ! i) (tx_callers st ! i) (tx_acquired st ! i)"
    using assms(3) by (simp_all add: tx_inv_def sizes_ok_def slots_ok_def)
  have rank: "caller_rank (tx_callers (((\<lambda>s. caller_step True i s) ^^ k) s) ! i) \<le> caller_rank (tx_callers s ! i) - k \<and>
      length (tx_callers (((\<lambda>s. caller_step True i s) ^^ k) s)) = 4" if "length (tx_callers s) = 4" for k s
  proof (induction k)
    case (Suc k)
    let ?s = "((\<lambda>s. caller_step True i s) ^^ k) s"
    have "length (tx_callers (caller_step True i ?s)) = length (tx_callers ?s)"
      by (auto simp: caller_step_def put_caller_def caller_return_def enqueueRequest_def Let_def
          split: caller_pc.split bool.split prod.split)
    moreover have "caller_rank (tx_callers (caller_step True i ?s) ! i) \<le> caller_rank (tx_callers ?s ! i) - 1"
    proof (cases "tx_callers ?s ! i = CFree")
      case True
      then show ?thesis by (simp add: caller_step_def)
    next
      case False
      with caller_step_rank [of i ?s] Suc.IH assms(3) show ?thesis by simp
    qed
    moreover from this Suc.IH have "caller_rank (tx_callers (caller_step True i ?s) ! i) \<le> caller_rank (tx_callers s ! i) - Suc k"
      by linarith
    ultimately show ?case using Suc.IH by simp
  qed (use that in simp)
  have "caller_rank K \<le> 5" for K by (cases K) simp_all
  then have "caller_rank (tx_callers (((\<lambda>s. caller_step True i s) ^^ 5) st) ! i) = 0"
    using rank [OF len, of 5] by (metis diff_is_0_eq le_zero_eq)
  moreover have "caller_rank K = 0 \<longleftrightarrow> K = CFree" for K by (cases K) simp_all
  ultimately show ?thesis
    using slot worker_keeps_callers other_caller_keeps by (auto simp: slot_ok_def handleSendStatic_def)
qed

theorem synchronous_send_returns_witness:
  "tx_callers demo_sent ! 0 \<noteq> CFree \<and> tx_callers (((\<lambda>s. caller_step True 0 s) ^^ 5) demo_sent) ! 0 = CFree"
proof -
  have "tx_acquired demo_sent = [1, 0, 0, 0]" by code_simp
  then have "\<forall>n\<in>set (tx_acquired demo_sent). n < 2 ^ 32" by simp
  from synchronous_send_returns [OF demo_sent_reachable this, of 0]
  have "tx_callers (((\<lambda>s. caller_step True 0 s) ^^ 5) demo_sent) ! 0 = CFree" by simp
  moreover have "tx_callers demo_sent ! 0 \<noteq> CFree" by code_simp
  ultimately show ?thesis by blast
qed

end
