(* ===== verification/Device_Registry.thy ===== *)
theory Device_Registry
  imports Peer_Table
begin

text \<open>
  The model of the device registry of lib/EspNowManager: the fixed array of sixteen devices with
  its count, the operations that add, remove, update and list them and keep the driver's peer
  table in step, the bring-up and shutdown of the radio, and the fan-out of one datagram to every
  device.

  The ESP-IDF calls are a record of functions on a world of the caller's choice; a \<open>char\<close>
  field of n octets is a list of n characters, and \<open>copyText\<close> is \<open>strncpy\<close> and the forced NUL.
\<close>

section \<open>State\<close>

definition MAX_DEVICES :: nat where "MAX_DEVICES = 16"
definition DEVICE_NAME_SIZE :: nat where "DEVICE_NAME_SIZE = 32"
definition DEVICE_DESCRIPTION_SIZE :: nat where "DEVICE_DESCRIPTION_SIZE = 96"

record device_info =
  dv_mac :: mac
  dv_name :: string
  dv_description :: string
  dv_lastRssi :: int

definition emptyDevice :: device_info where
  "emptyDevice = \<lparr>dv_mac = (0, 0, 0, 0, 0, 0), dv_name = replicate DEVICE_NAME_SIZE (CHR 0x00),
                  dv_description = replicate DEVICE_DESCRIPTION_SIZE (CHR 0x00), dv_lastRssi = -128\<rparr>"

record manager =
  em_devices :: "device_info list"
  em_deviceCount :: nat
  em_initialized :: bool
  em_active :: bool
  em_channel :: u8
  em_encrypt :: bool

definition EspNowManager :: manager where
  "EspNowManager = \<lparr>em_devices = replicate MAX_DEVICES emptyDevice, em_deviceCount = 0, em_initialized = False,
                    em_active = False, em_channel = 0, em_encrypt = False\<rparr>"

record 'w radio_api =
  ra_nvs_init :: "'w \<Rightarrow> bool \<times> 'w"
  ra_create_netif :: "'w \<Rightarrow> bool \<times> 'w"
  ra_wifi_init :: "'w \<Rightarrow> bool \<times> 'w"
  ra_wifi_start :: "'w \<Rightarrow> bool \<times> 'w"
  ra_set_channel :: "u8 \<Rightarrow> 'w \<Rightarrow> 'w"
  ra_now_init :: "'w \<Rightarrow> bool \<times> 'w"
  ra_now_deinit :: "'w \<Rightarrow> 'w"
  ra_start_tx :: "'w \<Rightarrow> bool \<times> 'w"
  ra_stop_tx :: "'w \<Rightarrow> 'w"
  ra_destroy_tx :: "'w \<Rightarrow> 'w"
  ra_is_peer :: "mac \<Rightarrow> 'w \<Rightarrow> bool"
  ra_add_peer :: "mac \<Rightarrow> u8 \<Rightarrow> bool \<Rightarrow> 'w \<Rightarrow> bool \<times> 'w"
  ra_set_rate :: "mac \<Rightarrow> 'w \<Rightarrow> 'w"
  ra_del_peer :: "mac \<Rightarrow> 'w \<Rightarrow> bool \<times> 'w"

section \<open>Helpers\<close>

definition copyText :: "string \<Rightarrow> nat \<Rightarrow> string option \<Rightarrow> string" where
  "copyText dst dstSize src =
     (if dstSize = 0 then dst
      else case src of
        None \<Rightarrow> dst[0 := CHR 0x00]
      | Some s \<Rightarrow>
          let text = take (dstSize - 1) (takeWhile (\<lambda>c. c \<noteq> CHR 0x00) s)
          in text @ replicate (dstSize - length text) (CHR 0x00))"

definition addPeerToEspNow :: "'w radio_api \<Rightarrow> mac \<Rightarrow> manager \<Rightarrow> 'w \<Rightarrow> bool \<times> 'w" where
  "addPeerToEspNow api m st w =
     (if ra_is_peer api m w then (True, w)
      else let (ok, w) = ra_add_peer api m (em_channel st) (em_encrypt st) w in
        if \<not> ok then (False, w) else (True, ra_set_rate api m w))"

definition removePeerFromEspNow :: "'w radio_api \<Rightarrow> mac \<Rightarrow> 'w \<Rightarrow> bool \<times> 'w" where
  "removePeerFromEspNow api m w =
     (if \<not> ra_is_peer api m w then (True, w) else ra_del_peer api m w)"

definition findDeviceIndexByMac :: "mac option \<Rightarrow> manager \<Rightarrow> nat option" where
  "findDeviceIndexByMac m st =
     (case m of None \<Rightarrow> None
      | Some m \<Rightarrow> find_slot (\<lambda>d. dv_mac d = m) (take (em_deviceCount st) (em_devices st)))"

section \<open>Registry operations\<close>

definition addDevice ::
    "'w radio_api \<Rightarrow> mac option \<Rightarrow> string option \<Rightarrow> string option \<Rightarrow> manager \<Rightarrow> 'w \<Rightarrow> bool \<times> manager \<times> 'w" where
  "addDevice api m name description st w =
     (case m of None \<Rightarrow> (False, st, w)
      | Some mc \<Rightarrow>
        if em_deviceCount st \<ge> MAX_DEVICES then (False, st, w)
        else if findDeviceIndexByMac m st \<noteq> None then (False, st, w)
        else
          let (ok, w) = (if em_initialized st then addPeerToEspNow api mc st w else (True, w)) in
          if \<not> ok then (False, st, w)
          else
            let item = emptyDevice\<lparr>dv_mac := mc,
                         dv_name := copyText (dv_name emptyDevice) DEVICE_NAME_SIZE name,
                         dv_description := copyText (dv_description emptyDevice) DEVICE_DESCRIPTION_SIZE description\<rparr>
            in (True, st\<lparr>em_devices := (em_devices st)[em_deviceCount st := item],
                         em_deviceCount := em_deviceCount st + 1\<rparr>, w))"

definition addDevice_info :: "'w radio_api \<Rightarrow> device_info \<Rightarrow> manager \<Rightarrow> 'w \<Rightarrow> bool \<times> manager \<times> 'w" where
  "addDevice_info api d = addDevice api (Some (dv_mac d)) (Some (dv_name d)) (Some (dv_description d))"

text \<open>\<open>for (i = index; i + 1 < deviceCount_; ++i) devices_[i] = devices_[i + 1];\<close>\<close>

function shift_down :: "nat \<Rightarrow> nat \<Rightarrow> device_info list \<Rightarrow> device_info list" where
  "shift_down i n ds = (if i + 1 < n then shift_down (i + 1) n (ds[i := ds ! (i + 1)]) else ds)"
  by auto
termination by (relation "measure (\<lambda>(i, n, ds). n - i)") auto

declare shift_down.simps [simp del]

definition removeDeviceByIndex :: "'w radio_api \<Rightarrow> nat \<Rightarrow> manager \<Rightarrow> 'w \<Rightarrow> bool \<times> manager \<times> 'w" where
  "removeDeviceByIndex api index st w =
     (if index \<ge> em_deviceCount st then (False, st, w)
      else
        let w = (if em_initialized st then snd (removePeerFromEspNow api (dv_mac (em_devices st ! index)) w) else w);
            ds = shift_down index (em_deviceCount st) (em_devices st);
            n = em_deviceCount st - 1
        in (True, st\<lparr>em_devices := ds[n := emptyDevice], em_deviceCount := n\<rparr>, w))"

definition removeDeviceByMac :: "'w radio_api \<Rightarrow> mac option \<Rightarrow> manager \<Rightarrow> 'w \<Rightarrow> bool \<times> manager \<times> 'w" where
  "removeDeviceByMac api m st w =
     (case findDeviceIndexByMac m st of None \<Rightarrow> (False, st, w) | Some i \<Rightarrow> removeDeviceByIndex api i st w)"

definition updateDeviceByIndex :: "nat \<Rightarrow> string option \<Rightarrow> string option \<Rightarrow> manager \<Rightarrow> bool \<times> manager" where
  "updateDeviceByIndex index name description st =
     (if index \<ge> em_deviceCount st then (False, st)
      else let d = em_devices st ! index;
               d = d\<lparr>dv_name := copyText (dv_name d) DEVICE_NAME_SIZE name\<rparr>;
               d = d\<lparr>dv_description := copyText (dv_description d) DEVICE_DESCRIPTION_SIZE description\<rparr>
           in (True, st\<lparr>em_devices := (em_devices st)[index := d]\<rparr>))"

definition updateDeviceByMac :: "mac option \<Rightarrow> string option \<Rightarrow> string option \<Rightarrow> manager \<Rightarrow> bool \<times> manager" where
  "updateDeviceByMac m name description st =
     (case findDeviceIndexByMac m st of None \<Rightarrow> (False, st) | Some i \<Rightarrow> updateDeviceByIndex i name description st)"

definition clearDevices :: "'w radio_api \<Rightarrow> manager \<Rightarrow> 'w \<Rightarrow> manager \<times> 'w" where
  "clearDevices api st w =
     (let w = (if em_initialized st
               then fold (\<lambda>i w. snd (removePeerFromEspNow api (dv_mac (em_devices st ! i)) w)) [0..<em_deviceCount st] w
               else w)
      in (st\<lparr>em_devices := map (\<lambda>_. emptyDevice) (em_devices st), em_deviceCount := 0\<rparr>, w))"

definition deviceCount :: "manager \<Rightarrow> nat" where "deviceCount st = em_deviceCount st"

definition deviceAt :: "nat \<Rightarrow> manager \<Rightarrow> device_info option" where
  "deviceAt index st = (if index \<ge> em_deviceCount st then None else Some (em_devices st ! index))"

text \<open>The items written to the caller's list; their number is the result.\<close>

definition copyDeviceList :: "bool \<Rightarrow> nat \<Rightarrow> manager \<Rightarrow> device_info list" where
  "copyDeviceList outNull maxItems st =
     (if outNull \<or> maxItems = 0 then []
      else let total = (if em_deviceCount st < maxItems then em_deviceCount st else maxItems)
           in map (\<lambda>i. em_devices st ! i) [0..<total])"

definition deviceIndexByMac :: "mac option \<Rightarrow> manager \<Rightarrow> nat option" where
  "deviceIndexByMac m st = findDeviceIndexByMac m st"

section \<open>Fan-out\<close>

definition sendToDevice :: "(mac \<Rightarrow> bytes \<Rightarrow> 'w \<Rightarrow> bool \<times> 'w) \<Rightarrow> nat \<Rightarrow> bytes \<Rightarrow> manager \<Rightarrow> 'w \<Rightarrow> bool \<times> 'w" where
  "sendToDevice send index payload st w =
     (if index \<ge> em_deviceCount st then (False, w) else send (dv_mac (em_devices st ! index)) payload w)"

fun send_all_loop :: "(mac \<Rightarrow> bytes \<Rightarrow> 'w \<Rightarrow> bool \<times> 'w) \<Rightarrow> bytes \<Rightarrow> manager \<Rightarrow> nat list \<Rightarrow> bool \<Rightarrow> 'w \<Rightarrow> bool \<times> 'w" where
  "send_all_loop send payload st [] sent w = (sent, w)"
| "send_all_loop send payload st (i # is) sent w =
     (case sendToDevice send i payload st w of (ok, w') \<Rightarrow>
        send_all_loop send payload st is (if ok then True else sent) w')"

definition sendToAll :: "(mac \<Rightarrow> bytes \<Rightarrow> 'w \<Rightarrow> bool \<times> 'w) \<Rightarrow> bytes \<Rightarrow> manager \<Rightarrow> 'w \<Rightarrow> bool \<times> 'w" where
  "sendToAll send payload st w =
     (if \<not> em_initialized st \<or> em_deviceCount st = 0 then (False, w)
      else send_all_loop send payload st [0..<em_deviceCount st] False w)"

text \<open>\<open>sendToDeviceWithStatus\<close>: the result and \<open>outDelivered\<close>.\<close>

definition sendToDeviceWithStatus ::
    "(mac \<Rightarrow> bytes \<Rightarrow> 'w \<Rightarrow> (bool \<times> bool) \<times> 'w) \<Rightarrow> nat \<Rightarrow> bytes \<Rightarrow> manager \<Rightarrow> 'w \<Rightarrow> (bool \<times> bool) \<times> 'w" where
  "sendToDeviceWithStatus send index payload st w =
     (if index \<ge> em_deviceCount st then ((False, False), w) else send (dv_mac (em_devices st ! index)) payload w)"

fun status_loop ::
    "(mac \<Rightarrow> bytes \<Rightarrow> 'w \<Rightarrow> (bool \<times> bool) \<times> 'w) \<Rightarrow> bytes \<Rightarrow> manager \<Rightarrow> nat list \<Rightarrow> nat \<Rightarrow> nat \<Rightarrow> 'w \<Rightarrow> nat \<times> nat \<times> 'w" where
  "status_loop send payload st [] delivered tried w = (delivered, tried, w)"
| "status_loop send payload st (i # is) delivered tried w =
     (case sendToDeviceWithStatus send i payload st w of ((gotStatus, ok), w') \<Rightarrow>
        if \<not> gotStatus then status_loop send payload st is delivered tried w'
        else status_loop send payload st is (if ok then delivered + 1 else delivered) (tried + 1) w')"

definition sendToAllWithStatus ::
    "(mac \<Rightarrow> bytes \<Rightarrow> 'w \<Rightarrow> (bool \<times> bool) \<times> 'w) \<Rightarrow> bytes \<Rightarrow> manager \<Rightarrow> 'w \<Rightarrow> bool \<times> nat \<times> nat \<times> 'w" where
  "sendToAllWithStatus send payload st w =
     (if \<not> em_initialized st \<or> em_deviceCount st = 0 then (False, 0, 0, w)
      else let (delivered, tried, w) = status_loop send payload st [0..<em_deviceCount st] 0 0 w
           in (tried > 0, delivered, tried, w))"

text \<open>\<open>handleReceiveStatic\<close>: the guards, the RSSI kept for a known device, and what the receive
  callback is given, if it is called.\<close>

definition handleReceiveStatic ::
    "bool \<Rightarrow> mac option \<Rightarrow> int option \<Rightarrow> bytes option \<Rightarrow> manager \<Rightarrow> (mac \<times> bytes \<times> int) option \<times> manager" where
  "handleReceiveStatic hasCallback src rxRssi incoming st =
     (case (src, incoming) of
        (Some m, Some bs) \<Rightarrow>
          if \<not> em_active st \<or> \<not> hasCallback \<or> length bs = 0 \<or> length bs > 250 then (None, st)
          else
            let rssi = (case rxRssi of None \<Rightarrow> -128 | Some r \<Rightarrow> r);
                st = (case findDeviceIndexByMac (Some m) st of
                        None \<Rightarrow> st
                      | Some i \<Rightarrow> st\<lparr>em_devices := (em_devices st)[i := (em_devices st ! i)\<lparr>dv_lastRssi := rssi\<rparr>]\<rparr>)
            in (Some (m, bs, rssi), st)
      | _ \<Rightarrow> (None, st))"

section \<open>Bring-up and shutdown\<close>

fun restore_peers :: "'w radio_api \<Rightarrow> manager \<Rightarrow> mac list \<Rightarrow> 'w \<Rightarrow> bool \<times> 'w" where
  "restore_peers api st [] w = (True, w)"
| "restore_peers api st (m # ms) w =
     (case addPeerToEspNow api m st w of (ok, w') \<Rightarrow> if \<not> ok then (False, w') else restore_peers api st ms w')"

definition begin_radio :: "'w radio_api \<Rightarrow> u8 \<Rightarrow> bool \<Rightarrow> manager \<Rightarrow> 'w \<Rightarrow> bool \<times> manager \<times> 'w" where
  "begin_radio api channel encrypt st w =
     (let st = st\<lparr>em_channel := channel, em_encrypt := encrypt\<rparr>;
          down = (\<lambda>w. (False, st\<lparr>em_initialized := False\<rparr>, w));
          (ok, w) = ra_nvs_init api w
      in if \<not> ok then down w else
      let (ok, w) = ra_create_netif api w in if \<not> ok then down w else
      let (ok, w) = ra_wifi_init api w in if \<not> ok then down w else
      let (ok, w) = ra_wifi_start api w in if \<not> ok then down w else
      let w = (if channel \<noteq> 0 then ra_set_channel api channel w else w);
          (ok, w) = ra_now_init api w in if \<not> ok then down w else
      let st = st\<lparr>em_initialized := True, em_active := True\<rparr>;
          (ok, w) = ra_start_tx api w
      in if \<not> ok then (False, st\<lparr>em_initialized := False, em_active := False\<rparr>, ra_now_deinit api w) else
      let (ok, w) = restore_peers api st (map dv_mac (take (em_deviceCount st) (em_devices st))) w
      in if \<not> ok then (False, st\<lparr>em_initialized := False, em_active := False\<rparr>,
                       ra_destroy_tx api (ra_now_deinit api (ra_stop_tx api w)))
         else (True, st, w))"

definition end_radio :: "'w radio_api \<Rightarrow> manager \<Rightarrow> 'w \<Rightarrow> manager \<times> 'w" where
  "end_radio api st w =
     (let w = ra_stop_tx api w;
          w = (if em_initialized st then ra_now_deinit api w else w);
          w = ra_destroy_tx api w
      in (st\<lparr>em_initialized := False, em_active := False\<rparr>, w))"

end
