(* ===== verification/Device_Proofs.thy ===== *)
theory Device_Proofs
  imports Device_Registry
begin

text \<open>
  The device registry is a list of at most sixteen devices with distinct MACs: each operation acts
  on that list as its specification says, every unused array cell is cleared, and the radio comes up
  with every listed device as a peer or not at all.
\<close>

section \<open>The list of devices\<close>

definition listed :: "manager \<Rightarrow> device_info list" where
  "listed st = take (em_deviceCount st) (em_devices st)"

definition registry_ok :: "manager \<Rightarrow> bool" where
  "registry_ok st \<longleftrightarrow>
     length (em_devices st) = 16 \<and> em_deviceCount st \<le> 16 \<and> distinct (map dv_mac (listed st)) \<and>
     (\<forall>i. em_deviceCount st \<le> i \<and> i < 16 \<longrightarrow> em_devices st ! i = emptyDevice)"

lemma listed_length: "registry_ok st \<Longrightarrow> length (listed st) = em_deviceCount st"
  by (simp add: registry_ok_def listed_def)

lemma listed_nth: "i < em_deviceCount st \<Longrightarrow> listed st ! i = em_devices st ! i"
  by (simp add: listed_def)

lemma registry_okI:
  assumes "length ds = 16" and "k \<le> 16" and "distinct (map dv_mac (take k ds))"
    and "\<And>i. k \<le> i \<Longrightarrow> i < 16 \<Longrightarrow> ds ! i = emptyDevice"
  shows "registry_ok (st\<lparr>em_devices := ds, em_deviceCount := k\<rparr>)"
  using assms by (simp add: registry_ok_def listed_def)

lemma registry_ok_irrelevant [simp]:
  "registry_ok (st\<lparr>em_initialized := a\<rparr>) = registry_ok st"
  "registry_ok (st\<lparr>em_active := a\<rparr>) = registry_ok st"
  "registry_ok (st\<lparr>em_channel := c\<rparr>) = registry_ok st"
  "registry_ok (st\<lparr>em_encrypt := a\<rparr>) = registry_ok st"
  "listed (st\<lparr>em_initialized := a\<rparr>) = listed st"
  "listed (st\<lparr>em_active := a\<rparr>) = listed st"
  "listed (st\<lparr>em_channel := c\<rparr>) = listed st"
  "listed (st\<lparr>em_encrypt := a\<rparr>) = listed st"
  by (simp_all add: registry_ok_def listed_def)

lemma find_by_mac:
  assumes "registry_ok st"
  shows "findDeviceIndexByMac (Some m) st = Some i \<longleftrightarrow> i < length (listed st) \<and> dv_mac (listed st ! i) = m"
    and "findDeviceIndexByMac (Some m) st = None \<longleftrightarrow> m \<notin> dv_mac ` set (listed st)"
proof -
  have f: "findDeviceIndexByMac (Some m) st = find_slot (\<lambda>d. dv_mac d = m) (listed st)"
    by (simp add: findDeviceIndexByMac_def listed_def)
  have dist: "distinct (map dv_mac (listed st))" using assms by (simp add: registry_ok_def)
  show "findDeviceIndexByMac (Some m) st = None \<longleftrightarrow> m \<notin> dv_mac ` set (listed st)"
    unfolding f by (auto simp: find_slot_None)
  show "findDeviceIndexByMac (Some m) st = Some i \<longleftrightarrow> i < length (listed st) \<and> dv_mac (listed st ! i) = m"
  proof
    assume "findDeviceIndexByMac (Some m) st = Some i"
    then show "i < length (listed st) \<and> dv_mac (listed st ! i) = m" unfolding f by (auto dest: find_slot_SomeD)
  next
    assume i: "i < length (listed st) \<and> dv_mac (listed st ! i) = m"
    show "findDeviceIndexByMac (Some m) st = Some i"
      unfolding f
    proof (rule find_slot_SomeI)
      fix j assume "j < i"
      with i dist show "dv_mac (listed st ! j) \<noteq> m"
        using nth_eq_iff_index_eq [of "map dv_mac (listed st)" j i] by auto
    qed (use i in auto)
  qed
qed

section \<open>Operations on the list\<close>

lemma update_changes:
  assumes "registry_ok st" and "i < em_deviceCount st" and "dv_mac d = dv_mac (em_devices st ! i)"
  shows "registry_ok (st\<lparr>em_devices := (em_devices st)[i := d]\<rparr>) \<and>
         listed (st\<lparr>em_devices := (em_devices st)[i := d]\<rparr>) = (listed st)[i := d]"
proof -
  have "map dv_mac ((listed st)[i := d]) = map dv_mac (listed st)"
    using assms(2,3) by (simp add: map_update listed_nth flip: listed_nth)
       (metis list_update_id listed_nth nth_map list_update_beyond not_less length_map)
  moreover have "take (em_deviceCount st) ((em_devices st)[i := d]) = (listed st)[i := d]"
    by (simp add: listed_def take_update_swap)
  ultimately show ?thesis using assms by (auto simp: registry_ok_def listed_def nth_list_update)
qed

lemma shift_down_eq:
  "n \<le> length ds \<Longrightarrow> i < n \<Longrightarrow>
   length (shift_down i n ds) = length ds \<and>
   take (n - 1) (shift_down i n ds) = take i ds @ drop (i + 1) (take n ds) \<and>
   (\<forall>j. n \<le> j \<longrightarrow> shift_down i n ds ! j = ds ! j)"
proof (induction i n ds rule: shift_down.induct)
  case (1 i n ds)
  show ?case
  proof (cases "i + 1 < n")
    case False
    with 1(3) have "n = i + 1" by simp
    then show ?thesis by (simp add: shift_down.simps)
  next
    case True
    let ?ds = "ds[i := ds ! (i + 1)]"
    have unf: "shift_down i n ds = shift_down (i + 1) n ?ds" using True by (subst shift_down.simps) simp
    from 1(1) [OF True] 1(2) True have IH: "length (shift_down (i + 1) n ?ds) = length ?ds"
      "take (n - 1) (shift_down (i + 1) n ?ds) = take (i + 1) ?ds @ drop (i + 1 + 1) (take n ?ds)"
      "\<forall>j. n \<le> j \<longrightarrow> shift_down (i + 1) n ?ds ! j = ?ds ! j" by simp_all
    have "take (i + 1) ?ds = take i ds @ [ds ! (i + 1)]"
      using 1(2) True by (simp add: take_Suc_conv_app_nth)
    moreover have "drop (i + 1 + 1) (take n ?ds) = drop (i + 1 + 1) (take n ds)"
      by (simp add: take_update_swap)
    moreover have "drop (i + 1) (take n ds) = ds ! (i + 1) # drop (i + 1 + 1) (take n ds)"
      using 1(2) True by (simp add: Cons_nth_drop_Suc [symmetric])
    ultimately show ?thesis using IH True by (simp add: unf)
  qed
qed

lemma removal:
  assumes ok: "registry_ok st" and i: "i < em_deviceCount st"
  shows "registry_ok (st\<lparr>em_devices := (shift_down i (em_deviceCount st) (em_devices st))[em_deviceCount st - 1 := emptyDevice],
            em_deviceCount := em_deviceCount st - 1\<rparr>) \<and>
         listed (st\<lparr>em_devices := (shift_down i (em_deviceCount st) (em_devices st))[em_deviceCount st - 1 := emptyDevice],
            em_deviceCount := em_deviceCount st - 1\<rparr>) = take i (listed st) @ drop (i + 1) (listed st)"
proof -
  let ?n = "em_deviceCount st" and ?ds = "em_devices st"
  have n: "?n \<le> length ?ds" using ok by (simp add: registry_ok_def)
  note sh = shift_down_eq [OF n i]
  have l: "take (?n - 1) ((shift_down i ?n ?ds)[?n - 1 := emptyDevice]) = take i (listed st) @ drop (i + 1) (listed st)"
    using sh i by (simp add: listed_def min_def)
  have "distinct (map dv_mac (listed st))" using ok by (simp add: registry_ok_def)
  then have "distinct (take i (map dv_mac (listed st)) @ drop (i + 1) (map dv_mac (listed st)))"
    using set_take_disj_set_drop_if_distinct [of "map dv_mac (listed st)" i "i + 1"] by simp
  then have "distinct (map dv_mac (take i (listed st) @ drop (i + 1) (listed st)))"
    by (simp add: take_map drop_map)
  moreover have "(shift_down i ?n ?ds)[?n - 1 := emptyDevice] ! j = emptyDevice" if "?n - 1 \<le> j" "j < 16" for j
    using that sh ok i by (cases "j = ?n - 1") (auto simp: registry_ok_def nth_list_update)
  ultimately show ?thesis
    using sh ok i l by (auto simp: registry_ok_def listed_def)
qed

lemma addition:
  assumes "registry_ok st" and "em_deviceCount st < 16" and "dv_mac d \<notin> dv_mac ` set (listed st)"
  shows "registry_ok (st\<lparr>em_devices := (em_devices st)[em_deviceCount st := d], em_deviceCount := em_deviceCount st + 1\<rparr>) \<and>
         listed (st\<lparr>em_devices := (em_devices st)[em_deviceCount st := d], em_deviceCount := em_deviceCount st + 1\<rparr>) =
           listed st @ [d]"
proof -
  have "take (em_deviceCount st + 1) ((em_devices st)[em_deviceCount st := d]) = listed st @ [d]"
    using assms(1,2) by (simp add: listed_def registry_ok_def take_Suc_conv_app_nth)
  with assms show ?thesis by (auto simp: registry_ok_def listed_def nth_list_update)
qed

section \<open>Refinement of the list\<close>

datatype registry_op =
    Add "mac option" "string option" "string option"
  | RemoveAt nat
  | RemoveMac "mac option"
  | Update nat "string option" "string option"
  | Clear
  | Begin u8 bool
  | Finish
  | Receive "mac option" "int option" "bytes option"

fun registry_step :: "'w radio_api \<Rightarrow> registry_op \<Rightarrow> manager \<times> 'w \<Rightarrow> manager \<times> 'w" where
  "registry_step api (Add m n d) (st, w) = snd (addDevice api m n d st w)"
| "registry_step api (RemoveAt i) (st, w) = snd (removeDeviceByIndex api i st w)"
| "registry_step api (RemoveMac m) (st, w) = snd (removeDeviceByMac api m st w)"
| "registry_step api (Update i n d) (st, w) = (snd (updateDeviceByIndex i n d st), w)"
| "registry_step api Clear (st, w) = clearDevices api st w"
| "registry_step api (Begin c e) (st, w) = snd (begin_radio api c e st w)"
| "registry_step api Finish (st, w) = end_radio api st w"
| "registry_step api (Receive m r bs) (st, w) = (snd (handleReceiveStatic True m r bs st), w)"

text \<open>The driver's answer to the peer that an addition needs.\<close>

definition driver_accepts :: "'w radio_api \<Rightarrow> mac \<Rightarrow> manager \<Rightarrow> 'w \<Rightarrow> bool" where
  "driver_accepts api m st w \<longleftrightarrow>
     em_initialized st \<longrightarrow> ra_is_peer api m w \<or> fst (ra_add_peer api m (em_channel st) (em_encrypt st) w)"

text \<open>The specification: what each operation does to the list of devices.\<close>

definition new_device :: "mac \<Rightarrow> string option \<Rightarrow> string option \<Rightarrow> device_info" where
  "new_device m n d = \<lparr>dv_mac = m, dv_name = copyText (replicate 32 (CHR 0x00)) 32 n,
     dv_description = copyText (replicate 96 (CHR 0x00)) 96 d, dv_lastRssi = -128\<rparr>"

definition renamed :: "string option \<Rightarrow> string option \<Rightarrow> device_info \<Rightarrow> device_info" where
  "renamed n d x = x\<lparr>dv_name := copyText (dv_name x) 32 n, dv_description := copyText (dv_description x) 96 d\<rparr>"

fun list_spec :: "(mac \<Rightarrow> bool) \<Rightarrow> registry_op \<Rightarrow> bool \<Rightarrow> device_info list \<Rightarrow> device_info list" where
  "list_spec accepts (Add (Some m) n d) active l =
     (if length l < 16 \<and> m \<notin> dv_mac ` set l \<and> accepts m then l @ [new_device m n d] else l)"
| "list_spec accepts (Add None n d) active l = l"
| "list_spec accepts (RemoveAt i) active l = take i l @ drop (i + 1) l"
| "list_spec accepts (RemoveMac m) active l = filter (\<lambda>x. Some (dv_mac x) \<noteq> m) l"
| "list_spec accepts (Update i n d) active l = (if i < length l then l[i := renamed n d (l ! i)] else l)"
| "list_spec accepts Clear active l = []"
| "list_spec accepts (Begin c e) active l = l"
| "list_spec accepts Finish active l = l"
| "list_spec accepts (Receive (Some m) r (Some bs)) active l =
     (if active \<and> bs \<noteq> [] \<and> length bs \<le> 250
      then map (\<lambda>x. if dv_mac x = m then x\<lparr>dv_lastRssi := (case r of None \<Rightarrow> -128 | Some v \<Rightarrow> v)\<rparr> else x) l else l)"
| "list_spec accepts (Receive m r bs) active l = l"

lemma begin_radio_devices:
  "em_devices (fst (snd (begin_radio api c e st w))) = em_devices st"
  "em_deviceCount (fst (snd (begin_radio api c e st w))) = em_deviceCount st"
  by (simp_all add: begin_radio_def Let_def split: prod.split)

lemma filter_one:
  assumes "distinct (map f l)" and "i < length l"
  shows "filter (\<lambda>x. f x \<noteq> f (l ! i)) l = take i l @ drop (i + 1) l"
proof -
  have l: "l = take i l @ l ! i # drop (i + 1) l" using assms(2) by (simp add: id_take_nth_drop)
  then have "distinct (map f (take i l @ l ! i # drop (i + 1) l))" using assms(1) by simp
  then have "filter (\<lambda>x. f x \<noteq> f (l ! i)) (take i l) = take i l" "filter (\<lambda>x. f x \<noteq> f (l ! i)) (drop (i + 1) l) = drop (i + 1) l"
    by (auto intro!: filter_True) (metis imageI)+
  then show ?thesis by (subst l) simp
qed

lemma map_one:
  assumes "distinct (map f l)" and "i < length l"
  shows "map (\<lambda>x. if f x = f (l ! i) then g x else x) l = l[i := g (l ! i)]"
  using assms nth_eq_iff_index_eq [of "map f l"]
  by (auto simp: list_eq_iff_nth_eq nth_list_update)

lemma remove_step:
  assumes "registry_ok st"
  shows "registry_ok (fst (snd (removeDeviceByIndex api i st w))) \<and>
         listed (fst (snd (removeDeviceByIndex api i st w))) = take i (listed st) @ drop (i + 1) (listed st)"
  using assms removal [OF assms, of i] listed_length [OF assms]
  by (simp add: removeDeviceByIndex_def Let_def)

lemma registry_init: "registry_ok EspNowManager \<and> listed EspNowManager = []"
  by (simp add: registry_ok_def listed_def EspNowManager_def MAX_DEVICES_def)

lemma add_step:
  assumes ok: "registry_ok st"
  shows "registry_ok (fst (snd (addDevice api (Some m) n d st w))) \<and>
         listed (fst (snd (addDevice api (Some m) n d st w))) =
           list_spec (\<lambda>m. driver_accepts api m st w) (Add (Some m) n d) a (listed st)"
proof (cases "em_deviceCount st < 16 \<and> m \<notin> dv_mac ` set (listed st) \<and> driver_accepts api m st w")
  case True
  have "emptyDevice\<lparr>dv_mac := m, dv_name := copyText (dv_name emptyDevice) DEVICE_NAME_SIZE n,
      dv_description := copyText (dv_description emptyDevice) DEVICE_DESCRIPTION_SIZE d\<rparr> = new_device m n d"
    by (simp add: emptyDevice_def new_device_def DEVICE_NAME_SIZE_def DEVICE_DESCRIPTION_SIZE_def)
  then have "fst (snd (addDevice api (Some m) n d st w)) =
      st\<lparr>em_devices := (em_devices st)[em_deviceCount st := new_device m n d], em_deviceCount := em_deviceCount st + 1\<rparr>"
    using True find_by_mac(2) [OF ok, of m]
    by (auto simp: addDevice_def MAX_DEVICES_def driver_accepts_def addPeerToEspNow_def Let_def split: prod.split)
  with True addition [OF ok, of "new_device m n d"] listed_length [OF ok] show ?thesis by (simp add: new_device_def)
next
  case False
  then have "fst (snd (addDevice api (Some m) n d st w)) = st"
    using find_by_mac(2) [OF ok, of m]
    by (auto simp: addDevice_def MAX_DEVICES_def driver_accepts_def addPeerToEspNow_def Let_def split: prod.split if_splits)
  with False ok listed_length [OF ok] show ?thesis by auto
qed

lemma update_step:
  assumes ok: "registry_ok st"
  shows "registry_ok (snd (updateDeviceByIndex i n d st)) \<and>
         listed (snd (updateDeviceByIndex i n d st)) = list_spec p (Update i n d) a (listed st)"
  using ok update_changes [OF ok, of i "renamed n d (em_devices st ! i)"] listed_length [OF ok] listed_nth [of i st]
  by (auto simp: updateDeviceByIndex_def renamed_def DEVICE_NAME_SIZE_def DEVICE_DESCRIPTION_SIZE_def Let_def)

lemma remove_mac_step:
  assumes ok: "registry_ok st"
  shows "registry_ok (fst (snd (removeDeviceByMac api m st w))) \<and>
         listed (fst (snd (removeDeviceByMac api m st w))) = list_spec p (RemoveMac m) a (listed st)"
proof (cases m)
  case None
  with ok show ?thesis by (simp add: removeDeviceByMac_def findDeviceIndexByMac_def)
next
  case (Some mc)
  have dist: "distinct (map dv_mac (listed st))" using ok by (simp add: registry_ok_def)
  show ?thesis
  proof (cases "findDeviceIndexByMac (Some mc) st")
    case None
    with find_by_mac(2) [OF ok, of mc] have "filter (\<lambda>x. Some (dv_mac x) \<noteq> m) (listed st) = listed st"
      by (auto intro!: filter_True simp: Some)
    with None Some ok show ?thesis by (simp add: removeDeviceByMac_def)
  next
    case (Some i)
    with find_by_mac(1) [OF ok, of mc i] have i: "i < length (listed st)" "dv_mac (listed st ! i) = mc" by simp_all
    with filter_one [OF dist i(1)] remove_step [OF ok, of api i w] Some \<open>m = Some mc\<close> show ?thesis
      by (simp add: removeDeviceByMac_def)
  qed
qed

lemma receive_step:
  assumes ok: "registry_ok st"
  shows "registry_ok (snd (handleReceiveStatic True m r bs st)) \<and>
         listed (snd (handleReceiveStatic True m r bs st)) = list_spec p (Receive m r bs) (em_active st) (listed st)"
proof (cases "\<exists>mc ds. m = Some mc \<and> bs = Some ds \<and> em_active st \<and> ds \<noteq> [] \<and> length ds \<le> 250")
  case False
  with ok show ?thesis
    by (cases m; cases bs) (auto simp: handleReceiveStatic_def)
next
  case True
  then obtain mc ds where mb: "m = Some mc" "bs = Some ds" "em_active st" "ds \<noteq> []" "length ds \<le> 250" by blast
  let ?v = "case r of None \<Rightarrow> -128 | Some v \<Rightarrow> v"
  have dist: "distinct (map dv_mac (listed st))" using ok by (simp add: registry_ok_def)
  show ?thesis
  proof (cases "findDeviceIndexByMac (Some mc) st")
    case None
    with find_by_mac(2) [OF ok, of mc]
    have "map (\<lambda>x. if dv_mac x = mc then x\<lparr>dv_lastRssi := ?v\<rparr> else x) (listed st) = listed st"
      by (auto intro!: map_idI)
    with None mb ok show ?thesis by (simp add: handleReceiveStatic_def)
  next
    case (Some i)
    with find_by_mac(1) [OF ok, of mc i] have i: "i < length (listed st)" "dv_mac (listed st ! i) = mc" by simp_all
    with listed_length [OF ok] listed_nth [of i st] have d: "i < em_deviceCount st" "listed st ! i = em_devices st ! i"
      by simp_all
    have new: "snd (handleReceiveStatic True m r bs st) =
        st\<lparr>em_devices := (em_devices st)[i := (em_devices st ! i)\<lparr>dv_lastRssi := ?v\<rparr>]\<rparr>"
      using Some mb by (simp add: handleReceiveStatic_def Let_def)
    have "list_spec p (Receive m r bs) (em_active st) (listed st) =
        (listed st)[i := (em_devices st ! i)\<lparr>dv_lastRssi := ?v\<rparr>]"
      using map_one [OF dist i(1), of "\<lambda>x. x\<lparr>dv_lastRssi := ?v\<rparr>"] mb i(2) d(2) by simp
    with update_changes [OF ok d(1), of "(em_devices st ! i)\<lparr>dv_lastRssi := ?v\<rparr>"] show ?thesis
      unfolding new by simp
  qed
qed

lemma registry_step_refines:
  assumes ok: "registry_ok st"
  shows "registry_ok (fst (registry_step api op (st, w))) \<and>
         listed (fst (registry_step api op (st, w))) =
           list_spec (\<lambda>m. driver_accepts api m st w) op (em_active st) (listed st)"
proof (cases op)
  case (Add m n d)
  show ?thesis
  proof (cases m)
    case None
    with Add ok show ?thesis by (simp add: addDevice_def)
  next
    case (Some mc)
    with Add add_step [OF ok, of api mc n d w "em_active st"] show ?thesis
      by (simp only: registry_step.simps)
  qed
next
  case (Clear)
  with ok show ?thesis by (simp add: clearDevices_def registry_ok_def listed_def)
next
  case (Begin c e)
  with ok show ?thesis by (simp add: registry_ok_def listed_def begin_radio_devices)
next
  case Finish
  with ok show ?thesis by (simp add: end_radio_def Let_def)
qed (use ok remove_step [OF ok] remove_mac_step [OF ok] update_step [OF ok] receive_step [OF ok] in simp_all)

text \<open>C16. The device registry is a list. After any history of additions, removals, updates, clears,
  radio restarts and receptions from boot, whatever the driver answers: the listed devices have
  distinct MACs and are at most sixteen, and the next operation changes the list exactly as the
  list specification says (append unless full, known or refused by the driver; delete one and keep
  the order; rename one; record the RSSI of the sender and nothing else); looking a MAC up finds its
  position.\<close>

theorem device_registry_is_a_list:
  assumes "(st, w) = fold (registry_step api) ops (EspNowManager, w0)"
  shows "listed (fst (registry_step api op (st, w))) =
           list_spec (\<lambda>m. driver_accepts api m st w) op (em_active st) (listed st) \<and>
         distinct (map dv_mac (listed st)) \<and> length (listed st) \<le> 16 \<and>
         (deviceIndexByMac (Some m) st = Some i \<longleftrightarrow> i < length (listed st) \<and> dv_mac (listed st ! i) = m) \<and>
         (deviceAt i st = (if i < length (listed st) then Some (listed st ! i) else None))"
proof -
  have run: "registry_ok s \<Longrightarrow> registry_ok (fst (fold (registry_step api) ops (s, v)))" for s v
  proof (induction ops arbitrary: s v)
    case (Cons op ops)
    from registry_step_refines [OF Cons.prems, of api op v] have "registry_ok (fst (registry_step api op (s, v)))" by blast
    from Cons.IH [OF this, of "snd (registry_step api op (s, v))"] show ?case by simp
  qed simp
  have ok: "registry_ok st" using run [of EspNowManager w0] registry_init assms by (metis fst_conv)
  from registry_step_refines [OF ok, of api op w] find_by_mac(1) [OF ok, of m i] listed_length [OF ok] ok listed_nth [of i st]
  show ?thesis by (simp add: registry_ok_def deviceIndexByMac_def deviceAt_def)
qed

text \<open>A driver that accepts everything, for the witness.\<close>

definition open_radio_api :: "mac list radio_api" where
  "open_radio_api =
     \<lparr>ra_nvs_init = Pair True, ra_create_netif = Pair True, ra_wifi_init = Pair True, ra_wifi_start = Pair True,
      ra_set_channel = (\<lambda>c w. w), ra_now_init = Pair True, ra_now_deinit = (\<lambda>w. []), ra_start_tx = Pair True,
      ra_stop_tx = (\<lambda>w. w), ra_destroy_tx = (\<lambda>w. w), ra_is_peer = (\<lambda>m w. m \<in> set w),
      ra_add_peer = (\<lambda>m c e w. (True, m # w)), ra_set_rate = (\<lambda>m w. w),
      ra_del_peer = (\<lambda>m w. (True, filter (\<lambda>x. x \<noteq> m) w))\<rparr>"

theorem device_registry_is_a_list_witness:
  "let ops = [Begin 1 False, Add (Some (1, 2, 3, 4, 5, 6)) (Some ''a'') None]; s = fold (registry_step open_radio_api) ops (EspNowManager, [])
   in listed (fst (registry_step open_radio_api (RemoveMac (Some (1, 2, 3, 4, 5, 6))) s)) =
        filter (\<lambda>x. Some (dv_mac x) \<noteq> Some (1, 2, 3, 4, 5, 6)) (listed (fst s)) \<and>
      deviceIndexByMac (Some (1, 2, 3, 4, 5, 6)) (fst s) = Some 0"
proof -
  let ?s = "fold (registry_step open_radio_api) [Begin 1 False, Add (Some (1, 2, 3, 4, 5, 6)) (Some ''a'') None] (EspNowManager, [])"
  have e: "(fst ?s, snd ?s) = ?s" by simp
  note th = device_registry_is_a_list [OF e, of "RemoveMac (Some (1, 2, 3, 4, 5, 6))" "(1, 2, 3, 4, 5, 6)" 0]
  have "0 < length (listed (fst ?s)) \<and> dv_mac (listed (fst ?s) ! 0) = (1, 2, 3, 4, 5, 6)" by code_simp
  with th show ?thesis by (simp only: Let_def list_spec.simps prod.collapse simp_thms)
qed

section \<open>Bring-up\<close>

lemma restored_peers:
  assumes add: "\<And>m c e v v'. ra_add_peer api m c e v = (True, v') \<Longrightarrow> ra_is_peer api m v'"
    and keep: "\<And>m x c e v. ra_is_peer api x v \<Longrightarrow> ra_is_peer api x (snd (ra_add_peer api m c e v))"
    and rate: "\<And>m x v. ra_is_peer api x (ra_set_rate api m v) = ra_is_peer api x v"
    and fin: "restore_peers api st ms w = (True, w')"
  shows "(\<forall>m\<in>set ms. ra_is_peer api m w') \<and> (\<forall>x. ra_is_peer api x w \<longrightarrow> ra_is_peer api x w')"
  using fin
proof (induction ms arbitrary: w)
  case (Cons m ms)
  obtain ok v where a: "addPeerToEspNow api m st w = (ok, v)" by (cases "addPeerToEspNow api m st w") auto
  with Cons.prems have ok: "ok" and r: "restore_peers api st ms v = (True, w')" by (auto split: if_splits)
  have v: "ra_is_peer api m v \<and> (\<forall>x. ra_is_peer api x w \<longrightarrow> ra_is_peer api x v)"
  proof (cases "ra_is_peer api m w")
    case True
    with a show ?thesis by (simp add: addPeerToEspNow_def)
  next
    case False
    obtain b u where p: "ra_add_peer api m (em_channel st) (em_encrypt st) w = (b, u)"
      by (cases "ra_add_peer api m (em_channel st) (em_encrypt st) w") auto
    with False a ok have b: "b" "v = ra_set_rate api m u" by (auto simp: addPeerToEspNow_def split: if_splits)
    with p add [of m _ _ w u] keep [of _ w m "em_channel st" "em_encrypt st"] show ?thesis
      by (simp add: rate)
  qed
  from Cons.IH [OF r] v show ?case unfolding list.set by blast
qed simp

text \<open>C17. The radio comes up with every device or not at all. When \<open>begin\<close> succeeds the manager is
  initialized and, for a driver whose table keeps what is added, every listed device is a peer of
  the driver; when any step fails (flash, netif, Wi-Fi, ESP-NOW, the worker or a single peer) the
  manager is not initialized, and the devices are those it had.\<close>

theorem radio_up_with_all_peers_or_down:
  assumes "\<And>m c e v v'. ra_add_peer api m c e v = (True, v') \<Longrightarrow> ra_is_peer api m v'"
    and "\<And>m x c e v. ra_is_peer api x v \<Longrightarrow> ra_is_peer api x (snd (ra_add_peer api m c e v))"
    and "\<And>m x v. ra_is_peer api x (ra_set_rate api m v) = ra_is_peer api x v"
    and b: "begin_radio api channel encrypt st w = (ok, st', w')"
  shows "em_initialized st' = ok \<and> listed st' = listed st \<and>
         (ok \<longrightarrow> em_active st' \<and> (\<forall>d\<in>set (listed st). ra_is_peer api (dv_mac d) w'))"
proof -
  have kept: "listed st' = listed st" using begin_radio_devices [of api channel encrypt st w] b by (simp add: listed_def)
  have up: "em_initialized st' = ok" "ok \<Longrightarrow> em_active st'"
    using b by (auto simp: begin_radio_def Let_def split: prod.splits if_splits)
  have "\<forall>d\<in>set (listed st). ra_is_peer api (dv_mac d) w'" if ok: "ok"
  proof -
    have "\<exists>v. restore_peers api st' (map dv_mac (listed st)) v = (True, w')"
      using b ok by (auto simp: begin_radio_def listed_def Let_def split: prod.splits if_splits)
    then obtain v where "restore_peers api st' (map dv_mac (listed st)) v = (True, w')" ..
    from restored_peers [OF assms(1-3) this] show ?thesis by simp
  qed
  with kept up show ?thesis by blast
qed

theorem radio_up_with_all_peers_or_down_witness:
  "let st = fst (fold (registry_step open_radio_api) [Add (Some (1, 2, 3, 4, 5, 6)) None None] (EspNowManager, [])) in
   \<exists>st' w'. begin_radio open_radio_api 6 False st [] = (True, st', w') \<and> em_initialized st' \<and>
     (\<forall>d\<in>set (listed st). ra_is_peer open_radio_api (dv_mac d) w')"
proof -
  let ?st = "fst (fold (registry_step open_radio_api) [Add (Some (1, 2, 3, 4, 5, 6)) None None] (EspNowManager, []))"
  obtain ok st' w' where b: "begin_radio open_radio_api 6 False ?st [] = (ok, st', w')"
    by (cases "begin_radio open_radio_api 6 False ?st []") auto
  have "em_initialized st' = ok \<and> listed st' = listed ?st \<and>
      (ok \<longrightarrow> em_active st' \<and> (\<forall>d\<in>set (listed ?st). ra_is_peer open_radio_api (dv_mac d) w'))"
    by (rule radio_up_with_all_peers_or_down [OF _ _ _ b]) (auto simp: open_radio_api_def)
  moreover have "fst (begin_radio open_radio_api 6 False ?st [])" by code_simp
  ultimately show ?thesis using b by (simp add: Let_def del: fold.simps)
qed

end
