(* ===== verification/Radio_Channels.thy ===== *)
theory Radio_Channels
  imports Btp_Command Key_Store
begin

text \<open>
  Whose message is a radio datagram, and how it is opened: the channel contract of
  \<open>include/bally_channels.h\<close>, the envelope reading of \<open>lib/HubRelay\<close>, the key-L sealing of
  \<open>lib/RadioSeal\<close> and the reassembling router of \<open>lib/ProtocolRouter\<close>.

  The library's frame codec, AEAD and \<open>btp::Node\<close> are arguments. A header on the radio has the
  flags and fragment fields as well; a function that only reads the logical fields takes any
  extension of \<open>btp_header\<close>.
\<close>

record radio_header = btp_header +
  hd_flags :: u16
  hd_fragment_index :: u8
  hd_fragment_count :: u8

definition no_header :: radio_header where
  "no_header = \<lparr>hd_type = MtInvalid, hd_object_id = 0, hd_source_id = 0, hd_boot_id = 0, hd_sequence = 0,
     hd_timestamp_us = 0, hd_flags = 0, hd_fragment_index = 0, hd_fragment_count = 0\<rparr>"

section \<open>The channel contract\<close>

datatype channel = A_Console | B_Endpoint | C_Link
datatype key_kind = KkNone | KkEndpoint | KkLink
datatype vantage = VantageConsole | VantageRobot
datatype side = Cable | Radio

definition key_of_channel :: "channel \<Rightarrow> key_kind" where
  "key_of_channel ch = (if ch = A_Console then KkNone else if ch = B_Endpoint then KkEndpoint else KkLink)"

definition channel_of_peer :: "vantage \<Rightarrow> u32 \<Rightarrow> u32 \<Rightarrow> channel" where
  "channel_of_peer self peer_source_id dongle_source_id =
     (if peer_source_id = dongle_source_id then (if self = VantageRobot then C_Link else A_Console)
      else B_Endpoint)"

definition dongle_channel_of :: "side \<Rightarrow> bool \<Rightarrow> channel" where
  "dongle_channel_of sd consumed = (if sd = Cable then A_Console else if consumed then C_Link else B_Endpoint)"

definition kManifestDataObjectId :: u16 where "kManifestDataObjectId = 0x0004"
definition kStatusObjectId :: u16 where "kStatusObjectId = 0x0009"

definition dongle_may_consume :: "message_type \<Rightarrow> u16 \<Rightarrow> bool" where
  "dongle_may_consume type object_id \<longleftrightarrow>
     (type = MtControl \<and> object_id = kStatusObjectId) \<or>
     (type = MtCommand \<and> (object_id = kCommandRequestObjectId \<or> object_id = kCommandResultObjectId)) \<or>
     (type = MtControl \<and> object_id = kManifestDataObjectId)"

definition dongle_consumes :: "message_type \<Rightarrow> u16 \<Rightarrow> u32 \<Rightarrow> u32 \<Rightarrow> bool" where
  "dongle_consumes type object_id reference_source_id self_source_id \<longleftrightarrow>
     (type = MtControl \<and> object_id = kStatusObjectId) \<or>
     (((type = MtCommand \<and> (object_id = kCommandRequestObjectId \<or> object_id = kCommandResultObjectId)) \<or>
       (type = MtControl \<and> object_id = kManifestDataObjectId)) \<and>
      reference_source_id = self_source_id \<and> self_source_id \<noteq> 0)"

lemma consumes_may_consume: "dongle_consumes type oid r s \<Longrightarrow> dongle_may_consume type oid"
  by (auto simp: dongle_consumes_def dongle_may_consume_def)

section \<open>HubRelay\<close>

datatype btp_error = BeOk | BeInvalidArgument | BeCrcMismatch | BeOther u8

type_synonym decode_fn = "bytes \<Rightarrow> btp_error \<times> radio_header \<times> bytes"

record radio_ingress =
  ri_error :: btp_error
  ri_header :: radio_header
  ri_mayConsume :: bool

definition classifyRadio :: "decode_fn \<Rightarrow> bytes \<Rightarrow> radio_ingress" where
  "classifyRadio decode datagram =
     (case decode datagram of
        (error, header, payload) \<Rightarrow>
          if error \<noteq> BeOk then \<lparr>ri_error = error, ri_header = no_header, ri_mayConsume = False\<rparr>
          else \<lparr>ri_error = error, ri_header = header,
                ri_mayConsume = dongle_may_consume (hd_type header) (hd_object_id header)\<rparr>)"

text \<open>\<open>encode\<close> is given the frame, the transport profile and the capacity of the buffer.\<close>

definition reencodeVerbatim ::
    "(radio_header \<times> bytes \<Rightarrow> 't \<Rightarrow> nat \<Rightarrow> btp_error \<times> bytes) \<Rightarrow> radio_header \<times> bytes \<Rightarrow> 't \<Rightarrow> nat \<Rightarrow> bool \<times> bytes" where
  "reencodeVerbatim encode decoded transport outCapacity =
     (let frame = (fst decoded, snd decoded); (error, written) = encode frame transport outCapacity
      in (error = BeOk, written))"

section \<open>RadioSeal\<close>

definition kTagSize :: nat where "kTagSize = 16"

text \<open>The library's AES-128-GCM. The two functions give \<open>None\<close> for every \<open>AeadError\<close> but \<open>Ok\<close>.\<close>

record aead_lib =
  ae_flag_encrypted :: u16
  ae_flag_fragmented :: u16
  ae_is_gcm :: "u16 \<Rightarrow> bool"
  ae_seal :: "bytes \<Rightarrow> btp_header \<Rightarrow> byte_view \<Rightarrow> bytes option"
  ae_open :: "bytes \<Rightarrow> radio_header \<Rightarrow> bytes \<Rightarrow> bytes option"

text \<open>The sealer is handed the logical header of the message. A null input with size zero is replaced by the address of an octet that is not read.\<close>

definition seal :: "aead_lib \<Rightarrow> key_holder \<Rightarrow> btp_header \<Rightarrow> byte_view \<Rightarrow> bytes option" where
  "seal lib holder header plaintext =
     (if \<not> hasKeyL holder then None
      else let backendPlaintext = (if view_size plaintext = 0 \<and> view_null plaintext then View [] else plaintext)
           in ae_seal lib (take kKeyLength (the (keyL holder))) header backendPlaintext)"

definition open_sealed :: "aead_lib \<Rightarrow> key_holder \<Rightarrow> radio_header \<Rightarrow> bytes \<Rightarrow> bytes option" where
  "open_sealed lib holder header ciphertextAndTag =
     (if \<not> hasKeyL holder then None
      else if hd_flags header AND ae_flag_encrypted lib = 0 then None
      else if \<not> ae_is_gcm lib (hd_flags header) then None
      else ae_open lib (take kKeyLength (the (keyL holder))) header ciphertextAndTag)"

section \<open>ProtocolRouter\<close>

definition kMaxPayloadSize :: nat where "kMaxPayloadSize = 2000"
definition kSlotCount :: nat where "kSlotCount = 4"
definition kReassemblyTimeoutMs :: u32 where "kReassemblyTimeoutMs = 4000"

datatype receive_outcome =
    RoComplete | RoFragmentAccepted | RoDuplicateFragment | RoDroppedCrc | RoDroppedDecode
  | RoDroppedReassembly | RoInvalidArgument

datatype outcome =
    OcRouted | OcFragmentAccepted | OcDuplicateFragment | OcDroppedDecode | OcDroppedCrc
  | OcDroppedReassembly | OcDroppedInvalidArgument

fun mapOutcome :: "receive_outcome \<Rightarrow> outcome" where
  "mapOutcome RoComplete = OcRouted"
| "mapOutcome RoFragmentAccepted = OcFragmentAccepted"
| "mapOutcome RoDuplicateFragment = OcDuplicateFragment"
| "mapOutcome RoDroppedCrc = OcDroppedCrc"
| "mapOutcome RoDroppedDecode = OcDroppedDecode"
| "mapOutcome RoDroppedReassembly = OcDroppedReassembly"
| "mapOutcome RoInvalidArgument = OcDroppedInvalidArgument"

text \<open>The node: \<open>receive\<close> gives the message when its verdict is \<open>NodeRx::Complete\<close>, then
  \<open>receive_outcome\<close> and the receiver's counters can be read.\<close>

record receiver_stats =
  rv_completed :: u32
  rv_fragments_accepted :: u32
  rv_duplicate_fragments :: u32
  rv_dropped_decode :: u32
  rv_dropped_crc :: u32
  rv_dropped_reassembly :: u32
  rv_invalid_argument :: u32

record 'r router_node =
  rn_receive :: "bytes \<Rightarrow> u64 \<Rightarrow> 'r \<Rightarrow> (radio_header \<times> bytes) option \<times> 'r"
  rn_receive_outcome :: "'r \<Rightarrow> receive_outcome"
  rn_stats :: "'r \<Rightarrow> receiver_stats"

record routed_message =
  rm_mac :: mac
  rm_header :: radio_header
  rm_payload :: bytes
  rm_arrivalMs :: u64

definition no_message :: routed_message where
  "no_message = \<lparr>rm_mac = (0, 0, 0, 0, 0, 0), rm_header = no_header, rm_payload = [], rm_arrivalMs = 0\<rparr>"

text \<open>\<open>outMessage\<close> is the message passed in unless the datagram completed one.\<close>

definition submit ::
    "'r router_node \<Rightarrow> mac option \<Rightarrow> bytes \<Rightarrow> u64 \<Rightarrow> routed_message \<Rightarrow> 'r \<Rightarrow> outcome \<times> routed_message \<times> 'r" where
  "submit node macPtr datagram nowMs outMessage r =
     (case macPtr of
        None \<Rightarrow> (OcDroppedInvalidArgument, outMessage, r)
      | Some m \<Rightarrow>
          if datagram = [] then (OcDroppedInvalidArgument, outMessage, r)
          else let (received, r) = rn_receive node datagram nowMs r;
                   outMessage = (case received of
                       None \<Rightarrow> outMessage
                     | Some (header, payload) \<Rightarrow>
                         \<lparr>rm_mac = m, rm_header = header, rm_payload = payload, rm_arrivalMs = nowMs\<rparr>)
               in (mapOutcome (rn_receive_outcome node r), outMessage, r))"

record router_stats =
  rt_routed :: u32
  rt_fragmentsAccepted :: u32
  rt_duplicateFragments :: u32
  rt_droppedDecode :: u32
  rt_droppedCrc :: u32
  rt_droppedReassembly :: u32
  rt_droppedInvalidArgument :: u32

definition router_stats_of :: "'r router_node \<Rightarrow> 'r \<Rightarrow> router_stats" where
  "router_stats_of node r =
     (let s = rn_stats node r in
      \<lparr>rt_routed = rv_completed s, rt_fragmentsAccepted = rv_fragments_accepted s,
       rt_duplicateFragments = rv_duplicate_fragments s, rt_droppedDecode = rv_dropped_decode s,
       rt_droppedCrc = rv_dropped_crc s, rt_droppedReassembly = rv_dropped_reassembly s,
       rt_droppedInvalidArgument = rv_invalid_argument s\<rparr>)"

end
