(* ===== verification/Radio_Ingress.thy ===== *)
theory Radio_Ingress
  imports Radio_Channels Device_Registry Manifest_Cache
begin

text \<open>
  The radio side of the hub, \<open>lib/EspNowConfig\<close>: what happens to a datagram from its arrival in
  the receive callback to the relay, the peer table, the device registry, the manifest cache or
  the remote shell, and the two round-robin probes.

  The static variables are the fields of \<open>hub_state\<close>; the modules they belong to are the models
  of their own theories (peer table, device registry, manifest cache). \<open>hub_lib\<close> has the library
  functions. \<open>hub_env\<close> has what other tasks decide while a datagram is handled: the clock and the
  owner of the port are read at several places, each reading a value of its own. Calls of modules
  that only take output (serial relay, console, LCD, radio sender, shell) are the events of
  \<open>hs_log\<close>, in order.
\<close>

section \<open>State\<close>

definition RX_ASYNC_QUEUE_DEPTH :: nat where "RX_ASYNC_QUEUE_DEPTH = 24"
definition RX_LOG_QUEUE_DEPTH :: nat where "RX_LOG_QUEUE_DEPTH = 16"
definition RX_TELEMETRY_QUEUE_DEPTH :: nat where "RX_TELEMETRY_QUEUE_DEPTH = 16"
definition RX_TERMINAL_QUEUE_DEPTH :: nat where "RX_TERMINAL_QUEUE_DEPTH = 16"
definition kRxEventDataSize :: nat where "kRxEventDataSize = 250"
definition kPendingRelaySlots :: nat where "kPendingRelaySlots = kSlotCount"
definition kQueuedPayloadCap :: nat where "kQueuedPayloadCap = 616"
definition kRobotStateTopicId :: u16 where "kRobotStateTopicId = 0x0002"
definition kRobotStateSchemaVersion :: u16 where "kRobotStateSchemaVersion = 1"
definition kPingActionId :: u16 where "kPingActionId = 0x0002"
definition kPingActionVersion :: u16 where "kPingActionVersion = 0x0001"
definition kRequestPrefixSize :: nat where "kRequestPrefixSize = 20"
definition kResultPrefixSize :: nat where "kResultPrefixSize = 26"

record pending_relay =
  pr_active :: bool
  pr_sourceId :: u32
  pr_bootId :: u32
  pr_sequence :: u32
  pr_fragmentCount :: u8
  pr_lastArrivalMs :: u32
  pr_present :: "bool list"
  pr_sizes :: "u16 list"
  pr_frames :: "bytes list"

record rx_counters =
  ct_rxDatagram :: u32
  ct_fragmentAccepted :: u32
  ct_routedTelemetry :: u32
  ct_routedLog :: u32
  ct_routedCommand :: u32
  ct_routedControl :: u32
  ct_routedTerminal :: u32
  ct_droppedRx :: u32
  ct_droppedDecode :: u32
  ct_droppedCrc :: u32
  ct_droppedReassembly :: u32
  ct_droppedQueueFull :: u32
  ct_droppedAuth :: u32
  ct_syncFallbackDrop :: u32
  ct_rxTaken :: u32
  ct_decodeTaken :: u32
  ct_crcTaken :: u32
  ct_reassemblyTaken :: u32
  ct_queueFullTaken :: u32
  ct_authTaken :: u32

record rx_event =
  rx_mac :: mac
  rx_data :: bytes
  rx_rssi :: "8 word"

datatype hub_call =
    NotifyRx
  | RelayUp radio_header bytes
  | ForwardRelay radio_header bytes
  | Print string string
  | TerminalResponse string
  | NotifyRobotState string
  | SendLogical "mac option" message_type u16 bytes u64
  | RunLine string string string

record ('r, 'w) hub_state =
  hs_pending :: "pending_relay list"
  hs_router :: 'r
  hs_counters :: rx_counters
  hs_asyncRx :: bool
  hs_rxQueue :: "rx_event rtos_queue option"
  hs_logQueue :: "routed_message rtos_queue option"
  hs_telemetryQueue :: "routed_message rtos_queue option"
  hs_terminalQueue :: "routed_message rtos_queue option"
  hs_peers :: peer_table
  hs_manager :: "manager option"
  hs_radio :: 'w
  hs_manifests :: manifest_cache
  hs_log :: "hub_call list"

record ('r, 'w) hub_lib =
  hl_decode :: decode_fn
  hl_node :: "'r router_node"
  hl_aead :: aead_lib
  hl_max_frame :: nat
  hl_max_payload :: nat
  hl_radio :: "'w radio_api"
  hl_reader :: reader_ops
  hl_manifest_request :: "u32 \<Rightarrow> u32 \<Rightarrow> u32 \<Rightarrow> nat \<Rightarrow> bytes option"
  hl_command_request :: "bytes \<Rightarrow> message_error \<times> request_view"
  hl_command_result :: "bytes \<Rightarrow> message_error \<times> result_view"
  hl_encode_result :: "result_view \<Rightarrow> nat \<Rightarrow> bytes option"
  hl_samples :: "bytes \<Rightarrow> u16 \<times> (bool \<times> u64) list \<times> message_error"

text \<open>The places where the clock or the owner of the port is read.\<close>

datatype reading = AtIngress | AtUnopened | AtPrime | AtDispatch | AtReply

record hub_env =
  ev_lcd :: bool
  ev_io :: bool
  ev_protocolled :: "reading \<Rightarrow> bool"
  ev_console :: "reading \<Rightarrow> bool"
  ev_millis :: "reading \<Rightarrow> u32"
  ev_sourceId :: u32
  ev_bootId :: u32
  ev_key :: key_holder
  ev_runLine :: "string \<Rightarrow> string \<Rightarrow> string \<Rightarrow> string"

definition log_call :: "hub_call \<Rightarrow> ('r, 'w) hub_state \<Rightarrow> ('r, 'w) hub_state" where
  "log_call c s = s\<lparr>hs_log := hs_log s @ [c]\<rparr>"

definition note_count :: "(rx_counters \<Rightarrow> rx_counters) \<Rightarrow> ('r, 'w) hub_state \<Rightarrow> ('r, 'w) hub_state" where
  "note_count f s = s\<lparr>hs_counters := f (hs_counters s)\<rparr>"

section \<open>Retained candidates\<close>

definition kPendingRelayMaxFragments :: "nat \<Rightarrow> nat" where
  "kPendingRelayMaxFragments kEspNowMaxPayloadSize =
     (kMaxPayloadSize + kEspNowMaxPayloadSize - 1) div kEspNowMaxPayloadSize"

definition emptyPending :: "('r, 'w) hub_lib \<Rightarrow> pending_relay" where
  "emptyPending lib =
     (let n = kPendingRelayMaxFragments (hl_max_payload lib) in
      \<lparr>pr_active = False, pr_sourceId = 0, pr_bootId = 0, pr_sequence = 0, pr_fragmentCount = 0,
       pr_lastArrivalMs = 0, pr_present = replicate n False, pr_sizes = replicate n 0,
       pr_frames = replicate n (replicate (hl_max_frame lib) 0)\<rparr>)"

definition samePendingIdentity :: "radio_header \<Rightarrow> pending_relay \<Rightarrow> bool" where
  "samePendingIdentity header pending \<longleftrightarrow>
     pr_active pending \<and> pr_sourceId pending = hd_source_id header \<and> pr_bootId pending = hd_boot_id header \<and>
     pr_sequence pending = hd_sequence header"

definition clearPendingRelay ::
    "('r, 'w) hub_lib \<Rightarrow> radio_header \<Rightarrow> pending_relay list \<Rightarrow> pending_relay list" where
  "clearPendingRelay lib header ps =
     (case find_slot (samePendingIdentity header) ps of None \<Rightarrow> ps | Some i \<Rightarrow> ps[i := emptyPending lib])"

definition expirePendingRelays ::
    "('r, 'w) hub_lib \<Rightarrow> u32 \<Rightarrow> pending_relay list \<Rightarrow> pending_relay list" where
  "expirePendingRelays lib nowMs ps =
     map (\<lambda>p. if pr_active p \<and> nowMs - pr_lastArrivalMs p \<ge> kReassemblyTimeoutMs then emptyPending lib else p) ps"

text \<open>The slot the scan selects: the one of the message, else the first free one.\<close>

definition select_pending :: "radio_header \<Rightarrow> pending_relay list \<Rightarrow> nat option" where
  "select_pending header ps =
     (case find_slot (samePendingIdentity header) ps of
        Some i \<Rightarrow> Some i
      | None \<Rightarrow> find_slot (\<lambda>p. \<not> pr_active p) ps)"

definition claim_pending :: "radio_header \<Rightarrow> pending_relay \<Rightarrow> pending_relay" where
  "claim_pending header p =
     p\<lparr>pr_active := True, pr_sourceId := hd_source_id header, pr_bootId := hd_boot_id header,
       pr_sequence := hd_sequence header, pr_fragmentCount := hd_fragment_count header\<rparr>"

definition store_fragment :: "nat \<Rightarrow> bytes \<Rightarrow> u32 \<Rightarrow> pending_relay \<Rightarrow> pending_relay" where
  "store_fragment index datagram nowMs p =
     p\<lparr>pr_frames := (pr_frames p)[index := overwrite datagram (pr_frames p ! index)],
       pr_sizes := (pr_sizes p)[index := of_nat (length datagram)],
       pr_present := (pr_present p)[index := True], pr_lastArrivalMs := nowMs\<rparr>"

definition fragmented :: "('r, 'w) hub_lib \<Rightarrow> radio_header \<Rightarrow> bool" where
  "fragmented lib header \<longleftrightarrow> hd_flags header AND ae_flag_fragmented (hl_aead lib) \<noteq> 0"

definition retainPendingRelay ::
    "('r, 'w) hub_lib \<Rightarrow> radio_header \<Rightarrow> bytes \<Rightarrow> u32 \<Rightarrow> pending_relay list \<Rightarrow> bool \<times> pending_relay list" where
  "retainPendingRelay lib header datagram nowMs ps =
     (if \<not> fragmented lib header then (True, ps)
      else if length datagram > hl_max_frame lib \<or> hd_fragment_count header = 0 \<or>
              unat (hd_fragment_count header) > kPendingRelayMaxFragments (hl_max_payload lib) \<or>
              hd_fragment_index header \<ge> hd_fragment_count header then (False, ps)
      else
        let ps = expirePendingRelays lib nowMs ps in
        case select_pending header ps of
          None \<Rightarrow> (False, ps)
        | Some i \<Rightarrow>
            if \<not> pr_active (ps ! i) then
              (True, ps[i := store_fragment (unat (hd_fragment_index header)) datagram nowMs
                               (claim_pending header (ps ! i))])
            else if pr_fragmentCount (ps ! i) \<noteq> hd_fragment_count header then (False, ps[i := emptyPending lib])
            else (True, ps[i := store_fragment (unat (hd_fragment_index header)) datagram nowMs (ps ! i)]))"

section \<open>Relaying\<close>

fun countRouted :: "message_type \<Rightarrow> rx_counters \<Rightarrow> rx_counters" where
  "countRouted MtTelemetry c = c\<lparr>ct_routedTelemetry := ct_routedTelemetry c + 1\<rparr>"
| "countRouted MtLog c = c\<lparr>ct_routedLog := ct_routedLog c + 1\<rparr>"
| "countRouted MtCommand c = c\<lparr>ct_routedCommand := ct_routedCommand c + 1\<rparr>"
| "countRouted MtControl c = c\<lparr>ct_routedControl := ct_routedControl c + 1\<rparr>"
| "countRouted MtTerminal c = c\<lparr>ct_routedTerminal := ct_routedTerminal c + 1\<rparr>"
| "countRouted MtInvalid c = c"

definition relay_one :: "radio_header \<Rightarrow> bytes \<Rightarrow> ('r, 'w) hub_state \<Rightarrow> ('r, 'w) hub_state" where
  "relay_one header frame s = log_call (RelayUp header frame) (note_count (countRouted (hd_type header)) s)"

definition pending_frame :: "pending_relay \<Rightarrow> nat \<Rightarrow> bytes" where
  "pending_frame p index = take (unat (pr_sizes p ! index)) (pr_frames p ! index)"

definition relayPendingUp ::
    "('r, 'w) hub_lib \<Rightarrow> radio_header \<Rightarrow> ('r, 'w) hub_state \<Rightarrow> bool \<times> ('r, 'w) hub_state" where
  "relayPendingUp lib header s =
     (case find_slot (samePendingIdentity header) (hs_pending s) of
        None \<Rightarrow> (False, s)
      | Some i \<Rightarrow>
          let pending = hs_pending s ! i;
              indices = [0..<unat (pr_fragmentCount pending)];
              complete = (\<forall>index\<in>set indices. pr_present pending ! index);
              s = (if complete then fold (\<lambda>index. relay_one header (pending_frame pending index)) indices s else s)
          in (complete, s\<lparr>hs_pending := (hs_pending s)[i := emptyPending lib]\<rparr>))"

section \<open>Text\<close>

definition hex_upper :: "nat \<Rightarrow> char" where "hex_upper d = ''0123456789ABCDEF'' ! d"

text \<open>\<open>%02X\<close> of an octet and \<open>%08lX\<close> of a source id.\<close>

definition hex2 :: "u8 \<Rightarrow> string" where
  "hex2 b = [hex_upper (unat b div 16), hex_upper (unat b mod 16)]"

definition hex8 :: "u32 \<Rightarrow> string" where
  "hex8 v = map (\<lambda>k. hex_upper (unat v div 16 ^ (7 - k) mod 16)) [0..<8]"

fun macToText :: "mac \<Rightarrow> string" where
  "macToText (a, b, c, d, e, f) =
     hex2 a @ '':'' @ hex2 b @ '':'' @ hex2 c @ '':'' @ hex2 d @ '':'' @ hex2 e @ '':'' @ hex2 f"

fun autoName :: "mac \<Rightarrow> string" where
  "autoName (a, b, c, d, e, f) = ''peer-'' @ hex2 e @ hex2 f"

definition copyPayloadAsText :: "bytes \<Rightarrow> nat \<Rightarrow> string" where
  "copyPayloadAsText payload outCapacity = c_text (take (outCapacity - 1) payload)"

definition robotStateName :: "u8 \<Rightarrow> string" where
  "robotStateName value =
     (let names = [''NONE'', ''SETUP'', ''WAIT'', ''CALIBRATE'', ''DEBUG'', ''RUN'', ''FINISH'', ''TELEMETRY'', ''ERROR'']
      in if unat value < length names then names ! unat value else ''UNKNOWN'')"

section \<open>Consumption\<close>

definition primeManifestIfNeeded ::
    "('r, 'w) hub_lib \<Rightarrow> hub_env \<Rightarrow> mac option \<Rightarrow> radio_header \<Rightarrow> ('r, 'w) hub_state \<Rightarrow> ('r, 'w) hub_state" where
  "primeManifestIfNeeded lib env m header s =
     (if hs_manager s = None then s
      else
        let nowMs = ev_millis env AtPrime;
            (should, cache) = shouldRequestManifest (hd_source_id header) (hd_boot_id header) nowMs (hs_manifests s);
            s = s\<lparr>hs_manifests := cache\<rparr>
        in if \<not> should then s
           else
             let request = buildRequest (hl_manifest_request lib) (hd_source_id header) (hd_boot_id header) 0 12 in
             if request = [] then s
             else
               let s = log_call (SendLogical m MtControl 0x0003 request (ucast nowMs * 1000)) s
               in s\<lparr>hs_manifests := notePrimeSent (hs_manifests s)\<rparr>)"

definition replyCommandResult ::
    "('r, 'w) hub_lib \<Rightarrow> hub_env \<Rightarrow> mac option \<Rightarrow> radio_header \<Rightarrow> u16 \<Rightarrow> u16 \<Rightarrow> u8 \<Rightarrow> u16 \<Rightarrow> string \<Rightarrow>
       ('r, 'w) hub_state \<Rightarrow> ('r, 'w) hub_state" where
  "replyCommandResult lib env m requestHeader actionId actionVersion status errorCode message s =
     (if hs_manager s = None then s
      else
        let truncated = take kMaxResultMessageSize message;
            result = build_result (hl_encode_result lib) (hd_source_id requestHeader) (hd_boot_id requestHeader)
                       (hd_sequence requestHeader) actionId actionVersion status errorCode (Some truncated)
                       (NullView 0) (kResultPrefixSize + kMaxResultMessageSize)
        in if result = [] then s
           else log_call (SendLogical m MtCommand kCommandResultObjectId result
                            (ucast (ev_millis env AtReply) * 1000)) s)"

text \<open>\<open>snprintf\<close> into 64 octets keeps 63 characters; the message is shown up to 400 octets.\<close>

definition handleRoutedCommandResult ::
    "('r, 'w) hub_lib \<Rightarrow> hub_env \<Rightarrow> mac \<Rightarrow> radio_header \<Rightarrow> bytes \<Rightarrow> ('r, 'w) hub_state \<Rightarrow> ('r, 'w) hub_state" where
  "handleRoutedCommandResult lib env m header payload s =
     (case parse_result (hl_command_result lib) (btp_header.truncate header) (View payload) False of
        (error, out) \<Rightarrow>
          (case out of
             None \<Rightarrow> s
           | Some result \<Rightarrow>
               if error \<noteq> PeOk then s
               else if rs_action_id result = kPingActionId then
                 s\<lparr>hs_peers := notePingReply (Some m) (rs_reply_to_sequence result) (ev_millis env AtDispatch) (hs_peers s)\<rparr>
               else
                 let hasMessage = (view_size (rs_message result) > 0 \<and> \<not> view_null (rs_message result)) in
                 if \<not> ev_console env AtDispatch then
                   (if ev_protocolled env AtDispatch then
                      log_call (TerminalResponse (''cmd_result status='' @ status_string (rs_status result) @
                        (if hasMessage then CHR 0x0A # chars_of (view_bytes (rs_message result)) else []))) s
                    else s)
                 else
                   let line = take 63 (macToText m @ '' status='' @ status_string (rs_status result));
                       s = (if ev_io env then log_call (Print ''cmd_result'' line) s else s)
                   in if hasMessage \<and> ev_io env then
                        log_call (Print ''cmd_result''
                          (c_text (take kMaxResultMessageSize (view_bytes (rs_message result))))) s
                      else s))"

text \<open>\<open>Status::Success\<close> and \<open>Rejected\<close> are 0 and 1.\<close>

definition kCodeMalformedPayload :: u16 where "kCodeMalformedPayload = 0x0001"
definition kCodeUnsupportedVersion :: u16 where "kCodeUnsupportedVersion = 0x0008"
definition kCodeInvalidArgument :: u16 where "kCodeInvalidArgument = 0x0003"

definition handleRoutedCommandRequest ::
    "('r, 'w) hub_lib \<Rightarrow> hub_env \<Rightarrow> mac \<Rightarrow> routed_message \<Rightarrow> ('r, 'w) hub_state \<Rightarrow> ('r, 'w) hub_state" where
  "handleRoutedCommandRequest lib env m routed s =
     (case hs_manager s of
        None \<Rightarrow> s
      | Some manager \<Rightarrow>
          if deviceIndexByMac (Some m) manager = None then s
          else
            (case parse_request (hl_command_request lib) (btp_header.truncate (rm_header routed))
                    (View (rm_payload routed)) (ev_sourceId env) (ev_bootId env) False of
               (parseError, out) \<Rightarrow>
                 if parseError = PeWrongTarget then s
                 else (case out of
                     None \<Rightarrow> replyCommandResult lib env (Some m) (rm_header routed) 0 0 1 kCodeMalformedPayload
                               (parse_error_string parseError) s
                   | Some request \<Rightarrow>
                       (case copy_shell_command request (Some (replicate (kMaxShellCommandSize + 1) 0)) of
                          (copyError, commandText) \<Rightarrow>
                            if copyError \<noteq> PeOk then
                              replyCommandResult lib env (Some m) (rm_header routed) (rq_action_id request)
                                (rq_action_version request) 1
                                (if copyError = PeUnsupportedAction then kCodeUnsupportedVersion else kCodeInvalidArgument)
                                (parse_error_string copyError) s
                            else
                              let line = c_text (the commandText);
                                  userId = ''espnow:'' @ macToText m;
                                  fullOutput = ev_runLine env line ''espnow'' userId;
                                  s = log_call (RunLine line ''espnow'' userId) s
                              in replyCommandResult lib env (Some m) (rm_header routed) (rq_action_id request)
                                   (rq_action_version request) 0 0 fullOutput s))))"

definition handleRoutedCommand ::
    "('r, 'w) hub_lib \<Rightarrow> hub_env \<Rightarrow> mac \<Rightarrow> routed_message \<Rightarrow> ('r, 'w) hub_state \<Rightarrow> ('r, 'w) hub_state" where
  "handleRoutedCommand lib env m routed s =
     (if hd_object_id (rm_header routed) = kCommandResultObjectId
        then handleRoutedCommandResult lib env m (rm_header routed) (rm_payload routed) s
      else if hd_object_id (rm_header routed) = kCommandRequestObjectId
        then handleRoutedCommandRequest lib env m routed s
      else s)"

definition handleControlItem ::
    "('r, 'w) hub_lib \<Rightarrow> hub_env \<Rightarrow> routed_message \<Rightarrow> ('r, 'w) hub_state \<Rightarrow> ('r, 'w) hub_state" where
  "handleControlItem lib env routed s =
     (if hd_object_id (rm_header routed) = kManifestDataObjectId
      then s\<lparr>hs_manifests := snd (ingestManifestData (hl_reader lib) (rm_payload routed)
                                    (ev_millis env AtDispatch) (hs_manifests s))\<rparr>
      else s)"

text \<open>The queue, the item and whether a drop was counted.\<close>

definition enqueueRouted ::
    "routed_message rtos_queue option \<Rightarrow> routed_message \<Rightarrow> bool \<times> bool \<times> routed_message rtos_queue option" where
  "enqueueRouted queue routed =
     (case queue of
        None \<Rightarrow> (False, False, None)
      | Some q \<Rightarrow>
          if length (rm_payload routed) > kQueuedPayloadCap then (False, True, Some q)
          else (case queue_send routed q of (ok, q') \<Rightarrow> (ok, \<not> ok, Some q')))"

definition count_queue_full :: "bool \<Rightarrow> ('r, 'w) hub_state \<Rightarrow> ('r, 'w) hub_state" where
  "count_queue_full dropped s =
     (if dropped then note_count (ct_droppedQueueFull_update (\<lambda>n. n + 1)) s else s)"

text \<open>\<open>queueForType\<close> with the send to the queue it selects.\<close>

definition enqueue_by_type :: "routed_message \<Rightarrow> ('r, 'w) hub_state \<Rightarrow> ('r, 'w) hub_state" where
  "enqueue_by_type routed s =
     (case hd_type (rm_header routed) of
        MtLog \<Rightarrow> (case enqueueRouted (hs_logQueue s) routed of
                    (ok, dropped, q) \<Rightarrow> count_queue_full dropped (s\<lparr>hs_logQueue := q\<rparr>))
      | MtTelemetry \<Rightarrow> (case enqueueRouted (hs_telemetryQueue s) routed of
                    (ok, dropped, q) \<Rightarrow> count_queue_full dropped (s\<lparr>hs_telemetryQueue := q\<rparr>))
      | MtTerminal \<Rightarrow> (case enqueueRouted (hs_terminalQueue s) routed of
                    (ok, dropped, q) \<Rightarrow> count_queue_full dropped (s\<lparr>hs_terminalQueue := q\<rparr>))
      | _ \<Rightarrow> s)"

definition dispatchRouted ::
    "('r, 'w) hub_lib \<Rightarrow> hub_env \<Rightarrow> mac \<Rightarrow> routed_message \<Rightarrow> ('r, 'w) hub_state \<Rightarrow> ('r, 'w) hub_state" where
  "dispatchRouted lib env m routed s =
     (let s = note_count (countRouted (hd_type (rm_header routed))) s in
      if hd_type (rm_header routed) = MtCommand then handleRoutedCommand lib env m routed s
      else if hd_type (rm_header routed) = MtControl then handleControlItem lib env routed s
      else enqueue_by_type routed s)"

section \<open>Ingress\<close>

definition register_peer ::
    "('r, 'w) hub_lib \<Rightarrow> mac \<Rightarrow> radio_header \<Rightarrow> u32 \<Rightarrow> 8 word \<Rightarrow> ('r, 'w) hub_state \<Rightarrow> ('r, 'w) hub_state" where
  "register_peer lib m header nowMs rssi s =
     (let peers = rememberAuthenticatedPeer (Some m) (hd_source_id header) (hd_boot_id header) nowMs rssi (hs_peers s);
          s = s\<lparr>hs_peers := notePeerLinkResult (Some m) True peers\<rparr>
      in case hs_manager s of
           None \<Rightarrow> s
         | Some manager \<Rightarrow>
             if deviceIndexByMac (Some m) manager \<noteq> None then s
             else (case addDevice (hl_radio lib) (Some m) (Some (autoName m))
                          (Some ''adicionado automaticamente por RX ESP-NOW'') manager (hs_radio s) of
                     (ok, manager', w) \<Rightarrow> s\<lparr>hs_manager := Some manager', hs_radio := w\<rparr>))"

definition referenceSourceId :: "radio_header \<Rightarrow> bytes \<Rightarrow> u32" where
  "referenceSourceId header plaintext =
     (let hasReference =
        (hd_type header = MtCommand \<and>
           (hd_object_id header = kCommandRequestObjectId \<or> hd_object_id header = kCommandResultObjectId)) \<or>
        (hd_type header = MtControl \<and> hd_object_id header = kManifestDataObjectId)
      in if hasReference \<and> length plaintext \<ge> 4 then read_u32_le plaintext 0 else 0)"

text \<open>A candidate that did not open under key L.\<close>

definition unopened ::
    "('r, 'w) hub_lib \<Rightarrow> hub_env \<Rightarrow> radio_header \<Rightarrow> bytes \<Rightarrow> routed_message \<Rightarrow> ('r, 'w) hub_state \<Rightarrow> ('r, 'w) hub_state" where
  "unopened lib env header datagram routed s =
     (let s = (if ev_protocolled env AtUnopened then
                 (if fragmented lib header then
                    (case relayPendingUp lib (rm_header routed) s of
                       (ok, s) \<Rightarrow> if \<not> ok then note_count (ct_droppedReassembly_update (\<lambda>n. n + 1)) s else s)
                  else relay_one header datagram s)
               else s)
      in if hd_type header = MtControl \<and> hd_object_id header = kStatusObjectId
         then note_count (ct_droppedAuth_update (\<lambda>n. n + 1)) s else s)"

text \<open>\<open>opened\<close>: the plaintext, if the message is long enough and opens under key L.\<close>

definition opened :: "('r, 'w) hub_lib \<Rightarrow> hub_env \<Rightarrow> routed_message \<Rightarrow> bytes option" where
  "opened lib env routed =
     (if length (rm_payload routed) \<ge> kTagSize
      then open_sealed (hl_aead lib) (ev_key env) (rm_header routed) (rm_payload routed) else None)"

definition clear_pending ::
    "('r, 'w) hub_lib \<Rightarrow> radio_header \<Rightarrow> ('r, 'w) hub_state \<Rightarrow> ('r, 'w) hub_state" where
  "clear_pending lib header s = s\<lparr>hs_pending := clearPendingRelay lib header (hs_pending s)\<rparr>"

definition prime_and_dispatch ::
    "('r, 'w) hub_lib \<Rightarrow> hub_env \<Rightarrow> mac \<Rightarrow> routed_message \<Rightarrow> ('r, 'w) hub_state \<Rightarrow> ('r, 'w) hub_state" where
  "prime_and_dispatch lib env m routed s =
     dispatchRouted lib env m routed (primeManifestIfNeeded lib env (Some m) (rm_header routed) s)"

definition consume ::
    "('r, 'w) hub_lib \<Rightarrow> hub_env \<Rightarrow> mac \<Rightarrow> u32 \<Rightarrow> 8 word \<Rightarrow> routed_message \<Rightarrow> bytes \<Rightarrow> ('r, 'w) hub_state \<Rightarrow>
       ('r, 'w) hub_state" where
  "consume lib env m nowMs rssi routed plaintext s =
     (let s = register_peer lib m (rm_header routed) nowMs rssi s;
          routed = routed\<lparr>rm_payload := take (length (rm_payload routed) - kTagSize) plaintext\<rparr>;
          header = rm_header routed;
          referenceId = referenceSourceId header (rm_payload routed)
      in if \<not> dongle_consumes (hd_type header) (hd_object_id header) referenceId (ev_sourceId env) then
           let s = (if hd_type header = MtControl \<and> hd_object_id header = kManifestDataObjectId
                    then s\<lparr>hs_manifests := noteConsumeRejected (hs_manifests s)\<rparr> else s)
           in clear_pending lib header s
         else prime_and_dispatch lib env m routed (clear_pending lib header s))"

text \<open>What \<open>processRxDatagramInternal\<close> does with the router's outcome. A message is only routed for a
  sender with an address, so the null checks of the code after the router never fail.\<close>

definition routed_outcome ::
    "('r, 'w) hub_lib \<Rightarrow> hub_env \<Rightarrow> mac option \<Rightarrow> bytes \<Rightarrow> 8 word \<Rightarrow> radio_ingress \<Rightarrow> u32 \<Rightarrow> outcome \<Rightarrow>
       routed_message \<Rightarrow> ('r, 'w) hub_state \<Rightarrow> ('r, 'w) hub_state" where
  "routed_outcome lib env macPtr datagram rssi ingress nowMs oc routed s =
     (case oc of
        OcDroppedDecode \<Rightarrow> note_count (ct_droppedDecode_update (\<lambda>n. n + 1)) s
      | OcDroppedCrc \<Rightarrow> note_count (ct_droppedCrc_update (\<lambda>n. n + 1)) s
      | OcDroppedReassembly \<Rightarrow>
          note_count (ct_droppedReassembly_update (\<lambda>n. n + 1))
            (if ri_mayConsume ingress then clear_pending lib (ri_header ingress) s else s)
      | OcFragmentAccepted \<Rightarrow> note_count (ct_fragmentAccepted_update (\<lambda>n. n + 1)) s
      | OcDroppedInvalidArgument \<Rightarrow> s
      | OcDuplicateFragment \<Rightarrow> s
      | OcRouted \<Rightarrow>
          (case macPtr of
             None \<Rightarrow> s
           | Some m \<Rightarrow>
               if ri_mayConsume ingress then
                 (case opened lib env routed of
                    None \<Rightarrow> unopened lib env (ri_header ingress) datagram routed s
                  | Some plaintext \<Rightarrow> consume lib env m nowMs rssi routed plaintext s)
               else prime_and_dispatch lib env m routed s))"

definition processRxDatagram ::
    "('r, 'w) hub_lib \<Rightarrow> hub_env \<Rightarrow> mac option \<Rightarrow> bytes \<Rightarrow> 8 word \<Rightarrow> ('r, 'w) hub_state \<Rightarrow> ('r, 'w) hub_state" where
  "processRxDatagram lib env macPtr datagram rssi s =
     (let s = (if ev_lcd env then log_call NotifyRx s else s);
          s = note_count (ct_rxDatagram_update (\<lambda>n. n + 1)) s;
          ingress = classifyRadio (hl_decode lib) datagram
      in if ri_error ingress \<noteq> BeOk then
           (if ri_error ingress = BeCrcMismatch then note_count (ct_droppedCrc_update (\<lambda>n. n + 1)) s
            else note_count (ct_droppedDecode_update (\<lambda>n. n + 1)) s)
         else if \<not> ri_mayConsume ingress \<and> ev_protocolled env AtIngress then
           relay_one (ri_header ingress) datagram s
         else
           let nowMs = ev_millis env AtIngress;
               (kept, ps) = (if ri_mayConsume ingress
                             then retainPendingRelay lib (ri_header ingress) datagram nowMs (hs_pending s)
                             else (True, hs_pending s));
               s = s\<lparr>hs_pending := ps\<rparr>
           in if \<not> kept then note_count (ct_droppedReassembly_update (\<lambda>n. n + 1)) s
              else
                case submit (hl_node lib) macPtr datagram (ucast nowMs) no_message (hs_router s) of
                  (oc, routed, r) \<Rightarrow>
                    routed_outcome lib env macPtr datagram rssi ingress nowMs oc routed (s\<lparr>hs_router := r\<rparr>))"

end
