(* ===== verification/Radio_Service.thy ===== *)
theory Radio_Service
  imports Radio_Ingress Radio_Scheduler
begin

text \<open>
  The rest of \<open>lib/EspNowConfig\<close>: the receive callback and its queue, the queues of routed
  messages and their consumers, the counters, and the two probes that go round the authenticated
  peers.
\<close>

section \<open>Reception\<close>

definition onDataRecv ::
    "mac option \<Rightarrow> bytes option \<Rightarrow> 8 word \<Rightarrow> ('r, 'w) hub_state \<Rightarrow> ('r, 'w) hub_state" where
  "onDataRecv macPtr dataPtr rssi s =
     (case (macPtr, dataPtr) of
        (Some m, Some bs) \<Rightarrow>
          if bs = [] then s
          else
            (case (hs_asyncRx s, hs_rxQueue s) of
               (True, Some q) \<Rightarrow>
                 (case queue_send \<lparr>rx_mac = m, rx_data = take kRxEventDataSize bs, rx_rssi = rssi\<rparr> q of
                    (ok, q') \<Rightarrow>
                      if ok then s\<lparr>hs_rxQueue := Some q'\<rparr>
                      else note_count (ct_droppedRx_update (\<lambda>n. n + 1)) s)
             | _ \<Rightarrow> note_count (ct_syncFallbackDrop_update (\<lambda>n. n + 1)) s)
      | _ \<Rightarrow> s)"

definition reset_queue :: "'a rtos_queue option \<Rightarrow> 'a rtos_queue option" where
  "reset_queue = map_option (\<lambda>q. (fst q, []))"

text \<open>\<open>xQueueCreate\<close> for a queue that does not exist, when there is memory for it.\<close>

definition ensure_queue :: "bool \<Rightarrow> nat \<Rightarrow> 'a rtos_queue option \<Rightarrow> 'a rtos_queue option" where
  "ensure_queue created depth q = (case q of None \<Rightarrow> (if created then Some (depth, []) else None) | Some q \<Rightarrow> Some q)"

definition reset_counters :: "rx_counters \<Rightarrow> rx_counters" where
  "reset_counters c =
     c\<lparr>ct_droppedRx := 0, ct_droppedDecode := 0, ct_droppedCrc := 0, ct_droppedReassembly := 0,
       ct_droppedQueueFull := 0, ct_droppedAuth := 0, ct_rxTaken := 0, ct_decodeTaken := 0, ct_crcTaken := 0,
       ct_reassemblyTaken := 0, ct_queueFullTaken := 0, ct_authTaken := 0, ct_rxDatagram := 0,
       ct_fragmentAccepted := 0, ct_routedTelemetry := 0, ct_routedLog := 0, ct_routedCommand := 0,
       ct_routedControl := 0, ct_routedTerminal := 0\<rparr>"

text \<open>The four flags tell whether each queue could be allocated.\<close>

definition enableAsyncRx ::
    "bool \<times> bool \<times> bool \<times> bool \<Rightarrow> nat \<Rightarrow> ('r, 'w) hub_state \<Rightarrow> bool \<times> ('r, 'w) hub_state" where
  "enableAsyncRx created queueDepth s =
     (case created of (c1, c2, c3, c4) \<Rightarrow>
        let depth = (if queueDepth = 0 then RX_ASYNC_QUEUE_DEPTH else queueDepth);
            rx = ensure_queue c1 depth (hs_rxQueue s);
            lg = ensure_queue c2 RX_LOG_QUEUE_DEPTH (hs_logQueue s);
            tm = ensure_queue c3 RX_TELEMETRY_QUEUE_DEPTH (hs_telemetryQueue s);
            tl = ensure_queue c4 RX_TERMINAL_QUEUE_DEPTH (hs_terminalQueue s)
        in if rx = None \<or> lg = None \<or> tm = None \<or> tl = None then
             (False, s\<lparr>hs_rxQueue := rx, hs_logQueue := lg, hs_telemetryQueue := tm, hs_terminalQueue := tl,
                       hs_asyncRx := False\<rparr>)
           else
             (True, s\<lparr>hs_rxQueue := reset_queue rx, hs_logQueue := reset_queue lg,
                      hs_telemetryQueue := reset_queue tm, hs_terminalQueue := reset_queue tl,
                      hs_counters := reset_counters (hs_counters s), hs_asyncRx := True\<rparr>))"

definition disableAsyncRx :: "('r, 'w) hub_state \<Rightarrow> ('r, 'w) hub_state" where
  "disableAsyncRx s =
     s\<lparr>hs_asyncRx := False, hs_rxQueue := reset_queue (hs_rxQueue s), hs_logQueue := reset_queue (hs_logQueue s),
       hs_telemetryQueue := reset_queue (hs_telemetryQueue s), hs_terminalQueue := reset_queue (hs_terminalQueue s)\<rparr>"

definition dequeueRxDatagram :: "('r, 'w) hub_state \<Rightarrow> rx_event option \<times> ('r, 'w) hub_state" where
  "dequeueRxDatagram s =
     (case hs_rxQueue s of
        None \<Rightarrow> (None, s)
      | Some q \<Rightarrow>
          (case queue_receive q of
             None \<Rightarrow> (None, s)
           | Some (e, q') \<Rightarrow> (Some e, s\<lparr>hs_rxQueue := Some q'\<rparr>)))"

section \<open>Consumers of the routed queues\<close>

definition handleLogItem :: "hub_env \<Rightarrow> routed_message \<Rightarrow> ('r, 'w) hub_state \<Rightarrow> ('r, 'w) hub_state" where
  "handleLogItem env routed s =
     (let txt = copyPayloadAsText (rm_payload routed) (kQueuedPayloadCap + 1) in
      if ev_console env AtDispatch then
        (if ev_io env then log_call (Print (''log '' @ hex8 (hd_source_id (rm_header routed))) txt) s else s)
      else log_call (ForwardRelay (rm_header routed) (rm_payload routed)) s)"

text \<open>The library's sample reader gives the schema version, the values and the verdict of \<open>finish\<close>.\<close>

definition handleRobotStateTelemetry ::
    "('r, 'w) hub_lib \<Rightarrow> hub_env \<Rightarrow> routed_message \<Rightarrow> ('r, 'w) hub_state \<Rightarrow> ('r, 'w) hub_state" where
  "handleRobotStateTelemetry lib env routed s =
     (if \<not> ev_lcd env then s
      else
        case hl_samples lib (rm_payload routed) of
          (schema, items, verdict) \<Rightarrow>
            if schema \<noteq> kRobotStateSchemaVersion then s
            else
              let values = map snd (filter (\<lambda>v. \<not> fst v) items)
              in if verdict \<noteq> MeOk \<or> values = [] then s
                 else log_call (NotifyRobotState (robotStateName (ucast (last values)))) s)"

definition handleTelemetryItem ::
    "('r, 'w) hub_lib \<Rightarrow> hub_env \<Rightarrow> routed_message \<Rightarrow> ('r, 'w) hub_state \<Rightarrow> ('r, 'w) hub_state" where
  "handleTelemetryItem lib env routed s =
     (let s = (if hd_object_id (rm_header routed) = kRobotStateTopicId
               then handleRobotStateTelemetry lib env routed s else s)
      in log_call (ForwardRelay (rm_header routed) (rm_payload routed)) s)"

definition handleTerminalItem :: "routed_message \<Rightarrow> ('r, 'w) hub_state \<Rightarrow> ('r, 'w) hub_state" where
  "handleTerminalItem routed s = s"

fun drain_loop ::
    "nat \<Rightarrow> ('a \<Rightarrow> 's \<Rightarrow> 's) \<Rightarrow> 'a list \<Rightarrow> nat \<Rightarrow> 's \<Rightarrow> nat \<times> 'a list \<times> 's" where
  "drain_loop 0 handler xs drained s = (drained, xs, s)"
| "drain_loop (Suc n) handler [] drained s = (drained, [], s)"
| "drain_loop (Suc n) handler (x # xs) drained s = drain_loop n handler xs (drained + 1) (handler x s)"

definition drainOneQueue ::
    "'a rtos_queue option \<Rightarrow> nat \<Rightarrow> ('a \<Rightarrow> 's \<Rightarrow> 's) \<Rightarrow> 's \<Rightarrow> nat \<times> 'a rtos_queue option \<times> 's" where
  "drainOneQueue queue maxItems handler s =
     (case queue of
        None \<Rightarrow> (0, None, s)
      | Some q \<Rightarrow>
          if maxItems = 0 then (0, Some q, s)
          else (case drain_loop maxItems handler (snd q) 0 s of (n, xs, s) \<Rightarrow> (n, Some (fst q, xs), s)))"

definition drainRoutedQueues ::
    "('r, 'w) hub_lib \<Rightarrow> hub_env \<Rightarrow> nat \<Rightarrow> ('r, 'w) hub_state \<Rightarrow> nat \<times> ('r, 'w) hub_state" where
  "drainRoutedQueues lib env maxItems s =
     (let (a, q, s) = drainOneQueue (hs_logQueue s) maxItems (handleLogItem env) s;
          s = s\<lparr>hs_logQueue := q\<rparr>;
          (b, q, s) = drainOneQueue (hs_telemetryQueue s) maxItems (handleTelemetryItem lib env) s;
          s = s\<lparr>hs_telemetryQueue := q\<rparr>;
          (c, q, s) = drainOneQueue (hs_terminalQueue s) maxItems handleTerminalItem s;
          s = s\<lparr>hs_terminalQueue := q\<rparr>
      in (a + b + c, s))"

section \<open>Counters\<close>

definition takeDroppedRxCount :: "rx_counters \<Rightarrow> u32 \<times> rx_counters" where
  "takeDroppedRxCount c = (ct_droppedRx c - ct_rxTaken c, c\<lparr>ct_rxTaken := ct_droppedRx c\<rparr>)"
definition takeDroppedDecodeCount :: "rx_counters \<Rightarrow> u32 \<times> rx_counters" where
  "takeDroppedDecodeCount c = (ct_droppedDecode c - ct_decodeTaken c, c\<lparr>ct_decodeTaken := ct_droppedDecode c\<rparr>)"
definition takeDroppedCrcCount :: "rx_counters \<Rightarrow> u32 \<times> rx_counters" where
  "takeDroppedCrcCount c = (ct_droppedCrc c - ct_crcTaken c, c\<lparr>ct_crcTaken := ct_droppedCrc c\<rparr>)"
definition takeDroppedReassemblyCount :: "rx_counters \<Rightarrow> u32 \<times> rx_counters" where
  "takeDroppedReassemblyCount c =
     (ct_droppedReassembly c - ct_reassemblyTaken c, c\<lparr>ct_reassemblyTaken := ct_droppedReassembly c\<rparr>)"
definition takeDroppedQueueFullCount :: "rx_counters \<Rightarrow> u32 \<times> rx_counters" where
  "takeDroppedQueueFullCount c =
     (ct_droppedQueueFull c - ct_queueFullTaken c, c\<lparr>ct_queueFullTaken := ct_droppedQueueFull c\<rparr>)"
definition takeDroppedAuthCount :: "rx_counters \<Rightarrow> u32 \<times> rx_counters" where
  "takeDroppedAuthCount c = (ct_droppedAuth c - ct_authTaken c, c\<lparr>ct_authTaken := ct_droppedAuth c\<rparr>)"
definition peekDroppedAuthCount :: "rx_counters \<Rightarrow> u32" where "peekDroppedAuthCount c = ct_droppedAuth c"
definition peekSyncFallbackDropCount :: "rx_counters \<Rightarrow> u32" where
  "peekSyncFallbackDropCount c = ct_syncFallbackDrop c"

record rx_snapshot =
  sn_datagrams :: u32
  sn_fragmentsAccepted :: u32
  sn_routedTelemetry :: u32
  sn_routedLog :: u32
  sn_routedCommand :: u32
  sn_routedControl :: u32
  sn_routedTerminal :: u32
  sn_droppedRx :: u32
  sn_droppedDecode :: u32
  sn_droppedCrc :: u32
  sn_droppedReassembly :: u32
  sn_droppedQueueFull :: u32

definition peekRxCounters :: "rx_counters \<Rightarrow> rx_snapshot" where
  "peekRxCounters c =
     \<lparr>sn_datagrams = ct_rxDatagram c, sn_fragmentsAccepted = ct_fragmentAccepted c,
      sn_routedTelemetry = ct_routedTelemetry c, sn_routedLog = ct_routedLog c,
      sn_routedCommand = ct_routedCommand c, sn_routedControl = ct_routedControl c,
      sn_routedTerminal = ct_routedTerminal c, sn_droppedRx = ct_droppedRx c,
      sn_droppedDecode = ct_droppedDecode c, sn_droppedCrc = ct_droppedCrc c,
      sn_droppedReassembly = ct_droppedReassembly c, sn_droppedQueueFull = ct_droppedQueueFull c\<rparr>"

section \<open>Transmission and probes\<close>

definition txPriorityForFrame :: "decode_fn \<Rightarrow> bytes \<Rightarrow> priority" where
  "txPriorityForFrame decode frame =
     (let ingress = classifyRadio decode frame in
      if ri_error ingress \<noteq> BeOk then Control
      else (case hd_type (ri_header ingress) of
              MtControl \<Rightarrow> Critical
            | MtCommand \<Rightarrow> Critical
            | MtLog \<Rightarrow> Control
            | MtTerminal \<Rightarrow> Control
            | MtTelemetry \<Rightarrow> Data
            | MtInvalid \<Rightarrow> Control))"

text \<open>\<open>sendToMac\<close> is the manager's, with the caller's context \<open>'c\<close>.\<close>

definition sendViaManager ::
    "decode_fn \<Rightarrow> (mac \<Rightarrow> bytes \<Rightarrow> priority \<Rightarrow> 'c \<Rightarrow> bool \<times> 'c) \<Rightarrow> mac \<Rightarrow> bytes \<Rightarrow> 'c \<Rightarrow> bool \<times> 'c" where
  "sendViaManager decode sendToMac m datagram ctx = sendToMac m datagram (txPriorityForFrame decode datagram) ctx"

definition sendRawToMac ::
    "decode_fn \<Rightarrow> (mac \<Rightarrow> bytes \<Rightarrow> priority \<Rightarrow> 'c \<Rightarrow> bool \<times> 'c) \<Rightarrow> bool \<Rightarrow> mac option \<Rightarrow> bytes \<Rightarrow> 'c \<Rightarrow> bool \<times> 'c" where
  "sendRawToMac decode sendToMac hasManager macPtr frame ctx =
     (case macPtr of
        None \<Rightarrow> (False, ctx)
      | Some m \<Rightarrow>
          if \<not> hasManager \<or> frame = [] then (False, ctx)
          else sendToMac m frame (txPriorityForFrame decode frame) ctx)"

text \<open>What the probes use: the library's encoder, the minimum frame size, the endpoint's sequence
  counter, the two senders of the manager (with status and without).\<close>

record 'c probe_env =
  pe_encode :: "logical_message \<Rightarrow> u32 \<Rightarrow> u16 \<Rightarrow> u16 \<Rightarrow> nat \<Rightarrow> seal_fn \<Rightarrow> bytes option"
  pe_min_frame :: nat
  pe_aead :: aead_lib
  pe_key :: key_holder
  pe_hasManager :: bool
  pe_decode :: decode_fn
  pe_reserve :: "'c \<Rightarrow> u32 option \<times> 'c"
  pe_sendWithStatus :: "mac \<Rightarrow> bytes \<Rightarrow> u32 \<Rightarrow> 'c \<Rightarrow> (bool \<times> bool) \<times> 'c"
  pe_send :: "mac \<Rightarrow> bytes \<Rightarrow> priority \<Rightarrow> 'c \<Rightarrow> bool \<times> 'c"
  pe_millis :: u32

definition HEARTBEAT_SEND_TIMEOUT_MS :: u32 where "HEARTBEAT_SEND_TIMEOUT_MS = 150"

text \<open>The sealer the probes hand to the encoder.\<close>

definition probe_seal :: "'c probe_env \<Rightarrow> seal_fn" where
  "probe_seal pe header plaintext = seal (pe_aead pe) (pe_key pe) header (View plaintext)"

text \<open>The peer whose turn it is, and the next cursor.\<close>

definition next_target :: "nat \<Rightarrow> peer_table \<Rightarrow> (peer_snapshot \<times> nat) option" where
  "next_target cursor t =
     (let peers = enumeratePeers False kPeerIdentityCapacity t;
          i = (if cursor \<ge> length peers then 0 else cursor)
      in if peers = [] then None else Some (peers ! i, (i + 1) mod length peers))"

text \<open>The cursor, the peer table and the context.\<close>

definition heartbeatTick :: "'c probe_env \<Rightarrow> nat \<times> peer_table \<times> 'c \<Rightarrow> nat \<times> peer_table \<times> 'c" where
  "heartbeatTick pe st =
     (case st of (cursor, t, ctx) \<Rightarrow>
        if \<not> pe_hasManager pe then st
        else
          case next_target cursor t of
            None \<Rightarrow> st
          | Some (target, cursor) \<Rightarrow>
              (case pe_reserve pe ctx of
                 (None, ctx) \<Rightarrow> (cursor, t, ctx)
               | (Some sequence, ctx) \<Rightarrow>
                   (case encodeSingleFrame (pe_encode pe) MtControl 0x0009 sequence (ucast (pe_millis pe) * 1000)
                           (NullView 0) (pe_min_frame pe + kAeadTagSize) (Some (probe_seal pe)) of
                      None \<Rightarrow> (cursor, t, ctx)
                    | Some frame \<Rightarrow>
                        (case pe_sendWithStatus pe (ps_mac target) frame HEARTBEAT_SEND_TIMEOUT_MS ctx of
                           ((gotStatus, delivered), ctx) \<Rightarrow>
                             (cursor, notePeerLinkResult (Some (ps_mac target)) (gotStatus \<and> delivered) t, ctx)))))"

definition ping_payload :: "peer_snapshot \<Rightarrow> bytes" where
  "ping_payload target =
     [ucast (ps_sourceId target), ucast (drop_bit 8 (ps_sourceId target)), ucast (drop_bit 16 (ps_sourceId target)),
      ucast (drop_bit 24 (ps_sourceId target)), ucast (ps_bootId target), ucast (drop_bit 8 (ps_bootId target)),
      ucast (drop_bit 16 (ps_bootId target)), ucast (drop_bit 24 (ps_bootId target)),
      ucast kPingActionId, ucast (drop_bit 8 kPingActionId), ucast kPingActionVersion,
      ucast (drop_bit 8 kPingActionVersion), 0, 0, 0, 0, 0, 0, 0, 0]"

definition pingTick :: "'c probe_env \<Rightarrow> nat \<times> peer_table \<times> 'c \<Rightarrow> nat \<times> peer_table \<times> 'c" where
  "pingTick pe st =
     (case st of (cursor, t, ctx) \<Rightarrow>
        if \<not> pe_hasManager pe then st
        else
          case next_target cursor t of
            None \<Rightarrow> st
          | Some (target, cursor) \<Rightarrow>
              (case pe_reserve pe ctx of
                 (None, ctx) \<Rightarrow> (cursor, t, ctx)
               | (Some sequence, ctx) \<Rightarrow>
                   (case encodeSingleFrame (pe_encode pe) MtCommand kCommandRequestObjectId sequence
                           (ucast (pe_millis pe) * 1000) (View (ping_payload target))
                           (pe_min_frame pe + kRequestPrefixSize + kAeadTagSize) (Some (probe_seal pe)) of
                      None \<Rightarrow> (cursor, t, ctx)
                    | Some frame \<Rightarrow>
                        (case sendRawToMac (pe_decode pe) (pe_send pe) (pe_hasManager pe) (Some (ps_mac target)) frame ctx of
                           (ok, ctx) \<Rightarrow>
                             (cursor, if ok then notePingSent (Some (ps_mac target)) sequence (pe_millis pe) t else t,
                              ctx)))))"

end
