(* ===== verification/Radio_Ingress_Proofs.thy ===== *)
theory Radio_Ingress_Proofs
  imports Radio_Service
begin

text \<open>
  What the radio ingress of lib/EspNowConfig guarantees: which datagrams may touch the peer table,
  the registry, the manifest cache or the remote shell, that what is relayed is octet for octet
  what was received, and that the probes go round the authenticated peers.
\<close>

section \<open>What a step logs and leaves alone\<close>

definition logs :: "(hub_call \<Rightarrow> bool) \<Rightarrow> ('r, 'w) hub_state \<Rightarrow> ('r, 'w) hub_state \<Rightarrow> bool" where
  "logs P s s' \<longleftrightarrow> (\<exists>cs. hs_log s' = hs_log s @ cs \<and> (\<forall>c\<in>set cs. P c))"

definition new_calls :: "('r, 'w) hub_state \<Rightarrow> ('r, 'w) hub_state \<Rightarrow> hub_call list" where
  "new_calls s s' = drop (length (hs_log s)) (hs_log s')"

fun is_relay :: "hub_call \<Rightarrow> bool" where
  "is_relay (RelayUp h f) = True" | "is_relay _ = False"

fun is_run :: "hub_call \<Rightarrow> bool" where
  "is_run (RunLine l a u) = True" | "is_run _ = False"

named_theorems log_rules "how the operations of the radio ingress extend the log"

lemma logs_refl [log_rules]: "logs P s s"
  by (simp add: logs_def)

lemma logs_same: "hs_log s' = hs_log s \<Longrightarrow> logs P s s'"
  by (simp add: logs_def)

lemma logs_trans: "logs P s s' \<Longrightarrow> logs P s' s'' \<Longrightarrow> logs P s s''"
  by (fastforce simp: logs_def)

lemma logs_mono: "logs P s s' \<Longrightarrow> (\<And>c. P c \<Longrightarrow> Q c) \<Longrightarrow> logs Q s s'"
  by (auto simp: logs_def)

lemma logs_log_call: "P c \<Longrightarrow> logs P s (log_call c s)"
  by (auto simp: logs_def log_call_def)

lemma logs_new: "logs P s s' \<Longrightarrow> c \<in> set (new_calls s s') \<Longrightarrow> P c"
  by (auto simp: logs_def new_calls_def)

lemma new_calls_none: "hs_log s' = hs_log s \<Longrightarrow> new_calls s s' = []"
  by (simp add: new_calls_def)

lemma log_frame [simp]:
  "hs_log (note_count f s) = hs_log s" "hs_peers (note_count f s) = hs_peers s"
  "hs_manager (note_count f s) = hs_manager s" "hs_manifests (note_count f s) = hs_manifests s"
  "hs_pending (note_count f s) = hs_pending s" "hs_router (note_count f s) = hs_router s"
  "hs_log (log_call c s) = hs_log s @ [c]" "hs_peers (log_call c s) = hs_peers s"
  "hs_manager (log_call c s) = hs_manager s" "hs_manifests (log_call c s) = hs_manifests s"
  "hs_pending (log_call c s) = hs_pending s" "hs_router (log_call c s) = hs_router s"
  "hs_log (relay_one h d s) = hs_log s @ [RelayUp h d]" "hs_peers (relay_one h d s) = hs_peers s"
  "hs_manager (relay_one h d s) = hs_manager s" "hs_manifests (relay_one h d s) = hs_manifests s"
  "hs_pending (relay_one h d s) = hs_pending s"
  "hs_log (clear_pending lib h s) = hs_log s" "hs_peers (clear_pending lib h s) = hs_peers s"
  "hs_manager (clear_pending lib h s) = hs_manager s" "hs_manifests (clear_pending lib h s) = hs_manifests s"
  "hs_pending (clear_pending lib h s) = clearPendingRelay lib h (hs_pending s)"
  by (simp_all add: note_count_def log_call_def relay_one_def clear_pending_def)

text \<open>What no step outside consumption changes: the peers, the registry and the cached manifests.\<close>

definition tables :: "('r, 'w) hub_state \<Rightarrow> peer_table \<times> manager option \<times> manifest_entry list" where
  "tables s = (hs_peers s, hs_manager s, mc_entries (hs_manifests s))"

lemma fold_relay_frame:
  "hs_log (fold (\<lambda>i. relay_one h (f i)) is s) = hs_log s @ map (\<lambda>i. RelayUp h (f i)) is"
  "hs_peers (fold (\<lambda>i. relay_one h (f i)) is s) = hs_peers s"
  "hs_manager (fold (\<lambda>i. relay_one h (f i)) is s) = hs_manager s"
  "hs_manifests (fold (\<lambda>i. relay_one h (f i)) is s) = hs_manifests s"
  "hs_pending (fold (\<lambda>i. relay_one h (f i)) is s) = hs_pending s"
  by (induction "is" arbitrary: s) simp_all

lemma relayPendingUp_frame:
  "relayPendingUp lib h s = (ok, s') \<Longrightarrow>
     tables s' = tables s \<and> logs is_relay s s'"
  by (auto simp: relayPendingUp_def tables_def Let_def logs_def fold_relay_frame split: option.splits if_splits)

lemma unopened_frame:
  "tables (unopened lib env h d routed s) = tables s"
  "logs is_relay s (unopened lib env h d routed s)"
proof -
  obtain ok s' where r: "relayPendingUp lib (rm_header routed) s = (ok, s')"
    by (cases "relayPendingUp lib (rm_header routed) s")
  note f = relayPendingUp_frame [OF r]
  show "tables (unopened lib env h d routed s) = tables s"
    using f by (auto simp: unopened_def Let_def r tables_def)
  show "logs is_relay s (unopened lib env h d routed s)"
    using f by (auto simp: unopened_def Let_def r logs_def)
qed

lemma shouldRequest_entries:
  "shouldRequestManifest a b n s = (ok, s') \<Longrightarrow> mc_entries s' = mc_entries s"
  by (auto simp: shouldRequestManifest_def Let_def split: if_splits)

lemma prime_frame:
  "tables (primeManifestIfNeeded lib env m h s) = tables s"
  "logs (\<lambda>c. \<not> is_run c \<and> \<not> is_relay c) s (primeManifestIfNeeded lib env m h s)"
  by (auto simp: primeManifestIfNeeded_def Let_def tables_def notePrimeSent_def logs_def
      dest: shouldRequest_entries split: prod.splits)

lemma prime_pending [simp]: "hs_pending (primeManifestIfNeeded lib env m h s) = hs_pending s"
  by (auto simp: primeManifestIfNeeded_def Let_def split: prod.splits)

lemma reply_frame:
  "tables (replyCommandResult lib env m h a v st e msg s) = tables s"
  "logs (\<lambda>c. \<not> is_run c \<and> \<not> is_relay c) s (replyCommandResult lib env m h a v st e msg s)"
  "hs_pending (replyCommandResult lib env m h a v st e msg s) = hs_pending s"
  by (auto simp: replyCommandResult_def Let_def tables_def logs_def)

lemma result_frame:
  "hs_manager (handleRoutedCommandResult lib env m h p s) = hs_manager s"
  "hs_manifests (handleRoutedCommandResult lib env m h p s) = hs_manifests s"
  "hs_pending (handleRoutedCommandResult lib env m h p s) = hs_pending s"
  "logs (\<lambda>c. \<not> is_run c \<and> \<not> is_relay c) s (handleRoutedCommandResult lib env m h p s)"
  by (auto simp: handleRoutedCommandResult_def Let_def logs_def split: prod.splits option.splits)

text \<open>When a shell line is run for the sender \<open>m\<close> of a message.\<close>

definition may_run ::
    "('r, 'w) hub_lib \<Rightarrow> hub_env \<Rightarrow> mac \<Rightarrow> routed_message \<Rightarrow> manager option \<Rightarrow> hub_call \<Rightarrow> bool" where
  "may_run lib env m routed mgr c \<longleftrightarrow>
     (\<exists>manager rq line. mgr = Some manager \<and> deviceIndexByMac (Some m) manager \<noteq> None \<and>
        parse_request (hl_command_request lib) (btp_header.truncate (rm_header routed)) (View (rm_payload routed))
          (ev_sourceId env) (ev_bootId env) False = (PeOk, Some rq) \<and>
        rq_parameters rq = View line \<and> (\<forall>b\<in>set line. line_octet b) \<and>
        c = RunLine (chars_of line) ''espnow'' (''espnow:'' @ macToText m))"

lemma parse_request_out:
  "parse_request decode h v src boot nul = (e, out) \<Longrightarrow> (e = PeOk \<longleftrightarrow> out \<noteq> None)"
  by (auto simp: parse_request_def request_error_def split: if_splits prod.splits message_error.splits)

lemma line_octet_nonzero: "line_octet b \<Longrightarrow> b \<noteq> 0"
  by (auto simp: line_octet_def)

lemma copied_line:
  assumes "copy_shell_command rq (Some buf) = (PeOk, out)"
  shows "\<exists>line. rq_parameters rq = View line \<and> (\<forall>b\<in>set line. line_octet b) \<and> c_text (the out) = chars_of line"
proof (cases "rq_parameters rq")
  case (NullView n)
  with assms show ?thesis by (simp add: copy_shell_command_def split: if_splits)
next
  case (View line)
  with assms have ok: "shell_text_ok line" and out: "out = Some (line @ [0] @ drop (length line + 1) buf)"
    by (auto simp: copy_shell_command_def Let_def split: if_splits)
  from ok have l: "\<forall>b\<in>set line. line_octet b" by (simp add: shell_text_ok_iff)
  then have "takeWhile (\<lambda>b. b \<noteq> 0) (line @ 0 # drop (length line + 1) buf) = line"
    by (subst takeWhile_append2) (auto dest: line_octet_nonzero)
  with View l out show ?thesis by (simp add: c_text_def)
qed

lemma request_frame:
  "tables (handleRoutedCommandRequest lib env m routed s) = tables s"
  "hs_pending (handleRoutedCommandRequest lib env m routed s) = hs_pending s"
  "logs (\<lambda>c. \<not> is_relay c \<and> (is_run c \<longrightarrow> may_run lib env m routed (hs_manager s) c)) s
     (handleRoutedCommandRequest lib env m routed s)"
proof -
  let ?P = "\<lambda>c. \<not> is_relay c \<and> (is_run c \<longrightarrow> may_run lib env m routed (hs_manager s) c)"
  let ?H = "handleRoutedCommandRequest lib env m routed s"
  have reply: "logs ?P t (replyCommandResult lib env x h a v st e msg t)" for x h a v st e msg t
    by (rule logs_mono [OF reply_frame(2)]) simp
  have rp: "tables (replyCommandResult lib env x h a v st e msg t) = tables t" for x h a v st e msg t
    by (rule reply_frame(1))
  consider (idle) "?H = s" | (refused) a v e msg where "?H = replyCommandResult lib env (Some m) (rm_header routed) a v 1 e msg s"
    | (run) line a v msg where "may_run lib env m routed (hs_manager s) (RunLine line ''espnow'' (''espnow:'' @ macToText m))"
        "?H = replyCommandResult lib env (Some m) (rm_header routed) a v 0 0 msg
                (log_call (RunLine line ''espnow'' (''espnow:'' @ macToText m)) s)"
  proof (cases "hs_manager s")
    case None
    then show thesis by (intro idle) (simp add: handleRoutedCommandRequest_def)
  next
    case (Some manager)
    obtain pe out where pr: "parse_request (hl_command_request lib) (btp_header.truncate (rm_header routed))
        (View (rm_payload routed)) (ev_sourceId env) (ev_bootId env) False = (pe, out)"
      by fastforce
    note o = parse_request_out [OF pr]
    show thesis
    proof (cases "deviceIndexByMac (Some m) manager = None \<or> pe = PeWrongTarget")
      case True
      with Some pr show thesis by (intro idle) (auto simp: handleRoutedCommandRequest_def)
    next
      case False
      show thesis
      proof (cases out)
        case None
        with False Some pr show thesis by (intro refused) (auto simp: handleRoutedCommandRequest_def)
      next
        case (Some rq)
        obtain ce buf where cp: "copy_shell_command rq (Some (replicate (kMaxShellCommandSize + 1) 0)) = (ce, buf)"
          by fastforce
        show thesis
        proof (cases "ce = PeOk")
          case True
          from copied_line [OF cp [unfolded True]] obtain line where line: "rq_parameters rq = View line"
            "\<forall>b\<in>set line. line_octet b" "c_text (the buf) = chars_of line" by blast
          have "may_run lib env m routed (hs_manager s)
              (RunLine (chars_of line) ''espnow'' (''espnow:'' @ macToText m))"
            unfolding may_run_def using False Some o pr line \<open>hs_manager s = Some manager\<close> by auto
          then show thesis
            by (rule run) (use False Some pr cp True line \<open>hs_manager s = Some manager\<close> in
                \<open>auto simp: handleRoutedCommandRequest_def Let_def\<close>)
        next
          case False': False
          with False Some pr cp \<open>hs_manager s = Some manager\<close> show thesis
            by (intro refused [of "rq_action_id rq" "rq_action_version rq"
                  "if ce = PeUnsupportedAction then kCodeUnsupportedVersion else kCodeInvalidArgument"
                  "parse_error_string ce"]) (auto simp: handleRoutedCommandRequest_def)
        qed
      qed
    qed
  qed
  note c = this
  show "tables ?H = tables s"
    by (cases rule: c) (simp_all add: reply_frame, simp add: tables_def)
  show "hs_pending ?H = hs_pending s"
    by (cases rule: c) (simp_all add: reply_frame)
  show "logs ?P s ?H"
  proof (cases rule: c)
    case idle
    then show ?thesis by (simp add: logs_refl)
  next
    case refused
    then show ?thesis using reply by simp
  next
    case (run line a v msg)
    then show ?thesis using logs_trans [OF logs_log_call reply] by simp
  qed
qed

lemma enqueue_frame:
  "tables (enqueue_by_type routed s) = tables s"
  "hs_pending (enqueue_by_type routed s) = hs_pending s"
  "hs_log (enqueue_by_type routed s) = hs_log s"
  by (auto simp: enqueue_by_type_def count_queue_full_def tables_def
      split: message_type.splits prod.splits)

lemma tables_frame [simp]:
  "tables (note_count f s) = tables s"
  "tables (log_call c s) = tables s"
  by (simp_all add: tables_def)

lemma request_enqueue_frame [simp]:
  "hs_manager (handleRoutedCommandRequest lib env m routed s) = hs_manager s"
  "hs_manager (enqueue_by_type routed s) = hs_manager s"
  "mc_entries (hs_manifests (handleRoutedCommandRequest lib env m routed s)) = mc_entries (hs_manifests s)"
  "mc_entries (hs_manifests (enqueue_by_type routed s)) = mc_entries (hs_manifests s)"
  using request_frame(1) [of lib env m routed s] enqueue_frame(1) [of routed s] by (simp_all add: tables_def)

lemma control_frame:
  "hs_peers (handleControlItem lib env routed s) = hs_peers s"
  "hs_manager (handleControlItem lib env routed s) = hs_manager s"
  "hs_pending (handleControlItem lib env routed s) = hs_pending s"
  "hs_log (handleControlItem lib env routed s) = hs_log s"
  by (auto simp: handleControlItem_def)

lemma dispatch_frame:
  "hs_manager (dispatchRouted lib env m routed s) = hs_manager s"
  "hs_pending (dispatchRouted lib env m routed s) = hs_pending s"
  "logs (\<lambda>c. \<not> is_relay c \<and> (is_run c \<longrightarrow> may_run lib env m routed (hs_manager s) c)) s
     (dispatchRouted lib env m routed s)"
proof -
  let ?P = "\<lambda>c. \<not> is_relay c \<and> (is_run c \<longrightarrow> may_run lib env m routed (hs_manager s) c)"
  let ?s = "note_count (countRouted (hd_type (rm_header routed))) s"
  have start: "logs ?P s ?s" by (rule logs_same) simp
  have res: "logs ?P ?s (handleRoutedCommandResult lib env m (rm_header routed) (rm_payload routed) ?s)"
    by (rule logs_mono [OF result_frame(4)]) simp
  have cmd: "logs ?P ?s (handleRoutedCommand lib env m routed ?s)"
    using request_frame(3) [of lib env m routed ?s] res
    by (auto simp: handleRoutedCommand_def logs_refl)
  show "hs_manager (dispatchRouted lib env m routed s) = hs_manager s"
    by (auto simp: dispatchRouted_def Let_def handleRoutedCommand_def result_frame control_frame)
  show "hs_pending (dispatchRouted lib env m routed s) = hs_pending s"
    by (auto simp: dispatchRouted_def Let_def handleRoutedCommand_def result_frame control_frame
        request_frame enqueue_frame)
  show "logs ?P s (dispatchRouted lib env m routed s)"
    using logs_trans [OF start cmd]
    by (auto simp: dispatchRouted_def Let_def logs_same control_frame enqueue_frame)
qed

text \<open>A message outside the candidate list reaches no table and no shell.\<close>

lemma dispatch_other:
  assumes "\<not> dongle_may_consume (hd_type (rm_header routed)) (hd_object_id (rm_header routed))"
  shows "tables (dispatchRouted lib env m routed s) = tables s"
    and "hs_log (dispatchRouted lib env m routed s) = hs_log s"
proof -
  have "dispatchRouted lib env m routed s \<in>
      {note_count (countRouted (hd_type (rm_header routed))) s,
       enqueue_by_type routed (note_count (countRouted (hd_type (rm_header routed))) s)}"
    using assms by (auto simp: dispatchRouted_def Let_def handleRoutedCommand_def handleControlItem_def
        dongle_may_consume_def)
  then show "tables (dispatchRouted lib env m routed s) = tables s"
    and "hs_log (dispatchRouted lib env m routed s) = hs_log s"
    by (auto simp: enqueue_frame)
qed

lemma dispatch_entries:
  assumes "mc_entries (hs_manifests (dispatchRouted lib env m routed s)) \<noteq> mc_entries (hs_manifests s)"
  shows "hd_type (rm_header routed) = MtControl \<and> hd_object_id (rm_header routed) = kManifestDataObjectId"
proof (rule ccontr)
  assume not: "\<not> ?thesis"
  from not assms show False
    by (auto simp: dispatchRouted_def Let_def handleRoutedCommand_def handleControlItem_def result_frame
        split: if_splits)
qed

lemma register_frame:
  "hs_log (register_peer lib m h n rssi s) = hs_log s"
  "hs_manifests (register_peer lib m h n rssi s) = hs_manifests s"
  "hs_pending (register_peer lib m h n rssi s) = hs_pending s"
  by (auto simp: register_peer_def Let_def split: option.splits prod.splits)

lemma prime_dispatch_frame:
  "hs_pending (prime_and_dispatch lib env m routed s) = hs_pending s"
  "hs_manager (prime_and_dispatch lib env m routed s) = hs_manager s"
  "logs (\<lambda>c. \<not> is_relay c \<and> (is_run c \<longrightarrow> may_run lib env m routed (hs_manager s) c)) s
     (prime_and_dispatch lib env m routed s)"
  "mc_entries (hs_manifests (prime_and_dispatch lib env m routed s)) \<noteq> mc_entries (hs_manifests s) \<Longrightarrow>
     hd_type (rm_header routed) = MtControl \<and> hd_object_id (rm_header routed) = kManifestDataObjectId"
proof -
  let ?p = "primeManifestIfNeeded lib env (Some m) (rm_header routed) s"
  have t: "hs_manager ?p = hs_manager s" "mc_entries (hs_manifests ?p) = mc_entries (hs_manifests s)"
    using prime_frame(1) [of lib env "Some m" "rm_header routed" s] by (simp_all add: tables_def)
  show "hs_pending (prime_and_dispatch lib env m routed s) = hs_pending s"
    "hs_manager (prime_and_dispatch lib env m routed s) = hs_manager s"
    by (simp_all add: prime_and_dispatch_def dispatch_frame t)
  show "logs (\<lambda>c. \<not> is_relay c \<and> (is_run c \<longrightarrow> may_run lib env m routed (hs_manager s) c)) s
     (prime_and_dispatch lib env m routed s)"
    unfolding prime_and_dispatch_def
    by (rule logs_trans [OF logs_mono [OF prime_frame(2)]])
       (use dispatch_frame(3) [of lib env m routed ?p] t in auto)
  show "hd_type (rm_header routed) = MtControl \<and> hd_object_id (rm_header routed) = kManifestDataObjectId"
    if "mc_entries (hs_manifests (prime_and_dispatch lib env m routed s)) \<noteq> mc_entries (hs_manifests s)"
    using that dispatch_entries [of lib env m routed ?p] t by (simp add: prime_and_dispatch_def)
qed

section \<open>Consumption\<close>

text \<open>The datagram completes the message \<open>routed\<close> of the sender \<open>m\<close>, and that message opens under
  key L to \<open>plain\<close>.\<close>

definition opened_message ::
    "('r, 'w) hub_lib \<Rightarrow> hub_env \<Rightarrow> mac option \<Rightarrow> bytes \<Rightarrow> ('r, 'w) hub_state \<Rightarrow> mac \<Rightarrow> routed_message \<Rightarrow> bytes \<Rightarrow> bool" where
  "opened_message lib env macPtr datagram s m routed plain \<longleftrightarrow>
     macPtr = Some m \<and>
     (\<exists>r. submit (hl_node lib) macPtr datagram (ucast (ev_millis env AtIngress)) no_message (hs_router s) =
            (OcRouted, routed, r)) \<and>
     kTagSize \<le> length (rm_payload routed) \<and> g_hasKeyL (ev_key env) \<and>
     hd_flags (rm_header routed) AND ae_flag_encrypted (hl_aead lib) \<noteq> 0 \<and>
     ae_is_gcm (hl_aead lib) (hd_flags (rm_header routed)) \<and>
     (\<exists>p. ae_open (hl_aead lib) (take kKeyLength (g_keyL (ev_key env))) (rm_header routed) (rm_payload routed) = Some p \<and>
          plain = take (length (rm_payload routed) - kTagSize) p)"

lemma opened_iff:
  "opened lib env routed = Some p \<longleftrightarrow>
     kTagSize \<le> length (rm_payload routed) \<and> g_hasKeyL (ev_key env) \<and>
     hd_flags (rm_header routed) AND ae_flag_encrypted (hl_aead lib) \<noteq> 0 \<and>
     ae_is_gcm (hl_aead lib) (hd_flags (rm_header routed)) \<and>
     ae_open (hl_aead lib) (take kKeyLength (g_keyL (ev_key env))) (rm_header routed) (rm_payload routed) = Some p"
  by (auto simp: opened_def open_sealed_def hasKeyL_def keyL_def)

text \<open>The reference of a command or manifest that names this dongle is in the plaintext.\<close>

lemma own_reference:
  assumes "dongle_consumes (hd_type h) (hd_object_id h) (referenceSourceId h plain) self"
    and "\<not> (hd_type h = MtControl \<and> hd_object_id h = kStatusObjectId)"
  shows "self \<noteq> 0 \<and> 4 \<le> length plain \<and> read_u32_le plain 0 = self"
  using assms by (auto simp: dongle_consumes_def referenceSourceId_def Let_def split: if_splits)

lemma may_run_type:
  "may_run lib env m routed mgr c \<Longrightarrow> hd_type (rm_header routed) = MtCommand"
  by (auto simp: may_run_def parse_request_def btp_header.truncate_def request_error_def
      split: if_splits prod.splits message_error.splits)

lemma consume_facts:
  fixes s :: "('r, 'w) hub_state"
  defines "plain \<equiv> \<lambda>routed p. take (length (rm_payload routed) - kTagSize) p"
  assumes s': "s' = consume lib env m n rssi routed p s"
  shows "logs (\<lambda>c. \<not> is_relay c \<and> (is_run c \<longrightarrow>
            may_run lib env m (routed\<lparr>rm_payload := plain routed p\<rparr>) (hs_manager s') c)) s s'"
    and "mc_entries (hs_manifests s') \<noteq> mc_entries (hs_manifests s) \<or> (\<exists>c\<in>set (new_calls s s'). is_run c) \<Longrightarrow>
           ev_sourceId env \<noteq> 0 \<and> 4 \<le> length (plain routed p) \<and> read_u32_le (plain routed p) 0 = ev_sourceId env"
proof -
  let ?h = "rm_header routed" and ?routed = "routed\<lparr>rm_payload := plain routed p\<rparr>"
  let ?s = "register_peer lib m ?h n rssi s"
  let ?P = "\<lambda>c. \<not> is_relay c \<and> (is_run c \<longrightarrow> may_run lib env m ?routed (hs_manager s') c)"
  let ?own = "dongle_consumes (hd_type ?h) (hd_object_id ?h) (referenceSourceId ?h (plain routed p)) (ev_sourceId env)"
  have no: "hs_log s' = hs_log s" "mc_entries (hs_manifests s') = mc_entries (hs_manifests s)" if "\<not> ?own"
    using that by (auto simp: s' consume_def Let_def register_frame plain_def noteConsumeRejected_def)
  let ?t = "clear_pending lib ?h ?s"
  have yes: "s' = prime_and_dispatch lib env m ?routed ?t" if ?own
    using that by (simp add: s' consume_def Let_def plain_def)
  have man: "hs_manager s' = hs_manager ?t" if ?own
    by (simp only: yes [OF that] prime_dispatch_frame)
  have lg: "logs ?P s s'"
  proof (cases ?own)
    case False
    then show ?thesis by (simp add: logs_same no)
  next
    case True
    have "logs ?P ?t s'"
      unfolding man [OF True] unfolding yes [OF True] by (rule prime_dispatch_frame(3))
    then show ?thesis by (simp add: logs_def register_frame)
  qed
  then show "logs ?P s s'" .
  assume act: "mc_entries (hs_manifests s') \<noteq> mc_entries (hs_manifests s) \<or> (\<exists>c\<in>set (new_calls s s'). is_run c)"
  then have own: ?own
    using no new_calls_none [of s' s] by fastforce
  from act have "\<not> (hd_type ?h = MtControl \<and> hd_object_id ?h = kStatusObjectId)"
  proof
    assume "mc_entries (hs_manifests s') \<noteq> mc_entries (hs_manifests s)"
    with prime_dispatch_frame(4) [of lib env m ?routed ?t] yes [OF own]
    show ?thesis by (simp add: register_frame kManifestDataObjectId_def kStatusObjectId_def)
  next
    assume "\<exists>c\<in>set (new_calls s s'). is_run c"
    with logs_new [OF lg] have "\<exists>c. may_run lib env m ?routed (hs_manager s') c" by blast
    then show ?thesis using may_run_type by fastforce
  qed
  with own show "ev_sourceId env \<noteq> 0 \<and> 4 \<le> length (plain routed p) \<and> read_u32_le (plain routed p) 0 = ev_sourceId env"
    by (rule own_reference)
qed

text \<open>The four ways through \<open>processRxDatagram\<close>.\<close>

lemma process_cases:
  fixes s :: "('r, 'w) hub_state"
  assumes s': "s' = processRxDatagram lib env macPtr datagram rssi s"
  obtains (bad) f t where "fst (hl_decode lib datagram) \<noteq> BeOk" "s' = note_count f t"
      "tables t = tables s" "hs_pending t = hs_pending s" "logs (\<lambda>c. \<not> is_run c \<and> \<not> is_relay c) s t"
  | (fast) h pl t where "hl_decode lib datagram = (BeOk, h, pl)"
      "\<not> dongle_may_consume (hd_type h) (hd_object_id h)" "s' = relay_one h datagram t"
      "tables t = tables s" "hs_pending t = hs_pending s" "logs (\<lambda>c. \<not> is_run c \<and> \<not> is_relay c) s t"
  | (dropped) h pl f t where "hl_decode lib datagram = (BeOk, h, pl)"
      "dongle_may_consume (hd_type h) (hd_object_id h)"
      "retainPendingRelay lib h datagram (ev_millis env AtIngress) (hs_pending s) = (False, hs_pending t)"
      "s' = note_count f t" "tables t = tables s" "logs (\<lambda>c. \<not> is_run c \<and> \<not> is_relay c) s t"
  | (routed) h pl t oc routed r where "hl_decode lib datagram = (BeOk, h, pl)"
      "if dongle_may_consume (hd_type h) (hd_object_id h)
       then retainPendingRelay lib h datagram (ev_millis env AtIngress) (hs_pending s) = (True, hs_pending t)
       else hs_pending t = hs_pending s"
      "submit (hl_node lib) macPtr datagram (ucast (ev_millis env AtIngress)) no_message (hs_router s) = (oc, routed, r)"
      "s' = routed_outcome lib env macPtr datagram rssi
              \<lparr>ri_error = BeOk, ri_header = h, ri_mayConsume = dongle_may_consume (hd_type h) (hd_object_id h)\<rparr>
              (ev_millis env AtIngress) oc routed t"
      "tables t = tables s" "logs (\<lambda>c. \<not> is_run c \<and> \<not> is_relay c) s t"
proof -
  define s0 where "s0 = note_count (ct_rxDatagram_update (\<lambda>n. n + 1)) (if ev_lcd env then log_call NotifyRx s else s)"
  have s0: "tables s0 = tables s" "hs_pending s0 = hs_pending s" "hs_router s0 = hs_router s"
    "logs (\<lambda>c. \<not> is_run c \<and> \<not> is_relay c) s s0"
    by (auto simp: s0_def logs_def)
  obtain e h pl where d: "hl_decode lib datagram = (e, h, pl)" by (cases "hl_decode lib datagram")
  show thesis
  proof (cases "e = BeOk")
    case False
    with s0 d show thesis
      by (intro bad [where t = s0 and f = "if e = BeCrcMismatch then ct_droppedCrc_update (\<lambda>n. n + 1)
            else ct_droppedDecode_update (\<lambda>n. n + 1)"])
        (auto simp: s' processRxDatagram_def Let_def s0_def classifyRadio_def)
  next
    case ok: True
    let ?may = "dongle_may_consume (hd_type h) (hd_object_id h)"
    show thesis
    proof (cases "\<not> ?may \<and> ev_protocolled env AtIngress")
      case True
      with s0 d ok show thesis
        by (intro fast [where t = s0]) (auto simp: s' processRxDatagram_def Let_def s0_def classifyRadio_def)
    next
      case slow: False
      obtain kept ps where k: "(if ?may then retainPendingRelay lib h datagram (ev_millis env AtIngress) (hs_pending s)
          else (True, hs_pending s)) = (kept, ps)" by fastforce
      let ?s1 = "s0\<lparr>hs_pending := ps\<rparr>"
      have s1: "tables ?s1 = tables s" "logs (\<lambda>c. \<not> is_run c \<and> \<not> is_relay c) s ?s1"
        using s0 by (simp_all add: tables_def logs_def)
      show thesis
      proof (cases kept)
        case False
        with k have "?may" by (auto split: if_splits)
        with False s1 d ok slow k show thesis
          by (intro dropped [where t = ?s1 and f = "ct_droppedReassembly_update (\<lambda>n. n + 1)"])
            (auto simp: s' processRxDatagram_def Let_def classifyRadio_def s0_def)
      next
        case True
        obtain oc routed r where sub: "submit (hl_node lib) macPtr datagram (ucast (ev_millis env AtIngress))
            no_message (hs_router s) = (oc, routed, r)" by (metis prod_cases3)
        show thesis
        proof (rule routed [OF d [unfolded ok] _ sub])
          let ?s2 = "?s1\<lparr>hs_router := r\<rparr>"
          show "if ?may then retainPendingRelay lib h datagram (ev_millis env AtIngress) (hs_pending s) = (True, hs_pending ?s2)
                else hs_pending ?s2 = hs_pending s"
            using k True by (auto split: if_splits)
          show "s' = routed_outcome lib env macPtr datagram rssi
              \<lparr>ri_error = BeOk, ri_header = h, ri_mayConsume = ?may\<rparr> (ev_millis env AtIngress) oc routed ?s2"
            using slow True d ok k sub s0(3)
            by (auto simp: s' processRxDatagram_def Let_def classifyRadio_def s0_def)
          show "tables ?s2 = tables s" "logs (\<lambda>c. \<not> is_run c \<and> \<not> is_relay c) s ?s2"
            using s1 by (simp_all add: tables_def logs_def)
        qed
      qed
    qed
  qed
qed

lemma submit_routed:
  assumes "submit node macPtr datagram t out r = (OcRouted, routed, r')"
  shows "\<exists>m. macPtr = Some m" and "routed = out \<or> (\<exists>h p r'. rn_receive node datagram t r = (Some (h, p), r') \<and> rm_header routed = h)"
  using assms by (auto simp: submit_def Let_def split: option.splits if_splits prod.splits)

lemma routed_outcome_other:
  assumes "oc \<noteq> OcRouted"
  shows "tables (routed_outcome lib env macPtr d rssi ing n oc routed s) = tables s"
    and "hs_log (routed_outcome lib env macPtr d rssi ing n oc routed s) = hs_log s"
  using assms by (auto simp: routed_outcome_def tables_def split: outcome.splits)

lemma logs_off:
  assumes "logs (\<lambda>c. \<not> is_run c \<and> \<not> is_relay c) s t"
  shows "logs (\<lambda>c. \<not> is_run c) s t" and "logs (\<lambda>c. \<not> is_relay c) s t"
    and "logs (\<lambda>c. \<not> is_relay c \<and> (is_run c \<longrightarrow> Q c)) s t"
  using assms by (auto elim: logs_mono)

lemma new_calls_after:
  "logs (\<lambda>c. \<not> is_run c) s t \<Longrightarrow> logs P t s' \<Longrightarrow> c \<in> set (new_calls s s') \<Longrightarrow> is_run c \<Longrightarrow> c \<in> set (new_calls t s')"
  by (auto simp: logs_def new_calls_def)

definition same_kind :: "('r, 'w) hub_lib \<Rightarrow> bytes \<Rightarrow> bool" where
  "same_kind lib datagram \<longleftrightarrow>
     (\<forall>t r h p r' hd pl. rn_receive (hl_node lib) datagram t r = (Some (h, p), r') \<longrightarrow>
        hl_decode lib datagram = (BeOk, hd, pl) \<longrightarrow> hd_type h = hd_type hd \<and> hd_object_id h = hd_object_id hd)"

text \<open>What one datagram may do, as the theorem below states it; the lemmas give it for each way
  through the reception.\<close>

abbreviation may_consume :: "routed_message \<Rightarrow> bool" where
  "may_consume routed \<equiv> dongle_may_consume (hd_type (rm_header routed)) (hd_object_id (rm_header routed))"

definition sealed_only where
  "sealed_only lib env macPtr datagram s s' \<longleftrightarrow>
     (tables s' \<noteq> tables s \<or> (\<exists>c\<in>set (new_calls s s'). is_run c) \<longrightarrow>
      (\<exists>m routed plain. opened_message lib env macPtr datagram s m routed plain \<and> may_consume routed \<and>
         (mc_entries (hs_manifests s') \<noteq> mc_entries (hs_manifests s) \<or> (\<exists>c\<in>set (new_calls s s'). is_run c) \<longrightarrow>
            ev_sourceId env \<noteq> 0 \<and> 4 \<le> length plain \<and> read_u32_le plain 0 = ev_sourceId env) \<and>
         (\<forall>c\<in>set (new_calls s s'). is_run c \<longrightarrow>
            may_run lib env m (routed\<lparr>rm_payload := plain\<rparr>) (hs_manager s') c))) \<and>
    ((\<exists>m routed plain. opened_message lib env macPtr datagram s m routed plain \<and> may_consume routed) \<longrightarrow>
      \<not> (\<exists>c\<in>set (new_calls s s'). is_relay c))"

lemma sealed_only_quiet:
  assumes "tables s' = tables s" "logs (\<lambda>c. \<not> is_run c) s s'"
    and "logs (\<lambda>c. \<not> is_relay c) s s' \<or> \<not> (\<exists>m routed plain. opened_message lib env macPtr datagram s m routed plain \<and> may_consume routed)"
  shows "sealed_only lib env macPtr datagram s s'"
  using assms logs_new unfolding sealed_only_def by blast

lemma sealed_only_off:
  assumes "tables t = tables s" "logs (\<lambda>c. \<not> is_run c \<and> \<not> is_relay c) s t"
  shows "sealed_only lib env macPtr datagram s (note_count f t)"
  using assms by (intro sealed_only_quiet) (auto dest: logs_off simp: logs_def)

lemma routed_same_kind:
  assumes "same_kind lib datagram" "hl_decode lib datagram = (BeOk, h, pl)"
    and "submit (hl_node lib) macPtr datagram t no_message r = (OcRouted, routed, r')"
  shows "routed = no_message \<or> hd_type (rm_header routed) = hd_type h \<and> hd_object_id (rm_header routed) = hd_object_id h"
  using submit_routed(2) [OF assms(3)] assms(1,2) by (fastforce simp: same_kind_def no_message_def)

lemma may_consume_no_message [simp]: "\<not> may_consume no_message"
  by (simp add: dongle_may_consume_def no_message_def no_header_def)

lemma sealed_only_dispatched:
  assumes "\<not> may_consume msg" "\<And>m routed plain. opened_message lib env macPtr datagram s m routed plain \<Longrightarrow> routed = msg"
    and "tables t = tables s" "logs (\<lambda>c. \<not> is_run c \<and> \<not> is_relay c) s t"
  shows "sealed_only lib env macPtr datagram s
           (dispatchRouted lib env m msg (primeManifestIfNeeded lib env (Some m) (rm_header msg) t))"
    (is "sealed_only _ _ _ _ _ ?s'")
proof -
  have "tables ?s' = tables s"
    by (simp add: dispatch_other(1) [OF assms(1)] prime_frame assms(3))
  moreover have "logs (\<lambda>c. \<not> is_run c) s ?s'"
    using logs_trans [OF logs_off(1) [OF assms(4)] logs_off(1) [OF prime_frame(2)]]
    by (simp add: logs_def dispatch_other(2) [OF assms(1)])
  ultimately show ?thesis using assms(1,2) by (intro sealed_only_quiet) auto
qed

lemma sealed_only_unopened:
  assumes "opened lib env msg = None" "\<And>m routed plain. opened_message lib env macPtr datagram s m routed plain \<Longrightarrow> routed = msg"
    and "tables t = tables s" "logs (\<lambda>c. \<not> is_run c \<and> \<not> is_relay c) s t"
  shows "sealed_only lib env macPtr datagram s (unopened lib env h datagram msg t)"
proof -
  have "\<not> opened_message lib env macPtr datagram s m' msg plain'" for m' plain'
    using opened_iff [of lib env msg] assms(1) by (auto simp: opened_message_def)
  moreover have "logs (\<lambda>c. \<not> is_run c) t (unopened lib env h datagram msg t)"
    by (rule logs_mono [OF unopened_frame(2)]) (auto elim: is_relay.elims)
  ultimately show ?thesis
    using assms(2,3) logs_trans [OF logs_off(1) [OF assms(4)]]
    by (intro sealed_only_quiet) (auto simp: unopened_frame)
qed

lemma sealed_only_consumed:
  assumes "opened lib env msg = Some p" "may_consume msg"
    and sub: "submit (hl_node lib) macPtr datagram (ucast (ev_millis env AtIngress)) no_message (hs_router s) = (OcRouted, msg, r)"
    and m: "macPtr = Some m" and t: "tables t = tables s" "logs (\<lambda>c. \<not> is_run c \<and> \<not> is_relay c) s t"
  shows "sealed_only lib env macPtr datagram s (consume lib env m (ev_millis env AtIngress) rssi msg p t)"
    (is "sealed_only _ _ _ _ _ ?s'")
proof -
  let ?plain = "take (length (rm_payload msg) - kTagSize) p"
  let ?acts = "mc_entries (hs_manifests ?s') \<noteq> mc_entries (hs_manifests s) \<or> (\<exists>c\<in>set (new_calls s ?s'). is_run c)"
  let ?own = "ev_sourceId env \<noteq> 0 \<and> 4 \<le> length ?plain \<and> read_u32_le ?plain 0 = ev_sourceId env"
  note c = consume_facts [OF refl [of ?s']]
  have op: "opened_message lib env macPtr datagram s m msg ?plain"
    using assms(1) m sub unfolding opened_iff opened_message_def by auto
  have after: "c \<in> set (new_calls s ?s') \<Longrightarrow> is_run c \<Longrightarrow> c \<in> set (new_calls t ?s')" for c
    by (rule new_calls_after [OF logs_off(1) [OF t(2)] c(1)])
  have "mc_entries (hs_manifests t) = mc_entries (hs_manifests s)" using t by (simp add: tables_def)
  then have own: "?acts \<longrightarrow> ?own"
    using c(2) after by (intro impI) (rule c(2), auto)
  note run = logs_new [OF logs_trans [OF logs_off(3) [OF t(2)] c(1)]]
  have runs: "\<forall>c\<in>set (new_calls s ?s'). is_run c \<longrightarrow> may_run lib env m (msg\<lparr>rm_payload := ?plain\<rparr>) (hs_manager ?s') c"
    by (intro ballI impI) (drule run, simp)
  have norelay: "\<not> (\<exists>c\<in>set (new_calls s ?s'). is_relay c)"
    by (rule notI, erule bexE, drule run, simp)
  from op assms(2) own runs have "\<exists>m routed plain. opened_message lib env macPtr datagram s m routed plain \<and> may_consume routed \<and>
      (?acts \<longrightarrow> ev_sourceId env \<noteq> 0 \<and> 4 \<le> length plain \<and> read_u32_le plain 0 = ev_sourceId env) \<and>
      (\<forall>c\<in>set (new_calls s ?s'). is_run c \<longrightarrow> may_run lib env m (routed\<lparr>rm_payload := plain\<rparr>) (hs_manager ?s') c)"
    by (intro exI [of _ m] exI [of _ msg] exI [of _ ?plain] conjI)
  with norelay show ?thesis unfolding sealed_only_def by (intro conjI impI)
qed

text \<open>C18. Which datagrams may act on the dongle: the peer table, the device registry and the cached
  manifests change, and a shell line is run, only for a datagram that completes a candidate message
  which opens under key L. A manifest is cached and a line is run only if the first four octets of
  the plaintext name this dongle, and a line is run only for the sender of the message, who is a
  registered device, with a request for this dongle and boot. A candidate that opened is never
  relayed. The node is assumed to give a completed message the type and object of the datagram.\<close>

theorem radio_acts_only_on_own_sealed:
  assumes node: "same_kind lib datagram"
    and s': "s' = processRxDatagram lib env macPtr datagram rssi s"
  shows "(tables s' \<noteq> tables s \<or> (\<exists>c\<in>set (new_calls s s'). is_run c) \<longrightarrow>
      (\<exists>m routed plain. opened_message lib env macPtr datagram s m routed plain \<and>
         dongle_may_consume (hd_type (rm_header routed)) (hd_object_id (rm_header routed)) \<and>
         (mc_entries (hs_manifests s') \<noteq> mc_entries (hs_manifests s) \<or> (\<exists>c\<in>set (new_calls s s'). is_run c) \<longrightarrow>
            ev_sourceId env \<noteq> 0 \<and> 4 \<le> length plain \<and> read_u32_le plain 0 = ev_sourceId env) \<and>
         (\<forall>c\<in>set (new_calls s s'). is_run c \<longrightarrow>
            may_run lib env m (routed\<lparr>rm_payload := plain\<rparr>) (hs_manager s') c))) \<and>
    ((\<exists>m routed plain. opened_message lib env macPtr datagram s m routed plain \<and>
        dongle_may_consume (hd_type (rm_header routed)) (hd_object_id (rm_header routed))) \<longrightarrow>
      \<not> (\<exists>c\<in>set (new_calls s s'). is_relay c))"
  unfolding sealed_only_def [symmetric] using s'
proof (cases rule: process_cases)
  case (bad f t)
  then show "sealed_only lib env macPtr datagram s s'" by (simp add: sealed_only_off)
next
  case (fast h pl t)
  have "\<not> (opened_message lib env macPtr datagram s m routed plain \<and> may_consume routed)" for m routed plain
    using routed_same_kind [OF node fast(1)] fast(2) may_consume_no_message unfolding opened_message_def by fastforce
  with fast logs_off(1) [OF fast(6)] show "sealed_only lib env macPtr datagram s s'"
    by (intro sealed_only_quiet) (auto simp: tables_def logs_def)
next
  case (dropped h pl f t)
  then show "sealed_only lib env macPtr datagram s s'" by (simp add: sealed_only_off)
next
  case (routed h pl t oc msg r)
  note outcome = routed(4) [unfolded routed_outcome_def]
  show "sealed_only lib env macPtr datagram s s'"
  proof (cases "oc = OcRouted")
    case False
    note o = routed_outcome_other [OF False, of lib env macPtr datagram rssi _ "ev_millis env AtIngress" msg t]
    show ?thesis
      by (rule sealed_only_quiet) (use o routed logs_off [OF routed(6)] in \<open>auto simp: logs_def\<close>)
  next
    case True
    note sub = routed(3) [unfolded True]
    obtain m where m: "macPtr = Some m" using submit_routed(1) [OF sub] by blast
    have only: "routed' = msg" if "opened_message lib env macPtr datagram s m' routed' plain'" for m' routed' plain'
      using that sub unfolding opened_message_def by auto
    note kind = routed_same_kind [OF node routed(1) sub]
    consider (not_mine) "\<not> dongle_may_consume (hd_type h) (hd_object_id h)"
      | (sealed) "dongle_may_consume (hd_type h) (hd_object_id h)" "opened lib env msg = None"
      | (mine) p where "dongle_may_consume (hd_type h) (hd_object_id h)" "opened lib env msg = Some p" by blast
    then show ?thesis
    proof cases
      case not_mine
      then have "\<not> may_consume msg" using kind may_consume_no_message by auto
      then show ?thesis
        using outcome True not_mine m sealed_only_dispatched [OF _ only routed(5,6)] by (simp add: prime_and_dispatch_def)
    next
      case sealed
      then show ?thesis using outcome True m sealed_only_unopened [OF _ only routed(5,6)] by simp
    next
      case (mine p)
      moreover from mine have "msg \<noteq> no_message" by (auto simp: opened_iff no_message_def kTagSize_def)
      ultimately show ?thesis
        using outcome True m kind sealed_only_consumed [OF mine(2) _ sub m routed(5,6)] by simp
    qed
  qed
qed

section \<open>Relaying\<close>

text \<open>A retained fragment is a datagram received before, of the message the slot is for.\<close>

definition held :: "('r, 'w) hub_lib \<Rightarrow> bytes set \<Rightarrow> pending_relay \<Rightarrow> nat \<Rightarrow> bool" where
  "held lib received p i \<longleftrightarrow>
     pending_frame p i \<in> received \<and>
     (\<exists>h pl. hl_decode lib (pending_frame p i) = (BeOk, h, pl) \<and> hd_source_id h = pr_sourceId p \<and>
        hd_boot_id h = pr_bootId p \<and> hd_sequence h = pr_sequence p \<and> unat (hd_fragment_index h) = i \<and>
        hd_fragment_count h = pr_fragmentCount p)"

definition pending_ok :: "('r, 'w) hub_lib \<Rightarrow> bytes set \<Rightarrow> pending_relay \<Rightarrow> bool" where
  "pending_ok lib received p \<longleftrightarrow>
     (let n = kPendingRelayMaxFragments (hl_max_payload lib) in
      (pr_active p \<or> p = emptyPending lib) \<and> unat (pr_fragmentCount p) \<le> n \<and>
      length (pr_present p) = n \<and> length (pr_sizes p) = n \<and> length (pr_frames p) = n \<and>
      (\<forall>i<n. pr_present p ! i \<longrightarrow> held lib received p i))"

lemma pending_ok_empty: "pending_ok lib received (emptyPending lib)"
  by (simp add: pending_ok_def emptyPending_def Let_def)

lemma pending_ok_mono: "pending_ok lib R p \<Longrightarrow> R \<subseteq> R' \<Longrightarrow> pending_ok lib R' p"
  by (auto simp: pending_ok_def held_def Let_def)

lemma slots_update:
  "\<forall>p\<in>set ps. pending_ok lib R p \<Longrightarrow> pending_ok lib R q \<Longrightarrow> \<forall>p\<in>set (list_update ps i q). pending_ok lib R p"
  using set_update_subset_insert [of ps i q] by blast

lemma clear_slots:
  assumes ps: "\<forall>p\<in>set ps. pending_ok lib R p"
  shows "\<forall>p\<in>set (clearPendingRelay lib h ps). pending_ok lib R p"
proof (cases "find_slot (samePendingIdentity h) ps")
  case None
  with ps show ?thesis by (simp add: clearPendingRelay_def)
next
  case (Some i)
  show ?thesis unfolding clearPendingRelay_def Some option.case by (rule slots_update [OF ps pending_ok_empty])
qed

lemma expire_slots:
  "\<forall>p\<in>set ps. pending_ok lib R p \<Longrightarrow> \<forall>p\<in>set (expirePendingRelays lib n ps). pending_ok lib R p"
  by (auto simp: expirePendingRelays_def pending_ok_empty)

lemma pending_frame_store:
  assumes "i < length (pr_sizes p)" "i < length (pr_frames p)" "length d < 2 ^ 16"
  shows "pending_frame (store_fragment i d n p) j = (if j = i then d else pending_frame p j)"
proof -
  have "unat (of_nat (length d) :: u16) = length d" using assms(3) by (simp add: unat_of_nat)
  with assms(1,2) show ?thesis by (simp add: pending_frame_def store_fragment_def overwrite_def)
qed

lemma store_slot:
  assumes ok: "pending_ok lib R p" and act: "pr_active p" and dec: "hl_decode lib d = (BeOk, h, pl)"
    and id: "hd_source_id h = pr_sourceId p" "hd_boot_id h = pr_bootId p" "hd_sequence h = pr_sequence p"
      "hd_fragment_count h = pr_fragmentCount p" "hd_fragment_index h < hd_fragment_count h"
    and len: "length d < 2 ^ 16"
  shows "pending_ok lib (insert d R) (store_fragment (unat (hd_fragment_index h)) d n p)"
proof -
  let ?i = "unat (hd_fragment_index h)" and ?n = "kPendingRelayMaxFragments (hl_max_payload lib)"
  have n: "unat (pr_fragmentCount p) \<le> ?n" "length (pr_present p) = ?n" "length (pr_sizes p) = ?n"
    "length (pr_frames p) = ?n" and h: "\<And>i. i < ?n \<Longrightarrow> pr_present p ! i \<Longrightarrow> held lib R p i"
    using ok by (auto simp: pending_ok_def Let_def)
  have i: "?i < ?n" using id(4,5) n(1) by (simp add: word_less_nat_alt)
  have f: "pending_frame (store_fragment ?i d n p) j = (if j = ?i then d else pending_frame p j)" for j
    by (rule pending_frame_store) (use i n len in auto)
  have same: "pr_active (store_fragment ?i d n p)" "pr_sourceId (store_fragment ?i d n p) = pr_sourceId p"
    "pr_bootId (store_fragment ?i d n p) = pr_bootId p" "pr_sequence (store_fragment ?i d n p) = pr_sequence p"
    "pr_fragmentCount (store_fragment ?i d n p) = pr_fragmentCount p"
    "pr_present (store_fragment ?i d n p) = (pr_present p)[?i := True]"
    "length (pr_sizes (store_fragment ?i d n p)) = ?n" "length (pr_frames (store_fragment ?i d n p)) = ?n"
    using act n by (simp_all add: store_fragment_def)
  have "held lib (insert d R) (store_fragment ?i d n p) j" if "j < ?n" "(pr_present p)[?i := True] ! j" for j
  proof (cases "j = ?i")
    case True
    with dec id show ?thesis by (simp add: held_def f same)
  next
    case False
    with that have "held lib R p j" by (intro h) auto
    with False show ?thesis by (simp add: held_def f same)
  qed
  then show ?thesis using n by (simp add: pending_ok_def Let_def same)
qed

lemma claim_slot:
  assumes "unat (hd_fragment_count h) \<le> kPendingRelayMaxFragments (hl_max_payload lib)"
  shows "pending_ok lib R (claim_pending h (emptyPending lib))"
  using assms by (simp add: pending_ok_def claim_pending_def emptyPending_def Let_def)

lemma retain_slots:
  assumes ps: "\<forall>p\<in>set ps. pending_ok lib R p" and dec: "hl_decode lib d = (BeOk, h, pl)"
    and max: "hl_max_frame lib < 2 ^ 16" and ret: "retainPendingRelay lib h d n ps = (ok, ps')"
  shows "\<forall>p\<in>set ps'. pending_ok lib (insert d R) p"
proof -
  let ?R = "insert d R" and ?e = "expirePendingRelays lib n ps" and ?i = "unat (hd_fragment_index h)"
  have e: "\<forall>p\<in>set ?e. pending_ok lib ?R p" "\<forall>p\<in>set ps. pending_ok lib ?R p"
    using expire_slots [OF ps] ps pending_ok_mono [of lib R _ ?R] by auto
  show ?thesis
  proof (cases "\<not> fragmented lib h \<or> length d > hl_max_frame lib \<or> hd_fragment_count h = 0 \<or>
      unat (hd_fragment_count h) > kPendingRelayMaxFragments (hl_max_payload lib) \<or>
      hd_fragment_index h \<ge> hd_fragment_count h")
    case True
    with ret e(2) show ?thesis by (auto simp: retainPendingRelay_def split: if_splits)
  next
    case False
    then have len: "length d < 2 ^ 16" and idx: "hd_fragment_index h < hd_fragment_count h"
      and cnt: "unat (hd_fragment_count h) \<le> kPendingRelayMaxFragments (hl_max_payload lib)"
      using max by auto
    show ?thesis
    proof (cases "select_pending h ?e")
      case None
      with ret False e(1) show ?thesis by (auto simp: retainPendingRelay_def Let_def)
    next
      case (Some k)
      have k: "k < length ?e" and sel: "samePendingIdentity h (?e ! k) \<or> \<not> pr_active (?e ! k)"
        using Some find_slot_bound find_slot_holds unfolding select_pending_def by (fastforce split: option.splits)+
      have ek: "pending_ok lib R (?e ! k)" using expire_slots [OF ps] k nth_mem by blast
      consider (claim) "\<not> pr_active (?e ! k)" "ps' = ?e[k := store_fragment ?i d n (claim_pending h (?e ! k))]"
        | (clash) "ps' = ?e[k := emptyPending lib]"
        | (add) "pr_active (?e ! k)" "pr_fragmentCount (?e ! k) = hd_fragment_count h"
            "ps' = ?e[k := store_fragment ?i d n (?e ! k)]"
        using ret False Some by (fastforce simp: retainPendingRelay_def Let_def split: if_splits)
      then show ?thesis
      proof cases
        case claim
        then have em: "?e ! k = emptyPending lib" using ek by (simp add: pending_ok_def Let_def)
        have "pending_ok lib ?R (store_fragment ?i d n (claim_pending h (emptyPending lib)))"
          by (rule store_slot [OF claim_slot [OF cnt] _ dec]) (use idx len in \<open>simp_all add: claim_pending_def\<close>)
        with claim(2) em show ?thesis using slots_update [OF e(1)] by simp
      next
        case clash
        then show ?thesis using slots_update [OF e(1) pending_ok_empty] by simp
      next
        case add
        have "pending_ok lib ?R (store_fragment ?i d n (?e ! k))"
          by (rule store_slot [OF ek add(1) dec])
            (use sel add idx len in \<open>simp_all add: samePendingIdentity_def\<close>)
        with add(3) show ?thesis using slots_update [OF e(1)] by simp
      qed
    qed
  qed
qed

text \<open>What one datagram may relay: nothing, itself, or the fragments of one message in index order.\<close>

definition relays_ok :: "('r, 'w) hub_lib \<Rightarrow> bytes set \<Rightarrow> bytes \<Rightarrow> hub_call list \<Rightarrow> bool" where
  "relays_ok lib received d relays \<longleftrightarrow>
     relays = [] \<or>
     (\<exists>h pl. hl_decode lib d = (BeOk, h, pl) \<and> relays = [RelayUp h d]) \<or>
     (\<exists>h fs. relays = map (RelayUp h) fs \<and> set fs \<subseteq> received \<and>
        (\<forall>i<length fs. \<exists>hd pl. hl_decode lib (fs ! i) = (BeOk, hd, pl) \<and> hd_source_id hd = hd_source_id h \<and>
           hd_boot_id hd = hd_boot_id h \<and> hd_sequence hd = hd_sequence h \<and> unat (hd_fragment_index hd) = i \<and>
           unat (hd_fragment_count hd) = length fs))"

definition relays :: "('r, 'w) hub_state \<Rightarrow> ('r, 'w) hub_state \<Rightarrow> hub_call list" where
  "relays s s' = filter is_relay (new_calls s s')"

lemma relays_none: "logs (\<lambda>c. \<not> is_relay c) s s' \<Longrightarrow> relays s s' = []"
  by (auto simp: relays_def filter_empty_conv dest: logs_new)

lemma relays_step:
  "logs (\<lambda>c. \<not> is_relay c) s t \<Longrightarrow> logs (\<lambda>c. True) t s' \<Longrightarrow> relays s s' = relays t s'"
  by (auto simp: logs_def relays_def new_calls_def filter_empty_conv)

lemma relays_ok_none: "relays_ok lib R d []"
  by (simp add: relays_ok_def)

lemma pending_relayed:
  assumes ps: "\<forall>p\<in>set (hs_pending s). pending_ok lib R p" and r: "relayPendingUp lib h s = (ok, s')"
  shows "relays_ok lib R d (relays s s') \<and> (\<forall>p\<in>set (hs_pending s'). pending_ok lib R p) \<and> logs (\<lambda>c. True) s s'"
proof (cases "find_slot (samePendingIdentity h) (hs_pending s)")
  case None
  with r ps show ?thesis by (simp add: relayPendingUp_def relays_none logs_refl relays_ok_none)
next
  case (Some k)
  let ?p = "hs_pending s ! k" and ?n = "unat (pr_fragmentCount (hs_pending s ! k))"
  have id: "samePendingIdentity h ?p" and "?p \<in> set (hs_pending s)"
    using find_slot_SomeD [OF Some] by auto
  then have p: "pending_ok lib R ?p" using ps by blast
  let ?fs = "map (pending_frame ?p) [0..<?n]"
  let ?all = "\<forall>i<?n. pr_present ?p ! i"
  have log: "hs_log s' = hs_log s @ (if ?all then map (RelayUp h) ?fs else [])"
    and pend: "hs_pending s' = (hs_pending s)[k := emptyPending lib]"
    using r by (auto simp: relayPendingUp_def Some Let_def fold_relay_frame split: if_splits)
  have "relays_ok lib R d (map (RelayUp h) ?fs)" if all: ?all
  proof -
    have "held lib R ?p i" if "i < ?n" for i
      using p all that by (auto simp: pending_ok_def Let_def)
    then show ?thesis
      unfolding relays_ok_def using id
      by (intro disjI2 exI [of _ h] exI [of _ ?fs])
        (fastforce simp: held_def samePendingIdentity_def)
  qed
  moreover have "relays s s' = (if ?all then map (RelayUp h) ?fs else [])"
    by (auto simp: relays_def new_calls_def log filter_id_conv)
  moreover have "\<forall>p\<in>set (hs_pending s'). pending_ok lib R p"
    unfolding pend by (rule slots_update [OF ps pending_ok_empty])
  ultimately show ?thesis using relays_ok_none [of lib R d] by (auto simp: logs_def log)
qed

lemma unopened_cases:
  assumes "relayPendingUp lib (rm_header routed) s = (ok, t)"
  shows "(hs_log (unopened lib env h d routed s), hs_pending (unopened lib env h d routed s)) \<in>
    {(hs_log t, hs_pending t), (hs_log s @ [RelayUp h d], hs_pending s), (hs_log s, hs_pending s)}"
  by (simp add: unopened_def Let_def assms)

lemma routed_outcome_relays:
  assumes ps: "\<forall>p\<in>set (hs_pending s). pending_ok lib R p" and dec: "hl_decode lib d = (BeOk, h, pl)"
    and s': "s' = routed_outcome lib env macPtr d rssi \<lparr>ri_error = BeOk, ri_header = h, ri_mayConsume = may\<rparr> n oc routed s"
  shows "relays_ok lib R d (relays s s') \<and> (\<forall>p\<in>set (hs_pending s'). pending_ok lib R p) \<and> logs (\<lambda>c. True) s s'"
proof -
  have quiet: ?thesis if "logs (\<lambda>c. \<not> is_relay c) s s'"
      "hs_pending s' = hs_pending s \<or> (\<exists>x. hs_pending s' = clearPendingRelay lib x (hs_pending s))"
  proof -
    have "\<forall>p\<in>set (hs_pending s'). pending_ok lib R p"
      using that(2)
    proof
      assume "\<exists>x. hs_pending s' = clearPendingRelay lib x (hs_pending s)"
      then obtain x where x: "hs_pending s' = clearPendingRelay lib x (hs_pending s)" by blast
      show ?thesis unfolding x by (rule clear_slots [OF ps])
    qed (use ps in simp)
    with that(1) show ?thesis by (auto simp: relays_none relays_ok_none elim: logs_mono)
  qed
  show ?thesis
  proof (cases "oc = OcRouted \<and> macPtr \<noteq> None")
    case False
    then consider (other) "oc \<noteq> OcRouted" | (nobody) "oc = OcRouted" "macPtr = None" by blast
    then show ?thesis
    proof cases
      case other
      then show ?thesis
        by (intro quiet) (auto simp: s' routed_outcome_def logs_def split: outcome.splits)
    next
      case nobody
      then show ?thesis by (intro quiet) (simp_all add: s' routed_outcome_def logs_def)
    qed
  next
    case True
    then obtain m where m: "macPtr = Some m" "oc = OcRouted" by blast
    consider (direct) "\<not> may" | (opens) p where "may" "opened lib env routed = Some p"
      | (closed) "may" "opened lib env routed = None" by fastforce
    then show ?thesis
    proof cases
      case direct
      with m have e: "s' = prime_and_dispatch lib env m routed s" by (simp add: s' routed_outcome_def)
      show ?thesis
        by (rule quiet) (auto simp: e prime_dispatch_frame intro: logs_mono [OF prime_dispatch_frame(3)])
    next
      case (opens p)
      with m have e: "s' = consume lib env m n rssi routed p s" by (simp add: s' routed_outcome_def)
      have "logs (\<lambda>c. \<not> is_relay c) s s'" by (rule logs_mono [OF consume_facts(1) [OF e]]) simp
      then show ?thesis
        by (rule quiet) (auto simp: e consume_def Let_def prime_dispatch_frame register_frame)
    next
      case closed
      with m have e: "s' = unopened lib env h d routed s" by (simp add: s' routed_outcome_def)
      obtain ok t where r: "relayPendingUp lib (rm_header routed) s = (ok, t)" by fastforce
      note pr = pending_relayed [OF ps r, of d]
      consider "hs_log s' = hs_log t" "hs_pending s' = hs_pending t"
        | "hs_log s' = hs_log s @ [RelayUp h d]" "hs_pending s' = hs_pending s"
        | "hs_log s' = hs_log s" "hs_pending s' = hs_pending s"
        using unopened_cases [OF r, of env h d] by (auto simp: e)
      then show ?thesis
      proof cases
        case 1
        with pr show ?thesis by (simp add: relays_def new_calls_def logs_def)
      next
        case 2
        with ps dec show ?thesis by (auto simp: relays_def new_calls_def logs_def relays_ok_def)
      next
        case 3
        with ps show ?thesis by (simp add: relays_def new_calls_def logs_def relays_ok_none)
      qed
    qed
  qed
qed

lemma process_relays:
  assumes ps: "\<forall>p\<in>set (hs_pending s). pending_ok lib R p" and max: "hl_max_frame lib < 2 ^ 16"
    and s': "s' = processRxDatagram lib env macPtr d rssi s"
  shows "relays_ok lib (insert d R) d (relays s s') \<and> (\<forall>p\<in>set (hs_pending s'). pending_ok lib (insert d R) p)"
proof -
  let ?R = "insert d R"
  have ps': "\<forall>p\<in>set (hs_pending s). pending_ok lib ?R p" using ps pending_ok_mono [of lib R _ ?R] by blast
  show ?thesis
    using s'
  proof (cases rule: process_cases)
    case (bad f t)
    have "logs (\<lambda>c. \<not> is_relay c) s s'"
      using bad(2) logs_off(2) [OF bad(5)] by (simp add: logs_def)
    with bad ps' show ?thesis by (simp add: relays_none relays_ok_none)
  next
    case (fast h pl t)
    have "relays s s' = relays t s'"
      by (rule relays_step [OF logs_off(2) [OF fast(6)]]) (simp add: fast(3) logs_def)
    also have "\<dots> = [RelayUp h d]" by (simp add: fast(3) relays_def new_calls_def)
    finally show ?thesis using fast ps' by (auto simp: relays_ok_def)
  next
    case (dropped h pl f t)
    have "logs (\<lambda>c. \<not> is_relay c) s s'"
      using dropped(4) logs_off(2) [OF dropped(6)] by (simp add: logs_def)
    with dropped(4) retain_slots [OF ps dropped(1) max dropped(3)] show ?thesis
      by (simp add: relays_none relays_ok_none)
  next
    case (routed h pl t oc msg r)
    have "\<forall>p\<in>set (hs_pending t). pending_ok lib ?R p"
    proof (cases "dongle_may_consume (hd_type h) (hd_object_id h)")
      case True
      with routed(2) have "retainPendingRelay lib h d (ev_millis env AtIngress) (hs_pending s) = (True, hs_pending t)"
        by simp
      then show ?thesis by (rule retain_slots [OF ps routed(1) max])
    qed (use routed(2) ps' in simp)
    note o = routed_outcome_relays [OF this routed(1) routed(4)]
    have "relays s s' = relays t s'"
      by (rule relays_step [OF logs_off(2) [OF routed(6)]]) (use o in blast)
    with o show ?thesis by simp
  qed
qed

text \<open>A run: the datagrams the worker takes from the queue, with what the other tasks decide.\<close>

type_synonym rx_input = "hub_env \<times> mac option \<times> bytes \<times> 8 word"

fun rx_step :: "('r, 'w) hub_lib \<Rightarrow> rx_input \<Rightarrow> ('r, 'w) hub_state \<Rightarrow> ('r, 'w) hub_state" where
  "rx_step lib (env, macPtr, d, rssi) s = processRxDatagram lib env macPtr d rssi s"

fun step_datagram :: "rx_input \<Rightarrow> bytes" where
  "step_datagram (env, macPtr, d, rssi) = d"

lemma run_slots:
  assumes "\<forall>p\<in>set (hs_pending s0). pending_ok lib R p" and max: "hl_max_frame lib < 2 ^ 16"
  shows "\<forall>p\<in>set (hs_pending (fold (rx_step lib) steps s0)). pending_ok lib (R \<union> step_datagram ` set steps) p"
  using assms(1)
proof (induction steps arbitrary: s0 R)
  case Nil
  then show ?case by simp
next
  case (Cons e es)
  obtain env macPtr d rssi where e: "e = (env, macPtr, d, rssi)" by (cases e)
  have "\<forall>p\<in>set (hs_pending (rx_step lib e s0)). pending_ok lib (insert d R) p"
    using process_relays [OF Cons.prems max refl] by (simp add: e)
  note Cons.IH [OF this]
  then show ?case by (simp add: e)
qed

text \<open>C19. Relaying is verbatim: after any run from boot, handling a datagram relays nothing, or that
  datagram itself, or all fragments of one message in index order, each octet for octet a datagram
  that was received, with the identity (source, boot, sequence) of the message and the fragment
  count that was relayed. A frame fits 65535 octets (the radio's limit is 250).\<close>

theorem relayed_frames_are_received:
  assumes max: "hl_max_frame lib < 2 ^ 16"
    and boot: "hs_pending s0 = replicate kPendingRelaySlots (emptyPending lib)"
    and s: "s = fold (rx_step lib) steps s0"
  shows "relays_ok lib (insert d (step_datagram ` set steps)) d
    (filter is_relay (new_calls s (processRxDatagram lib env macPtr d rssi s)))"
proof -
  have "\<forall>p\<in>set (hs_pending s0). pending_ok lib {} p"
    by (simp add: boot pending_ok_empty)
  from run_slots [OF this max, of steps] have "\<forall>p\<in>set (hs_pending s). pending_ok lib (step_datagram ` set steps) p"
    by (simp add: s)
  from process_relays [OF this max refl, of d env macPtr rssi] show ?thesis by (simp add: relays_def)
qed


section \<open>A small radio for the examples\<close>

definition demo_header :: radio_header where
  "demo_header = \<lparr>hd_type = MtCommand, hd_object_id = 1, hd_source_id = 7, hd_boot_id = 8, hd_sequence = 9,
     hd_timestamp_us = 0, hd_flags = 2, hd_fragment_index = 0, hd_fragment_count = 1\<rparr>"

definition demo_fragment :: "u8 \<Rightarrow> radio_header" where
  "demo_fragment i = demo_header\<lparr>hd_flags := 3, hd_fragment_index := i, hd_fragment_count := 2\<rparr>"

text \<open>The first octet tells what a datagram is: a fragment of two, or a whole message.\<close>

definition demo_decode :: decode_fn where
  "demo_decode d = (case d of
      [] \<Rightarrow> (BeInvalidArgument, no_header, [])
    | b # bs \<Rightarrow> if b < 2 then (BeOk, demo_fragment b, bs) else (BeOk, demo_header, bs))"

definition demo_node :: "bool router_node" where
  "demo_node = \<lparr>rn_receive = (\<lambda>d t r. if d = [0, 5] then (None, False) else (Some (demo_header, replicate 20 1), True)),
     rn_receive_outcome = (\<lambda>r. if r then RoComplete else RoFragmentAccepted),
     rn_stats = (\<lambda>r. \<lparr>rv_completed = 0, rv_fragments_accepted = 0, rv_duplicate_fragments = 0, rv_dropped_decode = 0,
        rv_dropped_crc = 0, rv_dropped_reassembly = 0, rv_invalid_argument = 0\<rparr>)\<rparr>"

definition demo_aead :: aead_lib where
  "demo_aead = \<lparr>ae_flag_encrypted = 2, ae_flag_fragmented = 1, ae_is_gcm = (\<lambda>f. True),
     ae_seal = (\<lambda>k h p. None), ae_open = (\<lambda>k h p. Some [5, 0, 0, 0])\<rparr>"

definition demo_radio :: "unit radio_api" where
  "demo_radio = \<lparr>ra_nvs_init = (\<lambda>w. (True, w)), ra_create_netif = (\<lambda>w. (True, w)), ra_wifi_init = (\<lambda>w. (True, w)),
     ra_wifi_start = (\<lambda>w. (True, w)), ra_set_channel = (\<lambda>c w. w), ra_now_init = (\<lambda>w. (True, w)),
     ra_now_deinit = (\<lambda>w. w), ra_start_tx = (\<lambda>w. (True, w)), ra_stop_tx = (\<lambda>w. w), ra_destroy_tx = (\<lambda>w. w),
     ra_is_peer = (\<lambda>m w. True), ra_add_peer = (\<lambda>m c e w. (True, w)), ra_set_rate = (\<lambda>m w. w),
     ra_del_peer = (\<lambda>m w. (True, w))\<rparr>"

definition demo_lib :: "(bool, unit) hub_lib" where
  "demo_lib = \<lparr>hl_decode = demo_decode, hl_node = demo_node, hl_aead = demo_aead, hl_max_frame = 2,
     hl_max_payload = 1000, hl_radio = demo_radio,
     hl_reader = \<lparr>ro_header = (\<lambda>b. None), ro_raw_source_info = (\<lambda>b. None), ro_raw_records = (\<lambda>b. None)\<rparr>,
     hl_manifest_request = (\<lambda>a b c n. None), hl_command_request = (\<lambda>b. (MePayloadTooShort, undefined)),
     hl_command_result = (\<lambda>b. (MePayloadTooShort, undefined)), hl_encode_result = (\<lambda>r n. None),
     hl_samples = (\<lambda>b. (0, [], MeOk))\<rparr>"

definition demo_env :: "bool \<Rightarrow> hub_env" where
  "demo_env key = \<lparr>ev_lcd = False, ev_io = False, ev_protocolled = (\<lambda>r. True), ev_console = (\<lambda>r. False),
     ev_millis = (\<lambda>r. 100), ev_sourceId = 5, ev_bootId = 6,
     ev_key = \<lparr>g_keyL = replicate 16 1, g_hasKeyL = key\<rparr>, ev_runLine = (\<lambda>l a u. [])\<rparr>"

definition demo_counters :: rx_counters where
  "demo_counters = \<lparr>ct_rxDatagram = 0, ct_fragmentAccepted = 0, ct_routedTelemetry = 0, ct_routedLog = 0,
     ct_routedCommand = 0, ct_routedControl = 0, ct_routedTerminal = 0, ct_droppedRx = 0, ct_droppedDecode = 0,
     ct_droppedCrc = 0, ct_droppedReassembly = 0, ct_droppedQueueFull = 0, ct_droppedAuth = 0,
     ct_syncFallbackDrop = 0, ct_rxTaken = 0, ct_decodeTaken = 0, ct_crcTaken = 0, ct_reassemblyTaken = 0,
     ct_queueFullTaken = 0, ct_authTaken = 0\<rparr>"

definition demo_boot :: "(bool, unit) hub_state" where
  "demo_boot = \<lparr>hs_pending = replicate kPendingRelaySlots (emptyPending demo_lib), hs_router = False,
     hs_counters = demo_counters, hs_asyncRx = True, hs_rxQueue = None, hs_logQueue = None,
     hs_telemetryQueue = None, hs_terminalQueue = None, hs_peers = peers_init, hs_manager = None, hs_radio = (),
     hs_manifests = cache_reset\<lparr>mc_entries := []\<rparr>, hs_log = []\<rparr>"

lemma demo_same_kind: "same_kind demo_lib [2, 5]"
  by (simp add: same_kind_def demo_lib_def demo_node_def demo_decode_def)

lemma demo_opens:
  "opened_message demo_lib (demo_env True) (Some m) [2, 5] demo_boot m
     \<lparr>rm_mac = m, rm_header = demo_header, rm_payload = replicate 20 1, rm_arrivalMs = 100\<rparr> [5, 0, 0, 0]"
  by (auto simp: opened_message_def submit_def demo_lib_def demo_node_def demo_env_def demo_aead_def kTagSize_def
      demo_header_def demo_boot_def)

lemma demo_relayed:
  "filter is_relay (new_calls
     (fold (rx_step demo_lib) [(demo_env False, Some (1, 2, 3, 4, 5, 6), [0, 5], 0)] demo_boot)
     (processRxDatagram demo_lib (demo_env False) (Some (1, 2, 3, 4, 5, 6)) [1, 6] 0
        (fold (rx_step demo_lib) [(demo_env False, Some (1, 2, 3, 4, 5, 6), [0, 5], 0)] demo_boot))) =
   [RelayUp demo_header [0, 5], RelayUp demo_header [1, 6]]"
  by code_simp

theorem radio_acts_only_on_own_sealed_witness:
  "let m = (1, 2, 3, 4, 5, 6);
       s' = processRxDatagram demo_lib (demo_env True) (Some m) [2, 5] 0 demo_boot
   in opened_message demo_lib (demo_env True) (Some m) [2, 5] demo_boot m
        \<lparr>rm_mac = m, rm_header = demo_header, rm_payload = replicate 20 1, rm_arrivalMs = 100\<rparr> [5, 0, 0, 0] \<and>
      \<not> (\<exists>c\<in>set (new_calls demo_boot s'). is_relay c)"
proof -
  let ?m = "(1, 2, 3, 4, 5, 6) :: mac"
  let ?msg = "\<lparr>rm_mac = ?m, rm_header = demo_header, rm_payload = replicate 20 1, rm_arrivalMs = 100\<rparr>"
  have op: "opened_message demo_lib (demo_env True) (Some ?m) [2, 5] demo_boot ?m ?msg [5, 0, 0, 0]"
    by (rule demo_opens)
  have may: "dongle_may_consume (hd_type (rm_header ?msg)) (hd_object_id (rm_header ?msg))"
    by (simp add: demo_header_def dongle_may_consume_def kCommandRequestObjectId_def)
  note t = radio_acts_only_on_own_sealed [OF demo_same_kind refl, of "demo_env True" "Some ?m" 0 demo_boot, THEN conjunct2]
  have "\<not> (\<exists>c\<in>set (new_calls demo_boot
      (processRxDatagram demo_lib (demo_env True) (Some ?m) [2, 5] 0 demo_boot)). is_relay c)"
    by (rule t [rule_format]) (use op may in blast)
  with op show ?thesis by (simp add: Let_def)
qed

theorem relayed_frames_are_received_witness:
  "relays_ok demo_lib {[0, 5], [1, 6]} [1, 6] [RelayUp demo_header [0, 5], RelayUp demo_header [1, 6]]"
proof -
  let ?m = "Some ((1, 2, 3, 4, 5, 6) :: mac)"
  let ?steps = "[(demo_env False, ?m, [0, 5], 0)] :: rx_input list"
  have "hl_max_frame demo_lib < 2 ^ 16" by (simp add: demo_lib_def)
  moreover have "hs_pending demo_boot = replicate kPendingRelaySlots (emptyPending demo_lib)"
    by (simp add: demo_boot_def)
  ultimately have "relays_ok demo_lib (insert [1, 6] (step_datagram ` set ?steps)) [1, 6]
      (filter is_relay (new_calls (fold (rx_step demo_lib) ?steps demo_boot)
        (processRxDatagram demo_lib (demo_env False) ?m [1, 6] 0 (fold (rx_step demo_lib) ?steps demo_boot))))"
    by (rule relayed_frames_are_received) (rule refl)
  then show ?thesis unfolding demo_relayed by (simp add: insert_commute)
qed

section \<open>Probes\<close>

definition known_macs :: "peer_table \<Rightarrow> mac list" where
  "known_macs t = map ps_mac (enumeratePeers False kPeerIdentityCapacity t)"

text \<open>What a probe needs of its surroundings, \<open>sent\<close> being the addresses probed so far: a sequence
  number, a frame that can be encoded, and a sender that is called with the address.\<close>

definition can_probe :: "('c \<Rightarrow> mac list) \<Rightarrow> 'c probe_env \<Rightarrow> bool" where
  "can_probe sent pe \<longleftrightarrow>
     pe_hasManager pe \<and>
     (\<forall>c. \<exists>q c'. pe_reserve pe c = (Some q, c') \<and> q \<noteq> 0 \<and> sent c' = sent c) \<and>
     (\<forall>msg q i n cap sl. pe_encode pe msg q i n cap sl \<noteq> None) \<and>
     (\<forall>m f t c. sent (snd (pe_sendWithStatus pe m f t c)) = sent c @ [m])"

lemma known_macs_note: "known_macs (notePeerLinkResult m ok t) = known_macs t"
proof -
  have k: "known_macs t = take kPeerIdentityCapacity (map pi_mac (filter pi_used t))" for t
    by (simp add: known_macs_def enumeratePeers_def kPeerIdentityCapacity_def collect_take snapshot_of_def take_map comp_def)
  have "map pi_mac (filter pi_used (t[i := (t ! i)\<lparr>pi_linkOk := ok\<rparr>])) = map pi_mac (filter pi_used t)" for i
  proof (induction t arbitrary: i)
    case (Cons p t)
    then show ?case by (cases i) simp_all
  qed simp
  then show ?thesis by (auto simp: k notePeerLinkResult_def split: option.splits)
qed

definition turn :: "nat \<Rightarrow> nat \<Rightarrow> nat" where
  "turn cursor n = (if cursor \<ge> n then 0 else cursor)"

lemma heartbeat_step:
  assumes pe: "can_probe sent pe" and n: "known_macs t \<noteq> []"
    and st: "heartbeatTick pe (cursor, t, ctx) = (cursor', t', ctx')"
  defines "i \<equiv> turn cursor (length (known_macs t))"
  shows "cursor' = (i + 1) mod length (known_macs t)" and "known_macs t' = known_macs t"
    and "sent ctx' = sent ctx @ [known_macs t ! i]"
proof -
  let ?peers = "enumeratePeers False kPeerIdentityCapacity t"
  have ne: "?peers \<noteq> []" and len: "length (known_macs t) = length ?peers"
    using n by (auto simp: known_macs_def)
  then have i: "i < length ?peers" by (auto simp: i_def turn_def)
  have tgt: "next_target cursor t = Some (?peers ! i, (i + 1) mod length ?peers)"
    using ne by (simp add: next_target_def Let_def i_def turn_def len)
  obtain q c where q: "pe_reserve pe ctx = (Some q, c)" "q \<noteq> 0" "sent c = sent ctx"
    using pe unfolding can_probe_def by metis
  obtain frame where f: "encodeSingleFrame (pe_encode pe) MtControl 0x0009 q (ucast (pe_millis pe) * 1000)
      (NullView 0) (pe_min_frame pe + kAeadTagSize) (Some (probe_seal pe)) = Some frame"
  proof -
    have "\<forall>msg q i n cap sl. pe_encode pe msg q i n cap sl \<noteq> None" using pe by (simp add: can_probe_def)
    then have "encodeSingleFrame (pe_encode pe) MtControl 0x0009 q (ucast (pe_millis pe) * 1000)
        (NullView 0) (pe_min_frame pe + kAeadTagSize) (Some (probe_seal pe)) \<noteq> None"
      using q(2) by (simp add: encodeSingleFrame_def bad_view_def)
    then show thesis using that by blast
  qed
  obtain g d c2 where s: "pe_sendWithStatus pe (ps_mac (?peers ! i)) frame HEARTBEAT_SEND_TIMEOUT_MS c = ((g, d), c2)"
    by (metis prod.collapse)
  have log: "sent c2 = sent c @ [ps_mac (?peers ! i)]"
    using pe s unfolding can_probe_def by (metis snd_conv)
  have man: "pe_hasManager pe" using pe by (simp add: can_probe_def)
  have r: "(cursor', t', ctx') =
      ((i + 1) mod length ?peers, notePeerLinkResult (Some (ps_mac (?peers ! i))) (g \<and> d) t, c2)"
    using st unfolding heartbeatTick_def by (simp only: prod.case man if_False tgt option.case q(1) f s not_True_eq_False)
  then show "cursor' = (i + 1) mod length (known_macs t)" "known_macs t' = known_macs t"
    by (simp_all add: len known_macs_note)
  show "sent ctx' = sent ctx @ [known_macs t ! i]"
    using r log q(3) i by (simp add: known_macs_def)
qed

lemma rotate_nth_append:
  "c < length xs \<Longrightarrow> rotate c xs = map (\<lambda>k. xs ! ((c + k) mod length xs)) [0..<length xs]"
  by (rule nth_equalityI) (simp_all add: nth_rotate)


definition demo_probe :: "mac list probe_env" where
  "demo_probe = \<lparr>pe_encode = (\<lambda>msg q i n cap sl. Some [1]), pe_min_frame = 40,
     pe_aead = \<lparr>ae_flag_encrypted = 2, ae_flag_fragmented = 1, ae_is_gcm = (\<lambda>f. True),
        ae_seal = (\<lambda>k h p. None), ae_open = (\<lambda>k h p. None)\<rparr>,
     pe_key = \<lparr>g_keyL = [], g_hasKeyL = False\<rparr>, pe_hasManager = True,
     pe_decode = (\<lambda>d. (BeOk, no_header, [])), pe_reserve = (\<lambda>c. (Some 1, c)),
     pe_sendWithStatus = (\<lambda>m f t c. ((True, False), c @ [m])), pe_send = (\<lambda>m f p c. (True, c)), pe_millis = 0\<rparr>"

definition demo_peers :: peer_table where
  "demo_peers = [freePeer\<lparr>pi_used := True, pi_mac := (1, 1, 1, 1, 1, 1), pi_linkOk := True\<rparr>, freePeer,
     freePeer\<lparr>pi_used := True, pi_mac := (2, 2, 2, 2, 2, 2)\<rparr>]"


end
