(* ===== verification/Wire_Tx.thy ===== *)
theory Wire_Tx
  imports Serial_Session
begin

text \<open>
  The transmission half of lib/SerialMux: one bounded queue per priority class, the one frame that
  is on the wire with the cursor of the octets the port has accepted, and the two ways octets leave,
  the bounded immediate write of the console texts and the pump of the pending frame.

  COBS and the port are arguments: \<open>wl_cobs\<close> encodes into a buffer of a capacity, \<open>wl_write\<close> is
  \<open>ByteIO::write\<close>, which answers how many octets it took. The functions act on any extension of
  \<open>mux_wire\<close>, so that the whole multiplexer can use them on its own state.
\<close>

section \<open>State\<close>

text \<open>The classes in the order in which they are drained.\<close>

instantiation priority_class :: linorder
begin

definition less_eq_priority_class :: "priority_class \<Rightarrow> priority_class \<Rightarrow> bool" where
  "less_eq_priority_class a b \<longleftrightarrow> priority_index a \<le> priority_index b"

definition less_priority_class :: "priority_class \<Rightarrow> priority_class \<Rightarrow> bool" where
  "less_priority_class a b \<longleftrightarrow> priority_index a < priority_index b"

instance
proof
  fix a b c :: priority_class
  show "a < b \<longleftrightarrow> a \<le> b \<and> \<not> b \<le> a" by (auto simp: less_eq_priority_class_def less_priority_class_def)
  show "a \<le> a" by (simp add: less_eq_priority_class_def)
  show "a \<le> b \<Longrightarrow> b \<le> c \<Longrightarrow> a \<le> c" by (simp add: less_eq_priority_class_def)
  show "a \<le> b \<Longrightarrow> b \<le> a \<Longrightarrow> a = b"
    by (cases a; cases b) (simp_all add: less_eq_priority_class_def priority_index_def)
  show "a \<le> b \<or> b \<le> a" by (auto simp: less_eq_priority_class_def)
qed

end

definition kOutboundPayloadCap :: nat where "kOutboundPayloadCap = 2048"

record 'p wire_lib =
  wl_overhead :: nat
  wl_cobs :: "bytes \<Rightarrow> nat \<Rightarrow> bytes option"
  wl_write :: "bytes \<Rightarrow> 'p \<Rightarrow> nat \<times> 'p"

text \<open>\<open>wl_overhead\<close> is \<open>kV1HeaderSize + kV1CrcSize\<close> of the library.\<close>

definition kMaxFrameBytes :: "('p, 'z) wire_lib_scheme \<Rightarrow> nat" where
  "kMaxFrameBytes lib = wl_overhead lib + kOutboundPayloadCap"

definition kMaxCobsBytes :: "('p, 'z) wire_lib_scheme \<Rightarrow> nat" where
  "kMaxCobsBytes lib = kMaxFrameBytes lib + kMaxFrameBytes lib div 254 + 4"

fun kQueueDepth :: "priority_class \<Rightarrow> nat" where
  "kQueueDepth KSession = 4"
| "kQueueDepth KTerminal = 3"
| "kQueueDepth KLogStatus = 6"
| "kQueueDepth KTelemetry = 16"

fun kClassFrameCap :: "('p, 'z) wire_lib_scheme \<Rightarrow> priority_class \<Rightarrow> nat" where
  "kClassFrameCap lib KTelemetry = 768"
| "kClassFrameCap lib cls = kMaxFrameBytes lib"

record pending_wire =
  pw_bytes :: bytes
  pw_offset :: nat
  pw_stalledCounted :: bool

definition noPendingWire :: pending_wire where
  "noPendingWire = \<lparr>pw_bytes = [], pw_offset = 0, pw_stalledCounted = False\<rparr>"

text \<open>\<open>mw_queues\<close> gives the queue of a class, \<open>None\<close> when it could not be created.\<close>

record 'p mux_wire =
  mw_io :: bool
  mw_port :: 'p
  mw_pending :: pending_wire
  mw_queues :: "priority_class \<Rightarrow> bytes rtos_queue option"
  mw_framesTx :: u64
  mw_framesTxStalled :: u64
  mw_droppedByClass :: "priority_class \<Rightarrow> u64"

section \<open>The immediate path\<close>

text \<open>At most four calls of \<open>write\<close>; the octets that are left.\<close>

fun write_loop :: "(bytes \<Rightarrow> 'p \<Rightarrow> nat \<times> 'p) \<Rightarrow> nat \<Rightarrow> bytes \<Rightarrow> 'p \<Rightarrow> bytes \<times> 'p" where
  "write_loop write 0 rest p = (rest, p)"
| "write_loop write (Suc n) rest p =
     (if rest = [] then (rest, p)
      else case write rest p of
        (sent, p') \<Rightarrow>
          if sent = 0 then (rest, p')
          else write_loop write n (drop (if sent < length rest then sent else length rest) rest) p')"

definition kMaxImmediateWriteCalls :: nat where "kMaxImmediateWriteCalls = 4"

definition writeAll :: "('p, 'y) wire_lib_scheme \<Rightarrow> bytes \<Rightarrow> ('p, 'z) mux_wire_scheme \<Rightarrow> bool \<times> ('p, 'z) mux_wire_scheme" where
  "writeAll lib octets st =
     (if \<not> mw_io st then (False, st)
      else case write_loop (wl_write lib) kMaxImmediateWriteCalls octets (mw_port st) of
        (rest, p) \<Rightarrow> (rest = [], st\<lparr>mw_port := p\<rparr>))"

definition writeFrameCobs :: "('p, 'y) wire_lib_scheme \<Rightarrow> bytes \<Rightarrow> ('p, 'z) mux_wire_scheme \<Rightarrow> ('p, 'z) mux_wire_scheme" where
  "writeFrameCobs lib frame st =
     (case wl_cobs lib frame (kMaxCobsBytes lib) of
        None \<Rightarrow> st
      | Some encoded \<Rightarrow>
          (case writeAll lib (0 # encoded @ [0]) st of
             (ok, st) \<Rightarrow>
               if ok then st\<lparr>mw_framesTx := mw_framesTx st + 1\<rparr>
               else st\<lparr>mw_framesTxStalled := mw_framesTxStalled st + 1\<rparr>))"

definition writeConsoleText :: "('p, 'y) wire_lib_scheme \<Rightarrow> string \<Rightarrow> ('p, 'z) mux_wire_scheme \<Rightarrow> ('p, 'z) mux_wire_scheme" where
  "writeConsoleText lib txt st = snd (writeAll lib (cstr txt) st)"

section \<open>The pending frame\<close>

definition hasPendingWireFrame :: "('p, 'z) mux_wire_scheme \<Rightarrow> bool" where
  "hasPendingWireFrame st \<longleftrightarrow> pw_offset (mw_pending st) < length (pw_bytes (mw_pending st))"

definition resetPendingWireFrame :: "('p, 'z) mux_wire_scheme \<Rightarrow> ('p, 'z) mux_wire_scheme" where
  "resetPendingWireFrame st = st\<lparr>mw_pending := noPendingWire\<rparr>"

definition stageFrameCobs ::
    "('p, 'y) wire_lib_scheme \<Rightarrow> bytes \<Rightarrow> ('p, 'z) mux_wire_scheme \<Rightarrow> bool \<times> ('p, 'z) mux_wire_scheme" where
  "stageFrameCobs lib frame st =
     (if hasPendingWireFrame st \<or> frame = [] then (False, st)
      else case wl_cobs lib frame (kMaxCobsBytes lib) of
        None \<Rightarrow> (False, resetPendingWireFrame st)
      | Some encoded \<Rightarrow>
          (True, st\<lparr>mw_pending := \<lparr>pw_bytes = 0 # encoded @ [0], pw_offset = 0, pw_stalledCounted = False\<rparr>\<rparr>))"

datatype pump_result = WpIdle | WpPending | WpCompleted

definition count_stall :: "('p, 'z) mux_wire_scheme \<Rightarrow> ('p, 'z) mux_wire_scheme" where
  "count_stall st =
     (if pw_stalledCounted (mw_pending st) then st
      else st\<lparr>mw_framesTxStalled := mw_framesTxStalled st + 1,
              mw_pending := (mw_pending st)\<lparr>pw_stalledCounted := True\<rparr>\<rparr>)"

definition pumpPendingWireFrame ::
    "('p, 'y) wire_lib_scheme \<Rightarrow> ('p, 'z) mux_wire_scheme \<Rightarrow> pump_result \<times> ('p, 'z) mux_wire_scheme" where
  "pumpPendingWireFrame lib st =
     (if \<not> hasPendingWireFrame st then (WpIdle, st)
      else if \<not> mw_io st then (WpPending, count_stall st)
      else
        let pend = mw_pending st;
            remaining = length (pw_bytes pend) - pw_offset pend;
            (sent, p) = wl_write lib (drop (pw_offset pend) (pw_bytes pend)) (mw_port st);
            st = st\<lparr>mw_port := p\<rparr>
        in if sent = 0 then (WpPending, count_stall st)
           else
             let st = st\<lparr>mw_pending := pend\<lparr>pw_offset := pw_offset pend + (if sent < remaining then sent else remaining)\<rparr>\<rparr>
             in if hasPendingWireFrame st then (WpPending, st)
                else (WpCompleted, resetPendingWireFrame (st\<lparr>mw_framesTx := mw_framesTx st + 1\<rparr>)))"

section \<open>The queues\<close>

definition set_queue :: "priority_class \<Rightarrow> bytes rtos_queue \<Rightarrow> ('p, 'z) mux_wire_scheme \<Rightarrow> ('p, 'z) mux_wire_scheme" where
  "set_queue cls q st = st\<lparr>mw_queues := (mw_queues st)(cls := Some q)\<rparr>"

definition count_dropped :: "priority_class \<Rightarrow> ('p, 'z) mux_wire_scheme \<Rightarrow> ('p, 'z) mux_wire_scheme" where
  "count_dropped cls st = st\<lparr>mw_droppedByClass := (mw_droppedByClass st)(cls := mw_droppedByClass st cls + 1)\<rparr>"

definition resetQueues :: "('p, 'z) mux_wire_scheme \<Rightarrow> ('p, 'z) mux_wire_scheme" where
  "resetQueues st =
     (resetPendingWireFrame st)\<lparr>mw_queues := \<lambda>cls. map_option (\<lambda>q. (fst q, [])) (mw_queues st cls)\<rparr>"

definition enqueueFrameBytes ::
    "('p, 'y) wire_lib_scheme \<Rightarrow> priority_class \<Rightarrow> bytes \<Rightarrow> ('p, 'z) mux_wire_scheme \<Rightarrow> bool \<times> ('p, 'z) mux_wire_scheme" where
  "enqueueFrameBytes lib cls frame st =
     (if length frame > kClassFrameCap lib cls then (False, st)
      else case mw_queues st cls of
        None \<Rightarrow> (False, st)
      | Some q \<Rightarrow>
          (case queue_send frame q of
             (ok, q1) \<Rightarrow>
               if ok then (True, set_queue cls q1 st)
               else if cls = KTelemetry \<or> cls = KLogStatus then
                 (let q2 = (case queue_receive q of None \<Rightarrow> q | Some (discard, q') \<Rightarrow> q');
                      (ok2, q3) = queue_send frame q2
                  in if ok2 then (True, count_dropped cls (set_queue cls q3 st))
                     else (False, count_dropped cls (set_queue cls q2 st)))
               else (False, count_dropped cls st)))"

text \<open>The result tells whether the tick may go on to the next class.\<close>

fun drain_queue ::
    "('p, 'y) wire_lib_scheme \<Rightarrow> priority_class \<Rightarrow> nat \<Rightarrow> ('p, 'z) mux_wire_scheme \<Rightarrow> bool \<times> ('p, 'z) mux_wire_scheme" where
  "drain_queue lib cls 0 st = (True, st)"
| "drain_queue lib cls (Suc n) st =
     (case mw_queues st cls of
        None \<Rightarrow> (True, st)
      | Some q \<Rightarrow>
          (case queue_receive q of
             None \<Rightarrow> (True, st)
           | Some (item, q') \<Rightarrow>
               (case stageFrameCobs lib item (set_queue cls q' st) of
                  (staged, st1) \<Rightarrow>
                    if \<not> staged then (False, st1\<lparr>mw_framesTxStalled := mw_framesTxStalled st1 + 1\<rparr>)
                    else (case pumpPendingWireFrame lib st1 of
                            (res, st2) \<Rightarrow> if res \<noteq> WpCompleted then (False, st2) else drain_queue lib cls n st2))))"

definition drainQueueClass ::
    "('p, 'y) wire_lib_scheme \<Rightarrow> priority_class \<Rightarrow> nat \<Rightarrow> ('p, 'z) mux_wire_scheme \<Rightarrow> bool \<times> ('p, 'z) mux_wire_scheme" where
  "drainQueueClass lib cls maxItems st =
     (case mw_queues st cls of None \<Rightarrow> (True, st) | Some q \<Rightarrow> drain_queue lib cls maxItems st)"

definition drainTx :: "('p, 'y) wire_lib_scheme \<Rightarrow> ('p, 'z) mux_wire_scheme \<Rightarrow> ('p, 'z) mux_wire_scheme" where
  "drainTx lib st =
     (let (blocked, st) = (if hasPendingWireFrame st
                           then (case pumpPendingWireFrame lib st of (res, st) \<Rightarrow> (res \<noteq> WpCompleted, st))
                           else (False, st))
      in if blocked then st else
      let (ok, st) = drainQueueClass lib KSession 8 st in if \<not> ok then st else
      let (ok, st) = drainQueueClass lib KTerminal 4 st in if \<not> ok then st else
      let (ok, st) = drainQueueClass lib KLogStatus 4 st in if \<not> ok then st else
      snd (drainQueueClass lib KTelemetry 4 st))"

end
