(* ===== verification/Shell_Output.thy ===== *)
theory Shell_Output
  imports Dongle_Prelude
begin

text \<open>
  The text helpers of include/string_compat.h and the formatting of console output of
  lib/ShellOutput. A \<open>std::string\<close> is a list of characters, a C string one without NUL;
  \<open>c_str\<close> is the C string another function sees. The colours of the TinyShell package are
  parameters, and so is the port: \<open>bi_write\<close> is \<open>ByteIO::write\<close> of a buffer, \<open>bi_put\<close> of one octet.
\<close>

section \<open>Text helpers\<close>

abbreviation char_code :: "char \<Rightarrow> nat" where "char_code c \<equiv> of_char c"

definition CR :: char where "CR = CHR 0x0D"
definition LF :: char where "LF = CHR 0x0A"
definition NUL :: char where "NUL = CHR 0x00"

definition c_str :: "string \<Rightarrow> string" where
  "c_str s = takeWhile (\<lambda>c. c \<noteq> NUL) s"

definition isspace :: "char \<Rightarrow> bool" where
  "isspace c \<longleftrightarrow> char_code c = 32 \<or> (9 \<le> char_code c \<and> char_code c \<le> 13)"

definition tolower :: "char \<Rightarrow> char" where
  "tolower c = (if 65 \<le> char_code c \<and> char_code c \<le> 90 then char_of (char_code c + 32) else c)"

definition trim :: "string \<Rightarrow> string" where
  "trim s = rev (dropWhile isspace (rev (dropWhile isspace s)))"

definition startsWith :: "string \<Rightarrow> string \<Rightarrow> bool" where
  "startsWith s pre \<longleftrightarrow> length s \<ge> length pre \<and> take (length pre) s = pre"

definition endsWith :: "string \<Rightarrow> string \<Rightarrow> bool" where
  "endsWith s suf \<longleftrightarrow> length s \<ge> length suf \<and> drop (length s - length suf) s = suf"

fun find_char :: "char \<Rightarrow> string \<Rightarrow> nat option" where
  "find_char ch [] = None"
| "find_char ch (c # cs) = (if c = ch then Some 0 else map_option Suc (find_char ch cs))"

definition indexOf :: "string \<Rightarrow> char \<Rightarrow> int \<Rightarrow> int" where
  "indexOf s ch fromIndex =
     (let from = nat (if fromIndex < 0 then 0 else fromIndex) in
      if from > length s then -1
      else case find_char ch (drop from s) of None \<Rightarrow> -1 | Some pos \<Rightarrow> int (from + pos))"

definition substring :: "string \<Rightarrow> nat \<Rightarrow> nat \<Rightarrow> string" where
  "substring s from to = (if to \<le> from \<or> from \<ge> length s then [] else take (to - from) (drop from s))"

definition toLowerCase :: "string \<Rightarrow> string" where
  "toLowerCase s = map tolower s"

fun equalsIgnoreCase :: "string \<Rightarrow> string \<Rightarrow> bool" where
  "equalsIgnoreCase [] b = (b = [])"
| "equalsIgnoreCase (x # a) b =
     (case b of [] \<Rightarrow> False | y # b' \<Rightarrow> if tolower x \<noteq> tolower y then False else equalsIgnoreCase a b')"

text \<open>The search goes on behind what was put in.\<close>

function replaceAll :: "string \<Rightarrow> string \<Rightarrow> string \<Rightarrow> string" where
  "replaceAll s from to =
     (if from = [] then s
      else case s of
        [] \<Rightarrow> []
      | c # cs \<Rightarrow>
          if startsWith s from then to @ replaceAll (drop (length from) s) from to
          else c # replaceAll cs from to)"
  by pat_completeness auto
termination
  by (relation "measure (\<lambda>(s, from, to). length s)") auto

declare replaceAll.simps [simp del]

section \<open>Lines\<close>

definition kCommandPrefix :: string where "kCommandPrefix = ''$ ''"
definition kOutputPrefix :: string where "kOutputPrefix = ''! ''"

definition isEspNowTypeToken :: "string \<Rightarrow> bool" where
  "isEspNowTypeToken token \<longleftrightarrow>
     equalsIgnoreCase token ''info'' \<or> equalsIgnoreCase token ''cmd'' \<or> equalsIgnoreCase token ''cmdo'' \<or>
     equalsIgnoreCase token ''telemetry'' \<or> equalsIgnoreCase token ''tele'' \<or>
     equalsIgnoreCase token ''error'' \<or> equalsIgnoreCase token ''erro'' \<or>
     equalsIgnoreCase token ''debug'' \<or> equalsIgnoreCase token ''debg'' \<or>
     equalsIgnoreCase token ''pakg'' \<or> equalsIgnoreCase token ''none''"

definition normalizeTag :: "string option \<Rightarrow> string" where
  "normalizeTag tag =
     (let out = trim (case tag of Some t \<Rightarrow> t | None \<Rightarrow> ''shell'');
          out = (if out = [] then ''shell'' else out);
          out = (if startsWith out ''['' then tl out else out);
          out = (if endsWith out '']'' then butlast out else out);
          out = trim out
      in if out = [] then ''shell'' else out)"

definition isEspNowStructuredLine :: "string \<Rightarrow> bool" where
  "isEspNowStructuredLine line =
     (let lower = trim line in
      if \<not> startsWith lower ''['' then False
      else
        let firstClose = indexOf lower (CHR '']'') 0 in
        if firstClose \<le> 1 then False
        else if \<not> isEspNowTypeToken (take (nat firstClose - 1) (drop 1 lower)) then False
        else firstClose + 1 < int (length lower) \<and> lower ! nat (firstClose + 1) = CHR ''['')"

function strip_loop :: "string \<Rightarrow> string" where
  "strip_loop out =
     (if \<not> startsWith out ''['' then out
      else
        let close = indexOf out (CHR '']'') 0 in
        if close \<le> 0 then out else strip_loop (trim (drop (nat close + 1) out)))"
  by pat_completeness auto

lemma length_trim: "length (trim s) \<le> length s"
  using order_trans [OF length_dropWhile_le, of "rev (dropWhile isspace s)" _ isspace] length_dropWhile_le [of isspace s]
  by (simp add: trim_def)

termination strip_loop
proof (relation "measure length")
  show "wf (measure length)" by simp
next
  fix out :: string and close
  assume "\<not> \<not> startsWith out ''[''"
  then have "out \<noteq> []" by (auto simp: startsWith_def)
  moreover have "length (trim (drop (nat close + 1) out)) \<le> length out - (nat close + 1)"
    using length_trim [of "drop (nat close + 1) out"] by simp
  ultimately show "(trim (drop (nat close + 1) out), out) \<in> measure length"
    by (cases out) auto
qed

declare strip_loop.simps [simp del]

definition stripLeadingBracketTags :: "string \<Rightarrow> string" where
  "stripLeadingBracketTags input =
     (let out = trim input in if isEspNowStructuredLine out then out else strip_loop out)"

definition hasVisualPrefix :: "string option \<Rightarrow> bool" where
  "hasVisualPrefix line =
     (case line of None \<Rightarrow> False
      | Some line \<Rightarrow>
          if startsWith line kOutputPrefix \<or> startsWith line kCommandPrefix \<or> isEspNowStructuredLine line
          then True else False)"

definition normalizeNewlines :: "string option \<Rightarrow> string" where
  "normalizeNewlines txt = (case txt of None \<Rightarrow> [] | Some t \<Rightarrow> t)"

text \<open>The loop over the lines of a text, which trims each of them.\<close>

function for_lines :: "(string \<Rightarrow> 's \<Rightarrow> 's) \<Rightarrow> string \<Rightarrow> nat \<Rightarrow> 's \<Rightarrow> 's" where
  "for_lines body txt start s =
     (if start > length txt then s
      else
        let newline = indexOf txt LF (int start);
            line = (if newline < 0 then drop start txt else take (nat newline - start) (drop start txt));
            s = (if trim line = [] then s else body (trim line) s)
        in if newline < 0 then s else for_lines body txt (nat newline + 1) s)"
  by pat_completeness auto

lemma indexOf_ge: "0 \<le> indexOf s c (int from) \<Longrightarrow> from \<le> nat (indexOf s c (int from))"
  by (auto simp: indexOf_def Let_def split: if_splits option.splits)

termination for_lines
proof (relation "measure (\<lambda>(body, str, start, s). length str + 1 - start)")
  fix body :: "string \<Rightarrow> 's \<Rightarrow> 's" and str start s newline row t
  assume "\<not> start > length str" and "newline = indexOf str LF (int start)" and "\<not> newline < 0"
  then have "start \<le> nat newline" "start \<le> length str" using indexOf_ge by auto
  then show "((body, str, nat newline + 1, t), body, str, start, s)
      \<in> measure (\<lambda>(body, str, start, s). length str + 1 - start)" by auto
qed simp

declare for_lines.simps [simp del]

section \<open>Rendering to a string\<close>

record 'c style_lib =
  sy_enabled :: bool
  sy_strip :: "string \<Rightarrow> string"
  sy_classify :: "string \<Rightarrow> 'c"
  sy_output :: 'c
  sy_sgr :: "'c \<Rightarrow> string"
  sy_reset :: string

definition appendLineWithPrefix :: "'c style_lib \<Rightarrow> string option \<Rightarrow> string \<Rightarrow> 'c \<Rightarrow> string \<Rightarrow> string" where
  "appendLineWithPrefix style pre line cls out =
     (let sgr = sy_sgr style cls;
          out = out @ [CR];
          out = (if sgr \<noteq> [] then out @ sgr else out);
          out = (case pre of None \<Rightarrow> out | Some p \<Rightarrow> out @ p);
          out = out @ line;
          out = (if sgr \<noteq> [] then out @ sy_reset style else out)
      in out @ [CR, LF])"

definition normalized :: "string \<Rightarrow> string" where
  "normalized txt = trim (replaceAll (replaceAll txt [CR, LF] [LF]) [CR] [LF])"

definition render_line :: "'c style_lib \<Rightarrow> string \<Rightarrow> string \<Rightarrow> string" where
  "render_line style line out =
     (let cls = (if sy_enabled style then sy_classify style line else sy_output style) in
      if isEspNowStructuredLine line then appendLineWithPrefix style None line cls out
      else
        let cleanLine = stripLeadingBracketTags line in
        if cleanLine = [] then out
        else appendLineWithPrefix style (if hasVisualPrefix (Some (c_str cleanLine)) then None else Some kOutputPrefix)
               cleanLine cls out)"

definition renderResponse :: "'c style_lib \<Rightarrow> string \<Rightarrow> string" where
  "renderResponse style response =
     (let txt = normalized (if sy_enabled style then sy_strip style response else response) in
      if txt = [] then [] else for_lines (render_line style) txt 0 [])"

section \<open>Writing to the port\<close>

type_synonym 'p port_write = "bytes \<Rightarrow> 'p \<Rightarrow> nat \<times> 'p"

definition put_char :: "'p port_write \<Rightarrow> char \<Rightarrow> 'p \<Rightarrow> 'p" where
  "put_char write ch p = snd (write [of_char ch] p)"

text \<open>A write that takes nothing is repeated; the ninth such answer gives up.\<close>

function writeChunk :: "'p port_write \<Rightarrow> bytes \<Rightarrow> nat \<Rightarrow> 'p \<Rightarrow> 'p" where
  "writeChunk write rest retries p =
     (if rest = [] then p
      else case write rest p of
        (sent, p) \<Rightarrow>
          if sent = 0 then (if retries + 1 > 8 then p else writeChunk write rest (retries + 1) p)
          else writeChunk write (drop sent rest) retries p)"
  by pat_completeness auto
termination
  by (relation "measures [\<lambda>(write, rest, retries, p). length rest, \<lambda>(write, rest, retries, p). 9 - retries]") auto

declare writeChunk.simps [simp del]

definition put_prefix :: "'p port_write \<Rightarrow> string \<Rightarrow> 'p \<Rightarrow> 'p" where
  "put_prefix write pre p = (if pre \<noteq> [] then writeChunk write (bytes_of pre) 0 p else p)"

definition put_newline :: "'p port_write \<Rightarrow> 'p \<Rightarrow> 'p" where
  "put_newline write p = put_char write LF (put_char write CR p)"

function text_loop :: "'p port_write \<Rightarrow> string \<Rightarrow> string \<Rightarrow> bool \<Rightarrow> 'p \<Rightarrow> 'p" where
  "text_loop write pre [] lineOpen p = (if lineOpen then put_newline write p else p)"
| "text_loop write pre (ch # rest) lineOpen p =
     (if ch = NUL then (if lineOpen then put_newline write p else p)
      else if ch = CR \<or> ch = LF then
        (let rest = (if ch = CR \<and> rest \<noteq> [] \<and> hd rest = LF then tl rest else rest);
             p = put_newline write p
         in if rest \<noteq> [] then text_loop write pre rest True (put_prefix write pre (put_char write CR p))
            else text_loop write pre rest False p)
      else text_loop write pre rest lineOpen (put_char write ch p))"
  by pat_completeness auto
termination
  by (relation "measure (\<lambda>(write, pre, cs, lineOpen, p). length cs)") (auto simp: less_Suc_eq_le)

definition writeTextWithPrefix :: "'p port_write \<Rightarrow> string option \<Rightarrow> string option \<Rightarrow> bool \<Rightarrow> 'p \<Rightarrow> 'p" where
  "writeTextWithPrefix write pre txt prefixEmptyLine p =
     (let safeText = (case txt of None \<Rightarrow> [] | Some t \<Rightarrow> c_str t);
          safePrefix = (case pre of None \<Rightarrow> [] | Some q \<Rightarrow> q)
      in if safeText = [] then
           put_newline write
             (if safePrefix \<noteq> [] \<and> prefixEmptyLine then put_prefix write safePrefix (put_char write CR p) else p)
         else text_loop write safePrefix safeText True (put_prefix write safePrefix (put_char write CR p)))"

definition writeRawLine :: "'p port_write \<Rightarrow> string option \<Rightarrow> 'p \<Rightarrow> 'p" where
  "writeRawLine write line p = writeTextWithPrefix write None line False p"

definition writeLine :: "'p port_write \<Rightarrow> string option \<Rightarrow> 'p \<Rightarrow> 'p" where
  "writeLine write line p =
     (let safeLine = (case line of None \<Rightarrow> [] | Some l \<Rightarrow> c_str l) in
      if safeLine = [] then writeTextWithPrefix write (Some kOutputPrefix) (Some safeLine) True p
      else if hasVisualPrefix (Some safeLine) then writeTextWithPrefix write None (Some safeLine) False p
      else writeTextWithPrefix write (Some kOutputPrefix) (Some safeLine) True p)"

definition writeLines :: "'p port_write \<Rightarrow> string option \<Rightarrow> 'p \<Rightarrow> 'p" where
  "writeLines write txt p =
     for_lines (\<lambda>line p. writeLine write (Some line) p) (c_str (normalizeNewlines txt)) 0 p"

definition printTagged :: "'p port_write \<Rightarrow> string option \<Rightarrow> string \<Rightarrow> 'p \<Rightarrow> 'p" where
  "printTagged write tag message p =
     (let safeTag = normalizeTag tag; line = trim message in
      if line = [] then p
      else if equalsIgnoreCase safeTag ''espnow'' \<and> isEspNowStructuredLine line then writeRawLine write (Some line) p
      else
        let line = stripLeadingBracketTags line in
        if line = [] then p else writeLine write (Some line) p)"

definition print_line :: "'p port_write \<Rightarrow> string \<Rightarrow> 'p \<Rightarrow> 'p" where
  "print_line write line p =
     (if isEspNowStructuredLine line then writeRawLine write (Some line) p
      else
        let cleanLine = stripLeadingBracketTags line in
        if cleanLine = [] then p else writeLine write (Some cleanLine) p)"

definition printResponse :: "'p port_write \<Rightarrow> string \<Rightarrow> 'p \<Rightarrow> 'p" where
  "printResponse write response p =
     (let txt = normalized response in if txt = [] then p else for_lines (print_line write) txt 0 p)"

end
