(* ===== verification/Serial_Mux.thy ===== *)
theory Serial_Mux
  imports Wire_Tx Shell_Output Hub_Registry Manifest_Cache Radio_Channels
begin

text \<open>
  lib/SerialMux, the owner of the USB port while a BTP session is negotiated or open: the statics of
  the module as \<open>serial_mux\<close>, which extends the transmission half of \<open>Wire_Tx\<close>, and the whole hub
  it acts on as \<open>hub\<close>: the binding table, the peer table, the subscription registry, the manifest
  cache and the publisher.

  Parameters, in \<open>mux_lib\<close>: the BTP library (node, endpoint, decoder, codecs), the line editor of the
  TinyShell package, the clock, the random source and the radio, which act on \<open>sm_world\<close>; and
  the two callbacks given to \<open>begin\<close>. \<open>ByteIO\<close> is the port \<open>mw_port\<close>.
\<close>

section \<open>State\<close>

definition kStatusIntervalMs :: u32 where "kStatusIntervalMs = 2000"
definition kSubscribeResultObjectId :: u16 where "kSubscribeResultObjectId = 0x0006"
definition kUnsubscribeResultObjectId :: u16 where "kUnsubscribeResultObjectId = 0x0008"
definition kTerminalOutObjectId :: u16 where "kTerminalOutObjectId = 0x0002"
definition kStatusPayloadSize :: nat where "kStatusPayloadSize = 92"
definition kTopicStatusRecordSize :: nat where "kTopicStatusRecordSize = 28"
definition kResultPrefix :: nat where "kResultPrefix = 26"
definition kMaxBytesPerTick :: nat where "kMaxBytesPerTick = 512"

text \<open>\<open>sm_runShellLine\<close> and \<open>sm_relayToRadio\<close> tell whether the callback was given.\<close>

record ('p, 'n, 'd, 'e, 'w) serial_mux = "'p mux_wire" +
  sm_runShellLine :: bool
  sm_relayToRadio :: bool
  sm_decoder :: 'd
  sm_session :: "'n session"
  sm_terminalShell :: 'e
  sm_terminalOut :: string
  sm_lastStatusMs :: u32
  sm_framesRx :: u64
  sm_crcErrors :: u64
  sm_decodeErrors :: u64
  sm_reassemblyRejected :: u64
  sm_telemetryDropped :: u64
  sm_relayDownOk :: u64
  sm_relayDownUnbound :: u64
  sm_relayDownNoPeer :: u64
  sm_relayDownOversized :: u64
  sm_relayDownSendFailed :: u64
  sm_world :: 'w

record ('p, 'n, 'd, 'e, 'w) hub =
  hb_mux :: "('p, 'n, 'd, 'e, 'w) serial_mux"
  hb_bindings :: hub_table
  hb_peers :: peer_table
  hb_subs :: sub_registry
  hb_manifests :: manifest_cache
  hb_records :: records_state
  hb_publisher :: "(('p, 'n, 'd, 'e, 'w) serial_mux \<times> peer_table) publisher"

section \<open>The library\<close>

datatype transport = SerialTransport | EspNowTransport

datatype decode_event = DeNone | DeFrame "radio_header \<times> bytes" | DeFrameError btp_error | DeCobsError | DeOverflow
  | DeInvalidConfiguration

record manifest_request =
  mq_target_source_id :: u32
  mq_target_boot_id :: u32
  mq_known_config_revision :: u32

record subscribe_request =
  su_target_source_id :: u32
  su_topic_id :: u32
  su_requested_rate_millihz :: u32
  su_requested_lease_ms :: u32

type_synonym request_ref = "u32 \<times> u32 \<times> u32"

record subscribe_result =
  sb_request :: request_ref
  sb_status :: u8
  sb_error_code :: u16
  sb_subscription_id :: u32
  sb_effective_rate_millihz :: u32
  sb_granted_lease_ms :: u32

record control_result =
  cr_request :: request_ref
  cr_status :: u8
  cr_error_code :: u16

record 'd decoder_lib =
  dc_reset :: "'d \<Rightarrow> 'd"
  dc_push :: "u8 \<Rightarrow> 'd \<Rightarrow> decode_event \<times> 'd"

text \<open>The line editor: \<open>ed_poll\<close> reads what was fed, appends the echo and may give a line;
  \<open>ed_buffered\<close> is how many octets it has not read.\<close>

record 'e editor_lib =
  ed_reset :: "'e \<Rightarrow> 'e"
  ed_feed :: "bytes \<Rightarrow> 'e \<Rightarrow> 'e"
  ed_poll :: "string \<Rightarrow> 'e \<Rightarrow> string option \<times> string \<times> 'e"
  ed_writeResponse :: "string \<Rightarrow> string \<Rightarrow> 'e \<Rightarrow> string \<times> 'e"
  ed_refreshLine :: "string \<Rightarrow> 'e \<Rightarrow> string \<times> 'e"
  ed_setPrompt :: "string \<Rightarrow> 'e \<Rightarrow> 'e"
  ed_addHistory :: "string \<Rightarrow> 'e \<Rightarrow> 'e"
  ed_buffered :: "'e \<Rightarrow> nat"

record codec_lib =
  co_encode :: "radio_header \<times> bytes \<Rightarrow> transport \<Rightarrow> nat \<Rightarrow> btp_error \<times> bytes"
  co_flag_fragmented :: u16
  co_espnow_max_frame :: nat
  co_min_frame :: nat
  co_status_degraded :: u16
  co_gateway :: u8
  co_command_request :: "bytes \<Rightarrow> message_error \<times> request_view"
  co_command_result :: "result_view \<Rightarrow> nat \<Rightarrow> bytes option"
  co_manifest_request :: "bytes \<Rightarrow> manifest_request option"
  co_subscribe :: "bytes \<Rightarrow> message_error \<times> subscribe_request"
  co_subscribe_result :: "subscribe_result \<Rightarrow> nat \<Rightarrow> bytes option"
  co_unsubscribe_result :: "control_result \<Rightarrow> nat \<Rightarrow> bytes option"
  co_status_v1 :: "btp_status \<Rightarrow> nat \<Rightarrow> bytes option"
  co_status_v2 :: "btp_status \<Rightarrow> btp_topic_status list \<Rightarrow> nat \<Rightarrow> bytes option"

text \<open>\<open>ml_source_id\<close>, \<open>ml_boot_id\<close> and \<open>ml_reserve\<close> are the endpoint of the session's node, which
  \<open>begin\<close> makes the endpoint of \<open>BtpTransport\<close>. A shell line may act on every part of the hub.\<close>

record ('p, 'n, 'd, 'e, 'w, 'c, 'x) mux_lib = "'p wire_lib" +
  ml_available :: "'p \<Rightarrow> bool"
  ml_read :: "'p \<Rightarrow> u8 option \<times> 'p"
  ml_node :: "'n node_api"
  ml_source_id :: "'n \<Rightarrow> u32"
  ml_boot_id :: "'n \<Rightarrow> u32"
  ml_reserve :: "'n \<Rightarrow> u32 option \<times> 'n"
  ml_decoder :: "'d decoder_lib"
  ml_editor :: "'e editor_lib"
  ml_codec :: codec_lib
  ml_writer :: "'x writer_ops"
  ml_style :: "'c style_lib"
  ml_millis :: "'w \<Rightarrow> u32 \<times> 'w"
  ml_random :: "'w \<Rightarrow> u32 \<times> 'w"
  ml_relay :: "mac \<Rightarrow> bytes \<Rightarrow> 'w \<Rightarrow> bool \<times> 'w"
  ml_run_line :: "string \<Rightarrow> string \<Rightarrow> string \<Rightarrow> ('p, 'n, 'd, 'e, 'w) hub \<Rightarrow> string \<times> ('p, 'n, 'd, 'e, 'w) hub"

definition on_mux ::
    "(('p, 'n, 'd, 'e, 'w) serial_mux \<Rightarrow> ('p, 'n, 'd, 'e, 'w) serial_mux) \<Rightarrow> ('p, 'n, 'd, 'e, 'w) hub \<Rightarrow> ('p, 'n, 'd, 'e, 'w) hub" where
  "on_mux f h = h\<lparr>hb_mux := f (hb_mux h)\<rparr>"

definition read_clock ::
    "('p, 'n, 'd, 'e, 'w, 'c, 'x) mux_lib \<Rightarrow> ('p, 'n, 'd, 'e, 'w) serial_mux \<Rightarrow> u32 \<times> ('p, 'n, 'd, 'e, 'w) serial_mux" where
  "read_clock lib m = (case ml_millis lib (sm_world m) of (t, w) \<Rightarrow> (t, m\<lparr>sm_world := w\<rparr>))"

definition sourceId :: "('p, 'n, 'd, 'e, 'w, 'c, 'x) mux_lib \<Rightarrow> ('p, 'n, 'd, 'e, 'w) serial_mux \<Rightarrow> u32" where
  "sourceId lib m = ml_source_id lib (s_node (sm_session m))"

definition bootId :: "('p, 'n, 'd, 'e, 'w, 'c, 'x) mux_lib \<Rightarrow> ('p, 'n, 'd, 'e, 'w) serial_mux \<Rightarrow> u32" where
  "bootId lib m = ml_boot_id lib (s_node (sm_session m))"

definition reserveSequence ::
    "('p, 'n, 'd, 'e, 'w, 'c, 'x) mux_lib \<Rightarrow> ('p, 'n, 'd, 'e, 'w) serial_mux \<Rightarrow> u32 option \<times> ('p, 'n, 'd, 'e, 'w) serial_mux" where
  "reserveSequence lib m =
     (case ml_reserve lib (s_node (sm_session m)) of
        (sequence, n) \<Rightarrow> (sequence, m\<lparr>sm_session := (sm_session m)\<lparr>s_node := n\<rparr>\<rparr>))"

section \<open>Own frames\<close>

text \<open>\<open>frameSourceId\<close> 0 stands for the dongle's own source id.\<close>

definition encodeOwnFrame ::
    "('p, 'n, 'd, 'e, 'w, 'c, 'x) mux_lib \<Rightarrow> message_type \<Rightarrow> u16 \<Rightarrow> bytes \<Rightarrow> nat \<Rightarrow> u32 \<Rightarrow>
       ('p, 'n, 'd, 'e, 'w) serial_mux \<Rightarrow> bytes option \<times> ('p, 'n, 'd, 'e, 'w) serial_mux" where
  "encodeOwnFrame lib type objectId payload outFrameCapacity frameSourceId m =
     (case reserveSequence lib m of
        (None, m) \<Rightarrow> (None, m)
      | (Some sequence, m) \<Rightarrow>
          (case read_clock lib m of
             (now, m) \<Rightarrow>
               let header = \<lparr>hd_type = type, hd_object_id = objectId,
                     hd_source_id = (if frameSourceId \<noteq> 0 then frameSourceId else sourceId lib m),
                     hd_boot_id = bootId lib m, hd_sequence = sequence, hd_timestamp_us = ucast now * 1000,
                     hd_flags = 0, hd_fragment_index = 0, hd_fragment_count = 1\<rparr>
               in case co_encode (ml_codec lib) (header, payload) SerialTransport outFrameCapacity of
                    (error, frame) \<Rightarrow> (if error = BeOk then Some frame else None, m)))"

definition enqueueOwn ::
    "('p, 'n, 'd, 'e, 'w, 'c, 'x) mux_lib \<Rightarrow> message_type \<Rightarrow> u16 \<Rightarrow> bytes \<Rightarrow> u32 \<Rightarrow>
       ('p, 'n, 'd, 'e, 'w) serial_mux \<Rightarrow> bool \<times> ('p, 'n, 'd, 'e, 'w) serial_mux" where
  "enqueueOwn lib type objectId payload frameSourceId m =
     (case encodeOwnFrame lib type objectId payload (kMaxFrameBytes lib) frameSourceId m of
        (None, m) \<Rightarrow> (False, m)
      | (Some frame, m) \<Rightarrow> enqueueFrameBytes lib (classify type objectId) frame m)"

section \<open>The downstream relay\<close>

definition relayDown ::
    "('p, 'n, 'd, 'e, 'w, 'c, 'x) mux_lib \<Rightarrow> radio_header \<times> bytes \<Rightarrow> ('p, 'n, 'd, 'e, 'w) hub \<Rightarrow> bool \<times> ('p, 'n, 'd, 'e, 'w) hub" where
  "relayDown lib decoded h =
     (if \<not> sm_relayToRadio (hb_mux h)
      then (False, on_mux (\<lambda>m. m\<lparr>sm_relayDownSendFailed := sm_relayDownSendFailed m + 1\<rparr>) h)
      else case hub_lookup (hd_source_id (fst decoded)) False (hb_bindings h) of
        None \<Rightarrow> (False, on_mux (\<lambda>m. m\<lparr>sm_relayDownUnbound := sm_relayDownUnbound m + 1\<rparr>) h)
      | Some peerId \<Rightarrow>
          (case lookupPeerMacBySourceId peerId False (hb_peers h) of
             None \<Rightarrow> (False, on_mux (\<lambda>m. m\<lparr>sm_relayDownNoPeer := sm_relayDownNoPeer m + 1\<rparr>) h)
           | Some (addr, peerBoot) \<Rightarrow>
               (case reencodeVerbatim (co_encode (ml_codec lib)) decoded EspNowTransport
                       (co_espnow_max_frame (ml_codec lib)) of
                  (ok, frame) \<Rightarrow>
                    if \<not> ok then
                      (False, on_mux (\<lambda>m. m\<lparr>sm_relayDownOversized := sm_relayDownOversized m + 1\<rparr>) h)
                    else
                      (case ml_relay lib addr frame (sm_world (hb_mux h)) of
                         (sent, w) \<Rightarrow>
                           let h = on_mux (\<lambda>m. m\<lparr>sm_world := w\<rparr>) h in
                           if \<not> sent then
                             (False, on_mux (\<lambda>m. m\<lparr>sm_relayDownSendFailed := sm_relayDownSendFailed m + 1\<rparr>) h)
                           else (True, on_mux (\<lambda>m. m\<lparr>sm_relayDownOk := sm_relayDownOk m + 1\<rparr>) h)))))"

section \<open>The end of a session\<close>

text \<open>An action about a robot's topic ends here; one about the dongle's own is for the publisher.\<close>

definition dispatchUpstreamAction ::
    "('p, 'n, 'd, 'e, 'w, 'c, 'x) mux_lib \<Rightarrow> upstream_action \<Rightarrow> ('p, 'n, 'd, 'e, 'w) hub \<Rightarrow> ('p, 'n, 'd, 'e, 'w) hub" where
  "dispatchUpstreamAction lib action h =
     (if ua_sourceId action \<noteq> 0 \<and> ua_sourceId action = sourceId lib (hb_mux h) then
        (case ua_kind action of
           UpSubscribe \<Rightarrow> h\<lparr>hb_publisher := onLocalSubscribe (ucast (ua_topicId action)) (ua_rateMillihz action) (hb_publisher h)\<rparr>
         | UpUnsubscribe \<Rightarrow> h\<lparr>hb_publisher := onLocalUnsubscribe (ucast (ua_topicId action)) (hb_publisher h)\<rparr>
         | UpNone \<Rightarrow> h)
      else h)"

definition dispatchUpstreamActions ::
    "('p, 'n, 'd, 'e, 'w, 'c, 'x) mux_lib \<Rightarrow> upstream_action list \<Rightarrow> ('p, 'n, 'd, 'e, 'w) hub \<Rightarrow> ('p, 'n, 'd, 'e, 'w) hub" where
  "dispatchUpstreamActions lib actions h = fold (dispatchUpstreamAction lib) actions h"

text \<open>\<open>actions[kMaxTopics]\<close> is filled by the call and its first \<open>count\<close> entries are dispatched.\<close>

definition client_gone ::
    "('p, 'n, 'd, 'e, 'w, 'c, 'x) mux_lib \<Rightarrow> u32 \<Rightarrow> ('p, 'n, 'd, 'e, 'w) hub \<Rightarrow> ('p, 'n, 'd, 'e, 'w) hub" where
  "client_gone lib nowMs h =
     (case onClientDisconnected (peerSourceId (ml_node lib) (sm_session (hb_mux h))) nowMs
             (Some (replicate kMaxTopics noAction)) kMaxTopics (hb_subs h) of
        ((count, actions), subs) \<Rightarrow>
          dispatchUpstreamActions lib (take count (the actions)) (h\<lparr>hb_subs := subs\<rparr>))"

definition discard_input ::
    "('p, 'n, 'd, 'e, 'w, 'c, 'x) mux_lib \<Rightarrow> ('p, 'n, 'd, 'e, 'w) serial_mux \<Rightarrow> ('p, 'n, 'd, 'e, 'w) serial_mux" where
  "discard_input lib m =
     m\<lparr>sm_decoder := dc_reset (ml_decoder lib) (sm_decoder m),
       sm_terminalShell := ed_reset (ml_editor lib) (sm_terminalShell m), sm_terminalOut := []\<rparr>"

definition finalizeToConsole ::
    "('p, 'n, 'd, 'e, 'w, 'c, 'x) mux_lib \<Rightarrow> bytes \<Rightarrow> string \<Rightarrow> ('p, 'n, 'd, 'e, 'w) hub \<Rightarrow> ('p, 'n, 'd, 'e, 'w) hub" where
  "finalizeToConsole lib frame consoleLine h =
     (let h = (if frame \<noteq> [] then on_mux (writeFrameCobs lib frame) h else h);
          (now, m) = read_clock lib (hb_mux h);
          h = client_gone lib now (h\<lparr>hb_mux := m\<rparr>)
      in on_mux (\<lambda>m. discard_input lib (writeConsoleText lib consoleLine (resetQueues m))) h)"

section \<open>Commands and the terminal\<close>

definition kMalformedPayload :: u16 where "kMalformedPayload = 0x0001"
definition kInvalidArgument :: u16 where "kInvalidArgument = 0x0003"
definition kCapacityExhausted :: u16 where "kCapacityExhausted = 0x0005"
definition kInternalError :: u16 where "kInternalError = 0x0007"
definition kUnsupportedVersion :: u16 where "kUnsupportedVersion = 0x0008"
definition kNotFound :: u16 where "kNotFound = 0x000B"

definition mux_replyCommandResult ::
    "('p, 'n, 'd, 'e, 'w, 'c, 'x) mux_lib \<Rightarrow> radio_header \<Rightarrow> u16 \<Rightarrow> u16 \<Rightarrow> u8 \<Rightarrow> u16 \<Rightarrow> string \<Rightarrow>
       ('p, 'n, 'd, 'e, 'w) serial_mux \<Rightarrow> ('p, 'n, 'd, 'e, 'w) serial_mux" where
  "mux_replyCommandResult lib requestHeader actionId actionVersion status errorCode message m =
     (let truncated = take kMaxResultMessageSize message;
          payload = build_result (co_command_result (ml_codec lib)) (hd_source_id requestHeader)
            (hd_boot_id requestHeader) (hd_sequence requestHeader) actionId actionVersion status errorCode
            (Some truncated) (NullView 0) (kResultPrefix + kMaxResultMessageSize)
      in if payload = [] then m else snd (enqueueOwn lib MtCommand kCommandResultObjectId payload 0 m))"

text \<open>The result codes 0, 1 and 2 are \<open>Success\<close>, \<open>Rejected\<close> and \<open>Failed\<close>.\<close>

definition handleCommandRequest ::
    "('p, 'n, 'd, 'e, 'w, 'c, 'x) mux_lib \<Rightarrow> radio_header \<times> bytes \<Rightarrow> ('p, 'n, 'd, 'e, 'w) hub \<Rightarrow> ('p, 'n, 'd, 'e, 'w) hub" where
  "handleCommandRequest lib decoded h =
     (let header = fst decoded;
          reply = (\<lambda>actionId version status code message.
            on_mux (mux_replyCommandResult lib header actionId version status code message))
      in case parse_request (co_command_request (ml_codec lib)) (btp_header.truncate header) (View (snd decoded))
                (sourceId lib (hb_mux h)) (bootId lib (hb_mux h)) False of
           (parseError, out) \<Rightarrow>
             if parseError = PeWrongTarget then snd (relayDown lib decoded h)
             else (case out of
                 None \<Rightarrow> reply 0 0 1 kMalformedPayload (parse_error_string parseError) h
               | Some request \<Rightarrow>
                   (case copy_shell_command request (Some (replicate (kMaxShellCommandSize + 1) 0)) of
                      (copyError, commandText) \<Rightarrow>
                        if copyError \<noteq> PeOk then
                          reply (rq_action_id request) (rq_action_version request) 1
                            (if copyError = PeUnsupportedAction then kUnsupportedVersion else kInvalidArgument)
                            (parse_error_string copyError) h
                        else if \<not> sm_runShellLine (hb_mux h) then
                          reply (rq_action_id request) (rq_action_version request) 2 kInternalError
                            ''shell indisponivel'' h
                        else
                          (case ml_run_line lib (c_text (the commandText)) ''serial'' ''serial'' h of
                             (fullOutput, h) \<Rightarrow>
                               reply (rq_action_id request) (rq_action_version request) 0 0 fullOutput h))))"

definition bound_child :: "radio_header \<Rightarrow> ('p, 'n, 'd, 'e, 'w) hub \<Rightarrow> bool" where
  "bound_child header h \<longleftrightarrow> hub_lookup (hd_source_id header) False (hb_bindings h) \<noteq> None"

definition handleTerminalIn ::
    "('p, 'n, 'd, 'e, 'w, 'c, 'x) mux_lib \<Rightarrow> radio_header \<times> bytes \<Rightarrow> ('p, 'n, 'd, 'e, 'w) hub \<Rightarrow> ('p, 'n, 'd, 'e, 'w) hub" where
  "handleTerminalIn lib decoded h =
     (if snd decoded = [] then h
      else if bound_child (fst decoded) h then snd (relayDown lib decoded h)
      else on_mux (\<lambda>m. m\<lparr>sm_terminalShell := ed_feed (ml_editor lib) (snd decoded) (sm_terminalShell m)\<rparr>) h)"

section \<open>Manifests\<close>

definition self_identity ::
    "('p, 'n, 'd, 'e, 'w, 'c, 'x) mux_lib \<Rightarrow> ('p, 'n, 'd, 'e, 'w) serial_mux \<Rightarrow> u32 \<times> u32" where
  "self_identity lib m = (sourceId lib m, bootId lib m)"

definition answer_index ::
    "('p, 'n, 'd, 'e, 'w, 'c, 'x) mux_lib \<Rightarrow> radio_header \<Rightarrow> nat \<Rightarrow> ('p, 'n, 'd, 'e, 'w) hub \<Rightarrow> ('p, 'n, 'd, 'e, 'w) hub" where
  "answer_index lib header index h =
     (let payload = buildEnumerationResponse (ml_writer lib) (self_identity lib (hb_mux h)) (hb_records h) index
            (btp_header.truncate header) kOutboundPayloadCap (hb_manifests h)
      in if payload \<noteq> [] then on_mux (\<lambda>m. snd (enqueueOwn lib MtControl kManifestDataObjectId payload 0 m)) h else h)"

definition handleManifestRequest ::
    "('p, 'n, 'd, 'e, 'w, 'c, 'x) mux_lib \<Rightarrow> radio_header \<times> bytes \<Rightarrow> ('p, 'n, 'd, 'e, 'w) hub \<Rightarrow> ('p, 'n, 'd, 'e, 'w) hub" where
  "handleManifestRequest lib decoded h =
     (case co_manifest_request (ml_codec lib) (snd decoded) of
        None \<Rightarrow> h
      | Some request \<Rightarrow>
          let target = mq_target_source_id request in
          if target = 0 then
            fold (answer_index lib (fst decoded)) [0..<enumerationCount (hb_manifests h)] h
          else
            (case buildTargetedResponse (ml_writer lib) (self_identity lib (hb_mux h)) (hb_records h) target
                    (mq_target_boot_id request) (mq_known_config_revision request)
                    (btp_header.truncate (fst decoded)) kOutboundPayloadCap (hb_manifests h) of
               (payload, manifests) \<Rightarrow>
                 let h = h\<lparr>hb_manifests := manifests\<rparr> in
                 if payload \<noteq> [] then
                   let stampAs = (if target \<noteq> 0 \<and> target \<noteq> sourceId lib (hb_mux h) then target else 0)
                   in on_mux (\<lambda>m. snd (enqueueOwn lib MtControl kManifestDataObjectId payload stampAs m)) h
                 else h))"

section \<open>Subscriptions\<close>

definition reply_subscribe ::
    "('p, 'n, 'd, 'e, 'w, 'c, 'x) mux_lib \<Rightarrow> radio_header \<Rightarrow> u8 \<Rightarrow> u16 \<Rightarrow> u32 \<Rightarrow> u32 \<Rightarrow> u32 \<Rightarrow>
       ('p, 'n, 'd, 'e, 'w) hub \<Rightarrow> ('p, 'n, 'd, 'e, 'w) hub" where
  "reply_subscribe lib header status errorCode subscriptionId effectiveRateMillihz grantedLeaseMs h =
     (case co_subscribe_result (ml_codec lib)
             \<lparr>sb_request = (hd_source_id header, hd_boot_id header, hd_sequence header), sb_status = status,
              sb_error_code = errorCode, sb_subscription_id = subscriptionId,
              sb_effective_rate_millihz = effectiveRateMillihz, sb_granted_lease_ms = grantedLeaseMs\<rparr> 28 of
        None \<Rightarrow> h
      | Some payload \<Rightarrow> on_mux (\<lambda>m. snd (enqueueOwn lib MtControl kSubscribeResultObjectId payload 0 m)) h)"

definition handleSubscribeRequest ::
    "('p, 'n, 'd, 'e, 'w, 'c, 'x) mux_lib \<Rightarrow> radio_header \<times> bytes \<Rightarrow> ('p, 'n, 'd, 'e, 'w) hub \<Rightarrow> ('p, 'n, 'd, 'e, 'w) hub" where
  "handleSubscribeRequest lib decoded h =
     (let header = fst decoded; reply = reply_subscribe lib header in
      if bound_child header h then snd (relayDown lib decoded h)
      else case co_subscribe (ml_codec lib) (snd decoded) of (subErr, sub) \<Rightarrow>
        if subErr \<noteq> MeOk \<and> subErr \<noteq> MeZeroField then h
        else if subErr = MeZeroField then reply 1 kInvalidArgument 0 0 0 h
        else
          (case lookupTopicMaxRateMillihz (sourceId lib (hb_mux h)) (su_target_source_id sub) (su_topic_id sub) False
                  (hb_manifests h) of
             None \<Rightarrow> reply 1 kNotFound 0 0 0 h
           | Some schemaMaxRateMillihz \<Rightarrow>
               let requested = su_requested_rate_millihz sub;
                   cappedRateMillihz = (if schemaMaxRateMillihz \<noteq> 0 \<and> requested > schemaMaxRateMillihz
                                        then schemaMaxRateMillihz else requested);
                   (now, m) = read_clock lib (hb_mux h);
                   (outcome, subs) = onDesktopSubscribe (peerSourceId (ml_node lib) (sm_session m))
                      (su_target_source_id sub) (su_topic_id sub) cappedRateMillihz (su_requested_lease_ms sub) now
                      (hb_subs h);
                   h = h\<lparr>hb_mux := m, hb_subs := subs\<rparr>
               in if \<not> so_accepted outcome then reply 1 kCapacityExhausted 0 0 0 h
                  else
                    reply 0 0 (so_subscriptionId outcome) cappedRateMillihz
                      (if su_requested_lease_ms sub < kMinLeaseMs then kMinLeaseMs
                       else if su_requested_lease_ms sub > kMaxLeaseMs then kMaxLeaseMs
                       else su_requested_lease_ms sub)
                      (dispatchUpstreamAction lib (so_upstream outcome) h)))"

definition readU32Le :: "bytes \<Rightarrow> u32" where
  "readU32Le bs = ucast (bs ! 0) OR push_bit 8 (ucast (bs ! 1)) OR push_bit 16 (ucast (bs ! 2)) OR push_bit 24 (ucast (bs ! 3))"

definition handleUnsubscribeRequest ::
    "('p, 'n, 'd, 'e, 'w, 'c, 'x) mux_lib \<Rightarrow> radio_header \<times> bytes \<Rightarrow> ('p, 'n, 'd, 'e, 'w) hub \<Rightarrow> ('p, 'n, 'd, 'e, 'w) hub" where
  "handleUnsubscribeRequest lib decoded h =
     (let header = fst decoded in
      if bound_child header h then snd (relayDown lib decoded h)
      else if length (snd decoded) < 12 then h
      else
        let subscriptionId = readU32Le (drop 8 (snd decoded));
            (now, m) = read_clock lib (hb_mux h);
            (outcome, subs) = onDesktopUnsubscribe (peerSourceId (ml_node lib) (sm_session m)) subscriptionId now (hb_subs h);
            h = dispatchUpstreamAction lib (uo_upstream outcome) (h\<lparr>hb_mux := m, hb_subs := subs\<rparr>)
        in case co_unsubscribe_result (ml_codec lib)
                  \<lparr>cr_request = (hd_source_id header, hd_boot_id header, hd_sequence header), cr_status = 0,
                   cr_error_code = 0\<rparr> 16 of
             None \<Rightarrow> h
           | Some payload \<Rightarrow> on_mux (\<lambda>m. snd (enqueueOwn lib MtControl kUnsubscribeResultObjectId payload 0 m)) h)"

section \<open>The terminal\<close>

function send_chunks ::
    "('p, 'n, 'd, 'e, 'w, 'c, 'x) mux_lib \<Rightarrow> string \<Rightarrow> ('p, 'n, 'd, 'e, 'w) serial_mux \<Rightarrow> ('p, 'n, 'd, 'e, 'w) serial_mux" where
  "send_chunks lib out m =
     (if out = [] then m
      else send_chunks lib (drop kOutboundPayloadCap out)
             (snd (enqueueOwn lib MtTerminal kTerminalOutObjectId (bytes_of (take kOutboundPayloadCap out)) 0 m)))"
  by pat_completeness auto
termination
  by (relation "measure (\<lambda>(lib, out, m). length out)") (auto simp: kOutboundPayloadCap_def)

declare send_chunks.simps [simp del]

definition flushTerminalPtyOutput ::
    "('p, 'n, 'd, 'e, 'w, 'c, 'x) mux_lib \<Rightarrow> ('p, 'n, 'd, 'e, 'w) serial_mux \<Rightarrow> ('p, 'n, 'd, 'e, 'w) serial_mux" where
  "flushTerminalPtyOutput lib m = (send_chunks lib (sm_terminalOut m) m)\<lparr>sm_terminalOut := []\<rparr>"

definition editor_poll ::
    "('p, 'n, 'd, 'e, 'w, 'c, 'x) mux_lib \<Rightarrow> ('p, 'n, 'd, 'e, 'w) serial_mux \<Rightarrow> string option \<times> ('p, 'n, 'd, 'e, 'w) serial_mux" where
  "editor_poll lib m =
     (case ed_poll (ml_editor lib) (sm_terminalOut m) (sm_terminalShell m) of
        (line, out, e) \<Rightarrow> (line, m\<lparr>sm_terminalOut := out, sm_terminalShell := e\<rparr>))"

definition editor_answer ::
    "('p, 'n, 'd, 'e, 'w, 'c, 'x) mux_lib \<Rightarrow> string \<Rightarrow> ('p, 'n, 'd, 'e, 'w) serial_mux \<Rightarrow> ('p, 'n, 'd, 'e, 'w) serial_mux" where
  "editor_answer lib fullOutput m =
     (case (if fullOutput \<noteq> []
            then ed_writeResponse (ml_editor lib) (renderResponse (ml_style lib) fullOutput) (sm_terminalOut m) (sm_terminalShell m)
            else ed_refreshLine (ml_editor lib) (sm_terminalOut m) (sm_terminalShell m)) of
        (out, e) \<Rightarrow> m\<lparr>sm_terminalOut := out, sm_terminalShell := e\<rparr>)"

text \<open>Each line that is polled consumes at least one octet that was fed, so as many rounds as
  octets wait are enough.\<close>

fun poll_loop ::
    "('p, 'n, 'd, 'e, 'w, 'c, 'x) mux_lib \<Rightarrow> nat \<Rightarrow> ('p, 'n, 'd, 'e, 'w) hub \<Rightarrow> ('p, 'n, 'd, 'e, 'w) hub" where
  "poll_loop lib 0 h = h"
| "poll_loop lib (Suc rounds) h =
     (case editor_poll lib (hb_mux h) of
        (None, m) \<Rightarrow> h\<lparr>hb_mux := m\<rparr>
      | (Some line, m) \<Rightarrow>
          (case (if sm_runShellLine m then ml_run_line lib line ''serial'' ''serial'' (h\<lparr>hb_mux := m\<rparr>)
                 else ([], h\<lparr>hb_mux := m\<rparr>)) of
             (fullOutput, h) \<Rightarrow> poll_loop lib rounds (on_mux (editor_answer lib fullOutput) h)))"

definition pumpTerminalShell ::
    "('p, 'n, 'd, 'e, 'w, 'c, 'x) mux_lib \<Rightarrow> ('p, 'n, 'd, 'e, 'w) hub \<Rightarrow> ('p, 'n, 'd, 'e, 'w) hub" where
  "pumpTerminalShell lib h =
     on_mux (flushTerminalPtyOutput lib)
       (poll_loop lib (ed_buffered (ml_editor lib) (sm_terminalShell (hb_mux h)) + 1) h)"

definition writeTerminalResponse ::
    "('p, 'n, 'd, 'e, 'w, 'c, 'x) mux_lib \<Rightarrow> string \<Rightarrow> ('p, 'n, 'd, 'e, 'w) serial_mux \<Rightarrow> ('p, 'n, 'd, 'e, 'w) serial_mux" where
  "writeTerminalResponse lib response m =
     (if session_state (ml_node lib) (sm_session m) \<noteq> Protocolled \<or> response = [] then m
      else send_chunks lib (renderResponse (ml_style lib) response) m)"

section \<open>Reception\<close>

definition terminal_greeting ::
    "('p, 'n, 'd, 'e, 'w, 'c, 'x) mux_lib \<Rightarrow> ('p, 'n, 'd, 'e, 'w) serial_mux \<Rightarrow> ('p, 'n, 'd, 'e, 'w) serial_mux" where
  "terminal_greeting lib m =
     (case ed_refreshLine (ml_editor lib) [] (ed_reset (ml_editor lib) (sm_terminalShell m)) of
        (out, e) \<Rightarrow> flushTerminalPtyOutput lib (m\<lparr>sm_terminalShell := e, sm_terminalOut := out\<rparr>))"

definition dispatchFrame ::
    "('p, 'n, 'd, 'e, 'w, 'c, 'x) mux_lib \<Rightarrow> radio_header \<times> bytes \<Rightarrow> u32 \<Rightarrow> ('p, 'n, 'd, 'e, 'w) hub \<Rightarrow> ('p, 'n, 'd, 'e, 'w) hub" where
  "dispatchFrame lib decoded nowMs h =
     (if hd_flags (fst decoded) AND co_flag_fragmented (ml_codec lib) \<noteq> 0
      then on_mux (\<lambda>m. m\<lparr>sm_reassemblyRejected := sm_reassemblyRejected m + 1\<rparr>) h
      else
        (case onFrame (ml_node lib) (btp_header.truncate (fst decoded), snd decoded) (ucast nowMs) (sm_session (hb_mux h)) of
           (result, session) \<Rightarrow>
             let h = on_mux (\<lambda>m. m\<lparr>sm_session := session\<rparr>) h; frame = pendingFrame session
             in case fr_outcome result of
                  FoIgnored \<Rightarrow> h
                | FoHelloAccepted \<Rightarrow>
                    on_mux (\<lambda>m. terminal_greeting lib
                      ((snd (enqueueFrameBytes lib (classify MtControl kHelloResultObjectId) frame m))
                         \<lparr>sm_lastStatusMs := nowMs\<rparr>)) h
                | FoHelloRejected \<Rightarrow> finalizeToConsole lib frame (fr_consoleLine result) h
                | FoSessionClosed \<Rightarrow> finalizeToConsole lib frame (fr_consoleLine result) h
                | FoCommandRequest \<Rightarrow> handleCommandRequest lib decoded h
                | FoTerminalIn \<Rightarrow> handleTerminalIn lib decoded h
                | FoManifestRequest \<Rightarrow> handleManifestRequest lib decoded h
                | FoSubscribeRequest \<Rightarrow> handleSubscribeRequest lib decoded h
                | FoUnsubscribeRequest \<Rightarrow> handleUnsubscribeRequest lib decoded h))"

definition isConsole :: "('p, 'n, 'd, 'e, 'w, 'c, 'x) mux_lib \<Rightarrow> ('p, 'n, 'd, 'e, 'w) hub \<Rightarrow> bool" where
  "isConsole lib h \<longleftrightarrow> session_state (ml_node lib) (sm_session (hb_mux h)) = Console"

definition isProtocolled :: "('p, 'n, 'd, 'e, 'w, 'c, 'x) mux_lib \<Rightarrow> ('p, 'n, 'd, 'e, 'w) hub \<Rightarrow> bool" where
  "isProtocolled lib h \<longleftrightarrow> session_state (ml_node lib) (sm_session (hb_mux h)) = Protocolled"

text \<open>The effect of one decoder event; the flag tells to leave \<open>pumpRx\<close>.\<close>

definition rx_event_step ::
    "('p, 'n, 'd, 'e, 'w, 'c, 'x) mux_lib \<Rightarrow> u32 \<Rightarrow> decode_event \<Rightarrow> ('p, 'n, 'd, 'e, 'w) hub \<Rightarrow> bool \<times> ('p, 'n, 'd, 'e, 'w) hub" where
  "rx_event_step lib nowMs event h =
     (case event of
        DeNone \<Rightarrow> (False, h)
      | DeFrame decoded \<Rightarrow>
          (False, dispatchFrame lib decoded nowMs (on_mux (\<lambda>m. m\<lparr>sm_framesRx := sm_framesRx m + 1\<rparr>) h))
      | DeFrameError error \<Rightarrow>
          (False, on_mux (\<lambda>m. if error = BeCrcMismatch then m\<lparr>sm_crcErrors := sm_crcErrors m + 1\<rparr>
                              else m\<lparr>sm_decodeErrors := sm_decodeErrors m + 1\<rparr>) h)
      | DeCobsError \<Rightarrow> (False, on_mux (\<lambda>m. m\<lparr>sm_decodeErrors := sm_decodeErrors m + 1\<rparr>) h)
      | DeOverflow \<Rightarrow> (False, on_mux (\<lambda>m. m\<lparr>sm_decodeErrors := sm_decodeErrors m + 1\<rparr>) h)
      | DeInvalidConfiguration \<Rightarrow> (True, h))"

text \<open>The loop with what is left of the octets of this tick.\<close>

fun rx_loop ::
    "('p, 'n, 'd, 'e, 'w, 'c, 'x) mux_lib \<Rightarrow> u32 \<Rightarrow> nat \<Rightarrow> ('p, 'n, 'd, 'e, 'w) hub \<Rightarrow> ('p, 'n, 'd, 'e, 'w) hub" where
  "rx_loop lib nowMs 0 h = h"
| "rx_loop lib nowMs (Suc n) h =
     (if \<not> ml_available lib (mw_port (hb_mux h)) then h
      else
        (case ml_read lib (mw_port (hb_mux h)) of
           (None, p) \<Rightarrow> on_mux (\<lambda>m. m\<lparr>mw_port := p\<rparr>) h
         | (Some octet, p) \<Rightarrow>
             (case dc_push (ml_decoder lib) octet (sm_decoder (hb_mux h)) of
                (event, d) \<Rightarrow>
                  (case rx_event_step lib nowMs event (on_mux (\<lambda>m. m\<lparr>mw_port := p, sm_decoder := d\<rparr>) h) of
                     (leave, h) \<Rightarrow> if leave \<or> isConsole lib h then h else rx_loop lib nowMs n h))))"

definition pumpRx ::
    "('p, 'n, 'd, 'e, 'w, 'c, 'x) mux_lib \<Rightarrow> u32 \<Rightarrow> ('p, 'n, 'd, 'e, 'w) hub \<Rightarrow> ('p, 'n, 'd, 'e, 'w) hub" where
  "pumpRx lib nowMs h = (if \<not> mw_io (hb_mux h) then h else rx_loop lib nowMs kMaxBytesPerTick h)"

section \<open>Status and the dongle's own telemetry\<close>

definition all_dropped :: "('p, 'n, 'd, 'e, 'w) serial_mux \<Rightarrow> u64" where
  "all_dropped m =
     fold (\<lambda>c total. total + mw_droppedByClass m c) [KSession, KTerminal, KLogStatus, KTelemetry] (sm_telemetryDropped m)"

definition status_record :: "topic_status_entry \<Rightarrow> topic_status_record" where
  "status_record e =
     \<lparr>topic_status_record.ts_sourceId = topic_status_entry.ts_sourceId e,
      ts_topicId = topic_status_entry.ts_topicId e,
      ts_subscriberCount = topic_status_entry.ts_subscriberCount e,
      ts_effectiveRateMillihz = topic_status_entry.ts_effectiveRateMillihz e,
      ts_bytesTotal = topic_status_entry.ts_bytesTotal e,
      ts_samplesDroppedTotal = topic_status_entry.ts_samplesDroppedTotal e\<rparr>"

definition maybeSendStatusHeartbeat ::
    "('p, 'n, 'd, 'e, 'w, 'c, 'x) mux_lib \<Rightarrow> u32 \<Rightarrow> ('p, 'n, 'd, 'e, 'w) hub \<Rightarrow> ('p, 'n, 'd, 'e, 'w) hub" where
  "maybeSendStatusHeartbeat lib nowMs h =
     (if nowMs - sm_lastStatusMs (hb_mux h) < kStatusIntervalMs then h
      else
        let droppedTotal = all_dropped (hb_mux h);
            (now, m) = read_clock lib ((hb_mux h)\<lparr>sm_lastStatusMs := nowMs\<rparr>);
            counters = \<lparr>sc_uptimeUs = ucast now * 1000, sc_framesRx = sm_framesRx m, sc_framesTx = mw_framesTx m,
              sc_framesDropped = droppedTotal, sc_crcErrors = sm_crcErrors m, sc_decodeErrors = sm_decodeErrors m,
              sc_reassemblyCompleted = 0, sc_reassemblyTimeouts = 0, sc_reassemblyRejected = sm_reassemblyRejected m,
              sc_commandDuplicates = 0, sc_telemetryDropped = sm_telemetryDropped m, sc_degraded = False\<rparr>;
            codec = ml_codec lib;
            topics = topicStatusSnapshot False kMaxTopics (hb_subs h);
            capacity = kStatusPayloadSize + 2 + kMaxTopics * kTopicStatusRecordSize;
            payload = (if topics \<noteq> [] then
                buildStatusV2 (co_status_degraded codec) (co_status_v2 codec) counters (Some (map status_record topics))
                  (length topics) capacity else []);
            payload = (if payload = [] then buildStatus (co_status_degraded codec) (co_status_v1 codec) counters capacity
                       else payload);
            m = (if payload \<noteq> [] then snd (enqueueOwn lib MtControl kStatusObjectId payload 0 m) else m)
        in h\<lparr>hb_mux := m\<rparr>)"

definition emitOwnTelemetry ::
    "('p, 'n, 'd, 'e, 'w, 'c, 'x) mux_lib \<Rightarrow> (('p, 'n, 'd, 'e, 'w) serial_mux \<times> peer_table) emit_fn" where
  "emitOwnTelemetry lib topicId payload e =
     (case enqueueOwn lib MtTelemetry topicId payload 0 (fst e) of (ok, m) \<Rightarrow> (ok, m, snd e))"

definition publisher_tick ::
    "('p, 'n, 'd, 'e, 'w, 'c, 'x) mux_lib \<Rightarrow> u32 \<Rightarrow> ('p, 'n, 'd, 'e, 'w) hub \<Rightarrow> ('p, 'n, 'd, 'e, 'w) hub" where
  "publisher_tick lib nowMs h =
     (case Dongle_Publisher.tick (sourceId lib (hb_mux h)) nowMs (Some (emitOwnTelemetry lib)) (hb_publisher h)
             ((hb_mux h, hb_peers h), hb_subs h) of
        (published, publisher, (m, peers), subs) \<Rightarrow>
          h\<lparr>hb_publisher := publisher, hb_mux := m, hb_peers := peers, hb_subs := subs\<rparr>)"

section \<open>Entry points\<close>

text \<open>\<open>created\<close> tells which queues there is memory for.\<close>

definition mux_begin ::
    "('p, 'n, 'd, 'e, 'w, 'c, 'x) mux_lib \<Rightarrow> 'p \<Rightarrow> bool \<Rightarrow> bytes \<Rightarrow> string option \<Rightarrow> u32 \<Rightarrow> u32 \<Rightarrow> bool \<Rightarrow>
       (priority_class \<Rightarrow> bool) \<Rightarrow> ('p, 'n, 'd, 'e, 'w) serial_mux \<Rightarrow> ('p, 'n, 'd, 'e, 'w) serial_mux" where
  "mux_begin lib io runShellLine selfUuid terminalPrompt source boot relayToRadio created m =
     (let api = ml_node lib; ed = ml_editor lib;
          session = session_configureIdentity api source boot
            (setLocalUuid api (co_gateway (ml_codec lib)) (Some selfUuid) (sm_session m));
          m = m\<lparr>mw_io := True, mw_port := io, sm_runShellLine := runShellLine, sm_relayToRadio := relayToRadio,
                sm_session := session,
                mw_queues := \<lambda>c. (case mw_queues m c of
                    Some q \<Rightarrow> Some q | None \<Rightarrow> if created c then Some (kQueueDepth c, []) else None),
                sm_decoder := dc_reset (ml_decoder lib) (sm_decoder m)\<rparr>;
          (now, m) = read_clock lib m
      in m\<lparr>sm_lastStatusMs := now,
           sm_terminalShell := ed_setPrompt ed (case terminalPrompt of None \<Rightarrow> [] | Some s \<Rightarrow> s) (ed_reset ed (sm_terminalShell m)),
           sm_terminalOut := []\<rparr>)"

text \<open>\<open>install\<close> is what \<open>setCompletionProvider(provider)\<close> does to the editor.\<close>

definition setTerminalCompletionProvider ::
    "('e \<Rightarrow> 'e) \<Rightarrow> ('p, 'n, 'd, 'e, 'w) serial_mux \<Rightarrow> ('p, 'n, 'd, 'e, 'w) serial_mux" where
  "setTerminalCompletionProvider install m = m\<lparr>sm_terminalShell := install (sm_terminalShell m)\<rparr>"

definition addTerminalHistory ::
    "('p, 'n, 'd, 'e, 'w, 'c, 'x) mux_lib \<Rightarrow> string option \<Rightarrow> ('p, 'n, 'd, 'e, 'w) serial_mux \<Rightarrow> ('p, 'n, 'd, 'e, 'w) serial_mux" where
  "addTerminalHistory lib line m =
     (case line of None \<Rightarrow> m
      | Some l \<Rightarrow> m\<lparr>sm_terminalShell := ed_addHistory (ml_editor lib) (c_str l) (sm_terminalShell m)\<rparr>)"

record tx_counters =
  tc_framesRx :: u64
  tc_framesTx :: u64
  tc_framesTxStalled :: u64
  tc_crcErrors :: u64
  tc_decodeErrors :: u64
  tc_reassemblyRejected :: u64
  tc_telemetryDropped :: u64
  tc_droppedByClass :: "priority_class \<Rightarrow> u64"
  tc_relayDownOk :: u64
  tc_relayDownUnbound :: u64
  tc_relayDownNoPeer :: u64
  tc_relayDownOversized :: u64
  tc_relayDownSendFailed :: u64

definition peekTxCounters :: "('p, 'n, 'd, 'e, 'w) serial_mux \<Rightarrow> tx_counters" where
  "peekTxCounters m =
     \<lparr>tc_framesRx = sm_framesRx m, tc_framesTx = mw_framesTx m, tc_framesTxStalled = mw_framesTxStalled m,
      tc_crcErrors = sm_crcErrors m, tc_decodeErrors = sm_decodeErrors m,
      tc_reassemblyRejected = sm_reassemblyRejected m, tc_telemetryDropped = sm_telemetryDropped m,
      tc_droppedByClass = mw_droppedByClass m, tc_relayDownOk = sm_relayDownOk m,
      tc_relayDownUnbound = sm_relayDownUnbound m, tc_relayDownNoPeer = sm_relayDownNoPeer m,
      tc_relayDownOversized = sm_relayDownOversized m, tc_relayDownSendFailed = sm_relayDownSendFailed m\<rparr>"

text \<open>READY goes out while the console still owns the port.\<close>

definition start_negotiation ::
    "('p, 'n, 'd, 'e, 'w, 'c, 'x) mux_lib \<Rightarrow> string \<Rightarrow> u32 \<Rightarrow> ('p, 'n, 'd, 'e, 'w) serial_mux \<Rightarrow> ('p, 'n, 'd, 'e, 'w) serial_mux" where
  "start_negotiation lib readyLine nowMs m =
     (let m = writeConsoleText lib readyLine m
      in m\<lparr>sm_session := beginNegotiation (ml_node lib) (ucast nowMs) (sm_session m),
           sm_decoder := dc_reset (ml_decoder lib) (sm_decoder m)\<rparr>)"

definition ready_buffer :: string where "ready_buffer = replicate kReadyLineCapacity NUL"

definition tryEnterFromConsoleLine ::
    "('p, 'n, 'd, 'e, 'w, 'c, 'x) mux_lib \<Rightarrow> string option \<Rightarrow> u32 \<Rightarrow> ('p, 'n, 'd, 'e, 'w) hub \<Rightarrow> bool \<times> ('p, 'n, 'd, 'e, 'w) hub" where
  "tryEnterFromConsoleLine lib line nowMs h =
     (if \<not> isConsole lib h then (False, h)
      else case tryParseEnterLine line ready_buffer of
        (ok, readyLine) \<Rightarrow> if \<not> ok then (False, h) else (True, on_mux (start_negotiation lib readyLine nowMs) h))"

definition enterFromCommand ::
    "('p, 'n, 'd, 'e, 'w, 'c, 'x) mux_lib \<Rightarrow> u32 \<Rightarrow> ('p, 'n, 'd, 'e, 'w) hub \<Rightarrow> bool \<times> ('p, 'n, 'd, 'e, 'w) hub" where
  "enterFromCommand lib nowMs h =
     (if \<not> isConsole lib h then (False, h)
      else
        let (a, w) = ml_random lib (sm_world (hb_mux h)); (b, w) = ml_random lib w;
            nonce = push_bit 32 (ucast a) OR ucast b;
            h = on_mux (\<lambda>m. m\<lparr>sm_world := w\<rparr>) h
        in (True, on_mux (start_negotiation lib (buildReadyLineFromNonce nonce ready_buffer) nowMs) h))"

definition mux_onTransportLost ::
    "('p, 'n, 'd, 'e, 'w, 'c, 'x) mux_lib \<Rightarrow> u32 \<Rightarrow> ('p, 'n, 'd, 'e, 'w) hub \<Rightarrow> ('p, 'n, 'd, 'e, 'w) hub" where
  "mux_onTransportLost lib nowMs h =
     (case onTransportLost (ml_node lib) (sm_session (hb_mux h)) of
        (lost, session) \<Rightarrow>
          let h = on_mux (\<lambda>m. m\<lparr>sm_session := session\<rparr>) h in
          if \<not> lost then h else on_mux (\<lambda>m. discard_input lib (resetQueues m)) (client_gone lib nowMs h))"

definition session_expired ::
    "('p, 'n, 'd, 'e, 'w, 'c, 'x) mux_lib \<Rightarrow> bool \<Rightarrow> string \<Rightarrow> u32 \<Rightarrow> ('p, 'n, 'd, 'e, 'w) hub \<Rightarrow> ('p, 'n, 'd, 'e, 'w) hub" where
  "session_expired lib wasProtocolled consoleLine nowMs h =
     on_mux (\<lambda>m.
       let m = writeConsoleText lib consoleLine (resetQueues m);
           m = (if mw_io m then m\<lparr>mw_port := printTagged (wl_write lib) (Some ''btp'')
                  (if wasProtocolled then ''sessao expirou (watchdog de inatividade) -> console''
                   else ''HELLO nao chegou a tempo -> console'') (mw_port m)\<rparr> else m)
       in discard_input lib m) (client_gone lib nowMs h)"

definition sweep_leases ::
    "('p, 'n, 'd, 'e, 'w, 'c, 'x) mux_lib \<Rightarrow> u32 \<Rightarrow> ('p, 'n, 'd, 'e, 'w) hub \<Rightarrow> ('p, 'n, 'd, 'e, 'w) hub" where
  "sweep_leases lib nowMs h =
     (case sweep nowMs (Some (replicate kMaxTopics noAction)) kMaxTopics (hb_subs h) of
        ((count, actions), subs) \<Rightarrow>
          dispatchUpstreamActions lib (take count (the actions)) (h\<lparr>hb_subs := subs\<rparr>))"

definition mux_tick ::
    "('p, 'n, 'd, 'e, 'w, 'c, 'x) mux_lib \<Rightarrow> u32 \<Rightarrow> ('p, 'n, 'd, 'e, 'w) hub \<Rightarrow> ('p, 'n, 'd, 'e, 'w) hub" where
  "mux_tick lib nowMs h =
     (if isConsole lib h then h
      else
        let h = on_mux (\<lambda>m. m\<lparr>sm_session := setLocalConfigRevision (ml_node lib) (co_gateway (ml_codec lib))
                                  (mc_catalogRevision (hb_manifests h)) (sm_session m)\<rparr>) h;
            h = pumpRx lib nowMs h
        in if isConsole lib h then h
           else
             let wasProtocolled = isProtocolled lib h in
             case pollTimeout (ml_node lib) (ucast nowMs) (replicate kConsoleLineCapacity NUL) (sm_session (hb_mux h)) of
               (expired, consoleLine, session) \<Rightarrow>
                 let h = on_mux (\<lambda>m. m\<lparr>sm_session := session\<rparr>) h in
                 if expired then session_expired lib wasProtocolled consoleLine nowMs h
                 else if isProtocolled lib h then
                   on_mux (drainTx lib)
                     (publisher_tick lib nowMs (sweep_leases lib nowMs
                       (maybeSendStatusHeartbeat lib nowMs (pumpTerminalShell lib h))))
                 else h)"

section \<open>The upstream relay\<close>

definition refuse_unsubscribed ::
    "radio_header \<Rightarrow> ('p, 'n, 'd, 'e, 'w) hub \<Rightarrow> ('p, 'n, 'd, 'e, 'w) hub" where
  "refuse_unsubscribed header h =
     (on_mux (\<lambda>m. m\<lparr>sm_telemetryDropped := sm_telemetryDropped m + 1\<rparr>) h)
       \<lparr>hb_subs := recordDropped (hd_source_id header) (ucast (hd_object_id header)) (hb_subs h)\<rparr>"

text \<open>The tail both relays share: the frame is queued and the row of the topic counts it.\<close>

definition queue_relayed ::
    "('p, 'n, 'd, 'e, 'w, 'c, 'x) mux_lib \<Rightarrow> radio_header \<Rightarrow> bytes \<Rightarrow> nat \<Rightarrow> ('p, 'n, 'd, 'e, 'w) hub \<Rightarrow> bool \<times> ('p, 'n, 'd, 'e, 'w) hub" where
  "queue_relayed lib header frame payloadSize h =
     (case enqueueFrameBytes lib (classify (hd_type header) (hd_object_id header)) frame (hb_mux h) of
        (queued, m) \<Rightarrow>
          let h = h\<lparr>hb_mux := m\<rparr> in
          (queued,
           if hd_type header = MtTelemetry then
             h\<lparr>hb_subs := (if queued
                 then recordForwarded (hd_source_id header) (ucast (hd_object_id header)) payloadSize (hb_subs h)
                 else recordDropped (hd_source_id header) (ucast (hd_object_id header)) (hb_subs h))\<rparr>
           else h))"

definition not_listening ::
    "radio_header \<Rightarrow> ('p, 'n, 'd, 'e, 'w) hub \<Rightarrow> bool \<times> ('p, 'n, 'd, 'e, 'w) hub" where
  "not_listening header h =
     (False, if hd_type header = MtTelemetry
             then on_mux (\<lambda>m. m\<lparr>sm_telemetryDropped := sm_telemetryDropped m + 1\<rparr>) h else h)"

definition forwardRelay ::
    "('p, 'n, 'd, 'e, 'w, 'c, 'x) mux_lib \<Rightarrow> radio_header \<Rightarrow> byte_view \<Rightarrow> ('p, 'n, 'd, 'e, 'w) hub \<Rightarrow> bool \<times> ('p, 'n, 'd, 'e, 'w) hub" where
  "forwardRelay lib header payload h =
     (if \<not> isProtocolled lib h then not_listening header h
      else if hd_type header = MtTelemetry \<and> isKnownUnwanted (hd_source_id header) (ucast (hd_object_id header)) (hb_subs h)
        then (False, refuse_unsubscribed header h)
      else if view_null payload \<and> view_size payload \<noteq> 0 then (False, h)
      else if view_size payload > kOutboundPayloadCap then (False, h)
      else
        (case co_encode (ml_codec lib) (header, view_bytes payload) SerialTransport (kMaxFrameBytes lib) of
           (error, frame) \<Rightarrow>
             if error \<noteq> BeOk then (False, h) else queue_relayed lib header frame (view_size payload) h))"

text \<open>The size is a 32-bit \<open>size_t\<close>, so the difference wraps.\<close>

definition relayUp ::
    "('p, 'n, 'd, 'e, 'w, 'c, 'x) mux_lib \<Rightarrow> radio_header \<Rightarrow> bytes option \<Rightarrow> ('p, 'n, 'd, 'e, 'w) hub \<Rightarrow> bool \<times> ('p, 'n, 'd, 'e, 'w) hub" where
  "relayUp lib header frame h =
     (if \<not> isProtocolled lib h then not_listening header h
      else case frame of
        None \<Rightarrow> (False, h)
      | Some octets \<Rightarrow>
          if octets = [] then (False, h)
          else
            let payloadSize = unat (of_nat (length octets) - of_nat (co_min_frame (ml_codec lib)) :: u32) in
            if hd_type header = MtTelemetry \<and> isKnownUnwanted (hd_source_id header) (ucast (hd_object_id header)) (hb_subs h)
              then (False, refuse_unsubscribed header h)
            else queue_relayed lib header octets payloadSize h)"

end
