(* ===== verification/Serial_Mux_Demo.thy ===== *)
theory Serial_Mux_Demo
  imports Serial_Mux
begin

text \<open>A concrete dongle on which the properties of the multiplexer are instantiated.

  Each octet of the port is one frame: 1 is a HELLO, 2 a SESSION_CLOSE, 3 a TERMINAL_IN, 4 a SUBSCRIBE, 5 an
  UNSUBSCRIBE, of source 9. The node knows three states; the radio keeps what it is handed.\<close>

definition demo_header :: "message_type \<Rightarrow> u16 \<Rightarrow> radio_header" where
  "demo_header type ob = no_header\<lparr>hd_type := type, hd_object_id := ob, hd_source_id := 9, hd_sequence := 77\<rparr>"

definition demo_frame :: "u8 \<Rightarrow> radio_header \<times> bytes" where
  "demo_frame b =
     (if b = 1 then demo_header MtControl 1 else if b = 2 then demo_header MtControl 0x000A
      else if b = 3 then demo_header MtTerminal 1 else if b = 4 then demo_header MtControl 5
      else demo_header MtControl 7, [b])"

type_synonym demo_node = "session_state \<times> session_event"

fun demo_receive :: "btp_header \<times> bytes \<Rightarrow> demo_node \<Rightarrow> node_rx \<times> btp_header \<times> bytes list \<times> demo_node" where
  "demo_receive (header, payload) (st, ev) =
     (if st = SsIdle then (NrDroppedFrame, header, [], (st, SeNone))
      else if hd_object_id header = 1 \<and> hd_type header = MtControl then (NrSessionHandled, header, [[0xAA]], (SsActive, SeHelloAccepted))
      else if st = SsAwaitingHello then (NrDroppedFrame, header, [], (st, SeNone))
      else if hd_object_id header = 0x000A then (NrSessionHandled, header, [[0xBB]], (SsIdle, SeSessionClosed))
      else (NrComplete, header, [], (st, SeNone)))"

definition demo_node_api :: "demo_node node_api" where
  "demo_node_api = \<lparr>nd_receive = \<lambda>acc frame t n. demo_receive frame n, nd_tick = \<lambda>acc t n. (SeNone, [], n),
     nd_session_event = snd, nd_state = fst,
     nd_reset = \<lambda>n. (if fst n = SsIdle then SeNone else SeAbandoned, (SsIdle, SeNone)),
     nd_arm = \<lambda>t n. (SsAwaitingHello, SeNone), nd_set_local = \<lambda>hello n. n, nd_begin = \<lambda>a b n. n,
     nd_enable_session = \<lambda>hello t n. n,
     nd_effective_limits = \<lambda>n. \<lparr>li_max_logical_payload = 0, li_max_inflight_reassemblies = 0, li_max_subscriptions = 0,
       li_max_dedup_entries = 0, li_session_timeout_ms = 0\<rparr>,
     nd_peer_source_id = \<lambda>n. 9, nd_peer_boot_id = \<lambda>n. 1\<rparr>"

definition demo_codec :: codec_lib where
  "demo_codec = \<lparr>co_encode = \<lambda>(header, payload) t cap. (BeOk, ucast (hd_source_id header) # ucast (hd_sequence header) # payload),
     co_flag_fragmented = 1, co_espnow_max_frame = 250, co_min_frame = 36, co_status_degraded = 1, co_gateway = 2,
     co_command_request = \<lambda>bs. (MePayloadTooShort, request_view.make 0 0 0 0 (NullView 0)),
     co_command_result = \<lambda>r n. None, co_manifest_request = \<lambda>bs. None,
     co_subscribe = \<lambda>bs. (MeZeroField, \<lparr>su_target_source_id = 0, su_topic_id = 0, su_requested_rate_millihz = 0, su_requested_lease_ms = 0\<rparr>),
     co_subscribe_result = \<lambda>r n. Some [sb_status r], co_unsubscribe_result = \<lambda>r n. Some [cr_status r],
     co_status_v1 = \<lambda>s n. Some [0x55], co_status_v2 = \<lambda>s ts n. None\<rparr>"

type_synonym demo_world = "(mac \<times> bytes) list"
type_synonym demo_mux = "(bytes \<times> bytes, demo_node, unit, bytes, demo_world) serial_mux"
type_synonym demo_hub = "(bytes \<times> bytes, demo_node, unit, bytes, demo_world) hub"

definition demo_lib :: "(bytes \<times> bytes, demo_node, unit, bytes, demo_world, unit, unit) mux_lib" where
  "demo_lib = \<lparr>wl_overhead = 32, wl_cobs = \<lambda>frame cap. Some frame, wl_write = \<lambda>bs (inp, out). (length bs, inp, out @ bs),
     ml_available = \<lambda>(inp, out). inp \<noteq> [], ml_read = \<lambda>(inp, out). (case inp of [] \<Rightarrow> (None, inp, out) | b # bs \<Rightarrow> (Some b, bs, out)),
     ml_node = demo_node_api, ml_source_id = \<lambda>n. 100, ml_boot_id = \<lambda>n. 1, ml_reserve = \<lambda>n. (Some 7, n),
     ml_decoder = \<lparr>dc_reset = \<lambda>d. d, dc_push = \<lambda>b d. (DeFrame (demo_frame b), d)\<rparr>,
     ml_editor = \<lparr>ed_reset = \<lambda>e. [], ed_feed = \<lambda>bs e. e @ bs, ed_poll = \<lambda>out e. (None, out @ chars_of e, []),
       ed_writeResponse = \<lambda>t out e. (out @ t, e), ed_refreshLine = \<lambda>out e. (out @ ''$ '', e), ed_setPrompt = \<lambda>t e. e,
       ed_addHistory = \<lambda>t e. e, ed_buffered = length\<rparr>,
     ml_codec = demo_codec,
     ml_writer = \<lparr>wo_begin = \<lambda>header n. None, wo_put_raw_source_info = \<lambda>bs w. None, wo_put_raw_records = \<lambda>a b w. None, wo_finish = \<lambda>w. None\<rparr>,
     ml_style = \<lparr>sy_enabled = False, sy_strip = \<lambda>t. t, sy_classify = \<lambda>t. (), sy_output = (), sy_sgr = \<lambda>c. [], sy_reset = []\<rparr>,
     ml_millis = \<lambda>w. (5, w), ml_random = \<lambda>w. (4, w), ml_relay = \<lambda>addr frame w. (True, w @ [(addr, frame)]),
     ml_run_line = \<lambda>line a b h. (''ok'', h)\<rparr>"

definition demo_mux :: demo_mux where
  "demo_mux = \<lparr>mw_io = True, mw_port = ([], []), mw_pending = noPendingWire, mw_queues = \<lambda>c. Some (kQueueDepth c, []),
     mw_framesTx = 0, mw_framesTxStalled = 0, mw_droppedByClass = \<lambda>_. 0, sm_runShellLine = True, sm_relayToRadio = True,
     sm_decoder = (), sm_session = Session demo_node_api 2 LocalLimits (SsIdle, SeNone), sm_terminalShell = [], sm_terminalOut = [],
     sm_lastStatusMs = 0, sm_framesRx = 0, sm_crcErrors = 0, sm_decodeErrors = 0, sm_reassemblyRejected = 0,
     sm_telemetryDropped = 0, sm_relayDownOk = 0, sm_relayDownUnbound = 0, sm_relayDownNoPeer = 0, sm_relayDownOversized = 0,
     sm_relayDownSendFailed = 0, sm_world = []\<rparr>"

text \<open>The robot 5 was heard from the MAC 1:2:3:4:5:6, and the operator bound the child 9 to it.\<close>

definition demo_hub :: demo_hub where
  "demo_hub = \<lparr>hb_mux = demo_mux, hb_bindings = fst (hub_bind 9 5 hub_init),
     hb_peers = rememberAuthenticatedPeer (Some (1, 2, 3, 4, 5, 6)) 5 1 0 0 peers_init,
     hb_subs = Subscription_Registry.resetForTests, hb_manifests = \<lparr>mc_entries = [], mc_pending = [], mc_catalogRevision = 1, mc_selfUuid = [], mc_selfSourceInfo = None,
       mc_diag = zeroDiag\<rparr>,
     hb_records = \<lparr>rc_records = [], rc_recordsSize = 0, rc_recordsTopicCount = 0, rc_recordsBuilt = True\<rparr>,
     hb_publisher = publisher_init\<rparr>"

end
