(* ===== verification/Wire_Proofs.thy ===== *)
theory Wire_Proofs
  imports Wire_Tx "HOL-Library.Sublist"
begin

text \<open>
  What the transmission half of lib/SerialMux guarantees: the octets on the wire are always whole
  COBS blocks in the order in which the queues gave the frames, whatever the port accepts, and the
  backpressure of the queues keeps the freshest telemetry and refuses a full session queue.
\<close>

section \<open>The port and the blocks\<close>

text \<open>\<open>wire p\<close> is what the port has accepted so far: \<open>write\<close> takes a prefix of what it is given and
  answers its length.\<close>

definition port_ok :: "('p, 'y) wire_lib_scheme \<Rightarrow> ('p \<Rightarrow> bytes) \<Rightarrow> bool" where
  "port_ok lib wire \<longleftrightarrow> (\<forall>bs p. wire (snd (wl_write lib bs p)) = wire p @ take (fst (wl_write lib bs p)) bs)"

definition block :: "('p, 'y) wire_lib_scheme \<Rightarrow> bytes \<Rightarrow> bytes" where
  "block lib frame = 0 # the (wl_cobs lib frame (kMaxCobsBytes lib)) @ [0]"

definition unsent :: "('p, 'z) mux_wire_scheme \<Rightarrow> bytes" where
  "unsent st = drop (pw_offset (mw_pending st)) (pw_bytes (mw_pending st))"

definition queue_of :: "('p, 'z) mux_wire_scheme \<Rightarrow> priority_class \<Rightarrow> bytes list" where
  "queue_of st c = (case mw_queues st c of None \<Rightarrow> [] | Some q \<Rightarrow> snd q)"

type_synonym tagged = "priority_class \<times> bytes"

definition frames_of :: "priority_class \<Rightarrow> tagged list \<Rightarrow> bytes list" where
  "frames_of c fs = map snd (filter (\<lambda>f. fst f = c) fs)"

lemma frames_of_simps [simp]:
  "frames_of c [] = []" "frames_of c (f # fs) = (if fst f = c then [snd f] else []) @ frames_of c fs"
  "frames_of c (fs @ gs) = frames_of c fs @ frames_of c gs"
  by (simp_all add: frames_of_def)

definition sent_count :: "('p, 'z) mux_wire_scheme \<Rightarrow> u64" where
  "sent_count st = mw_framesTx st + (if unsent st = [] then 0 else 1)"

lemma pending_iff: "hasPendingWireFrame st \<longleftrightarrow> unsent st \<noteq> []"
  by (auto simp: hasPendingWireFrame_def unsent_def)

text \<open>From \<open>st\<close> to \<open>st'\<close> the frames \<open>fs\<close> were put on the wire, in that order.\<close>

definition moved :: "('p, 'y) wire_lib_scheme \<Rightarrow> ('p \<Rightarrow> bytes) \<Rightarrow> tagged list \<Rightarrow>
    ('p, 'z) mux_wire_scheme \<Rightarrow> ('p, 'z) mux_wire_scheme \<Rightarrow> bool" where
  "moved lib wire fs st st' \<longleftrightarrow>
     wire (mw_port st') @ unsent st' = wire (mw_port st) @ unsent st @ concat (map (block lib \<circ> snd) fs) \<and>
     sent_count st' = sent_count st + of_nat (length fs) \<and>
     (\<forall>c. subseq (frames_of c fs @ queue_of st' c) (queue_of st c)) \<and>
     (\<forall>f\<in>set fs. wl_cobs lib (snd f) (kMaxCobsBytes lib) \<noteq> None)"

lemma moved_refl: "moved lib wire [] st st"
  by (simp add: moved_def)

lemma moved_trans:
  assumes a: "moved lib wire fs st st'" and b: "moved lib wire gs st' st''"
  shows "moved lib wire (fs @ gs) st st''"
proof -
  have "subseq (frames_of c (fs @ gs) @ queue_of st'' c) (queue_of st c)" for c
  proof -
    have "subseq (frames_of c gs @ queue_of st'' c) (queue_of st' c)" using b by (simp add: moved_def)
    then have "subseq (frames_of c fs @ frames_of c gs @ queue_of st'' c) (frames_of c fs @ queue_of st' c)"
      by (simp add: subseq_append')
    also have "subseq \<dots> (queue_of st c)" using a by (simp add: moved_def)
    finally show ?thesis by simp
  qed
  moreover have "wire (mw_port st'') @ unsent st'' =
      wire (mw_port st) @ unsent st @ concat (map (block lib \<circ> snd) (fs @ gs))"
    using a b by (simp add: moved_def)
  ultimately show ?thesis using a b by (auto simp: moved_def ball_Un algebra_simps)
qed

section \<open>One operation\<close>

lemma pump_moved:
  assumes port: "port_ok lib wire" and p: "pumpPendingWireFrame lib st = (res, st')"
  shows "moved lib wire [] st st'" and "res = WpCompleted \<Longrightarrow> unsent st' = []"
proof -
  show "moved lib wire [] st st'"
  proof (cases "unsent st = [] \<or> \<not> mw_io st")
    case True
    with p show ?thesis
      by (auto simp: pumpPendingWireFrame_def pending_iff count_stall_def moved_def unsent_def queue_of_def
          sent_count_def split: if_splits)
  next
    case False
    obtain sent q where w: "wl_write lib (unsent st) (mw_port st) = (sent, q)" by fastforce
    have wire: "wire q = wire (mw_port st) @ take sent (unsent st)"
      using port w unfolding port_ok_def by (metis fst_conv snd_conv)
    let ?off = "pw_offset (mw_pending st)" and ?bs = "pw_bytes (mw_pending st)"
    have rem: "length ?bs - ?off = length (unsent st)" by (simp add: unsent_def)
    show ?thesis
    proof (cases "sent = 0")
      case True
      with p False w wire show ?thesis
        by (auto simp: pumpPendingWireFrame_def Let_def pending_iff unsent_def [symmetric])
          (auto simp: count_stall_def moved_def unsent_def queue_of_def sent_count_def)
    next
      case sent: False
      define n where "n = (if sent < length ?bs - ?off then sent else length ?bs - ?off)"
      have nw: "take sent (unsent st) = take n (unsent st)" by (simp add: n_def rem)
      let ?st = "st\<lparr>mw_port := q, mw_pending := (mw_pending st)\<lparr>pw_offset := ?off + n\<rparr>\<rparr>"
      have left: "unsent ?st = drop n (unsent st)" by (simp add: unsent_def add.commute)
      have has: "hasPendingWireFrame st" "mw_io st" using False by (simp_all add: pending_iff)
      have "pumpPendingWireFrame lib st = (if hasPendingWireFrame ?st then (WpPending, ?st)
          else (WpCompleted, resetPendingWireFrame (?st\<lparr>mw_framesTx := mw_framesTx st + 1\<rparr>)))"
        unfolding pumpPendingWireFrame_def Let_def unsent_def [symmetric] n_def
        by (simp only: has w prod.case not_True_eq_False if_False sent) simp
      with p have e: "(res, st') = (if unsent ?st \<noteq> [] then (WpPending, ?st)
          else (WpCompleted, resetPendingWireFrame (?st\<lparr>mw_framesTx := mw_framesTx st + 1\<rparr>)))"
        by (simp only: pending_iff)
      show ?thesis
      proof (cases "drop n (unsent st) = []")
        case True
        then have all: "take n (unsent st) = unsent st" by simp
        have "st' = resetPendingWireFrame (?st\<lparr>mw_framesTx := mw_framesTx st + 1\<rparr>)"
          using e True left by simp
        then show ?thesis using wire nw all False
          by (simp add: moved_def resetPendingWireFrame_def noPendingWire_def unsent_def queue_of_def sent_count_def)
      next
        case more: False
        have "st' = ?st" using e more left by simp
        moreover have "moved lib wire [] st ?st"
          using wire nw left more False by (simp add: moved_def sent_count_def queue_of_def)
        ultimately show ?thesis by simp
      qed
    qed
  qed
  show "unsent st' = []" if "res = WpCompleted"
    using p that by (auto simp: pumpPendingWireFrame_def Let_def resetPendingWireFrame_def noPendingWire_def
        unsent_def split: if_splits prod.splits)
qed

lemma stage_moved:
  assumes q: "mw_queues st cls = Some (d, item # rest)" and none: "unsent st = []"
    and s: "stageFrameCobs lib item (set_queue cls (d, rest) st) = (staged, st')"
  shows "moved lib wire (if staged then [(cls, item)] else []) st st'"
proof -
  have u: "unsent (set_queue cls (d, rest) st) = []" using none by (simp add: unsent_def set_queue_def)
  have qs: "queue_of (set_queue cls (d, rest) st) c = (if c = cls then rest else queue_of st c)" for c
    by (simp add: queue_of_def set_queue_def)
  have qc: "queue_of st cls = item # rest" using q by (simp add: queue_of_def)
  show ?thesis
  proof (cases "item = [] \<or> wl_cobs lib item (kMaxCobsBytes lib) = None")
    case True
    then have e: "stageFrameCobs lib item (set_queue cls (d, rest) st) =
        (False, if item = [] then set_queue cls (d, rest) st else resetPendingWireFrame (set_queue cls (d, rest) st))"
      using u by (auto simp: stageFrameCobs_def pending_iff)
    have st': "st' = (if item = [] then set_queue cls (d, rest) st
        else resetPendingWireFrame (set_queue cls (d, rest) st))" and "\<not> staged"
      using s unfolding e by simp_all
    have "unsent st' = []" "mw_port st' = mw_port st" "mw_framesTx st' = mw_framesTx st"
      using u by (auto simp: st' resetPendingWireFrame_def noPendingWire_def unsent_def set_queue_def)
    moreover have "queue_of st' c = (if c = cls then rest else queue_of st c)" for c
      using qs [of c] by (auto simp: st' queue_of_def resetPendingWireFrame_def)
    moreover have "subseq rest (item # rest)" by (rule list_emb_Cons) simp
    ultimately show ?thesis using \<open>\<not> staged\<close> none qc by (simp add: moved_def sent_count_def)
  next
    case False
    then obtain e where e: "wl_cobs lib item (kMaxCobsBytes lib) = Some e" by auto
    then have st': "staged" "st' = (set_queue cls (d, rest) st)\<lparr>mw_pending :=
        \<lparr>pw_bytes = 0 # e @ [0], pw_offset = 0, pw_stalledCounted = False\<rparr>\<rparr>"
      using s u False by (auto simp: stageFrameCobs_def pending_iff)
    have "queue_of st' c = (if c = cls then rest else queue_of st c)" for c
      using qs by (simp add: st' queue_of_def)
    then show ?thesis using st' e none qc
      by (auto simp: moved_def sent_count_def unsent_def block_def set_queue_def)
  qed
qed

lemma moved_stall: "moved lib wire fs st st' \<Longrightarrow> moved lib wire fs st (st'\<lparr>mw_framesTxStalled := n\<rparr>)"
  by (simp add: moved_def unsent_def queue_of_def sent_count_def)

lemma drain_queue_moved:
  assumes port: "port_ok lib wire" and none: "unsent st = []" and d: "drain_queue lib cls n st = (ok, st')"
  shows "\<exists>fs. moved lib wire fs st st' \<and> (\<forall>f\<in>set fs. fst f = cls) \<and> length fs \<le> n \<and> (ok \<longrightarrow> unsent st' = [])"
  using none d
proof (induction n arbitrary: st)
  case 0
  then show ?case using moved_refl by fastforce
next
  case (Suc n)
  show ?case
  proof (cases "queue_of st cls")
    case Nil
    then have "st' = st \<and> ok"
      using Suc.prems(2) by (auto simp: queue_of_def queue_receive_def split: option.splits list.splits)
    then show ?thesis using moved_refl Suc.prems(1) by fastforce
  next
    case (Cons item rest)
    then obtain dp where q: "mw_queues st cls = Some (dp, item # rest)"
      by (auto simp: queue_of_def split: option.splits)
    obtain staged st1 where s: "stageFrameCobs lib item (set_queue cls (dp, rest) st) = (staged, st1)" by fastforce
    note m1 = stage_moved [OF q Suc.prems(1) s, of wire]
    show ?thesis
    proof (cases staged)
      case False
      then have "st' = st1\<lparr>mw_framesTxStalled := mw_framesTxStalled st1 + 1\<rparr>" "\<not> ok"
        using Suc.prems(2) q s by (auto simp: queue_receive_def)
      then show ?thesis using m1 False moved_stall by (intro exI [of _ "[]"]) auto
    next
      case True
      obtain res st2 where p: "pumpPendingWireFrame lib st1 = (res, st2)" by fastforce
      have m2: "moved lib wire [(cls, item)] st st2"
        using moved_trans [OF m1 pump_moved(1) [OF port p]] True by simp
      show ?thesis
      proof (cases "res = WpCompleted")
        case False
        then have "st' = st2" "\<not> ok" using Suc.prems(2) q s p True by (auto simp: queue_receive_def)
        then show ?thesis using m2 by (intro exI [of _ "[(cls, item)]"]) auto
      next
        case full: True
        have "drain_queue lib cls n st2 = (ok, st')"
          using Suc.prems(2) q s p True full by (auto simp: queue_receive_def)
        from Suc.IH [OF pump_moved(2) [OF port p full] this]
        obtain fs where fs: "moved lib wire fs st2 st'" "\<forall>f\<in>set fs. fst f = cls" "length fs \<le> n" "ok \<longrightarrow> unsent st' = []"
          by blast
        then show ?thesis using moved_trans [OF m2 fs(1)] by (intro exI [of _ "(cls, item) # fs"]) auto
      qed
    qed
  qed
qed

lemma drainQueueClass_moved:
  assumes "port_ok lib wire" and "unsent st = []" and "drainQueueClass lib cls n st = (ok, st')"
  shows "\<exists>fs. moved lib wire fs st st' \<and> (\<forall>f\<in>set fs. fst f = cls) \<and> length fs \<le> n \<and> (ok \<longrightarrow> unsent st' = [])"
proof (cases "mw_queues st cls")
  case None
  then show ?thesis using assms moved_refl [of lib wire st] by (intro exI [of _ "[]"]) (simp add: drainQueueClass_def)
next
  case (Some q)
  then show ?thesis using drain_queue_moved assms by (simp add: drainQueueClass_def)
qed

text \<open>The most frames one tick may take from a queue.\<close>

fun burst :: "priority_class \<Rightarrow> nat" where
  "burst KSession = 8" | "burst KTerminal = 4" | "burst KLogStatus = 4" | "burst KTelemetry = 4"

text \<open>What one tick may put on the wire: the classes in order, each within its burst.\<close>

definition ordered_burst :: "tagged list \<Rightarrow> bool" where
  "ordered_burst fs \<longleftrightarrow> sorted (map fst fs) \<and> (\<forall>c. length (frames_of c fs) \<le> burst c)"

lemma ordered_burst_Nil [simp]: "ordered_burst []"
  by (simp add: ordered_burst_def)

lemma frames_of_other: "\<forall>f\<in>set fs. fst f = cls \<Longrightarrow> frames_of c fs = (if c = cls then map snd fs else [])"
  by (induction fs) auto

lemma ordered_burst_append:
  assumes "ordered_burst fs" and "\<forall>f\<in>set fs. fst f < cls" and "\<forall>g\<in>set gs. fst g = cls" and "length gs \<le> burst cls"
  shows "ordered_burst (fs @ gs)"
proof -
  have "frames_of cls fs = []" using assms(2) unfolding frames_of_def by (induction fs) auto
  then have "length (frames_of c (fs @ gs)) \<le> burst c" for c
    using assms(1,4) by (simp add: frames_of_other [OF assms(3)] ordered_burst_def)
  moreover have "sorted (map fst gs)" using assms(3) by (induction gs) auto
  ultimately show ?thesis using assms by (auto simp: ordered_burst_def sorted_append less_imp_le)
qed

text \<open>One more class after the classes before it.\<close>

lemma drain_next:
  assumes port: "port_ok lib wire" and none: "unsent st = []" and d: "drainQueueClass lib cls (burst cls) st = (ok, st')"
    and m: "moved lib wire fs st0 st" "ordered_burst fs" "\<forall>f\<in>set fs. fst f < cls"
  obtains gs where "moved lib wire gs st0 st'" "ordered_burst gs" "\<forall>f\<in>set gs. fst f \<le> cls" "ok \<Longrightarrow> unsent st' = []"
proof -
  obtain hs where hs: "moved lib wire hs st st'" "\<forall>f\<in>set hs. fst f = cls" "length hs \<le> burst cls" "ok \<longrightarrow> unsent st' = []"
    using drainQueueClass_moved [OF port none d] by blast
  show ?thesis
  proof (rule that)
    show "moved lib wire (fs @ hs) st0 st'" by (rule moved_trans [OF m(1) hs(1)])
    show "ordered_burst (fs @ hs)" by (rule ordered_burst_append [OF m(2,3) hs(2,3)])
    show "\<forall>f\<in>set (fs @ hs). fst f \<le> cls" using m(3) hs(2) by auto
    show "ok \<Longrightarrow> unsent st' = []" using hs(4) by simp
  qed
qed

lemma class_lt [simp]: "KSession < KTerminal" "KTerminal < KLogStatus" "KLogStatus < KTelemetry"
  by (simp_all add: less_priority_class_def priority_index_def)

lemma classes_below: "\<forall>f\<in>set fs. fst f \<le> c \<Longrightarrow> c < (d :: priority_class) \<Longrightarrow> \<forall>f\<in>set fs. fst f < d"
  by (meson le_less_trans)

lemma drainTx_moved:
  assumes port: "port_ok lib wire"
  shows "\<exists>fs. moved lib wire fs st (drainTx lib st) \<and> ordered_burst fs"
proof -
  define go where "go = (if hasPendingWireFrame st then (case pumpPendingWireFrame lib st of (res, st) \<Rightarrow> (res \<noteq> WpCompleted, st))
      else (False, st))"
  obtain blocked sa where go: "go = (blocked, sa)" by fastforce
  have m0: "moved lib wire [] st sa" "\<not> blocked \<Longrightarrow> unsent sa = []"
    using go pump_moved [OF port, of st] moved_refl [of lib wire st]
    by (auto simp: go_def pending_iff split: if_splits prod.splits)
  obtain ok1 sb where d1: "drainQueueClass lib KSession 8 sa = (ok1, sb)" by fastforce
  obtain ok2 sc where d2: "drainQueueClass lib KTerminal 4 sb = (ok2, sc)" by fastforce
  obtain ok3 sd where d3: "drainQueueClass lib KLogStatus 4 sc = (ok3, sd)" by fastforce
  obtain ok4 se where d4: "drainQueueClass lib KTelemetry 4 sd = (ok4, se)" by fastforce
  have e: "drainTx lib st = (if blocked then sa else if \<not> ok1 then sb else if \<not> ok2 then sc else if \<not> ok3 then sd else se)"
    unfolding drainTx_def go_def [symmetric] go by (simp add: d1 d2 d3 d4)
  show ?thesis
  proof (cases blocked)
    case True
    then show ?thesis using m0(1) by (auto simp: e)
  next
    case False
    obtain f1 where f1: "moved lib wire f1 st sb" "ordered_burst f1" "\<forall>f\<in>set f1. fst f \<le> KSession" "ok1 \<Longrightarrow> unsent sb = []"
      using drain_next [OF port m0(2) [OF False], of KSession ok1 sb "[]" st] d1 m0(1) by auto
    show ?thesis
    proof (cases ok1)
      case False
      then show ?thesis using f1 \<open>\<not> blocked\<close> by (auto simp: e)
    next
      case ok1: True
      obtain f2 where f2: "moved lib wire f2 st sc" "ordered_burst f2" "\<forall>f\<in>set f2. fst f \<le> KTerminal" "ok2 \<Longrightarrow> unsent sc = []"
        using drain_next [OF port f1(4) [OF ok1], of KTerminal ok2 sc f1 st] d2 f1(1,2) classes_below [OF f1(3), of KTerminal] by auto
      show ?thesis
      proof (cases ok2)
        case False
        then show ?thesis using f2 ok1 \<open>\<not> blocked\<close> by (auto simp: e)
      next
        case ok2: True
        obtain f3 where f3: "moved lib wire f3 st sd" "ordered_burst f3" "\<forall>f\<in>set f3. fst f \<le> KLogStatus" "ok3 \<Longrightarrow> unsent sd = []"
          using drain_next [OF port f2(4) [OF ok2], of KLogStatus ok3 sd f2 st] d3 f2(1,2) classes_below [OF f2(3), of KLogStatus] by auto
        show ?thesis
        proof (cases ok3)
          case False
          then show ?thesis using f3 ok1 ok2 \<open>\<not> blocked\<close> by (auto simp: e)
        next
          case ok3: True
          have d4': "drainQueueClass lib KTelemetry (burst KTelemetry) sd = (ok4, se)" using d4 by simp
          obtain f4 where f4: "moved lib wire f4 st se" "ordered_burst f4"
            by (rule drain_next [OF port f3(4) [OF ok3] d4' f3(1,2) classes_below [OF f3(3)]]) simp_all
          then show ?thesis using ok1 ok2 ok3 \<open>\<not> blocked\<close> by (auto simp: e)
        qed
      qed
    qed
  qed
qed

section \<open>Any sequence of operations\<close>

text \<open>What the rest of the program does to this half: offer a frame, or let a tick drain.\<close>

datatype wire_op = Offer priority_class bytes | Drain

fun wire_step :: "('p, 'y) wire_lib_scheme \<Rightarrow> wire_op \<Rightarrow> ('p, 'z) mux_wire_scheme \<Rightarrow> ('p, 'z) mux_wire_scheme" where
  "wire_step lib (Offer cls frame) st = snd (enqueueFrameBytes lib cls frame st)"
| "wire_step lib Drain st = drainTx lib st"

definition wire_run :: "('p, 'y) wire_lib_scheme \<Rightarrow> wire_op list \<Rightarrow> ('p, 'z) mux_wire_scheme \<Rightarrow> ('p, 'z) mux_wire_scheme" where
  "wire_run lib ops st = fold (wire_step lib) ops st"

fun offered :: "priority_class \<Rightarrow> wire_op list \<Rightarrow> bytes list" where
  "offered c [] = []"
| "offered c (Offer cls frame # ops) = (if cls = c then [frame] else []) @ offered c ops"
| "offered c (Drain # ops) = offered c ops"

lemma queue_updates [simp]:
  "mw_port (set_queue cls q st) = mw_port st" "mw_pending (set_queue cls q st) = mw_pending st"
  "mw_framesTx (set_queue cls q st) = mw_framesTx st" "mw_queues (set_queue cls q st) = (mw_queues st)(cls := Some q)"
  "mw_droppedByClass (set_queue cls q st) = mw_droppedByClass st"
  "mw_port (count_dropped cls st) = mw_port st" "mw_pending (count_dropped cls st) = mw_pending st"
  "mw_framesTx (count_dropped cls st) = mw_framesTx st" "mw_queues (count_dropped cls st) = mw_queues st"
  "mw_droppedByClass (count_dropped cls st) = (mw_droppedByClass st)(cls := mw_droppedByClass st cls + 1)"
  by (simp_all add: set_queue_def count_dropped_def)

text \<open>What offering a frame does, with the queue written out.\<close>

lemma enqueue_cases:
  assumes "mw_queues st cls = Some (d, xs)" and "length frame \<le> kClassFrameCap lib cls"
  shows "enqueueFrameBytes lib cls frame st =
    (if length xs < d then (True, set_queue cls (d, xs @ [frame]) st)
     else if cls = KTelemetry \<or> cls = KLogStatus
          then if length (tl xs) < d then (True, count_dropped cls (set_queue cls (d, tl xs @ [frame]) st))
               else (False, count_dropped cls (set_queue cls (d, tl xs) st))
     else (False, count_dropped cls st))"
  using assms
  by (cases xs) (simp_all add: enqueueFrameBytes_def queue_send_def queue_receive_def Let_def)

lemma enqueue_refused:
  "mw_queues st cls = None \<or> kClassFrameCap lib cls < length frame \<Longrightarrow> enqueueFrameBytes lib cls frame st = (False, st)"
  by (auto simp: enqueueFrameBytes_def)

lemma offer_frame [simp]:
  "mw_port (snd (enqueueFrameBytes lib cls frame st)) = mw_port st \<and>
   mw_pending (snd (enqueueFrameBytes lib cls frame st)) = mw_pending st \<and>
   mw_framesTx (snd (enqueueFrameBytes lib cls frame st)) = mw_framesTx st"
proof (cases "mw_queues st cls = None \<or> kClassFrameCap lib cls < length frame")
  case True
  then show ?thesis by (simp add: enqueue_refused)
next
  case False
  then obtain d xs where "mw_queues st cls = Some (d, xs)" "length frame \<le> kClassFrameCap lib cls" by auto
  from enqueue_cases [OF this] show ?thesis by simp
qed

lemma enqueue_queues:
  "subseq (queue_of (snd (enqueueFrameBytes lib cls frame st)) c) (queue_of st c @ (if cls = c then [frame] else []))"
proof (cases "mw_queues st cls = None \<or> kClassFrameCap lib cls < length frame")
  case True
  have "subseq (queue_of st c) (queue_of st c @ (if cls = c then [frame] else []))"
    by (rule list_emb_prefix) simp
  then show ?thesis using True by (simp add: enqueue_refused)
next
  case False
  then obtain d xs where q: "mw_queues st cls = Some (d, xs)" and "length frame \<le> kClassFrameCap lib cls" by auto
  from enqueue_cases [OF this]
  have "queue_of (snd (enqueueFrameBytes lib cls frame st)) c \<in>
      (if c = cls then {xs, xs @ [frame], tl xs @ [frame], tl xs} else {queue_of st c})"
    using q by (simp add: queue_of_def)
  moreover have "subseq (tl xs) xs" by (cases xs) auto
  moreover have "queue_of st cls = xs" using q by (simp add: queue_of_def)
  ultimately show ?thesis
    by (auto simp: subseq_append' split: if_splits intro: list_emb_prefix list_emb_append_mono)
qed

lemma wire_run_moved:
  assumes port: "port_ok lib wire"
  shows "\<exists>fs. wire (mw_port (wire_run lib ops st)) @ unsent (wire_run lib ops st) =
        wire (mw_port st) @ unsent st @ concat (map (block lib \<circ> snd) fs) \<and>
      sent_count (wire_run lib ops st) = sent_count st + of_nat (length fs) \<and>
      (\<forall>c. subseq (frames_of c fs @ queue_of (wire_run lib ops st) c) (queue_of st c @ offered c ops))"
proof (induction ops arbitrary: st)
  case Nil
  show ?case by (intro exI [of _ "[]"]) (simp add: wire_run_def)
next
  case (Cons op ops)
  let ?s = "wire_step lib op st" and ?t = "wire_run lib (op # ops) st"
  have run: "?t = wire_run lib ops ?s" by (simp add: wire_run_def)
  obtain fs where step: "wire (mw_port ?s) @ unsent ?s = wire (mw_port st) @ unsent st @ concat (map (block lib \<circ> snd) fs)"
      "sent_count ?s = sent_count st + of_nat (length fs)"
      "\<And>c. subseq (frames_of c fs @ queue_of ?s c) (queue_of st c @ offered c [op])"
  proof (cases op)
    case (Offer cls frame)
    then have "subseq (frames_of c [] @ queue_of ?s c) (queue_of st c @ offered c [op])" for c
      using enqueue_queues [of lib cls frame st c] by simp
    then show ?thesis using Offer by (intro that [of "[]"]) (simp_all add: unsent_def sent_count_def)
  next
    case Drain
    then obtain fs where "moved lib wire fs st ?s" using drainTx_moved [OF port, of st] by auto
    then show ?thesis using Drain by (intro that [of fs]) (simp_all add: moved_def)
  qed
  from Cons.IH [of ?s] obtain gs where gs: "wire (mw_port ?t) @ unsent ?t = wire (mw_port ?s) @ unsent ?s @ concat (map (block lib \<circ> snd) gs)"
      "sent_count ?t = sent_count ?s + of_nat (length gs)"
      "\<And>c. subseq (frames_of c gs @ queue_of ?t c) (queue_of ?s c @ offered c ops)"
    unfolding run by blast
  have "subseq (frames_of c (fs @ gs) @ queue_of ?t c) (queue_of st c @ offered c (op # ops))" for c
  proof -
    have o: "offered c (op # ops) = offered c [op] @ offered c ops" by (cases op) simp_all
    have "subseq (frames_of c fs @ frames_of c gs @ queue_of ?t c) (frames_of c fs @ queue_of ?s c @ offered c ops)"
      using gs(3) by (simp add: subseq_append')
    also have "subseq \<dots> ((queue_of st c @ offered c [op]) @ offered c ops)"
      using list_emb_append_mono [OF step(3) [of c] subseq_order.refl] by simp
    finally show ?thesis by (simp add: o)
  qed
  moreover have "wire (mw_port ?t) @ unsent ?t = (wire (mw_port ?s) @ unsent ?s) @ concat (map (block lib \<circ> snd) gs)"
    using gs(1) by simp
  then have "wire (mw_port ?t) @ unsent ?t = wire (mw_port st) @ unsent st @ concat (map (block lib \<circ> snd) (fs @ gs))"
    unfolding step(1) by simp
  moreover have "sent_count ?t = sent_count st + of_nat (length (fs @ gs))" using gs(2) step(2) by simp
  ultimately show ?case by blast
qed

section \<open>The properties\<close>

text \<open>C21. Whatever frames are offered, in any order with any number of ticks between them, and whatever
  part of each write the port accepts, the octets on the port after a reset are whole COBS blocks, one per frame
  that was staged, except that the last may still be under way, its rest being what the pending
  frame holds; the counter of sent frames counts exactly the complete ones; and the frames of each
  class are sent in the order in which they were offered, none of them twice.\<close>

theorem wire_carries_whole_frames:
  assumes port: "port_ok lib wire"
  shows "let st0 = resetQueues st; st' = wire_run lib ops st0 in
      \<exists>fs. wire (mw_port st') @ unsent st' = wire (mw_port st0) @ concat (map (block lib \<circ> snd) fs) \<and>
        mw_framesTx st' + (if unsent st' = [] then 0 else 1) = mw_framesTx st0 + of_nat (length fs) \<and>
        (\<forall>c. subseq (frames_of c fs @ queue_of st' c) (offered c ops))"
proof -
  have "unsent (resetQueues st) = []"
    by (simp add: resetQueues_def resetPendingWireFrame_def noPendingWire_def unsent_def)
  moreover have "queue_of (resetQueues st) c = []" for c
    by (cases "mw_queues st c") (simp_all add: resetQueues_def resetPendingWireFrame_def queue_of_def)
  ultimately show ?thesis
    using wire_run_moved [OF port, of ops "resetQueues st"] by (simp add: sent_count_def Let_def)
qed

text \<open>A port that keeps what it accepts and takes at most three octets of each write, and an
  encoder that leaves the frame as it is.\<close>

definition slow_lib :: "bytes wire_lib" where
  "slow_lib = \<lparr>wl_overhead = 32, wl_cobs = \<lambda>frame cap. if length frame \<le> cap then Some frame else None,
     wl_write = \<lambda>bs p. (min 3 (length bs), p @ take 3 bs)\<rparr>"

definition fresh_wire :: "bytes mux_wire" where
  "fresh_wire = \<lparr>mw_io = True, mw_port = [], mw_pending = noPendingWire, mw_queues = \<lambda>c. Some (kQueueDepth c, []),
     mw_framesTx = 0, mw_framesTxStalled = 0, mw_droppedByClass = \<lambda>_. 0\<rparr>"

lemma slow_port: "port_ok slow_lib (\<lambda>p. p)"
  by (auto simp: port_ok_def slow_lib_def min_def)

definition slow_run :: "bytes mux_wire" where
  "slow_run = wire_run slow_lib [Offer KTelemetry [7, 7], Offer KSession [1, 2, 3], Drain, Drain] (resetQueues fresh_wire)"

lemma slow_run_state: "mw_port slow_run = [0, 1, 2, 3, 0, 0, 7, 7]" "unsent slow_run = [0]"
  by code_simp+

lemma wire_carries_whole_frames_witness:
  "\<exists>fs :: tagged list. [0, 1, 2, 3, 0, 0, 7, 7] @ [0] = concat (map (block slow_lib \<circ> snd) fs)"
proof -
  note f = wire_carries_whole_frames [OF slow_port, where
        ops = "[Offer KTelemetry [7, 7], Offer KSession [1, 2, 3], Drain, Drain]" and st = fresh_wire]
  from f have "\<exists>fs :: tagged list. mw_port slow_run @ unsent slow_run =
      mw_port (resetQueues fresh_wire) @ concat (map (block slow_lib \<circ> snd) fs)"
    unfolding slow_run_def Let_def by blast
  moreover have "mw_port (resetQueues fresh_wire) = []"
    by (simp add: resetQueues_def resetPendingWireFrame_def fresh_wire_def)
  ultimately show ?thesis unfolding slow_run_state by auto
qed

definition offer_all :: "('p, 'y) wire_lib_scheme \<Rightarrow> priority_class \<Rightarrow> bytes list \<Rightarrow> ('p, 'z) mux_wire_scheme \<Rightarrow> ('p, 'z) mux_wire_scheme" where
  "offer_all lib cls frames st = fold (\<lambda>frame st. snd (enqueueFrameBytes lib cls frame st)) frames st"

definition fresh_class :: "priority_class \<Rightarrow> bool" where
  "fresh_class cls \<longleftrightarrow> cls = KTelemetry \<or> cls = KLogStatus"

text \<open>C22. When nothing drains a queue, offering frames one after another to the telemetry or the
  log queue keeps the freshest frames that fit its depth, while the session and the terminal queues keep the
  oldest and refuse the rest; in both cases the frames that were lost are counted one by one and
  the depth is never exceeded.\<close>

theorem backpressure_policy:
  assumes "mw_queues st cls = Some (d, old)" and "length old \<le> d" and "0 < d"
    and "\<forall>frame\<in>set frames. length frame \<le> kClassFrameCap lib cls"
  shows "mw_queues (offer_all lib cls frames st) cls =
      Some (d, if fresh_class cls then drop (length (old @ frames) - d) (old @ frames) else take d (old @ frames)) \<and>
    mw_droppedByClass (offer_all lib cls frames st) cls = mw_droppedByClass st cls + of_nat (length (old @ frames) - d)"
  using assms(1,2,4)
proof (induction frames arbitrary: st old)
  case Nil
  then show ?case by (simp add: offer_all_def)
next
  case (Cons frame frames)
  let ?s = "snd (enqueueFrameBytes lib cls frame st)"
  have run: "offer_all lib cls (frame # frames) st = offer_all lib cls frames ?s" by (simp add: offer_all_def)
  have fit: "length frame \<le> kClassFrameCap lib cls" "\<forall>frame\<in>set frames. length frame \<le> kClassFrameCap lib cls"
    using Cons.prems(3) by simp_all
  note e = enqueue_cases [OF Cons.prems(1) fit(1)]
  consider (room) "length old < d" | (full) x xs where "length old = d" "old = x # xs"
    using Cons.prems(2) \<open>0 < d\<close> by (cases old) (auto simp: le_less)
  then show ?case
  proof cases
    case room
    then have "mw_queues ?s cls = Some (d, old @ [frame])" "mw_droppedByClass ?s cls = mw_droppedByClass st cls"
      by (simp_all add: e)
    with Cons.IH [of ?s "old @ [frame]"] fit room show ?thesis by (simp add: run)
  next
    case full
    have d: "d = Suc (length xs)" using full by simp
    have q: "mw_queues ?s cls = Some (d, if fresh_class cls then xs @ [frame] else old)"
        "mw_droppedByClass ?s cls = mw_droppedByClass st cls + 1"
      using full Cons.prems(1) by (auto simp: e fresh_class_def)
    show ?thesis
    proof (cases "fresh_class cls")
      case True
      with q have "mw_queues ?s cls = Some (d, xs @ [frame])" by simp
      with Cons.IH [of ?s "xs @ [frame]"] fit q(2) True show ?thesis by (simp add: run full(2) d)
    next
      case False
      with q have "mw_queues ?s cls = Some (d, old)" by simp
      with Cons.IH [of ?s old] fit q(2) False show ?thesis by (simp add: run full(2) d)
    qed
  qed
qed

lemma backpressure_policy_witness:
  "mw_queues (offer_all slow_lib KLogStatus [[1], [2], [3]] (fresh_wire\<lparr>mw_queues := \<lambda>c. Some (2, [])\<rparr>)) KLogStatus = Some (2, [[2], [3]])"
  using backpressure_policy [where st = "fresh_wire\<lparr>mw_queues := \<lambda>c. Some (2, [])\<rparr>" and cls = KLogStatus and d = 2
      and old = "[]" and frames = "[[1], [2], [3]]" and lib = slow_lib]
  by (simp add: fresh_class_def kMaxFrameBytes_def kOutboundPayloadCap_def)

end
