(* ===== verification/Serial_Mux_Proofs.thy ===== *)
theory Serial_Mux_Proofs
  imports Serial_Mux_Demo Wire_Proofs
begin

text \<open>
  What lib/SerialMux guarantees as the owner of the port: what a bound child sends is only relayed,
  a session that ends leaves nothing behind, and what is relayed upstream is what was received.
\<close>

section \<open>The downstream relay\<close>

datatype relay_verdict = RvSent | RvUnbound | RvNoPeer | RvOversized | RvRefused

fun count_relay :: "relay_verdict \<Rightarrow> ('p, 'n, 'd, 'e, 'w) serial_mux \<Rightarrow> ('p, 'n, 'd, 'e, 'w) serial_mux" where
  "count_relay RvSent m = m\<lparr>sm_relayDownOk := sm_relayDownOk m + 1\<rparr>"
| "count_relay RvUnbound m = m\<lparr>sm_relayDownUnbound := sm_relayDownUnbound m + 1\<rparr>"
| "count_relay RvNoPeer m = m\<lparr>sm_relayDownNoPeer := sm_relayDownNoPeer m + 1\<rparr>"
| "count_relay RvOversized m = m\<lparr>sm_relayDownOversized := sm_relayDownOversized m + 1\<rparr>"
| "count_relay RvRefused m = m\<lparr>sm_relayDownSendFailed := sm_relayDownSendFailed m + 1\<rparr>"

text \<open>What the relay may do to a message of a child: nothing but count, or one call of the radio with
  the encoding of the very header and payload, for the MAC the peer table holds for the bound robot.\<close>

definition handed_to_robot ::
    "('p, 'n, 'd, 'e, 'w, 'c, 'x) mux_lib \<Rightarrow> radio_header \<times> bytes \<Rightarrow> ('p, 'n, 'd, 'e, 'w) hub \<Rightarrow> relay_verdict \<Rightarrow> 'w \<Rightarrow> bool" where
  "handed_to_robot lib decoded h v w \<longleftrightarrow>
     (\<exists>robot addr boot frame sent.
        hub_lookup (hd_source_id (fst decoded)) False (hb_bindings h) = Some robot \<and>
        lookupPeerMacBySourceId robot False (hb_peers h) = Some (addr, boot) \<and>
        co_encode (ml_codec lib) decoded EspNowTransport (co_espnow_max_frame (ml_codec lib)) = (BeOk, frame) \<and>
        ml_relay lib addr frame (sm_world (hb_mux h)) = (sent, w) \<and> v = (if sent then RvSent else RvRefused))"

definition relay_effect ::
    "('p, 'n, 'd, 'e, 'w, 'c, 'x) mux_lib \<Rightarrow> radio_header \<times> bytes \<Rightarrow> ('p, 'n, 'd, 'e, 'w) hub \<Rightarrow> ('p, 'n, 'd, 'e, 'w) hub \<Rightarrow> bool" where
  "relay_effect lib decoded h h' \<longleftrightarrow>
     (\<exists>v w. h' = on_mux (\<lambda>m. count_relay v (m\<lparr>sm_world := w\<rparr>)) h \<and>
        ((w = sm_world (hb_mux h) \<and> v \<noteq> RvSent) \<or> handed_to_robot lib decoded h v w))"

lemma relayDown_effect: "relay_effect lib decoded h (snd (relayDown lib decoded h))"
proof (cases "sm_relayToRadio (hb_mux h)")
  case False
  then have "snd (relayDown lib decoded h) =
      on_mux (\<lambda>m. count_relay RvRefused (m\<lparr>sm_world := sm_world (hb_mux h)\<rparr>)) h"
    by (simp add: relayDown_def on_mux_def)
  then show ?thesis unfolding relay_effect_def by blast
next
  case True
  show ?thesis
  proof (cases "hub_lookup (hd_source_id (fst decoded)) False (hb_bindings h)")
    case None
    then have "snd (relayDown lib decoded h) =
        on_mux (\<lambda>m. count_relay RvUnbound (m\<lparr>sm_world := sm_world (hb_mux h)\<rparr>)) h"
      using True by (simp add: relayDown_def on_mux_def)
    then show ?thesis unfolding relay_effect_def by blast
  next
    case (Some robot)
    show ?thesis
    proof (cases "lookupPeerMacBySourceId robot False (hb_peers h)")
      case None
      then have "snd (relayDown lib decoded h) =
          on_mux (\<lambda>m. count_relay RvNoPeer (m\<lparr>sm_world := sm_world (hb_mux h)\<rparr>)) h"
        using True Some by (simp add: relayDown_def on_mux_def)
      then show ?thesis unfolding relay_effect_def by blast
    next
      case peer: (Some entry)
      obtain addr boot where entry: "entry = (addr, boot)" by (cases entry)
      obtain error frame where e: "co_encode (ml_codec lib) decoded EspNowTransport (co_espnow_max_frame (ml_codec lib)) = (error, frame)"
        by (cases "co_encode (ml_codec lib) decoded EspNowTransport (co_espnow_max_frame (ml_codec lib))")
      have r: "reencodeVerbatim (co_encode (ml_codec lib)) decoded EspNowTransport (co_espnow_max_frame (ml_codec lib)) =
          (error = BeOk, frame)"
        using e by (simp add: reencodeVerbatim_def)
      show ?thesis
      proof (cases "error = BeOk")
        case False
        then have "snd (relayDown lib decoded h) =
            on_mux (\<lambda>m. count_relay RvOversized (m\<lparr>sm_world := sm_world (hb_mux h)\<rparr>)) h"
          using True Some peer entry r by (simp add: relayDown_def on_mux_def)
        then show ?thesis unfolding relay_effect_def by blast
      next
        case ok: True
        obtain sent w where s: "ml_relay lib addr frame (sm_world (hb_mux h)) = (sent, w)"
          by (cases "ml_relay lib addr frame (sm_world (hb_mux h))")
        let ?v = "if sent then RvSent else RvRefused"
        have "snd (relayDown lib decoded h) = on_mux (\<lambda>m. count_relay ?v (m\<lparr>sm_world := w\<rparr>)) h"
          using True Some peer entry r ok s by (simp add: relayDown_def on_mux_def)
        moreover have "handed_to_robot lib decoded h ?v w"
          unfolding handed_to_robot_def using Some peer entry e ok s by blast
        ultimately show ?thesis unfolding relay_effect_def by blast
      qed
    qed
  qed
qed

text \<open>The handlers of what a child may send without naming a target.\<close>

definition targetless :: "frame_outcome \<Rightarrow> bool" where
  "targetless out \<longleftrightarrow> out = FoTerminalIn \<or> out = FoSubscribeRequest \<or> out = FoUnsubscribeRequest"

lemma relay_effect_id: "relay_effect lib decoded h h' \<Longrightarrow> \<exists>f. h' = on_mux f h"
  unfolding relay_effect_def by blast

text \<open>C23. A TERMINAL_IN, SUBSCRIBE or UNSUBSCRIBE frame of a child the operator bound is never
  interpreted by the dongle: after the session has seen it, either nothing but a relay counter changes
  (or, for an empty terminal frame, nothing at all), or the encoding of exactly the received header and
  payload was handed to the radio once, for the MAC that the peer table holds for the bound robot.
  The shell, the subscriptions, the bindings, the queues and the port are as before.\<close>

theorem bound_child_is_only_relayed:
  assumes whole: "hd_flags (fst decoded) AND co_flag_fragmented (ml_codec lib) = 0"
    and frame: "onFrame (ml_node lib) (btp_header.truncate (fst decoded), snd decoded) (ucast nowMs) (sm_session (hb_mux h)) = (result, session)"
    and kind: "targetless (fr_outcome result)"
    and bound: "hub_lookup (hd_source_id (fst decoded)) False (hb_bindings h) = Some robot"
  shows "let seen = on_mux (\<lambda>m. m\<lparr>sm_session := session\<rparr>) h; after = dispatchFrame lib decoded nowMs h in
      after = seen \<or>
      (\<exists>v w. after = on_mux (\<lambda>m. count_relay v (m\<lparr>sm_world := w\<rparr>)) seen \<and>
        ((w = sm_world (hb_mux h) \<and> v \<noteq> RvSent) \<or>
         (\<exists>addr boot frame sent. lookupPeerMacBySourceId robot False (hb_peers h) = Some (addr, boot) \<and>
            co_encode (ml_codec lib) decoded EspNowTransport (co_espnow_max_frame (ml_codec lib)) = (BeOk, frame) \<and>
            ml_relay lib addr frame (sm_world (hb_mux h)) = (sent, w) \<and> v = (if sent then RvSent else RvRefused))))"
proof -
  let ?seen = "on_mux (\<lambda>m. m\<lparr>sm_session := session\<rparr>) h"
  have b: "bound_child (fst decoded) ?seen" using bound by (simp add: bound_child_def on_mux_def)
  have "dispatchFrame lib decoded nowMs h \<in> {?seen, snd (relayDown lib decoded ?seen)}"
    using kind b unfolding dispatchFrame_def targetless_def
    by (auto simp: whole frame handleTerminalIn_def handleSubscribeRequest_def handleUnsubscribeRequest_def Let_def)
  then consider (same) "dispatchFrame lib decoded nowMs h = ?seen"
    | (relayed) "dispatchFrame lib decoded nowMs h = snd (relayDown lib decoded ?seen)" by blast
  then show ?thesis
  proof cases
    case same
    then show ?thesis by (simp add: Let_def)
  next
    case relayed
    have keep: "hb_bindings ?seen = hb_bindings h" "hb_peers ?seen = hb_peers h" "sm_world (hb_mux ?seen) = sm_world (hb_mux h)"
      by (simp_all add: on_mux_def)
    obtain v w where e: "snd (relayDown lib decoded ?seen) = on_mux (\<lambda>m. count_relay v (m\<lparr>sm_world := w\<rparr>)) ?seen"
      and vw: "(w = sm_world (hb_mux h) \<and> v \<noteq> RvSent) \<or> handed_to_robot lib decoded ?seen v w"
      using relayDown_effect [of lib decoded ?seen] unfolding relay_effect_def keep by blast
    have "handed_to_robot lib decoded ?seen v w \<Longrightarrow> \<exists>addr boot frame sent.
        lookupPeerMacBySourceId robot False (hb_peers h) = Some (addr, boot) \<and>
        co_encode (ml_codec lib) decoded EspNowTransport (co_espnow_max_frame (ml_codec lib)) = (BeOk, frame) \<and>
        ml_relay lib addr frame (sm_world (hb_mux h)) = (sent, w) \<and> v = (if sent then RvSent else RvRefused)"
      unfolding handed_to_robot_def keep bound option.inject by blast
    with e vw show ?thesis unfolding Let_def relayed by blast
  qed
qed

section \<open>What the handlers leave alone\<close>

text \<open>The transmission half touches none of the fields that the multiplexer adds to it.\<close>

lemma more_updates [simp]:
  "mux_wire.more (set_queue c q m) = mux_wire.more m" "mux_wire.more (count_dropped c m) = mux_wire.more m"
  "mux_wire.more (count_stall m) = mux_wire.more m" "mux_wire.more (resetPendingWireFrame m) = mux_wire.more m"
  "mux_wire.more (resetQueues m) = mux_wire.more m"
  by (simp_all add: set_queue_def count_dropped_def count_stall_def resetPendingWireFrame_def resetQueues_def)

lemma more_enqueue [simp]: "mux_wire.more (snd (enqueueFrameBytes lib c frame m)) = mux_wire.more m"
proof (cases "mw_queues m c = None \<or> kClassFrameCap lib c < length frame")
  case True
  then show ?thesis by (simp add: enqueue_refused)
next
  case False
  then obtain d xs where "mw_queues m c = Some (d, xs)" "length frame \<le> kClassFrameCap lib c" by auto
  from enqueue_cases [OF this] show ?thesis by simp
qed

lemma more_stage: "stageFrameCobs lib frame m = (ok, m') \<Longrightarrow> mux_wire.more m' = mux_wire.more m"
  by (auto simp: stageFrameCobs_def split: if_splits option.splits)

lemma more_pump [simp]: "mux_wire.more (snd (pumpPendingWireFrame lib m)) = mux_wire.more m"
  by (auto simp: pumpPendingWireFrame_def Let_def split: prod.splits)

lemma more_drain_queue [simp]: "mux_wire.more (snd (drain_queue lib c n m)) = mux_wire.more m"
proof (induction n arbitrary: m)
  case (Suc n)
  show ?case
  proof (cases "mw_queues m c")
    case (Some q)
    show ?thesis
    proof (cases "queue_receive q")
      case (Some r)
      obtain item q' where r: "r = (item, q')" by (cases r)
      obtain ok t where s: "stageFrameCobs lib item (set_queue c q' m) = (ok, t)" by fastforce
      then have t: "mux_wire.more t = mux_wire.more m" using more_stage by fastforce
      obtain res u where p: "pumpPendingWireFrame lib t = (res, u)" by fastforce
      then have "mux_wire.more u = mux_wire.more m" using more_pump [of lib t] t by simp
      then show ?thesis using \<open>mw_queues m c = Some q\<close> Some r s p t Suc.IH by simp
    qed (use Some in simp)
  qed simp
qed simp

lemma more_drain_class [simp]: "mux_wire.more (snd (drainQueueClass lib c n m)) = mux_wire.more m"
  by (auto simp: drainQueueClass_def split: option.splits)

lemma more_drainTx [simp]: "mux_wire.more (drainTx lib m) = mux_wire.more m"
  by (simp add: drainTx_def Let_def case_prod_beta)

lemma more_writes [simp]:
  "mux_wire.more (writeFrameCobs lib frame m) = mux_wire.more m"
  "mux_wire.more (writeConsoleText lib txt m) = mux_wire.more m"
  by (auto simp: writeFrameCobs_def writeConsoleText_def writeAll_def split: option.splits prod.splits if_splits)

lemma session_of_more: "mux_wire.more m = mux_wire.more m' \<Longrightarrow> sm_session m = sm_session m'"
  by (cases m; cases m') simp

lemmas keeps_session [simp] =
  more_enqueue [THEN session_of_more] more_drainTx [THEN session_of_more] more_writes [THEN session_of_more]
  more_updates(5) [THEN session_of_more]

text \<open>The state of the session, as far as the library's node and the latch determine it.\<close>

definition mux_view :: "('p, 'n, 'd, 'e, 'w, 'c, 'x) mux_lib \<Rightarrow> ('p, 'n, 'd, 'e, 'w) serial_mux \<Rightarrow> bool \<times> session_state" where
  "mux_view lib m = (s_timeoutLatched (sm_session m), nd_state (ml_node lib) (s_node (sm_session m)))"

type_synonym ('p, 'n, 'd, 'e, 'w) provider =
  "(('p, 'n, 'd, 'e, 'w) serial_mux \<times> peer_table \<Rightarrow> snapshot \<times> ('p, 'n, 'd, 'e, 'w) serial_mux \<times> peer_table) option"

definition hub_view ::
    "('p, 'n, 'd, 'e, 'w, 'c, 'x) mux_lib \<Rightarrow> ('p, 'n, 'd, 'e, 'w) hub \<Rightarrow>
       (bool \<times> session_state) \<times> ('p, 'n, 'd, 'e, 'w) provider" where
  "hub_view lib h = (mux_view lib (hb_mux h), pb_snapshotProvider (hb_publisher h))"

text \<open>What the code relies on: the documented behaviour of \<open>btp::Node\<close> (a session ends with an
  event, and reserving a sequence or changing the local HELLO is not one), of the shell (it runs inside the
  session, where entering protocol mode is refused) and of the snapshot provider (it only reads).\<close>

definition ends_with_event :: "('p, 'n, 'd, 'e, 'w, 'c, 'x) mux_lib \<Rightarrow> bool" where
  "ends_with_event lib \<longleftrightarrow>
     (\<forall>acc frame t n rx msg sent n'. nd_receive (ml_node lib) acc frame t n = (rx, msg, sent, n') \<longrightarrow>
        nd_state (ml_node lib) n \<noteq> SsIdle \<longrightarrow> nd_state (ml_node lib) n' = SsIdle \<longrightarrow>
        rx = NrSessionHandled \<and> nd_session_event (ml_node lib) n' \<in> {SeHelloRejected, SeSessionClosed, SeTimedOut}) \<and>
     (\<forall>acc t n ev sent n'. nd_tick (ml_node lib) acc t n = (ev, sent, n') \<longrightarrow>
        nd_state (ml_node lib) n \<noteq> SsIdle \<longrightarrow> nd_state (ml_node lib) n' = SsIdle \<longrightarrow> ev = SeTimedOut) \<and>
     (\<forall>n. nd_state (ml_node lib) n \<noteq> SsIdle \<longrightarrow> fst (nd_reset (ml_node lib) n) = SeAbandoned) \<and>
     (\<forall>n t. nd_state (ml_node lib) (nd_arm (ml_node lib) t (snd (nd_reset (ml_node lib) n))) \<noteq> SsIdle)"

definition quiet_calls :: "('p, 'n, 'd, 'e, 'w, 'c, 'x) mux_lib \<Rightarrow> bool" where
  "quiet_calls lib \<longleftrightarrow>
     (\<forall>n. nd_state (ml_node lib) (snd (ml_reserve lib n)) = nd_state (ml_node lib) n) \<and>
     (\<forall>hello n. nd_state (ml_node lib) (nd_set_local (ml_node lib) hello n) = nd_state (ml_node lib) n) \<and>
     (\<forall>line a b h. hub_view lib (snd (ml_run_line lib line a b h)) = hub_view lib h)"

definition reads_only :: "('p, 'n, 'd, 'e, 'w, 'c, 'x) mux_lib \<Rightarrow> ('p, 'n, 'd, 'e, 'w) provider \<Rightarrow> bool" where
  "reads_only lib provider \<longleftrightarrow>
     (\<forall>f e. provider = Some f \<longrightarrow> mux_view lib (fst (snd (f e))) = mux_view lib (fst e))"

lemma view_session: "sm_session m = sm_session m' \<Longrightarrow> mux_view lib m = mux_view lib m'"
  by (simp add: mux_view_def)

lemma view_more: "mux_wire.more m = mux_wire.more m' \<Longrightarrow> mux_view lib m = mux_view lib m'"
  by (rule view_session [OF session_of_more])

lemma session_clock [simp]: "sm_session (snd (read_clock lib m)) = sm_session m"
  by (simp add: read_clock_def split: prod.splits)

lemma view_on_mux: "mux_view lib (f (hb_mux h)) = mux_view lib (hb_mux h) \<Longrightarrow> hub_view lib (on_mux f h) = hub_view lib h"
  by (simp add: hub_view_def on_mux_def)

lemma view_reserve:
  assumes "quiet_calls lib"
  shows "mux_view lib (snd (reserveSequence lib m)) = mux_view lib m"
proof -
  obtain s n where "ml_reserve lib (s_node (sm_session m)) = (s, n)" by fastforce
  moreover have "nd_state (ml_node lib) (snd (ml_reserve lib (s_node (sm_session m)))) =
      nd_state (ml_node lib) (s_node (sm_session m))"
    using assms by (simp add: quiet_calls_def)
  ultimately show ?thesis by (simp add: reserveSequence_def mux_view_def)
qed

lemma view_encodeOwn:
  assumes "quiet_calls lib"
  shows "mux_view lib (snd (encodeOwnFrame lib type objectId payload cap src m)) = mux_view lib m"
proof -
  obtain s a where r: "reserveSequence lib m = (s, a)" by fastforce
  obtain t b where c: "read_clock lib a = (t, b)" by fastforce
  have "mux_view lib a = mux_view lib m" using view_reserve [OF assms, of m] r by simp
  moreover have "mux_view lib b = mux_view lib a" using session_clock [of lib a] c by (simp add: mux_view_def)
  ultimately show ?thesis using r c by (cases s) (simp_all add: encodeOwnFrame_def Let_def case_prod_beta)
qed

lemma view_enqueueOwn:
  assumes "quiet_calls lib"
  shows "mux_view lib (snd (enqueueOwn lib type objectId payload src m)) = mux_view lib m"
proof -
  obtain f a where e: "encodeOwnFrame lib type objectId payload (kMaxFrameBytes lib) src m = (f, a)" by fastforce
  have "mux_view lib a = mux_view lib m" using view_encodeOwn [OF assms] e by (metis snd_conv)
  moreover have "mux_view lib (snd (enqueueFrameBytes lib c frame a)) = mux_view lib a" for c frame
    by (rule view_more) simp
  ultimately show ?thesis using e by (cases f) (simp_all add: enqueueOwn_def)
qed

lemma view_send_chunks: "quiet_calls lib \<Longrightarrow> mux_view lib (send_chunks lib out m) = mux_view lib m"
proof (induction lib out m rule: send_chunks.induct)
  case (1 lib out m)
  show ?case
  proof (cases "out = []")
    case True
    then show ?thesis by (simp add: send_chunks.simps [of lib "[]" m])
  next
    case False
    then show ?thesis using 1 by (simp add: send_chunks.simps [of lib out m] view_enqueueOwn)
  qed
qed

lemma view_flush: "quiet_calls lib \<Longrightarrow> mux_view lib (flushTerminalPtyOutput lib m) = mux_view lib m"
  using view_send_chunks [of lib "sm_terminalOut m" m] by (simp add: flushTerminalPtyOutput_def mux_view_def)

lemma view_replyCommand: "quiet_calls lib \<Longrightarrow> mux_view lib (mux_replyCommandResult lib rh a v s c msg m) = mux_view lib m"
  by (simp add: mux_replyCommandResult_def Let_def view_enqueueOwn)

lemma provider_local [simp]:
  "pb_snapshotProvider (onLocalSubscribe t r p) = pb_snapshotProvider p"
  "pb_snapshotProvider (onLocalUnsubscribe t p) = pb_snapshotProvider p"
  by (simp_all add: onLocalSubscribe_def onLocalUnsubscribe_def)

lemma action_frame [simp]:
  "hb_mux (dispatchUpstreamAction lib action h) = hb_mux h"
  "hb_subs (dispatchUpstreamAction lib action h) = hb_subs h"
  "hb_bindings (dispatchUpstreamAction lib action h) = hb_bindings h"
  "pb_snapshotProvider (hb_publisher (dispatchUpstreamAction lib action h)) = pb_snapshotProvider (hb_publisher h)"
  by (simp_all add: dispatchUpstreamAction_def split: upstream_kind.splits)

lemma actions_frame [simp]:
  "hb_mux (dispatchUpstreamActions lib actions h) = hb_mux h"
  "hb_subs (dispatchUpstreamActions lib actions h) = hb_subs h"
  "pb_snapshotProvider (hb_publisher (dispatchUpstreamActions lib actions h)) = pb_snapshotProvider (hb_publisher h)"
  unfolding dispatchUpstreamActions_def by (induction actions arbitrary: h) simp_all

lemma client_gone_frame [simp]:
  "hb_mux (client_gone lib now h) = hb_mux h"
  "pb_snapshotProvider (hb_publisher (client_gone lib now h)) = pb_snapshotProvider (hb_publisher h)"
  by (simp_all add: client_gone_def split: prod.splits)

lemma view_relayDown: "hub_view lib (snd (relayDown lib decoded h)) = hub_view lib h"
proof -
  obtain v w where "snd (relayDown lib decoded h) = on_mux (\<lambda>m. count_relay v (m\<lparr>sm_world := w\<rparr>)) h"
    using relayDown_effect [of lib decoded h] unfolding relay_effect_def by blast
  moreover have "mux_view lib (count_relay v (m\<lparr>sm_world := w\<rparr>)) = mux_view lib m" for m
    by (cases v) (simp_all add: mux_view_def)
  ultimately show ?thesis by (simp add: view_on_mux)
qed

lemma hub_view_cong:
  "mux_view lib (hb_mux h) = mux_view lib (hb_mux h') \<Longrightarrow>
   pb_snapshotProvider (hb_publisher h) = pb_snapshotProvider (hb_publisher h') \<Longrightarrow> hub_view lib h = hub_view lib h'"
  by (simp add: hub_view_def)

lemma run_line_view: "quiet_calls lib \<Longrightarrow> hub_view lib (snd (ml_run_line lib line a b h)) = hub_view lib h"
  by (simp add: quiet_calls_def)

lemma view_commandRequest:
  assumes q: "quiet_calls lib"
  shows "hub_view lib (handleCommandRequest lib decoded h) = hub_view lib h"
proof -
  have reply: "hub_view lib (on_mux (mux_replyCommandResult lib rh a v s c msg) g) = hub_view lib g" for rh a v s c msg g
    by (rule view_on_mux) (rule view_replyCommand [OF q])
  show ?thesis
    by (simp add: handleCommandRequest_def Let_def case_prod_beta view_relayDown reply run_line_view [OF q] split: option.splits)
qed

lemma view_terminalIn: "hub_view lib (handleTerminalIn lib decoded h) = hub_view lib h"
proof -
  have "hub_view lib (on_mux (\<lambda>m. m\<lparr>sm_terminalShell := e m\<rparr>) h) = hub_view lib h" for e
    by (rule view_on_mux) (simp add: mux_view_def)
  then show ?thesis by (simp add: handleTerminalIn_def view_relayDown)
qed

lemma own_view: "quiet_calls lib \<Longrightarrow> hub_view lib (on_mux (\<lambda>m. snd (enqueueOwn lib t ob p src m)) g) = hub_view lib g"
  by (rule view_on_mux) (rule view_enqueueOwn)

lemma action_view: "hub_view lib (dispatchUpstreamAction lib a g) = hub_view lib g"
  by (simp add: hub_view_def)

lemma clock_view: "hub_view lib (h\<lparr>hb_mux := snd (read_clock lib (hb_mux h)), hb_subs := x\<rparr>) = hub_view lib h"
  by (simp add: hub_view_def mux_view_def)

lemma view_manifestRequest:
  assumes q: "quiet_calls lib"
  shows "hub_view lib (handleManifestRequest lib decoded h) = hub_view lib h"
proof -
  note own = own_view [OF q]
  have "hub_view lib (answer_index lib header i g) = hub_view lib g" for header i g
    by (simp add: answer_index_def Let_def own)
  then have loop: "hub_view lib (fold (answer_index lib header) is g) = hub_view lib g" for header "is" g
    by (induction "is" arbitrary: g) simp_all
  have man: "hub_view lib (g\<lparr>hb_manifests := x\<rparr>) = hub_view lib g" for g x by (simp add: hub_view_def)
  show ?thesis
    by (simp add: handleManifestRequest_def Let_def loop own man split: option.splits prod.splits)
qed

lemma view_subscribeRequest:
  assumes q: "quiet_calls lib"
  shows "hub_view lib (handleSubscribeRequest lib decoded h) = hub_view lib h"
proof -
  note own = own_view [OF q]
  have reply: "hub_view lib (reply_subscribe lib header s c i r l g) = hub_view lib g" for header s c i r l g
    by (simp add: reply_subscribe_def own split: option.splits)
  show ?thesis
    by (simp add: handleSubscribeRequest_def Let_def reply action_view clock_view view_relayDown case_prod_beta split: option.splits)
qed

lemma view_unsubscribeRequest:
  assumes q: "quiet_calls lib"
  shows "hub_view lib (handleUnsubscribeRequest lib decoded h) = hub_view lib h"
proof -
  note own = own_view [OF q]
  show ?thesis
    by (simp add: handleUnsubscribeRequest_def Let_def own action_view clock_view view_relayDown case_prod_beta split: option.splits)
qed

section \<open>The tick of the publisher\<close>

text \<open>What the emit callback and the provider keep of the world, a tick keeps.\<close>

lemma emit_packed_keeps:
  assumes "\<And>t bs e. P e \<Longrightarrow> P (snd (emit t bs e))" and "P e"
  shows "P (fst (snd (emit_packed src t packed emit (e, reg))))"
proof -
  have "P (fst (snd (publish src t bs emit (e, reg))))" for bs
    using assms(1) [OF assms(2), of t bs] by (simp add: publish_def case_prod_beta)
  then show ?thesis using assms(2) by (auto simp: emit_packed_def case_prod_beta split: option.splits)
qed

lemma tick_parts_keep:
  assumes emit: "\<And>t bs e. P e \<Longrightarrow> P (snd (emit t bs e))" and st: "P (fst st)"
  shows "P (fst (snd (snd (tick_link src now emit snap s st))))"
    and "P (fst (snd (snd (tick_usb src now emit snap s st))))"
    and "P (fst (snd (snd (tick_peers src now emit snap s st))))"
  using emit_packed_keeps [of P emit "fst st" src _ _ "snd st", OF emit st] st
  by (simp_all add: tick_link_def tick_usb_def tick_peers_def Let_def case_prod_beta)

lemma tick_parts_provider:
  "pb_snapshotProvider (fst (snd (tick_link src now emit snap s st))) = pb_snapshotProvider s"
  "pb_snapshotProvider (fst (snd (tick_usb src now emit snap s st))) = pb_snapshotProvider s"
  "pb_snapshotProvider (fst (snd (tick_peers src now emit snap s st))) = pb_snapshotProvider s"
  by (simp_all add: tick_link_def tick_usb_def tick_peers_def Let_def case_prod_beta)

lemma tick_keeps:
  assumes emit: "\<And>t bs e. P e \<Longrightarrow> P (snd (emit t bs e))" and st: "P (fst st)"
    and provider: "\<And>f e. pb_snapshotProvider s = Some f \<Longrightarrow> P e \<Longrightarrow> P (snd (f e))"
  shows "P (fst (snd (snd (Dongle_Publisher.tick src now (Some emit) s st)))) \<and>
    pb_snapshotProvider (fst (snd (Dongle_Publisher.tick src now (Some emit) s st))) = pb_snapshotProvider s"
proof (cases "pb_snapshotProvider s")
  case None
  then show ?thesis using st by (simp add: Dongle_Publisher.tick_def)
next
  case (Some f)
  have p: "P (snd (f (fst st)))" by (rule provider [OF Some st])
  obtain snap e where f: "f (fst st) = (snap, e)" by fastforce
  obtain n1 s1 st1 where t1: "tick_link src now emit snap s (e, snd st) = (n1, s1, st1)" by (metis prod_cases3)
  obtain n2 s2 st2 where t2: "tick_usb src now emit snap s1 st1 = (n2, s2, st2)" by (metis prod_cases3)
  obtain n3 s3 st3 where t3: "tick_peers src now emit snap s2 st2 = (n3, s3, st3)" by (metis prod_cases3)
  have e: "P (fst (e, snd st))" using p f by simp
  have "P (fst (snd (snd (tick_link src now emit snap s (e, snd st)))))"
    by (rule tick_parts_keep(1)) (rule emit, assumption, rule e)
  then have P1: "P (fst st1)" by (simp add: t1)
  have "P (fst (snd (snd (tick_usb src now emit snap s1 st1))))"
    by (rule tick_parts_keep(2)) (rule emit, assumption, rule P1)
  then have P2: "P (fst st2)" by (simp add: t2)
  have "P (fst (snd (snd (tick_peers src now emit snap s2 st2))))"
    by (rule tick_parts_keep(3)) (rule emit, assumption, rule P2)
  then have P3: "P (fst st3)" by (simp add: t3)
  have "pb_snapshotProvider s1 = pb_snapshotProvider s" "pb_snapshotProvider s2 = pb_snapshotProvider s1"
    "pb_snapshotProvider s3 = pb_snapshotProvider s2"
    using tick_parts_provider t1 t2 t3 by (metis fst_conv snd_conv)+
  then show ?thesis using Some P3 st f t1 t2 t3 by (simp add: Dongle_Publisher.tick_def)
qed

lemma view_publisher_tick:
  assumes q: "quiet_calls lib" and r: "reads_only lib (pb_snapshotProvider (hb_publisher h))"
  shows "hub_view lib (publisher_tick lib now h) = hub_view lib h"
proof -
  let ?P = "\<lambda>e. mux_view lib (fst e) = mux_view lib (hb_mux h)"
  have "?P (snd (emitOwnTelemetry lib t bs e))" if "?P e" for t bs e
    using that view_enqueueOwn [OF q, of MtTelemetry t bs 0 "fst e"] by (simp add: emitOwnTelemetry_def case_prod_beta)
  moreover have "?P (snd (f e))" if "pb_snapshotProvider (hb_publisher h) = Some f" "?P e" for f e
    using r that unfolding reads_only_def by metis
  ultimately show ?thesis
    using tick_keeps [where P = ?P and emit = "emitOwnTelemetry lib" and s = "hb_publisher h"
        and st = "((hb_mux h, hb_peers h), hb_subs h)" and src = "sourceId lib (hb_mux h)" and now = now]
    by (simp add: publisher_tick_def case_prod_beta hub_view_def)
qed

section \<open>The shell of the terminal\<close>

lemma view_poll_loop: "quiet_calls lib \<Longrightarrow> hub_view lib (poll_loop lib n h) = hub_view lib h"
proof (induction n arbitrary: h)
  case (Suc n)
  obtain line m where p: "editor_poll lib (hb_mux h) = (line, m)" by fastforce
  then have "sm_session m = sm_session (hb_mux h)" by (auto simp: editor_poll_def split: prod.splits)
  then have m: "hub_view lib (h\<lparr>hb_mux := m\<rparr>) = hub_view lib h" by (simp add: hub_view_def mux_view_def)
  have answer: "hub_view lib (on_mux (editor_answer lib full) g) = hub_view lib g" for full g
    by (rule view_on_mux) (simp add: editor_answer_def case_prod_beta mux_view_def)
  show ?case
  proof (cases line)
    case None
    then show ?thesis using p m by simp
  next
    case (Some l)
    show ?thesis
      using p m Some Suc.IH [OF Suc.prems] run_line_view [OF Suc.prems] by (simp add: case_prod_beta answer)
  qed
qed simp

lemma view_pumpTerminal: "quiet_calls lib \<Longrightarrow> hub_view lib (pumpTerminalShell lib h) = hub_view lib h"
  unfolding pumpTerminalShell_def by (subst view_on_mux) (simp_all only: view_flush view_poll_loop)

lemma view_heartbeat: "quiet_calls lib \<Longrightarrow> hub_view lib (maybeSendStatusHeartbeat lib now h) = hub_view lib h"
proof -
  assume q: "quiet_calls lib"
  have "mux_view lib (snd (read_clock lib ((hb_mux h)\<lparr>sm_lastStatusMs := now\<rparr>))) = mux_view lib (hb_mux h)"
    by (simp add: mux_view_def)
  then show ?thesis
    by (simp add: maybeSendStatusHeartbeat_def Let_def case_prod_beta hub_view_def view_enqueueOwn [OF q])
qed

lemma view_sweep: "hub_view lib (sweep_leases lib now h) = hub_view lib h"
  by (simp add: sweep_leases_def case_prod_beta hub_view_def)

section \<open>The console gets a clean port\<close>

definition clean :: "('p, 'n, 'd, 'e, 'w) hub \<Rightarrow> bool" where
  "clean h \<longleftrightarrow> (\<forall>c. queue_of (hb_mux h) c = []) \<and> unsent (hb_mux h) = [] \<and> sm_terminalOut (hb_mux h) = []"

definition idle_view :: "('p, 'n, 'd, 'e, 'w, 'c, 'x) mux_lib \<Rightarrow> ('p, 'n, 'd, 'e, 'w) hub \<Rightarrow> bool" where
  "idle_view lib h \<longleftrightarrow> mux_view lib (hb_mux h) = (False, SsIdle)"

lemma isConsole_iff: "isConsole lib h \<longleftrightarrow> idle_view lib h"
  by (auto simp: isConsole_def idle_view_def mux_view_def session_state_def split: session_state.splits)

lemma idle_cong: "hub_view lib h = hub_view lib g \<Longrightarrow> isConsole lib h = isConsole lib g"
  by (simp add: isConsole_iff idle_view_def hub_view_def)

lemma console_text: "\<exists>p. writeConsoleText lib txt m = m\<lparr>mw_port := p\<rparr>"
  by (cases "mw_io m") (auto simp: writeConsoleText_def writeAll_def split: prod.splits intro: exI [of _ "mw_port m"])

lemma queue_of_reset [simp]: "queue_of (resetQueues m) c = []"
  by (cases "mw_queues m c") (simp_all add: resetQueues_def resetPendingWireFrame_def queue_of_def)

lemma unsent_reset [simp]: "unsent (resetQueues m) = []"
  by (simp add: resetQueues_def resetPendingWireFrame_def noPendingWire_def unsent_def)

lemma discarded:
  "queue_of ((resetQueues m)\<lparr>mw_port := p\<rparr>) c = [] \<and> unsent ((resetQueues m)\<lparr>mw_port := p\<rparr>) = []"
  using queue_of_reset [of m c] unsent_reset [of m] by (simp add: queue_of_def unsent_def)

lemma discard_input_frame [simp]:
  "queue_of (discard_input lib m) c = queue_of m c" "unsent (discard_input lib m) = unsent m"
  "sm_terminalOut (discard_input lib m) = []" "sm_session (discard_input lib m) = sm_session m"
  by (simp_all add: discard_input_def queue_of_def unsent_def)

lemma finalize_clean: "clean (finalizeToConsole lib frame line h)"
proof -
  have "\<exists>m p. hb_mux (finalizeToConsole lib frame line h) = discard_input lib ((resetQueues m)\<lparr>mw_port := p\<rparr>)"
  proof -
    let ?m = "snd (read_clock lib (if frame \<noteq> [] then writeFrameCobs lib frame (hb_mux h) else hb_mux h))"
    obtain p where "writeConsoleText lib line (resetQueues ?m) = (resetQueues ?m)\<lparr>mw_port := p\<rparr>"
      using console_text [of lib line "resetQueues ?m"] by (elim exE)
    moreover have "hb_mux (finalizeToConsole lib frame line h) =
        discard_input lib (writeConsoleText lib line (resetQueues ?m))"
      by (simp add: finalizeToConsole_def Let_def case_prod_beta on_mux_def)
    ultimately show ?thesis by (intro exI) simp
  qed
  then show ?thesis by (auto simp: clean_def discarded)
qed

lemma expired_clean: "clean (session_expired lib was line now h)"
proof -
  have "\<exists>m p. hb_mux (session_expired lib was line now h) = discard_input lib ((resetQueues m)\<lparr>mw_port := p\<rparr>)"
  proof -
    obtain p where "writeConsoleText lib line (resetQueues (hb_mux h)) = (resetQueues (hb_mux h))\<lparr>mw_port := p\<rparr>"
      using console_text [of lib line "resetQueues (hb_mux h)"] by (elim exE)
    then show ?thesis by (cases "mw_io (hb_mux h)") (auto simp: session_expired_def on_mux_def Let_def)
  qed
  then show ?thesis by (auto simp: clean_def discarded)
qed

lemma lost_clean:
  assumes "onTransportLost (ml_node lib) (sm_session (hb_mux h)) = (True, s)"
  shows "clean (mux_onTransportLost lib now h)"
  using assms by (simp add: mux_onTransportLost_def clean_def on_mux_def Let_def)

text \<open>A frame that ends the session is one the node reported.\<close>

lemma onFrame_ends:
  assumes e: "ends_with_event lib" and f: "onFrame (ml_node lib) frame t s = (result, s')"
    and alive: "s_timeoutLatched s \<or> nd_state (ml_node lib) (s_node s) \<noteq> SsIdle"
    and gone: "\<not> s_timeoutLatched s'" "nd_state (ml_node lib) (s_node s') = SsIdle"
  shows "fr_outcome result = FoHelloRejected \<or> fr_outcome result = FoSessionClosed"
proof -
  obtain rx msg sent node where r: "nd_receive (ml_node lib) send_accepts frame t (s_node s) = (rx, msg, sent, node)"
    by (metis prod_cases4)
  have keep: "s_timeoutLatched (fold session_send sent u) = s_timeoutLatched u \<and> s_node (fold session_send sent u) = s_node u" for u
    by (induction sent arbitrary: u) (simp_all add: session_send_def)
  let ?s = "fold session_send sent (s\<lparr>s_pendingFrameSize := 0, s_node := node\<rparr>)"
  have s: "s_timeoutLatched ?s = s_timeoutLatched s" "s_node ?s = node" by (simp_all add: keep)
  have out: "(result, s') = (case rx of NrSessionHandled \<Rightarrow>
        (case nd_session_event (ml_node lib) node of
           SeTimedOut \<Rightarrow> (FrameResult, ?s\<lparr>s_timeoutLatched := True\<rparr>)
         | SeHelloAccepted \<Rightarrow> (FrameResult\<lparr>fr_outcome := FoHelloAccepted\<rparr>, ?s)
         | SeHelloRejected \<Rightarrow> (FrameResult\<lparr>fr_outcome := FoHelloRejected, fr_consoleTransition := True,
             fr_consoleLine := buildConsoleLine (fr_consoleLine FrameResult)\<rparr>, ?s)
         | SeSessionClosed \<Rightarrow> (FrameResult\<lparr>fr_outcome := FoSessionClosed, fr_consoleTransition := True,
             fr_consoleLine := buildConsoleLine (fr_consoleLine FrameResult)\<rparr>, ?s)
         | _ \<Rightarrow> (FrameResult, ?s))
      | NrComplete \<Rightarrow> (FrameResult\<lparr>fr_outcome := classifyProtocolObject msg\<rparr>, ?s)
      | _ \<Rightarrow> (FrameResult, ?s))"
    using f by (cases rx; cases "nd_session_event (ml_node lib) node") (simp_all add: onFrame_def Let_def r s(2))
  have node: "s_node s' = node" and latch: "s_timeoutLatched s \<Longrightarrow> s_timeoutLatched s'"
    using out s by (auto split: node_rx.splits session_event.splits)
  have "nd_state (ml_node lib) (s_node s) \<noteq> SsIdle" using alive gone latch by blast
  then have rx: "rx = NrSessionHandled"
    and ev: "nd_session_event (ml_node lib) node \<in> {SeHelloRejected, SeSessionClosed, SeTimedOut}"
    using e r gone(2) node unfolding ends_with_event_def by blast+
  have "nd_session_event (ml_node lib) node \<noteq> SeTimedOut" using out rx gone(1) by auto
  then show ?thesis using out rx ev by auto
qed

lemma view_greeting: "quiet_calls lib \<Longrightarrow> mux_view lib (terminal_greeting lib m) = mux_view lib m"
  by (simp add: terminal_greeting_def case_prod_beta view_flush) (simp add: mux_view_def)

lemma finalize_provider: "pb_snapshotProvider (hb_publisher (finalizeToConsole lib frame line h)) = pb_snapshotProvider (hb_publisher h)"
  by (simp add: finalizeToConsole_def Let_def case_prod_beta on_mux_def)

lemma provider_view: "hub_view lib h = hub_view lib g \<Longrightarrow> pb_snapshotProvider (hb_publisher h) = pb_snapshotProvider (hb_publisher g)"
  by (simp add: hub_view_def)

text \<open>The frame ends the session, or the handler it goes to leaves the session alone.\<close>

lemma dispatch_cases:
  assumes q: "quiet_calls lib"
    and f: "onFrame (ml_node lib) (btp_header.truncate (fst decoded), snd decoded) (ucast now) (sm_session (hb_mux h)) = (result, session)"
  shows "hub_view lib (dispatchFrame lib decoded now h) = hub_view lib h \<or>
    (fr_outcome result \<in> {FoHelloRejected, FoSessionClosed} \<and> clean (dispatchFrame lib decoded now h) \<and>
       pb_snapshotProvider (hb_publisher (dispatchFrame lib decoded now h)) = pb_snapshotProvider (hb_publisher h)) \<or>
    (fr_outcome result \<notin> {FoHelloRejected, FoSessionClosed} \<and>
       hub_view lib (dispatchFrame lib decoded now h) = hub_view lib (on_mux (\<lambda>m. m\<lparr>sm_session := session\<rparr>) h))"
proof (cases "hd_flags (fst decoded) AND co_flag_fragmented (ml_codec lib) = 0")
  case False
  then have "hub_view lib (dispatchFrame lib decoded now h) = hub_view lib h"
    by (simp add: dispatchFrame_def hub_view_def on_mux_def mux_view_def)
  then show ?thesis ..
next
  case True
  let ?seen = "on_mux (\<lambda>m. m\<lparr>sm_session := session\<rparr>) h"
  have provider: "pb_snapshotProvider (hb_publisher ?seen) = pb_snapshotProvider (hb_publisher h)" by (simp add: on_mux_def)
  have hello: "hub_view lib (on_mux (\<lambda>m. terminal_greeting lib
      ((snd (enqueueFrameBytes lib c frame m))\<lparr>sm_lastStatusMs := now\<rparr>)) g) = hub_view lib g" for c frame g
    by (rule view_on_mux) (simp add: view_greeting [OF q], simp add: mux_view_def)
  note handlers = view_commandRequest [OF q] view_terminalIn view_manifestRequest [OF q]
    view_subscribeRequest [OF q] view_unsubscribeRequest [OF q]
  show ?thesis
    by (cases "fr_outcome result")
      (simp_all add: dispatchFrame_def True f Let_def finalize_clean finalize_provider provider handlers hello)
qed

definition polite :: "('p, 'n, 'd, 'e, 'w, 'c, 'x) mux_lib \<Rightarrow> ('p, 'n, 'd, 'e, 'w) hub \<Rightarrow> bool" where
  "polite lib h \<longleftrightarrow> (isConsole lib h \<longrightarrow> clean h) \<and> reads_only lib (pb_snapshotProvider (hb_publisher h))"

lemma politeI: "hub_view lib g = hub_view lib h \<Longrightarrow> \<not> isConsole lib h \<Longrightarrow> polite lib h \<Longrightarrow> polite lib g"
  using idle_cong [of lib g h] provider_view [of lib g h] by (simp add: polite_def)

lemma dispatch_polite:
  assumes q: "quiet_calls lib" and e: "ends_with_event lib" and p: "polite lib h" and busy: "\<not> isConsole lib h"
  shows "polite lib (dispatchFrame lib decoded now h)"
proof -
  obtain result session where f: "onFrame (ml_node lib) (btp_header.truncate (fst decoded), snd decoded) (ucast now)
      (sm_session (hb_mux h)) = (result, session)" by fastforce
  let ?seen = "on_mux (\<lambda>m. m\<lparr>sm_session := session\<rparr>) h"
  from dispatch_cases [OF q f] consider
      (same) "hub_view lib (dispatchFrame lib decoded now h) = hub_view lib h"
    | (ended) "clean (dispatchFrame lib decoded now h)"
        "pb_snapshotProvider (hb_publisher (dispatchFrame lib decoded now h)) = pb_snapshotProvider (hb_publisher h)"
    | (handled) "fr_outcome result \<notin> {FoHelloRejected, FoSessionClosed}"
        "hub_view lib (dispatchFrame lib decoded now h) = hub_view lib ?seen"
    by blast
  then show ?thesis
  proof cases
    case same
    then show ?thesis using busy p by (rule politeI)
  next
    case ended
    then show ?thesis using p by (simp add: polite_def)
  next
    case handled
    have "\<not> idle_view lib ?seen"
    proof
      assume "idle_view lib ?seen"
      then have gone: "\<not> s_timeoutLatched session" "nd_state (ml_node lib) (s_node session) = SsIdle"
        by (simp_all add: idle_view_def mux_view_def on_mux_def)
      have "s_timeoutLatched (sm_session (hb_mux h)) \<or> nd_state (ml_node lib) (s_node (sm_session (hb_mux h))) \<noteq> SsIdle"
        using busy by (auto simp: isConsole_iff idle_view_def mux_view_def)
      from onFrame_ends [OF e f this gone] handled(1) show False by blast
    qed
    then have "\<not> isConsole lib ?seen" by (simp add: isConsole_iff)
    moreover have "polite lib ?seen" using p calculation by (simp add: polite_def on_mux_def)
    ultimately show ?thesis using handled(2) by (blast intro: politeI)
  qed
qed

lemma neutral_polite:
  assumes "\<And>m. sm_session (f m) = sm_session m" and "polite lib h" and "\<not> isConsole lib h"
  shows "polite lib (on_mux f h) \<and> \<not> isConsole lib (on_mux f h)"
proof -
  have v: "hub_view lib (on_mux f h) = hub_view lib h" by (rule view_on_mux) (simp add: mux_view_def assms(1))
  show ?thesis using politeI [OF v assms(3,2)] idle_cong [OF v] assms(3) by simp
qed

lemma rx_step_polite:
  assumes q: "quiet_calls lib" and e: "ends_with_event lib" and p: "polite lib h" and busy: "\<not> isConsole lib h"
  shows "polite lib (snd (rx_event_step lib now event h))"
proof -
  note same = neutral_polite [OF _ p busy]
  show ?thesis
  proof (cases event)
    case (DeFrame decoded)
    then show ?thesis using same [of "\<lambda>m. m\<lparr>sm_framesRx := sm_framesRx m + 1\<rparr>"] dispatch_polite [OF q e]
      by (simp add: rx_event_step_def)
  next
    case (DeFrameError error)
    then show ?thesis
      using same [of "\<lambda>m. if error = BeCrcMismatch then m\<lparr>sm_crcErrors := sm_crcErrors m + 1\<rparr>
          else m\<lparr>sm_decodeErrors := sm_decodeErrors m + 1\<rparr>"] by (simp add: rx_event_step_def)
  qed (use same [of "\<lambda>m. m\<lparr>sm_decodeErrors := sm_decodeErrors m + 1\<rparr>"] p in \<open>simp_all add: rx_event_step_def\<close>)
qed

lemma rx_loop_polite:
  assumes q: "quiet_calls lib" and e: "ends_with_event lib"
  shows "polite lib h \<Longrightarrow> \<not> isConsole lib h \<Longrightarrow> polite lib (rx_loop lib now n h)"
proof (induction n arbitrary: h)
  case (Suc n)
  show ?case
  proof (cases "ml_available lib (mw_port (hb_mux h))")
    case False
    then show ?thesis using Suc.prems by simp
  next
    case True
    obtain octet p where r: "ml_read lib (mw_port (hb_mux h)) = (octet, p)" by fastforce
    note same = neutral_polite [OF _ Suc.prems]
    show ?thesis
    proof (cases octet)
      case None
      then show ?thesis using True r same [of "\<lambda>m. m\<lparr>mw_port := p\<rparr>"] by simp
    next
      case (Some b)
      obtain event d where d: "dc_push (ml_decoder lib) b (sm_decoder (hb_mux h)) = (event, d)" by fastforce
      let ?h = "on_mux (\<lambda>m. m\<lparr>mw_port := p, sm_decoder := d\<rparr>) h"
      obtain leave g where g: "rx_event_step lib now event ?h = (leave, g)" by fastforce
      have "polite lib ?h \<and> \<not> isConsole lib ?h" by (rule same) simp
      then have "polite lib g" using rx_step_polite [OF q e, of ?h now event] g by simp
      then show ?thesis using True r Some d g Suc.IH by simp
    qed
  qed
qed simp

lemma poll_view:
  assumes e: "ends_with_event lib" and p: "pollTimeout (ml_node lib) t buf s = (expired, line, s')"
    and alive: "s_timeoutLatched s \<or> nd_state (ml_node lib) (s_node s) \<noteq> SsIdle" and going: "\<not> expired"
  shows "\<not> (\<not> s_timeoutLatched s' \<and> nd_state (ml_node lib) (s_node s') = SsIdle)"
proof
  assume gone: "\<not> s_timeoutLatched s' \<and> nd_state (ml_node lib) (s_node s') = SsIdle"
  have l: "\<not> s_timeoutLatched s" using p going by (auto simp: pollTimeout_def)
  obtain ev sent node where t: "nd_tick (ml_node lib) send_accepts t (s_node s) = (ev, sent, node)" by (metis prod_cases3)
  have keep: "s_node (fold session_send sent u) = s_node u" for u :: "'b session"
    by (induction sent arbitrary: u) (simp_all add: session_send_def)
  have "ev \<noteq> SeTimedOut" and "s_node s' = node"
    using p going l t by (auto simp: pollTimeout_def Let_def keep split: if_splits)
  moreover have "nd_state (ml_node lib) (s_node s) \<noteq> SsIdle" using alive l by simp
  ultimately show False using e t gone unfolding ends_with_event_def by blast
qed

text \<open>Between two calls no expired session waits to be reported.\<close>

definition settled :: "('p, 'n, 'd, 'e, 'w, 'c, 'x) mux_lib \<Rightarrow> ('p, 'n, 'd, 'e, 'w) hub \<Rightarrow> bool" where
  "settled lib h \<longleftrightarrow> polite lib h \<and> \<not> s_timeoutLatched (sm_session (hb_mux h))"

lemma latched_view: "hub_view lib h = hub_view lib g \<Longrightarrow>
    s_timeoutLatched (sm_session (hb_mux h)) = s_timeoutLatched (sm_session (hb_mux g))"
  by (simp add: hub_view_def mux_view_def)

lemma console_settled: "isConsole lib h \<Longrightarrow> \<not> s_timeoutLatched (sm_session (hb_mux h))"
  by (simp add: isConsole_iff idle_view_def mux_view_def)

lemma busy_settled: "settled lib h \<Longrightarrow> \<not> isConsole lib h \<Longrightarrow> hub_view lib g = hub_view lib h \<Longrightarrow> settled lib g"
  using politeI [of lib g h] latched_view [of lib g h] by (simp add: settled_def)

lemma poll_latch: "pollTimeout api t buf s = (expired, line, s') \<Longrightarrow> \<not> s_timeoutLatched s'"
proof -
  assume p: "pollTimeout api t buf s = (expired, line, s')"
  have keep: "s_timeoutLatched (fold session_send sent u) = s_timeoutLatched u" for sent and u :: "'a session"
    by (induction sent arbitrary: u) (simp_all add: session_send_def)
  show ?thesis
    using p by (auto simp: pollTimeout_def Let_def keep split: if_splits prod.splits)
qed

lemma tick_settled:
  assumes q: "quiet_calls lib" and e: "ends_with_event lib" and p: "polite lib h"
  shows "settled lib (mux_tick lib now h)"
proof (cases "isConsole lib h")
  case True
  then show ?thesis using p console_settled [OF True] by (simp add: mux_tick_def settled_def)
next
  case busy: False
  define h1 where "h1 = on_mux (\<lambda>m. m\<lparr>sm_session := setLocalConfigRevision (ml_node lib) (co_gateway (ml_codec lib))
      (mc_catalogRevision (hb_manifests h)) (sm_session m)\<rparr>) h"
  define h2 where "h2 = pumpRx lib now h1"
  have v1: "hub_view lib h1 = hub_view lib h"
    unfolding h1_def by (rule view_on_mux)
      (use q in \<open>simp add: mux_view_def setLocalConfigRevision_def refreshLocalHello_def Let_def quiet_calls_def\<close>)
  have "polite lib h1" "\<not> isConsole lib h1" using politeI [OF v1 busy p] idle_cong [OF v1] busy by simp_all
  then have p2: "polite lib h2" using rx_loop_polite [OF q e] by (simp add: h2_def pumpRx_def)
  show ?thesis
  proof (cases "isConsole lib h2")
    case True
    then show ?thesis using p2 busy console_settled [OF True]
      by (simp add: mux_tick_def Let_def h1_def [symmetric] h2_def [symmetric] settled_def)
  next
    case busy2: False
    obtain expired line s where t: "pollTimeout (ml_node lib) (ucast now) (replicate kConsoleLineCapacity NUL)
        (sm_session (hb_mux h2)) = (expired, line, s)" by (metis prod_cases3)
    let ?h3 = "on_mux (\<lambda>m. m\<lparr>sm_session := s\<rparr>) h2"
    have out: "mux_tick lib now h =
        (if expired then session_expired lib (isProtocolled lib h2) line now ?h3
         else if isProtocolled lib ?h3 then on_mux (drainTx lib) (publisher_tick lib now (sweep_leases lib now
             (maybeSendStatusHeartbeat lib now (pumpTerminalShell lib ?h3))))
         else ?h3)"
      using busy busy2 by (simp add: mux_tick_def Let_def h1_def [symmetric] h2_def [symmetric] t)
    have provider: "pb_snapshotProvider (hb_publisher ?h3) = pb_snapshotProvider (hb_publisher h2)" by (simp add: on_mux_def)
    show ?thesis
    proof (cases expired)
      case True
      have keep: "sm_session (hb_mux (session_expired lib was line now g)) = sm_session (hb_mux g)"
          "pb_snapshotProvider (hb_publisher (session_expired lib was line now g)) = pb_snapshotProvider (hb_publisher g)" for was g
        by (simp_all add: session_expired_def on_mux_def Let_def)
      show ?thesis using p2 provider poll_latch [OF t] True
        by (simp add: out settled_def polite_def expired_clean keep) (simp add: on_mux_def)
    next
      case going: False
      have "\<not> isConsole lib ?h3"
        using poll_view [OF e t _ going] busy2 by (auto simp: isConsole_iff idle_view_def mux_view_def on_mux_def)
      moreover from this have p3: "polite lib ?h3" using p2 provider by (simp add: polite_def)
      moreover
      let ?g = "sweep_leases lib now (maybeSendStatusHeartbeat lib now (pumpTerminalShell lib ?h3))"
      have v: "hub_view lib ?g = hub_view lib ?h3"
        by (simp only: view_sweep view_heartbeat [OF q] view_pumpTerminal [OF q])
      have "reads_only lib (pb_snapshotProvider (hb_publisher ?g))"
        using p3 provider_view [OF v] by (simp add: polite_def)
      then have "hub_view lib (on_mux (drainTx lib) (publisher_tick lib now ?g)) = hub_view lib ?h3"
        by (subst view_on_mux) (simp_all only: view_publisher_tick [OF q] v more_drainTx [THEN view_more])
      moreover have "settled lib ?h3" using p3 poll_latch [OF t] by (simp add: settled_def on_mux_def)
      ultimately show ?thesis using going by (auto simp: out intro: busy_settled)
    qed
  qed
qed

text \<open>What the program asks of the multiplexer, in any order; \<open>Elsewhere\<close> is what the other modules
  do to their tables in between; nobody else calls the subscription registry.\<close>

datatype mux_op =
    Tick u32 | EnterLine "string option" u32 | EnterCommand u32 | TransportLost u32
  | Forward radio_header byte_view | Upstream radio_header "bytes option" | TerminalText string
  | History "string option" | Elsewhere hub_table peer_table manifest_cache

fun mux_step :: "('p, 'n, 'd, 'e, 'w, 'c, 'x) mux_lib \<Rightarrow> mux_op \<Rightarrow> ('p, 'n, 'd, 'e, 'w) hub \<Rightarrow> ('p, 'n, 'd, 'e, 'w) hub" where
  "mux_step lib (Tick now) h = mux_tick lib now h"
| "mux_step lib (EnterLine line now) h = snd (tryEnterFromConsoleLine lib line now h)"
| "mux_step lib (EnterCommand now) h = snd (enterFromCommand lib now h)"
| "mux_step lib (TransportLost now) h = mux_onTransportLost lib now h"
| "mux_step lib (Forward header payload) h = snd (forwardRelay lib header payload h)"
| "mux_step lib (Upstream header frame) h = snd (relayUp lib header frame h)"
| "mux_step lib (TerminalText txt) h = on_mux (writeTerminalResponse lib txt) h"
| "mux_step lib (History line) h = on_mux (addTerminalHistory lib line) h"
| "mux_step lib (Elsewhere bindings peers manifests) h =
     h\<lparr>hb_bindings := bindings, hb_peers := peers, hb_manifests := manifests\<rparr>"

lemma settled_same: "settled lib h \<Longrightarrow> hub_view lib g = hub_view lib h \<Longrightarrow> (clean h \<Longrightarrow> clean g) \<Longrightarrow> settled lib g"
  using idle_cong [of lib g h] provider_view [of lib g h] latched_view [of lib g h] by (auto simp: settled_def polite_def)

lemma start_settled:
  assumes e: "ends_with_event lib" and r: "reads_only lib (pb_snapshotProvider (hb_publisher g))"
  shows "settled lib (on_mux (start_negotiation lib line now) g)"
proof -
  have "nd_state (ml_node lib) (s_node (sm_session (start_negotiation lib line now m))) \<noteq> SsIdle"
    "\<not> s_timeoutLatched (sm_session (start_negotiation lib line now m))" for m
    using e by (simp_all add: start_negotiation_def Let_def beginNegotiation_def ends_with_event_def)
  then show ?thesis using r by (simp add: settled_def polite_def isConsole_iff idle_view_def mux_view_def on_mux_def)
qed

lemma lost_settled:
  assumes e: "ends_with_event lib" and s: "settled lib h"
  shows "settled lib (mux_onTransportLost lib now h)"
proof -
  obtain lost session where l: "onTransportLost (ml_node lib) (sm_session (hb_mux h)) = (lost, session)" by fastforce
  obtain ev node where n: "nd_reset (ml_node lib) (s_node (sm_session (hb_mux h))) = (ev, node)" by fastforce
  have latch: "\<not> s_timeoutLatched session" and ev: "lost = (ev = SeAbandoned)"
    using l n by (auto simp: onTransportLost_def)
  have r: "reads_only lib (pb_snapshotProvider (hb_publisher h))" using s by (simp add: settled_def polite_def)
  have provider: "pb_snapshotProvider (hb_publisher (mux_onTransportLost lib now h)) = pb_snapshotProvider (hb_publisher h)"
    and sess: "sm_session (hb_mux (mux_onTransportLost lib now h)) = session"
    using l by (simp_all add: mux_onTransportLost_def on_mux_def Let_def)
  have "clean (mux_onTransportLost lib now h)"
  proof (cases lost)
    case True
    then show ?thesis using lost_clean [of lib h session now] l by simp
  next
    case False
    then have "nd_state (ml_node lib) (s_node (sm_session (hb_mux h))) = SsIdle"
      using e n ev unfolding ends_with_event_def by (metis fst_conv)
    then have "clean h" using s by (simp add: settled_def polite_def isConsole_iff idle_view_def mux_view_def)
    then show ?thesis using l False
      by (simp add: mux_onTransportLost_def on_mux_def clean_def queue_of_def unsent_def)
  qed
  then show ?thesis using r latch by (simp add: settled_def polite_def provider sess)
qed

lemma forward_settled:
  assumes s: "settled lib h"
  shows "settled lib (snd (forwardRelay lib header payload h))" and "settled lib (snd (relayUp lib header frame h))"
proof -
  have off: "settled lib (snd (not_listening header h))"
    by (rule settled_same [OF s]) (auto simp: not_listening_def hub_view_def mux_view_def on_mux_def clean_def queue_of_def unsent_def)
  have refuse: "hub_view lib (refuse_unsubscribed header h) = hub_view lib h"
    by (simp add: refuse_unsubscribed_def hub_view_def mux_view_def on_mux_def)
  have q: "hub_view lib (snd (queue_relayed lib header fr n h)) = hub_view lib h" for fr n
    by (simp add: queue_relayed_def Let_def case_prod_beta hub_view_def mux_view_def)
  have "isProtocolled lib h \<Longrightarrow> \<not> isConsole lib h" by (simp add: isProtocolled_def isConsole_def)
  then have busy: "isProtocolled lib h \<Longrightarrow> hub_view lib g = hub_view lib h \<Longrightarrow> settled lib g" for g
    using busy_settled [OF s] by blast
  show "settled lib (snd (forwardRelay lib header payload h))"
  proof (cases "isProtocolled lib h")
    case False
    then show ?thesis by (simp add: forwardRelay_def off)
  next
    case True
    then show ?thesis by (rule busy) (simp add: forwardRelay_def True refuse q case_prod_beta)
  qed
  show "settled lib (snd (relayUp lib header frame h))"
  proof (cases "isProtocolled lib h")
    case False
    then show ?thesis by (simp add: relayUp_def off)
  next
    case True
    then show ?thesis by (rule busy) (simp add: relayUp_def True refuse q Let_def split: option.split)
  qed
qed

lemma step_settled:
  assumes q: "quiet_calls lib" and e: "ends_with_event lib" and s: "settled lib h"
  shows "settled lib (mux_step lib op h)"
proof -
  have r: "reads_only lib (pb_snapshotProvider (hb_publisher h))" using s by (simp add: settled_def polite_def)
  show ?thesis
  proof (cases op)
    case (Tick now)
    then show ?thesis using tick_settled [OF q e] s by (simp add: settled_def)
  next
    case (EnterLine line now)
    then show ?thesis using s start_settled [OF e r] by (simp add: tryEnterFromConsoleLine_def case_prod_beta)
  next
    case (EnterCommand now)
    have "reads_only lib (pb_snapshotProvider (hb_publisher (on_mux f h)))" for f using r by (simp add: on_mux_def)
    then show ?thesis using EnterCommand s start_settled [OF e] by (simp add: enterFromCommand_def Let_def case_prod_beta)
  next
    case (TerminalText resp)
    show ?thesis
    proof (cases "isProtocolled lib h")
      case True
      have "hub_view lib (on_mux (writeTerminalResponse lib resp) h) = hub_view lib h"
        by (rule view_on_mux) (simp add: writeTerminalResponse_def view_send_chunks [OF q])
      moreover have "\<not> isConsole lib h" using True by (simp add: isProtocolled_def isConsole_def)
      ultimately show ?thesis using TerminalText busy_settled [OF s] by simp
    next
      case False
      then show ?thesis using TerminalText s by (simp add: writeTerminalResponse_def isProtocolled_def on_mux_def)
    qed
  next
    case (History line)
    have "settled lib (on_mux (addTerminalHistory lib line) h)"
      by (rule settled_same [OF s])
        (auto simp: addTerminalHistory_def hub_view_def mux_view_def on_mux_def clean_def queue_of_def unsent_def split: option.split)
    then show ?thesis using History by simp
  next
    case (Elsewhere bs ps ms)
    have "settled lib (mux_step lib op h)"
      by (rule settled_same [OF s]) (simp_all add: Elsewhere hub_view_def clean_def)
    then show ?thesis .
  qed (use s lost_settled [OF e s] forward_settled [OF s] in simp_all)
qed


section \<open>Instances\<close>

definition demo_active :: demo_hub where
  "demo_active = on_mux (\<lambda>m. m\<lparr>sm_session := (sm_session m)\<lparr>s_node := (SsActive, SeNone)\<rparr>\<rparr>) demo_hub"

lemma bound_child_is_only_relayed_witness:
  "sm_terminalShell (hb_mux (dispatchFrame demo_lib (demo_frame 3) 50 demo_active)) = [] \<and>
   sm_world (hb_mux (dispatchFrame demo_lib (demo_frame 3) 50 demo_active)) = [((1, 2, 3, 4, 5, 6), [9, 77, 3])]"
proof
  let ?frame = "onFrame (ml_node demo_lib) (btp_header.truncate (fst (demo_frame 3)), snd (demo_frame 3)) (ucast (50 :: u32))
      (sm_session (hb_mux demo_active))"
  have whole: "hd_flags (fst (demo_frame 3)) AND co_flag_fragmented (ml_codec demo_lib) = 0" by code_simp
  have kind: "targetless (fr_outcome (fst ?frame))" by code_simp
  have bound: "hub_lookup (hd_source_id (fst (demo_frame 3))) False (hb_bindings demo_active) = Some 5" by code_simp
  have keep: "sm_terminalShell (count_relay v m) = sm_terminalShell m" for v and m :: demo_mux by (cases v) simp_all
  have "sm_terminalShell (hb_mux demo_active) = []" by code_simp
  then show "sm_terminalShell (hb_mux (dispatchFrame demo_lib (demo_frame 3) 50 demo_active)) = []"
    using bound_child_is_only_relayed [OF whole prod.collapse [symmetric] kind bound]
    by (auto simp: Let_def on_mux_def keep)
  show "sm_world (hb_mux (dispatchFrame demo_lib (demo_frame 3) 50 demo_active)) = [((1, 2, 3, 4, 5, 6), [9, 77, 3])]"
    by code_simp
qed

lemma demo_quiet: "quiet_calls demo_lib"
  by (simp add: quiet_calls_def demo_lib_def demo_node_api_def)

lemma demo_ends: "ends_with_event demo_lib"
  by (auto simp: ends_with_event_def demo_lib_def demo_node_api_def split: if_splits)

text \<open>An open session answers on its terminal, then the cable is pulled.\<close>

definition demo_ops :: "mux_op list" where
  "demo_ops = [TerminalText ''hi'', TransportLost 5]"


end
