(* ===== verification/Hub_Subscriptions.thy ===== *)
theory Hub_Subscriptions
  imports Serial_Mux_Proofs Subscription_Proofs
begin

text \<open>
  The subscription registry, the publisher and the serial multiplexer together: the actions the
  registry hands out reach the publisher, so the dongle publishes a hub.* topic exactly while some
  desktop client holds a lease on it, at the period of the highest rate asked for.
\<close>

section \<open>What the publisher does for a topic\<close>

definition own_topics :: "u16 set" where "own_topics = {kLinkTopicId, kUsbTopicId, kPeersTopicId}"

definition topic_of :: "u16 \<Rightarrow> 'e publisher \<Rightarrow> topic_state" where
  "topic_of t pb = (if t = kLinkTopicId then pb_link pb else if t = kUsbTopicId then pb_usb pb else pb_peers pb)"

definition serves :: "u16 \<Rightarrow> (u32 \<times> u32) option \<Rightarrow> topic_state \<Rightarrow> bool" where
  "serves t held st =
     (case held of None \<Rightarrow> \<not> ts_subscribed st
      | Some (rate, lease) \<Rightarrow> ts_subscribed st \<and>
          ts_periodMs st = max 1 (1000000 div (if rate \<noteq> 0 then rate else schemaMaxRateFor t)))"

definition follows :: "u32 \<Rightarrow> (u32 \<times> u32 \<rightharpoonup> u32 \<times> u32) \<Rightarrow> 'e publisher \<Rightarrow> bool" where
  "follows self held pb \<longleftrightarrow> (\<forall>t\<in>own_topics. serves t (held (self, ucast t)) (topic_of t pb))"

lemma distinct_topics: "kLinkTopicId \<noteq> kUsbTopicId" "kLinkTopicId \<noteq> kPeersTopicId" "kUsbTopicId \<noteq> kPeersTopicId"
  by (simp_all add: kLinkTopicId_def kUsbTopicId_def kPeersTopicId_def)

lemma topic_subscribe:
  "t \<in> own_topics \<Longrightarrow> topic_of t (onLocalSubscribe t' rate pb) =
     (if t' = t then subscribe_topic t rate (topic_of t pb) else topic_of t pb)"
  using distinct_topics by (auto simp: own_topics_def topic_of_def onLocalSubscribe_def)

lemma topic_unsubscribe:
  "t \<in> own_topics \<Longrightarrow> topic_of t (onLocalUnsubscribe t' pb) =
     (if t' = t then unsubscribe_topic (topic_of t pb) else topic_of t pb)"
  using distinct_topics by (auto simp: own_topics_def topic_of_def onLocalUnsubscribe_def)

lemma own_rate: "t \<in> own_topics \<Longrightarrow> schemaMaxRateFor t \<noteq> 0"
  unfolding own_topics_def by (elim insertE emptyE; hypsubst; code_simp)

lemma subscribe_serves: "t \<in> own_topics \<Longrightarrow> serves t (Some (rate, lease)) (subscribe_topic t rate st)"
proof -
  assume t: "t \<in> own_topics"
  have one: "max 1 w = (if w = 0 then 1 else w)" for w :: u32
    by (cases "w = 0") (auto simp: max_def word_le_nat_alt not_le unat_eq_0 dest: less_one [THEN iffD1])
  show ?thesis using own_rate [OF t] by (simp add: serves_def subscribe_topic_def periodMsFromRate_def Let_def one)
qed

lemma unsubscribe_serves: "serves t None (unsubscribe_topic st)"
  by (simp add: serves_def unsubscribe_topic_def)

lemma serves_cong:
  "ts_subscribed st' = ts_subscribed st \<Longrightarrow> ts_periodMs st' = ts_periodMs st \<Longrightarrow> serves t held st' = serves t held st"
  by (simp add: serves_def split: option.split)

section \<open>Topics of sixteen bits\<close>

text \<open>The publisher reads the topic of an action modulo 2 ^ 16; no row of the dongle's own names a
  larger one, so no two rows meet in the publisher.\<close>

definition narrow :: "u32 \<Rightarrow> (u32 \<times> u32) set" where
  "narrow self = {k. fst k = self \<longrightarrow> snd k \<le> 0xFFFF}"

definition within :: "(u32 \<times> u32) set \<Rightarrow> topic_row list \<Rightarrow> bool" where
  "within K rs \<longleftrightarrow> (\<forall>r\<in>set rs. tr_used r \<longrightarrow> row_key r \<in> K)"

definition act_within :: "(u32 \<times> u32) set \<Rightarrow> upstream_action \<Rightarrow> bool" where
  "act_within K a \<longleftrightarrow> (ua_kind a \<noteq> UpNone \<longrightarrow> (ua_sourceId a, ua_topicId a) \<in> K)"

lemma ucast_narrow: "(w :: u32) \<le> 0xFFFF \<Longrightarrow> (ucast w = (t :: u16)) = (w = ucast t)"
proof -
  assume "w \<le> 0xFFFF"
  then have w: "unat w < 65536" by (simp add: word_le_nat_alt)
  have "unat (ucast t :: u32) = unat t"
    using unsigned_less [of t, where 'a = nat]
    by (simp add: unsigned_ucast_eq unsigned_take_bit_eq take_bit_eq_mod)
  moreover have "unat (ucast w :: u16) = unat w"
    using w by (simp add: unsigned_ucast_eq unsigned_take_bit_eq take_bit_eq_mod)
  ultimately show ?thesis by (metis word_unat_eq_iff)
qed

lemma noAction_within [simp]: "act_within K noAction"
  by (simp add: act_within_def noAction_def)

lemma within_eval: "row_key r \<in> K \<Longrightarrow> act_within K (fst (evaluateUpstream r now))"
  by (simp add: act_within_def eval_action_key)

lemma within_write: "within K rs \<Longrightarrow> (tr_used r \<Longrightarrow> row_key r \<in> K) \<Longrightarrow> within K (rs[i := r])"
  using set_update_subset_insert [of rs i r] by (auto simp: within_def)

lemma findOrCreate_within:
  assumes f: "findOrCreateRow src tpc rs0 = (rs, found)" and w: "within K rs0" and k: "(src, tpc) \<in> K"
  shows "within K rs \<and> (\<forall>r. found = Some r \<longrightarrow> row_key (rs ! r) = (src, tpc))"
proof (cases "findRow src tpc rs0")
  case (Some i)
  then show ?thesis using f w by (auto simp: findOrCreateRow_def findRow_def dest!: find_slot_SomeD)
next
  case None
  show ?thesis
  proof (cases "find_slot (\<lambda>r. \<not> tr_used r) rs0")
    case (Some i)
    then have "i < length rs0" by (auto dest: find_slot_SomeD)
    then show ?thesis using f w k None Some by (auto simp: findOrCreateRow_def intro!: within_write)
  qed (use f w None in \<open>simp add: findOrCreateRow_def\<close>)
qed

lemma within_nth: "within K rs \<Longrightarrow> i < length rs \<Longrightarrow> tr_used (rs ! i) \<Longrightarrow> row_key (rs ! i) \<in> K"
  by (simp add: within_def)

lemma subscribe_within:
  assumes o: "onDesktopSubscribe c src tpc rate lease now s = (out, s')"
    and w: "within K (sr_rows s)" and k: "(src, tpc) \<in> K"
  shows "within K (sr_rows s') \<and> act_within K (so_upstream out)"
proof -
  obtain rs found where f: "findOrCreateRow src tpc (sr_rows s) = (rs, found)" by fastforce
  note g = findOrCreate_within [OF f w k]
  show ?thesis
  proof (cases found)
    case None
    then show ?thesis using o f g by (simp add: onDesktopSubscribe_def) (auto simp: refused_def)
  next
    case (Some r)
    let ?eval = "\<lambda>cs. evaluateUpstream ((rs ! r)\<lparr>tr_clients := cs\<rparr>) now"
    have "within K (rs[r := snd (?eval cs)]) \<and> act_within K (fst (?eval cs))" for cs
      using g Some k by (auto intro!: within_write within_eval)
    then show ?thesis using o f g Some
      by (auto simp: onDesktopSubscribe_def Let_def case_prod_beta nextSubscriptionId_def refused_def
          split: option.splits)
  qed
qed

lemma unsubscribe_within:
  "unsubscribe_loop c sid now rs = (out, rs') \<Longrightarrow> within K rs \<Longrightarrow> within K rs' \<and> act_within K (uo_upstream out)"
proof (induction rs arbitrary: out rs')
  case (Cons r rs)
  have tail: "within K rs" using Cons.prems(2) by (simp add: within_def)
  show ?case
  proof (cases "if tr_used r then find_slot (matches_sub c sid) (tr_clients r) else None")
    case None
    obtain out1 rs1 where l: "unsubscribe_loop c sid now rs = (out1, rs1)" by fastforce
    have "out = out1" "rs' = r # rs1" using Cons.prems(1) None l by simp_all
    then show ?thesis using Cons.IH [OF l tail] Cons.prems(2) by (simp add: within_def)
  next
    case (Some i)
    let ?e = "evaluateUpstream (r\<lparr>tr_clients := (tr_clients r)[i := freeClient]\<rparr>) now"
    have used: "tr_used r" using Some by (simp split: if_splits)
    then have key: "row_key r \<in> K" using Cons.prems(2) by (simp add: within_def)
    have "out = \<lparr>uo_found = True, uo_upstream = fst ?e\<rparr>" "rs' = snd ?e # rs"
      using Cons.prems(1) Some used by (auto simp: case_prod_beta)
    then show ?thesis using tail key by (auto simp: within_def intro!: within_eval)
  qed
qed simp

lemma pass_within:
  assumes s: "reg_inv s" and p: "row_pass now P body" and w: "within K (sr_rows s)"
    and r: "rows_loop body kMaxTopics (sr_rows s) (0, Some out_buffer) = (rs, st)"
  shows "within K rs \<and> (\<forall>a\<in>set (emitted st). act_within K a)"
proof -
  have ok: "row_ok r" if "r \<in> set (sr_rows s)" for r using s that by (simp add: reg_inv_def)
  note f = row_pass_facts [OF p ok]
  note x = pass_exec [OF s p r]
  have "within K rs" using w f(1,2) by (auto simp: within_def x(1))
  moreover have "act_within K (fst (body r))" if "r \<in> set (sr_rows s)" for r
    using f(6) [OF that] w that by (auto simp: act_within_def within_def)
  ultimately show ?thesis by (auto simp: x(2) loud_def)
qed

lemma update_row_within:
  "(\<And>r. row_key (f r) = row_key r) \<Longrightarrow> (\<And>r. tr_used (f r) = tr_used r) \<Longrightarrow> within K (sr_rows s) \<Longrightarrow>
   within K (sr_rows (update_row src tpc f s))"
  by (auto simp: update_row_def findRow_def within_def split: option.splits
      dest!: find_slot_SomeD set_update_subset_insert [THEN subsetD])

section \<open>One action\<close>

lemma action_follows:
  assumes self: "sourceId lib (hb_mux h) = self" "self \<noteq> 0" and k: "act_within (narrow self) a"
    and f: "follows self m (hb_publisher h)"
  shows "follows self (apply_action a m) (hb_publisher (dispatchUpstreamAction lib a h))"
  unfolding follows_def
proof
  fix t assume t: "t \<in> own_topics"
  have old: "serves t (m (self, ucast t)) (topic_of t (hb_publisher h))" using f t by (simp add: follows_def)
  show "serves t (apply_action a m (self, ucast t)) (topic_of t (hb_publisher (dispatchUpstreamAction lib a h)))"
  proof (cases "ua_kind a = UpNone \<or> ua_sourceId a \<noteq> self")
    case True
    then show ?thesis using old self
      by (cases "ua_kind a") (auto simp: apply_action_at action_effect_def dispatchUpstreamAction_def)
  next
    case False
    then have "(ucast (ua_topicId a) = t) = (ua_topicId a = ucast t)"
      using k ucast_narrow by (simp add: act_within_def narrow_def)
    then show ?thesis using False old self t
      by (cases "ua_kind a")
        (auto simp: apply_action_at action_effect_def dispatchUpstreamAction_def topic_subscribe topic_unsubscribe
          subscribe_serves unsubscribe_serves)
  qed
qed

lemma actions_follow:
  assumes self: "self \<noteq> 0"
  shows "sourceId lib (hb_mux h) = self \<Longrightarrow> \<forall>a\<in>set acts. act_within (narrow self) a \<Longrightarrow>
    follows self m (hb_publisher h) \<Longrightarrow>
    follows self (fold apply_action acts m) (hb_publisher (dispatchUpstreamActions lib acts h)) \<and>
    hb_subs (dispatchUpstreamActions lib acts h) = hb_subs h"
proof (induction acts arbitrary: h m)
  case (Cons a acts)
  have "follows self (apply_action a m) (hb_publisher (dispatchUpstreamAction lib a h))"
    using Cons.prems by (intro action_follows) (simp_all add: self)
  then show ?case
    using Cons.IH [of "dispatchUpstreamAction lib a h" "apply_action a m"] Cons.prems
    by (simp add: dispatchUpstreamActions_def)
qed (simp add: dispatchUpstreamActions_def)

section \<open>The invariant of the three modules\<close>

definition synced :: "u32 \<Rightarrow> ('p, 'n, 'd, 'e, 'w) hub \<Rightarrow> bool" where
  "synced self h \<longleftrightarrow> reg_inv (hb_subs h) \<and> within (narrow self) (sr_rows (hb_subs h)) \<and>
     follows self (asked_map (hb_subs h)) (hb_publisher h)"

lemma synced_cong: "hb_subs g = hb_subs h \<Longrightarrow> hb_publisher g = hb_publisher h \<Longrightarrow> synced self g = synced self h"
  by (simp add: synced_def)

lemma synced_on_mux [simp]: "synced self (on_mux f h) = synced self h"
  by (rule synced_cong) (simp_all add: on_mux_def)

text \<open>The counters of a row are not what is asked for.\<close>

lemma record_keeps:
  assumes "reg_inv s" and "within K (sr_rows s)"
  shows "reg_inv (recordForwarded src tpc n s) \<and> within K (sr_rows (recordForwarded src tpc n s)) \<and>
      asked_map (recordForwarded src tpc n s) = asked_map s"
    and "reg_inv (recordDropped src tpc s) \<and> within K (sr_rows (recordDropped src tpc s)) \<and>
      asked_map (recordDropped src tpc s) = asked_map s"
  using bookkeeping_views(2,3) [OF assms(1)] update_row_within [OF _ _ assms(2)]
  by (simp_all add: recordForwarded_def recordDropped_def)

lemma synced_record:
  assumes "synced self h"
  shows "synced self (h\<lparr>hb_subs := recordForwarded src tpc n (hb_subs h)\<rparr>)"
    and "synced self (h\<lparr>hb_subs := recordDropped src tpc (hb_subs h)\<rparr>)"
  using assms record_keeps [of "hb_subs h" "narrow self"] by (simp_all add: synced_def)

lemma pass_synced:
  assumes self: "sourceId lib (hb_mux h) = self" "self \<noteq> 0" and s: "synced self h" and p: "row_pass now P body"
    and r: "rows_loop body kMaxTopics (sr_rows (hb_subs h)) (0, Some out_buffer) = (rs, n, b)"
  shows "synced self (dispatchUpstreamActions lib (take n (the b)) (h\<lparr>hb_subs := (hb_subs h)\<lparr>sr_rows := rs\<rparr>\<rparr>))"
proof -
  have reg: "reg_inv (hb_subs h)" "within (narrow self) (sr_rows (hb_subs h))"
    and f: "follows self (asked_map (hb_subs h)) (hb_publisher h)" using s by (simp_all add: synced_def)
  note x = pass_exec [OF reg(1) p r] pass_within [OF reg(1) p reg(2) r] pass_facts(1,2) [OF reg(1) p refl]
  have "b \<noteq> None" using rows_loop_buffer [of 0 "sr_rows (hb_subs h)" out_buffer body] reg_invD(1) [OF reg(1)] r
    by (auto simp: out_buffer_def)
  then have e: "take n (the b) = emitted (n, b)" by (auto simp: emitted_def)
  show ?thesis
    using actions_follow [OF self(2), of lib "h\<lparr>hb_subs := (hb_subs h)\<lparr>sr_rows := rs\<rparr>\<rparr>" "take n (the b)"
        "asked_map (hb_subs h)"] self(1) x f
    by (simp add: synced_def e fold_loud)
qed

lemma client_gone_synced:
  "sourceId lib (hb_mux h) = self \<Longrightarrow> self \<noteq> 0 \<Longrightarrow> synced self h \<Longrightarrow> synced self (client_gone lib now h)"
  by (auto simp: client_gone_def onClientDisconnected_def out_buffer_def [symmetric] split: prod.split
      intro!: pass_synced [OF _ _ _ disconnect_pass])

lemma sweep_synced:
  "sourceId lib (hb_mux h) = self \<Longrightarrow> self \<noteq> 0 \<Longrightarrow> synced self h \<Longrightarrow> synced self (sweep_leases lib now h)"
  by (auto simp: sweep_leases_def sweep_def out_buffer_def [symmetric] split: prod.split
      intro!: pass_synced [OF _ _ _ sweep_pass])

section \<open>The publisher's tick\<close>

definition same_service :: "'e publisher \<Rightarrow> 'e publisher \<Rightarrow> bool" where
  "same_service pb pb' \<longleftrightarrow> (\<forall>t. ts_subscribed (topic_of t pb') = ts_subscribed (topic_of t pb) \<and>
     ts_periodMs (topic_of t pb') = ts_periodMs (topic_of t pb))"

lemma same_service_refl [simp]: "same_service pb pb" by (simp add: same_service_def)

lemma follows_same: "same_service pb pb' \<Longrightarrow> follows self m pb \<Longrightarrow> follows self m pb'"
  using serves_cong unfolding same_service_def follows_def by metis

text \<open>A sample that goes out, or not, only moves a counter.\<close>

definition counted :: "sub_registry \<Rightarrow> sub_registry \<Rightarrow> bool" where
  "counted s s' \<longleftrightarrow> (\<forall>K. reg_inv s \<longrightarrow> within K (sr_rows s) \<longrightarrow>
     reg_inv s' \<and> within K (sr_rows s') \<and> asked_map s' = asked_map s)"

lemma counted_refl [simp]: "counted s s" by (simp add: counted_def)
lemma counted_trans: "counted s s' \<Longrightarrow> counted s' s'' \<Longrightarrow> counted s s''"
  unfolding counted_def by metis

lemma counted_emit: "counted (snd st) (snd (snd (emit_packed self t packed emit st)))"
proof -
  have "counted (snd st) (snd (snd (publish self t payload emit st)))" for payload
    using record_keeps by (auto simp: publish_def counted_def split: prod.split)
  then show ?thesis by (auto simp: emit_packed_def case_prod_beta split: option.split)
qed

lemma block_counts:
  "tick_link self now emit snap pb st = (n, pb', st') \<Longrightarrow> counted (snd st) (snd st') \<and> same_service pb pb'"
  "tick_usb self now emit snap pb st = (n, pb', st') \<Longrightarrow> counted (snd st) (snd st') \<and> same_service pb pb'"
  "tick_peers self now emit snap pb st = (n, pb', st') \<Longrightarrow> counted (snd st) (snd st') \<and> same_service pb pb'"
  by (auto simp: tick_link_def tick_usb_def tick_peers_def case_prod_beta Let_def same_service_def topic_of_def
      mark_published_def counted_emit split: if_splits)

lemma publisher_tick_counts:
  assumes "Dongle_Publisher.tick self now emitPtr pb st = (n, pb', st')"
  shows "counted (snd st) (snd st') \<and> same_service pb pb'"
proof (cases "emitPtr = None \<or> pb_snapshotProvider pb = None \<or> \<not> hasSubscribers pb")
  case True
  then show ?thesis using assms by (auto simp: Dongle_Publisher.tick_def split: option.splits)
next
  case False
  then obtain emit provider where e: "emitPtr = Some emit" "pb_snapshotProvider pb = Some provider" by auto
  obtain snap e1 where p: "provider (fst st) = (snap, e1)" by fastforce
  obtain n1 pb1 st1 where l: "tick_link self now emit snap pb (e1, snd st) = (n1, pb1, st1)" by (metis prod_cases3)
  obtain n2 pb2 st2 where u: "tick_usb self now emit snap pb1 st1 = (n2, pb2, st2)" by (metis prod_cases3)
  have q: "tick_peers self now emit snap pb2 st2 = (n - n1 - n2, pb', st')"
    using assms e p l u False by (auto simp: Dongle_Publisher.tick_def split: prod.splits)
  from block_counts(1) [OF l] block_counts(2) [OF u] block_counts(3) [OF q] show ?thesis
    by (auto simp: same_service_def intro: counted_trans)
qed

lemma publisher_tick_synced:
  assumes "synced self h"
  shows "synced self (publisher_tick lib now h)"
proof -
  obtain n pb m ps subs where t: "Dongle_Publisher.tick (sourceId lib (hb_mux h)) now (Some (emitOwnTelemetry lib))
      (hb_publisher h) ((hb_mux h, hb_peers h), hb_subs h) = (n, pb, (m, ps), subs)" by (metis prod.collapse)
  from publisher_tick_counts [OF t] assms follows_same show ?thesis
    by (auto simp: publisher_tick_def t synced_def counted_def)
qed

section \<open>The handlers\<close>

text \<open>No shell command touches the subscriptions, and the dongle has one identity.\<close>

definition shell_keeps_subs :: "('p, 'n, 'd, 'e, 'w, 'c, 'x) mux_lib \<Rightarrow> bool" where
  "shell_keeps_subs lib \<longleftrightarrow> (\<forall>line source user h.
     hb_subs (snd (ml_run_line lib line source user h)) = hb_subs h \<and>
     hb_publisher (snd (ml_run_line lib line source user h)) = hb_publisher h)"

definition identity :: "('p, 'n, 'd, 'e, 'w, 'c, 'x) mux_lib \<Rightarrow> u32 \<Rightarrow> bool" where
  "identity lib self \<longleftrightarrow> self \<noteq> 0 \<and> (\<forall>n. ml_source_id lib n = self)"

lemma identityD: "identity lib self \<Longrightarrow> sourceId lib m = self" "identity lib self \<Longrightarrow> self \<noteq> 0"
  by (simp_all add: identity_def sourceId_def)

lemma synced_mux_update [simp]: "synced self (h\<lparr>hb_mux := m\<rparr>) = synced self h"
  "synced self (h\<lparr>hb_manifests := c\<rparr>) = synced self h" "synced self (h\<lparr>hb_bindings := b\<rparr>) = synced self h"
  "synced self (h\<lparr>hb_peers := t\<rparr>) = synced self h"
  by (rule synced_cong; simp)+

lemma synced_relayDown [simp]: "synced self (snd (relayDown lib decoded h)) = synced self h"
  using relayDown_effect [of lib decoded h] by (auto simp: relay_effect_def)

lemma synced_shell:
  "shell_keeps_subs lib \<Longrightarrow> synced self h \<Longrightarrow> synced self (snd (ml_run_line lib line source user h))"
  using synced_cong [of "snd (ml_run_line lib line source user h)" h self] by (simp add: shell_keeps_subs_def)

lemma synced_command:
  assumes "shell_keeps_subs lib" and "synced self h"
  shows "synced self (handleCommandRequest lib decoded h)"
  using synced_shell [OF assms] assms(2)
  by (simp add: handleCommandRequest_def Let_def case_prod_beta split: option.split)

lemma synced_terminal: "synced self h \<Longrightarrow> synced self (handleTerminalIn lib decoded h)"
  by (simp add: handleTerminalIn_def)

lemma synced_fold: "(\<And>i g. synced self g \<Longrightarrow> synced self (f i g)) \<Longrightarrow> synced self h \<Longrightarrow> synced self (fold f xs h)"
  by (induction xs arbitrary: h) simp_all

lemma synced_manifest: "synced self h \<Longrightarrow> synced self (handleManifestRequest lib decoded h)"
  by (auto simp: handleManifestRequest_def Let_def case_prod_beta answer_index_def intro!: synced_fold split: option.split)

lemma synced_dispatch:
  assumes i: "identity lib self" and s: "synced self h" and w: "within (narrow self) (sr_rows subs)" "reg_inv subs"
    and a: "act_within (narrow self) a" "apply_action a (asked_map (hb_subs h)) = asked_map subs"
  shows "synced self (dispatchUpstreamAction lib a (h\<lparr>hb_mux := m, hb_subs := subs\<rparr>))"
proof -
  have "follows self (apply_action a (asked_map (hb_subs h)))
      (hb_publisher (dispatchUpstreamAction lib a (h\<lparr>hb_mux := m, hb_subs := subs\<rparr>)))"
    by (rule action_follows [OF identityD [OF i] a(1)]) (use s in \<open>simp add: synced_def\<close>)
  then show ?thesis using w a(2) by (simp add: synced_def)
qed

lemma synced_reply [simp]: "synced self (reply_subscribe lib header st code sid rate lease h) = synced self h"
  by (simp add: reply_subscribe_def split: option.split)

lemma lookup_narrow:
  "lookupTopicMaxRateMillihz self src tpc False c = Some rate \<Longrightarrow> (src, tpc) \<in> narrow self"
  by (auto simp: lookupTopicMaxRateMillihz_def narrow_def split: if_splits)

lemma synced_subscribe:
  assumes i: "identity lib self" and s: "synced self h"
  shows "synced self (handleSubscribeRequest lib decoded h)"
proof -
  obtain subErr sub where c: "co_subscribe (ml_codec lib) (snd decoded) = (subErr, sub)" by fastforce
  let ?rate = "lookupTopicMaxRateMillihz (sourceId lib (hb_mux h)) (su_target_source_id sub) (su_topic_id sub) False (hb_manifests h)"
  show ?thesis
  proof (cases "bound_child (fst decoded) h \<or> subErr \<noteq> MeOk \<or> ?rate = None")
    case True
    then show ?thesis using s by (auto simp: handleSubscribeRequest_def Let_def c)
  next
    case False
    then obtain schema where r: "?rate = Some schema" by auto
    obtain now m where t: "read_clock lib (hb_mux h) = (now, m)" by fastforce
    let ?cap = "if schema \<noteq> 0 \<and> su_requested_rate_millihz sub > schema then schema else su_requested_rate_millihz sub"
    obtain out subs where o: "onDesktopSubscribe (peerSourceId (ml_node lib) (sm_session m)) (su_target_source_id sub)
        (su_topic_id sub) ?cap (su_requested_lease_ms sub) now (hb_subs h) = (out, subs)" by fastforce
    have reg: "reg_inv (hb_subs h)" "within (narrow self) (sr_rows (hb_subs h))" using s by (simp_all add: synced_def)
    have k: "(su_target_source_id sub, su_topic_id sub) \<in> narrow self"
      using r identityD(1) [OF i] by (auto intro: lookup_narrow)
    note f = subscribe_facts [OF reg(1) o] subscribe_within [OF o reg(2) k]
    have d: "synced self (dispatchUpstreamAction lib (so_upstream out) (h\<lparr>hb_mux := m, hb_subs := subs\<rparr>))"
      by (rule synced_dispatch [OF i s]) (use f in simp_all)
    have "synced self (h\<lparr>hb_mux := m, hb_subs := subs\<rparr>)" if "\<not> so_accepted out"
      using d f that by (simp add: refused_def dispatchUpstreamAction_def noAction_def)
    then show ?thesis using False d by (simp add: handleSubscribeRequest_def Let_def c r t o)
  qed
qed

lemma synced_unsubscribe:
  assumes i: "identity lib self" and s: "synced self h"
  shows "synced self (handleUnsubscribeRequest lib decoded h)"
proof -
  obtain now m where t: "read_clock lib (hb_mux h) = (now, m)" by fastforce
  let ?sid = "readU32Le (drop 8 (snd decoded))" and ?c = "peerSourceId (ml_node lib) (sm_session m)"
  obtain out rs where u: "unsubscribe_loop ?c ?sid now (sr_rows (hb_subs h)) = (out, rs)" by fastforce
  have o: "onDesktopUnsubscribe ?c ?sid now (hb_subs h) = (out, (hb_subs h)\<lparr>sr_rows := rs\<rparr>)"
    by (simp add: onDesktopUnsubscribe_def u)
  have reg: "reg_inv (hb_subs h)" "within (narrow self) (sr_rows (hb_subs h))" using s by (simp_all add: synced_def)
  have "synced self (dispatchUpstreamAction lib (uo_upstream out) (h\<lparr>hb_mux := m, hb_subs := (hb_subs h)\<lparr>sr_rows := rs\<rparr>\<rparr>))"
    by (rule synced_dispatch [OF i s])
      (use unsubscribe_facts [OF reg(1) o] unsubscribe_within [OF u reg(2)] in simp_all)
  then show ?thesis using s by (simp add: handleUnsubscribeRequest_def Let_def t o split: option.split)
qed

lemma synced_finalize:
  assumes "identity lib self" and "synced self h"
  shows "synced self (finalizeToConsole lib frame line h)"
  using assms identityD [OF assms(1)]
  by (auto simp: finalizeToConsole_def Let_def case_prod_beta intro!: client_gone_synced)

lemma synced_frame:
  assumes k: "shell_keeps_subs lib" and i: "identity lib self" and s: "synced self h"
  shows "synced self (dispatchFrame lib decoded now h)"
proof -
  obtain result session where f: "onFrame (ml_node lib) (btp_header.truncate (fst decoded), snd decoded) (ucast now)
      (sm_session (hb_mux h)) = (result, session)" by fastforce
  show ?thesis using s
    by (cases "fr_outcome result")
      (simp_all add: dispatchFrame_def f Let_def synced_finalize [OF i] synced_command [OF k] synced_terminal
        synced_manifest synced_subscribe [OF i] synced_unsubscribe [OF i])
qed

lemma synced_rx:
  assumes k: "shell_keeps_subs lib" and i: "identity lib self"
  shows "synced self h \<Longrightarrow> synced self (rx_loop lib now n h)"
proof (induction n arbitrary: h)
  case (Suc n)
  have step: "synced self (snd (rx_event_step lib now event g))" if "synced self g" for event g
    using that synced_frame [OF k i] by (cases event) (simp_all add: rx_event_step_def)
  show ?case
    using Suc step by (simp add: case_prod_beta split: option.split)
qed simp

lemma synced_poll: "shell_keeps_subs lib \<Longrightarrow> synced self h \<Longrightarrow> synced self (poll_loop lib n h)"
proof (induction n arbitrary: h)
  case (Suc n)
  show ?case
    using Suc.IH [OF Suc.prems(1)] Suc.prems synced_shell [OF Suc.prems(1)]
    by (simp add: case_prod_beta split: option.split)
qed simp

lemma synced_tick:
  assumes k: "shell_keeps_subs lib" and i: "identity lib self" and s: "synced self h"
  shows "synced self (mux_tick lib now h)"
proof -
  have gone: "synced self (client_gone lib now g)" "synced self (sweep_leases lib now g)" if "synced self g" for g
    using that identityD [OF i] client_gone_synced sweep_synced by blast+
  have expired: "synced self (session_expired lib was line now g)" if "synced self g" for was line g
    using gone(1) [OF that] by (simp add: session_expired_def)
  have beat: "synced self (maybeSendStatusHeartbeat lib now g) = synced self g" for g
    by (simp add: maybeSendStatusHeartbeat_def Let_def case_prod_beta)
  have "synced self (pumpRx lib now g)" if "synced self g" for g
    using synced_rx [OF k i that] that by (simp add: pumpRx_def)
  moreover have "synced self (pumpTerminalShell lib g)" if "synced self g" for g
    using synced_poll [OF k that] by (simp add: pumpTerminalShell_def del: poll_loop.simps)
  ultimately show ?thesis
    using s by (simp add: mux_tick_def Let_def case_prod_beta expired gone beat publisher_tick_synced)
qed

lemma synced_step:
  assumes k: "shell_keeps_subs lib" and i: "identity lib self" and s: "synced self h"
  shows "synced self (mux_step lib op h)"
proof -
  have q: "synced self (snd (queue_relayed lib header frame n g))" if "synced self g" for header frame n and g :: "('a, 'b, 'c, 'd, 'e) hub"
    using that synced_record [where h = "g\<lparr>hb_mux := m\<rparr>" for m]
    by (simp add: queue_relayed_def Let_def case_prod_beta)
  have r: "synced self (refuse_unsubscribed header h)" for header
    using synced_record(2) [where h = "on_mux f h" for f] s by (simp add: refuse_unsubscribed_def on_mux_def)
  show ?thesis
  proof (cases op)
    case (Tick now)
    then show ?thesis using synced_tick [OF k i s] by simp
  next
    case (TransportLost now)
    then show ?thesis using s identityD [OF i]
      by (auto simp: mux_onTransportLost_def Let_def case_prod_beta intro!: client_gone_synced)
  next
    case (Forward header payload)
    then show ?thesis using s q r by (simp add: forwardRelay_def not_listening_def case_prod_beta)
  next
    case (Upstream header frame)
    then show ?thesis using s q r by (simp add: relayUp_def not_listening_def Let_def split: option.split)
  qed (use s in \<open>simp_all add: tryEnterFromConsoleLine_def enterFromCommand_def Let_def case_prod_beta\<close>)
qed

section \<open>The property\<close>

lemma run_synced:
  "shell_keeps_subs lib \<Longrightarrow> identity lib self \<Longrightarrow> synced self h \<Longrightarrow> synced self (fold (mux_step lib) ops h)"
  by (induction ops arbitrary: h) (simp_all add: synced_step)

lemma synced_init:
  "hb_subs h = resetForTests \<Longrightarrow> \<forall>t\<in>own_topics. \<not> ts_subscribed (topic_of t (hb_publisher h)) \<Longrightarrow> synced self h"
proof -
  have w: "within (narrow self) (sr_rows resetForTests)" by (simp add: within_def resetForTests_def freeRow_def)
  show "hb_subs h = resetForTests \<Longrightarrow> \<forall>t\<in>own_topics. \<not> ts_subscribed (topic_of t (hb_publisher h)) \<Longrightarrow> synced self h"
    using reg_inv_init w by (simp add: synced_def follows_def asked_map_init serves_def)
qed

text \<open>For any shell that keeps the subscriptions.\<close>

lemma publishes_what_is_held:
  assumes "shell_keeps_subs lib" and "identity lib self"
    and "hb_subs h = resetForTests" and "\<forall>t\<in>own_topics. \<not> ts_subscribed (topic_of t (hb_publisher h))"
    and "t \<in> own_topics"
  shows "let h' = fold (mux_step lib) ops h; st = topic_of t (hb_publisher h'); held = live (hb_subs h') (self, ucast t)
    in (ts_subscribed st \<longleftrightarrow> held \<noteq> Map.empty) \<and>
       (held \<noteq> Map.empty \<longrightarrow>
          (let rate = Max (cs_requestedRateMillihz ` ran held)
           in ts_periodMs st = max 1 (1000000 div (if rate \<noteq> 0 then rate else schemaMaxRateFor t))))"
proof -
  have "synced self (fold (mux_step lib) ops h)"
    by (intro run_synced synced_init assms)
  then have "reg_inv (hb_subs (fold (mux_step lib) ops h))"
    and "serves t (asked_map (hb_subs (fold (mux_step lib) ops h)) (self, ucast t))
      (topic_of t (hb_publisher (fold (mux_step lib) ops h)))"
    using assms(5) by (simp_all add: synced_def follows_def)
  then have "serves t (union_of (live (hb_subs (fold (mux_step lib) ops h)) (self, ucast t)))
      (topic_of t (hb_publisher (fold (mux_step lib) ops h)))"
    using asked_map_union by metis
  then show ?thesis by (auto simp: serves_def union_of_def Let_def split: if_splits)
qed

end
