(* ===== verification/Hub_Buffers.thy ===== *)
theory Hub_Buffers
  imports Serial_Mux_Proofs
begin

text \<open>
  The fixed buffers of lib/SerialMux. A predicate on the queues and the frame under way that survives
  an offer, a drain and a reset survives every entry point of the multiplexer; the instance is that
  everything queued fits the items its queue was created with, and the frame under way its buffer.
\<close>

section \<open>What leaves the buffers alone\<close>

definition same_buffers :: "('p, 'z) mux_wire_scheme \<Rightarrow> ('p, 'y) mux_wire_scheme \<Rightarrow> bool" where
  "same_buffers m m' \<longleftrightarrow> mw_queues m' = mw_queues m \<and> mw_pending m' = mw_pending m"

lemma same_buffers_calls:
  "same_buffers m (snd (read_clock lib m))" "same_buffers m (snd (reserveSequence lib m))"
  "same_buffers m (writeConsoleText lib line m)" "same_buffers m (discard_input lib m)"
  "same_buffers m (count_relay v m)"
  by (cases v; simp add: same_buffers_def read_clock_def reserveSequence_def writeConsoleText_def writeAll_def
      discard_input_def split: prod.split)+

lemma same_buffers_frame: "same_buffers m (writeFrameCobs lib frame m)"
  by (auto simp: same_buffers_def writeFrameCobs_def writeAll_def split: option.splits prod.splits if_splits)

lemma same_buffers_encode: "same_buffers m (snd (encodeOwnFrame lib type ob payload cap src m))"
  by (simp add: same_buffers_def encodeOwnFrame_def reserveSequence_def read_clock_def Let_def case_prod_beta
      split: option.split)

lemma same_buffers_poll: "same_buffers m (snd (editor_poll lib m))" "same_buffers m (editor_answer lib full m)"
  "same_buffers m (addTerminalHistory lib line m)" "same_buffers m (start_negotiation lib ready now m)"
  using same_buffers_calls(3) [of m lib ready]
  by (simp_all add: same_buffers_def editor_poll_def editor_answer_def addTerminalHistory_def start_negotiation_def
      Let_def case_prod_beta split: option.split)

section \<open>Predicates on the outbound buffers\<close>

text \<open>A shell line may write to the multiplexer, and the publisher's provider may look at it.\<close>

definition shell_preserves ::
    "('p, 'n, 'd, 'e, 'w, 'c, 'x) mux_lib \<Rightarrow> (('p, 'n, 'd, 'e, 'w) serial_mux \<Rightarrow> bool) \<Rightarrow> bool" where
  "shell_preserves lib P \<longleftrightarrow> (\<forall>line source user h. P (hb_mux h) \<longrightarrow>
     P (hb_mux (snd (ml_run_line lib line source user h))) \<and>
     pb_snapshotProvider (hb_publisher (snd (ml_run_line lib line source user h))) = pb_snapshotProvider (hb_publisher h))"

definition provider_preserves ::
    "(('p, 'n, 'd, 'e, 'w) serial_mux \<Rightarrow> bool) \<Rightarrow> ('p, 'n, 'd, 'e, 'w) provider \<Rightarrow> bool" where
  "provider_preserves P provider \<longleftrightarrow> (\<forall>f e. provider = Some f \<longrightarrow> P (fst e) \<longrightarrow> P (fst (snd (f e))))"

definition holds ::
    "(('p, 'n, 'd, 'e, 'w) serial_mux \<Rightarrow> bool) \<Rightarrow> ('p, 'n, 'd, 'e, 'w) hub \<Rightarrow> bool" where
  "holds P h \<longleftrightarrow> P (hb_mux h) \<and> provider_preserves P (pb_snapshotProvider (hb_publisher h))"

lemma holds_on: "holds P h \<Longrightarrow> (\<And>m. P m \<Longrightarrow> P (f m)) \<Longrightarrow> holds P (on_mux f h)"
  by (simp add: holds_def on_mux_def)

lemma holds_update [simp]:
  "holds P (h\<lparr>hb_subs := s\<rparr>) = holds P h" "holds P (h\<lparr>hb_manifests := c\<rparr>) = holds P h"
  "holds P (h\<lparr>hb_bindings := b\<rparr>) = holds P h" "holds P (h\<lparr>hb_peers := t\<rparr>) = holds P h"
  "holds P (dispatchUpstreamAction lib a h) = holds P h" "holds P (client_gone lib now h) = holds P h"
  by (simp_all add: holds_def)

lemma holds_mux: "holds P h \<Longrightarrow> P m \<Longrightarrow> holds P (h\<lparr>hb_mux := m\<rparr>)"
  by (simp add: holds_def)

lemma holds_sweep [simp]: "holds P (sweep_leases lib now h) = holds P h"
  by (simp add: sweep_leases_def holds_def split: prod.split)

lemma holds_shell: "shell_preserves lib P \<Longrightarrow> holds P h \<Longrightarrow> holds P (snd (ml_run_line lib line source user h))"
  by (simp add: shell_preserves_def holds_def)

locale outbound_predicate =
  fixes P :: "('p, 'n, 'd, 'e, 'w, 'c, 'x) mux_lib \<Rightarrow> ('p, 'n, 'd, 'e, 'w) serial_mux \<Rightarrow> bool"
  assumes offer: "P lib m \<Longrightarrow> P lib (snd (enqueueFrameBytes lib cls frame m))"
    and drain: "P lib m \<Longrightarrow> P lib (drainTx lib m)"
    and clear: "P lib m \<Longrightarrow> P lib (resetQueues m)"
    and only: "same_buffers m m' \<Longrightarrow> P lib m' = P lib m"
begin

lemma fields [simp]:
  "P lib (m\<lparr>mw_port := p\<rparr>) = P lib m" "P lib (m\<lparr>sm_world := w\<rparr>) = P lib m" "P lib (m\<lparr>sm_session := s\<rparr>) = P lib m"
  "P lib (m\<lparr>sm_decoder := d\<rparr>) = P lib m" "P lib (m\<lparr>sm_terminalShell := e\<rparr>) = P lib m"
  "P lib (m\<lparr>sm_terminalOut := t\<rparr>) = P lib m" "P lib (m\<lparr>sm_lastStatusMs := n\<rparr>) = P lib m"
  "P lib (m\<lparr>sm_framesRx := a\<rparr>) = P lib m" "P lib (m\<lparr>sm_crcErrors := a\<rparr>) = P lib m"
  "P lib (m\<lparr>sm_decodeErrors := a\<rparr>) = P lib m" "P lib (m\<lparr>sm_reassemblyRejected := a\<rparr>) = P lib m"
  "P lib (m\<lparr>sm_telemetryDropped := a\<rparr>) = P lib m"
  by (rule only; simp add: same_buffers_def)+

lemmas calls [simp] = same_buffers_calls [THEN only] same_buffers_frame [THEN only]
  same_buffers_encode [THEN only] same_buffers_poll [THEN only]

lemma own: "P lib m \<Longrightarrow> P lib (snd (enqueueOwn lib type ob payload src m))"
proof -
  assume "P lib m"
  then have "P lib (snd (encodeOwnFrame lib type ob payload (kMaxFrameBytes lib) src m))" by simp
  then show ?thesis by (simp add: enqueueOwn_def case_prod_beta offer split: option.split)
qed

lemma chunks: "P lib m \<Longrightarrow> P lib (send_chunks lib out m)"
proof (induction lib out m rule: send_chunks.induct)
  case (1 lib out m)
  then show ?case by (simp add: send_chunks.simps [of lib out m] own)
qed

lemma flush: "P lib m \<Longrightarrow> P lib (flushTerminalPtyOutput lib m)"
  by (simp add: flushTerminalPtyOutput_def chunks)

lemma on: "holds (P lib) h \<Longrightarrow> (\<And>m. P lib (f m) = P lib m) \<Longrightarrow> holds (P lib) (on_mux f h)"
  by (rule holds_on) simp_all

lemma relay: "holds (P lib) h \<Longrightarrow> holds (P lib) (snd (relayDown lib decoded h))"
  using relayDown_effect [of lib decoded h] by (auto simp: relay_effect_def intro!: holds_on)

lemma reply: "holds (P lib) h \<Longrightarrow> holds (P lib) (on_mux (mux_replyCommandResult lib rh a v s c msg) h)"
  by (rule holds_on) (simp_all add: mux_replyCommandResult_def Let_def own)

lemma command:
  assumes "shell_preserves lib (P lib)" and "holds (P lib) h"
  shows "holds (P lib) (handleCommandRequest lib decoded h)"
  using assms(2) holds_shell [OF assms]
  by (simp add: handleCommandRequest_def Let_def case_prod_beta relay reply split: option.split)

lemma terminal: "holds (P lib) h \<Longrightarrow> holds (P lib) (handleTerminalIn lib decoded h)"
  by (simp add: handleTerminalIn_def relay on)

lemma send: "holds (P lib) h \<Longrightarrow> holds (P lib) (on_mux (\<lambda>m. snd (enqueueOwn lib type ob payload src m)) h)"
  by (rule holds_on) (simp_all add: own)

lemma manifest:
  assumes "holds (P lib) h"
  shows "holds (P lib) (handleManifestRequest lib decoded h)"
proof -
  have "holds (P lib) g \<Longrightarrow> holds (P lib) (fold (answer_index lib header) is g)" for header "is" g
    by (induction "is" arbitrary: g) (simp_all add: answer_index_def Let_def send)
  then show ?thesis using assms
    by (simp add: handleManifestRequest_def Let_def case_prod_beta send split: option.split)
qed

lemma subscription:
  assumes h: "holds (P lib) h"
  shows "holds (P lib) (handleSubscribeRequest lib decoded h)" "holds (P lib) (handleUnsubscribeRequest lib decoded h)"
proof -
  have r: "holds (P lib) g \<Longrightarrow> holds (P lib) (reply_subscribe lib header st code sid rate lease g)" for header st code sid rate lease g
    by (simp add: reply_subscribe_def send split: option.split)
  have c: "holds (P lib) (h\<lparr>hb_mux := snd (read_clock lib (hb_mux h))\<rparr>)"
    by (rule holds_mux [OF h]) (use h in \<open>simp add: holds_def\<close>)
  then have c2: "holds (P lib) (h\<lparr>hb_mux := snd (read_clock lib (hb_mux h)), hb_subs := s\<rparr>)" for s
    by simp
  show "holds (P lib) (handleSubscribeRequest lib decoded h)"
    using h c2 by (simp add: handleSubscribeRequest_def Let_def case_prod_beta relay r split: option.split)
  show "holds (P lib) (handleUnsubscribeRequest lib decoded h)"
    using h c2 by (simp add: handleUnsubscribeRequest_def Let_def case_prod_beta relay send split: option.split)
qed

lemma finalize: "holds (P lib) h \<Longrightarrow> holds (P lib) (finalizeToConsole lib frame line h)"
proof -
  assume h: "holds (P lib) h"
  let ?g = "if frame \<noteq> [] then on_mux (writeFrameCobs lib frame) h else h"
  have g: "holds (P lib) ?g" using h by (simp add: on)
  then have "holds (P lib) (?g\<lparr>hb_mux := snd (read_clock lib (hb_mux ?g))\<rparr>)"
    by (intro holds_mux) (simp_all add: holds_def)
  then show ?thesis
    by (cases "frame = []") (auto simp: finalizeToConsole_def Let_def case_prod_beta clear intro!: holds_on)
qed

lemma greeting: "P lib m \<Longrightarrow> P lib (terminal_greeting lib m)"
  by (simp add: terminal_greeting_def case_prod_beta flush)

lemma frame:
  assumes k: "shell_preserves lib (P lib)" and h: "holds (P lib) h"
  shows "holds (P lib) (dispatchFrame lib decoded now h)"
proof -
  obtain result session where f: "onFrame (ml_node lib) (btp_header.truncate (fst decoded), snd decoded) (ucast now)
      (sm_session (hb_mux h)) = (result, session)" by fastforce
  have s: "holds (P lib) (on_mux (\<lambda>m. m\<lparr>sm_session := session\<rparr>) h)" using h by (rule on) simp
  have hello: "holds (P lib) g \<Longrightarrow> holds (P lib) (on_mux (\<lambda>m. terminal_greeting lib
      ((snd (enqueueFrameBytes lib c fr m))\<lparr>sm_lastStatusMs := now\<rparr>)) g)" for c fr g
    by (rule holds_on) (simp_all add: greeting offer)
  have counted: "holds (P lib) (on_mux (\<lambda>m. m\<lparr>sm_reassemblyRejected := sm_reassemblyRejected m + 1\<rparr>) h)"
    using h by (rule on) simp
  show ?thesis using s counted
    by (cases "fr_outcome result")
      (simp_all add: dispatchFrame_def f Let_def finalize command [OF k] terminal manifest subscription hello)
qed

lemma rx_step:
  assumes k: "shell_preserves lib (P lib)" and h: "holds (P lib) h"
  shows "holds (P lib) (snd (rx_event_step lib now event h))"
  using h by (cases event) (simp_all add: rx_event_step_def frame [OF k] on)

lemma rx:
  assumes k: "shell_preserves lib (P lib)"
  shows "holds (P lib) h \<Longrightarrow> holds (P lib) (rx_loop lib now n h)"
proof (induction n arbitrary: h)
  case (Suc n)
  have "holds (P lib) (on_mux (\<lambda>m. m\<lparr>mw_port := p\<rparr>) h)" "holds (P lib) (on_mux (\<lambda>m. m\<lparr>mw_port := p, sm_decoder := d\<rparr>) h)" for p d
    by (rule on [OF Suc.prems]; simp)+
  then show ?case using Suc by (simp add: case_prod_beta rx_step [OF k] split: option.split)
qed simp

lemma poll:
  assumes k: "shell_preserves lib (P lib)"
  shows "holds (P lib) h \<Longrightarrow> holds (P lib) (poll_loop lib n h)"
proof (induction n arbitrary: h)
  case (Suc n)
  have m: "holds (P lib) (h\<lparr>hb_mux := snd (editor_poll lib (hb_mux h))\<rparr>)"
    by (rule holds_mux [OF Suc.prems]) (use Suc.prems in \<open>simp add: holds_def\<close>)
  then show ?case using Suc.IH holds_shell [OF k m]
    by (simp add: case_prod_beta on split: option.split)
qed simp

lemma publish:
  assumes h: "holds (P lib) h"
  shows "holds (P lib) (publisher_tick lib now h)"
proof -
  have "P lib (fst (snd (emitOwnTelemetry lib t bs e)))" if "P lib (fst e)" for t bs and e :: "('p, 'n, 'd, 'e, 'w) serial_mux \<times> peer_table"
    using own [OF that] by (simp add: emitOwnTelemetry_def case_prod_beta)
  moreover have "P lib (fst (snd (f e)))" if "pb_snapshotProvider (hb_publisher h) = Some f" "P lib (fst e)" for f e
    using h that unfolding holds_def provider_preserves_def by blast
  moreover have "P lib (hb_mux h)" using h by (simp add: holds_def)
  ultimately show ?thesis
    using tick_keeps [where P = "\<lambda>e. P lib (fst e)" and emit = "emitOwnTelemetry lib" and s = "hb_publisher h"
        and st = "((hb_mux h, hb_peers h), hb_subs h)" and src = "sourceId lib (hb_mux h)" and now = now] h
    by (simp add: publisher_tick_def case_prod_beta holds_def)
qed

lemma heartbeat:
  assumes h: "holds (P lib) h"
  shows "holds (P lib) (maybeSendStatusHeartbeat lib now h)"
proof -
  have "P lib (snd (read_clock lib ((hb_mux h)\<lparr>sm_lastStatusMs := now\<rparr>)))" using h by (simp add: holds_def)
  then have "P lib (snd (enqueueOwn lib type ob payload src (snd (read_clock lib ((hb_mux h)\<lparr>sm_lastStatusMs := now\<rparr>)))))"
    for type ob payload src by (rule own)
  then show ?thesis using h by (auto simp: maybeSendStatusHeartbeat_def Let_def case_prod_beta holds_def)
qed

lemma expired: "holds (P lib) h \<Longrightarrow> holds (P lib) (session_expired lib was line now h)"
  by (auto simp: session_expired_def Let_def clear intro!: holds_on)

lemma tick:
  assumes k: "shell_preserves lib (P lib)" and h: "holds (P lib) h"
  shows "holds (P lib) (mux_tick lib now h)"
proof -
  have r: "holds (P lib) (pumpRx lib now g)" if "holds (P lib) g" for g
    using that rx [OF k] by (simp add: pumpRx_def)
  have t: "holds (P lib) (pumpTerminalShell lib g)" if "holds (P lib) g" for g
    unfolding pumpTerminalShell_def by (rule holds_on [OF poll [OF k that]]) (rule flush)
  have d: "holds (P lib) (on_mux (drainTx lib) g)" if "holds (P lib) g" for g
    by (rule holds_on [OF that]) (rule drain)
  have s: "holds (P lib) (on_mux (\<lambda>m. m\<lparr>sm_session := f m\<rparr>) g)" if "holds (P lib) g" for f g
    by (rule on [OF that]) simp
  show ?thesis
    using h by (simp add: mux_tick_def Let_def case_prod_beta s r t d expired publish heartbeat)
qed

lemma forward:
  assumes h: "holds (P lib) h"
  shows "holds (P lib) (snd (forwardRelay lib header payload h))" "holds (P lib) (snd (relayUp lib header fr h))"
proof -
  have q: "holds (P lib) (snd (queue_relayed lib header x n h))" for x n
    using holds_mux [OF h offer] h
    by (simp add: queue_relayed_def Let_def case_prod_beta holds_def)
  have r: "holds (P lib) (refuse_unsubscribed header h)" "holds (P lib) (snd (not_listening header h))"
    using h by (simp_all add: refuse_unsubscribed_def not_listening_def on)
  show "holds (P lib) (snd (forwardRelay lib header payload h))"
    using h by (simp add: forwardRelay_def case_prod_beta q r)
  show "holds (P lib) (snd (relayUp lib header fr h))"
    using h by (simp add: relayUp_def Let_def q r split: option.split)
qed

lemma step:
  assumes k: "shell_preserves lib (P lib)" and h: "holds (P lib) h"
  shows "holds (P lib) (mux_step lib op h)"
proof (cases op)
  case (TransportLost now)
  have "holds (P lib) (on_mux (\<lambda>m. m\<lparr>sm_session := s\<rparr>) h)" for s by (rule on [OF h]) simp
  then show ?thesis using TransportLost
    by (auto simp: mux_onTransportLost_def Let_def case_prod_beta clear intro!: holds_on)
next
  case (EnterCommand now)
  have "holds (P lib) (on_mux (\<lambda>m. m\<lparr>sm_world := w\<rparr>) h)" for w by (rule on [OF h]) simp
  then show ?thesis using EnterCommand h by (simp add: enterFromCommand_def Let_def case_prod_beta on)
next
  case (TerminalText line)
  then show ?thesis using h by (auto simp: writeTerminalResponse_def chunks intro!: holds_on)
qed (use h tick [OF k h] forward [OF h] in \<open>simp_all add: tryEnterFromConsoleLine_def case_prod_beta on\<close>)

lemma run:
  "shell_preserves lib (P lib) \<Longrightarrow> holds (P lib) h \<Longrightarrow> holds (P lib) (fold (mux_step lib) ops h)"
  by (induction ops arbitrary: h) (simp_all add: step)

end

section \<open>Everything fits\<close>

definition fits :: "('p, 'y) wire_lib_scheme \<Rightarrow> priority_class \<Rightarrow> bytes rtos_queue \<Rightarrow> bool" where
  "fits lib c q \<longleftrightarrow> fst q = kQueueDepth c \<and> length (snd q) \<le> fst q \<and>
     (\<forall>frame\<in>set (snd q). length frame \<le> kClassFrameCap lib c)"

definition cobs_bounded :: "('p, 'y) wire_lib_scheme \<Rightarrow> bool" where
  "cobs_bounded lib \<longleftrightarrow> (\<forall>frame cap encoded. wl_cobs lib frame cap = Some encoded \<longrightarrow> length encoded \<le> cap)"

definition buffers_fit :: "('p, 'y) wire_lib_scheme \<Rightarrow> ('p, 'z) mux_wire_scheme \<Rightarrow> bool" where
  "buffers_fit lib m \<longleftrightarrow> (\<forall>c q. mw_queues m c = Some q \<longrightarrow> fits lib c q) \<and>
     (cobs_bounded lib \<longrightarrow> length (pw_bytes (mw_pending m)) \<le> kMaxCobsBytes lib + 2) \<and>
     pw_offset (mw_pending m) \<le> length (pw_bytes (mw_pending m))"

lemma fit_set: "buffers_fit lib m \<Longrightarrow> fits lib c q \<Longrightarrow> buffers_fit lib (set_queue c q m)"
  by (cases q) (simp add: buffers_fit_def set_queue_def)

lemma fit_queue: "buffers_fit lib m \<Longrightarrow> mw_queues m c = Some q \<Longrightarrow> fits lib c q"
  by (cases q) (simp add: buffers_fit_def)

lemma fit_updates [simp]:
  "buffers_fit lib (count_dropped c m) = buffers_fit lib m" "buffers_fit lib (count_stall m) = buffers_fit lib m"
  "buffers_fit lib (m\<lparr>mw_framesTxStalled := n\<rparr>) = buffers_fit lib m" "buffers_fit lib (m\<lparr>mw_framesTx := n\<rparr>) = buffers_fit lib m"
  "buffers_fit lib (m\<lparr>mw_port := p\<rparr>) = buffers_fit lib m"
  by (simp_all add: buffers_fit_def count_dropped_def count_stall_def)

lemma fit_reset: "buffers_fit lib m \<Longrightarrow> buffers_fit lib (resetPendingWireFrame m)"
  by (simp add: buffers_fit_def resetPendingWireFrame_def noPendingWire_def)

lemma fit_send: "fits lib c q \<Longrightarrow> length frame \<le> kClassFrameCap lib c \<Longrightarrow> fits lib c (snd (queue_send frame q))"
  by (auto simp: fits_def queue_send_def)

lemma fit_receive: "fits lib c q \<Longrightarrow> queue_receive q = Some (item, q') \<Longrightarrow> fits lib c q'"
  by (auto simp: fits_def queue_receive_def split: list.splits)

lemma fit_offer:
  assumes b: "buffers_fit lib m"
  shows "buffers_fit lib (snd (enqueueFrameBytes lib cls frame m))"
proof (cases "length frame > kClassFrameCap lib cls")
  case False
  then have small: "length frame \<le> kClassFrameCap lib cls" by simp
  show ?thesis
  proof (cases "mw_queues m cls")
    case (Some q)
    have q: "fits lib cls q" by (rule fit_queue [OF b Some])
    obtain q2 where q2: "(case queue_receive q of None \<Rightarrow> q | Some (discard, q') \<Rightarrow> q') = q2" "fits lib cls q2"
      using q fit_receive [OF q] by (auto split: option.split)
    obtain ok1 q1 where s1: "queue_send frame q = (ok1, q1)" by (cases "queue_send frame q") blast
    obtain ok3 q3 where s3: "queue_send frame q2 = (ok3, q3)" by (cases "queue_send frame q2") blast
    have "buffers_fit lib (set_queue cls q1 m)" "buffers_fit lib (set_queue cls q2 m)" "buffers_fit lib (set_queue cls q3 m)"
      using fit_set [OF b] fit_send [OF q small] fit_send [OF q2(2) small] s1 s3 q2(2) by simp_all
    then show ?thesis using b Some small
      by (auto simp: enqueueFrameBytes_def q2(1) s1 s3 Let_def)
  qed (use b in \<open>simp add: enqueueFrameBytes_def\<close>)
qed (use b in \<open>simp add: enqueueFrameBytes_def\<close>)

lemma fit_pump: "buffers_fit lib m \<Longrightarrow> buffers_fit lib (snd (pumpPendingWireFrame lib m))"
proof -
  assume b: "buffers_fit lib m"
  have off: "buffers_fit lib (m\<lparr>mw_port := p, mw_pending := (mw_pending m)\<lparr>pw_offset := n\<rparr>\<rparr>)"
    if "n \<le> length (pw_bytes (mw_pending m))" for p n
    using b that by (simp add: buffers_fit_def)
  have "pw_offset (mw_pending m) + (if sent < length (pw_bytes (mw_pending m)) - pw_offset (mw_pending m) then sent
      else length (pw_bytes (mw_pending m)) - pw_offset (mw_pending m)) \<le> length (pw_bytes (mw_pending m))" for sent
    using b by (auto simp: buffers_fit_def)
  then show ?thesis using b off
    by (simp add: pumpPendingWireFrame_def case_prod_beta Let_def fit_reset)
qed

lemma fit_stage: "buffers_fit lib m \<Longrightarrow> buffers_fit lib (snd (stageFrameCobs lib frame m))"
proof (cases "wl_cobs lib frame (kMaxCobsBytes lib)")
  case (Some encoded)
  assume b: "buffers_fit lib m"
  have "cobs_bounded lib \<Longrightarrow> length encoded \<le> kMaxCobsBytes lib" using Some unfolding cobs_bounded_def by blast
  then show ?thesis using b Some by (simp add: stageFrameCobs_def buffers_fit_def)
qed (simp add: stageFrameCobs_def fit_reset)

lemma fit_drain_queue: "buffers_fit lib m \<Longrightarrow> buffers_fit lib (snd (drain_queue lib cls n m))"
proof (induction n arbitrary: m)
  case (Suc n)
  show ?case
  proof (cases "mw_queues m cls = None \<or> queue_receive (the (mw_queues m cls)) = None")
    case False
    then obtain q item q' where q: "mw_queues m cls = Some q" "queue_receive q = Some (item, q')" by auto
    have "buffers_fit lib (set_queue cls q' m)"
      by (rule fit_set [OF Suc.prems fit_receive [OF fit_queue [OF Suc.prems q(1)] q(2)]])
    then have "buffers_fit lib (snd (stageFrameCobs lib item (set_queue cls q' m)))" by (rule fit_stage)
    then show ?thesis using q Suc.IH by (simp add: case_prod_beta fit_pump)
  qed (use Suc.prems in \<open>auto split: option.split\<close>)
qed simp

lemma fit_drain: "buffers_fit lib m \<Longrightarrow> buffers_fit lib (drainTx lib m)"
proof -
  assume b: "buffers_fit lib m"
  have c: "buffers_fit lib g \<Longrightarrow> buffers_fit lib (snd (drainQueueClass lib cls n g))" for cls n and g :: "('a, 'c) mux_wire_scheme"
    by (simp add: drainQueueClass_def fit_drain_queue split: option.split)
  show ?thesis using b by (simp add: drainTx_def Let_def case_prod_beta c fit_pump)
qed

interpretation out: outbound_predicate buffers_fit
proof unfold_locales
  show "buffers_fit lib (resetQueues m)" if "buffers_fit lib m" for lib and m :: "('a, 'b, 'c, 'd, 'e) serial_mux"
    using that by (auto simp: buffers_fit_def resetQueues_def resetPendingWireFrame_def noPendingWire_def fits_def)
qed (simp_all only: fit_offer fit_drain, simp add: buffers_fit_def same_buffers_def)

text \<open>C27. No buffer of the serial side is ever overrun: once \<open>begin\<close> created the queues, and whatever
  frames, datagrams, lines and ticks follow, each queue holds at most the items it was created for,
  each queued frame fits an item of its class (a telemetry item is smaller than the others), and the
  frame being written fits its buffer, delimiters included, with the write position inside it.\<close>

theorem serial_buffers_never_overrun:
  assumes "cobs_bounded lib" and "shell_preserves lib (buffers_fit lib)"
    and "provider_preserves (buffers_fit lib) (pb_snapshotProvider (hb_publisher h))"
    and "\<forall>c. mw_queues m0 c = None" and "mw_pending m0 = noPendingWire"
    and "hb_mux h = mux_begin lib io runs uuid prompt source boot relays created m0"
  shows "let m = hb_mux (fold (mux_step lib) ops h) in
    (\<forall>c q. mw_queues m c = Some q \<longrightarrow> length (snd q) \<le> kQueueDepth c \<and>
       (\<forall>frame\<in>set (snd q). length frame \<le> kClassFrameCap lib c)) \<and>
    length (pw_bytes (mw_pending m)) \<le> kMaxCobsBytes lib + 2 \<and>
    pw_offset (mw_pending m) \<le> length (pw_bytes (mw_pending m))"
proof -
  have "buffers_fit lib (hb_mux h)"
    using assms(4,5) by (auto simp: assms(6) mux_begin_def Let_def read_clock_def buffers_fit_def fits_def noPendingWire_def
        split: prod.split if_splits)
  then have "holds (buffers_fit lib) (fold (mux_step lib) ops h)"
    using assms(2,3) by (intro out.run) (simp_all add: holds_def)
  then show ?thesis using assms(1) by (auto simp: holds_def buffers_fit_def fits_def Let_def)
qed

text \<open>Three telemetry datagrams arrive between two ticks.\<close>

definition tight_lib :: "(bytes \<times> bytes, demo_node, unit, bytes, demo_world, unit, unit) mux_lib" where
  "tight_lib = demo_lib\<lparr>wl_cobs := \<lambda>frame cap. if length frame \<le> cap then Some frame else None\<rparr>"

definition unbegun :: demo_mux where
  "unbegun = demo_mux\<lparr>mw_queues := \<lambda>c. None, sm_session := (sm_session demo_mux)\<lparr>s_node := (SsActive, SeNone)\<rparr>\<rparr>"

definition begun :: demo_hub where
  "begun = demo_hub\<lparr>hb_mux := mux_begin tight_lib ([], []) True [] None 100 1 True (\<lambda>_. True) unbegun\<rparr>"

definition flood :: "mux_op list" where
  "flood = replicate 3 (Upstream (demo_header MtTelemetry 3) (Some (replicate 40 1)))"

lemma serial_buffers_never_overrun_witness:
  "length (queue_of (hb_mux (fold (mux_step tight_lib) flood begun)) KTelemetry) = 3 \<and>
   list_all (\<lambda>frame. length frame \<le> 768) (queue_of (hb_mux (fold (mux_step tight_lib) flood begun)) KTelemetry)"
proof -
  let ?m = "hb_mux (fold (mux_step tight_lib) flood begun)"
  have "cobs_bounded tight_lib" by (simp add: cobs_bounded_def tight_lib_def)
  moreover have "shell_preserves tight_lib (buffers_fit tight_lib)"
    by (simp add: shell_preserves_def tight_lib_def demo_lib_def)
  moreover have "provider_preserves (buffers_fit tight_lib) (pb_snapshotProvider (hb_publisher begun))"
    by (simp add: provider_preserves_def begun_def demo_hub_def publisher_init_def)
  moreover have "\<forall>c. mw_queues unbegun c = None" "mw_pending unbegun = noPendingWire"
    by (simp_all add: unbegun_def demo_mux_def)
  moreover have "hb_mux begun = mux_begin tight_lib ([], []) True [] None 100 1 True (\<lambda>_. True) unbegun"
    by (simp add: begun_def)
  moreover have "length (queue_of (hb_mux (fold (mux_step tight_lib) flood begun)) KTelemetry) = 3" by code_simp
  ultimately have "length (queue_of ?m KTelemetry) = 3" and
      "\<forall>c q. mw_queues ?m c = Some q \<longrightarrow> (\<forall>frame\<in>set (snd q). length frame \<le> kClassFrameCap tight_lib c)"
    using serial_buffers_never_overrun [of tight_lib begun unbegun "([], [])" True "[]" None 100 1 True "\<lambda>_. True" flood]
    unfolding Let_def by blast+
  moreover have "kClassFrameCap tight_lib KTelemetry = 768" by simp
  ultimately show ?thesis unfolding queue_of_def list_all_iff by (metis option.case_eq_if option.collapse empty_iff empty_set)
qed

end
