(* ===== verification/Hub_Relay_Proofs.thy ===== *)
theory Hub_Relay_Proofs
  imports Hub_Subscriptions Hub_Buffers
begin

text \<open>
  The upstream relay with the registry and the queues: which datagrams of the robots reach the
  desktop, and what is left of a client when its session ends.
\<close>

section \<open>What is known to be unwanted\<close>

lemma unwanted_iff:
  assumes "reg_inv s"
  shows "isKnownUnwanted src tpc s \<longleftrightarrow>
    slot_get tr_used row_key (sr_rows s) (src, tpc) \<noteq> None \<and> live s (src, tpc) = Map.empty"
proof (cases "findRow src tpc (sr_rows s)")
  case None
  then show ?thesis using slot_get_findRow [of "sr_rows s" src tpc] reg_invD(2) [OF assms]
    by (simp add: isKnownUnwanted_def)
next
  case (Some i)
  then have i: "i < length (sr_rows s)" "tr_used (sr_rows s ! i)" by (auto dest: findRow_SomeD)
  have get: "slot_get tr_used row_key (sr_rows s) (src, tpc) = Some (sr_rows s ! i)"
    using slot_get_findRow [of "sr_rows s" src tpc] reg_invD(2) [OF assms] Some by simp
  have "clients_ok (tr_clients (sr_rows s ! i))" using reg_invD(3) [OF assms i(1)] by (simp add: row_ok_def)
  from wanted_union [OF this] have "refcount (sr_rows s ! i) = 0 \<longleftrightarrow> live s (src, tpc) = Map.empty"
    by (auto simp: wanted_def union_of_def live_def get split: if_splits)
  then show ?thesis by (simp add: isKnownUnwanted_def Some get)
qed

section \<open>The queue after an offer\<close>

lemma offer_result:
  assumes fit: "buffers_fit lib m" and e: "enqueueFrameBytes lib c frame m = (ok, m')"
  shows "if ok then queue_of m' c = (if length (queue_of m c) < kQueueDepth c then queue_of m c else tl (queue_of m c)) @ [frame]
      \<and> (\<forall>d. d \<noteq> c \<longrightarrow> mw_queues m' d = mw_queues m d)
    else mw_queues m' = mw_queues m"
proof (cases "mw_queues m c = None \<or> kClassFrameCap lib c < length frame")
  case True
  then show ?thesis using e by (auto simp: enqueue_refused)
next
  case False
  then obtain q where q: "mw_queues m c = Some q" and small: "length frame \<le> kClassFrameCap lib c" by auto
  have fq: "fits lib c q" by (rule fit_queue [OF fit q])
  obtain xs where xs: "q = (kQueueDepth c, xs)" using fq by (cases q) (simp add: fits_def)
  have "length (tl xs) < kQueueDepth c" using fq xs by (cases c; cases xs) (auto simp: fits_def)
  with enqueue_cases [OF q [unfolded xs] small] e show ?thesis
    by (auto simp: queue_of_def q xs split: if_splits)
qed

section \<open>The gate\<close>

definition unheld :: "('p, 'n, 'd, 'e, 'w) hub \<Rightarrow> radio_header \<Rightarrow> bool" where
  "unheld h header \<longleftrightarrow> hd_type header = MtTelemetry \<and>
     slot_get tr_used row_key (sr_rows (hb_subs h)) (hd_source_id header, ucast (hd_object_id header)) \<noteq> None \<and>
     live (hb_subs h) (hd_source_id header, ucast (hd_object_id header)) = Map.empty"

lemma relayUp_split:
  assumes "reg_inv (hb_subs h)"
  shows "relayUp lib header frame h =
    (if \<not> isProtocolled lib h then not_listening header h
     else if frame = None \<or> frame = Some [] then (False, h)
     else if unheld h header then (False, refuse_unsubscribed header h)
     else queue_relayed lib header (the frame)
            (unat (of_nat (length (the frame)) - of_nat (co_min_frame (ml_codec lib)) :: u32)) h)"
  by (auto simp: relayUp_def Let_def unheld_def unwanted_iff [OF assms] split: option.split)

text \<open>C26. The upstream relay passes exactly what the desktop may see: a datagram is queued only while a
  session is open and, for telemetry, unless its topic is known and no client holds it; what is queued
  is the datagram octet for octet, behind everything of its class (the oldest sample gives way when the
  telemetry or log queue is full), no other class moves, and nothing is written to the port. A sample
  nobody holds is counted.\<close>

theorem upstream_relay_is_gated:
  assumes "reg_inv (hb_subs h)" and "buffers_fit lib (hb_mux h)" and "relayUp lib header frame h = (ok, h')"
  defines "c \<equiv> classify (hd_type header) (hd_object_id header)" and "q \<equiv> queue_of (hb_mux h)"
  shows "(ok \<longrightarrow> isProtocolled lib h \<and> \<not> unheld h header \<and> frame \<notin> {None, Some []} \<and>
        queue_of (hb_mux h') = q(c := (if length (q c) < kQueueDepth c then q c else tl (q c)) @ [the frame])) \<and>
     (\<not> ok \<longrightarrow> mw_queues (hb_mux h') = mw_queues (hb_mux h)) \<and>
     mw_port (hb_mux h') = mw_port (hb_mux h) \<and>
     (isProtocolled lib h \<and> unheld h header \<and> frame \<notin> {None, Some []} \<longrightarrow>
        sm_telemetryDropped (hb_mux h') = sm_telemetryDropped (hb_mux h) + 1)"
proof -
  obtain queued m where e: "enqueueFrameBytes lib c (the frame) (hb_mux h) = (queued, m)" by fastforce
  note r = assms(3) [unfolded relayUp_split [OF assms(1)]]
  consider (off) "\<not> isProtocolled lib h" | (none) "isProtocolled lib h" "frame = None \<or> frame = Some []"
    | (gate) "isProtocolled lib h" "frame \<notin> {None, Some []}" "unheld h header"
    | (pass) "isProtocolled lib h" "frame \<notin> {None, Some []}" "\<not> unheld h header"
    by blast
  then show ?thesis
  proof cases
    case pass
    then have "ok = queued" "hb_mux h' = m"
      using r e by (auto simp: queue_relayed_def c_def Let_def)
    moreover have "queue_of m = q(c := (if length (q c) < kQueueDepth c then q c else tl (q c)) @ [the frame])" if queued
      using offer_result [OF assms(2) e] that by (auto simp: q_def queue_of_def fun_eq_iff)
    moreover have "mw_queues m = mw_queues (hb_mux h)" if "\<not> queued" using offer_result [OF assms(2) e] that by simp
    moreover have "mw_port m = mw_port (hb_mux h)" using offer_frame [of lib c "the frame" "hb_mux h"] e by simp
    ultimately show ?thesis using pass by simp
  qed (use r in \<open>auto simp: not_listening_def refuse_unsubscribed_def on_mux_def\<close>)
qed

lemma upstream_relay_is_gated_witness:
  "queue_of (hb_mux (snd (relayUp tight_lib (demo_header MtTelemetry 3) (Some (replicate 40 1)) begun))) KTelemetry =
     [replicate 40 1]"
proof -
  have "reg_inv (hb_subs begun)" by (simp add: begun_def demo_hub_def reg_inv_init)
  moreover have "buffers_fit tight_lib (hb_mux begun)"
    by (auto simp: begun_def unbegun_def demo_mux_def mux_begin_def Let_def read_clock_def tight_lib_def demo_lib_def
        buffers_fit_def fits_def noPendingWire_def split: if_splits)
  moreover obtain ok h' where r: "relayUp tight_lib (demo_header MtTelemetry 3) (Some (replicate 40 1)) begun = (ok, h')"
    by fastforce
  moreover have ok by (subgoal_tac "fst (relayUp tight_lib (demo_header MtTelemetry 3) (Some (replicate 40 1)) begun)")
    (simp add: r, code_simp)
  moreover have "classify (hd_type (demo_header MtTelemetry 3)) (hd_object_id (demo_header MtTelemetry 3)) = KTelemetry"
    by code_simp
  moreover have "queue_of (hb_mux begun) KTelemetry = []" by code_simp
  ultimately show ?thesis
    using upstream_relay_is_gated [of begun tight_lib "demo_header MtTelemetry 3" "Some (replicate 40 1)" ok h'] by simp
qed

section \<open>The end of a session\<close>

lemma client_gone_live:
  assumes s: "reg_inv (hb_subs h)"
  shows "live (hb_subs (client_gone lib now h)) k c =
    (if c = peerSourceId (ml_node lib) (sm_session (hb_mux h)) then None else live (hb_subs h) k c)"
proof -
  let ?p = "peerSourceId (ml_node lib) (sm_session (hb_mux h))"
  obtain rs n b where r: "rows_loop (disconnect_row ?p now) kMaxTopics (sr_rows (hb_subs h)) (0, Some out_buffer) = (rs, n, b)"
    by (metis prod_cases3)
  have "hb_subs (client_gone lib now h) = (hb_subs h)\<lparr>sr_rows := map (\<lambda>r. snd (disconnect_row ?p now r)) (sr_rows (hb_subs h))\<rparr>"
    using r pass_exec(1) [OF s disconnect_pass r]
    by (simp add: client_gone_def onClientDisconnected_def out_buffer_def [symmetric])
  from pass_facts(3) [OF s disconnect_pass this, of k c] show ?thesis
    by (auto simp: live_def split: option.splits dest!: slot_get_SomeD)
qed

definition without_client :: "u32 \<Rightarrow> ('p, 'n, 'd, 'e, 'w) hub \<Rightarrow> ('p, 'n, 'd, 'e, 'w) hub \<Rightarrow> bool" where
  "without_client gone h h' \<longleftrightarrow>
     (\<forall>k c. live (hb_subs h') k c = (if c = gone then None else live (hb_subs h) k c))"

lemma ended_session_parts:
  assumes "reg_inv (hb_subs h)"
  shows "without_client (peerSourceId (ml_node lib) (sm_session (hb_mux h))) h (finalizeToConsole lib frame line h)"
    and "without_client (peerSourceId (ml_node lib) (sm_session (hb_mux h))) h (session_expired lib was line now h)"
    and "onTransportLost (ml_node lib) (sm_session (hb_mux h)) = (True, s) \<Longrightarrow>
      without_client (peerSourceId (ml_node lib) s) h (mux_onTransportLost lib now h)"
proof -
  have gone: "live (hb_subs (client_gone lib t (h\<lparr>hb_mux := m\<rparr>))) k c =
      (if c = peerSourceId (ml_node lib) (sm_session m) then None else live (hb_subs h) k c)" for t m k c
    using client_gone_live [of "h\<lparr>hb_mux := m\<rparr>" lib t k c] assms by simp
  have f: "hb_subs (finalizeToConsole lib frame line h) =
      hb_subs (client_gone lib (fst (read_clock lib m)) (h\<lparr>hb_mux := snd (read_clock lib m)\<rparr>))"
    if "m = (if frame \<noteq> [] then writeFrameCobs lib frame (hb_mux h) else hb_mux h)" for m
    using that by (simp add: finalizeToConsole_def Let_def case_prod_beta on_mux_def)
  show "without_client (peerSourceId (ml_node lib) (sm_session (hb_mux h))) h (finalizeToConsole lib frame line h)"
    by (simp add: without_client_def f [OF refl] gone)
  show "without_client (peerSourceId (ml_node lib) (sm_session (hb_mux h))) h (session_expired lib was line now h)"
    using client_gone_live [OF assms, of lib now] by (simp add: without_client_def session_expired_def on_mux_def)
  assume "onTransportLost (ml_node lib) (sm_session (hb_mux h)) = (True, s)"
  then show "without_client (peerSourceId (ml_node lib) s) h (mux_onTransportLost lib now h)"
    using client_gone_live [of "on_mux (\<lambda>m. m\<lparr>sm_session := s\<rparr>) h" lib now] assms
    by (simp add: without_client_def mux_onTransportLost_def Let_def on_mux_def)
qed

text \<open>A session that ends, in whichever way (a refused HELLO, a SESSION_CLOSE, the inactivity watchdog,
  the cable), takes exactly the subscriptions of its own client with it; those of every other client
  stay as they are.\<close>

theorem ended_session_holds_nothing:
  assumes "reg_inv (hb_subs h)"
  shows "without_client (peerSourceId (ml_node lib) (sm_session (hb_mux h))) h (finalizeToConsole lib frame line h) \<and>
    without_client (peerSourceId (ml_node lib) (sm_session (hb_mux h))) h (session_expired lib was line now h) \<and>
    (\<forall>s. onTransportLost (ml_node lib) (sm_session (hb_mux h)) = (True, s) \<longrightarrow>
      without_client (peerSourceId (ml_node lib) s) h (mux_onTransportLost lib now h))"
  using ended_session_parts [OF assms] by blast

text \<open>The desktop 9 holds hub.link, the desktop 8 hub.usb; then the cable of 9 is pulled.\<close>

definition two_clients :: demo_hub where
  "two_clients = demo_active\<lparr>hb_subs := snd (onDesktopSubscribe 8 100 0x0F02 500 5000 10
     (snd (onDesktopSubscribe 9 100 0x0F01 500 5000 10 resetForTests)))\<rparr>"

lemma ended_session_holds_nothing_witness:
  "live (hb_subs two_clients) (100, 0x0F01) 9 \<noteq> None \<and>
   live (hb_subs (mux_onTransportLost demo_lib 20 two_clients)) (100, 0x0F01) 9 = None \<and>
   live (hb_subs (mux_onTransportLost demo_lib 20 two_clients)) (100, 0x0F02) 8 = live (hb_subs two_clients) (100, 0x0F02) 8"
proof -
  obtain o1 s1 where s1: "onDesktopSubscribe 9 100 0x0F01 500 5000 10 resetForTests = (o1, s1)" by fastforce
  obtain o2 s2 where s2: "onDesktopSubscribe 8 100 0x0F02 500 5000 10 s1 = (o2, s2)" by fastforce
  have "reg_inv s1" using subscribe_facts [OF reg_inv_init s1] by simp
  then have "reg_inv s2" using subscribe_facts [OF _ s2] by simp
  then have inv: "reg_inv (hb_subs two_clients)" by (simp add: two_clients_def s1 s2)
  obtain s where lost: "onTransportLost (ml_node demo_lib) (sm_session (hb_mux two_clients)) = (True, s)"
    by (cases "onTransportLost (ml_node demo_lib) (sm_session (hb_mux two_clients))",
        subgoal_tac "fst (onTransportLost (ml_node demo_lib) (sm_session (hb_mux two_clients)))")
      (simp, code_simp)
  have "peerSourceId (ml_node demo_lib) s = 9" by (simp add: peerSourceId_def demo_lib_def demo_node_api_def)
  then have "without_client 9 two_clients (mux_onTransportLost demo_lib 20 two_clients)"
    using ended_session_holds_nothing [OF inv, where lib = demo_lib and now = 20] lost by (metis (no_types, lifting))
  moreover have "live (hb_subs two_clients) (100, 0x0F01) 9 \<noteq> None" by code_simp
  ultimately show ?thesis by (simp add: without_client_def)
qed

end
