(* ===== verification/Terminal_Proofs.thy ===== *)
theory Terminal_Proofs
  imports Hub_Buffers
begin

text \<open>
  The terminal of a session: what one flush puts on its way. The output is cut into chunks of at most
  \<open>kOutboundPayloadCap\<close> octets, and as many of them as the terminal queue has room for are queued, in
  order; the rest is lost, and counted.
\<close>

function chunks_of :: "string \<Rightarrow> string list" where
  "chunks_of s = (if s = [] then [] else take kOutboundPayloadCap s # chunks_of (drop kOutboundPayloadCap s))"
  by pat_completeness auto
termination by (relation "measure length") (auto simp: kOutboundPayloadCap_def)

declare chunks_of.simps [simp del]

lemma chunks_Nil [simp]: "chunks_of [] = []" by (simp add: chunks_of.simps)

lemma chunks_concat: "concat (chunks_of s) = s"
proof (induction s rule: chunks_of.induct)
  case (1 s)
  then show ?case by (cases "s = []") (simp_all add: chunks_of.simps [of s])
qed

text \<open>The library encodes every payload that fits, into a frame that fits, and never runs out of
  sequence numbers; \<open>body\<close> reads the payload of a frame back.\<close>

definition encoder_ok :: "('p, 'n, 'd, 'e, 'w, 'c, 'x) mux_lib \<Rightarrow> (bytes \<Rightarrow> bytes) \<Rightarrow> bool" where
  "encoder_ok lib body \<longleftrightarrow> (\<forall>n. fst (ml_reserve lib n) \<noteq> None) \<and>
     (\<forall>header payload. length payload \<le> kOutboundPayloadCap \<longrightarrow>
        (\<exists>frame. co_encode (ml_codec lib) (header, payload) SerialTransport (kMaxFrameBytes lib) = (BeOk, frame) \<and>
           length frame \<le> kMaxFrameBytes lib \<and> body frame = payload))"

definition waiting :: "(bytes \<Rightarrow> bytes) \<Rightarrow> ('p, 'z) mux_wire_scheme \<Rightarrow> bytes list" where
  "waiting body m = map body (queue_of m KTerminal)"

definition lost :: "('p, 'z) mux_wire_scheme \<Rightarrow> u64" where
  "lost m = mw_droppedByClass m KTerminal"

lemma encode_own:
  assumes "encoder_ok lib body" and "length payload \<le> kOutboundPayloadCap"
  obtains frame m' where "encodeOwnFrame lib type ob payload (kMaxFrameBytes lib) src m = (Some frame, m')"
    "length frame \<le> kMaxFrameBytes lib" "body frame = payload"
    "mw_queues m' = mw_queues m" "mw_droppedByClass m' = mw_droppedByClass m"
proof -
  obtain sequence n where r: "ml_reserve lib (s_node (sm_session m)) = (Some sequence, n)"
    using assms(1) unfolding encoder_ok_def by (metis prod.collapse option.collapse)
  obtain now w where t: "ml_millis lib (sm_world m) = (now, w)" by fastforce
  let ?m = "m\<lparr>sm_session := (sm_session m)\<lparr>s_node := n\<rparr>, sm_world := w\<rparr>"
  let ?h = "\<lparr>hd_type = type, hd_object_id = ob, hd_source_id = (if src \<noteq> 0 then src else sourceId lib ?m),
      hd_boot_id = bootId lib ?m, hd_sequence = sequence, hd_timestamp_us = ucast now * 1000,
      hd_flags = 0, hd_fragment_index = 0, hd_fragment_count = 1\<rparr>"
  obtain frame where f: "co_encode (ml_codec lib) (?h, payload) SerialTransport (kMaxFrameBytes lib) = (BeOk, frame)"
    "length frame \<le> kMaxFrameBytes lib" "body frame = payload"
    using assms unfolding encoder_ok_def by blast
  have "encodeOwnFrame lib type ob payload (kMaxFrameBytes lib) src m = (Some frame, ?m)"
    using r t f(1) by (simp add: encodeOwnFrame_def reserveSequence_def read_clock_def Let_def)
  then show ?thesis by (rule that [of frame ?m]) (simp_all add: f(2,3))
qed

lemma terminal_class: "classify MtTerminal kTerminalOutObjectId = KTerminal" by code_simp

lemma terminal_own:
  assumes e: "encoder_ok lib body" and q: "mw_queues m KTerminal = Some (3, xs)" and p: "length payload \<le> kOutboundPayloadCap"
  shows "let m' = snd (enqueueOwn lib MtTerminal kTerminalOutObjectId payload 0 m) in
    \<exists>ys. mw_queues m' KTerminal = Some (3, ys) \<and>
      (if length xs < 3 then map body ys = map body xs @ [payload] \<and> lost m' = lost m
       else ys = xs \<and> lost m' = lost m + 1)"
proof -
  obtain frame m1 where f: "encodeOwnFrame lib MtTerminal kTerminalOutObjectId payload (kMaxFrameBytes lib) 0 m = (Some frame, m1)"
    "length frame \<le> kMaxFrameBytes lib" "body frame = payload"
    "mw_queues m1 = mw_queues m" "mw_droppedByClass m1 = mw_droppedByClass m"
    using encode_own [OF e p] by blast
  have "snd (enqueueOwn lib MtTerminal kTerminalOutObjectId payload 0 m) = snd (enqueueFrameBytes lib KTerminal frame m1)"
    by (simp add: enqueueOwn_def f(1) terminal_class)
  then show ?thesis
    using enqueue_cases [of m1 KTerminal 3 xs frame lib] f q by (auto simp: Let_def lost_def)
qed

lemma flush_chunks:
  assumes e: "encoder_ok lib body"
  shows "mw_queues m KTerminal = Some (3, xs) \<Longrightarrow> length xs \<le> 3 \<Longrightarrow>
    \<exists>ys. mw_queues (send_chunks lib out m) KTerminal = Some (3, ys) \<and> length ys \<le> 3 \<and>
      map body ys = map body xs @ take (3 - length xs) (map bytes_of (chunks_of out)) \<and>
      lost (send_chunks lib out m) = lost m + of_nat (length (chunks_of out) - (3 - length xs))"
proof (induction out arbitrary: m xs rule: chunks_of.induct)
  case (1 out)
  show ?case
  proof (cases "out = []")
    case True
    then show ?thesis using 1(2,3) by (simp add: send_chunks.simps)
  next
    case False
    let ?c = "take kOutboundPayloadCap out" and ?r = "drop kOutboundPayloadCap out"
    let ?m = "snd (enqueueOwn lib MtTerminal kTerminalOutObjectId (bytes_of ?c) 0 m)"
    have small: "length (bytes_of ?c) \<le> kOutboundPayloadCap" by (simp add: bytes_of_def)
    have s: "send_chunks lib out m = send_chunks lib ?r ?m" and c: "chunks_of out = ?c # chunks_of ?r"
      using False by (simp_all add: send_chunks.simps [of lib out m] chunks_of.simps [of out])
    obtain ys where ys: "mw_queues ?m KTerminal = Some (3, ys)"
      "if length xs < 3 then map body ys = map body xs @ [bytes_of ?c] \<and> lost ?m = lost m else ys = xs \<and> lost ?m = lost m + 1"
      using terminal_own [OF e 1(2) small] by (auto simp: Let_def)
    have len: "length ys = (if length xs < 3 then length xs + 1 else length xs)"
      using ys(2) by (metis (full_types) length_map length_append_singleton Suc_eq_plus1)
    then have "length ys \<le> 3" using 1(3) by (auto split: if_splits)
    from 1(1) [OF False ys(1) this] obtain zs where
      zs: "mw_queues (send_chunks lib ?r ?m) KTerminal = Some (3, zs)" "length zs \<le> 3"
        "map body zs = map body ys @ take (3 - length ys) (map bytes_of (chunks_of ?r))"
        "lost (send_chunks lib ?r ?m) = lost ?m + of_nat (length (chunks_of ?r) - (3 - length ys))" by blast
    show ?thesis
    proof (cases "length xs < 3")
      case True
      then have "3 - length xs = Suc (3 - length ys)" using len by simp
      then show ?thesis using zs ys(2) True by (simp add: s c)
    next
      case False
      then have "length xs = 3" "ys = xs" using 1(3) ys(2) by simp_all
      then show ?thesis using zs ys(2) by (simp add: s c add.assoc)
    qed
  qed
qed

lemma terminal_flush_parts:
  assumes "encoder_ok lib body" and "buffers_fit lib m" and "mw_queues m KTerminal \<noteq> None"
  defines "free \<equiv> 3 - length (queue_of m KTerminal)" and "cs \<equiv> chunks_of (sm_terminalOut m)"
  shows "waiting body (flushTerminalPtyOutput lib m) = waiting body m @ take free (map bytes_of cs)"
    and "lost (flushTerminalPtyOutput lib m) = lost m + of_nat (length cs - free)"
    and "concat cs = sm_terminalOut m"
    and "length (sm_terminalOut m) \<le> free * 2048 \<Longrightarrow> concat (take free (map bytes_of cs)) = bytes_of (sm_terminalOut m)"
proof -
  obtain xs where q: "mw_queues m KTerminal = Some (3, xs)" and xs: "length xs \<le> 3"
    using assms(3) fit_queue [OF assms(2), of KTerminal] by (auto simp: fits_def)
  obtain ys where "mw_queues (send_chunks lib (sm_terminalOut m) m) KTerminal = Some (3, ys)"
      "map body ys = map body xs @ take (3 - length xs) (map bytes_of cs)"
      "lost (send_chunks lib (sm_terminalOut m) m) = lost m + of_nat (length cs - (3 - length xs))"
    using flush_chunks [OF assms(1) q xs, of "sm_terminalOut m"] unfolding cs_def by blast
  then show "waiting body (flushTerminalPtyOutput lib m) = waiting body m @ take free (map bytes_of cs)"
    and "lost (flushTerminalPtyOutput lib m) = lost m + of_nat (length cs - free)"
    by (simp_all add: waiting_def flushTerminalPtyOutput_def queue_of_def lost_def free_def q)
  show whole: "concat cs = sm_terminalOut m" by (simp add: cs_def chunks_concat)
  have count: "length (chunks_of s) \<le> n" if "length s \<le> n * 2048" for s n
    using that
  proof (induction s arbitrary: n rule: chunks_of.induct)
    case (1 s)
    show ?case
    proof (cases "s = []")
      case False
      then obtain k where k: "n = Suc k" using 1(2) by (cases n) auto
      have "length (chunks_of (drop kOutboundPayloadCap s)) \<le> k"
        using 1(2) k by (intro 1(1) [OF False]) (simp add: kOutboundPayloadCap_def)
      then show ?thesis using False k by (simp add: chunks_of.simps [of s])
    qed simp
  qed
  assume "length (sm_terminalOut m) \<le> free * 2048"
  then have "take free (map bytes_of cs) = map bytes_of cs" using count by (simp add: cs_def)
  moreover have "concat (map bytes_of ls) = bytes_of (concat ls)" for ls
    by (induction ls) (simp_all add: bytes_of_def)
  ultimately show "concat (take free (map bytes_of cs)) = bytes_of (sm_terminalOut m)" using whole by simp
qed

text \<open>One flush of the terminal hands the desktop a prefix of what was printed: the first chunks of
  2048 octets, in order, as many as the terminal queue has room for, behind what already waited. If the
  queue was empty and the output is at most 6144 octets, that is all of it; what does not fit is
  lost and counted, chunk by chunk.\<close>

theorem terminal_flush_sends_a_prefix:
  assumes "encoder_ok lib body" and "buffers_fit lib m" and "mw_queues m KTerminal \<noteq> None"
  shows "let free = 3 - length (queue_of m KTerminal); cs = chunks_of (sm_terminalOut m) in
    waiting body (flushTerminalPtyOutput lib m) = waiting body m @ take free (map bytes_of cs) \<and>
    lost (flushTerminalPtyOutput lib m) = lost m + of_nat (length cs - free) \<and>
    concat cs = sm_terminalOut m \<and>
    (length (sm_terminalOut m) \<le> free * 2048 \<longrightarrow> concat (take free (map bytes_of cs)) = bytes_of (sm_terminalOut m))"
  unfolding Let_def using terminal_flush_parts [OF assms] by blast

definition talking :: demo_mux where
  "talking = demo_mux\<lparr>sm_terminalOut := ''ok''\<rparr>"

lemma terminal_flush_sends_a_prefix_witness:
  "waiting (drop 2) (flushTerminalPtyOutput demo_lib talking) = [bytes_of ''ok'']"
proof -
  have e: "encoder_ok demo_lib (drop 2)"
    by (auto simp: encoder_ok_def demo_lib_def demo_codec_def kMaxFrameBytes_def)
  have b: "buffers_fit demo_lib talking"
    by (simp add: buffers_fit_def talking_def demo_mux_def fits_def noPendingWire_def)
  have q: "mw_queues talking KTerminal \<noteq> None" by (simp add: talking_def demo_mux_def)
  have "queue_of talking KTerminal = []" "chunks_of (sm_terminalOut talking) = [''ok'']" "waiting (drop 2) talking = []"
    by code_simp+
  then show ?thesis using terminal_flush_sends_a_prefix [OF e b q] by (simp add: Let_def)
qed

end
