(* ===== verification/Shell_Proofs.thy ===== *)
theory Shell_Proofs
  imports Shell_Output
begin

text \<open>
  lib/ShellOutput: what the terminal of a session shows is what the console prints. Both cut the text
  into lines the same way, whatever mixture of line endings it has, and prefix them the same way.
\<close>

section \<open>Lines\<close>

fun split_on :: "char \<Rightarrow> string \<Rightarrow> string list" where
  "split_on c [] = [[]]"
| "split_on c (x # xs) =
     (if x = c then [] # split_on c xs
      else case split_on c xs of [] \<Rightarrow> [[x]] | l # ls \<Rightarrow> (x # l) # ls)"

lemma split_on_Cons: "\<exists>l ls. split_on c xs = l # ls"
  by (cases xs) (auto split: list.split)

lemma split_find:
  "split_on c xs = (case find_char c xs of None \<Rightarrow> [xs] | Some i \<Rightarrow> take i xs # split_on c (drop (Suc i) xs))"
  by (induction xs) (auto split: option.splits)

lemma find_char_less: "find_char c xs = Some i \<Longrightarrow> i < length xs"
  by (induction xs arbitrary: i) (auto split: if_splits)

text \<open>What each line of a text does, in order: blank lines nothing, the others what \<open>body\<close> does.\<close>

definition on_lines :: "(string \<Rightarrow> 's \<Rightarrow> 's) \<Rightarrow> string list \<Rightarrow> 's \<Rightarrow> 's" where
  "on_lines body ls s = fold body (filter (\<lambda>l. l \<noteq> []) (map trim ls)) s"

lemma on_lines_Cons: "on_lines body (l # ls) s = on_lines body ls (if trim l = [] then s else body (trim l) s)"
  by (simp add: on_lines_def)

lemma for_lines_fold: "start \<le> length str \<Longrightarrow> for_lines body str start s = on_lines body (split_on LF (drop start str)) s"
proof (induction body str start s rule: for_lines.induct)
  case (1 body str start s)
  show ?case
  proof (cases "find_char LF (drop start str)")
    case None
    then have "indexOf str LF (int start) = -1" using 1(2) by (simp add: indexOf_def Let_def)
    then show ?thesis using 1(2) None split_find [of LF "drop start str"]
      by (simp add: for_lines.simps [of body str start s] Let_def on_lines_def)
  next
    case (Some i)
    have i: "indexOf str LF (int start) = int (start + i)" using 1(2) Some by (simp add: indexOf_def Let_def)
    have "start + i < length str" using find_char_less [OF Some] by simp
    then show ?thesis using 1 i split_find [of LF "drop start str"] Some
      by (simp add: for_lines.simps [of body str start s] Let_def on_lines_Cons nat_int_add add.commute)
  qed
qed

section \<open>Trimming\<close>

lemma trim_left: "trim (dropWhile isspace s) = trim s"
  by (simp add: trim_def)

lemma trim_snoc: "isspace c \<Longrightarrow> trim (s @ [c]) = trim s"
  by (cases "Ball (set s) isspace") (auto simp: trim_def dropWhile_append dropWhile_eq_Nil_conv dest: set_dropWhileD)

lemma trim_cons: "isspace c \<Longrightarrow> trim (c # s) = trim s"
  by (simp add: trim_def)

lemma isspace_ends [simp]: "isspace LF" "isspace CR"
  by (simp_all add: isspace_def LF_def CR_def)

lemma split_snoc: "c \<noteq> LF \<Longrightarrow> split_on LF (s @ [c]) = butlast (split_on LF s) @ [last (split_on LF s) @ [c]]"
proof (induction s)
  case (Cons x s)
  then show ?case using split_on_Cons [of LF s] by (auto split: list.splits)
qed simp

lemma split_snoc_LF: "split_on LF (s @ [LF]) = split_on LF s @ [[]]"
proof (induction s)
  case (Cons x s)
  then show ?case using split_on_Cons [of LF s] by (auto split: list.splits)
qed simp

lemma trim_nil [simp]: "trim [] = []" by (simp add: trim_def)

lemma split_nonempty: "split_on c s \<noteq> []"
  using split_on_Cons [of c s] by auto

definition shown :: "string list \<Rightarrow> string list" where
  "shown ls = filter (\<lambda>l. l \<noteq> []) (map trim ls)"

lemma shown_snoc: "isspace c \<Longrightarrow> shown (split_on LF (s @ [c])) = shown (split_on LF s)"
proof (cases "c = LF")
  case False
  assume c: "isspace c"
  have "split_on LF s = butlast (split_on LF s) @ [last (split_on LF s)]" using split_nonempty by simp
  then have "shown (split_on LF s) = shown (butlast (split_on LF s) @ [last (split_on LF s)])" by simp
  then show ?thesis by (simp add: split_snoc [OF False] shown_def trim_snoc [OF c])
qed (simp add: split_snoc_LF shown_def)

lemma shown_cons: "isspace c \<Longrightarrow> shown (split_on LF (c # s)) = shown (split_on LF s)"
  using split_on_Cons [of LF s] by (auto simp: shown_def trim_cons)

lemma shown_left: "shown (split_on LF (dropWhile isspace s)) = shown (split_on LF s)"
  by (induction s) (simp_all add: shown_cons del: split_on.simps)

lemma shown_right: "shown (split_on LF (rev (dropWhile isspace t))) = shown (split_on LF (rev t))"
  by (induction t) (simp_all add: shown_snoc)

lemma shown_trim: "shown (split_on LF (trim s)) = shown (split_on LF s)"
  using shown_right [of "rev (dropWhile isspace s)"] by (simp add: trim_def shown_left)

section \<open>Line endings\<close>

fun one_ending :: "string \<Rightarrow> string" where
  "one_ending [] = []"
| "one_ending (c # s) =
     (if c = CR then LF # one_ending (if s \<noteq> [] \<and> hd s = LF then tl s else s) else c # one_ending s)"

lemma starts_simps [simp]:
  "startsWith (c # s) [x] = (c = x)" "startsWith (c # s) [x, y] = (c = x \<and> s \<noteq> [] \<and> hd s = y)"
  by (cases s; auto simp: startsWith_def)+

lemma ends_distinct [simp]: "CR \<noteq> LF" "LF \<noteq> CR" by (simp_all add: CR_def LF_def)

lemma replace_endings: "replaceAll (replaceAll s [CR, LF] [LF]) [CR] [LF] = one_ending s"
proof (induction s rule: one_ending.induct)
  case (2 c s)
  show ?case
  proof (cases "c = CR \<and> s \<noteq> [] \<and> hd s = LF")
    case True
    then obtain r where r: "c # s = CR # LF # r" by (cases s) auto
    have "replaceAll (CR # LF # r) [CR, LF] [LF] = LF # replaceAll r [CR, LF] [LF]"
      by (simp add: replaceAll.simps [of "CR # LF # r"])
    then show ?thesis using 2(1) r by (simp add: replaceAll.simps [of "LF # _"])
  next
    case False
    then have "replaceAll (c # s) [CR, LF] [LF] = c # replaceAll s [CR, LF] [LF]"
      by (auto simp: replaceAll.simps [of "c # s"])
    then show ?thesis using 2 False by (auto simp: replaceAll.simps [of "_ # _" "[CR]"])
  qed
qed (simp add: replaceAll.simps)

definition lines_of :: "string \<Rightarrow> string list" where
  "lines_of s = shown (split_on LF (one_ending s))"

lemma for_lines_normalized:
  "(if normalized s = [] then t else for_lines body (normalized s) 0 t) = fold body (lines_of s) t"
proof -
  have "shown (split_on LF (normalized s)) = lines_of s"
    by (simp add: normalized_def replace_endings shown_trim lines_of_def)
  then show ?thesis using for_lines_fold [of 0 "normalized s" body t]
    by (auto simp: on_lines_def shown_def lines_of_def)
qed

lemma lines_of_plain: "l \<in> set (lines_of s) \<Longrightarrow> CR \<notin> set l \<and> LF \<notin> set l \<and> set l \<subseteq> set s \<union> {LF} \<and> l \<noteq> []"
proof -
  have t: "set (trim x) \<subseteq> set x" for x
    by (auto simp: trim_def dest!: set_dropWhileD)
  have l: "x \<in> set (split_on LF q) \<Longrightarrow> LF \<notin> set x \<and> set x \<subseteq> set q" for x q
    by (induction q arbitrary: x) (fastforce split: if_splits list.splits)+
  have e: "CR \<notin> set (one_ending q) \<and> set (one_ending q) \<subseteq> set q \<union> {LF}" for q
  proof (induction q rule: one_ending.induct)
    case (2 c r)
    then show ?case by (cases r) (auto split: if_splits)
  qed simp
  assume "l \<in> set (lines_of s)"
  then obtain x where "x \<in> set (split_on LF (one_ending s))" "l = trim x" "l \<noteq> []" by (auto simp: lines_of_def shown_def)
  then show ?thesis using l e t by blast
qed

section \<open>The terminal shows what the console prints\<close>

text \<open>What a line looks like: nothing, or one prefixed line.\<close>

definition line_text :: "'c style_lib \<Rightarrow> string \<Rightarrow> string" where
  "line_text style l = render_line style l []"

lemma render_appends: "render_line style l out = out @ line_text style l"
  by (simp add: render_line_def line_text_def appendLineWithPrefix_def Let_def split: option.split)

lemma render_concat:
  "renderResponse style response =
     concat (map (line_text style) (lines_of (if sy_enabled style then sy_strip style response else response)))"
proof -
  have f: "fold (render_line style) ls out = out @ concat (map (line_text style) ls)" for ls out
    by (induction ls arbitrary: out) (simp_all add: render_appends)
  show ?thesis
    using for_lines_normalized [of "if sy_enabled style then sy_strip style response else response" "[]" "render_line style"]
    by (simp add: renderResponse_def Let_def f)
qed

section \<open>A port that takes what it is given\<close>

definition takes_all :: "'p port_write \<Rightarrow> ('p \<Rightarrow> bytes) \<Rightarrow> bool" where
  "takes_all wr log \<longleftrightarrow> (\<forall>bs p. fst (wr bs p) = length bs \<and> log (snd (wr bs p)) = log p @ bs)"

definition plain_text :: "string \<Rightarrow> bool" where
  "plain_text l \<longleftrightarrow> CR \<notin> set l \<and> LF \<notin> set l \<and> NUL \<notin> set l"

lemma bytes_append [simp]: "bytes_of (a @ b) = bytes_of a @ bytes_of b" "bytes_of [] = []"
  "bytes_of (c # a) = of_char c # bytes_of a"
  by (simp_all add: bytes_of_def)

lemma log_char: "takes_all wr log \<Longrightarrow> log (put_char wr c p) = log p @ [of_char c]"
  by (simp add: put_char_def takes_all_def)

lemma log_prefix: "takes_all wr log \<Longrightarrow> log (put_prefix wr pre p) = log p @ bytes_of pre"
proof -
  assume t: "takes_all wr log"
  have "log (writeChunk wr bs 0 p) = log p @ bs" for bs
  proof (cases "bs = []")
    case False
    obtain sent q where w: "wr bs p = (sent, q)" by fastforce
    then have "sent = length bs" "log q = log p @ bs" using t unfolding takes_all_def by (metis fst_conv, metis snd_conv)
    then show ?thesis using False w by (simp add: writeChunk.simps [of wr bs] writeChunk.simps [of wr "[]"])
  qed (simp add: writeChunk.simps)
  then show ?thesis by (simp add: put_prefix_def)
qed

lemma log_text: "takes_all wr log \<Longrightarrow> plain_text l \<Longrightarrow>
    log (text_loop wr pre l True p) = log p @ bytes_of l @ bytes_of [CR, LF]"
proof (induction l arbitrary: p)
  case (Cons a l)
  then have "a \<noteq> CR" "a \<noteq> LF" "a \<noteq> NUL" "plain_text l" by (auto simp: plain_text_def)
  then show ?case using Cons by (simp add: log_char)
qed (simp add: log_char put_newline_def)

lemma plain_c_str: "plain_text l \<Longrightarrow> c_str l = l"
  by (auto simp: c_str_def plain_text_def takeWhile_eq_all_conv)

lemma log_write:
  assumes "takes_all wr log" and "plain_text l" and "l \<noteq> []"
  shows "log (writeTextWithPrefix wr pre (Some l) keep p) =
    log p @ bytes_of ([CR] @ (case pre of None \<Rightarrow> [] | Some q \<Rightarrow> q) @ l @ [CR, LF])"
  using assms by (simp add: writeTextWithPrefix_def plain_c_str log_text log_prefix log_char split: option.split)

section \<open>Both ways out\<close>

lemma strip_keeps: "set (stripLeadingBracketTags l) \<subseteq> set l"
proof -
  have t: "set (trim x) \<subseteq> set x" for x by (auto simp: trim_def dest!: set_dropWhileD)
  have "set (strip_loop x) \<subseteq> set x" for x
  proof (induction x rule: strip_loop.induct)
    case (1 out)
    show ?case
    proof (cases "startsWith out ''['' \<and> \<not> indexOf out (CHR '']'') 0 \<le> 0")
      case True
      then show ?thesis using 1 t [of "drop (nat (indexOf out (CHR '']'') 0) + 1) out"]
          set_drop_subset [of "nat (indexOf out (CHR '']'') 0) + 1" out]
        by (auto simp: strip_loop.simps [of out] Let_def)
    qed (auto simp: strip_loop.simps [of out] Let_def)
  qed
  then show ?thesis using t [of l] by (auto simp: stripLeadingBracketTags_def Let_def)
qed

text \<open>What one line of the response looks like, without colours.\<close>

definition displayed :: "string \<Rightarrow> string" where
  "displayed l = (if isEspNowStructuredLine l then l
     else let clean = stripLeadingBracketTags l
       in (if clean = [] \<or> hasVisualPrefix (Some clean) then [] else kOutputPrefix) @ clean)"

definition terminated :: "string \<Rightarrow> string" where
  "terminated l = (if l = [] then [] else [CR] @ l @ [CR, LF])"

definition no_colour :: "'c style_lib \<Rightarrow> bool" where
  "no_colour style \<longleftrightarrow> \<not> sy_enabled style \<and> sy_sgr style (sy_output style) = []"

lemma line_shown: "no_colour style \<Longrightarrow> plain_text l \<Longrightarrow> l \<noteq> [] \<Longrightarrow> line_text style l = terminated (displayed l)"
proof -
  assume n: "no_colour style" and p: "plain_text l" and "l \<noteq> []"
  have "plain_text (stripLeadingBracketTags l)" using p strip_keeps [of l] by (auto simp: plain_text_def)
  then show ?thesis using n plain_c_str \<open>l \<noteq> []\<close>
    by (simp add: line_text_def render_line_def appendLineWithPrefix_def displayed_def terminated_def Let_def no_colour_def)
qed

lemma line_printed:
  assumes t: "takes_all wr log" and p: "plain_text l" and ne: "l \<noteq> []"
  shows "log (print_line wr l port) = log port @ bytes_of (terminated (displayed l))"
proof -
  have c: "plain_text (stripLeadingBracketTags l)" using p strip_keeps [of l] by (auto simp: plain_text_def)
  show ?thesis using log_write [OF t p ne] log_write [OF t c] plain_c_str [OF c] ne
    by (simp add: print_line_def writeRawLine_def writeLine_def displayed_def terminated_def Let_def)
qed

lemma displayed_plain: "plain_text l \<Longrightarrow> plain_text (displayed l)"
  using strip_keeps [of l]
  by (auto simp: displayed_def plain_text_def kOutputPrefix_def CR_def LF_def NUL_def Let_def)

lemma terminal_shows_parts:
  assumes "takes_all wr log" and "no_colour style" and "NUL \<notin> set response"
  shows "log (printResponse wr response p) = log p @ bytes_of (renderResponse style response)"
    and "renderResponse style response = concat (map (\<lambda>l. terminated (displayed l)) (lines_of response))"
    and "\<forall>l\<in>set (lines_of response). plain_text (displayed l)"
proof -
  have plain: "plain_text l \<and> l \<noteq> []" if "l \<in> set (lines_of response)" for l
    using lines_of_plain [OF that] assms(3) by (auto simp: plain_text_def NUL_def LF_def)
  show shown: "renderResponse style response = concat (map (\<lambda>l. terminated (displayed l)) (lines_of response))"
    using assms(2) plain line_shown [OF assms(2)]
    by (auto simp: render_concat no_colour_def intro!: arg_cong [where f = concat] map_cong)
  have "log (fold (print_line wr) ls q) = log q @ bytes_of (concat (map (\<lambda>l. terminated (displayed l)) ls))"
    if "set ls \<subseteq> set (lines_of response)" for ls q
    using that by (induction ls arbitrary: q) (simp_all add: line_printed [OF assms(1)] plain)
  then show "log (printResponse wr response p) = log p @ bytes_of (renderResponse style response)"
    using for_lines_normalized [of response p "print_line wr"] by (simp add: printResponse_def shown Let_def)
  show "\<forall>l\<in>set (lines_of response). plain_text (displayed l)" using plain displayed_plain by blast
qed

text \<open>C28. The terminal of a session shows what the console prints: for a port that takes what it is
  given and without colours, the octets \<open>printResponse\<close> writes to the console are those
  \<open>renderResponse\<close> sends to the terminal, and they are the lines of the response in order, whatever
  mixture of line endings it has, blank lines left out, each a carriage return, the line with its
  prefix, and one line end; no line of the response can forge another.\<close>

theorem terminal_shows_what_console_prints:
  assumes "takes_all wr log" and "no_colour style" and "NUL \<notin> set response"
  shows "log (printResponse wr response p) = log p @ bytes_of (renderResponse style response) \<and>
    renderResponse style response = concat (map (\<lambda>l. terminated (displayed l)) (lines_of response)) \<and>
    list_all (\<lambda>l. plain_text (displayed l)) (lines_of response)"
  using terminal_shows_parts [OF assms] by (simp add: list_all_iff)

definition list_port :: "bytes \<Rightarrow> bytes \<Rightarrow> nat \<times> bytes" where
  "list_port bs p = (length bs, p @ bs)"

definition plain_style :: "unit style_lib" where
  "plain_style = \<lparr>sy_enabled = False, sy_strip = \<lambda>t. t, sy_classify = \<lambda>t. (), sy_output = (), sy_sgr = \<lambda>c. [], sy_reset = []\<rparr>"

lemma terminal_shows_what_console_prints_witness:
  "printResponse list_port (''[ok] on'' @ [CR, LF, LF] @ ''$ go'' @ [CR]) [] =
     bytes_of ([CR] @ ''! on'' @ [CR, LF, CR] @ ''$ go'' @ [CR, LF])"
proof -
  have t: "takes_all list_port (\<lambda>p. p)" by (simp add: takes_all_def list_port_def)
  have n: "no_colour plain_style" by (simp add: no_colour_def plain_style_def)
  have "NUL \<notin> set (''[ok] on'' @ [CR, LF, LF] @ ''$ go'' @ [CR])" by code_simp
  note r = terminal_shows_what_console_prints [OF t n this, of "[]"]
  have "concat (map (\<lambda>l. terminated (displayed l)) (lines_of (''[ok] on'' @ [CR, LF, LF] @ ''$ go'' @ [CR]))) =
      [CR] @ ''! on'' @ [CR, LF, CR] @ ''$ go'' @ [CR, LF]" by code_simp
  then show ?thesis using r by simp
qed

end
