(* ===== verification/Effects.thy ===== *)
theory Effects
  imports Main "HOL-Library.State_Monad"
begin

text \<open>
  Sequential code over a state, written with the library's state monad: reading and changing the
  state, loops over a list, a part of the state as the state of another module, and the frame rules
  by which a relation between the states before and after is shown for a whole operation.
\<close>

section \<open>Operations\<close>

definition gets :: "('s \<Rightarrow> 'a) \<Rightarrow> ('s, 'a) state" where
  "gets f = State (\<lambda>s. (f s, s))"

definition modify :: "('s \<Rightarrow> 's) \<Rightarrow> ('s, unit) state" where
  "modify f = State (\<lambda>s. ((), f s))"

definition ret :: "'a \<Rightarrow> ('s, 'a) state" where
  "ret = State_Monad.return"

definition only_if :: "bool \<Rightarrow> ('s, unit) state \<Rightarrow> ('s, unit) state" where
  "only_if b m = (if b then m else ret ())"

fun each :: "('x \<Rightarrow> ('s, unit) state) \<Rightarrow> 'x list \<Rightarrow> ('s, unit) state" where
  "each f [] = ret ()"
| "each f (x # xs) = do { f x; each f xs }"

text \<open>A loop that carries a value.\<close>

fun accumulate :: "('x \<Rightarrow> 'a \<Rightarrow> ('s, 'a) state) \<Rightarrow> 'x list \<Rightarrow> 'a \<Rightarrow> ('s, 'a) state" where
  "accumulate f [] a = ret a"
| "accumulate f (x # xs) a = do { b \<leftarrow> f x a; accumulate f xs b }"

text \<open>\<open>zoom get put m\<close> runs \<open>m\<close> on a part of the state.\<close>

definition zoom :: "('s \<Rightarrow> 't) \<Rightarrow> ('t \<Rightarrow> 's \<Rightarrow> 's) \<Rightarrow> ('t, 'a) state \<Rightarrow> ('s, 'a) state" where
  "zoom get put m = State (\<lambda>s. case run_state m (get s) of (a, t) \<Rightarrow> (a, put t s))"

lemma run_gets [simp]: "run_state (gets f) s = (f s, s)" by (simp add: gets_def)
lemma run_modify [simp]: "run_state (modify f) s = ((), f s)" by (simp add: modify_def)
lemma run_ret [simp]: "run_state (ret a) s = (a, s)" by (simp add: ret_def)
lemma run_zoom [simp]:
  "run_state (zoom get put m) s = (case run_state m (get s) of (a, t) \<Rightarrow> (a, put t s))"
  by (simp add: zoom_def)
lemma run_only_if [simp]: "run_state (only_if b m) s = (if b then run_state m s else ((), s))"
  by (simp add: only_if_def)

section \<open>Frame rules\<close>

text \<open>What a step may do to the state, closed under sequences of steps.\<close>

locale step_relation =
  fixes R :: "'s \<Rightarrow> 's \<Rightarrow> bool"
  assumes refl: "R s s"
    and trans: "R s t \<Longrightarrow> R t u \<Longrightarrow> R s u"
begin

lemma ret: "state_io_rel R (Effects.ret a)"
  by (simp add: state_io_rel_def refl)

lemma gets: "state_io_rel R (Effects.gets f)"
  by (simp add: state_io_rel_def refl)

lemma bind: "state_io_rel R m \<Longrightarrow> (\<And>a. state_io_rel R (f a)) \<Longrightarrow> state_io_rel R (m \<bind> f)"
  unfolding state_io_rel_def by (auto split: prod.splits intro: trans)

lemma only_if: "(b \<Longrightarrow> state_io_rel R m) \<Longrightarrow> state_io_rel R (only_if b m)"
  by (simp add: only_if_def ret)

lemma each: "(\<And>x. x \<in> set xs \<Longrightarrow> state_io_rel R (f x)) \<Longrightarrow> state_io_rel R (each f xs)"
  by (induction xs) (auto intro: ret bind)

lemma accumulate: "(\<And>x a. x \<in> set xs \<Longrightarrow> state_io_rel R (f x a)) \<Longrightarrow> state_io_rel R (accumulate f xs a)"
  by (induction xs arbitrary: a) (auto intro: ret bind)

lemma branch: "(b \<Longrightarrow> state_io_rel R m) \<Longrightarrow> (\<not> b \<Longrightarrow> state_io_rel R n) \<Longrightarrow> state_io_rel R (if b then m else n)"
  by simp

lemma option: "(x = None \<Longrightarrow> state_io_rel R m) \<Longrightarrow> (\<And>y. x = Some y \<Longrightarrow> state_io_rel R (f y)) \<Longrightarrow>
    state_io_rel R (case x of None \<Rightarrow> m | Some y \<Rightarrow> f y)"
  by (cases x) simp_all

lemma pair: "(\<And>a b. x = (a, b) \<Longrightarrow> state_io_rel R (f a b)) \<Longrightarrow> state_io_rel R (case x of (a, b) \<Rightarrow> f a b)"
  by (cases x) simp

lemmas rules = ret gets bind only_if each accumulate branch option pair

end

end
