(* ===== verification/Text_Format.thy ===== *)
theory Text_Format
  imports Shell_Output
begin

text \<open>
  The pieces of the C library that the shell commands format and parse with: decimal and hexadecimal
  conversions of \<open>snprintf\<close>, and \<open>strtoul\<close>, \<open>strtoll\<close> and \<open>sscanf\<close> as ISO C defines them. \<open>long\<close> has 32 bits on the
  target.
\<close>

section \<open>Printing\<close>

definition digit_char :: "nat \<Rightarrow> char" where "digit_char d = ''0123456789abcdef'' ! d"

fun dec :: "nat \<Rightarrow> string" where
  "dec n = (if n < 10 then [digit_char n] else dec (n div 10) @ [digit_char (n mod 10)])"

declare dec.simps [simp del]

definition dec_int :: "int \<Rightarrow> string" where
  "dec_int i = (if i < 0 then ''-'' @ dec (nat (- i)) else dec (nat i))"

text \<open>\<open>%0nu\<close> pads with zeros.\<close>

definition dec_pad :: "nat \<Rightarrow> nat \<Rightarrow> string" where
  "dec_pad width n = replicate (width - length (dec n)) (CHR ''0'') @ dec n"

text \<open>\<open>snprintf\<close> into a buffer of \<open>size\<close> octets keeps \<open>size - 1\<close> characters; what is read back is a C
  string.\<close>

definition snprintf :: "nat \<Rightarrow> string \<Rightarrow> string" where
  "snprintf sz s = c_str (take (sz - 1) s)"

section \<open>Parsing\<close>

definition digit_value :: "char \<Rightarrow> nat option" where
  "digit_value c =
     (let n = char_code c in
      if 48 \<le> n \<and> n \<le> 57 then Some (n - 48)
      else if 97 \<le> n \<and> n \<le> 102 then Some (n - 87)
      else if 65 \<le> n \<and> n \<le> 70 then Some (n - 55)
      else None)"

definition is_digit :: "nat \<Rightarrow> char \<Rightarrow> bool" where
  "is_digit base c = (case digit_value c of None \<Rightarrow> False | Some d \<Rightarrow> d < base)"

definition number_of :: "nat \<Rightarrow> string \<Rightarrow> nat" where
  "number_of base ds = foldl (\<lambda>v c. base * v + the (digit_value c)) 0 ds"

text \<open>The sign of a number and the rest of the text behind it.\<close>

definition sign_of :: "string \<Rightarrow> bool \<times> string" where
  "sign_of s = (case s of [] \<Rightarrow> (False, s)
     | c # cs \<Rightarrow> if c = CHR ''-'' then (True, cs) else if c = CHR ''+'' then (False, cs) else (False, s))"

definition hex_prefix :: "string \<Rightarrow> bool" where
  "hex_prefix s = (case s of
     z # x # d # _ \<Rightarrow> z = CHR ''0'' \<and> (x = CHR ''x'' \<or> x = CHR ''X'') \<and> is_digit 16 d
   | _ \<Rightarrow> False)"

text \<open>The base that is used and where its digits start.\<close>

definition number_base :: "nat \<Rightarrow> string \<Rightarrow> nat \<times> string" where
  "number_base base s =
     (if (base = 0 \<or> base = 16) \<and> hex_prefix s then (16, drop 2 s)
      else if base = 0 then (if startsWith s ''0'' then 8 else 10, s)
      else (base, s))"

text \<open>A conversion: the sign, the magnitude and what follows, or nothing if there is no digit.\<close>

definition scan_number :: "nat \<Rightarrow> string \<Rightarrow> (bool \<times> nat \<times> string) option" where
  "scan_number base s =
     (let (negative, t) = sign_of (dropWhile isspace s);
          (b, ds) = number_base base t;
          digits = takeWhile (is_digit b) ds
      in if digits = [] then None else Some (negative, number_of b digits, dropWhile (is_digit b) ds))"

text \<open>\<open>strtoul\<close> and \<open>strtoll\<close>: the value, and where the conversion stopped. A value out of range is the
  largest, which the second also reports in \<open>errno\<close>.\<close>

definition strtoul :: "nat \<Rightarrow> string \<Rightarrow> u32 \<times> string" where
  "strtoul base s =
     (case scan_number base s of
        None \<Rightarrow> (0, s)
      | Some (negative, n, rest) \<Rightarrow>
          (if n > 0xFFFFFFFF then 0xFFFFFFFF else if negative then - of_nat n else of_nat n, rest))"

definition strtoll :: "nat \<Rightarrow> string \<Rightarrow> bool \<times> int \<times> string" where
  "strtoll base s =
     (case scan_number base s of
        None \<Rightarrow> (False, 0, s)
      | Some (negative, n, rest) \<Rightarrow>
          let v = (if negative then - int n else int n) in
          if v > 2 ^ 63 - 1 then (True, 2 ^ 63 - 1, rest)
          else if v < - (2 ^ 63) then (True, - (2 ^ 63), rest)
          else (False, v, rest))"

text \<open>The conversions \<open>%d\<close> and \<open>%02x\<close> of \<open>sscanf\<close>, a literal character and white space of the format.\<close>

definition scan_d :: "string \<Rightarrow> (int \<times> string) option" where
  "scan_d s = (case scan_number 10 s of None \<Rightarrow> None
     | Some (negative, n, rest) \<Rightarrow> Some (if negative then - int n else int n, rest))"

definition scan_2x :: "string \<Rightarrow> (u32 \<times> string) option" where
  "scan_2x s =
     (let t = dropWhile isspace s; (negative, u) = sign_of (take 2 t);
          digits = takeWhile (is_digit 16) u; used = (length (take 2 t) - length u) + length digits
      in if digits = [] \<or> take 2 t \<in> {''0x'', ''0X''} then None
         else Some (if negative then - of_nat (number_of 16 digits) else of_nat (number_of 16 digits), drop used t))"

text \<open>\<open>strtol\<close> where \<open>long\<close> has 32 bits: out of range is the nearest end.\<close>

definition strtol :: "nat \<Rightarrow> string \<Rightarrow> int" where
  "strtol base s =
     (case scan_number base s of None \<Rightarrow> 0
      | Some (negative, n, _) \<Rightarrow> max (- (2 ^ 31)) (min (2 ^ 31 - 1) (if negative then - int n else int n)))"

definition scan_lit :: "char \<Rightarrow> string \<Rightarrow> string option" where
  "scan_lit c s = (case s of [] \<Rightarrow> None | x # xs \<Rightarrow> if x = c then Some xs else None)"

text \<open>\<open>sscanf\<close> of \<open>"%02x:%02x:%02x:%02x:%02x:%02x"\<close> is 6: the six conversions.\<close>

fun scan_octets :: "nat \<Rightarrow> string \<Rightarrow> u32 list option" where
  "scan_octets 0 s = Some []"
| "scan_octets (Suc n) s =
     (case scan_2x s of None \<Rightarrow> None
      | Some (v, rest) \<Rightarrow>
          if n = 0 then Some [v]
          else (case scan_lit (CHR '':'') rest of None \<Rightarrow> None
                | Some rest \<Rightarrow> map_option (Cons v) (scan_octets n rest)))"

end
