(* ===== verification/Database_Store.thy ===== *)
theory Database_Store
  imports Effects Text_Format Device_Registry Radio_Ingress
begin

text \<open>
  lib/DatabaseStore: the peers, the command log and the transmission log in an SQLite file on the SD
  card. The members of the class, the port it reports errors on, the device registry it loads peers
  into and the outside world are one state; every function is an operation of the state monad.

  SQLite, the file system and the clock are parameters. \<open>sq_exec sql n\<close> is \<open>sqlite3_exec\<close> with a
  callback that asks to stop from row \<open>n\<close> on (\<open>None\<close>: never) and gives the rows handed to the
  callback; \<open>sq_select\<close> is a statement that is prepared (\<open>None\<close> if that fails), stepped to its end
  and finalized: its rows, and whether the last step was \<open>SQLITE_DONE\<close>; \<open>sq_run\<close> one that is
  prepared, bound, stepped once and finalized.
\<close>

section \<open>State\<close>

text \<open>\<open>se_locks\<close> counts how often the calling task holds the recursive mutex.\<close>

record 'o store =
  se_open :: bool
  se_io :: bool
  se_ready :: bool
  se_mutex :: bool
  se_locks :: nat
  se_manager :: manager
  se_out :: 'o

text \<open>The store with the port its errors go to.\<close>

record ('p, 'o) store_env = "'o store" +
  se_port :: 'p

datatype sq_rc = SqOk | SqAbort | SqError

text \<open>A cell: the name of its column and its text, \<open>None\<close> for a null pointer.\<close>

type_synonym sq_row = "(string option \<times> string option) list"

record sq_answer =
  sa_rc :: sq_rc
  sa_rows :: "sq_row list"
  sa_error :: "string option"

text \<open>What \<open>sqlite3_column_text\<close> and \<open>sqlite3_column_int64\<close> give.\<close>

record sq_cell =
  cl_text :: "string option"
  cl_int :: int

datatype sq_value = BindText string | BindInt int

record file_stat =
  st_directory :: bool
  st_size :: nat

record ('p, 'o) store_lib =
  sl_write :: "'p port_write"
  sl_radio :: "'o radio_api"
  sl_take :: "nat option \<Rightarrow> 'o \<Rightarrow> bool \<times> 'o"
  sl_time :: "'o \<Rightarrow> int \<times> 'o"
  sl_millis :: "'o \<Rightarrow> u32 \<times> 'o"
  sl_localtime :: "string \<Rightarrow> int \<Rightarrow> string option"
  sq_initialize :: "'o \<Rightarrow> bool \<times> 'o"
  sq_open :: "string \<Rightarrow> 'o \<Rightarrow> (bool \<times> bool) \<times> 'o"
  sq_no_lookaside :: "'o \<Rightarrow> 'o"
  sq_close :: "'o \<Rightarrow> 'o"
  sq_errmsg :: "'o \<Rightarrow> string"
  sq_exec :: "string \<Rightarrow> nat option \<Rightarrow> 'o \<Rightarrow> sq_answer \<times> 'o"
  sq_select :: "string \<Rightarrow> 'o \<Rightarrow> (string list \<times> sq_cell list list \<times> bool) option \<times> 'o"
  sq_run :: "string \<Rightarrow> sq_value list \<Rightarrow> 'o \<Rightarrow> bool \<times> 'o"
  sq_last_insert_rowid :: "'o \<Rightarrow> int"
  sq_changes :: "'o \<Rightarrow> int"
  sq_backup_open :: "string \<Rightarrow> 'o \<Rightarrow> bool \<times> 'o"
  sq_backup_init :: "'o \<Rightarrow> bool \<times> 'o"
  sq_backup_copy :: "'o \<Rightarrow> bool \<times> 'o"
  sq_backup_close :: "'o \<Rightarrow> 'o"
  fs_stat :: "string \<Rightarrow> 'o \<Rightarrow> file_stat option"
  fs_mkdir :: "string \<Rightarrow> 'o \<Rightarrow> bool \<times> 'o"
  fs_remove :: "string \<Rightarrow> 'o \<Rightarrow> bool \<times> 'o"
  fs_rmdir :: "string \<Rightarrow> 'o \<Rightarrow> bool \<times> 'o"
  fs_readdir :: "string \<Rightarrow> 'o \<Rightarrow> string list option"
  fs_read :: "string \<Rightarrow> 'o \<Rightarrow> string option"
  fs_create :: "string \<Rightarrow> bool \<Rightarrow> 'o \<Rightarrow> bool \<times> 'o"
  fs_fwrite :: "string \<Rightarrow> string \<Rightarrow> 'o \<Rightarrow> nat \<times> 'o"

text \<open>\<open>fs_create path append\<close> is \<open>fopen\<close> for writing, \<open>fs_fwrite\<close> writes to the open file.\<close>

type_synonym ('p, 'o, 'a) store_op = "(('p, 'o) store_env, 'a) state"

definition outside :: "('o \<Rightarrow> 'a \<times> 'o) \<Rightarrow> ('p, 'o, 'a) store_op" where
  "outside f = State (\<lambda>s. case f (se_out s) of (a, w) \<Rightarrow> (a, s\<lparr>se_out := w\<rparr>))"

definition act_outside :: "('o \<Rightarrow> 'o) \<Rightarrow> ('p, 'o, unit) store_op" where
  "act_outside f = modify (\<lambda>s. s\<lparr>se_out := f (se_out s)\<rparr>)"

text \<open>\<open>outText\<close> as it is left, and the result.\<close>

type_synonym outcome = "bool \<times> string"

definition kDatabaseDir :: string where "kDatabaseDir = ''/sdcard/database''"
definition kBackupDir :: string where "kBackupDir = ''/sdcard/database/backups''"
definition kBootstrapPath :: string where "kBootstrapPath = ''/sdcard/database/bootstrap.sql''"
definition kDatabasePath :: string where "kDatabasePath = ''/sdcard/database/dongle.db''"
definition kExportDir :: string where "kExportDir = ''/sdcard/database/exports''"

definition not_initialized :: string where "not_initialized = ''[database] nao inicializado''"

section \<open>Text\<close>

text \<open>The single quote, and the text of SQL statements.\<close>

definition SQ :: char where "SQ = CHR 0x27"
definition DQ :: char where "DQ = CHR 0x22"
definition sq :: string where "sq = [SQ]"

definition isalnum :: "char \<Rightarrow> bool" where
  "isalnum c = (let n = char_code c in
     (48 \<le> n \<and> n \<le> 57) \<or> (65 \<le> n \<and> n \<le> 90) \<or> (97 \<le> n \<and> n \<le> 122))"

definition isSafeIdentifier :: "string \<Rightarrow> bool" where
  "isSafeIdentifier v =
     (if v = [] then False
      else if \<not> list_all (\<lambda>c. isalnum c \<or> c = CHR ''_'') v then False
      else if startsWith v ''sqlite_'' then False else True)"

fun escapeSqlText :: "string \<Rightarrow> string" where
  "escapeSqlText [] = []"
| "escapeSqlText (c # cs) = (if c = SQ then [c, SQ] else [c]) @ escapeSqlText cs"

definition kPreviewCap :: nat where "kPreviewCap = 256"

definition payloadPreviewText :: "bytes \<Rightarrow> string" where
  "payloadPreviewText payload =
     map (\<lambda>b. if 0x20 \<le> b \<and> b < 0x7F then char_of (unat b) else CHR ''.'') (take kPreviewCap payload) @
     (if length payload > kPreviewCap then ''...'' else [])"

fun sanitize_loop :: "nat \<Rightarrow> string \<Rightarrow> string \<Rightarrow> string" where
  "sanitize_loop maxLen [] out = out"
| "sanitize_loop maxLen (ch # rest) out =
     (let ch = (if ch = CR \<or> ch = LF \<or> ch = CHR 0x09 then CHR '' ''
                else if ch = CHR ''|'' then CHR ''/'' else ch);
          out = out @ [ch]
      in if maxLen > 0 \<and> length out \<ge> maxLen then (if rest \<noteq> [] then out @ ''...'' else out)
         else sanitize_loop maxLen rest out)"

definition sanitizeAndTruncateField :: "string \<Rightarrow> nat \<Rightarrow> string" where
  "sanitizeAndTruncateField input maxLen =
     (let out = trim (sanitize_loop maxLen input []) in if out = [] then ''(vazio)'' else out)"

definition epochToDateTimeText :: "('p, 'o) store_lib \<Rightarrow> int \<Rightarrow> string" where
  "epochToDateTimeText lib epoch =
     (if epoch \<le> 0 then ''(sem-data)''
      else case sl_localtime lib ''%Y-%m-%d %H:%M:%S'' epoch of
        None \<Rightarrow> ''(sem-data)'' | Some t \<Rightarrow> take 23 t)"

definition safeColumnText :: "sq_cell list \<Rightarrow> nat \<Rightarrow> string" where
  "safeColumnText row i = (case cl_text (row ! i) of None \<Rightarrow> [] | Some t \<Rightarrow> t)"

definition column_int :: "sq_cell list \<Rightarrow> nat \<Rightarrow> int" where
  "column_int row i = sint (word_of_int (cl_int (row ! i)) :: 32 word)"

text \<open>\<open>queryTextCallback\<close>: the text, the number of rows and whether the result was cut.\<close>

definition cell_text :: "string option \<times> string option \<Rightarrow> string" where
  "cell_text cell =
     (case fst cell of Some n \<Rightarrow> n | None \<Rightarrow> ''col'') @ ''='' @
     (case snd cell of Some v \<Rightarrow> v | None \<Rightarrow> ''NULL'')"

fun row_text :: "sq_row \<Rightarrow> bool \<Rightarrow> string" where
  "row_text [] first = []"
| "row_text (c # cs) first = (if first then [] else '' | '') @ cell_text c @ row_text cs False"

fun queryTextCallback :: "nat \<Rightarrow> sq_row list \<Rightarrow> string \<Rightarrow> nat \<Rightarrow> string \<times> nat \<times> bool" where
  "queryTextCallback maxRows [] out rowCount = (out, rowCount, False)"
| "queryTextCallback maxRows (row # rows) out rowCount =
     (if rowCount \<ge> maxRows then (out, rowCount, True)
      else queryTextCallback maxRows rows
             (out @ ''['' @ dec (rowCount + 1) @ ''] '' @ row_text row True @ [LF]) (rowCount + 1))"

text \<open>\<open>queryIntCallback\<close>: the last value, if any row has one.\<close>

definition queryIntCallback :: "sq_row list \<Rightarrow> int option" where
  "queryIntCallback rows =
     fold (\<lambda>row value. case row of [] \<Rightarrow> value
        | (name, cell) # _ \<Rightarrow> (case cell of None \<Rightarrow> value | Some t \<Rightarrow> Some (strtol 10 t))) rows None"

section \<open>Lock, log and clock\<close>

definition lockDb :: "('p, 'o) store_lib \<Rightarrow> nat \<Rightarrow> ('p, 'o, bool) store_op" where
  "lockDb lib timeoutMs = do {
     mutex \<leftarrow> gets se_mutex;
     held \<leftarrow> gets se_locks;
     if \<not> mutex then ret True
     else do {
       taken \<leftarrow> (if held > 0 then ret True
                else outside (sl_take lib (if timeoutMs = 0 then None else Some timeoutMs)));
       only_if taken (modify (\<lambda>s. s\<lparr>se_locks := se_locks s + 1\<rparr>));
       ret taken } }"

definition unlockDb :: "('p, 'o, unit) store_op" where
  "unlockDb = do {
     mutex \<leftarrow> gets se_mutex;
     only_if mutex (modify (\<lambda>s. s\<lparr>se_locks := se_locks s - 1\<rparr>)) }"

definition db_logLine :: "('p, 'o) store_lib \<Rightarrow> string \<Rightarrow> ('p, 'o, unit) store_op" where
  "db_logLine lib txt = do {
     io \<leftarrow> gets se_io;
     only_if io (modify (\<lambda>s. s\<lparr>se_port :=
       put_char (sl_write lib) LF (snd (sl_write lib (bytes_of (c_str txt)) (se_port s)))\<rparr>)) }"

definition sql_error :: "string \<Rightarrow> string" where
  "sql_error message = ''[database] SQL error: '' @ message"

definition currentEpochSeconds :: "('p, 'o) store_lib \<Rightarrow> ('p, 'o, int) store_op" where
  "currentEpochSeconds lib = do {
     now \<leftarrow> outside (sl_time lib);
     if now > 0 then ret now
     else do { ms \<leftarrow> outside (sl_millis lib); ret (int (unat ms div 1000)) } }"

section \<open>Statements\<close>

definition executeNoResult :: "('p, 'o) store_lib \<Rightarrow> string \<Rightarrow> ('p, 'o, bool) store_op" where
  "executeNoResult lib sql = do {
     locked \<leftarrow> lockDb lib 1000;
     if \<not> locked then ret False
     else do {
       open \<leftarrow> gets se_open;
       if \<not> open then do { unlockDb; ret False }
       else do {
         answer \<leftarrow> outside (sq_exec lib (c_str sql) None);
         if sa_rc answer \<noteq> SqOk then do {
           (case sa_error answer of None \<Rightarrow> ret () | Some e \<Rightarrow> db_logLine lib (sql_error e));
           unlockDb; ret False }
         else do { unlockDb; ret True } } } }"

definition querySingleInt :: "('p, 'o) store_lib \<Rightarrow> string \<Rightarrow> ('p, 'o, int option) store_op" where
  "querySingleInt lib sql = do {
     locked \<leftarrow> lockDb lib 1000;
     if \<not> locked then ret None
     else do {
       open \<leftarrow> gets se_open;
       if \<not> open then do { unlockDb; ret None }
       else do {
         answer \<leftarrow> outside (sq_exec lib (c_str sql) None);
         unlockDb;
         if sa_rc answer \<noteq> SqOk then ret None else ret (queryIntCallback (sa_rows answer)) } } }"

definition queryToText :: "('p, 'o) store_lib \<Rightarrow> string \<Rightarrow> nat \<Rightarrow> ('p, 'o, outcome) store_op" where
  "queryToText lib sql maxRows = do {
     locked \<leftarrow> lockDb lib 1000;
     if \<not> locked then ret (False, ''[database] lock indisponivel'')
     else do {
       open \<leftarrow> gets se_open;
       if \<not> open then do { unlockDb; ret (False, not_initialized) }
       else do {
         answer \<leftarrow> outside (sq_exec lib (c_str sql) (Some maxRows));
         unlockDb;
         (case queryTextCallback maxRows (sa_rows answer) [] 0 of
            (out, rowCount, truncated) \<Rightarrow>
              if sa_rc answer \<noteq> SqOk \<and> sa_rc answer \<noteq> SqAbort then
                ret (False, case sa_error answer of Some e \<Rightarrow> sql_error e | None \<Rightarrow> ''[database] SQL error'')
              else
                let out = (if truncated then out @ ''... resultado truncado ...'' @ [LF] else out) in
                ret (True, if rowCount = 0 \<and> \<not> truncated
                           then ''[database] consulta sem linhas (ou comando executado com sucesso)''
                           else out)) } } }"

section \<open>The file\<close>

definition sdPathExists :: "('p, 'o) store_lib \<Rightarrow> string \<Rightarrow> ('p, 'o) store_env \<Rightarrow> bool" where
  "sdPathExists lib path s \<longleftrightarrow> fs_stat lib path (se_out s) \<noteq> None"

definition sdPathIsDirectory :: "('p, 'o) store_lib \<Rightarrow> string \<Rightarrow> ('p, 'o) store_env \<Rightarrow> bool" where
  "sdPathIsDirectory lib path s \<longleftrightarrow>
     (case fs_stat lib path (se_out s) of None \<Rightarrow> False | Some st \<Rightarrow> st_directory st)"

text \<open>\<open>!sdPathIsDirectory(dir) && mkdir(dir) != 0\<close>\<close>

definition no_directory :: "('p, 'o) store_lib \<Rightarrow> string \<Rightarrow> ('p, 'o, bool) store_op" where
  "no_directory lib dir = do {
     present \<leftarrow> gets (sdPathIsDirectory lib dir);
     if present then ret False
     else do { made \<leftarrow> outside (fs_mkdir lib dir); ret (\<not> made) } }"

definition openDatabase :: "('p, 'o) store_lib \<Rightarrow> ('p, 'o, bool) store_op" where
  "openDatabase lib = do {
     locked \<leftarrow> lockDb lib 1000;
     if \<not> locked then ret False
     else do {
       open \<leftarrow> gets se_open;
       if open then do { unlockDb; ret True }
       else do {
         ready \<leftarrow> outside (sq_initialize lib);
         if \<not> ready then do { db_logLine lib ''[database] sqlite3_initialize() falhou''; unlockDb; ret False }
         else do {
           opened \<leftarrow> outside (sq_open lib kDatabasePath);
           modify (\<lambda>s. s\<lparr>se_open := snd opened\<rparr>);
           if \<not> fst opened \<or> \<not> snd opened then do {
             (if snd opened then do {
                message \<leftarrow> gets (\<lambda>s. sq_errmsg lib (se_out s));
                db_logLine lib (''[database] sqlite open error: '' @ message);
                act_outside (sq_close lib);
                modify (\<lambda>s. s\<lparr>se_open := False\<rparr>) }
              else db_logLine lib ''[database] sqlite open error: handle nulo'');
             unlockDb; ret False }
           else do { act_outside (sq_no_lookaside lib); unlockDb; ret True } } } } }"

definition closeDatabase :: "('p, 'o) store_lib \<Rightarrow> ('p, 'o, unit) store_op" where
  "closeDatabase lib = do {
     locked \<leftarrow> lockDb lib 1000;
     if \<not> locked then ret ()
     else do {
       open \<leftarrow> gets se_open;
       only_if open (do { act_outside (sq_close lib); modify (\<lambda>s. s\<lparr>se_open := False\<rparr>) });
       modify (\<lambda>s. s\<lparr>se_ready := False\<rparr>);
       unlockDb } }"

definition kDefaultBootstrapSql :: string where
  "kDefaultBootstrapSql =
   [LF] @
   ''CREATE TABLE IF NOT EXISTS peers ('' @ [LF] @
   ''    id INTEGER PRIMARY KEY AUTOINCREMENT,'' @ [LF] @
   ''    mac TEXT NOT NULL UNIQUE,'' @ [LF] @
   ''    name TEXT NOT NULL,'' @ [LF] @
   ''    description TEXT DEFAULT '' @ sq @ sq @ '','' @ [LF] @
   ''    created_at INTEGER NOT NULL DEFAULT (strftime('' @ sq @ ''%s'' @ sq @ '','' @ sq @ ''now'' @ sq @ '')),'' @ [LF] @
   ''    updated_at INTEGER NOT NULL DEFAULT (strftime('' @ sq @ ''%s'' @ sq @ '','' @ sq @ ''now'' @ sq @ ''))'' @ [LF] @
   '');'' @ [LF] @
   [LF] @
   ''CREATE TABLE IF NOT EXISTS command_log ('' @ [LF] @
   ''    id INTEGER PRIMARY KEY AUTOINCREMENT,'' @ [LF] @
   ''    command TEXT NOT NULL,'' @ [LF] @
   ''    source TEXT NOT NULL DEFAULT '' @ sq @ ''serial'' @ sq @ '','' @ [LF] @
   ''    created_at INTEGER NOT NULL DEFAULT (strftime('' @ sq @ ''%s'' @ sq @ '','' @ sq @ ''now'' @ sq @ ''))'' @ [LF] @
   '');'' @ [LF] @
   [LF] @
   ''CREATE TABLE IF NOT EXISTS command_log_output ('' @ [LF] @
   ''    id INTEGER PRIMARY KEY AUTOINCREMENT,'' @ [LF] @
   ''    log_id INTEGER NOT NULL,'' @ [LF] @
   ''    output TEXT NOT NULL,'' @ [LF] @
   ''    created_at INTEGER NOT NULL DEFAULT (strftime('' @ sq @ ''%s'' @ sq @ '','' @ sq @ ''now'' @ sq @ '')),'' @ [LF] @
   ''    FOREIGN KEY(log_id) REFERENCES command_log(id) ON DELETE CASCADE'' @ [LF] @
   '');'' @ [LF] @
   [LF] @
   ''CREATE TABLE IF NOT EXISTS espnow_outgoing_log ('' @ [LF] @
   ''    id INTEGER PRIMARY KEY AUTOINCREMENT,'' @ [LF] @
   ''    peer_id INTEGER,'' @ [LF] @
   ''    mac TEXT NOT NULL,'' @ [LF] @
   ''    payload TEXT NOT NULL,'' @ [LF] @
   ''    payload_type INTEGER NOT NULL DEFAULT 0,'' @ [LF] @
   ''    delivered INTEGER NOT NULL DEFAULT 0,'' @ [LF] @
   ''    sent_at INTEGER NOT NULL DEFAULT (strftime('' @ sq @ ''%s'' @ sq @ '','' @ sq @ ''now'' @ sq @ '')),'' @ [LF] @
   ''    FOREIGN KEY(peer_id) REFERENCES peers(id) ON DELETE SET NULL'' @ [LF] @
   '');'' @ [LF] @
   [LF] @
   ''CREATE TABLE IF NOT EXISTS boot_events ('' @ [LF] @
   ''    id INTEGER PRIMARY KEY AUTOINCREMENT,'' @ [LF] @
   ''    reason TEXT NOT NULL,'' @ [LF] @
   ''    boot_at INTEGER NOT NULL DEFAULT (strftime('' @ sq @ ''%s'' @ sq @ '','' @ sq @ ''now'' @ sq @ ''))'' @ [LF] @
   '');'' @ [LF] @
   [LF] @
   ''CREATE TABLE IF NOT EXISTS kv_store ('' @ [LF] @
   ''    key TEXT PRIMARY KEY,'' @ [LF] @
   ''    value TEXT NOT NULL,'' @ [LF] @
   ''    updated_at INTEGER NOT NULL DEFAULT (strftime('' @ sq @ ''%s'' @ sq @ '','' @ sq @ ''now'' @ sq @ ''))'' @ [LF] @
   '');'' @ [LF]"

definition ensureBootstrapAssets :: "('p, 'o) store_lib \<Rightarrow> ('p, 'o, bool) store_op" where
  "ensureBootstrapAssets lib = do {
     missing \<leftarrow> no_directory lib kDatabaseDir;
     present \<leftarrow> gets (sdPathExists lib kBootstrapPath);
     if missing then ret False
     else if present then ret True
     else do {
       opened \<leftarrow> outside (fs_create lib kBootstrapPath False);
       if \<not> opened then ret False
       else do {
         written \<leftarrow> outside (fs_fwrite lib kBootstrapPath kDefaultBootstrapSql);
         if written = 0 then ret False
         else do {
           db_logLine lib ''[database] bootstrap.sql criado em /database/bootstrap.sql'';
           ret True } } } }"

definition applyBootstrapScript :: "('p, 'o) store_lib \<Rightarrow> ('p, 'o, bool) store_op" where
  "applyBootstrapScript lib = do {
     script \<leftarrow> gets (\<lambda>s. fs_read lib kBootstrapPath (se_out s));
     (case script of
        None \<Rightarrow> ret False
      | Some script \<Rightarrow> if script = [] then ret False else executeNoResult lib script) }"

definition applyRuntimeMigrations :: "('p, 'o) store_lib \<Rightarrow> ('p, 'o, bool) store_op" where
  "applyRuntimeMigrations lib = executeNoResult lib (
   ''CREATE TABLE IF NOT EXISTS command_log_output ('' @
   ''id INTEGER PRIMARY KEY AUTOINCREMENT,'' @
   ''log_id INTEGER NOT NULL,'' @
   ''output TEXT NOT NULL,'' @
   ''created_at INTEGER NOT NULL DEFAULT (strftime('' @ sq @ ''%s'' @ sq @ '','' @ sq @ ''now'' @ sq @ '')),'' @
   ''FOREIGN KEY(log_id) REFERENCES command_log(id) ON DELETE CASCADE'' @
   '');'' @
   ''CREATE TABLE IF NOT EXISTS espnow_outgoing_log ('' @
   ''id INTEGER PRIMARY KEY AUTOINCREMENT,'' @
   ''peer_id INTEGER,'' @
   ''mac TEXT NOT NULL,'' @
   ''payload TEXT NOT NULL,'' @
   ''payload_type INTEGER NOT NULL DEFAULT 0,'' @
   ''delivered INTEGER NOT NULL DEFAULT 0,'' @
   ''sent_at INTEGER NOT NULL DEFAULT (strftime('' @ sq @ ''%s'' @ sq @ '','' @ sq @ ''now'' @ sq @ '')),'' @
   ''FOREIGN KEY(peer_id) REFERENCES peers(id) ON DELETE SET NULL'' @
   '');'' @
   ''CREATE TABLE IF NOT EXISTS boot_events ('' @
   ''id INTEGER PRIMARY KEY AUTOINCREMENT,'' @
   ''reason TEXT NOT NULL,'' @
   ''boot_at INTEGER NOT NULL DEFAULT (strftime('' @ sq @ ''%s'' @ sq @ '','' @ sq @ ''now'' @ sq @ ''))'' @
   '');'' @
   ''CREATE INDEX IF NOT EXISTS idx_peers_mac ON peers(mac);'' @
   ''CREATE INDEX IF NOT EXISTS idx_outgoing_peer ON espnow_outgoing_log(peer_id);'' @
   ''CREATE INDEX IF NOT EXISTS idx_log_output_log_id ON command_log_output(log_id);'')"

definition broadcast_insert_sql :: "int \<Rightarrow> string" where
  "broadcast_insert_sql now =
     ''INSERT OR IGNORE INTO peers(mac,name,description,created_at,updated_at) VALUES('' @ sq @ ''FF:FF:FF:FF:FF:FF'' @ sq @
     '','' @ sq @ ''Default'' @ sq @ '','' @ sq @ ''peer virtual padrao para broadcast'' @ sq @ '','' @
     dec_int now @ '','' @ dec_int now @ '');''"

definition broadcast_update_sql :: "int \<Rightarrow> string" where
  "broadcast_update_sql now =
     ''UPDATE peers SET name='' @ sq @ ''Default'' @ sq @ '', description='' @ sq @ ''peer virtual padrao para broadcast'' @ sq @
     '', updated_at='' @ dec_int now @ '' WHERE mac='' @ sq @ ''FF:FF:FF:FF:FF:FF'' @ sq @ '';''"

definition ensureDefaultBroadcastPeer :: "('p, 'o) store_lib \<Rightarrow> ('p, 'o, bool) store_op" where
  "ensureDefaultBroadcastPeer lib = do {
     ready \<leftarrow> gets se_ready;
     if \<not> ready then ret False
     else do {
       now \<leftarrow> currentEpochSeconds lib;
       inserted \<leftarrow> executeNoResult lib (broadcast_insert_sql now);
       if \<not> inserted then ret False else executeNoResult lib (broadcast_update_sql now) } }"

definition db_begin :: "('p, 'o) store_lib \<Rightarrow> bool \<Rightarrow> ('p, 'o, bool) store_op" where
  "db_begin lib io = do {
     modify (\<lambda>s. s\<lparr>se_io := io, se_ready := False\<rparr>);
     closeDatabase lib;
     assets \<leftarrow> ensureBootstrapAssets lib;
     if \<not> assets then do { db_logLine lib ''[database] falha ao preparar bootstrap no SD''; ret False }
     else do {
       opened \<leftarrow> openDatabase lib;
       if \<not> opened then do { db_logLine lib ''[database] falha ao abrir arquivo sqlite''; ret False }
       else do {
         applied \<leftarrow> applyBootstrapScript lib;
         if \<not> applied then do {
           closeDatabase lib; db_logLine lib ''[database] falha ao aplicar bootstrap SQL''; ret False }
         else do {
           migrated \<leftarrow> applyRuntimeMigrations lib;
           if \<not> migrated then do {
             closeDatabase lib; db_logLine lib ''[database] falha ao aplicar migracoes da base''; ret False }
           else do {
             modify (\<lambda>s. s\<lparr>se_ready := True\<rparr>);
             peer \<leftarrow> ensureDefaultBroadcastPeer lib;
             only_if (\<not> peer) (db_logLine lib ''[database] aviso: nao foi possivel garantir peer default 000'');
             ret True } } } } }"

section \<open>Peers\<close>

text \<open>A text between single quotes, as the statements put it.\<close>

definition sql_text :: "string \<Rightarrow> string" where
  "sql_text v = sq @ escapeSqlText v @ sq"

definition upsert_sql :: "mac \<Rightarrow> string \<Rightarrow> string \<Rightarrow> int \<Rightarrow> string" where
  "upsert_sql m name description now =
     ''UPDATE peers SET name='' @ sql_text name @ '', description='' @ sql_text description @
     '', updated_at='' @ dec_int now @ '' WHERE mac='' @ sql_text (macToText m) @ '';'' @
     ''INSERT OR IGNORE INTO peers(mac,name,description,created_at,updated_at) VALUES('' @
     sql_text (macToText m) @ '','' @ sql_text name @ '','' @ sql_text description @ '','' @
     dec_int now @ '','' @ dec_int now @ '');''"

definition upsertPeer :: "('p, 'o) store_lib \<Rightarrow> mac \<Rightarrow> string \<Rightarrow> string \<Rightarrow> ('p, 'o, bool) store_op" where
  "upsertPeer lib m name description = do {
     ready \<leftarrow> gets se_ready;
     if \<not> ready then ret False
     else do {
       now \<leftarrow> currentEpochSeconds lib;
       executeNoResult lib (upsert_sql m name description now) } }"

definition removePeer :: "('p, 'o) store_lib \<Rightarrow> mac \<Rightarrow> ('p, 'o, bool) store_op" where
  "removePeer lib m = do {
     ready \<leftarrow> gets se_ready;
     if \<not> ready then ret False
     else executeNoResult lib (''DELETE FROM peers WHERE mac='' @ sql_text (macToText m) @ '';'') }"

definition peerIdByMac :: "('p, 'o) store_lib \<Rightarrow> mac \<Rightarrow> ('p, 'o, int option) store_op" where
  "peerIdByMac lib m = do {
     ready \<leftarrow> gets se_ready;
     if \<not> ready then ret None
     else querySingleInt lib (''SELECT id FROM peers WHERE mac='' @ sql_text (macToText m) @ '' LIMIT 1;'') }"

definition metadata_sql :: "mac \<Rightarrow> string \<Rightarrow> string \<Rightarrow> int \<Rightarrow> string" where
  "metadata_sql m name description now =
     ''UPDATE peers SET name='' @ sql_text name @ '', description='' @ sql_text description @
     '', updated_at='' @ dec_int now @ '' WHERE mac='' @ sql_text (macToText m) @ '';''"

definition updatePeerMetadata ::
    "('p, 'o) store_lib \<Rightarrow> mac \<Rightarrow> string \<Rightarrow> string \<Rightarrow> ('p, 'o, bool) store_op" where
  "updatePeerMetadata lib m name description = do {
     ready \<leftarrow> gets se_ready;
     if \<not> ready then ret False
     else do {
       existing \<leftarrow> peerIdByMac lib m;
       if existing = None then ret False
       else do {
         now \<leftarrow> currentEpochSeconds lib;
         executeNoResult lib (metadata_sql m name description now) } } }"

definition default_peer_sql :: "mac \<Rightarrow> int \<Rightarrow> string" where
  "default_peer_sql m now =
     ''INSERT OR IGNORE INTO peers(mac,name,description,created_at,updated_at) VALUES('' @
     sql_text (macToText m) @ '','' @ sql_text (autoName m) @ '','' @
     sq @ ''adicionado automaticamente por RX ESP-NOW'' @ sq @ '','' @ dec_int now @ '','' @ dec_int now @ '');''"

definition ensurePeerExistsWithDefaults :: "('p, 'o) store_lib \<Rightarrow> mac \<Rightarrow> ('p, 'o, int option) store_op" where
  "ensurePeerExistsWithDefaults lib m = do {
     ready \<leftarrow> gets se_ready;
     if \<not> ready then ret None
     else do {
       known \<leftarrow> peerIdByMac lib m;
       if known \<noteq> None then ret known
       else do {
         now \<leftarrow> currentEpochSeconds lib;
         inserted \<leftarrow> executeNoResult lib (default_peer_sql m now);
         if \<not> inserted then ret None else peerIdByMac lib m } } }"

text \<open>The callback of \<open>loadPeersFromDatabase\<close> and its counters.\<close>

record load_counts =
  lc_processed :: nat
  lc_loaded :: nat
  lc_present :: nat
  lc_broadcast :: nat
  lc_failed :: nat

definition mac_of :: "u32 list \<Rightarrow> mac" where
  "mac_of vs = (ucast (vs ! 0), ucast (vs ! 1), ucast (vs ! 2), ucast (vs ! 3), ucast (vs ! 4), ucast (vs ! 5))"

definition column_or :: "string \<Rightarrow> nat \<Rightarrow> sq_row \<Rightarrow> string" where
  "column_or fallback i row =
     (if i < length row then (case snd (row ! i) of None \<Rightarrow> fallback | Some t \<Rightarrow> t) else fallback)"

definition load_peer :: "('p, 'o) store_lib \<Rightarrow> sq_row \<Rightarrow> load_counts \<Rightarrow> ('p, 'o, load_counts) store_op" where
  "load_peer lib row counts =
     (case (case row of [] \<Rightarrow> None | cell # _ \<Rightarrow> snd cell) of
        None \<Rightarrow> ret counts
      | Some text0 \<Rightarrow>
          let counts = counts\<lparr>lc_processed := lc_processed counts + 1\<rparr> in
          (case scan_octets 6 text0 of
             None \<Rightarrow> ret counts
           | Some vs \<Rightarrow>
               let m = mac_of vs in
               if m = (0xFF, 0xFF, 0xFF, 0xFF, 0xFF, 0xFF)
               then ret (counts\<lparr>lc_broadcast := lc_broadcast counts + 1\<rparr>)
               else do {
                 known \<leftarrow> gets (\<lambda>s. deviceIndexByMac (Some m) (se_manager s));
                 if known \<noteq> None then ret (counts\<lparr>lc_present := lc_present counts + 1\<rparr>)
                 else do {
                   added \<leftarrow> State (\<lambda>s. case addDevice (sl_radio lib) (Some m) (Some (column_or ''peer'' 1 row))
                       (Some (column_or [] 2 row)) (se_manager s) (se_out s) of
                     (ok, mgr, w) \<Rightarrow> (ok, s\<lparr>se_manager := mgr, se_out := w\<rparr>));
                   ret (if added then counts\<lparr>lc_loaded := lc_loaded counts + 1\<rparr>
                        else counts\<lparr>lc_failed := lc_failed counts + 1\<rparr>) } }))"

definition loadPeersFromDatabase :: "('p, 'o) store_lib \<Rightarrow> ('p, 'o, bool) store_op" where
  "loadPeersFromDatabase lib = do {
     ready \<leftarrow> gets (\<lambda>s. se_ready s \<and> se_open s);
     if \<not> ready then ret False
     else do {
       locked \<leftarrow> lockDb lib 1000;
       if \<not> locked then ret False
       else do {
         answer \<leftarrow> outside (sq_exec lib ''SELECT mac,name,description FROM peers ORDER BY id ASC LIMIT 64;'' None);
         counts \<leftarrow> accumulate (load_peer lib) (sa_rows answer)
           \<lparr>lc_processed = 0, lc_loaded = 0, lc_present = 0, lc_broadcast = 0, lc_failed = 0\<rparr>;
         if sa_rc answer \<noteq> SqOk then do {
           (case sa_error answer of None \<Rightarrow> ret ()
            | Some e \<Rightarrow> db_logLine lib (''[database] erro carregando peers: '' @ e));
           unlockDb; ret False }
         else do {
           db_logLine lib (snprintf 192 (''[database] peers lidos='' @ dec (lc_processed counts) @ '' adicionados='' @
             dec (lc_loaded counts) @ '' ja_em_memoria='' @ dec (lc_present counts) @ '' ignorado_000='' @
             dec (lc_broadcast counts) @ '' falhas='' @ dec (lc_failed counts)));
           unlockDb; ret True } } } }"

definition db_loadPeers :: "('p, 'o) store_lib \<Rightarrow> ('p, 'o, bool) store_op" where
  "db_loadPeers lib = loadPeersFromDatabase lib"

definition db_rebuild :: "('p, 'o) store_lib \<Rightarrow> ('p, 'o, bool) store_op" where
  "db_rebuild lib = do {
     closeDatabase lib;
     present \<leftarrow> gets (sdPathExists lib kDatabasePath);
     removed \<leftarrow> (if present then outside (fs_remove lib kDatabasePath) else ret True);
     if \<not> removed then do { db_logLine lib ''[database] falha ao remover banco anterior''; ret False }
     else do {
       io \<leftarrow> gets se_io;
       begun \<leftarrow> db_begin lib io;
       if \<not> begun then ret False
       else do {
         loaded \<leftarrow> db_loadPeers lib;
         only_if (\<not> loaded) (db_logLine lib ''[database] banco recriado, mas falhou carga inicial de peers'');
         ret True } } }"

definition syncPeersFromManager :: "('p, 'o) store_lib \<Rightarrow> ('p, 'o, bool) store_op" where
  "syncPeersFromManager lib = do {
     ready \<leftarrow> gets se_ready;
     if \<not> ready then ret False
     else do {
       total \<leftarrow> gets (\<lambda>s. deviceCount (se_manager s));
       accumulate (\<lambda>i allOk. do {
           item \<leftarrow> gets (\<lambda>s. deviceAt i (se_manager s));
           (case item of
              None \<Rightarrow> ret False
            | Some d \<Rightarrow> do {
                ok \<leftarrow> upsertPeer lib (dv_mac d) (c_str (dv_name d)) (c_str (dv_description d));
                ret (if \<not> ok then False else allOk) }) })
         [0..<total] True } }"

section \<open>Logs\<close>

text \<open>\<open>None\<close> is a null pointer.\<close>

definition logCommandWithOutput ::
    "('p, 'o) store_lib \<Rightarrow> string option \<Rightarrow> string option \<Rightarrow> string option \<Rightarrow> ('p, 'o, bool) store_op" where
  "logCommandWithOutput lib command output source = do {
     ready \<leftarrow> gets se_ready;
     if \<not> ready \<or> command = None \<or> c_str (the command) = [] then ret False
     else do {
       locked \<leftarrow> lockDb lib 1000;
       if \<not> locked then ret False
       else do {
         open \<leftarrow> gets se_open;
         if \<not> open then do { unlockDb; ret False }
         else do {
           now \<leftarrow> currentEpochSeconds lib;
           let sourceText = (case source of Some t \<Rightarrow> if c_str t \<noteq> [] then c_str t else ''serial'' | None \<Rightarrow> ''serial'');
           let outputText = (case output of Some t \<Rightarrow> c_str t | None \<Rightarrow> []);
           logged \<leftarrow> outside (sq_run lib ''INSERT INTO command_log(command,source,created_at) VALUES(?1,?2,?3);''
             [BindText (c_str (the command)), BindText sourceText, BindInt now]);
           logId \<leftarrow> gets (\<lambda>s. sq_last_insert_rowid lib (se_out s));
           ok \<leftarrow> (if \<not> logged then ret False
                 else outside (sq_run lib ''INSERT INTO command_log_output(log_id,output,created_at) VALUES(?1,?2,?3);''
                   [BindInt logId, BindText outputText, BindInt now]));
           message \<leftarrow> gets (\<lambda>s. sq_errmsg lib (se_out s));
           only_if (\<not> ok) (db_logLine lib (sql_error message));
           unlockDb; ret ok } } } }"

definition logCommand :: "('p, 'o) store_lib \<Rightarrow> string option \<Rightarrow> string option \<Rightarrow> ('p, 'o, bool) store_op" where
  "logCommand lib command source = do {
     ready \<leftarrow> gets se_ready;
     if \<not> ready \<or> command = None \<or> c_str (the command) = [] then ret False
     else logCommandWithOutput lib command (Some []) source }"

definition outgoing_sql :: "int \<Rightarrow> mac \<Rightarrow> int \<Rightarrow> bytes \<Rightarrow> bool \<Rightarrow> int \<Rightarrow> string" where
  "outgoing_sql peerId m type payload delivered now =
     ''INSERT INTO espnow_outgoing_log(peer_id,mac,payload,payload_type,delivered,sent_at) VALUES('' @
     (if peerId > 0 then dec_int peerId else ''NULL'') @ '','' @ sql_text (macToText m) @ '','' @
     sql_text (payloadPreviewText payload) @ '','' @ dec_int type @ '','' @ (if delivered then ''1'' else ''0'') @ '','' @
     dec_int now @ '');''"

text \<open>\<open>type\<close> is the numeric value of the message type of the library.\<close>

definition logOutgoingEspNow :: "('p, 'o) store_lib \<Rightarrow> mac \<Rightarrow> int \<Rightarrow> bytes \<Rightarrow> bool \<Rightarrow> ('p, 'o, bool) store_op" where
  "logOutgoingEspNow lib m type payload delivered = do {
     ready \<leftarrow> gets se_ready;
     if \<not> ready then ret False
     else do {
       known \<leftarrow> peerIdByMac lib m;
       peer \<leftarrow> (if known \<noteq> None then ret known else ensurePeerExistsWithDefaults lib m);
       now \<leftarrow> currentEpochSeconds lib;
       executeNoResult lib (outgoing_sql (case peer of None \<Rightarrow> - 1 | Some i \<Rightarrow> i) m type payload delivered now) } }"

definition boot_sql :: "string option \<Rightarrow> int \<Rightarrow> string" where
  "boot_sql reason now =
     ''INSERT INTO boot_events(reason,boot_at) VALUES('' @
     sql_text (case reason of Some r \<Rightarrow> c_str r | None \<Rightarrow> ''power_on'') @ '','' @ dec_int now @ '');''"

definition logBootEvent :: "('p, 'o) store_lib \<Rightarrow> string option \<Rightarrow> ('p, 'o, bool) store_op" where
  "logBootEvent lib reason = do {
     ready \<leftarrow> gets se_ready;
     if \<not> ready then ret False
     else do {
       now \<leftarrow> currentEpochSeconds lib;
       executeNoResult lib (boot_sql reason now) } }"

section \<open>Queries\<close>

definition int_or :: "int \<Rightarrow> int option \<Rightarrow> int" where
  "int_or d v = (case v of None \<Rightarrow> d | Some i \<Rightarrow> i)"

definition getStatus :: "('p, 'o) store_lib \<Rightarrow> ('p, 'o, outcome) store_op" where
  "getStatus lib = do {
     ready \<leftarrow> gets se_ready;
     if \<not> ready then ret (False, not_initialized)
     else do {
       peers \<leftarrow> querySingleInt lib ''SELECT COUNT(*) FROM peers;'';
       commands \<leftarrow> querySingleInt lib ''SELECT COUNT(*) FROM command_log;'';
       outgoing \<leftarrow> querySingleInt lib ''SELECT COUNT(*) FROM espnow_outgoing_log;'';
       boots \<leftarrow> querySingleInt lib ''SELECT COUNT(*) FROM boot_events;'';
       ret (True, snprintf 256 (''[database] pronto arquivo='' @ kDatabasePath @ '' peers='' @ dec_int (int_or (- 1) peers) @
         '' comandos='' @ dec_int (int_or (- 1) commands) @ '' tx='' @ dec_int (int_or (- 1) outgoing) @
         '' boots='' @ dec_int (int_or (- 1) boots))) } }"

definition listTables :: "('p, 'o) store_lib \<Rightarrow> ('p, 'o, outcome) store_op" where
  "listTables lib = do {
     ready \<leftarrow> gets se_ready;
     if \<not> ready then ret (False, not_initialized)
     else queryToText lib (''SELECT name FROM sqlite_master WHERE type='' @ sq @ ''table'' @ sq @
       '' AND name NOT LIKE '' @ sq @ ''sqlite_%'' @ sq @ '' ORDER BY name;'') 64 }"

definition bounded_limit :: "nat \<Rightarrow> nat \<Rightarrow> nat \<Rightarrow> nat" where
  "bounded_limit fallback largest limit =
     (let limit = (if limit = 0 then fallback else limit) in if limit > largest then largest else limit)"

definition readTable :: "('p, 'o) store_lib \<Rightarrow> string \<Rightarrow> nat \<Rightarrow> ('p, 'o, outcome) store_op" where
  "readTable lib tableName limit = do {
     ready \<leftarrow> gets se_ready;
     if \<not> ready then ret (False, not_initialized)
     else if \<not> isSafeIdentifier tableName then ret (False, ''[database] nome de tabela invalido'')
     else
       let limit = bounded_limit 20 200 limit
       in queryToText lib (''SELECT * FROM '' @ tableName @ '' LIMIT '' @ dec limit @ '';'') limit }"

text \<open>The rows of a log, numbered from 1; \<open>line\<close> prints one.\<close>

fun number_rows :: "(nat \<Rightarrow> sq_cell list \<Rightarrow> string) \<Rightarrow> nat \<Rightarrow> sq_cell list list \<Rightarrow> string" where
  "number_rows line n [] = []"
| "number_rows line n (row # rows) = line (n + 1) row @ number_rows line (n + 1) rows"

definition command_log_line :: "('p, 'o) store_lib \<Rightarrow> nat \<Rightarrow> sq_cell list \<Rightarrow> string" where
  "command_log_line lib n row =
     ''['' @ dec n @ ''] id='' @ dec_int (column_int row 0) @
     '' | data_hora='' @ epochToDateTimeText lib (cl_int (row ! 1)) @
     '' | source='' @ sanitizeAndTruncateField (safeColumnText row 2) 24 @
     '' | command='' @ sanitizeAndTruncateField (safeColumnText row 3) 72 @
     '' | output='' @ sanitizeAndTruncateField (safeColumnText row 4) 96 @ [LF]"

definition command_log_sql :: "nat \<Rightarrow> string" where
  "command_log_sql limit =
     ''SELECT c.id, c.created_at, c.source, c.command, o.output '' @
     ''FROM command_log c '' @
     ''LEFT JOIN command_log_output o ON o.log_id = c.id '' @
     ''ORDER BY c.id DESC LIMIT '' @ dec limit @ '';''"

text \<open>The lock is taken before \<open>ready_\<close> is looked at, and the early return keeps it.\<close>

definition readCommandLogsWithOutput :: "('p, 'o) store_lib \<Rightarrow> nat \<Rightarrow> ('p, 'o, outcome) store_op" where
  "readCommandLogsWithOutput lib limit = do {
     locked \<leftarrow> lockDb lib 1000;
     if \<not> locked then ret (False, ''[database] lock indisponivel'')
     else do {
       ready \<leftarrow> gets se_ready;
       if \<not> ready then ret (False, not_initialized)
       else do {
         answer \<leftarrow> outside (sq_select lib (command_log_sql (bounded_limit 20 200 limit)));
         message \<leftarrow> gets (\<lambda>s. sq_errmsg lib (se_out s));
         unlockDb;
         (case answer of
            None \<Rightarrow> ret (False, sql_error message)
          | Some (names, rows, complete) \<Rightarrow>
              if \<not> complete then ret (False, sql_error message)
              else ret (True, if rows = [] then ''[database] consulta sem linhas (ou comando executado com sucesso)''
                              else number_rows (command_log_line lib) 0 rows)) } } }"

fun recent_lines :: "sq_cell list list \<Rightarrow> string" where
  "recent_lines [] = []"
| "recent_lines (row # rows) =
     (case cl_text (row ! 0) of
        None \<Rightarrow> recent_lines rows
      | Some command \<Rightarrow> if c_str command = [] then recent_lines rows else c_str command @ [LF] @ recent_lines rows)"

definition recent_sql :: "nat \<Rightarrow> string" where
  "recent_sql limit =
     ''SELECT command FROM (SELECT id, command FROM command_log WHERE source='' @ sq @ ''serial'' @ sq @
     '' ORDER BY id DESC LIMIT '' @ dec limit @ '') t ORDER BY id ASC;''"

definition readRecentCommands :: "('p, 'o) store_lib \<Rightarrow> nat \<Rightarrow> ('p, 'o, outcome) store_op" where
  "readRecentCommands lib limit = do {
     locked \<leftarrow> lockDb lib 1000;
     if \<not> locked then ret (False, ''[database] lock indisponivel'')
     else do {
       usable \<leftarrow> gets (\<lambda>s. se_ready s \<and> se_open s);
       if \<not> usable then do { unlockDb; ret (False, not_initialized) }
       else do {
         answer \<leftarrow> outside (sq_select lib (recent_sql (bounded_limit 64 256 limit)));
         message \<leftarrow> gets (\<lambda>s. sq_errmsg lib (se_out s));
         unlockDb;
         (case answer of
            None \<Rightarrow> ret (False, sql_error message)
          | Some (names, rows, complete) \<Rightarrow>
              if \<not> complete then ret (False, sql_error message) else ret (True, trim (recent_lines rows))) } } }"

definition tx_log_line :: "('p, 'o) store_lib \<Rightarrow> nat \<Rightarrow> sq_cell list \<Rightarrow> string" where
  "tx_log_line lib n row =
     ''['' @ dec n @ ''] id='' @ dec_int (column_int row 0) @
     '' | data_hora='' @ epochToDateTimeText lib (cl_int (row ! 1)) @
     '' | peer='' @ sanitizeAndTruncateField (safeColumnText row 2) 24 @
     '' | mac='' @ sanitizeAndTruncateField (safeColumnText row 3) 17 @
     '' | mensagem='' @ sanitizeAndTruncateField (safeColumnText row 4) 96 @
     '' | status='' @ (if column_int row 5 = 1 then ''sucesso'' else ''falha'') @ [LF]"

definition tx_log_sql :: "nat \<Rightarrow> string" where
  "tx_log_sql limit =
     ''SELECT o.id, o.sent_at, p.name, o.mac, o.payload, o.delivered '' @
     ''FROM espnow_outgoing_log o '' @
     ''LEFT JOIN peers p ON p.id = o.peer_id '' @
     ''ORDER BY o.sent_at DESC LIMIT '' @ dec limit @ '';''"

definition readEspNowHistory :: "('p, 'o) store_lib \<Rightarrow> nat \<Rightarrow> ('p, 'o, outcome) store_op" where
  "readEspNowHistory lib limit = do {
     locked \<leftarrow> lockDb lib 1000;
     if \<not> locked then ret (False, ''[database] lock indisponivel'')
     else do {
       ready \<leftarrow> gets se_ready;
       if \<not> ready then ret (False, not_initialized)
       else do {
         answer \<leftarrow> outside (sq_select lib (tx_log_sql (bounded_limit 20 200 limit)));
         message \<leftarrow> gets (\<lambda>s. sq_errmsg lib (se_out s));
         unlockDb;
         (case answer of
            None \<Rightarrow> ret (False, sql_error message)
          | Some (names, rows, complete) \<Rightarrow>
              if \<not> complete then ret (False, sql_error message)
              else ret (True, ''[database] ESP-NOW TX'' @ [LF] @ number_rows (tx_log_line lib) 0 rows @
                              (if rows = [] then ''(sem linhas)'' @ [LF] else []))) } } }"

definition dropTable :: "('p, 'o) store_lib \<Rightarrow> string \<Rightarrow> ('p, 'o, bool) store_op" where
  "dropTable lib tableName = do {
     ready \<leftarrow> gets se_ready;
     if \<not> ready then ret False
     else if \<not> isSafeIdentifier tableName then ret False
     else executeNoResult lib (''DROP TABLE IF EXISTS '' @ tableName @ '';'') }"

definition executeSql :: "('p, 'o) store_lib \<Rightarrow> string \<Rightarrow> ('p, 'o, outcome) store_op" where
  "executeSql lib sql = do {
     ready \<leftarrow> gets se_ready;
     if \<not> ready then ret (False, not_initialized)
     else if trim sql = [] then ret (False, ''[database] SQL vazio'')
     else queryToText lib (trim sql) 80 }"

definition countRows :: "('p, 'o) store_lib \<Rightarrow> string \<Rightarrow> ('p, 'o, int option) store_op" where
  "countRows lib tableName = do {
     ready \<leftarrow> gets se_ready;
     if \<not> ready then ret None
     else if \<not> isSafeIdentifier tableName then ret None
     else querySingleInt lib (''SELECT COUNT(*) FROM '' @ tableName @ '';'') }"

text \<open>\<open>None\<close> is a failure, which leaves the count at 0.\<close>

definition deleteRows :: "('p, 'o) store_lib \<Rightarrow> string \<Rightarrow> string \<Rightarrow> ('p, 'o, int option) store_op" where
  "deleteRows lib tableName whereClause = do {
     usable \<leftarrow> gets (\<lambda>s. se_ready s \<and> se_open s);
     if \<not> usable then ret None
     else if \<not> isSafeIdentifier tableName \<or> whereClause = [] then ret None
     else do {
       locked \<leftarrow> lockDb lib 1000;
       if \<not> locked then ret None
       else do {
         answer \<leftarrow> outside (sq_exec lib (c_str (''DELETE FROM '' @ tableName @ '' WHERE '' @ whereClause @ '';'')) None);
         if sa_rc answer \<noteq> SqOk then do {
           (case sa_error answer of None \<Rightarrow> ret () | Some e \<Rightarrow> db_logLine lib (sql_error e));
           unlockDb; ret None }
         else do {
           changes \<leftarrow> gets (\<lambda>s. sq_changes lib (se_out s));
           unlockDb; ret (Some changes) } } } }"

definition file_bytes :: "('p, 'o) store_lib \<Rightarrow> string \<Rightarrow> ('p, 'o) store_env \<Rightarrow> nat" where
  "file_bytes lib path s = (case fs_stat lib path (se_out s) of None \<Rightarrow> 0 | Some st \<Rightarrow> st_size st)"

definition vacuum :: "('p, 'o) store_lib \<Rightarrow> ('p, 'o, outcome) store_op" where
  "vacuum lib = do {
     usable \<leftarrow> gets (\<lambda>s. se_ready s \<and> se_open s);
     if \<not> usable then ret (False, not_initialized)
     else do {
       before \<leftarrow> gets (file_bytes lib kDatabasePath);
       done1 \<leftarrow> executeNoResult lib ''VACUUM;'';
       if \<not> done1 then ret (False, ''[database] falha ao executar VACUUM'')
       else do {
         after \<leftarrow> gets (file_bytes lib kDatabasePath);
         ret (True, snprintf 128 (''[database] VACUUM concluido: '' @ dec before @ ''B -> '' @ dec after @ ''B'')) } } }"

section \<open>Export and maintenance\<close>

text \<open>One field of a CSV line; a null value is an empty field.\<close>

definition csv_field :: "string option \<Rightarrow> string" where
  "csv_field cell =
     (case cell of None \<Rightarrow> []
      | Some t \<Rightarrow>
          let v = replaceAll (c_str t) [DQ] [DQ, DQ] in
          if indexOf v (CHR '','') 0 \<ge> 0 \<or> indexOf v DQ 0 \<ge> 0 \<or> indexOf v LF 0 \<ge> 0 then [DQ] @ v @ [DQ] else v)"

fun csv_join :: "string list \<Rightarrow> bool \<Rightarrow> string" where
  "csv_join [] first = []"
| "csv_join (f # fs) first = (if first then [] else '','') @ f @ csv_join fs False"

definition csv_line :: "sq_cell list \<Rightarrow> string" where
  "csv_line row = csv_join (map (\<lambda>c. csv_field (cl_text c)) row) True @ [LF]"

definition csv_text :: "string list \<Rightarrow> sq_cell list list \<Rightarrow> string" where
  "csv_text names rows = csv_join names True @ [LF] @ concat (map csv_line rows)"

definition exportTableToCsv :: "('p, 'o) store_lib \<Rightarrow> string \<Rightarrow> ('p, 'o, outcome) store_op" where
  "exportTableToCsv lib tableName = do {
     usable \<leftarrow> gets (\<lambda>s. se_ready s \<and> se_open s);
     if \<not> usable then ret (False, not_initialized)
     else if \<not> isSafeIdentifier tableName then ret (False, ''[database] nome de tabela invalido'')
     else do {
       locked \<leftarrow> lockDb lib 2000;
       if \<not> locked then ret (False, ''[database] lock indisponivel para exportar'')
       else do {
         answer \<leftarrow> outside (sq_select lib (''SELECT * FROM '' @ tableName @ '';''));
         message \<leftarrow> gets (\<lambda>s. sq_errmsg lib (se_out s));
         (case answer of
            None \<Rightarrow> do { unlockDb; ret (False, sql_error message) }
          | Some (names, rows, complete) \<Rightarrow> do {
              missing \<leftarrow> no_directory lib kExportDir;
              let csvPath = kExportDir @ ''/'' @ tableName @ ''.csv'';
              if missing then do { unlockDb; ret (False, ''[database] falha ao criar pasta de exportacao'') }
              else do {
                opened \<leftarrow> outside (fs_create lib csvPath False);
                if \<not> opened then do { unlockDb; ret (False, ''[database] falha ao criar arquivo CSV'') }
                else do {
                  written \<leftarrow> outside (fs_fwrite lib csvPath (csv_text names rows));
                  unlockDb;
                  if \<not> complete then ret (False, ''[database] SQL error durante exportacao: '' @ message)
                  else ret (True, snprintf 192 (''[database] exportado '' @ tableName @ '': '' @ dec (length rows) @
                         '' linha(s) -> '' @ csvPath)) } } }) } } }"

definition clearLogs :: "('p, 'o) store_lib \<Rightarrow> ('p, 'o, outcome) store_op" where
  "clearLogs lib = do {
     usable \<leftarrow> gets (\<lambda>s. se_ready s \<and> se_open s);
     if \<not> usable then ret (False, not_initialized)
     else do {
       commands \<leftarrow> querySingleInt lib ''SELECT COUNT(*) FROM command_log;'';
       outgoing \<leftarrow> querySingleInt lib ''SELECT COUNT(*) FROM espnow_outgoing_log;'';
       ok \<leftarrow> executeNoResult lib
         (''DELETE FROM command_log_output;'' @ ''DELETE FROM command_log;'' @ ''DELETE FROM espnow_outgoing_log;'');
       if \<not> ok then ret (False, ''[database] falha ao limpar logs'')
       else ret (True, snprintf 128 (''[database] logs limpos: '' @ dec_int (int_or 0 commands) @ '' comando(s) e '' @
              dec_int (int_or 0 outgoing) @ '' envio(s) removidos'')) } }"

text \<open>The first free name: the base name, then with the suffixes \<open>_001\<close>, \<open>_002\<close>, \<open>...\<close>.\<close>

function backup_path :: "('p, 'o) store_lib \<Rightarrow> ('p, 'o) store_env \<Rightarrow> string \<Rightarrow> string \<Rightarrow> nat \<Rightarrow> string" where
  "backup_path lib s baseName path suffix =
     (if sdPathExists lib path s \<and> suffix < 1000
      then backup_path lib s baseName (kBackupDir @ ''/'' @ baseName @ ''_'' @ dec_pad 3 suffix @ ''.db'') (suffix + 1)
      else path)"
  by pat_completeness auto
termination by (relation "measure (\<lambda>(lib, s, b, p, suffix). 1000 - suffix)") auto

declare backup_path.simps [simp del]

definition db_backup :: "('p, 'o) store_lib \<Rightarrow> ('p, 'o, outcome) store_op" where
  "db_backup lib = do {
     ready \<leftarrow> gets se_ready;
     if \<not> ready then ret (False, not_initialized)
     else do {
       missing \<leftarrow> no_directory lib kBackupDir;
       if missing then ret (False, ''[database] falha ao criar pasta de backup'')
       else do {
         now \<leftarrow> currentEpochSeconds lib;
         let stamp = (if now > 0 then sl_localtime lib ''%Y%m%d_%H%M%S'' now else None);
         let baseName = ''dongle_'' @ (case stamp of Some t \<Rightarrow> take 31 t | None \<Rightarrow> take 31 (''epoch_'' @ dec_int now));
         path \<leftarrow> gets (\<lambda>s. backup_path lib s baseName (kBackupDir @ ''/'' @ baseName @ ''.db'') 1);
         taken \<leftarrow> gets (sdPathExists lib path);
         if taken then ret (False, ''[database] falha ao gerar nome unico para backup'')
         else do {
           locked \<leftarrow> lockDb lib 5000;
           open \<leftarrow> gets se_open;
           if \<not> locked then ret (False, ''[database] lock indisponivel para backup'')
           else if \<not> open then do { unlockDb; ret (False, not_initialized) }
           else do {
             checkpoint \<leftarrow> outside (sq_exec lib ''PRAGMA wal_checkpoint(FULL);'' None);
             opened \<leftarrow> outside (sq_backup_open lib path);
             if \<not> opened then do { unlockDb; ret (False, ''[database] falha ao abrir arquivo de backup'') }
             else do {
               initialized \<leftarrow> outside (sq_backup_init lib);
               if \<not> initialized then do {
                 act_outside (sq_backup_close lib); unlockDb; ret (False, ''[database] falha ao iniciar copia do backup'') }
               else do {
                 copied \<leftarrow> outside (sq_backup_copy lib);
                 act_outside (sq_backup_close lib);
                 unlockDb;
                 if \<not> copied then do {
                   removed \<leftarrow> outside (fs_remove lib path);
                   ret (False, ''[database] falha ao gerar backup'') }
                 else do {
                   size \<leftarrow> gets (file_bytes lib path);
                   ret (True, snprintf 256 (''[database] backup salvo: '' @ path @ '' ('' @ dec size @ ''B)'')) } } } } } } } }"

definition db_end :: "('p, 'o) store_lib \<Rightarrow> ('p, 'o, unit) store_op" where
  "db_end lib = closeDatabase lib"

definition transaction :: "('p, 'o) store_lib \<Rightarrow> string \<Rightarrow> ('p, 'o, bool) store_op" where
  "transaction lib sql = do {
     ready \<leftarrow> gets se_ready;
     if \<not> ready then ret False else executeNoResult lib sql }"

definition beginTransaction :: "('p, 'o) store_lib \<Rightarrow> ('p, 'o, bool) store_op" where
  "beginTransaction lib = transaction lib ''BEGIN IMMEDIATE;''"

definition commitTransaction :: "('p, 'o) store_lib \<Rightarrow> ('p, 'o, bool) store_op" where
  "commitTransaction lib = transaction lib ''COMMIT;''"

definition rollbackTransaction :: "('p, 'o) store_lib \<Rightarrow> ('p, 'o, bool) store_op" where
  "rollbackTransaction lib = transaction lib ''ROLLBACK;''"

end
