(* ===== verification/Store_Frame.thy ===== *)
theory Store_Frame
  imports Database_Store
begin

text \<open>
  What an operation of the store does not change: it gives back the recursive mutex as often as it takes
  it, and it writes nothing to the console port but its log lines. The critical sections are followed
  through every early return.
\<close>

section \<open>Relations\<close>

text \<open>\<open>logLine\<close> as a step of the port: each of its lines has the tag of the database.\<close>

definition tagged :: "string \<Rightarrow> bool" where
  "tagged txt \<longleftrightarrow> startsWith (c_str txt) ''[database] ''"

definition log_step :: "('p, 'o) store_lib \<Rightarrow> 'p \<Rightarrow> 'p \<Rightarrow> bool" where
  "log_step lib p q \<longleftrightarrow> (\<exists>txt. tagged txt \<and> q = put_char (sl_write lib) LF (snd (sl_write lib (bytes_of (c_str txt)) p)))"

definition log_steps :: "('p, 'o) store_lib \<Rightarrow> 'p \<Rightarrow> 'p \<Rightarrow> bool" where
  "log_steps lib = (log_step lib)\<^sup>*\<^sup>*"

lemma log_steps_refl [simp]: "log_steps lib p p" by (simp add: log_steps_def)
lemma log_steps_trans: "log_steps lib p q \<Longrightarrow> log_steps lib q r \<Longrightarrow> log_steps lib p r" by (simp add: log_steps_def)
lemma log_steps_one:
  "tagged txt \<Longrightarrow> log_steps lib p (put_char (sl_write lib) LF (snd (sl_write lib (bytes_of (c_str txt)) p)))"
  unfolding log_steps_def log_step_def by (rule r_into_rtranclp) blast

text \<open>Whether the mutex exists is settled before the first call.\<close>

definition only_logs :: "('p, 'o) store_lib \<Rightarrow> ('p, 'o) store_env \<Rightarrow> ('p, 'o) store_env \<Rightarrow> bool" where
  "only_logs lib s t \<longleftrightarrow> se_mutex t = se_mutex s \<and> log_steps lib (se_port s) (se_port t)"

definition balanced :: "('p, 'o) store_lib \<Rightarrow> ('p, 'o) store_env \<Rightarrow> ('p, 'o) store_env \<Rightarrow> bool" where
  "balanced lib s t \<longleftrightarrow> only_logs lib s t \<and> se_locks t = se_locks s"

definition released :: "('p, 'o) store_lib \<Rightarrow> ('p, 'o) store_env \<Rightarrow> ('p, 'o) store_env \<Rightarrow> bool" where
  "released lib s t \<longleftrightarrow> only_logs lib s t \<and>
     (se_mutex s \<longrightarrow> se_locks s > 0 \<longrightarrow> Suc (se_locks t) = se_locks s) \<and> (\<not> se_mutex s \<longrightarrow> se_locks t = se_locks s)"

interpretation logs: step_relation "only_logs lib" for lib
  by unfold_locales (auto simp: only_logs_def intro: log_steps_trans)

interpretation keeps: step_relation "balanced lib" for lib
  by unfold_locales (auto simp: balanced_def intro: logs.refl logs.trans)

abbreviation "keeps lib \<equiv> state_io_rel (balanced lib)"
abbreviation "releases lib \<equiv> state_io_rel (released lib)"

section \<open>Rules\<close>

lemma keeps_logs: "keeps lib m \<Longrightarrow> state_io_rel (only_logs lib) m"
  unfolding state_io_rel_def by (auto simp: balanced_def split: prod.splits)

lemma keeps_outside: "keeps lib (outside f)"
  by (auto simp: state_io_rel_def outside_def balanced_def only_logs_def split: prod.splits)

lemma keeps_act: "keeps lib (act_outside f)"
  by (auto simp: state_io_rel_def act_outside_def modify_def balanced_def only_logs_def)

lemma keeps_logLine: "tagged txt \<Longrightarrow> keeps lib (db_logLine lib txt)"
  unfolding db_logLine_def
  by (intro keeps.bind keeps.gets keeps.only_if)
    (auto simp: state_io_rel_def modify_def balanced_def only_logs_def intro: log_steps_one)

lemma keeps_flags:
  "keeps lib (modify (\<lambda>s. s\<lparr>se_open := b\<rparr>))"
  "keeps lib (modify (\<lambda>s. s\<lparr>se_open := f s\<rparr>))"
  "keeps lib (modify (\<lambda>s. s\<lparr>se_ready := b\<rparr>))"
  "keeps lib (modify (\<lambda>s. s\<lparr>se_io := b, se_ready := c\<rparr>))"
  by (auto simp: state_io_rel_def modify_def balanced_def only_logs_def)

lemma keeps_manager:
  "keeps lib (State (\<lambda>s. case f s of (ok, mgr, w) \<Rightarrow> (ok, s\<lparr>se_manager := mgr, se_out := w\<rparr>)))"
  by (auto simp: state_io_rel_def balanced_def only_logs_def split: prod.splits)

text \<open>A critical section: nothing is held if the lock was not got, and the body gives it back.\<close>

lemma run_lockDb:
  "run_state (lockDb lib n) s = (a, t) \<Longrightarrow> only_logs lib s t \<and>
     (if se_mutex s \<and> a then se_locks t = Suc (se_locks s) else se_locks t = se_locks s)"
  by (auto simp: lockDb_def outside_def only_logs_def split: prod.splits if_splits)

lemma critical_step:
  assumes "run_state (lockDb lib n) s = (a, t)" and "if a then released lib t u else balanced lib t u"
  shows "balanced lib s u"
  using run_lockDb [OF assms(1)] assms(2)
  by (auto simp: balanced_def released_def only_logs_def split: if_splits intro: log_steps_trans)

lemma relI:
  assumes "\<And>s a t. run_state m s = (a, t) \<Longrightarrow> R s t"
  shows "state_io_rel R m"
  using assms [OF prod.collapse [symmetric]] by (simp add: state_io_rel_def split_beta)

lemma relD: "state_io_rel R m \<Longrightarrow> run_state m s = (a, t) \<Longrightarrow> R s t"
  unfolding state_io_rel_def by (drule spec [of _ s]) simp

lemma run_bindE:
  assumes "run_state (m \<bind> f) s = (b, u)"
  obtains a t where "run_state m s = (a, t)" "run_state (f a) t = (b, u)"
  using assms by (cases "run_state m s") (auto simp: run_state_bind)

lemma critical_reading:
  assumes "\<And>x. keeps lib (e False x)" "\<And>x. releases lib (m True x)"
  shows "keeps lib (lockDb lib n \<bind> (\<lambda>locked. gets g \<bind> (\<lambda>x. if \<not> locked then e locked x else m locked x)))"
proof (rule relI)
  fix s b u
  assume "run_state (lockDb lib n \<bind> (\<lambda>locked. gets g \<bind> (\<lambda>x. if \<not> locked then e locked x else m locked x))) s = (b, u)"
  then obtain a t where at: "run_state (lockDb lib n) s = (a, t)"
    and bu: "run_state (if \<not> a then e a (g t) else m a (g t)) t = (b, u)" by (auto elim!: run_bindE simp del: run_state_bind)
  from bu have "if a then released lib t u else balanced lib t u"
    by (cases a) (auto dest: relD [OF assms(1)] relD [OF assms(2)])
  with at show "balanced lib s u" by (rule critical_step)
qed

lemma critical:
  assumes "keeps lib (e False)" "releases lib (m True)"
  shows "keeps lib (lockDb lib n \<bind> (\<lambda>locked. if \<not> locked then e locked else m locked))"
proof (rule relI)
  fix s b u
  assume "run_state (lockDb lib n \<bind> (\<lambda>locked. if \<not> locked then e locked else m locked)) s = (b, u)"
  then obtain a t where at: "run_state (lockDb lib n) s = (a, t)"
    and bu: "run_state (if \<not> a then e a else m a) t = (b, u)" by (rule run_bindE)
  from bu have "if a then released lib t u else balanced lib t u"
    by (cases a) (auto dest: relD [OF assms(1)] relD [OF assms(2)])
  with at show "balanced lib s u" by (rule critical_step)
qed

lemma released_then: "released lib s t \<Longrightarrow> balanced lib t u \<Longrightarrow> released lib s u"
  by (auto simp: balanced_def released_def only_logs_def intro: log_steps_trans)

lemma then_released: "balanced lib s t \<Longrightarrow> released lib t u \<Longrightarrow> released lib s u"
  by (auto simp: balanced_def released_def only_logs_def intro: log_steps_trans)

lemma releases_unlock: "releases lib unlockDb"
  by (auto simp: state_io_rel_def unlockDb_def released_def only_logs_def)

lemma releases_then: "(\<And>a. keeps lib (f a)) \<Longrightarrow> releases lib (unlockDb \<bind> f)"
  by (rule relI, erule run_bindE, rule released_then, erule relD [OF releases_unlock], erule relD [rotated], assumption)

lemma releases_bind: "keeps lib m \<Longrightarrow> (\<And>a. releases lib (f a)) \<Longrightarrow> releases lib (m \<bind> f)"
  by (rule relI, erule run_bindE, rule then_released, erule (1) relD, erule relD [rotated], assumption)

lemma releases_if: "(b \<Longrightarrow> releases lib m) \<Longrightarrow> (\<not> b \<Longrightarrow> releases lib n) \<Longrightarrow> releases lib (if b then m else n)"
  by simp

lemma releases_option: "releases lib m \<Longrightarrow> (\<And>y. releases lib (f y)) \<Longrightarrow>
    releases lib (case x of None \<Rightarrow> m | Some y \<Rightarrow> f y)"
  by (cases x) simp_all

lemma releases_pair: "(\<And>a b. releases lib (f a b)) \<Longrightarrow> releases lib (case x of (a, b) \<Rightarrow> f a b)"
  by (cases x) simp

text \<open>The rules in the order in which they are tried.\<close>

text \<open>The lines that are logged: an error, a counted line through a buffer of 192, or a constant text.\<close>

lemma tagged_error: "tagged (sql_error e)"
  by (simp add: sql_error_def tagged_def startsWith_def c_str_def NUL_def)

lemma c_str_take: "c_str (take n s) = take n (c_str s)"
  by (induction s arbitrary: n) (auto simp: c_str_def take_Cons split: nat.split)

lemma c_str_twice: "c_str (c_str s) = c_str s"
  by (simp add: c_str_def)

lemma tagged_snprintf: "tagged txt \<Longrightarrow> tagged (snprintf 192 txt)"
  by (simp add: tagged_def snprintf_def c_str_take c_str_twice startsWith_def min_def)

lemmas tagged_simps = tagged_def startsWith_def c_str_def NUL_def

lemmas frame = critical critical_reading releases_then releases_unlock releases_bind releases_if releases_option releases_pair
  keeps_outside keeps_act keeps_logLine keeps_flags keeps_manager tagged_error tagged_snprintf keeps.rules

section \<open>Operations\<close>

lemma keeps_executeNoResult: "keeps lib (executeNoResult lib sql)"
  unfolding executeNoResult_def Let_def by (rule frame | (simp add: tagged_simps; fail))+

lemma keeps_querySingleInt: "keeps lib (querySingleInt lib sql)"
  unfolding querySingleInt_def Let_def by (rule frame | (simp add: tagged_simps; fail))+

lemma keeps_queryToText: "keeps lib (queryToText lib sql n)"
  unfolding queryToText_def Let_def by (rule frame | (simp add: tagged_simps; fail))+

lemma keeps_no_directory: "keeps lib (no_directory lib dir)"
  unfolding no_directory_def Let_def by (rule frame | (simp add: tagged_simps; fail))+

lemma keeps_openDatabase: "keeps lib (openDatabase lib)"
  unfolding openDatabase_def Let_def by (rule frame | (simp add: tagged_simps; fail))+

lemma keeps_closeDatabase: "keeps lib (closeDatabase lib)"
  unfolding closeDatabase_def Let_def by (rule frame | (simp add: tagged_simps; fail))+

lemma keeps_currentEpochSeconds: "keeps lib (currentEpochSeconds lib)"
  unfolding currentEpochSeconds_def Let_def by (rule frame | (simp add: tagged_simps; fail))+

lemma keeps_ensureBootstrapAssets: "keeps lib (ensureBootstrapAssets lib)"
  unfolding ensureBootstrapAssets_def Let_def by (rule keeps_no_directory frame | (simp add: tagged_simps; fail))+

lemma keeps_applyBootstrapScript: "keeps lib (applyBootstrapScript lib)"
  unfolding applyBootstrapScript_def Let_def by (rule keeps_executeNoResult frame | (simp add: tagged_simps; fail))+

lemma keeps_applyRuntimeMigrations: "keeps lib (applyRuntimeMigrations lib)"
  unfolding applyRuntimeMigrations_def Let_def by (rule keeps_executeNoResult frame | (simp add: tagged_simps; fail))+

lemma keeps_ensureDefaultBroadcastPeer: "keeps lib (ensureDefaultBroadcastPeer lib)"
  unfolding ensureDefaultBroadcastPeer_def Let_def by (rule keeps_executeNoResult keeps_currentEpochSeconds frame | (simp add: tagged_simps; fail))+

lemma keeps_db_begin: "keeps lib (db_begin lib io)"
  unfolding db_begin_def Let_def by (rule keeps_openDatabase keeps_closeDatabase keeps_ensureBootstrapAssets keeps_applyBootstrapScript keeps_applyRuntimeMigrations keeps_ensureDefaultBroadcastPeer frame | (simp add: tagged_simps; fail))+

lemma keeps_upsertPeer: "keeps lib (upsertPeer lib m name description)"
  unfolding upsertPeer_def Let_def by (rule keeps_executeNoResult keeps_currentEpochSeconds frame | (simp add: tagged_simps; fail))+

lemma keeps_removePeer: "keeps lib (removePeer lib m)"
  unfolding removePeer_def Let_def by (rule keeps_executeNoResult frame | (simp add: tagged_simps; fail))+

lemma keeps_peerIdByMac: "keeps lib (peerIdByMac lib m)"
  unfolding peerIdByMac_def Let_def by (rule keeps_querySingleInt frame | (simp add: tagged_simps; fail))+

lemma keeps_updatePeerMetadata: "keeps lib (updatePeerMetadata lib m name description)"
  unfolding updatePeerMetadata_def Let_def by (rule keeps_executeNoResult keeps_currentEpochSeconds keeps_peerIdByMac frame | (simp add: tagged_simps; fail))+

lemma keeps_ensurePeerExistsWithDefaults: "keeps lib (ensurePeerExistsWithDefaults lib m)"
  unfolding ensurePeerExistsWithDefaults_def Let_def by (rule keeps_executeNoResult keeps_currentEpochSeconds keeps_peerIdByMac frame | (simp add: tagged_simps; fail))+

lemma keeps_load_peer: "keeps lib (load_peer lib row counts)"
  unfolding load_peer_def Let_def by (rule frame | (simp add: tagged_simps; fail))+

lemma keeps_loadPeersFromDatabase: "keeps lib (loadPeersFromDatabase lib)"
  unfolding loadPeersFromDatabase_def Let_def by (rule keeps_load_peer frame | (simp add: tagged_simps; fail))+

lemma keeps_db_loadPeers: "keeps lib (db_loadPeers lib)"
  unfolding db_loadPeers_def Let_def by (rule keeps_loadPeersFromDatabase frame | (simp add: tagged_simps; fail))+

lemma keeps_db_rebuild: "keeps lib (db_rebuild lib)"
  unfolding db_rebuild_def Let_def by (rule keeps_closeDatabase keeps_db_begin keeps_db_loadPeers frame | (simp add: tagged_simps; fail))+

lemma keeps_syncPeersFromManager: "keeps lib (syncPeersFromManager lib)"
  unfolding syncPeersFromManager_def Let_def by (rule keeps_upsertPeer frame | (simp add: tagged_simps; fail))+

lemma keeps_logCommandWithOutput: "keeps lib (logCommandWithOutput lib command output source)"
  unfolding logCommandWithOutput_def Let_def by (rule keeps_currentEpochSeconds frame | (simp add: tagged_simps; fail))+

lemma keeps_logCommand: "keeps lib (logCommand lib command source)"
  unfolding logCommand_def Let_def by (rule keeps_logCommandWithOutput frame | (simp add: tagged_simps; fail))+

lemma keeps_logOutgoingEspNow: "keeps lib (logOutgoingEspNow lib m type payload delivered)"
  unfolding logOutgoingEspNow_def Let_def by (rule keeps_executeNoResult keeps_currentEpochSeconds keeps_peerIdByMac keeps_ensurePeerExistsWithDefaults frame | (simp add: tagged_simps; fail))+

lemma keeps_logBootEvent: "keeps lib (logBootEvent lib reason)"
  unfolding logBootEvent_def Let_def by (rule keeps_executeNoResult keeps_currentEpochSeconds frame | (simp add: tagged_simps; fail))+

lemma keeps_getStatus: "keeps lib (getStatus lib)"
  unfolding getStatus_def Let_def by (rule keeps_querySingleInt frame | (simp add: tagged_simps; fail))+

lemma keeps_listTables: "keeps lib (listTables lib)"
  unfolding listTables_def Let_def by (rule keeps_queryToText frame | (simp add: tagged_simps; fail))+

lemma keeps_readTable: "keeps lib (readTable lib tableName limit)"
  unfolding readTable_def Let_def by (rule keeps_queryToText frame | (simp add: tagged_simps; fail))+

lemma keeps_readRecentCommands: "keeps lib (readRecentCommands lib limit)"
  unfolding readRecentCommands_def Let_def by (rule frame | (simp add: tagged_simps; fail))+

lemma keeps_dropTable: "keeps lib (dropTable lib tableName)"
  unfolding dropTable_def Let_def by (rule keeps_executeNoResult frame | (simp add: tagged_simps; fail))+

lemma keeps_executeSql: "keeps lib (executeSql lib sql)"
  unfolding executeSql_def Let_def by (rule keeps_queryToText frame | (simp add: tagged_simps; fail))+

lemma keeps_countRows: "keeps lib (countRows lib tableName)"
  unfolding countRows_def Let_def by (rule keeps_querySingleInt frame | (simp add: tagged_simps; fail))+

lemma keeps_deleteRows: "keeps lib (deleteRows lib tableName cond)"
  unfolding deleteRows_def Let_def by (rule frame | (simp add: tagged_simps; fail))+

lemma keeps_vacuum: "keeps lib (vacuum lib)"
  unfolding vacuum_def Let_def by (rule keeps_executeNoResult frame | (simp add: tagged_simps; fail))+

lemma keeps_exportTableToCsv: "keeps lib (exportTableToCsv lib tableName)"
  unfolding exportTableToCsv_def Let_def by (rule keeps_no_directory frame | (simp add: tagged_simps; fail))+

lemma keeps_clearLogs: "keeps lib (clearLogs lib)"
  unfolding clearLogs_def Let_def by (rule keeps_executeNoResult keeps_querySingleInt frame | (simp add: tagged_simps; fail))+

lemma keeps_db_backup: "keeps lib (db_backup lib)"
  unfolding db_backup_def Let_def by (rule keeps_no_directory keeps_currentEpochSeconds frame | (simp add: tagged_simps; fail))+

lemma keeps_db_end: "keeps lib (db_end lib)"
  unfolding db_end_def Let_def by (rule keeps_closeDatabase frame | (simp add: tagged_simps; fail))+

lemma keeps_beginTransaction: "keeps lib (beginTransaction lib)"
  unfolding beginTransaction_def transaction_def Let_def by (rule keeps_executeNoResult frame | (simp add: tagged_simps; fail))+

lemma keeps_commitTransaction: "keeps lib (commitTransaction lib)"
  unfolding commitTransaction_def transaction_def Let_def by (rule keeps_executeNoResult frame | (simp add: tagged_simps; fail))+

lemma keeps_rollbackTransaction: "keeps lib (rollbackTransaction lib)"
  unfolding rollbackTransaction_def transaction_def Let_def by (rule keeps_executeNoResult frame | (simp add: tagged_simps; fail))+

lemmas keeps_store =
  keeps_executeNoResult keeps_querySingleInt keeps_queryToText keeps_no_directory
  keeps_openDatabase keeps_closeDatabase keeps_currentEpochSeconds keeps_ensureBootstrapAssets
  keeps_applyBootstrapScript keeps_applyRuntimeMigrations keeps_ensureDefaultBroadcastPeer keeps_db_begin
  keeps_upsertPeer keeps_removePeer keeps_peerIdByMac keeps_updatePeerMetadata
  keeps_ensurePeerExistsWithDefaults keeps_load_peer keeps_loadPeersFromDatabase keeps_db_loadPeers
  keeps_db_rebuild keeps_syncPeersFromManager keeps_logCommandWithOutput keeps_logCommand
  keeps_logOutgoingEspNow keeps_logBootEvent keeps_getStatus keeps_listTables
  keeps_readTable keeps_readRecentCommands keeps_dropTable keeps_executeSql
  keeps_countRows keeps_deleteRows keeps_vacuum keeps_exportTableToCsv
  keeps_clearLogs keeps_db_backup keeps_db_end keeps_beginTransaction
  keeps_commitTransaction keeps_rollbackTransaction

text \<open>The two readers of the logs that keep the lock of a store that is not ready.\<close>

lemma logs_lockDb: "state_io_rel (only_logs lib) (lockDb lib n)"
  by (rule relI) (auto dest: run_lockDb)

lemma logs_unlockDb: "state_io_rel (only_logs lib) unlockDb"
  by (auto simp: state_io_rel_def unlockDb_def only_logs_def)

lemma logs_readers:
  "state_io_rel (only_logs lib) (readCommandLogsWithOutput lib limit)"
  "state_io_rel (only_logs lib) (readEspNowHistory lib limit)"
  unfolding readCommandLogsWithOutput_def readEspNowHistory_def Let_def
  by (rule logs_lockDb logs_unlockDb keeps_outside [THEN keeps_logs] logs.rules)+

end
