(* ===== verification/Shell_Runtime.thy ===== *)
theory Shell_Runtime
  imports Database_Store Serial_Mux Radio_Service Key_Store
begin

text \<open>
  What every shell command shares: the error codes of include/error_codes.h, the buffers, text helpers
  and output functions of lib/ShellCommandSupport, the elevated users of lib/SudoManager, the clock
  texts of lib/ClockText and the aliases of lib/ShellAliases. A command acts on the whole hub; the
  statics of these modules, the database and the board are the world of the multiplexer.
\<close>

section \<open>Error codes\<close>

datatype (plugins only: code size) app_error =
    NONE | SHELL_NOT_READY | INVALID_CONTEXT | INVALID_ARGUMENT | PERMISSION_DENIED |
    SUDO_WRONG_PASSWORD | PERIPHERALS_NOT_READY | RTC_READ_FAILED | CLOCK_FORMAT_INVALID |
    RTC_SET_FAILED | LCD_NOT_READY | LCD_REINIT_FAILED | SD_INIT_FAILED | SD_NOT_READY |
    SD_WIPE_FAILED | SD_REINIT_FAILED | SD_DB_RECREATE_FAILED | SD_PATH_NOT_FOUND |
    SD_PATH_IS_DIRECTORY | SD_FILE_WRITE_FAILED | SD_FILE_REMOVE_FAILED | SD_MKDIR_FAILED |
    SERIAL_SESSION_BUSY | ESPNOW_NOT_READY | INVALID_MAC_FORMAT | PEER_ADD_FAILED | PEER_REMOVE_FAILED |
    PEER_NOT_FOUND | PEER_UPDATE_FAILED | INVALID_DEVICE_INDEX | SEND_STATUS_TIMEOUT |
    SEND_DELIVERY_FAILED | BROADCAST_QUEUE_FAILED | SEND_PARTIAL_DELIVERY | PEER_BOOT_UNKNOWN |
    COMMAND_ENCODE_FAILED | HUB_BIND_TABLE_FULL | HUB_BINDING_NOT_FOUND | LINK_KEY_NOT_CONFIGURED |
    LINK_KEY_SAVE_FAILED | DATABASE_NOT_READY | DATABASE_INIT_FAILED | DATABASE_QUERY_FAILED |
    DATABASE_DROP_FAILED | DATABASE_REBUILD_FAILED | DATABASE_EXEC_FAILED |
    DATABASE_PEER_NOT_PERSISTED | DATABASE_PEER_REMOVE_NOT_PERSISTED |
    DATABASE_PEER_UPDATE_NOT_PERSISTED | DATABASE_COMMAND_LOG_FAILED | DATABASE_PEER_SYNC_FAILED

fun error_value :: "app_error \<Rightarrow> nat" where
  "error_value NONE = 0"
| "error_value SHELL_NOT_READY = 1001"
| "error_value INVALID_CONTEXT = 1002"
| "error_value INVALID_ARGUMENT = 1003"
| "error_value PERMISSION_DENIED = 1004"
| "error_value SUDO_WRONG_PASSWORD = 1005"
| "error_value PERIPHERALS_NOT_READY = 1101"
| "error_value RTC_READ_FAILED = 1102"
| "error_value CLOCK_FORMAT_INVALID = 1103"
| "error_value RTC_SET_FAILED = 1104"
| "error_value LCD_NOT_READY = 1105"
| "error_value LCD_REINIT_FAILED = 1106"
| "error_value SD_INIT_FAILED = 1107"
| "error_value SD_NOT_READY = 1108"
| "error_value SD_WIPE_FAILED = 1109"
| "error_value SD_REINIT_FAILED = 1110"
| "error_value SD_DB_RECREATE_FAILED = 1111"
| "error_value SD_PATH_NOT_FOUND = 1112"
| "error_value SD_PATH_IS_DIRECTORY = 1113"
| "error_value SD_FILE_WRITE_FAILED = 1114"
| "error_value SD_FILE_REMOVE_FAILED = 1115"
| "error_value SD_MKDIR_FAILED = 1116"
| "error_value SERIAL_SESSION_BUSY = 1117"
| "error_value ESPNOW_NOT_READY = 1201"
| "error_value INVALID_MAC_FORMAT = 1202"
| "error_value PEER_ADD_FAILED = 1203"
| "error_value PEER_REMOVE_FAILED = 1204"
| "error_value PEER_NOT_FOUND = 1205"
| "error_value PEER_UPDATE_FAILED = 1206"
| "error_value INVALID_DEVICE_INDEX = 1207"
| "error_value SEND_STATUS_TIMEOUT = 1208"
| "error_value SEND_DELIVERY_FAILED = 1209"
| "error_value BROADCAST_QUEUE_FAILED = 1210"
| "error_value SEND_PARTIAL_DELIVERY = 1211"
| "error_value PEER_BOOT_UNKNOWN = 1212"
| "error_value COMMAND_ENCODE_FAILED = 1213"
| "error_value HUB_BIND_TABLE_FULL = 1214"
| "error_value HUB_BINDING_NOT_FOUND = 1215"
| "error_value LINK_KEY_NOT_CONFIGURED = 1216"
| "error_value LINK_KEY_SAVE_FAILED = 1217"
| "error_value DATABASE_NOT_READY = 1301"
| "error_value DATABASE_INIT_FAILED = 1302"
| "error_value DATABASE_QUERY_FAILED = 1303"
| "error_value DATABASE_DROP_FAILED = 1304"
| "error_value DATABASE_REBUILD_FAILED = 1305"
| "error_value DATABASE_EXEC_FAILED = 1306"
| "error_value DATABASE_PEER_NOT_PERSISTED = 1307"
| "error_value DATABASE_PEER_REMOVE_NOT_PERSISTED = 1308"
| "error_value DATABASE_PEER_UPDATE_NOT_PERSISTED = 1309"
| "error_value DATABASE_COMMAND_LOG_FAILED = 1310"
| "error_value DATABASE_PEER_SYNC_FAILED = 1311"

fun error_name :: "app_error \<Rightarrow> string" where
  "error_name NONE = ''NONE''"
| "error_name SHELL_NOT_READY = ''SHELL_NOT_READY''"
| "error_name INVALID_CONTEXT = ''INVALID_CONTEXT''"
| "error_name INVALID_ARGUMENT = ''INVALID_ARGUMENT''"
| "error_name PERMISSION_DENIED = ''PERMISSION_DENIED''"
| "error_name SUDO_WRONG_PASSWORD = ''SUDO_WRONG_PASSWORD''"
| "error_name PERIPHERALS_NOT_READY = ''PERIPHERALS_NOT_READY''"
| "error_name RTC_READ_FAILED = ''RTC_READ_FAILED''"
| "error_name CLOCK_FORMAT_INVALID = ''CLOCK_FORMAT_INVALID''"
| "error_name RTC_SET_FAILED = ''RTC_SET_FAILED''"
| "error_name LCD_NOT_READY = ''LCD_NOT_READY''"
| "error_name LCD_REINIT_FAILED = ''LCD_REINIT_FAILED''"
| "error_name SD_INIT_FAILED = ''SD_INIT_FAILED''"
| "error_name SD_NOT_READY = ''SD_NOT_READY''"
| "error_name SD_WIPE_FAILED = ''SD_WIPE_FAILED''"
| "error_name SD_REINIT_FAILED = ''SD_REINIT_FAILED''"
| "error_name SD_DB_RECREATE_FAILED = ''SD_DB_RECREATE_FAILED''"
| "error_name SD_PATH_NOT_FOUND = ''SD_PATH_NOT_FOUND''"
| "error_name SD_PATH_IS_DIRECTORY = ''SD_PATH_IS_DIRECTORY''"
| "error_name SD_FILE_WRITE_FAILED = ''SD_FILE_WRITE_FAILED''"
| "error_name SD_FILE_REMOVE_FAILED = ''SD_FILE_REMOVE_FAILED''"
| "error_name SD_MKDIR_FAILED = ''SD_MKDIR_FAILED''"
| "error_name SERIAL_SESSION_BUSY = ''SERIAL_SESSION_BUSY''"
| "error_name ESPNOW_NOT_READY = ''ESPNOW_NOT_READY''"
| "error_name INVALID_MAC_FORMAT = ''INVALID_MAC_FORMAT''"
| "error_name PEER_ADD_FAILED = ''PEER_ADD_FAILED''"
| "error_name PEER_REMOVE_FAILED = ''PEER_REMOVE_FAILED''"
| "error_name PEER_NOT_FOUND = ''PEER_NOT_FOUND''"
| "error_name PEER_UPDATE_FAILED = ''PEER_UPDATE_FAILED''"
| "error_name INVALID_DEVICE_INDEX = ''INVALID_DEVICE_INDEX''"
| "error_name SEND_STATUS_TIMEOUT = ''SEND_STATUS_TIMEOUT''"
| "error_name SEND_DELIVERY_FAILED = ''SEND_DELIVERY_FAILED''"
| "error_name BROADCAST_QUEUE_FAILED = ''BROADCAST_QUEUE_FAILED''"
| "error_name SEND_PARTIAL_DELIVERY = ''SEND_PARTIAL_DELIVERY''"
| "error_name PEER_BOOT_UNKNOWN = ''PEER_BOOT_UNKNOWN''"
| "error_name COMMAND_ENCODE_FAILED = ''COMMAND_ENCODE_FAILED''"
| "error_name HUB_BIND_TABLE_FULL = ''HUB_BIND_TABLE_FULL''"
| "error_name HUB_BINDING_NOT_FOUND = ''HUB_BINDING_NOT_FOUND''"
| "error_name LINK_KEY_NOT_CONFIGURED = ''LINK_KEY_NOT_CONFIGURED''"
| "error_name LINK_KEY_SAVE_FAILED = ''LINK_KEY_SAVE_FAILED''"
| "error_name DATABASE_NOT_READY = ''DATABASE_NOT_READY''"
| "error_name DATABASE_INIT_FAILED = ''DATABASE_INIT_FAILED''"
| "error_name DATABASE_QUERY_FAILED = ''DATABASE_QUERY_FAILED''"
| "error_name DATABASE_DROP_FAILED = ''DATABASE_DROP_FAILED''"
| "error_name DATABASE_REBUILD_FAILED = ''DATABASE_REBUILD_FAILED''"
| "error_name DATABASE_EXEC_FAILED = ''DATABASE_EXEC_FAILED''"
| "error_name DATABASE_PEER_NOT_PERSISTED = ''DATABASE_PEER_NOT_PERSISTED''"
| "error_name DATABASE_PEER_REMOVE_NOT_PERSISTED = ''DATABASE_PEER_REMOVE_NOT_PERSISTED''"
| "error_name DATABASE_PEER_UPDATE_NOT_PERSISTED = ''DATABASE_PEER_UPDATE_NOT_PERSISTED''"
| "error_name DATABASE_COMMAND_LOG_FAILED = ''DATABASE_COMMAND_LOG_FAILED''"
| "error_name DATABASE_PEER_SYNC_FAILED = ''DATABASE_PEER_SYNC_FAILED''"

section \<open>State\<close>

datatype shell_result = RESULT_OK | RESULT_ERROR

text \<open>Which pointers of the context are set.\<close>

record shell_context =
  cx_shell :: bool
  cx_espNow :: bool
  cx_peripherals :: bool
  cx_lcdDashboard :: bool
  cx_database :: bool
  cx_io :: bool

definition noContext :: shell_context where
  "noContext = \<lparr>cx_shell = False, cx_espNow = False, cx_peripherals = False, cx_lcdDashboard = False,
                cx_database = False, cx_io = False\<rparr>"

text \<open>The SD card as \<open>DongleSdCard\<close> left it.\<close>

record sd_card =
  sd_ready :: bool
  sd_oneBitMode :: bool
  sd_frequencyKHz :: u32
  sd_mounted :: bool

record 'o board =
  bd_store :: "'o store"
  bd_keys :: key_holder
  bd_sd :: sd_card
  bd_context :: shell_context
  bd_commandOutput :: string
  bd_shellResponse :: string
  bd_currentUserId :: string
  bd_lastCommandLine :: string
  bd_elevatedUsers :: "string set"
  bd_statsProvider :: bool

type_synonym ('p, 'n, 'd, 'e, 'o) system = "('p, 'n, 'd, 'e, 'o board) hub"
type_synonym ('p, 'n, 'd, 'e, 'o, 'a) shell_op = "(('p, 'n, 'd, 'e, 'o) system, 'a) State_Monad.state"
type_synonym ('p, 'n, 'd, 'e, 'o) command = "('p, 'n, 'd, 'e, 'o, shell_result) shell_op"

datatype msg_class = MsgError | MsgWarning | MsgHelp | MsgSuccess | MsgOutput | MsgMuted

record chip_info =
  ci_model :: string
  ci_revision :: nat
  ci_cores :: nat

text \<open>The parameters: the multiplexer's, the store's, the LCD and LED drivers, the C library's
  \<open>mktime\<close> and \<open>settimeofday\<close>, the SD driver, the chip, the radio's confirmed sender, and TinyShell:
  \<open>sh_resolve\<close>, given below, and \<open>sh_complete\<close> (\<open>complete_line\<close>). \<open>mktime\<close> takes the six fields of a date.\<close>

record ('p, 'n, 'd, 'e, 'o, 'c, 'x, 'call) shell_lib =
  sh_mux :: "('p, 'n, 'd, 'e, 'o board, 'c, 'x) mux_lib"
  sh_store :: "('p, 'o) store_lib"
  sh_classify :: "string \<Rightarrow> msg_class"
  sh_lcd_ready :: "'o \<Rightarrow> bool"
  sh_lcd_show :: "string \<Rightarrow> u16 \<Rightarrow> 'o \<Rightarrow> 'o"
  sh_lcd_clear :: "'o \<Rightarrow> 'o"
  sh_lcd_begin :: "'o \<Rightarrow> 'o"
  sh_lcd_notifyTx :: "bool \<Rightarrow> 'o \<Rightarrow> 'o"
  sh_setLedColor :: "u8 \<Rightarrow> u8 \<Rightarrow> u8 \<Rightarrow> 'o \<Rightarrow> 'o"
  sh_ledOff :: "'o \<Rightarrow> 'o"
  sh_writeLcd :: "string \<Rightarrow> 'o \<Rightarrow> bool \<times> 'o"
  sh_clearLcd :: "'o \<Rightarrow> bool \<times> 'o"
  sh_setLcdBacklight :: "bool \<Rightarrow> 'o \<Rightarrow> 'o"
  sh_setLcdBacklightPolarity :: "bool \<Rightarrow> 'o \<Rightarrow> 'o"
  sh_reinitLcd :: "'o \<Rightarrow> bool \<times> 'o"
  sh_lcdRotation :: "'o \<Rightarrow> u8"
  sh_setLcdRotation :: "u8 \<Rightarrow> 'o \<Rightarrow> 'o"
  sh_mktime :: "int \<times> int \<times> int \<times> int \<times> int \<times> int \<Rightarrow> int"
  sh_settimeofday :: "int \<Rightarrow> 'o \<Rightarrow> bool \<times> 'o"
  sh_mount :: "bool \<Rightarrow> u32 \<Rightarrow> 'o \<Rightarrow> bool \<times> 'o"
  sh_unmount :: "'o \<Rightarrow> 'o"
  sh_card_mmc :: "'o \<Rightarrow> bool"
  sh_card_csd :: "'o \<Rightarrow> nat"
  sh_fat_info :: "'o \<Rightarrow> (u64 \<times> u64) option"
  sh_chip :: chip_info
  sh_flash_bytes :: u32
  sh_station_mac :: mac
  sh_free_heap :: "'o \<Rightarrow> u32"
  sh_restart :: "'o \<Rightarrow> 'o"
  sh_nvs :: "('o, nat) nvs_api"
  sh_aead :: aead_lib
  sh_endpoint :: "('o \<times> bool) endpoint_send"
  sh_sendToMacWithStatus :: "'o status_fn"
  sh_command_type :: int
  sh_rx_counters :: "'o \<Rightarrow> rx_snapshot \<times> u32 \<times> u32"
  sh_radio_counters :: "'o \<Rightarrow> u32 list \<times> u32 list \<times> u32 \<times> u32 \<times> u32"
  sh_resolve :: "string \<Rightarrow> string list \<times> 'call option \<times> (shell_result \<Rightarrow> string list)"
  sh_complete :: "string \<Rightarrow> nat \<Rightarrow> string list"

text \<open>\<open>sh_resolve line\<close> is what \<open>run_command_line\<close> makes of a line: the texts it sends to the output
  callback before the command, the registered command with its converted arguments, and the texts it
  sends for the command's result.\<close>

section \<open>Access to the state\<close>

definition board_of :: "('p, 'n, 'd, 'e, 'o) system \<Rightarrow> 'o board" where
  "board_of h = sm_world (hb_mux h)"

definition on_board :: "('o board \<Rightarrow> 'o board) \<Rightarrow> ('p, 'n, 'd, 'e, 'o) system \<Rightarrow> ('p, 'n, 'd, 'e, 'o) system" where
  "on_board f h = on_mux (\<lambda>m. m\<lparr>sm_world := f (sm_world m)\<rparr>) h"

definition from_board :: "('o board \<Rightarrow> 'a) \<Rightarrow> ('p, 'n, 'd, 'e, 'o, 'a) shell_op" where
  "from_board f = gets (\<lambda>h. f (board_of h))"

definition to_board :: "('o board \<Rightarrow> 'o board) \<Rightarrow> ('p, 'n, 'd, 'e, 'o, unit) shell_op" where
  "to_board f = modify (on_board f)"

definition the_context :: "('p, 'n, 'd, 'e, 'o, shell_context) shell_op" where
  "the_context = from_board bd_context"

definition from_out :: "('o \<Rightarrow> 'a) \<Rightarrow> ('p, 'n, 'd, 'e, 'o, 'a) shell_op" where
  "from_out f = from_board (\<lambda>b. f (se_out (bd_store b)))"

definition act :: "('o \<Rightarrow> 'a \<times> 'o) \<Rightarrow> ('p, 'n, 'd, 'e, 'o, 'a) shell_op" where
  "act f = State (\<lambda>h. case f (se_out (bd_store (board_of h))) of
     (a, w) \<Rightarrow> (a, on_board (\<lambda>b. b\<lparr>bd_store := (bd_store b)\<lparr>se_out := w\<rparr>\<rparr>) h))"

definition perform :: "('o \<Rightarrow> 'o) \<Rightarrow> ('p, 'n, 'd, 'e, 'o, unit) shell_op" where
  "perform f = act (\<lambda>w. ((), f w))"

text \<open>A call of the store, whose errors go to the console port.\<close>

definition store_lib_of :: "('p, 'n, 'd, 'e, 'o, 'c, 'x, 'call) shell_lib \<Rightarrow> ('p, 'o) store_lib" where
  "store_lib_of lib = (sh_store lib)\<lparr>sl_write := wl_write (sh_mux lib)\<rparr>"

definition database :: "('p, 'o, 'a) store_op \<Rightarrow> ('p, 'n, 'd, 'e, 'o, 'a) shell_op" where
  "database m = zoom
     (\<lambda>h. store.extend (bd_store (board_of h)) (store_env.fields (mw_port (hb_mux h))))
     (\<lambda>s h. on_board (\<lambda>b. b\<lparr>bd_store := store.truncate s\<rparr>) (on_mux (\<lambda>m. m\<lparr>mw_port := se_port s\<rparr>) h)) m"

definition shell_millis :: "('p, 'n, 'd, 'e, 'o, 'c, 'x, 'call) shell_lib \<Rightarrow> ('p, 'n, 'd, 'e, 'o, u32) shell_op" where
  "shell_millis lib = act (sl_millis (sh_store lib))"

section \<open>Text\<close>

definition isTagToken :: "string \<Rightarrow> bool" where
  "isTagToken token \<longleftrightarrow> token \<noteq> [] \<and>
     list_all (\<lambda>ch. (let n = char_code ch in (65 \<le> n \<and> n \<le> 90) \<or> (97 \<le> n \<and> n \<le> 122)) \<or>
                    ch = CHR ''_'' \<or> ch = CHR ''-'') token"

text \<open>\<open>trimCopy\<close> is \<open>trim\<close> on a copy. This module has its own test for a structured line.\<close>

definition trimCopy :: "string \<Rightarrow> string" where "trimCopy s = trim s"

definition isStructuredLine :: "string \<Rightarrow> bool" where
  "isStructuredLine s = startsWith (map tolower (trimCopy s)) ''[espnow][''"

function strip_tags :: "string \<Rightarrow> string" where
  "strip_tags out =
     (if \<not> startsWith out ''['' then out
      else
        let close = indexOf out (CHR '']'') 0 in
        if close \<le> 1 then out
        else if \<not> isTagToken (take (nat close - 1) (drop 1 out)) then out
        else strip_tags (trimCopy (drop (nat close + 1) out)))"
  by pat_completeness auto
termination
proof (relation "measure length")
  fix out :: string and close
  assume "\<not> \<not> startsWith out ''[''"
  then have "out \<noteq> []" by (auto simp: startsWith_def)
  moreover have "length (trimCopy (drop (nat close + 1) out)) \<le> length out - (nat close + 1)"
    using length_trim [of "drop (nat close + 1) out"] by (simp add: trimCopy_def)
  ultimately show "(trimCopy (drop (nat close + 1) out), out) \<in> measure length"
    by (cases out) auto
qed simp

declare strip_tags.simps [simp del]

definition stripLeadingModuleTags :: "string \<Rightarrow> string" where
  "stripLeadingModuleTags s =
     (let out = trimCopy s in if out = [] \<or> isStructuredLine out then out else strip_tags out)"

definition normalizeOutputTag :: "string \<Rightarrow> string" where
  "normalizeOutputTag txt =
     (let s = trimCopy txt in
      if s = [] then s
      else if isStructuredLine s then s
      else let stripped = stripLeadingModuleTags s in if stripped \<noteq> [] then stripped else s)"

unbundle bit_operations_syntax

definition swapRedBlue565 :: "u16 \<Rightarrow> u16" where
  "swapRedBlue565 color =
     (let r = drop_bit 11 color AND 0x1F; g = drop_bit 5 color AND 0x3F; b = color AND 0x1F
      in push_bit 11 b OR push_bit 5 g OR r)"

definition toPanelColor :: "u16 \<Rightarrow> u16" where
  "toPanelColor color = swapRedBlue565 (NOT color)"

definition lcdColorForLine :: "('p, 'n, 'd, 'e, 'o, 'c, 'x, 'call) shell_lib \<Rightarrow> string \<Rightarrow> u16" where
  "lcdColorForLine lib txt =
     (case sh_classify lib txt of
        MsgError \<Rightarrow> toPanelColor 0xF800
      | MsgWarning \<Rightarrow> toPanelColor 0xFFE0
      | MsgHelp \<Rightarrow> toPanelColor 0xFFE0
      | MsgSuccess \<Rightarrow> toPanelColor 0x07E0
      | MsgOutput \<Rightarrow> toPanelColor 0xFFFF
      | MsgMuted \<Rightarrow> toPanelColor 0xFFFF)"

definition stripOuterQuotes :: "string \<Rightarrow> string" where
  "stripOuterQuotes txt =
     (let s = trimCopy txt in
      if length s \<ge> 2 \<and> ((hd s = DQ \<and> last s = DQ) \<or> (hd s = SQ \<and> last s = SQ))
      then take (length s - 2) (drop 1 s) else s)"

definition parseMacAddress :: "string \<Rightarrow> mac option" where
  "parseMacAddress txt = map_option mac_of (scan_octets 6 (c_str (stripOuterQuotes txt)))"

definition clampByte :: "int \<Rightarrow> u8" where
  "clampByte value = (if value < 0 then 0 else if value > 255 then 255 else word_of_int value)"

section \<open>Clock texts\<close>

text \<open>\<open>time_t\<close> has 64 bits, so no value of \<open>strtoll\<close> is lost in the conversion.\<close>

definition parse_epoch :: "string \<Rightarrow> int option" where
  "parse_epoch digits =
     (case strtoll 10 digits of
        (range_error, val, rest) \<Rightarrow>
          if range_error \<or> scan_number 10 digits = None \<or> rest \<noteq> [] \<or> val \<le> 0 then None else Some val)"

text \<open>\<open>sscanf\<close> of \<open>"%d-%d-%d %d:%d:%d"\<close>, where all six conversions are made.\<close>

definition scan_date :: "string \<Rightarrow> (int \<times> int \<times> int \<times> int \<times> int \<times> int) option" where
  "scan_date s =
     do { (year, s) \<leftarrow> scan_d s; s \<leftarrow> scan_lit (CHR ''-'') s;
          (month, s) \<leftarrow> scan_d s; s \<leftarrow> scan_lit (CHR ''-'') s;
          (day, s) \<leftarrow> scan_d s;
          (hour, s) \<leftarrow> scan_d s; s \<leftarrow> scan_lit (CHR '':'') s;
          (minute, s) \<leftarrow> scan_d s; s \<leftarrow> scan_lit (CHR '':'') s;
          (second, s) \<leftarrow> scan_d s;
          Some (year, month, day, hour, minute, second) }"

definition clock_parse :: "('p, 'n, 'd, 'e, 'o, 'c, 'x, 'call) shell_lib \<Rightarrow> string \<Rightarrow> int option" where
  "clock_parse lib txt =
     (if length txt > 1 \<and> hd txt = CHR ''@'' then parse_epoch (c_str (tl txt))
      else case scan_date (c_str txt) of
        None \<Rightarrow> None
      | Some (year, month, day, hour, minute, second) \<Rightarrow>
          if year < 2024 \<or> month < 1 \<or> month > 12 \<or> day < 1 \<or> day > 31 \<or> hour < 0 \<or> hour > 23 \<or>
             minute < 0 \<or> minute > 59 \<or> second < 0 \<or> second > 59 then None
          else
            let epoch = sh_mktime lib (year - 1900, month - 1, day, hour, minute, second)
            in if epoch \<le> 0 then None else Some epoch)"

definition parseDateTimeText :: "('p, 'n, 'd, 'e, 'o, 'c, 'x, 'call) shell_lib \<Rightarrow> string \<Rightarrow> int option" where
  "parseDateTimeText lib txt = clock_parse lib (stripOuterQuotes txt)"

section \<open>Output\<close>

definition setContext :: "shell_context \<Rightarrow> ('p, 'n, 'd, 'e, 'o, unit) shell_op" where
  "setContext cx = to_board (\<lambda>b. b\<lparr>bd_context := cx\<rparr>)"

definition setCurrentUserId :: "string \<Rightarrow> ('p, 'n, 'd, 'e, 'o, unit) shell_op" where
  "setCurrentUserId userId = to_board (\<lambda>b. b\<lparr>bd_currentUserId := userId\<rparr>)"

definition currentUserId :: "('p, 'n, 'd, 'e, 'o, string) shell_op" where
  "currentUserId = from_board bd_currentUserId"

definition resetBuffers :: "('p, 'n, 'd, 'e, 'o, unit) shell_op" where
  "resetBuffers = to_board (\<lambda>b. b\<lparr>bd_commandOutput := [], bd_shellResponse := []\<rparr>)"

definition joined_response :: "string \<Rightarrow> string \<Rightarrow> string" where
  "joined_response response txt =
     (if txt = [] then response
      else if response \<noteq> [] \<and> last response \<noteq> LF \<and> last response \<noteq> CR \<and> hd txt \<noteq> LF \<and> hd txt \<noteq> CR
      then response @ [LF] @ txt else response @ txt)"

definition appendShellResponse :: "string \<Rightarrow> ('p, 'n, 'd, 'e, 'o, unit) shell_op" where
  "appendShellResponse txt = to_board (\<lambda>b. b\<lparr>bd_shellResponse := joined_response (bd_shellResponse b) txt\<rparr>)"

definition commandOutputBuffer :: "('p, 'n, 'd, 'e, 'o, string) shell_op" where
  "commandOutputBuffer = from_board bd_commandOutput"

definition shellResponseBuffer :: "('p, 'n, 'd, 'e, 'o, string) shell_op" where
  "shellResponseBuffer = from_board bd_shellResponse"

definition ESC :: char where "ESC = CHR 0x1B"

text \<open>\<open>io->print("\r\033[K")\<close>, then the line.\<close>

definition echo_line :: "'p port_write \<Rightarrow> string \<Rightarrow> 'p \<Rightarrow> 'p" where
  "echo_line write line p = writeLine write (Some (c_str line)) (snd (write (bytes_of [CR, ESC, CHR ''['', CHR ''K'']) p))"

definition printLine :: "('p, 'n, 'd, 'e, 'o, 'c, 'x, 'call) shell_lib \<Rightarrow> string \<Rightarrow> ('p, 'n, 'd, 'e, 'o, unit) shell_op" where
  "printLine lib txt = do {
     let line = normalizeOutputTag txt;
     to_board (\<lambda>b. b\<lparr>bd_commandOutput := bd_commandOutput b @ line @ [LF]\<rparr>);
     cx \<leftarrow> the_context;
     console \<leftarrow> gets (isConsole (sh_mux lib));
     only_if (cx_io cx \<and> console)
       (modify (on_mux (\<lambda>m. m\<lparr>mw_port := echo_line (wl_write (sh_mux lib)) line (mw_port m)\<rparr>)));
     lcd \<leftarrow> from_out (sh_lcd_ready lib);
     only_if (cx_lcdDashboard cx \<and> lcd) (perform (sh_lcd_show lib line (lcdColorForLine lib line))) }"

definition code_line :: "string \<Rightarrow> app_error \<Rightarrow> string \<Rightarrow> string" where
  "code_line kind code detail =
     snprintf 320 (kind @ ''('' @ dec (error_value code) @ ''/'' @ error_name code @ '') '' @ c_str detail)"

definition failWithCode ::
    "('p, 'n, 'd, 'e, 'o, 'c, 'x, 'call) shell_lib \<Rightarrow> app_error \<Rightarrow> string \<Rightarrow> ('p, 'n, 'd, 'e, 'o) command" where
  "failWithCode lib code detail = do { printLine lib (code_line ''erro'' code detail); ret RESULT_ERROR }"

definition warnWithCode ::
    "('p, 'n, 'd, 'e, 'o, 'c, 'x, 'call) shell_lib \<Rightarrow> app_error \<Rightarrow> string \<Rightarrow> ('p, 'n, 'd, 'e, 'o, unit) shell_op" where
  "warnWithCode lib code detail = printLine lib (code_line ''aviso'' code detail)"

text \<open>The last lines of nearly every command.\<close>

definition succeed :: "('p, 'n, 'd, 'e, 'o, 'c, 'x, 'call) shell_lib \<Rightarrow> string \<Rightarrow> ('p, 'n, 'd, 'e, 'o) command" where
  "succeed lib line = do { printLine lib line; ret RESULT_OK }"

section \<open>Elevated users\<close>

definition SUDO_PASSWORD :: string where "SUDO_PASSWORD = ''657585''"

definition sudo_elevate :: "string \<Rightarrow> string \<Rightarrow> ('p, 'n, 'd, 'e, 'o, bool) shell_op" where
  "sudo_elevate userId password =
     (if userId = [] \<or> password = [] \<or> password \<noteq> SUDO_PASSWORD then ret False
      else do { to_board (\<lambda>b. b\<lparr>bd_elevatedUsers := insert userId (bd_elevatedUsers b)\<rparr>); ret True })"

definition sudo_revoke :: "string \<Rightarrow> ('p, 'n, 'd, 'e, 'o, unit) shell_op" where
  "sudo_revoke userId = to_board (\<lambda>b. b\<lparr>bd_elevatedUsers := bd_elevatedUsers b - {userId}\<rparr>)"

definition isElevated :: "string \<Rightarrow> ('p, 'n, 'd, 'e, 'o, bool) shell_op" where
  "isElevated userId = from_board (\<lambda>b. userId \<in> bd_elevatedUsers b)"

definition elevatedCount :: "('p, 'n, 'd, 'e, 'o, nat) shell_op" where
  "elevatedCount = from_board (\<lambda>b. card (bd_elevatedUsers b))"

definition wrapper_sudo_login ::
    "('p, 'n, 'd, 'e, 'o, 'c, 'x, 'call) shell_lib \<Rightarrow> string \<Rightarrow> ('p, 'n, 'd, 'e, 'o) command" where
  "wrapper_sudo_login lib password = do {
     userId \<leftarrow> currentUserId;
     ok \<leftarrow> sudo_elevate userId (stripOuterQuotes password);
     if \<not> ok then failWithCode lib SUDO_WRONG_PASSWORD ''senha incorreta. Uso: sudo -login <senha>''
     else succeed lib (''[sudo] acesso elevado concedido para '' @ sq @ userId @ sq @ '' ate o proximo reboot'') }"

definition wrapper_sudo_logout :: "('p, 'n, 'd, 'e, 'o, 'c, 'x, 'call) shell_lib \<Rightarrow> ('p, 'n, 'd, 'e, 'o) command" where
  "wrapper_sudo_logout lib = do {
     userId \<leftarrow> currentUserId;
     sudo_revoke userId;
     succeed lib (''[sudo] acesso elevado revogado para '' @ sq @ userId @ sq) }"

definition wrapper_sudo_status :: "('p, 'n, 'd, 'e, 'o, 'c, 'x, 'call) shell_lib \<Rightarrow> ('p, 'n, 'd, 'e, 'o) command" where
  "wrapper_sudo_status lib = do {
     userId \<leftarrow> currentUserId;
     elevated \<leftarrow> isElevated userId;
     count \<leftarrow> elevatedCount;
     succeed lib (snprintf 128 (''[sudo] usuario atual: '' @ c_str userId @ '' ('' @
       (if elevated then ''elevado'' else ''sem privilegios'') @ '') | '' @ dec count @
       '' usuario(s) elevado(s) no total'')) }"

section \<open>Aliases\<close>

definition kAliases :: "(string \<times> string) list" where
  "kAliases = [(''es'', ''espnow -send_to'')]"

definition firstTokenLength :: "string \<Rightarrow> nat" where
  "firstTokenLength line = length (takeWhile (\<lambda>c. \<not> isspace c) line)"

definition resolve_alias :: "string \<Rightarrow> string" where
  "resolve_alias line =
     (let n = firstTokenLength line in
      if n = 0 then line
      else case map_of kAliases (take n line) of None \<Rightarrow> line | Some expands \<Rightarrow> expands @ drop n line)"

section \<open>The SD card\<close>

definition kMountPoint :: string where "kMountPoint = ''/sdcard''"
definition SDMMC_FREQ_DEFAULT :: u32 where "SDMMC_FREQ_DEFAULT = 20000"
definition SDMMC_FREQ_PROBING :: u32 where "SDMMC_FREQ_PROBING = 400"

definition on_sd :: "(sd_card \<Rightarrow> sd_card) \<Rightarrow> ('p, 'n, 'd, 'e, 'o, unit) shell_op" where
  "on_sd f = to_board (\<lambda>b. b\<lparr>bd_sd := f (bd_sd b)\<rparr>)"

definition sd_unmount :: "('p, 'n, 'd, 'e, 'o, 'c, 'x, 'call) shell_lib \<Rightarrow> ('p, 'n, 'd, 'e, 'o, unit) shell_op" where
  "sd_unmount lib = do {
     mounted \<leftarrow> from_board (\<lambda>b. sd_mounted (bd_sd b));
     only_if mounted (do { perform (sh_unmount lib); on_sd (\<lambda>c. c\<lparr>sd_mounted := False\<rparr>) }) }"

text \<open>The bus width and the frequency of each attempt; the first that mounts is taken.\<close>

definition sd_attempts :: "bool \<Rightarrow> (bool \<times> u32) list" where
  "sd_attempts oneBitMode =
     (if oneBitMode then [(True, SDMMC_FREQ_DEFAULT), (True, SDMMC_FREQ_PROBING)]
      else [(True, SDMMC_FREQ_DEFAULT), (False, SDMMC_FREQ_DEFAULT), (True, SDMMC_FREQ_PROBING), (False, SDMMC_FREQ_PROBING)])"

fun sd_try :: "('p, 'n, 'd, 'e, 'o, 'c, 'x, 'call) shell_lib \<Rightarrow> (bool \<times> u32) list \<Rightarrow> ('p, 'n, 'd, 'e, 'o, bool) shell_op" where
  "sd_try lib [] = ret False"
| "sd_try lib ((mode1bit, frequency) # attempts) = do {
     sd_unmount lib;
     mounted \<leftarrow> act (sh_mount lib mode1bit frequency);
     if \<not> mounted then sd_try lib attempts
     else do {
       on_sd (\<lambda>c. c\<lparr>sd_mounted := True, sd_ready := True, sd_oneBitMode := mode1bit, sd_frequencyKHz := frequency\<rparr>);
       ret True } }"

definition sd_begin :: "('p, 'n, 'd, 'e, 'o, 'c, 'x, 'call) shell_lib \<Rightarrow> bool \<Rightarrow> ('p, 'n, 'd, 'e, 'o, bool) shell_op" where
  "sd_begin lib oneBitMode = do {
     on_sd (\<lambda>c. c\<lparr>sd_ready := False, sd_oneBitMode := oneBitMode, sd_frequencyKHz := 0\<rparr>);
     sd_unmount lib;
     sd_try lib (sd_attempts oneBitMode) }"

definition sd_isReady :: "('p, 'n, 'd, 'e, 'o, bool) shell_op" where
  "sd_isReady = from_board (\<lambda>b. sd_ready (bd_sd b))"

definition cardTypeName :: "('p, 'n, 'd, 'e, 'o, 'c, 'x, 'call) shell_lib \<Rightarrow> 'o board \<Rightarrow> string" where
  "cardTypeName lib b =
     (let w = se_out (bd_store b) in
      if \<not> sd_ready (bd_sd b) \<or> \<not> sd_mounted (bd_sd b) then ''NONE''
      else if sh_card_mmc lib w then ''MMC''
      else if sh_card_csd lib w = 0 then ''SDSC'' else ''SDHC'')"

definition totalBytes :: "('p, 'n, 'd, 'e, 'o, 'c, 'x, 'call) shell_lib \<Rightarrow> 'o board \<Rightarrow> u64" where
  "totalBytes lib b =
     (if \<not> sd_ready (bd_sd b) then 0
      else case sh_fat_info lib (se_out (bd_store b)) of None \<Rightarrow> 0 | Some (bytes, unused) \<Rightarrow> bytes)"

definition usedBytes :: "('p, 'n, 'd, 'e, 'o, 'c, 'x, 'call) shell_lib \<Rightarrow> 'o board \<Rightarrow> u64" where
  "usedBytes lib b =
     (if \<not> sd_ready (bd_sd b) then 0
      else case sh_fat_info lib (se_out (bd_store b)) of None \<Rightarrow> 0 | Some (bytes, unused) \<Rightarrow> bytes - unused)"

definition totalMB :: "('p, 'n, 'd, 'e, 'o, 'c, 'x, 'call) shell_lib \<Rightarrow> 'o board \<Rightarrow> u64" where
  "totalMB lib b = totalBytes lib b div (1024 * 1024)"

definition usedMB :: "('p, 'n, 'd, 'e, 'o, 'c, 'x, 'call) shell_lib \<Rightarrow> 'o board \<Rightarrow> u64" where
  "usedMB lib b = usedBytes lib b div (1024 * 1024)"

text \<open>\<open>removeTree\<close> down to a depth; \<open>None\<close> when a path is nested deeper.\<close>

fun removeTree :: "('p, 'o) store_lib \<Rightarrow> nat \<Rightarrow> string \<Rightarrow> 'o \<Rightarrow> (bool \<times> 'o) option"
  and remove_entries :: "('p, 'o) store_lib \<Rightarrow> nat \<Rightarrow> string \<Rightarrow> string list \<Rightarrow> 'o \<Rightarrow> (bool \<times> 'o) option" where
  "removeTree fs 0 path w = None"
| "removeTree fs (Suc depth) path w =
     (case fs_stat fs path w of
        None \<Rightarrow> Some (False, w)
      | Some info \<Rightarrow>
          if \<not> st_directory info then Some (fs_remove fs path w)
          else case fs_readdir fs path w of
            None \<Rightarrow> Some (False, w)
          | Some names \<Rightarrow>
              (case remove_entries fs depth path names w of
                 None \<Rightarrow> None
               | Some (ok, w) \<Rightarrow> Some (if \<not> ok then (False, w) else fs_rmdir fs path w)))"
| "remove_entries fs depth path [] w = Some (True, w)"
| "remove_entries fs depth path (name # names) w =
     (if name = ''.'' \<or> name = ''..'' then remove_entries fs depth path names w
      else case removeTree fs depth (path @ ''/'' @ name) w of
        None \<Rightarrow> None
      | Some (ok, w) \<Rightarrow> if \<not> ok then Some (False, w) else remove_entries fs depth path names w)"

text \<open>A FAT path has at most 255 characters, so no directory is nested deeper than 128.\<close>

definition kPathDepth :: nat where "kPathDepth = 128"

definition wipeContents :: "('p, 'n, 'd, 'e, 'o, 'c, 'x, 'call) shell_lib \<Rightarrow> ('p, 'n, 'd, 'e, 'o, bool) shell_op" where
  "wipeContents lib = do {
     ready \<leftarrow> sd_isReady;
     root \<leftarrow> from_out (fs_readdir (sh_store lib) kMountPoint);
     (if \<not> ready \<or> root = None then ret False
      else act (\<lambda>w. case remove_entries (sh_store lib) kPathDepth kMountPoint (the root) w of
             None \<Rightarrow> (False, w) | Some r \<Rightarrow> r)) }"

end
