(* ===== verification/Espnow_Commands.thy ===== *)
theory Espnow_Commands
  imports Shell_Runtime
begin

text \<open>
  lib/EspNowCommands: the commands that keep the list of radio peers and send them shell lines. The
  registry is that of \<open>Device_Registry\<close>, the identities those of \<open>Peer_Table\<close>; the endpoint of the
  library and the confirmed sender act on the outside world.
\<close>

section \<open>The registry\<close>

definition registry :: "(manager \<Rightarrow> 'o \<Rightarrow> 'a \<times> manager \<times> 'o) \<Rightarrow> ('p, 'n, 'd, 'e, 'o, 'a) shell_op" where
  "registry f = State (\<lambda>h. let s = bd_store (board_of h) in
     case f (se_manager s) (se_out s) of
       (a, m, w) \<Rightarrow> (a, on_board (\<lambda>b. b\<lparr>bd_store := s\<lparr>se_manager := m, se_out := w\<rparr>\<rparr>) h))"

definition from_manager :: "(manager \<Rightarrow> 'a) \<Rightarrow> ('p, 'n, 'd, 'e, 'o, 'a) shell_op" where
  "from_manager f = from_board (\<lambda>b. f (se_manager (bd_store b)))"

definition database_ready :: "('p, 'n, 'd, 'e, 'o, bool) shell_op" where
  "database_ready = do {
     cx \<leftarrow> the_context;
     ready \<leftarrow> from_board (\<lambda>b. se_ready (bd_store b));
     ret (cx_database cx \<and> ready) }"

definition device_line :: "nat \<Rightarrow> device_info \<Rightarrow> bool \<Rightarrow> string" where
  "device_line i item bootKnown =
     snprintf 256 (''['' @ dec_pad 3 (i + 1) @ ''] '' @ c_str (dv_name item) @ '' - '' @ c_str (dv_description item) @
       '' - '' @ macToText (dv_mac item) @ '' - boot_id='' @
       (if bootKnown then ''conhecido'' else ''desconhecido (send_to vai falhar ate chegar algo dele)''))"

definition wrapper_espnow_list where
  "wrapper_espnow_list lib = do {
     cx \<leftarrow> the_context;
     if \<not> cx_espNow cx then failWithCode lib ESPNOW_NOT_READY ''espnow indisponivel para comando list''
     else do {
       total \<leftarrow> from_manager deviceCount;
       if total = 0 then succeed lib ''[espnow] nenhum peer real cadastrado''
       else do {
         each (\<lambda>i. do {
             found \<leftarrow> from_manager (deviceAt i);
             (case found of
                None \<Rightarrow> ret ()
              | Some item \<Rightarrow> do {
                  known \<leftarrow> gets (\<lambda>h. lookupPeer (Some (dv_mac item)) (hb_peers h));
                  printLine lib (device_line i item (known \<noteq> None)) }) })
           [0..<total];
         ret RESULT_OK } } }"

definition wrapper_espnow_add where
  "wrapper_espnow_add lib macText name description = do {
     cx \<leftarrow> the_context;
     if \<not> cx_espNow cx then failWithCode lib ESPNOW_NOT_READY ''espnow indisponivel para comando add''
     else case parseMacAddress macText of
       None \<Rightarrow> failWithCode lib INVALID_MAC_FORMAT ''MAC invalido. Use formato AA:BB:CC:DD:EE:FF''
     | Some m \<Rightarrow> do {
         ok \<leftarrow> registry (addDevice (sl_radio (sh_store lib)) (Some m) (Some (c_str (stripOuterQuotes name)))
                (Some (c_str (stripOuterQuotes description))));
         if \<not> ok then failWithCode lib PEER_ADD_FAILED ''falha ao adicionar dispositivo''
         else do {
           ready \<leftarrow> database_ready;
           stored \<leftarrow> (if ready then database (upsertPeer (store_lib_of lib) m (c_str (stripOuterQuotes name))
                                 (c_str (stripOuterQuotes description))) else ret True);
           only_if (\<not> stored) (warnWithCode lib DATABASE_PEER_NOT_PERSISTED ''peer adicionado, mas nao persistido'');
           succeed lib ''[espnow] dispositivo adicionado'' } } }"

definition forget_peer where
  "forget_peer lib m = do {
     ready \<leftarrow> database_ready;
     removed \<leftarrow> (if ready then database (removePeer (store_lib_of lib) m) else ret True);
     only_if (\<not> removed)
       (warnWithCode lib DATABASE_PEER_REMOVE_NOT_PERSISTED ''peer removido, mas persistencia nao atualizada'') }"

definition wrapper_espnow_remove where
  "wrapper_espnow_remove lib deviceNumber = do {
     cx \<leftarrow> the_context;
     if \<not> cx_espNow cx then failWithCode lib ESPNOW_NOT_READY ''espnow indisponivel para comando remove''
     else if deviceNumber \<le> (0 :: int) then failWithCode lib INVALID_DEVICE_INDEX ''indice invalido. Use valores >= 1''
     else do {
       removed \<leftarrow> from_manager (deviceAt (nat (deviceNumber - 1)));
       ok \<leftarrow> registry (removeDeviceByIndex (sl_radio (sh_store lib)) (nat (deviceNumber - 1)));
       if \<not> ok then failWithCode lib PEER_REMOVE_FAILED ''indice invalido''
       else do {
         (case removed of None \<Rightarrow> ret () | Some d \<Rightarrow> forget_peer lib (dv_mac d));
         succeed lib ''[espnow] dispositivo removido'' } } }"

definition wrapper_espnow_remove_mac where
  "wrapper_espnow_remove_mac lib macText = do {
     cx \<leftarrow> the_context;
     if \<not> cx_espNow cx then failWithCode lib ESPNOW_NOT_READY ''espnow indisponivel para comando remove_mac''
     else case parseMacAddress macText of
       None \<Rightarrow> failWithCode lib INVALID_MAC_FORMAT ''MAC invalido. Use formato AA:BB:CC:DD:EE:FF''
     | Some m \<Rightarrow> do {
         ok \<leftarrow> registry (removeDeviceByMac (sl_radio (sh_store lib)) (Some m));
         if \<not> ok then failWithCode lib PEER_NOT_FOUND ''MAC nao encontrado''
         else do { forget_peer lib m; succeed lib ''[espnow] dispositivo removido por MAC'' } } }"

definition wrapper_espnow_update where
  "wrapper_espnow_update lib deviceNumber name description = do {
     cx \<leftarrow> the_context;
     if \<not> cx_espNow cx then failWithCode lib ESPNOW_NOT_READY ''espnow indisponivel para comando update''
     else if deviceNumber \<le> (0 :: int) then failWithCode lib INVALID_DEVICE_INDEX ''indice invalido. Use valores >= 1''
     else do {
       let index = nat (deviceNumber - 1);
       let safeName = c_str (stripOuterQuotes name);
       let safeDescription = c_str (stripOuterQuotes description);
       ok \<leftarrow> registry (\<lambda>m w. case updateDeviceByIndex index (Some safeName) (Some safeDescription) m of (ok, m) \<Rightarrow> (ok, m, w));
       if \<not> ok then failWithCode lib PEER_UPDATE_FAILED ''indice invalido para update''
       else do {
         updated \<leftarrow> from_manager (deviceAt index);
         ready \<leftarrow> database_ready;
         stored \<leftarrow> (case updated of None \<Rightarrow> ret True
            | Some d \<Rightarrow> if ready then database (updatePeerMetadata (store_lib_of lib) (dv_mac d) safeName safeDescription)
                         else ret True);
         only_if (\<not> stored)
           (warnWithCode lib DATABASE_PEER_UPDATE_NOT_PERSISTED ''peer atualizado em memoria, mas nao persistido'');
         succeed lib ''[espnow] peer atualizado'' } } }"

section \<open>Sending\<close>

definition shell_request_payload :: "u32 \<Rightarrow> u32 \<Rightarrow> string \<Rightarrow> bytes" where
  "shell_request_payload targetSourceId targetBootId commandText =
     (let txt = take kMaxShellCommandSize commandText in
      u32_le targetSourceId @ u32_le targetBootId @ u16_le kShellActionId @ u16_le kShellActionVersion @
      [0, 0] @ [0, 0] @ u32_le (of_nat (length txt)) @ bytes_of txt)"

text \<open>The result and \<open>outDelivered\<close>; the sealer is \<open>RadioSeal::seal\<close> with the key of the store.\<close>

definition sendShellCommandRequest where
  "sendShellCommandRequest lib m commandText = do {
     peer \<leftarrow> gets (\<lambda>h. lookupPeer (Some m) (hb_peers h));
     (case peer of
        None \<Rightarrow> ret (False, False)
      | Some (targetSourceId, targetBootId) \<Rightarrow> do {
          now \<leftarrow> shell_millis lib;
          keys \<leftarrow> from_board bd_keys;
          act (\<lambda>w. case sendLogicalWithStatus (sh_endpoint lib) (Some (sh_sendToMacWithStatus lib)) (Some m) MtCommand
                 kCommandRequestObjectId (View (shell_request_payload targetSourceId targetBootId commandText))
                 (ucast now * 1000) 700 (Some (\<lambda>header plain. seal (sh_aead lib) keys header (View plain))) w of
               (got, delivered, w) \<Rightarrow> ((got, delivered), w)) }) }"

definition log_outgoing where
  "log_outgoing lib m msg delivered = do {
     ready \<leftarrow> database_ready;
     only_if ready (do {
       logged \<leftarrow> database (logOutgoingEspNow (store_lib_of lib) m (sh_command_type lib) (bytes_of msg) delivered);
       ret () }) }"

definition notify_lcd where
  "notify_lcd lib delivered = do {
     cx \<leftarrow> the_context;
     only_if (cx_lcdDashboard cx) (perform (sh_lcd_notifyTx lib delivered)) }"

definition no_key_text :: string where
  "no_key_text = ''chave L nao configurada, rode hub -set_key_l primeiro''"

definition wrapper_espnow_send_to where
  "wrapper_espnow_send_to lib deviceNumber command = do {
     cx \<leftarrow> the_context;
     keyed \<leftarrow> from_board (\<lambda>b. hasKeyL (bd_keys b));
     if \<not> cx_espNow cx then failWithCode lib ESPNOW_NOT_READY ''espnow indisponivel para comando send_to''
     else if \<not> keyed then failWithCode lib LINK_KEY_NOT_CONFIGURED no_key_text
     else if deviceNumber \<le> (0 :: int) then failWithCode lib INVALID_DEVICE_INDEX
       ''indice invalido. Use valores >= 1 (000/broadcast nao e mais enderecavel, ver help -e)''
     else do {
       found \<leftarrow> from_manager (deviceAt (nat (deviceNumber - 1)));
       (case found of
          None \<Rightarrow> failWithCode lib INVALID_DEVICE_INDEX ''indice invalido''
        | Some target \<Rightarrow> do {
            let msg = stripOuterQuotes command;
            (gotStatus, delivered) \<leftarrow> sendShellCommandRequest lib (dv_mac target) msg;
            log_outgoing lib (dv_mac target) msg (gotStatus \<and> delivered);
            notify_lcd lib (gotStatus \<and> delivered);
            if \<not> gotStatus then failWithCode lib PEER_BOOT_UNKNOWN
              ''boot_id do peer ainda desconhecido (aguarde uma mensagem dele chegar)''
            else if \<not> delivered then failWithCode lib SEND_DELIVERY_FAILED ''status=false''
            else succeed lib ''[espnow] status=true (resposta e saida chegam como cmd_result)'' }) } }"

text \<open>One turn of the loop of \<open>send_all\<close>: how many were attempted and delivered.\<close>

definition send_one where
  "send_one lib msg i counts = do {
     found \<leftarrow> from_manager (deviceAt i);
     (case found of
        None \<Rightarrow> ret counts
      | Some target \<Rightarrow> do {
          (gotStatus, oneDelivered) \<leftarrow> sendShellCommandRequest lib (dv_mac target) msg;
          if \<not> gotStatus then ret counts
          else do {
            log_outgoing lib (dv_mac target) msg oneDelivered;
            ret (fst counts + (1 :: nat), snd counts + (if oneDelivered then 1 else (0 :: nat))) } }) }"

definition wrapper_espnow_send_all where
  "wrapper_espnow_send_all lib command = do {
     cx \<leftarrow> the_context;
     keyed \<leftarrow> from_board (\<lambda>b. hasKeyL (bd_keys b));
     if \<not> cx_espNow cx then failWithCode lib ESPNOW_NOT_READY ''espnow indisponivel para comando send_all''
     else if \<not> keyed then failWithCode lib LINK_KEY_NOT_CONFIGURED no_key_text
     else do {
       total \<leftarrow> from_manager deviceCount;
       (attempted, delivered) \<leftarrow> accumulate (send_one lib (stripOuterQuotes command)) [0..<total] (0, 0);
       if attempted = 0 then failWithCode lib PEER_BOOT_UNKNOWN
         ''nenhum peer com boot_id conhecido (aguarde alguma mensagem chegar)''
       else do {
         printLine lib (snprintf 120 (''[espnow] status='' @ (if delivered = attempted then ''true'' else ''false'') @
           '' delivered='' @ dec delivered @ ''/'' @ dec attempted @ '' (respostas chegam como cmd_result)''));
         notify_lcd lib (delivered = attempted);
         if delivered \<noteq> attempted then
           failWithCode lib SEND_PARTIAL_DELIVERY ''entrega parcial no envio para todos os peers''
         else ret RESULT_OK } } }"

section \<open>Counters\<close>

definition num :: "'a::len word \<Rightarrow> string" where "num v = dec (unat v)"

text \<open>The lines of \<open>espnow -stats\<close>, each through a buffer of 256 octets; the provider that \<open>AppRuntime\<close>
  binds reads the counters of the radio, its scheduler and the multiplexer.\<close>

definition stats_lines ::
    "rx_snapshot \<Rightarrow> u32 \<Rightarrow> u32 \<Rightarrow> u32 list \<times> u32 list \<times> u32 \<times> u32 \<times> u32 \<Rightarrow> tx_counters \<Rightarrow> bool \<Rightarrow> string list" where
  "stats_lines rx droppedAuth syncFallback radio tx protocolled =
     (case radio of (enqueued, droppedQueue, driverRejected, callbackTimeouts, callbacksReceived) \<Rightarrow>
     [''[espnow] contadores acumulados desde o boot'',
      ''[espnow] rx_datagramas='' @ num (sn_datagrams rx) @ '' rx_fragmentos='' @ num (sn_fragmentsAccepted rx),
      ''[espnow] roteados: telemetria='' @ num (sn_routedTelemetry rx) @ '' log='' @ num (sn_routedLog rx) @
        '' comando='' @ num (sn_routedCommand rx) @ '' controle='' @ num (sn_routedControl rx) @
        '' terminal='' @ num (sn_routedTerminal rx),
      ''[espnow] descartes: fila_rx='' @ num (sn_droppedRx rx) @ '' decode='' @ num (sn_droppedDecode rx) @
        '' crc='' @ num (sn_droppedCrc rx) @ '' reassembly='' @ num (sn_droppedReassembly rx) @
        '' fila_tipo='' @ num (sn_droppedQueueFull rx) @ '' auth='' @ num droppedAuth] @
     (if syncFallback > 0 then
        [''[espnow] ATENCAO async RX nao subiu no boot: '' @ num syncFallback @
         '' datagramas descartados '' @ ''(heap? ver topico 34/35)''] else []) @
     [''[espnow tx] enfileirados: critico='' @ num (enqueued ! 0) @ '' controle='' @ num (enqueued ! 1) @
        '' dados='' @ num (enqueued ! 2) @ '' callbacks='' @ num callbacksReceived,
      ''[espnow tx] descartes_fila: critico='' @ num (droppedQueue ! 0) @ '' controle='' @ num (droppedQueue ! 1) @
        '' dados='' @ num (droppedQueue ! 2) @ '' driver_reject='' @ num driverRejected @
        '' callback_timeout='' @ num callbackTimeouts,
      ''[usb] sessao='' @ (if protocolled then ''protocolada'' else ''console'') @
        '' frames_rx='' @ num (tc_framesRx tx) @ '' frames_tx='' @ num (tc_framesTx tx) @
        '' tx_travado='' @ num (tc_framesTxStalled tx),
      ''[usb] descartes: telemetria='' @ num (tc_telemetryDropped tx) @
        '' fila_sessao='' @ num (tc_droppedByClass tx KSession) @
        '' fila_terminal='' @ num (tc_droppedByClass tx KTerminal) @ '' fila_log='' @ num (tc_droppedByClass tx KLogStatus) @
        '' fila_telemetria='' @ num (tc_droppedByClass tx KTelemetry)])"

definition setStatsProvider :: "bool \<Rightarrow> ('p, 'n, 'd, 'e, 'o, unit) shell_op" where
  "setStatsProvider provided = to_board (\<lambda>b. b\<lparr>bd_statsProvider := provided\<rparr>)"

definition wrapper_espnow_stats where
  "wrapper_espnow_stats lib = do {
     provided \<leftarrow> from_board bd_statsProvider;
     if \<not> provided then failWithCode lib ESPNOW_NOT_READY ''contadores indisponiveis: provider nao vinculado''
     else do {
       (rx, droppedAuth, syncFallback) \<leftarrow> from_out (sh_rx_counters lib);
       radio \<leftarrow> from_out (sh_radio_counters lib);
       tx \<leftarrow> gets (\<lambda>h. peekTxCounters (hb_mux h));
       protocolled \<leftarrow> gets (isProtocolled (sh_mux lib));
       each (\<lambda>line. printLine lib (snprintf 256 line)) (stats_lines rx droppedAuth syncFallback radio tx protocolled);
       ret RESULT_OK } }"

end
