(* ===== verification/Database_Commands.thy ===== *)
theory Database_Commands
  imports Espnow_Commands
begin

text \<open>
  lib/DatabaseCommands: the shell's commands over the store of \<open>Database_Store\<close>.
\<close>

section \<open>Queries\<close>

text \<open>The common shape: without a store an error, else the text is printed and a failure reported.\<close>

definition with_database where
  "with_database lib name m = do {
     cx \<leftarrow> the_context;
     if \<not> cx_database cx then failWithCode lib DATABASE_NOT_READY (''database indisponivel para comando '' @ name)
     else m }"

definition print_outcome where
  "print_outcome lib code detail m = do {
     (ok, output) \<leftarrow> database m;
     printLine lib output;
     if \<not> ok then failWithCode lib code detail else ret RESULT_OK }"

definition limit_or :: "nat \<Rightarrow> int \<Rightarrow> nat" where
  "limit_or fallback limit = (if limit > 0 then nat limit else fallback)"

definition wrapper_database_init where
  "wrapper_database_init lib = do {
     cx \<leftarrow> the_context;
     if \<not> cx_database cx then failWithCode lib DATABASE_NOT_READY ''database indisponivel para comando init''
     else if \<not> cx_espNow cx then failWithCode lib ESPNOW_NOT_READY ''espnow indisponivel para bootstrap do database''
     else do {
       begun \<leftarrow> database (db_begin (store_lib_of lib) (cx_io cx));
       if \<not> begun then failWithCode lib DATABASE_INIT_FAILED ''falha ao inicializar (confira SD e sqlite)''
       else do {
         loaded \<leftarrow> database (db_loadPeers (store_lib_of lib));
         syncOk \<leftarrow> database (syncPeersFromManager (store_lib_of lib));
         only_if (\<not> syncOk)
           (warnWithCode lib DATABASE_PEER_SYNC_FAILED ''database inicializado, mas falhou ao sincronizar peers'');
         succeed lib (if syncOk then ''[database] inicializado e sincronizado com peers''
                      else ''[database] inicializado (sync de peers com aviso)'') } } }"

definition wrapper_database_status where
  "wrapper_database_status lib = with_database lib ''status''
     (print_outcome lib DATABASE_QUERY_FAILED ''falha ao consultar status do database'' (getStatus (store_lib_of lib)))"

definition wrapper_database_tables where
  "wrapper_database_tables lib = with_database lib ''tables''
     (print_outcome lib DATABASE_QUERY_FAILED ''falha ao listar tabelas'' (listTables (store_lib_of lib)))"

definition wrapper_database_read where
  "wrapper_database_read lib tableName limit = with_database lib ''read''
     (print_outcome lib DATABASE_QUERY_FAILED ''falha ao ler tabela''
       (readTable (store_lib_of lib) (stripOuterQuotes tableName) (limit_or 20 limit)))"

definition wrapper_database_logs where
  "wrapper_database_logs lib limit = with_database lib ''logs''
     (print_outcome lib DATABASE_QUERY_FAILED ''falha ao ler logs de comandos''
       (readCommandLogsWithOutput (store_lib_of lib) (limit_or 20 limit)))"

definition wrapper_database_espnow_history where
  "wrapper_database_espnow_history lib limit = with_database lib ''espnow_history''
     (print_outcome lib DATABASE_QUERY_FAILED ''falha ao ler historico ESP-NOW''
       (readEspNowHistory (store_lib_of lib) (limit_or 30 limit)))"

definition wrapper_database_count where
  "wrapper_database_count lib tableName = with_database lib ''count'' (do {
     let safeTableName = stripOuterQuotes tableName;
     count \<leftarrow> database (countRows (store_lib_of lib) safeTableName);
     (case count of
        None \<Rightarrow> failWithCode lib DATABASE_QUERY_FAILED ''falha ao contar linhas (tabela invalida?)''
      | Some n \<Rightarrow> succeed lib (snprintf 96 (''[database] '' @ c_str safeTableName @ '': '' @ dec_int n @ '' linha(s)''))) })"

section \<open>Changes\<close>

definition wrapper_database_delete where
  "wrapper_database_delete lib tableName condition = with_database lib ''delete'' (do {
     let safeCondition = stripOuterQuotes condition;
     if safeCondition = [] then failWithCode lib INVALID_ARGUMENT
       ''condicao obrigatoria. Uso: database -delete <tabela>, <condicao SQL>''
     else do {
       deleted \<leftarrow> database (deleteRows (store_lib_of lib) (stripOuterQuotes tableName) safeCondition);
       (case deleted of
          None \<Rightarrow> failWithCode lib DATABASE_EXEC_FAILED ''falha ao deletar linhas (tabela ou condicao invalida)''
        | Some n \<Rightarrow> succeed lib (snprintf 80 (''[database] '' @ dec_int n @ '' linha(s) removida(s)''))) } })"

definition wrapper_database_vacuum where
  "wrapper_database_vacuum lib = with_database lib ''vacuum''
     (print_outcome lib DATABASE_EXEC_FAILED ''falha ao compactar banco'' (vacuum (store_lib_of lib)))"

definition wrapper_database_export where
  "wrapper_database_export lib tableName = with_database lib ''export''
     (print_outcome lib DATABASE_EXEC_FAILED ''falha ao exportar tabela''
       (exportTableToCsv (store_lib_of lib) (stripOuterQuotes tableName)))"

definition wrapper_database_backup where
  "wrapper_database_backup lib = with_database lib ''backup''
     (print_outcome lib DATABASE_QUERY_FAILED ''falha ao gerar backup do banco'' (db_backup (store_lib_of lib)))"

text \<open>\<open>database -exec\<close> and \<open>-exec_nolog\<close> run the same statement.\<close>

definition database_exec where
  "database_exec lib statement = with_database lib ''exec''
     (print_outcome lib DATABASE_EXEC_FAILED ''falha ao executar SQL''
       (executeSql (store_lib_of lib) (stripOuterQuotes statement)))"

definition execNoLog where
  "execNoLog lib statement = with_database lib ''exec_nolog''
     (print_outcome lib DATABASE_EXEC_FAILED ''falha ao executar SQL''
       (executeSql (store_lib_of lib) (stripOuterQuotes statement)))"

section \<open>Commands for elevated users\<close>

text \<open>\<open>!SudoManager::isElevated(currentUserId())\<close>, then the refusal.\<close>

definition elevated_only where
  "elevated_only lib refusal m = do {
     user \<leftarrow> currentUserId;
     elevated \<leftarrow> isElevated user;
     if \<not> elevated then failWithCode lib PERMISSION_DENIED refusal else m }"

definition wrapper_database_drop where
  "wrapper_database_drop lib tableName = elevated_only lib
     (''isso apaga a tabela '' @ sq @ stripOuterQuotes tableName @ sq @ '' permanentemente. Rode antes: sudo -login <senha>'')
     (with_database lib ''drop'' (do {
        ok \<leftarrow> database (dropTable (store_lib_of lib) (stripOuterQuotes tableName));
        if \<not> ok then failWithCode lib DATABASE_DROP_FAILED ''falha ao remover tabela''
        else succeed lib ''[database] tabela removida'' }))"

definition wrapper_database_rebuild where
  "wrapper_database_rebuild lib = elevated_only lib
     ''isso apaga o banco inteiro e recria do zero. Rode antes: sudo -login <senha>''
     (with_database lib ''rebuild'' (do {
        cx \<leftarrow> the_context;
        if \<not> cx_espNow cx then failWithCode lib ESPNOW_NOT_READY ''espnow indisponivel para comando rebuild''
        else do {
          rebuilt \<leftarrow> database (db_rebuild (store_lib_of lib));
          if \<not> rebuilt then failWithCode lib DATABASE_REBUILD_FAILED ''falha ao recriar banco''
          else do {
            synced \<leftarrow> database (syncPeersFromManager (store_lib_of lib));
            only_if (\<not> synced)
              (warnWithCode lib DATABASE_PEER_SYNC_FAILED ''banco recriado, mas falhou ao sincronizar peers'');
            succeed lib ''[database] banco recriado com bootstrap.sql'' } } }))"

definition wrapper_database_clear_logs where
  "wrapper_database_clear_logs lib = elevated_only lib
     ''isso apaga command_log, saidas e historico de envios ESP-NOW. Rode antes: sudo -login <senha>''
     (with_database lib ''clear_logs''
        (print_outcome lib DATABASE_EXEC_FAILED ''falha ao limpar logs'' (clearLogs (store_lib_of lib))))"

end
