(* ===== verification/Dongle_Commands.thy ===== *)
theory Dongle_Commands
  imports Database_Commands
begin

text \<open>
  lib/DongleCommands: the commands on the board itself (clock, LED, LCD, SD card, information) and on
  the hub (bindings, key L, the manifest path). \<open>dongle -run\<close> and \<open>-run_script\<close>, which run other
  lines, are in \<open>Shell_Config\<close>.
\<close>

section \<open>Clock and board\<close>

definition wrapper_dongle_ping where
  "wrapper_dongle_ping lib = succeed lib ''[dongle] pong''"

definition date_text where
  "date_text lib epoch = map_option (take 31) (sl_localtime (sh_store lib) ''%Y-%m-%d %H:%M:%S'' epoch)"

definition wrapper_dongle_clock where
  "wrapper_dongle_clock lib = do {
     nowEpoch \<leftarrow> act (sl_time (sh_store lib));
     if nowEpoch \<le> 0 then succeed lib ''[dongle] clock sem ajuste (epoch invalido)''
     else case date_text lib nowEpoch of
       None \<Rightarrow> failWithCode lib RTC_READ_FAILED ''falha ao ler horario local''
     | Some dateTime \<Rightarrow>
         succeed lib (snprintf 120 (''[dongle] clock='' @ dateTime @ '' epoch='' @ dec_int nowEpoch)) }"

definition wrapper_dongle_set_clock where
  "wrapper_dongle_set_clock lib dateTimeText =
     (case parseDateTimeText lib dateTimeText of
        None \<Rightarrow> failWithCode lib CLOCK_FORMAT_INVALID ''formato invalido. Use: YYYY-MM-DD HH:MM:SS ou @epoch''
      | Some epoch \<Rightarrow> do {
          ok \<leftarrow> act (sh_settimeofday lib epoch);
          if \<not> ok then failWithCode lib RTC_SET_FAILED ''falha ao ajustar clock''
          else case date_text lib epoch of
            None \<Rightarrow> succeed lib ''[dongle] clock ajustado''
          | Some dateTime \<Rightarrow> succeed lib (snprintf 120 (''[dongle] clock ajustado para '' @ dateTime)) })"

definition with_peripherals where
  "with_peripherals lib name m = do {
     cx \<leftarrow> the_context;
     if \<not> cx_peripherals cx then failWithCode lib PERIPHERALS_NOT_READY (''perifericos indisponiveis para comando '' @ name)
     else m }"

definition wrapper_dongle_led where
  "wrapper_dongle_led lib r g b = with_peripherals lib ''led''
     (do { perform (sh_setLedColor lib (clampByte r) (clampByte g) (clampByte b)); succeed lib ''[dongle] LED atualizado'' })"

definition wrapper_dongle_led_off where
  "wrapper_dongle_led_off lib = with_peripherals lib ''led_off''
     (do { perform (sh_ledOff lib); succeed lib ''[dongle] LED desligado'' })"

definition dashboard_ready where
  "dashboard_ready lib = do {
     cx \<leftarrow> the_context;
     ready \<leftarrow> from_out (sh_lcd_ready lib);
     ret (cx_lcdDashboard cx \<and> ready) }"

definition wrapper_dongle_lcd where
  "wrapper_dongle_lcd lib txt = with_peripherals lib ''lcd'' (do {
     let content = stripOuterQuotes txt;
     ready \<leftarrow> dashboard_ready lib;
     if ready then do { perform (sh_lcd_show lib content 0x0000); succeed lib ''[dongle] texto escrito no painel LCD'' }
     else do {
       ok \<leftarrow> act (sh_writeLcd lib content);
       if \<not> ok then failWithCode lib LCD_NOT_READY ''LCD nao inicializado''
       else succeed lib ''[dongle] texto escrito no LCD'' } })"

definition wrapper_dongle_lcd_clear where
  "wrapper_dongle_lcd_clear lib = with_peripherals lib ''lcd_clear'' (do {
     ready \<leftarrow> dashboard_ready lib;
     if ready then do { perform (sh_lcd_clear lib); succeed lib ''[dongle] painel LCD limpo'' }
     else do {
       ok \<leftarrow> act (sh_clearLcd lib);
       if \<not> ok then failWithCode lib LCD_NOT_READY ''LCD nao inicializado'' else succeed lib ''[dongle] LCD limpo'' } })"

definition wrapper_dongle_lcd_bl where
  "wrapper_dongle_lcd_bl lib on = with_peripherals lib ''lcd_bl'' (do {
     let turnOn = (on = (0 :: int));
     perform (sh_setLcdBacklight lib turnOn);
     succeed lib (if turnOn then ''[dongle] backlight ligado'' else ''[dongle] backlight desligado'') })"

definition begin_dashboard where
  "begin_dashboard lib = do { cx \<leftarrow> the_context; only_if (cx_lcdDashboard cx) (perform (sh_lcd_begin lib)) }"

definition wrapper_dongle_lcd_reinit where
  "wrapper_dongle_lcd_reinit lib = with_peripherals lib ''lcd_reinit'' (do {
     ok \<leftarrow> act (sh_reinitLcd lib);
     if \<not> ok then failWithCode lib LCD_REINIT_FAILED ''falha ao reinicializar LCD''
     else do { begin_dashboard lib; succeed lib ''[dongle] LCD reinicializado'' } })"

text \<open>C's \<open>%\<close> on the two's complement value, so \<open>((rotation % 4) + 4) % 4\<close> is the residue.\<close>

definition c_mod :: "int \<Rightarrow> int \<Rightarrow> int" where
  "c_mod a b = (if a < 0 then - ((- a) mod b) else a mod b)"

definition normalized_rotation :: "int \<Rightarrow> int" where
  "normalized_rotation rotation = c_mod (c_mod rotation 4 + 4) 4"

definition wrapper_dongle_lcd_rot where
  "wrapper_dongle_lcd_rot lib rotation = with_peripherals lib ''lcd_rot'' (do {
     perform (sh_setLcdRotation lib (word_of_int (normalized_rotation rotation)));
     begin_dashboard lib;
     succeed lib (snprintf 80 (''[dongle] rotacao LCD = '' @ dec_int (normalized_rotation rotation))) })"

definition wrapper_dongle_lcd_rot_get where
  "wrapper_dongle_lcd_rot_get lib = with_peripherals lib ''lcd_rot_get'' (do {
     rotation \<leftarrow> from_out (sh_lcdRotation lib);
     succeed lib (snprintf 80 (''[dongle] rotacao LCD atual = '' @ num rotation)) })"

definition wrapper_dongle_lcd_bl_inv where
  "wrapper_dongle_lcd_bl_inv lib activeHigh = with_peripherals lib ''lcd_bl_inv'' (do {
     perform (sh_setLcdBacklightPolarity lib (activeHigh \<noteq> (0 :: int)));
     succeed lib (if activeHigh \<noteq> 0 then ''[dongle] polaridade backlight: HIGH=ON''
                  else ''[dongle] polaridade backlight: LOW=ON'') })"

section \<open>The SD card\<close>

definition normalizeSdPath :: "string \<Rightarrow> string" where
  "normalizeSdPath rawPath =
     (let cleanPath = stripOuterQuotes rawPath in
      if cleanPath = [] then ''/'' else if hd cleanPath \<noteq> CHR ''/'' then ''/'' @ cleanPath else cleanPath)"

definition toFsPath :: "string \<Rightarrow> string" where
  "toFsPath cleanPath = (if cleanPath = ''/'' then kMountPoint else kMountPoint @ cleanPath)"

definition bus_text :: "sd_card \<Rightarrow> string" where
  "bus_text sdc = (if sd_oneBitMode sdc then ''1'' else ''4'')"

definition wrapper_dongle_sd_init where
  "wrapper_dongle_sd_init lib = do {
     ok \<leftarrow> sd_begin lib False;
     if \<not> ok then failWithCode lib SD_INIT_FAILED ''falha ao iniciar SD (verifique cartao, contato e pull-ups)''
     else do {
       sdc \<leftarrow> from_board bd_sd;
       succeed lib (snprintf 120 (''[dongle] SD inicializado ('' @ bus_text sdc @ ''-bit @ '' @
         num (sd_frequencyKHz sdc) @ ''kHz)'')) } }"

definition sd_status_line where
  "sd_status_line lib b dbStat =
     (let percent100 = (usedBytes lib b * 10000) div totalBytes lib b;
          (percentInt, percentFrac) = (if totalBytes lib b > 0 then (percent100 div 100, percent100 mod 100) else (0, 0))
      in snprintf 280 (''[dongle] SD '' @ cardTypeName lib b @ '' '' @ bus_text (bd_sd b) @ ''-bit@'' @
           num (sd_frequencyKHz (bd_sd b)) @ ''kHz total='' @ num (totalMB lib b) @ ''MB('' @ num (totalBytes lib b) @
           ''B) usado='' @ num (usedMB lib b) @ ''MB('' @ num (usedBytes lib b) @ ''B) uso='' @
           num percentInt @ ''.'' @ dec_pad 2 (unat percentFrac) @ ''% db='' @
           (case dbStat of None \<Rightarrow> ''ausente'' | Some st \<Rightarrow> ''presente'') @ ''('' @
           dec (case dbStat of None \<Rightarrow> 0 | Some st \<Rightarrow> st_size st) @ ''B)''))"

definition wrapper_dongle_sd_status where
  "wrapper_dongle_sd_status lib = do {
     ready \<leftarrow> sd_isReady;
     if \<not> ready then succeed lib ''[dongle] SD nao inicializado''
     else do {
       b \<leftarrow> from_board (\<lambda>b. b);
       dbStat \<leftarrow> from_out (fs_stat (sh_store lib) (kMountPoint @ ''/database/dongle.db''));
       succeed lib (sd_status_line lib b dbStat) } }"

definition wrapper_dongle_sd_wipe where
  "wrapper_dongle_sd_wipe lib = elevated_only lib
     ''isso apaga TUDO do cartao SD, banco de dados incluso. Rode antes: sudo -login <senha>'' (do {
     cx \<leftarrow> the_context;
     ready \<leftarrow> sd_isReady;
     if \<not> cx_espNow cx then failWithCode lib ESPNOW_NOT_READY ''espnow indisponivel para rebuild do banco''
     else if \<not> ready then failWithCode lib SD_NOT_READY ''SD nao inicializado''
     else do {
       open \<leftarrow> database_ready;
       only_if open (database (db_end (store_lib_of lib)));
       wiped \<leftarrow> wipeContents lib;
       if \<not> wiped then failWithCode lib SD_WIPE_FAILED ''falha ao apagar conteudo do SD''
       else do {
         mounted \<leftarrow> sd_begin lib False;
         if \<not> mounted then failWithCode lib SD_REINIT_FAILED ''SD limpo, mas falhou reinit''
         else if \<not> cx_database cx then succeed lib ''[dongle] SD limpo''
         else do {
           begun \<leftarrow> database (db_begin (store_lib_of lib) (cx_io cx));
           if \<not> begun then failWithCode lib SD_DB_RECREATE_FAILED ''SD limpo, mas falhou ao recriar database''
           else do {
             synced \<leftarrow> database (syncPeersFromManager (store_lib_of lib));
             only_if (\<not> synced)
               (warnWithCode lib DATABASE_PEER_SYNC_FAILED ''database recriado, mas falhou ao sincronizar peers'');
             succeed lib ''[dongle] SD limpo e database recriado'' } } } } })"

definition with_sd where
  "with_sd lib m = do {
     ready \<leftarrow> sd_isReady;
     if \<not> ready then failWithCode lib SD_NOT_READY ''SD nao inicializado'' else m }"

definition dir_line where
  "dir_line lib fsPath name w =
     (let st = fs_stat (sh_store lib) (fsPath @ ''/'' @ name) w;
          isDirectory = (case st of None \<Rightarrow> False | Some st \<Rightarrow> st_directory st)
      in snprintf 320 ((if isDirectory then ''[dir]'' else ''[file]'') @ '' '' @ name @ '' ('' @
           dec (case st of None \<Rightarrow> 0 | Some st \<Rightarrow> if isDirectory then 0 else st_size st) @ ''B)''))"

definition wrapper_dongle_sd_ls where
  "wrapper_dongle_sd_ls lib path = with_sd lib (do {
     let cleanPath = normalizeSdPath path;
     let fsPath = toFsPath cleanPath;
     dir \<leftarrow> from_out (fs_readdir (sh_store lib) (c_str fsPath));
     (case dir of
        None \<Rightarrow> failWithCode lib SD_PATH_NOT_FOUND (''diretorio nao encontrado: '' @ cleanPath)
      | Some names \<Rightarrow> do {
          printLine lib (''[sd] listando '' @ cleanPath);
          let names = filter (\<lambda>n. n \<noteq> ''.'' \<and> n \<noteq> ''..'') names;
          each (\<lambda>name. do { line \<leftarrow> from_out (dir_line lib fsPath name); printLine lib line }) names;
          only_if (names = []) (printLine lib ''[sd] (vazio)'');
          ret RESULT_OK }) })"

definition kMaxPrintBytes :: nat where "kMaxPrintBytes = 4096"

text \<open>The lines of the first 4096 octets without carriage returns, and the rest of the last one.\<close>

fun cat_lines :: "string \<Rightarrow> string \<Rightarrow> string list" where
  "cat_lines [] line = (if line = [] then [] else [line])"
| "cat_lines (ch # rest) line =
     (if ch = LF then line # cat_lines rest [] else if ch \<noteq> CR then cat_lines rest (line @ [ch]) else cat_lines rest line)"

text \<open>A path that is there, is no directory and can be opened.\<close>

definition file_content where
  "file_content lib fsPath w =
     (case fs_stat (sh_store lib) (c_str fsPath) w of
        None \<Rightarrow> None
      | Some st \<Rightarrow> if st_directory st then None
          else map_option (\<lambda>content. (st_size st, content)) (fs_read (sh_store lib) (c_str fsPath) w))"

definition wrapper_dongle_sd_cat where
  "wrapper_dongle_sd_cat lib path = with_sd lib (do {
     let cleanPath = normalizeSdPath path;
     file \<leftarrow> from_out (file_content lib (toFsPath cleanPath));
     (case file of
        None \<Rightarrow> failWithCode lib SD_PATH_NOT_FOUND (''arquivo nao encontrado: '' @ cleanPath)
      | Some (bytes_there, content) \<Rightarrow> do {
          printLine lib (snprintf 96 (''[sd] '' @ c_str cleanPath @ '' ('' @ dec bytes_there @ ''B)''));
          each (printLine lib) (cat_lines (take kMaxPrintBytes content) []);
          only_if (length content > kMaxPrintBytes)
            (printLine lib ''[sd] ... truncado (mostrando so os primeiros 4KB) ...'');
          ret RESULT_OK }) })"

definition wrapper_dongle_sd_rm where
  "wrapper_dongle_sd_rm lib path = with_sd lib (do {
     let cleanPath = normalizeSdPath path;
     let fsPath = toFsPath cleanPath;
     st \<leftarrow> from_out (fs_stat (sh_store lib) (c_str fsPath));
     (case st of
        None \<Rightarrow> failWithCode lib SD_PATH_NOT_FOUND (''arquivo nao encontrado: '' @ cleanPath)
      | Some st \<Rightarrow>
          if st_directory st then failWithCode lib SD_PATH_IS_DIRECTORY
            ''sd_rm so remove arquivos; use dongle -sd_wipe para limpar tudo''
          else do {
            removed \<leftarrow> act (fs_remove (sh_store lib) (c_str fsPath));
            if \<not> removed then failWithCode lib SD_FILE_REMOVE_FAILED (''falha ao remover '' @ cleanPath)
            else succeed lib (''[sd] removido: '' @ cleanPath) }) })"

definition wrapper_dongle_sd_mkdir where
  "wrapper_dongle_sd_mkdir lib path = with_sd lib (do {
     let cleanPath = normalizeSdPath path;
     made \<leftarrow> act (fs_mkdir (sh_store lib) (c_str (toFsPath cleanPath)));
     if \<not> made then failWithCode lib SD_MKDIR_FAILED (''falha ao criar diretorio '' @ cleanPath)
     else succeed lib (''[sd] diretorio criado: '' @ cleanPath) })"

definition writeToSdFile where
  "writeToSdFile lib pathArg textArg appending = with_sd lib (do {
     let cleanPath = normalizeSdPath pathArg;
     let fsPath = c_str (toFsPath cleanPath);
     opened \<leftarrow> act (fs_create (sh_store lib) fsPath appending);
     if \<not> opened then failWithCode lib SD_FILE_WRITE_FAILED (''falha ao abrir '' @ cleanPath @ '' para escrita'')
     else do {
       written \<leftarrow> act (fs_fwrite (sh_store lib) fsPath (stripOuterQuotes textArg));
       ended \<leftarrow> act (fs_fwrite (sh_store lib) fsPath [LF]);
       succeed lib (''[sd] '' @ (if appending then ''anexado em '' else ''escrito em '') @ cleanPath) } })"

definition wrapper_dongle_sd_write where
  "wrapper_dongle_sd_write lib path txt = writeToSdFile lib path txt False"

definition wrapper_dongle_sd_append where
  "wrapper_dongle_sd_append lib path txt = writeToSdFile lib path txt True"

definition wrapper_dongle_history where
  "wrapper_dongle_history lib limit = with_database lib ''history'' (do {
     (ok, output) \<leftarrow> database (readRecentCommands (store_lib_of lib) (limit_or 20 limit));
     printLine lib (if output \<noteq> [] then output else ''(sem historico)'');
     if \<not> ok then failWithCode lib DATABASE_QUERY_FAILED ''falha ao ler historico'' else ret RESULT_OK })"

section \<open>System\<close>

definition wrapper_dongle_reboot where
  "wrapper_dongle_reboot lib = do { printLine lib ''[dongle] reiniciando...''; perform (sh_restart lib); ret RESULT_OK }"

definition wrapper_dongle_info where
  "wrapper_dongle_info lib = do {
     heap \<leftarrow> from_out (sh_free_heap lib);
     now \<leftarrow> shell_millis lib;
     succeed lib (snprintf 220 (''[dongle] chip='' @ ci_model (sh_chip lib) @ '' rev='' @ dec (ci_revision (sh_chip lib)) @
       '' cores='' @ dec (ci_cores (sh_chip lib)) @ '' heap_livre='' @ num heap @ ''B flash='' @
       num (sh_flash_bytes lib div (1024 * 1024)) @ ''MB uptime='' @ num (now div 1000) @ ''s mac='' @
       macToText (sh_station_mac lib))) }"

definition wrapper_dongle_btp_v1 where
  "wrapper_dongle_btp_v1 lib = do {
     printLine lib ''[dongle] negociando sessao BTP v1 (aguardando HELLO por 2s)...'';
     now \<leftarrow> shell_millis lib;
     entered \<leftarrow> State (enterFromCommand (sh_mux lib) now);
     if \<not> entered then failWithCode lib SERIAL_SESSION_BUSY ''sessao serial ja esta negociando ou protocolada''
     else ret RESULT_OK }"

section \<open>The hub\<close>

definition parseSourceId :: "string \<Rightarrow> u32 option" where
  "parseSourceId txt =
     (let cleaned = stripOuterQuotes txt in
      if cleaned = [] then None
      else
        let (parsed, rest) = strtoul 0 (c_str cleaned) in
        if rest = [] then (if parsed = 0 then None else Some parsed)
        else
          let (parsed, rest) = strtoul 16 (c_str cleaned) in
          if rest \<noteq> [] \<or> scan_number 16 (c_str cleaned) = None then None
          else if parsed = 0 then None else Some parsed)"

definition source_id_usage :: string where
  "source_id_usage = ''source_id invalido (use 8 digitos hex, ex.: 33445566)''"

definition wrapper_hub_bind where
  "wrapper_hub_bind lib child peer =
     (case parseSourceId child of
        None \<Rightarrow> failWithCode lib INVALID_ARGUMENT source_id_usage
      | Some childSourceId \<Rightarrow>
          (case parseSourceId peer of
             None \<Rightarrow> failWithCode lib INVALID_ARGUMENT source_id_usage
           | Some robotId \<Rightarrow> do {
               ok \<leftarrow> State (\<lambda>h. case hub_bind childSourceId robotId (hb_bindings h) of
                       (table, ok) \<Rightarrow> (ok, h\<lparr>hb_bindings := table\<rparr>));
               if \<not> ok then failWithCode lib HUB_BIND_TABLE_FULL ''tabela de vinculo cheia''
               else succeed lib (snprintf 80 (''[hub] vinculo '' @ hex8 childSourceId @ '' -> '' @ hex8 robotId)) }))"

definition wrapper_hub_unbind where
  "wrapper_hub_unbind lib child =
     (case parseSourceId child of
        None \<Rightarrow> failWithCode lib INVALID_ARGUMENT source_id_usage
      | Some childSourceId \<Rightarrow> do {
          ok \<leftarrow> State (\<lambda>h. case hub_unbind childSourceId (hb_bindings h) of (table, ok) \<Rightarrow> (ok, h\<lparr>hb_bindings := table\<rparr>));
          if \<not> ok then failWithCode lib HUB_BINDING_NOT_FOUND ''esse filho nao esta vinculado''
          else succeed lib (snprintf 64 (''[hub] vinculo '' @ hex8 childSourceId @ '' removido'')) })"

definition wrapper_hub_list where
  "wrapper_hub_list lib = do {
     bindings \<leftarrow> gets (\<lambda>h. hub_enumerate False kMaxBindings (hb_bindings h));
     if bindings = [] then succeed lib ''[hub] nenhum vinculo (o TraceView envia hub -bind ao conectar um filho)''
     else do {
       each (\<lambda>b. printLine lib (snprintf 80 (''[hub] '' @ hex8 (b_child b) @ '' -> '' @
              hex8 (b_peer b)))) bindings;
       succeed lib (snprintf 80 (''[hub] '' @ dec (length bindings) @ '' de '' @ dec kMaxBindings @ '' slots em uso'')) } }"

definition hex_lower :: "nat \<Rightarrow> char" where "hex_lower d = tolower (hex_upper d)"

definition appendHex :: "string \<Rightarrow> bytes \<Rightarrow> string" where
  "appendHex out octets = out @ concat (map (\<lambda>b. [hex_lower (unat b div 16), hex_lower (unat b mod 16)]) octets)"

text \<open>The derivation fails only where the hash does; then the key stays the zeros of its buffer.\<close>

definition wrapper_hub_set_key_l where
  "wrapper_hub_set_key_l lib password = do {
     let cleaned = stripOuterQuotes password;
     if cleaned = [] then failWithCode lib INVALID_ARGUMENT ''senha vazia recusada''
     else do {
       let key = (case deriveKeyL (bytes_of cleaned) of None \<Rightarrow> replicate kKeyLength 0 | Some k \<Rightarrow> k);
       to_board (\<lambda>b. b\<lparr>bd_keys := setKeyL key (bd_keys b)\<rparr>);
       keys \<leftarrow> from_board bd_keys;
       persisted \<leftarrow> act (saveToNvs (sh_nvs lib) keys);
       let verify = (case verifyTagL key of None \<Rightarrow> replicate kVerifyLength 0 | Some v \<Rightarrow> v);
       only_if (\<not> persisted) (warnWithCode lib LINK_KEY_SAVE_FAILED
         ''chave em uso nesta sessao mas NAO gravada em NVS (sobrevive so ate o proximo reboot)'');
       succeed lib (''[hub] chave L configurada, verify_l='' @ appendHex [] verify) } }"

definition wrapper_hub_key_status where
  "wrapper_hub_key_status lib = do {
     keys \<leftarrow> from_board bd_keys;
     (case keyL keys of
        None \<Rightarrow> succeed lib ''[hub] chave L: nao configurada (rode hub -set_key_l)''
      | Some key \<Rightarrow>
          let verify = (case verifyTagL key of None \<Rightarrow> replicate kVerifyLength 0 | Some v \<Rightarrow> v)
          in succeed lib (''[hub] chave L: configurada, verify_l='' @ appendHex [] verify)) }"

definition manifest_lines :: "manifest_cache \<Rightarrow> string list" where
  "manifest_lines s =
     (case diagnostics s of
        (d, entries, pending) \<Rightarrow>
          [''[hub] manifest: prime='' @ num (dg_primeSent d) @ '' ingest_ok='' @ num (dg_ingestOk d) @
             '' ingest_fail='' @ num (dg_ingestFail d) @ '' reject='' @ num (dg_consumeRejected d),
           ''[hub] manifest: serve_rx='' @ num (dg_targetedRx d) @ '' serve_hit='' @ num (dg_targetedHit d) @
             '' serve_miss='' @ num (dg_targetedMiss d)] @
          map (\<lambda>(src, boot, attempts). ''[hub] manifest: pendente src='' @ hex8 src @ '' boot='' @ hex8 boot @
                 '' tentativas='' @ num attempts) pending @
          (if entries = [] then [''[hub] manifest: cache vazia (nenhum robo cacheado)'']
           else map (\<lambda>(src, boot, revision, topics, actions, size, online).
                  ''[hub] manifest: src='' @ hex8 src @ '' boot='' @ hex8 boot @ '' rev='' @ num revision @
                  '' topicos='' @ num topics @ '' acoes='' @ num actions @ '' bytes='' @ num size @
                  '' online='' @ (if online then ''1'' else ''0'')) entries))"

definition wrapper_hub_manifest where
  "wrapper_hub_manifest lib = do {
     manifests \<leftarrow> gets hb_manifests;
     each (\<lambda>line. printLine lib (snprintf 160 line)) (manifest_lines manifests);
     ret RESULT_OK }"

end
