(* ===== verification/Shell_Config.thy ===== *)
theory Shell_Config
  imports Dongle_Commands
begin

text \<open>
  lib/ShellConfig: the registered commands, what happens to a line on its way to TinyShell, and the
  record of the commands that were run. Here are also lib/HelpCommands and the commands that run other
  lines, \<open>dongle -run\<close> and \<open>dongle -run_script\<close>. A line that runs a line nests a call of the
  interpreter: \<open>depth\<close> is the number of calls the task's stack holds, and \<open>None\<close> says that it was
  not enough.
\<close>

section \<open>Help\<close>

definition wrapper_help_h where
  "wrapper_help_h lib = do {
     cx \<leftarrow> the_context;
     if \<not> cx_shell cx then failWithCode lib SHELL_NOT_READY ''shell nao configurada para help -h''
     else do {
       let modules = sh_complete lib [] 64;
       if modules = [] then succeed lib ''[help] nenhum modulo registrado''
       else do {
         printLine lib ''[help] modulos disponiveis:'';
         each (\<lambda>name. printLine lib (''- '' @ name)) (filter (\<lambda>n. n \<noteq> []) (map trimCopy modules));
         ret RESULT_OK } } }"

definition help_entry :: "string \<Rightarrow> string \<Rightarrow> string" where
  "help_entry moduleName entry =
     (let txt = trimCopy entry;
          txt = (if startsWith txt moduleName then trimCopy (drop (length moduleName) txt) else txt)
      in if txt \<noteq> [] \<and> hd txt = CHR ''-'' then trimCopy (tl txt) else txt)"

definition wrapper_help_l where
  "wrapper_help_l lib module = do {
     cx \<leftarrow> the_context;
     let moduleName = trimCopy module;
     let commands = sh_complete lib (moduleName @ '' -'') 96;
     if \<not> cx_shell cx then failWithCode lib SHELL_NOT_READY ''shell nao configurada para help -l''
     else if moduleName = [] then wrapper_help_h lib
     else if moduleName \<notin> set (map trimCopy (sh_complete lib moduleName 32)) then succeed lib ''[help] modulo nao encontrado''
     else if commands = [] then succeed lib ''[help] modulo nao encontrado ou sem comandos''
     else do {
       printLine lib (''[help] comandos do modulo '' @ moduleName @ '':'');
       each (\<lambda>txt. printLine lib (''- '' @ txt)) (filter (\<lambda>t. t \<noteq> []) (map (help_entry moduleName) commands));
       ret RESULT_OK } }"

definition quoted :: "string \<Rightarrow> string" where "quoted txt = [DQ] @ txt @ [DQ]"

definition help_lines :: "string list" where
  "help_lines =
    [''[help] comandos gerais'',
     ''Uso: <module> -<command> [args]'',
     ''Horario RTC local: dongle -clock'',
     ''Ajustar RTC local: dongle -set_clock '' @ quoted ''YYYY-MM-DD HH:MM:SS'' @ '' (ou '' @ quoted ''@epoch'' @ '')'',
     ''Exemplo local LCD: dongle -lcd '' @ quoted ''Ola dongle'',
     ''Se LCD nao aparecer: dongle -lcd_bl 1 e depois dongle -lcd_reinit'',
     ''Se LCD estiver invertido: dongle -lcd_rot 0..3'',
     ''Exemplo local LED: dongle -led 255, 0, 0'',
     ''Exemplo espnow unicast: espnow -send_to 1, '' @ quoted ''dongle -clock'',
     ''Exemplo espnow para todos: espnow -send_all '' @ quoted ''dongle -clock'',
     ''send_to/send_all so alcancam peer ja cadastrado do qual ja recebemos alguma mensagem (BTP precisa do boot_id dele)'',
     ''Executam o comando remotamente e respondem com a saida (aparece aqui como [cmd_result])'',
     ''Editar peer: espnow -update 1, '' @ quoted ''nome novo'' @ '', '' @ quoted ''descricao nova'',
     ''Encadear comandos: dongle -ping; dongle -clock'',
     ''Permissao (sudo): sudo -login <senha> eleva o usuario atual (serial, ou o peer ESP-NOW que mandou o comando)'',
     ''Elevacao fica so na RAM e sempre reseta quando o dongle liga; sudo -logout revoga, sudo -status consulta'',
     ''Comandos destrutivos exigem sudo -login antes: dongle -sd_wipe, database -rebuild, database -drop <tabela>, database -clear_logs'',
     ''Cartao SD: dongle -sd_ls <path> | -sd_cat <arquivo> | -sd_write/-sd_append <arquivo>, <texto> | -sd_rm <arquivo> | -sd_mkdir <path>'',
     ''Script (1 comando por linha no SD): dongle -run_script <arquivo>'',
     ''Historico rapido de comandos: dongle -history 20'',
     ''Sistema: dongle -info | dongle -reboot'',
     ''Sessao BTP v1 nesta porta: dongle -btp_v1 (ou o cliente manda BTP/1 ENTER <16 hex> direto); volta ao console com SESSION_CLOSE ou por timeout'',
     ''Vinculo de relay: hub -bind <filho>, <robo> aponta um filho do console para um robo; hub -unbind <filho> desfaz'',
     ''Os dois ids sao source_id em hex (ex.: 33445566); sem vinculo, o filho fala com o proprio dongle'',
     ''Chave do enlace (canal C): hub -set_key_l <senha> deriva e grava a chave em NVS; hub -key_status mostra se ha chave carregada'',
     ''Sem chave L, o radio nao sela nem abre nada: heartbeat, comando remoto e presenca ficam recusados e contados (espnow -stats, campo auth=)'',
     ''Banco sqlite no SD: database -status | database -tables | database -read peers, 20'',
     ''Logs comando+saida: database -logs 20'',
     ''Historico ESP-NOW RX/TX: database -espnow_history 30'',
     ''Manutencao do banco: database -count <tabela> | -delete <tabela>, <condicao> | -vacuum | -export <tabela> | -clear_logs (requer sudo)'']"

definition alias_lines :: "string list" where
  "alias_lines =
     (if kAliases = [] then []
      else ''Alias de comando (primeira palavra digitada -> prefixo real):'' #
           map (\<lambda>(short, expands). ''  '' @ short @ '' = '' @ expands) kAliases)"

definition wrapper_help_e where
  "wrapper_help_e lib = do { each (printLine lib) (help_lines @ alias_lines); ret RESULT_OK }"

section \<open>The registered commands\<close>

datatype (plugins only: code size) shell_call =
    HelpH | HelpL string | HelpE
  | DonglePing | DongleClock | DongleSetClock string | DongleRun string
  | DongleLed int int int | DongleLedOff | DongleLcd string | DongleLcdClear | DongleLcdRot int | DongleLcdRotGet
  | DongleLcdBl int | DongleLcdBlInv int | DongleLcdReinit
  | DongleSdInit | DongleSdStatus | DongleSdWipe | DongleSdLs string | DongleSdCat string | DongleSdRm string
  | DongleSdMkdir string | DongleSdWrite string string | DongleSdAppend string string
  | DongleHistory int | DongleRunScript string | DongleReboot | DongleInfo | DongleBtpV1
  | HubBindCall string string | HubUnbindCall string | HubList | HubSetKeyL string | HubKeyStatus | HubManifest
  | EspnowList | EspnowAdd string string string | EspnowRemove int | EspnowRemoveMac string
  | EspnowUpdate int string string | EspnowSendTo int string | EspnowSendAll string | EspnowStats
  | DatabaseInit | DatabaseStatus | DatabaseTables | DatabaseRead string int | DatabaseLogs int
  | DatabaseEspnowHistory int | DatabaseDrop string | DatabaseRebuild | DatabaseBackup | DatabaseCount string
  | DatabaseDelete string string | DatabaseVacuum | DatabaseExport string | DatabaseClearLogs
  | DatabaseExec string | DatabaseExecNoLog string
  | SudoLogin string | SudoLogout | SudoStatus

section \<open>Lines that run lines\<close>

definition returned :: "('p, 'n, 'd, 'e, 'o) command \<Rightarrow> ('p, 'n, 'd, 'e, 'o, shell_result option) shell_op" where
  "returned m = do { result \<leftarrow> m; ret (Some result) }"

text \<open>\<open>run\<close> is the nested call of \<open>run_command_line\<close>.\<close>

definition wrapper_dongle_run ::
    "('p, 'n, 'd, 'e, 'o, 'c, 'x, 'call) shell_lib \<Rightarrow> (string \<Rightarrow> ('p, 'n, 'd, 'e, 'o, unit option) shell_op) \<Rightarrow>
     string \<Rightarrow> ('p, 'n, 'd, 'e, 'o, shell_result option) shell_op" where
  "wrapper_dongle_run lib run command = do {
     cx \<leftarrow> the_context;
     if \<not> cx_shell cx then returned (failWithCode lib SHELL_NOT_READY ''shell nao configurada para executar comando local'')
     else do {
       finished \<leftarrow> run (stripOuterQuotes command);
       ret (map_option (\<lambda>_. RESULT_OK) finished) } }"

text \<open>\<open>fgets\<close> with a buffer of 256: up to 255 octets, or up to and with the next newline. The
  argument counts the octets that the buffer still takes.\<close>

fun fgets_lines :: "nat \<Rightarrow> string \<Rightarrow> string \<Rightarrow> string list" where
  "fgets_lines room acc [] = (if acc = [] then [] else [acc])"
| "fgets_lines room acc (ch # rest) =
     (if ch = LF \<or> room \<le> 1 then (acc @ [ch]) # fgets_lines 255 [] rest else fgets_lines (room - 1) (acc @ [ch]) rest)"

fun run_lines ::
    "(string \<Rightarrow> ('p, 'n, 'd, 'e, 'o, unit option) shell_op) \<Rightarrow> string list \<Rightarrow> nat \<Rightarrow> nat \<Rightarrow>
     ('p, 'n, 'd, 'e, 'o, (nat \<times> nat) option) shell_op" where
  "run_lines run [] executedCount skippedCount = ret (Some (executedCount, skippedCount))"
| "run_lines run (rawLine # rest) executedCount skippedCount =
     (let line = trimCopy (c_str rawLine) in
      if line = [] \<or> hd line = CHR ''#'' then run_lines run rest executedCount (skippedCount + 1)
      else do {
        finished \<leftarrow> run line;
        (case finished of None \<Rightarrow> ret None | Some u \<Rightarrow> run_lines run rest (executedCount + 1) skippedCount) })"

text \<open>The content is that of the file when it is opened: a script whose commands write its own file is
  outside the model.\<close>

definition wrapper_dongle_run_script ::
    "('p, 'n, 'd, 'e, 'o, 'c, 'x, 'call) shell_lib \<Rightarrow> (string \<Rightarrow> ('p, 'n, 'd, 'e, 'o, unit option) shell_op) \<Rightarrow>
     string \<Rightarrow> ('p, 'n, 'd, 'e, 'o, shell_result option) shell_op" where
  "wrapper_dongle_run_script lib run path = do {
     ready \<leftarrow> sd_isReady;
     cx \<leftarrow> the_context;
     let cleanPath = normalizeSdPath path;
     file \<leftarrow> from_out (file_content lib (toFsPath cleanPath));
     if \<not> ready then returned (failWithCode lib SD_NOT_READY ''SD nao inicializado'')
     else if \<not> cx_shell cx then returned (failWithCode lib SHELL_NOT_READY ''shell nao configurada para rodar script'')
     else case file of
       None \<Rightarrow> returned (failWithCode lib SD_PATH_NOT_FOUND (''script nao encontrado: '' @ cleanPath))
     | Some (bytes_there, content) \<Rightarrow> do {
         printLine lib (''[dongle] executando script: '' @ cleanPath);
         counts \<leftarrow> run_lines run (fgets_lines 255 [] content) 0 0;
         (case counts of
            None \<Rightarrow> ret None
          | Some (executedCount, skippedCount) \<Rightarrow>
              returned (succeed lib (snprintf 96 (''[dongle] script concluido: '' @ dec executedCount @ '' comando(s), '' @
                dec skippedCount @ '' linha(s) ignorada(s)'')))) } }"

primrec call_command ::
    "('p, 'n, 'd, 'e, 'o, 'c, 'x, shell_call) shell_lib \<Rightarrow> (string \<Rightarrow> ('p, 'n, 'd, 'e, 'o, unit option) shell_op) \<Rightarrow>
     shell_call \<Rightarrow> ('p, 'n, 'd, 'e, 'o, shell_result option) shell_op" where
  "call_command lib run (DongleRun line) = wrapper_dongle_run lib run line"
| "call_command lib run (DongleRunScript path) = wrapper_dongle_run_script lib run path"
| "call_command lib run HelpH = returned (wrapper_help_h lib)"
| "call_command lib run (HelpL module) = returned (wrapper_help_l lib module)"
| "call_command lib run HelpE = returned (wrapper_help_e lib)"
| "call_command lib run DonglePing = returned (wrapper_dongle_ping lib)"
| "call_command lib run DongleClock = returned (wrapper_dongle_clock lib)"
| "call_command lib run (DongleSetClock t) = returned (wrapper_dongle_set_clock lib t)"
| "call_command lib run (DongleLed r g b) = returned (wrapper_dongle_led lib r g b)"
| "call_command lib run DongleLedOff = returned (wrapper_dongle_led_off lib)"
| "call_command lib run (DongleLcd t) = returned (wrapper_dongle_lcd lib t)"
| "call_command lib run DongleLcdClear = returned (wrapper_dongle_lcd_clear lib)"
| "call_command lib run (DongleLcdRot n) = returned (wrapper_dongle_lcd_rot lib n)"
| "call_command lib run DongleLcdRotGet = returned (wrapper_dongle_lcd_rot_get lib)"
| "call_command lib run (DongleLcdBl n) = returned (wrapper_dongle_lcd_bl lib n)"
| "call_command lib run (DongleLcdBlInv n) = returned (wrapper_dongle_lcd_bl_inv lib n)"
| "call_command lib run DongleLcdReinit = returned (wrapper_dongle_lcd_reinit lib)"
| "call_command lib run DongleSdInit = returned (wrapper_dongle_sd_init lib)"
| "call_command lib run DongleSdStatus = returned (wrapper_dongle_sd_status lib)"
| "call_command lib run DongleSdWipe = returned (wrapper_dongle_sd_wipe lib)"
| "call_command lib run (DongleSdLs p) = returned (wrapper_dongle_sd_ls lib p)"
| "call_command lib run (DongleSdCat p) = returned (wrapper_dongle_sd_cat lib p)"
| "call_command lib run (DongleSdRm p) = returned (wrapper_dongle_sd_rm lib p)"
| "call_command lib run (DongleSdMkdir p) = returned (wrapper_dongle_sd_mkdir lib p)"
| "call_command lib run (DongleSdWrite p t) = returned (wrapper_dongle_sd_write lib p t)"
| "call_command lib run (DongleSdAppend p t) = returned (wrapper_dongle_sd_append lib p t)"
| "call_command lib run (DongleHistory n) = returned (wrapper_dongle_history lib n)"
| "call_command lib run DongleReboot = returned (wrapper_dongle_reboot lib)"
| "call_command lib run DongleInfo = returned (wrapper_dongle_info lib)"
| "call_command lib run DongleBtpV1 = returned (wrapper_dongle_btp_v1 lib)"
| "call_command lib run (HubBindCall c p) = returned (wrapper_hub_bind lib c p)"
| "call_command lib run (HubUnbindCall c) = returned (wrapper_hub_unbind lib c)"
| "call_command lib run HubList = returned (wrapper_hub_list lib)"
| "call_command lib run (HubSetKeyL p) = returned (wrapper_hub_set_key_l lib p)"
| "call_command lib run HubKeyStatus = returned (wrapper_hub_key_status lib)"
| "call_command lib run HubManifest = returned (wrapper_hub_manifest lib)"
| "call_command lib run EspnowList = returned (wrapper_espnow_list lib)"
| "call_command lib run (EspnowAdd m n d) = returned (wrapper_espnow_add lib m n d)"
| "call_command lib run (EspnowRemove i) = returned (wrapper_espnow_remove lib i)"
| "call_command lib run (EspnowRemoveMac m) = returned (wrapper_espnow_remove_mac lib m)"
| "call_command lib run (EspnowUpdate i n d) = returned (wrapper_espnow_update lib i n d)"
| "call_command lib run (EspnowSendTo i c) = returned (wrapper_espnow_send_to lib i c)"
| "call_command lib run (EspnowSendAll c) = returned (wrapper_espnow_send_all lib c)"
| "call_command lib run EspnowStats = returned (wrapper_espnow_stats lib)"
| "call_command lib run DatabaseInit = returned (wrapper_database_init lib)"
| "call_command lib run DatabaseStatus = returned (wrapper_database_status lib)"
| "call_command lib run DatabaseTables = returned (wrapper_database_tables lib)"
| "call_command lib run (DatabaseRead t n) = returned (wrapper_database_read lib t n)"
| "call_command lib run (DatabaseLogs n) = returned (wrapper_database_logs lib n)"
| "call_command lib run (DatabaseEspnowHistory n) = returned (wrapper_database_espnow_history lib n)"
| "call_command lib run (DatabaseDrop t) = returned (wrapper_database_drop lib t)"
| "call_command lib run DatabaseRebuild = returned (wrapper_database_rebuild lib)"
| "call_command lib run DatabaseBackup = returned (wrapper_database_backup lib)"
| "call_command lib run (DatabaseCount t) = returned (wrapper_database_count lib t)"
| "call_command lib run (DatabaseDelete t c) = returned (wrapper_database_delete lib t c)"
| "call_command lib run DatabaseVacuum = returned (wrapper_database_vacuum lib)"
| "call_command lib run (DatabaseExport t) = returned (wrapper_database_export lib t)"
| "call_command lib run DatabaseClearLogs = returned (wrapper_database_clear_logs lib)"
| "call_command lib run (DatabaseExec q) = returned (database_exec lib q)"
| "call_command lib run (DatabaseExecNoLog q) = returned (execNoLog lib q)"
| "call_command lib run (SudoLogin p) = returned (wrapper_sudo_login lib p)"
| "call_command lib run SudoLogout = returned (wrapper_sudo_logout lib)"
| "call_command lib run SudoStatus = returned (wrapper_sudo_status lib)"

text \<open>\<open>TinyShell::run_command_line\<close>: its texts go to the callback that \<open>bind\<close> set.\<close>

primrec run_command_line ::
    "('p, 'n, 'd, 'e, 'o, 'c, 'x, shell_call) shell_lib \<Rightarrow> nat \<Rightarrow> string \<Rightarrow> ('p, 'n, 'd, 'e, 'o, unit option) shell_op" where
  "run_command_line lib 0 = (\<lambda>line. ret None)"
| "run_command_line lib (Suc depth) = (\<lambda>line.
     case sh_resolve lib line of (before, call, after) \<Rightarrow> do {
       each appendShellResponse before;
       (case call of
          None \<Rightarrow> ret (Some ())
        | Some call \<Rightarrow> do {
            result \<leftarrow> call_command lib (run_command_line lib depth) call;
            (case result of
               None \<Rightarrow> ret None
             | Some result \<Rightarrow> do { each appendShellResponse (after result); ret (Some ()) }) }) })"

section \<open>A line\<close>

fun split_semicolons :: "bool \<Rightarrow> bool \<Rightarrow> string \<Rightarrow> string \<Rightarrow> string list" where
  "split_semicolons inDoubleQuote inSingleQuote current [] = [current]"
| "split_semicolons inDoubleQuote inSingleQuote current (ch # line) =
     (let flipDouble = (ch = DQ \<and> \<not> inSingleQuote);
          flipSingle = (\<not> flipDouble \<and> ch = SQ \<and> \<not> inDoubleQuote);
          inDoubleQuote = (inDoubleQuote \<noteq> flipDouble);
          inSingleQuote = (inSingleQuote \<noteq> flipSingle)
      in if ch = CHR '';'' \<and> \<not> inDoubleQuote \<and> \<not> inSingleQuote
         then current # split_semicolons inDoubleQuote inSingleQuote [] line
         else split_semicolons inDoubleQuote inSingleQuote (current @ [ch]) line)"

definition splitTopLevelSemicolons :: "string \<Rightarrow> string list" where
  "splitTopLevelSemicolons line = split_semicolons False False [] line"

definition applyEspNowSendToDefault :: "string \<Rightarrow> string" where
  "applyEspNowSendToDefault command =
     (let prefix = ''espnow -send_to ''; args = trimCopy (drop (length prefix) command) in
      if startsWith command prefix \<and> args \<noteq> [] \<and> CHR '','' \<notin> set args
      then ''espnow -send_all '' @ args else command)"

definition normalizeCommand :: "string \<Rightarrow> string" where
  "normalizeCommand command = applyEspNowSendToDefault (resolve_alias (trimCopy command))"

section \<open>Running a line\<close>

definition not_configured :: string where
  "not_configured = ''erro('' @ dec (error_value SHELL_NOT_READY) @ ''/'' @ error_name SHELL_NOT_READY @ '') Shell nao configurada.''"

definition databaseExecPrefix :: string where "databaseExecPrefix = ''database -exec''"
definition databaseExecNoLogPrefix :: string where "databaseExecNoLogPrefix = ''database -exec_nolog''"

text \<open>What follows \<open>prefix\<close> where it is the whole line or a blank comes after it.\<close>

definition argument_of :: "string \<Rightarrow> string \<Rightarrow> string option" where
  "argument_of prefix line =
     (if line = prefix \<or> startsWith line (prefix @ '' '') then Some (trimCopy (drop (length prefix) line)) else None)"

definition run_exec where
  "run_exec lib usage exec sql =
     (if sql = [] then failWithCode lib INVALID_ARGUMENT (''uso: '' @ usage @ '' '' @ quoted ''<sql>'') else exec sql)"

text \<open>The dispatch of a normalized line: whether it is one that is not persisted, and TinyShell's text.\<close>

definition dispatch_line ::
    "('p, 'n, 'd, 'e, 'o, 'c, 'x, shell_call) shell_lib \<Rightarrow> nat \<Rightarrow> string \<Rightarrow> ('p, 'n, 'd, 'e, 'o, (bool \<times> string) option) shell_op" where
  "dispatch_line lib depth normalLine =
     (case argument_of databaseExecNoLogPrefix normalLine of
        Some sql \<Rightarrow> do { result \<leftarrow> run_exec lib databaseExecNoLogPrefix (execNoLog lib) sql; ret (Some (True, [])) }
      | None \<Rightarrow>
          (case argument_of databaseExecPrefix normalLine of
             Some sql \<Rightarrow> do { result \<leftarrow> run_exec lib databaseExecPrefix (database_exec lib) sql; ret (Some (True, [])) }
           | None \<Rightarrow> do {
               finished \<leftarrow> run_command_line lib depth normalLine;
               output \<leftarrow> shellResponseBuffer;
               ret (map_option (\<lambda>_. (False, output)) finished) }))"

definition combined_text :: "string \<Rightarrow> string \<Rightarrow> string" where
  "combined_text printed output =
     (let txt = (if output = [] then printed else if printed = [] then output else printed @ [LF] @ output)
      in if txt = [] then ''(sem saida textual)'' else txt)"

definition kMaxPersistedOutput :: nat where "kMaxPersistedOutput = 512"

definition persisted_text :: "string \<Rightarrow> string" where
  "persisted_text txt =
     (if length txt > kMaxPersistedOutput
      then take kMaxPersistedOutput txt @ [LF] @ ''... (saida truncada no log)'' else txt)"

definition plain_text :: "('p, 'n, 'd, 'e, 'o, 'c, 'x, 'call) shell_lib \<Rightarrow> string \<Rightarrow> string" where
  "plain_text lib txt = (let style = ml_style (sh_mux lib) in if sy_enabled style then sy_strip style txt else txt)"

definition persist_line ::
    "('p, 'n, 'd, 'e, 'o, 'c, 'x, 'call) shell_lib \<Rightarrow> string \<Rightarrow> string \<Rightarrow> string \<Rightarrow> ('p, 'n, 'd, 'e, 'o, unit) shell_op" where
  "persist_line lib normalLine txt source = do {
     ready \<leftarrow> database_ready;
     only_if ready (do {
       logged \<leftarrow> database (logCommandWithOutput (store_lib_of lib) (Some (c_str normalLine))
         (Some (c_str (persisted_text txt))) (Some (c_str source)));
       only_if (\<not> logged) (warnWithCode lib DATABASE_COMMAND_LOG_FAILED ''falha ao persistir log de comando'') }) }"

text \<open>The returned text and the one for \<open>outFullText\<close>.\<close>

definition run_single ::
    "('p, 'n, 'd, 'e, 'o, 'c, 'x, shell_call) shell_lib \<Rightarrow> nat \<Rightarrow> string \<Rightarrow> string \<Rightarrow> string \<Rightarrow>
     ('p, 'n, 'd, 'e, 'o, (string \<times> string) option) shell_op" where
  "run_single lib depth command source userId = do {
     cx \<leftarrow> the_context;
     let normalLine = normalizeCommand command;
     if \<not> cx_shell cx then ret (Some (not_configured, not_configured))
     else do {
       lastLine \<leftarrow> from_board bd_lastCommandLine;
       to_board (\<lambda>b. b\<lparr>bd_lastCommandLine := normalLine\<rparr>);
       resetBuffers;
       setCurrentUserId (if userId = [] then source else userId);
       dispatched \<leftarrow> dispatch_line lib depth normalLine;
       (case dispatched of
          None \<Rightarrow> ret None
        | Some (skipCommandPersistence, output) \<Rightarrow> do {
            printed \<leftarrow> commandOutputBuffer;
            let fullText = plain_text lib (combined_text printed output);
            only_if (\<not> skipCommandPersistence \<and> normalLine \<noteq> lastLine) (persist_line lib normalLine fullText source);
            resetBuffers;
            ret (Some (plain_text lib output, fullText)) }) } }"

text \<open>The output and the full text of the segments so far, and those of one more.\<close>

definition joined_texts :: "string \<times> string \<Rightarrow> string \<times> string \<Rightarrow> string \<times> string" where
  "joined_texts combined segment =
     ((if fst segment = [] then fst combined
       else if fst combined = [] then fst segment else fst combined @ [LF] @ fst segment),
      (if snd combined = [] then snd segment else snd combined @ [LF] @ snd segment))"

lemma split_semicolons_lengths:
  "part \<in> set (split_semicolons dq qs current line) \<Longrightarrow> length part \<le> length current + length line"
proof (induction dq qs current line rule: split_semicolons.induct)
  case (2 dq qs current ch line)
  let ?dq = "dq \<noteq> (ch = DQ \<and> \<not> qs)"
  let ?qs = "qs \<noteq> (\<not> (ch = DQ \<and> \<not> qs) \<and> ch = SQ \<and> \<not> dq)"
  show ?case
  proof (cases "ch = CHR '';'' \<and> \<not> ?dq \<and> \<not> ?qs")
    case True
    then have "split_semicolons dq qs current (ch # line) = current # split_semicolons ?dq ?qs [] line"
      unfolding split_semicolons.simps Let_def by (rule if_P)
    with "2.prems" have "part = current \<or> part \<in> set (split_semicolons ?dq ?qs [] line)"
      by (simp only: list.set insert_iff)
    with "2.IH"(1) [OF refl refl refl refl True] show ?thesis by auto
  next
    case False
    then have "split_semicolons dq qs current (ch # line) = split_semicolons ?dq ?qs (current @ [ch]) line"
      unfolding split_semicolons.simps Let_def by (rule if_not_P)
    with "2.prems" have "part \<in> set (split_semicolons ?dq ?qs (current @ [ch]) line)" by (simp only:)
    with "2.IH"(2) [OF refl refl refl refl False] show ?thesis by auto
  qed
qed simp

lemma split_semicolons_shorter:
  "length (split_semicolons dq qs current line) > 1 \<Longrightarrow> part \<in> set (split_semicolons dq qs current line) \<Longrightarrow>
   length part < length current + length line"
proof (induction dq qs current line rule: split_semicolons.induct)
  case (2 dq qs current ch line)
  let ?dq = "dq \<noteq> (ch = DQ \<and> \<not> qs)"
  let ?qs = "qs \<noteq> (\<not> (ch = DQ \<and> \<not> qs) \<and> ch = SQ \<and> \<not> dq)"
  show ?case
  proof (cases "ch = CHR '';'' \<and> \<not> ?dq \<and> \<not> ?qs")
    case True
    then have "split_semicolons dq qs current (ch # line) = current # split_semicolons ?dq ?qs [] line"
      unfolding split_semicolons.simps Let_def by (rule if_P)
    with "2.prems"(2) have "part = current \<or> part \<in> set (split_semicolons ?dq ?qs [] line)"
      by (simp only: list.set insert_iff)
    with split_semicolons_lengths [of part ?dq ?qs "[]" line] show ?thesis by auto
  next
    case False
    then have "split_semicolons dq qs current (ch # line) = split_semicolons ?dq ?qs (current @ [ch]) line"
      unfolding split_semicolons.simps Let_def by (rule if_not_P)
    with "2.IH"(2) [OF refl refl refl refl False] "2.prems" show ?thesis by simp
  qed
qed simp

lemma segments_shorter:
  "length (splitTopLevelSemicolons command) > 1 \<Longrightarrow> part \<in> set (splitTopLevelSemicolons command) \<Longrightarrow>
   length part < length command"
  using split_semicolons_shorter [of False False "[]" command part] by (simp add: splitTopLevelSemicolons_def)

lemma length_trimCopy: "length (trimCopy s) \<le> length s"
  by (simp add: trimCopy_def length_trim)

fun longest :: "string list \<Rightarrow> nat" where
  "longest [] = 0"
| "longest (x # xs) = max (length x) (longest xs)"

lemma longest_less: "0 < n \<Longrightarrow> (\<And>x. x \<in> set xs \<Longrightarrow> length x < n) \<Longrightarrow> longest xs < n"
  by (induction xs) auto

lemma longest_segments:
  assumes "1 < length (splitTopLevelSemicolons command)"
  shows "longest (splitTopLevelSemicolons command) < length command"
proof (rule longest_less)
  from assms have "hd (splitTopLevelSemicolons command) \<in> set (splitTopLevelSemicolons command)" by (intro hd_in_set) auto
  from segments_shorter [OF assms this] show "0 < length command" by linarith
qed (rule segments_shorter [OF assms])

function (sequential) runLine ::
    "('p, 'n, 'd, 'e, 'o, 'c, 'x, shell_call) shell_lib \<Rightarrow> nat \<Rightarrow> string \<Rightarrow> string \<Rightarrow> string \<Rightarrow>
     ('p, 'n, 'd, 'e, 'o, (string \<times> string) option) shell_op"
  and run_segments where
  "runLine lib depth command source userId =
     (let segments = splitTopLevelSemicolons command in
      if length segments > 1 then run_segments lib depth segments source userId ([], [])
      else run_single lib depth command source userId)"
| "run_segments lib depth [] source userId combined = ret (Some combined)"
| "run_segments lib depth (segment # segments) source userId combined =
     (if trimCopy segment = [] then run_segments lib depth segments source userId combined
      else do {
        texts \<leftarrow> runLine lib depth (trimCopy segment) source userId;
        (case texts of
           None \<Rightarrow> ret None
         | Some texts \<Rightarrow> run_segments lib depth segments source userId (joined_texts combined texts)) })"
  by pat_completeness auto

termination
proof (relation "measures
    [\<lambda>x. case x of Inl (lib, depth, command, _) \<Rightarrow> length command | Inr (lib, depth, segments, _) \<Rightarrow> longest segments,
     \<lambda>x. case x of Inl _ \<Rightarrow> 0 | Inr (lib, depth, segments, _) \<Rightarrow> Suc (length segments)]", goal_cases)
  case 1 show ?case by simp
next
  case (2 lib depth command source userId segments)
  then show ?case using longest_segments [of command] by simp
next
  case (3 lib depth segment segments source userId combined)
  then show ?case by (simp add: max_def)
next
  case (4 lib depth segment segments source userId combined)
  then show ?case using length_trimCopy [of segment] by (auto simp: max_def)
next
  case (5 lib depth segment segments source userId combined)
  then show ?case by (auto simp: max_def)
qed

declare runLine.simps [simp del]

section \<open>Binding\<close>

text \<open>\<open>bind\<close>; TinyShell's output callback is then \<open>appendShellResponse\<close>.\<close>

definition shell_bind ::
    "('p, 'n, 'd, 'e, 'o, 'c, 'x, 'call) shell_lib \<Rightarrow> shell_context \<Rightarrow> ('p, 'n, 'd, 'e, 'o, bool) shell_op" where
  "shell_bind lib cx =
     (if \<not> cx_shell cx \<or> \<not> cx_espNow cx \<or> \<not> cx_peripherals cx \<or> \<not> cx_lcdDashboard cx \<or> \<not> cx_database cx \<or> \<not> cx_io cx
      then ret False
      else do { setContext cx; perform (sh_lcd_begin lib); ret True })"

end
