(* ===== verification/Command_Frame.thy ===== *)
theory Command_Frame
  imports Store_Frame Shell_Config
begin

text \<open>
  What a shell line can and cannot change. One relation between the hub before and after holds for every
  registered command, for every script and for every line: the subscriptions, the publisher, the
  identities and the manifests stay as they are, nobody is elevated but by the password, the lock of the
  store is given back, and in a session nothing but a log line of the store reaches the port.
\<close>

section \<open>The relation\<close>

text \<open>\<open>elevating\<close> admits more elevated users, \<open>leaking\<close> a lock that is kept.\<close>

definition same_hub :: "('p, 'n, 'd, 'e, 'o) system \<Rightarrow> ('p, 'n, 'd, 'e, 'o) system \<Rightarrow> bool" where
  "same_hub h h' \<longleftrightarrow> hb_subs h' = hb_subs h \<and> hb_records h' = hb_records h \<and> hb_publisher h' = hb_publisher h \<and>
     hb_peers h' = hb_peers h \<and> hb_manifests h' = hb_manifests h"

definition port_frame ::
    "('p, 'n, 'd, 'e, 'o, 'c, 'x, 'call) shell_lib \<Rightarrow> ('p, 'n, 'd, 'e, 'o) system \<Rightarrow> ('p, 'n, 'd, 'e, 'o) system \<Rightarrow> bool" where
  "port_frame lib h h' \<longleftrightarrow> (isProtocolled (sh_mux lib) h \<longrightarrow>
     isProtocolled (sh_mux lib) h' \<and> log_steps (store_lib_of lib) (mw_port (hb_mux h)) (mw_port (hb_mux h')))"

definition board_frame :: "bool \<Rightarrow> bool \<Rightarrow> 'o board \<Rightarrow> 'o board \<Rightarrow> bool" where
  "board_frame elevating leaking b b' \<longleftrightarrow> bd_context b' = bd_context b \<and>
     (\<not> elevating \<longrightarrow> bd_elevatedUsers b' \<subseteq> bd_elevatedUsers b) \<and>
     se_mutex (bd_store b') = se_mutex (bd_store b) \<and> (\<not> leaking \<longrightarrow> se_locks (bd_store b') = se_locks (bd_store b))"

definition frame ::
    "('p, 'n, 'd, 'e, 'o, 'c, 'x, 'call) shell_lib \<Rightarrow> bool \<Rightarrow> bool \<Rightarrow>
     ('p, 'n, 'd, 'e, 'o) system \<Rightarrow> ('p, 'n, 'd, 'e, 'o) system \<Rightarrow> bool" where
  "frame lib elevating leaking h h' \<longleftrightarrow>
     same_hub h h' \<and> port_frame lib h h' \<and> board_frame elevating leaking (board_of h) (board_of h')"

lemma board_frame_refl [simp]: "board_frame elevating leaking b b" by (simp add: board_frame_def)

lemmas frame_defs = frame_def same_hub_def port_frame_def board_frame_def board_of_def

interpretation shell: step_relation "frame lib elevating leaking" for lib elevating leaking
  by unfold_locales (auto simp: frame_defs intro: log_steps_trans)

abbreviation "framed lib elevating leaking \<equiv> state_io_rel (frame lib elevating leaking)"

text \<open>Reading the hardware's random numbers and clock leaves the variables of the shell alone.\<close>

definition hardware_only :: "('p, 'n, 'd, 'e, 'o, 'c, 'x, 'call) shell_lib \<Rightarrow> bool" where
  "hardware_only lib \<longleftrightarrow> (\<forall>b a b'. ml_random (sh_mux lib) b = (a, b') \<longrightarrow> board_frame False False b b')"

section \<open>Access\<close>

lemma port_frame_cong:
  "sm_session (hb_mux h') = sm_session (hb_mux h) \<Longrightarrow> mw_port (hb_mux h') = mw_port (hb_mux h) \<Longrightarrow> port_frame lib h h'"
  by (simp add: port_frame_def isProtocolled_def)

lemma frame_on_board: "board_frame elevating leaking (board_of h) (f (board_of h)) \<Longrightarrow> frame lib elevating leaking h (on_board f h)"
  by (auto simp: frame_def same_hub_def on_board_def on_mux_def board_of_def intro: port_frame_cong)

lemma framed_reads:
  "framed lib elevating leaking (from_board f)" "framed lib elevating leaking (from_out g)" "framed lib elevating leaking the_context"
  by (auto simp: from_board_def from_out_def the_context_def intro: shell.gets)

lemma framed_act: "framed lib elevating leaking (act f)" "framed lib elevating leaking (perform g)"
  by (auto simp: act_def perform_def state_io_rel_def board_frame_def split: prod.splits intro!: frame_on_board)

lemma framed_to_board:
  assumes "\<And>b. bd_store (f b) = bd_store b" "\<And>b. bd_context (f b) = bd_context b" "\<And>b. bd_elevatedUsers (f b) = bd_elevatedUsers b"
  shows "framed lib elevating leaking (to_board f)"
  by (auto simp: to_board_def modify_def state_io_rel_def board_frame_def assms intro!: frame_on_board)

lemma framed_boards:
  "framed lib elevating leaking resetBuffers" "framed lib elevating leaking (appendShellResponse txt)"
  "framed lib elevating leaking (setCurrentUserId user)" "framed lib elevating leaking currentUserId"
  "framed lib elevating leaking commandOutputBuffer" "framed lib elevating leaking shellResponseBuffer"
  "framed lib elevating leaking (to_board (\<lambda>b. b\<lparr>bd_commandOutput := bd_commandOutput b @ line @ [LF]\<rparr>))"
  "framed lib elevating leaking (to_board (\<lambda>b. b\<lparr>bd_lastCommandLine := line\<rparr>))"
  "framed lib elevating leaking (to_board (\<lambda>b. b\<lparr>bd_keys := k b\<rparr>))"
  "framed lib elevating leaking (on_sd g)" "framed lib elevating leaking (isElevated user)" "framed lib elevating leaking elevatedCount"
  by (auto simp: resetBuffers_def appendShellResponse_def setCurrentUserId_def currentUserId_def commandOutputBuffer_def
      shellResponseBuffer_def on_sd_def isElevated_def elevatedCount_def intro!: framed_to_board framed_reads)

lemma framed_echo:
  "framed lib elevating leaking (do {
     console \<leftarrow> gets (isConsole (sh_mux lib));
     only_if (b \<and> console)
       (modify (on_mux (\<lambda>m. m\<lparr>mw_port := echo_line (wl_write (sh_mux lib)) line (mw_port m)\<rparr>))) })"
  by (auto simp: state_io_rel_def frame_defs isConsole_def isProtocolled_def on_mux_def)

lemma framed_printLine: "framed lib elevating leaking (printLine lib txt)"
proof -
  have assoc: "do { console \<leftarrow> gets p; only_if (b \<and> console) m; n } = do { do { console \<leftarrow> gets p; only_if (b \<and> console) m }; n }"
    for p b m and n :: "('s, unit) State_Monad.state" by (simp add: bind_assoc)
  show ?thesis
    unfolding printLine_def Let_def assoc
    by (rule framed_echo framed_boards framed_reads framed_act shell.rules)+
qed

lemma framed_results:
  "framed lib elevating leaking (failWithCode lib code detail)" "framed lib elevating leaking (warnWithCode lib code detail)"
  "framed lib elevating leaking (succeed lib line)"
  unfolding failWithCode_def warnWithCode_def succeed_def by (rule framed_printLine shell.rules)+

lemma run_database:
  assumes "run_state (database m) h = (a, h')"
  obtains s t where "run_state m s = (a, t)" "s = store.extend (bd_store (board_of h)) (store_env.fields (mw_port (hb_mux h)))"
    "h' = on_board (\<lambda>b. b\<lparr>bd_store := store.truncate t\<rparr>) (on_mux (\<lambda>m. m\<lparr>mw_port := se_port t\<rparr>) h)"
  using assms by (auto simp: database_def split: prod.splits)

lemma framed_logs:
  fixes lib :: "('p, 'n, 'd, 'e, 'o, 'c, 'x, 'call) shell_lib"
  assumes "state_io_rel (only_logs (store_lib_of lib)) m"
  shows "framed lib elevating True (database m)"
proof (rule relI)
  fix h h' :: "('p, 'n, 'd, 'e, 'o) system" and a
  assume "run_state (database m) h = (a, h')"
  then show "frame lib elevating True h h'"
    by (rule run_database) (auto dest!: relD [OF assms] simp: only_logs_def frame_defs on_board_def on_mux_def isProtocolled_def
        store.defs store_env.defs)
qed

lemma framed_database:
  fixes lib :: "('p, 'n, 'd, 'e, 'o, 'c, 'x, 'call) shell_lib"
  assumes "keeps (store_lib_of lib) m"
  shows "framed lib elevating leaking (database m)"
proof (rule relI)
  fix h h' :: "('p, 'n, 'd, 'e, 'o) system" and a
  assume "run_state (database m) h = (a, h')"
  then show "frame lib elevating leaking h h'"
    by (rule run_database) (auto dest!: relD [OF assms] simp: balanced_def only_logs_def frame_defs on_board_def on_mux_def
        isProtocolled_def store.defs store_env.defs)
qed

lemma framed_registry: "framed lib elevating leaking (registry f)"
  by (auto simp: registry_def state_io_rel_def board_frame_def Let_def split: prod.splits intro!: frame_on_board)

lemma framed_manager: "framed lib elevating leaking (from_manager f)" "framed lib elevating leaking database_ready"
  "framed lib elevating leaking sd_isReady"
  unfolding from_manager_def database_ready_def sd_isReady_def by (rule framed_reads shell.rules)+

lemma framed_bindings:
  "framed lib elevating leaking (State (\<lambda>h. case f (hb_bindings h) of (table, ok) \<Rightarrow> (ok, h\<lparr>hb_bindings := table\<rparr>)))"
  by (auto simp: state_io_rel_def frame_defs isProtocolled_def split: prod.splits)

lemma framed_enter:
  assumes "hardware_only lib"
  shows "framed lib elevating leaking (State (enterFromCommand (sh_mux lib) now))"
proof (rule relI)
  fix h a h'
  assume run: "run_state (State (enterFromCommand (sh_mux lib) now)) h = (a, h')"
  obtain a1 w1 where w1: "ml_random (sh_mux lib) (board_of h) = (a1, w1)" by fastforce
  obtain a2 w2 where w2: "ml_random (sh_mux lib) w1 = (a2, w2)" by fastforce
  from assms w1 w2 have "board_frame False False (board_of h) w1" "board_frame False False w1 w2"
    unfolding hardware_only_def by blast+
  then have "board_frame elevating leaking (board_of h) w2" by (auto simp: board_frame_def)
  then show "frame lib elevating leaking h h'"
    using run w1 w2
    by (auto simp: enterFromCommand_def Let_def start_negotiation_def writeConsoleText_def writeAll_def frame_def same_hub_def
        port_frame_def isConsole_def isProtocolled_def on_mux_def board_of_def split: if_splits prod.splits)
qed

lemmas framed = framed_printLine framed_results framed_boards framed_reads framed_act framed_registry framed_manager
  framed_bindings

section \<open>The commands\<close>

lemma framed_sd: "framed lib elevating leaking (sd_unmount lib)" "framed lib elevating leaking (sd_begin lib mode)"
  "framed lib elevating leaking (wipeContents lib)"
proof -
  show unmount: "framed lib elevating leaking (sd_unmount lib)"
    unfolding sd_unmount_def by (rule framed shell.rules)+
  have tries: "framed lib elevating leaking (sd_try lib attempts)" for attempts
  proof (induction attempts)
    case (Cons x attempts)
    then show ?case by (cases x) (simp, (rule framed unmount shell.rules | assumption)+)
  qed (simp add: shell.ret)
  show "framed lib elevating leaking (sd_begin lib mode)"
    unfolding sd_begin_def by (rule framed unmount tries shell.rules)+
  show "framed lib elevating leaking (wipeContents lib)"
    unfolding wipeContents_def by (rule framed shell.rules)+
qed

lemmas framed_store = keeps_store [THEN framed_database]

text \<open>The rules that show it for a command, after its definition is unfolded.\<close>

lemma framed_millis: "framed lib elevating leaking (shell_millis lib)"
  unfolding shell_millis_def by (rule framed_act)

lemmas command_rules = framed framed_millis framed_sd framed_store shell.rules

lemma framed_help_h: "framed lib elevating leaking (wrapper_help_h lib)"
  unfolding wrapper_help_h_def Let_def by (rule command_rules)+

lemma framed_help_l: "framed lib elevating leaking (wrapper_help_l lib module)"
  unfolding wrapper_help_h_def wrapper_help_l_def Let_def by (rule command_rules)+

lemma framed_help_e: "framed lib elevating leaking (wrapper_help_e lib)"
  unfolding wrapper_help_e_def Let_def by (rule command_rules)+

lemma framed_dongle_ping: "framed lib elevating leaking (wrapper_dongle_ping lib)"
  unfolding wrapper_dongle_ping_def Let_def by (rule command_rules)+

lemma framed_dongle_clock: "framed lib elevating leaking (wrapper_dongle_clock lib)"
  unfolding wrapper_dongle_clock_def Let_def by (rule command_rules)+

lemma framed_dongle_set_clock: "framed lib elevating leaking (wrapper_dongle_set_clock lib t)"
  unfolding wrapper_dongle_set_clock_def Let_def by (rule command_rules)+

lemma framed_dongle_led: "framed lib elevating leaking (wrapper_dongle_led lib r g b)"
  unfolding with_peripherals_def wrapper_dongle_led_def Let_def by (rule command_rules)+

lemma framed_dongle_led_off: "framed lib elevating leaking (wrapper_dongle_led_off lib)"
  unfolding with_peripherals_def wrapper_dongle_led_off_def Let_def by (rule command_rules)+

lemma framed_dongle_lcd: "framed lib elevating leaking (wrapper_dongle_lcd lib t)"
  unfolding dashboard_ready_def with_peripherals_def wrapper_dongle_lcd_def Let_def by (rule command_rules)+

lemma framed_dongle_lcd_clear: "framed lib elevating leaking (wrapper_dongle_lcd_clear lib)"
  unfolding dashboard_ready_def with_peripherals_def wrapper_dongle_lcd_clear_def Let_def by (rule command_rules)+

lemma framed_dongle_lcd_rot: "framed lib elevating leaking (wrapper_dongle_lcd_rot lib n)"
  unfolding begin_dashboard_def with_peripherals_def wrapper_dongle_lcd_rot_def Let_def by (rule command_rules)+

lemma framed_dongle_lcd_rot_get: "framed lib elevating leaking (wrapper_dongle_lcd_rot_get lib)"
  unfolding with_peripherals_def wrapper_dongle_lcd_rot_get_def Let_def by (rule command_rules)+

lemma framed_dongle_lcd_bl: "framed lib elevating leaking (wrapper_dongle_lcd_bl lib n)"
  unfolding with_peripherals_def wrapper_dongle_lcd_bl_def Let_def by (rule command_rules)+

lemma framed_dongle_lcd_bl_inv: "framed lib elevating leaking (wrapper_dongle_lcd_bl_inv lib n)"
  unfolding with_peripherals_def wrapper_dongle_lcd_bl_inv_def Let_def by (rule command_rules)+

lemma framed_dongle_lcd_reinit: "framed lib elevating leaking (wrapper_dongle_lcd_reinit lib)"
  unfolding begin_dashboard_def with_peripherals_def wrapper_dongle_lcd_reinit_def Let_def by (rule command_rules)+

lemma framed_dongle_sd_init: "framed lib elevating leaking (wrapper_dongle_sd_init lib)"
  unfolding wrapper_dongle_sd_init_def Let_def by (rule command_rules)+

lemma framed_dongle_sd_status: "framed lib elevating leaking (wrapper_dongle_sd_status lib)"
  unfolding wrapper_dongle_sd_status_def Let_def by (rule command_rules)+

lemma framed_dongle_sd_wipe: "framed lib elevating leaking (wrapper_dongle_sd_wipe lib)"
  unfolding elevated_only_def wrapper_dongle_sd_wipe_def Let_def by (rule command_rules)+

lemma framed_dongle_sd_ls: "framed lib elevating leaking (wrapper_dongle_sd_ls lib p)"
  unfolding with_sd_def wrapper_dongle_sd_ls_def Let_def by (rule command_rules)+

lemma framed_dongle_sd_cat: "framed lib elevating leaking (wrapper_dongle_sd_cat lib p)"
  unfolding with_sd_def wrapper_dongle_sd_cat_def Let_def by (rule command_rules)+

lemma framed_dongle_sd_rm: "framed lib elevating leaking (wrapper_dongle_sd_rm lib p)"
  unfolding with_sd_def wrapper_dongle_sd_rm_def Let_def by (rule command_rules)+

lemma framed_dongle_sd_mkdir: "framed lib elevating leaking (wrapper_dongle_sd_mkdir lib p)"
  unfolding with_sd_def wrapper_dongle_sd_mkdir_def Let_def by (rule command_rules)+

lemma framed_dongle_sd_write: "framed lib elevating leaking (wrapper_dongle_sd_write lib p t)"
  unfolding with_sd_def wrapper_dongle_sd_write_def writeToSdFile_def Let_def by (rule command_rules)+

lemma framed_dongle_sd_append: "framed lib elevating leaking (wrapper_dongle_sd_append lib p t)"
  unfolding with_sd_def wrapper_dongle_sd_append_def writeToSdFile_def Let_def by (rule command_rules)+

lemma framed_dongle_history: "framed lib elevating leaking (wrapper_dongle_history lib n)"
  unfolding with_database_def wrapper_dongle_history_def Let_def by (rule command_rules)+

lemma framed_dongle_reboot: "framed lib elevating leaking (wrapper_dongle_reboot lib)"
  unfolding wrapper_dongle_reboot_def Let_def by (rule command_rules)+

lemma framed_dongle_info: "framed lib elevating leaking (wrapper_dongle_info lib)"
  unfolding wrapper_dongle_info_def Let_def by (rule command_rules)+

lemma framed_hub_bind: "framed lib elevating leaking (wrapper_hub_bind lib c p)"
  unfolding wrapper_hub_bind_def Let_def by (rule command_rules)+

lemma framed_hub_unbind: "framed lib elevating leaking (wrapper_hub_unbind lib c)"
  unfolding wrapper_hub_unbind_def Let_def by (rule command_rules)+

lemma framed_hub_list: "framed lib elevating leaking (wrapper_hub_list lib)"
  unfolding wrapper_hub_list_def Let_def by (rule command_rules)+

lemma framed_hub_set_key_l: "framed lib elevating leaking (wrapper_hub_set_key_l lib p)"
  unfolding wrapper_hub_set_key_l_def Let_def by (rule command_rules)+

lemma framed_hub_key_status: "framed lib elevating leaking (wrapper_hub_key_status lib)"
  unfolding wrapper_hub_key_status_def Let_def by (rule command_rules)+

lemma framed_hub_manifest: "framed lib elevating leaking (wrapper_hub_manifest lib)"
  unfolding wrapper_hub_manifest_def Let_def by (rule command_rules)+

lemma framed_espnow_list: "framed lib elevating leaking (wrapper_espnow_list lib)"
  unfolding wrapper_espnow_list_def Let_def by (rule command_rules)+

lemma framed_espnow_add: "framed lib elevating leaking (wrapper_espnow_add lib m n d)"
  unfolding wrapper_espnow_add_def Let_def by (rule command_rules)+

lemma framed_espnow_remove: "framed lib elevating leaking (wrapper_espnow_remove lib i)"
  unfolding forget_peer_def wrapper_espnow_remove_def Let_def by (rule command_rules)+

lemma framed_espnow_remove_mac: "framed lib elevating leaking (wrapper_espnow_remove_mac lib m)"
  unfolding forget_peer_def wrapper_espnow_remove_mac_def Let_def by (rule command_rules)+

lemma framed_espnow_update: "framed lib elevating leaking (wrapper_espnow_update lib i n d)"
  unfolding wrapper_espnow_update_def Let_def by (rule command_rules)+

lemma framed_espnow_send_to: "framed lib elevating leaking (wrapper_espnow_send_to lib i c)"
  unfolding log_outgoing_def notify_lcd_def sendShellCommandRequest_def wrapper_espnow_send_to_def Let_def by (rule command_rules)+

lemma framed_espnow_send_all: "framed lib elevating leaking (wrapper_espnow_send_all lib c)"
  unfolding log_outgoing_def notify_lcd_def sendShellCommandRequest_def send_one_def wrapper_espnow_send_all_def Let_def by (rule command_rules)+

lemma framed_espnow_stats: "framed lib elevating leaking (wrapper_espnow_stats lib)"
  unfolding wrapper_espnow_stats_def Let_def by (rule command_rules)+

lemma framed_database_init: "framed lib elevating leaking (wrapper_database_init lib)"
  unfolding wrapper_database_init_def Let_def by (rule command_rules)+

lemma framed_database_status: "framed lib elevating leaking (wrapper_database_status lib)"
  unfolding print_outcome_def with_database_def wrapper_database_status_def Let_def by (rule command_rules)+

lemma framed_database_tables: "framed lib elevating leaking (wrapper_database_tables lib)"
  unfolding print_outcome_def with_database_def wrapper_database_tables_def Let_def by (rule command_rules)+

lemma framed_database_read: "framed lib elevating leaking (wrapper_database_read lib t n)"
  unfolding print_outcome_def with_database_def wrapper_database_read_def Let_def by (rule command_rules)+

lemma framed_database_drop: "framed lib elevating leaking (wrapper_database_drop lib t)"
  unfolding elevated_only_def with_database_def wrapper_database_drop_def Let_def by (rule command_rules)+

lemma framed_database_rebuild: "framed lib elevating leaking (wrapper_database_rebuild lib)"
  unfolding elevated_only_def with_database_def wrapper_database_rebuild_def Let_def by (rule command_rules)+

lemma framed_database_backup: "framed lib elevating leaking (wrapper_database_backup lib)"
  unfolding print_outcome_def with_database_def wrapper_database_backup_def Let_def by (rule command_rules)+

lemma framed_database_count: "framed lib elevating leaking (wrapper_database_count lib t)"
  unfolding with_database_def wrapper_database_count_def Let_def by (rule command_rules)+

lemma framed_database_delete: "framed lib elevating leaking (wrapper_database_delete lib t c)"
  unfolding with_database_def wrapper_database_delete_def Let_def by (rule command_rules)+

lemma framed_database_vacuum: "framed lib elevating leaking (wrapper_database_vacuum lib)"
  unfolding print_outcome_def with_database_def wrapper_database_vacuum_def Let_def by (rule command_rules)+

lemma framed_database_export: "framed lib elevating leaking (wrapper_database_export lib t)"
  unfolding print_outcome_def with_database_def wrapper_database_export_def Let_def by (rule command_rules)+

lemma framed_database_clear_logs: "framed lib elevating leaking (wrapper_database_clear_logs lib)"
  unfolding elevated_only_def print_outcome_def with_database_def wrapper_database_clear_logs_def Let_def by (rule command_rules)+

lemma framed_database_exec: "framed lib elevating leaking (database_exec lib q)"
  unfolding database_exec_def print_outcome_def with_database_def Let_def by (rule command_rules)+

lemma framed_execNoLog: "framed lib elevating leaking (execNoLog lib q)"
  unfolding execNoLog_def print_outcome_def with_database_def Let_def by (rule command_rules)+

lemma framed_sudo_status: "framed lib elevating leaking (wrapper_sudo_status lib)"
  unfolding wrapper_sudo_status_def Let_def by (rule command_rules)+

lemmas framed_commands =
  framed_help_h framed_help_l framed_help_e framed_dongle_ping
  framed_dongle_clock framed_dongle_set_clock framed_dongle_led framed_dongle_led_off
  framed_dongle_lcd framed_dongle_lcd_clear framed_dongle_lcd_rot framed_dongle_lcd_rot_get
  framed_dongle_lcd_bl framed_dongle_lcd_bl_inv framed_dongle_lcd_reinit framed_dongle_sd_init
  framed_dongle_sd_status framed_dongle_sd_wipe framed_dongle_sd_ls framed_dongle_sd_cat
  framed_dongle_sd_rm framed_dongle_sd_mkdir framed_dongle_sd_write framed_dongle_sd_append
  framed_dongle_history framed_dongle_reboot framed_dongle_info framed_hub_bind
  framed_hub_unbind framed_hub_list framed_hub_set_key_l framed_hub_key_status
  framed_hub_manifest framed_espnow_list framed_espnow_add framed_espnow_remove
  framed_espnow_remove_mac framed_espnow_update framed_espnow_send_to framed_espnow_send_all
  framed_espnow_stats framed_database_init framed_database_status framed_database_tables
  framed_database_read framed_database_drop framed_database_rebuild framed_database_backup
  framed_database_count framed_database_delete framed_database_vacuum framed_database_export
  framed_database_clear_logs framed_database_exec framed_execNoLog framed_sudo_status

text \<open>The commands that need more: a login with the right password, the two readers of the logs, and the
  command that opens a session.\<close>

lemma framed_sudo_logout: "framed lib elevating leaking (wrapper_sudo_logout lib)"
proof -
  have revoke: "framed lib elevating leaking (sudo_revoke user)" for user
    by (auto simp: sudo_revoke_def to_board_def modify_def state_io_rel_def board_frame_def intro!: frame_on_board)
  show ?thesis unfolding wrapper_sudo_logout_def by (rule revoke command_rules)+
qed

lemma framed_sudo_login:
  assumes "elevating \<or> stripOuterQuotes password \<noteq> SUDO_PASSWORD"
  shows "framed lib elevating leaking (wrapper_sudo_login lib password)"
proof -
  have elevate: "framed lib elevating leaking (sudo_elevate user (stripOuterQuotes password))" for user
    using assms
    by (auto simp: shell.refl sudo_elevate_def to_board_def modify_def state_io_rel_def board_frame_def intro!: frame_on_board)
  show ?thesis unfolding wrapper_sudo_login_def by (rule elevate command_rules)+
qed

lemma framed_log_readers:
  "framed lib elevating True (wrapper_database_logs lib limit)"
  "framed lib elevating True (wrapper_database_espnow_history lib limit)"
  unfolding wrapper_database_logs_def wrapper_database_espnow_history_def with_database_def print_outcome_def
  by (rule logs_readers [THEN framed_logs] command_rules)+

lemma framed_dongle_btp_v1: "hardware_only lib \<Longrightarrow> framed lib elevating leaking (wrapper_dongle_btp_v1 lib)"
  unfolding wrapper_dongle_btp_v1_def by (rule framed_enter command_rules | assumption)+

section \<open>Lines\<close>

definition quiet_call :: "bool \<Rightarrow> bool \<Rightarrow> shell_call \<Rightarrow> bool" where
  "quiet_call elevating leaking call \<longleftrightarrow>
     (elevating \<or> (\<forall>p. call = SudoLogin p \<longrightarrow> stripOuterQuotes p \<noteq> SUDO_PASSWORD)) \<and>
     (leaking \<or> (\<forall>n. call \<noteq> DatabaseLogs n \<and> call \<noteq> DatabaseEspnowHistory n))"

definition resolves_quietly :: "('p, 'n, 'd, 'e, 'o, 'c, 'x, shell_call) shell_lib \<Rightarrow> bool \<Rightarrow> bool \<Rightarrow> bool" where
  "resolves_quietly lib elevating leaking \<longleftrightarrow>
     (\<forall>line before call after. sh_resolve lib line = (before, Some call, after) \<longrightarrow> quiet_call elevating leaking call)"

lemma framed_run_lines:
  assumes "\<And>line. framed lib elevating leaking (run line)"
  shows "framed lib elevating leaking (run_lines run content a b)"
proof (induction content arbitrary: a b)
  case (Cons line content)
  then show ?case unfolding run_lines.simps Let_def by (intro shell.rules assms)
qed (simp add: shell.ret)

lemma framed_nested:
  assumes "\<And>line. framed lib elevating leaking (run line)"
  shows "framed lib elevating leaking (wrapper_dongle_run lib run line)"
    and "framed lib elevating leaking (wrapper_dongle_run_script lib run line)"
  unfolding wrapper_dongle_run_def wrapper_dongle_run_script_def returned_def Let_def
  by (rule assms framed_run_lines command_rules)+

lemma framed_returned: "framed lib elevating leaking m \<Longrightarrow> framed lib elevating leaking (returned m)"
  unfolding returned_def by (rule shell.rules | assumption)+

lemma framed_call:
  assumes "hardware_only lib" and "\<And>line. framed lib elevating leaking (run line)" and "quiet_call elevating leaking call"
  shows "framed lib elevating leaking (call_command lib run call)"
  using assms(3)
  by (cases call; simp only: call_command.simps)
    (auto simp: quiet_call_def intro!: framed_returned framed_commands framed_nested framed_sudo_login framed_sudo_logout
      framed_log_readers framed_dongle_btp_v1 assms(1,2))


lemma framed_run_command_line:
  assumes "hardware_only lib" "resolves_quietly lib elevating leaking"
  shows "framed lib elevating leaking (run_command_line lib depth line)"
proof (induction depth arbitrary: line)
  case (Suc depth)
  obtain before call after where resolved: "sh_resolve lib line = (before, call, after)" by (cases "sh_resolve lib line")
  have call: "framed lib elevating leaking (call_command lib (run_command_line lib depth) c)" if "call = Some c" for c
  proof -
    from assms(2) resolved that have "quiet_call elevating leaking c" unfolding resolves_quietly_def by blast
    then show ?thesis by (rule framed_call [OF assms(1) Suc.IH])
  qed
  show ?case
    unfolding run_command_line.simps resolved prod.case
    by (rule call framed_boards shell.rules | assumption)+
qed (simp add: shell.ret)

lemma framed_dispatch:
  assumes "hardware_only lib" "resolves_quietly lib elevating leaking"
  shows "framed lib elevating leaking (dispatch_line lib depth line)"
  unfolding dispatch_line_def run_exec_def
  by (rule framed_run_command_line [OF assms] framed_commands command_rules)+

lemma framed_run_single:
  assumes "hardware_only lib" "resolves_quietly lib elevating leaking"
  shows "framed lib elevating leaking (run_single lib depth command source userId)"
  unfolding run_single_def persist_line_def Let_def
  by (rule framed_dispatch [OF assms] command_rules)+

lemma framed_lines:
  "hardware_only lib \<Longrightarrow> resolves_quietly lib elevating leaking \<Longrightarrow>
     framed lib elevating leaking (runLine lib depth command source userId)"
  "hardware_only lib \<Longrightarrow> resolves_quietly lib elevating leaking \<Longrightarrow>
     framed lib elevating leaking (run_segments lib depth segments source userId combined)"
proof (induction lib depth command source userId and lib depth segments source userId combined
    rule: runLine_run_segments.induct [case_names line none segment])
  case (line lib depth command source userId)
  then show ?case
    by (auto simp del: runLine.simps simp: runLine.simps [of lib depth command] Let_def framed_run_single)
next
  case (segment lib depth segment segments source userId combined)
  show ?case
  proof (cases "trimCopy segment = []")
    case False
    have "framed lib elevating leaking (runLine lib depth (trimCopy segment) source userId)"
      using segment.IH(2) False segment.prems by blast
    moreover have "framed lib elevating leaking (run_segments lib depth segments source userId (joined_texts combined texts))" for texts
      using segment.IH(3) False segment.prems by blast
    ultimately show ?thesis using False
      by (simp del: runLine.simps) (rule shell.rules | assumption)+
  qed (use segment in simp)
qed (simp add: shell.ret)

lemma quiet_always: "resolves_quietly lib True True"
  by (simp add: resolves_quietly_def quiet_call_def)

lemma runLine_frame:
  assumes "hardware_only lib" "resolves_quietly lib elevating leaking"
    and "run_state (runLine lib depth command source userId) h = (texts, h')"
  shows "frame lib elevating leaking h h'"
  by (rule relD [OF framed_lines(1) [OF assms(1,2)] assms(3)])

end
