(* ===== verification/Shell_Demo.thy ===== *)
theory Shell_Demo
  imports Shell_Config Serial_Mux_Demo
begin

text \<open>A concrete board on which the properties of the shell are instantiated: the multiplexer's demo
  dongle, an SQLite that answers every statement with no rows, an SD card with one script that runs
  itself, and an interpreter that knows five lines. The outside world is the list of what was done.\<close>

type_synonym demo_out = "string list"
type_synonym demo_system = "(bytes \<times> bytes, demo_node, unit, bytes, demo_out) system"

definition shell_demo_mux :: "(bytes \<times> bytes, demo_node, unit, bytes, demo_out board, unit, unit) mux_lib" where
  "shell_demo_mux = \<lparr>wl_overhead = 32, wl_cobs = \<lambda>frame cap. Some frame, wl_write = \<lambda>bs (inp, out). (length bs, inp, out @ bs),
     ml_available = \<lambda>(inp, out). inp \<noteq> [], ml_read = \<lambda>(inp, out). (case inp of [] \<Rightarrow> (None, inp, out) | b # bs \<Rightarrow> (Some b, bs, out)),
     ml_node = demo_node_api, ml_source_id = \<lambda>n. 100, ml_boot_id = \<lambda>n. 1, ml_reserve = \<lambda>n. (Some 7, n),
     ml_decoder = \<lparr>dc_reset = \<lambda>d. d, dc_push = \<lambda>b d. (DeFrame (demo_frame b), d)\<rparr>,
     ml_editor = \<lparr>ed_reset = \<lambda>e. [], ed_feed = \<lambda>bs e. e @ bs, ed_poll = \<lambda>out e. (None, out @ chars_of e, []),
       ed_writeResponse = \<lambda>t out e. (out @ t, e), ed_refreshLine = \<lambda>out e. (out @ ''$ '', e), ed_setPrompt = \<lambda>t e. e,
       ed_addHistory = \<lambda>t e. e, ed_buffered = length\<rparr>,
     ml_codec = demo_codec,
     ml_writer = \<lparr>wo_begin = \<lambda>header n. None, wo_put_raw_source_info = \<lambda>bs w. None, wo_put_raw_records = \<lambda>a b w. None, wo_finish = \<lambda>w. None\<rparr>,
     ml_style = \<lparr>sy_enabled = False, sy_strip = \<lambda>t. t, sy_classify = \<lambda>t. (), sy_output = (), sy_sgr = \<lambda>c. [], sy_reset = []\<rparr>,
     ml_millis = Pair 5, ml_random = Pair 4, ml_relay = \<lambda>addr frame. Pair True,
     ml_run_line = \<lambda>line a b. Pair ''ok''\<rparr>"

definition shell_demo_radio :: "demo_out radio_api" where
  "shell_demo_radio =
     \<lparr>ra_nvs_init = Pair True, ra_create_netif = Pair True, ra_wifi_init = Pair True, ra_wifi_start = Pair True,
      ra_set_channel = \<lambda>c w. w, ra_now_init = Pair True, ra_now_deinit = \<lambda>w. w, ra_start_tx = Pair True,
      ra_stop_tx = \<lambda>w. w, ra_destroy_tx = \<lambda>w. w, ra_is_peer = \<lambda>m w. False, ra_add_peer = \<lambda>m c e. Pair True,
      ra_set_rate = \<lambda>m w. w, ra_del_peer = \<lambda>m. Pair True\<rparr>"

definition kDemoScript :: string where "kDemoScript = ''/sdcard/loop''"

definition shell_demo_store :: "(bytes \<times> bytes, demo_out) store_lib" where
  "shell_demo_store =
     \<lparr>sl_write = \<lambda>bs (inp, out). (length bs, inp, out @ bs), sl_radio = shell_demo_radio, sl_take = \<lambda>n. Pair True,
      sl_time = Pair 7, sl_millis = Pair 5, sl_localtime = \<lambda>f t. None, sq_initialize = Pair True,
      sq_open = \<lambda>path w. ((True, True), w @ [path]), sq_no_lookaside = \<lambda>w. w, sq_close = \<lambda>w. w, sq_errmsg = \<lambda>w. ''erro'',
      sq_exec = \<lambda>sql n w. (\<lparr>sa_rc = SqOk, sa_rows = [], sa_error = None\<rparr>, w @ [sql]), sq_select = \<lambda>sql. Pair None,
      sq_run = \<lambda>sql vs w. (True, w @ [sql]), sq_last_insert_rowid = \<lambda>w. 1, sq_changes = \<lambda>w. 0,
      sq_backup_open = \<lambda>path. Pair True, sq_backup_init = Pair True, sq_backup_copy = Pair True, sq_backup_close = \<lambda>w. w,
      fs_stat = \<lambda>path w. if path = kDemoScript then Some \<lparr>st_directory = False, st_size = 23\<rparr> else None,
      fs_mkdir = \<lambda>path. Pair False, fs_remove = \<lambda>path. Pair True, fs_rmdir = \<lambda>path. Pair True, fs_readdir = \<lambda>path w. None,
      fs_read = \<lambda>path w. if path = kDemoScript then Some (''dongle -run_script loop'' @ [LF]) else None,
      fs_create = \<lambda>path a. Pair True, fs_fwrite = \<lambda>path t w. (length t, w)\<rparr>"

fun demo_resolve :: "string \<Rightarrow> string list \<times> shell_call option \<times> (shell_result \<Rightarrow> string list)" where
  "demo_resolve line =
     ([], if line = ''dongle -ping'' then Some DonglePing
          else if line = ''sudo -login 1'' then Some (SudoLogin ''1'')
          else if line = ''database -init'' then Some DatabaseInit
          else if line = ''sudo -logout'' then Some SudoLogout
          else if line = ''dongle -run_script loop'' then Some (DongleRunScript ''loop'') else None,
      \<lambda>result. [])"

definition demo_shell ::
    "(bytes \<times> bytes, demo_node, unit, bytes, demo_out, unit, unit, shell_call) shell_lib" where
  "demo_shell =
     \<lparr>sh_mux = shell_demo_mux, sh_store = shell_demo_store, sh_classify = \<lambda>t. MsgOutput, sh_lcd_ready = \<lambda>w. False,
      sh_lcd_show = \<lambda>t c w. w, sh_lcd_clear = \<lambda>w. w, sh_lcd_begin = \<lambda>w. w, sh_lcd_notifyTx = \<lambda>ok w. w,
      sh_setLedColor = \<lambda>r g b w. w, sh_ledOff = \<lambda>w. w, sh_writeLcd = \<lambda>t. Pair True, sh_clearLcd = Pair True,
      sh_setLcdBacklight = \<lambda>on w. w, sh_setLcdBacklightPolarity = \<lambda>on w. w, sh_reinitLcd = Pair True,
      sh_lcdRotation = \<lambda>w. 0, sh_setLcdRotation = \<lambda>r w. w, sh_mktime = \<lambda>d. 0, sh_settimeofday = \<lambda>t. Pair True,
      sh_mount = \<lambda>one freq. Pair True, sh_unmount = \<lambda>w. w, sh_card_mmc = \<lambda>w. False, sh_card_csd = \<lambda>w. 0,
      sh_fat_info = \<lambda>w. None, sh_chip = \<lparr>ci_model = ''ESP32-S3'', ci_revision = 0, ci_cores = 2\<rparr>, sh_flash_bytes = 0,
      sh_station_mac = (1, 2, 3, 4, 5, 6), sh_free_heap = \<lambda>w. 0, sh_restart = \<lambda>w. w,
      sh_nvs = \<lparr>nvs_flash_init = Pair ESP_OK, nvs_flash_erase = \<lambda>w. w, nvs_open = \<lambda>name rw w. (ESP_OK, 1, w),
        nvs_set_blob = \<lambda>h key b. Pair ESP_OK, nvs_commit = \<lambda>h. Pair ESP_OK, nvs_blob_size = \<lambda>h key w. (ESP_ERR_OTHER, 0),
        nvs_get_blob = \<lambda>h key n w. (ESP_ERR_OTHER, []), nvs_close = \<lambda>h w. w\<rparr>,
      sh_aead = \<lparr>ae_flag_encrypted = 1, ae_flag_fragmented = 2, ae_is_gcm = \<lambda>f. True, ae_seal = \<lambda>k h p. None, ae_open = \<lambda>k h p. None\<rparr>,
      sh_endpoint = \<lambda>msg n seal send a. (False, a), sh_sendToMacWithStatus = \<lambda>m bs t. Pair (False, False), sh_command_type = 3,
      sh_rx_counters = \<lambda>w. (rx_snapshot.make 0 0 0 0 0 0 0 0 0 0 0 0, 0, 0), sh_radio_counters = \<lambda>w. ([0, 0, 0], [0, 0, 0], 0, 0, 0),
      sh_resolve = demo_resolve, sh_complete = \<lambda>line n. []\<rparr>"

definition demo_board :: "demo_out board" where
  "demo_board =
     \<lparr>bd_store = \<lparr>se_open = False, se_io = True, se_ready = False, se_mutex = True, se_locks = 0, se_manager = EspNowManager, se_out = []\<rparr>,
      bd_keys = holder_init, bd_sd = \<lparr>sd_ready = True, sd_oneBitMode = True, sd_frequencyKHz = 20000, sd_mounted = True\<rparr>,
      bd_context = \<lparr>cx_shell = True, cx_espNow = True, cx_peripherals = True, cx_lcdDashboard = False, cx_database = True, cx_io = True\<rparr>,
      bd_commandOutput = [], bd_shellResponse = [], bd_currentUserId = ''serial'', bd_lastCommandLine = [],
      bd_elevatedUsers = {''espnow:01:02:03:04:05:06''}, bd_statsProvider = False\<rparr>"

text \<open>The board with the session in a given state.\<close>

definition demo_system :: "session_state \<Rightarrow> demo_system" where
  "demo_system st = \<lparr>hb_mux = \<lparr>mw_io = True, mw_port = ([], []), mw_pending = noPendingWire,
       mw_queues = \<lambda>c. Some (kQueueDepth c, []), mw_framesTx = 0, mw_framesTxStalled = 0, mw_droppedByClass = \<lambda>_. 0,
       sm_runShellLine = True, sm_relayToRadio = True, sm_decoder = (), sm_session = Session demo_node_api 2 LocalLimits (st, SeNone),
       sm_terminalShell = [], sm_terminalOut = [], sm_lastStatusMs = 0, sm_framesRx = 0, sm_crcErrors = 0, sm_decodeErrors = 0,
       sm_reassemblyRejected = 0, sm_telemetryDropped = 0, sm_relayDownOk = 0, sm_relayDownUnbound = 0, sm_relayDownNoPeer = 0,
       sm_relayDownOversized = 0, sm_relayDownSendFailed = 0, sm_world = demo_board\<rparr>,
     hb_bindings = hub_init, hb_peers = peers_init, hb_subs = Subscription_Registry.resetForTests,
     hb_manifests = \<lparr>mc_entries = [], mc_pending = [], mc_catalogRevision = 1, mc_selfUuid = [], mc_selfSourceInfo = None, mc_diag = zeroDiag\<rparr>,
     hb_records = \<lparr>rc_records = [], rc_recordsSize = 0, rc_recordsTopicCount = 0, rc_recordsBuilt = True\<rparr>,
     hb_publisher = publisher_init\<rparr>"

lemma demo_protocolled: "isProtocolled (sh_mux demo_shell) (demo_system SsActive)"
  by (simp add: isProtocolled_def demo_shell_def shell_demo_mux_def demo_system_def session_state_def demo_node_api_def Session_def)

text \<open>Running commands on it.\<close>

lemmas demo_defs = demo_shell_def shell_demo_store_def shell_demo_mux_def demo_node_api_def demo_system_def demo_board_def
  Session_def session_state_def isConsole_def
lemmas access_defs = the_context_def from_board_def from_out_def to_board_def board_of_def on_board_def on_mux_def act_def
  perform_def database_def outside_def act_outside_def store_lib_of_def store.defs store_env.defs Let_def
lemmas print_defs = failWithCode_def succeed_def printLine_def db_logLine_def put_char_def c_str_def NUL_def bytes_of_def

end
