(* ===== verification/Shell_Safety.thy ===== *)
theory Shell_Safety
  imports Command_Frame Shell_Demo
begin

text \<open>
  What holds for every shell line, whatever commands and scripts it runs: who is elevated, what becomes
  of the lock of the database, what reaches the port in a session, and what the destructive commands do
  for a user who is not elevated.
\<close>

section \<open>The demo board\<close>

lemma demo_hardware: "hardware_only demo_shell"
  by (simp add: hardware_only_def demo_shell_def shell_demo_mux_def)

lemma demo_resolves_quietly: "resolves_quietly demo_shell False False"
proof -
  have "stripOuterQuotes ''1'' \<noteq> SUDO_PASSWORD" by code_simp
  then show ?thesis by (auto simp: resolves_quietly_def quiet_call_def demo_shell_def split: if_splits)
qed

section \<open>Elevation\<close>



section \<open>The port\<close>

text \<open>C35. In a session the shell keeps the session and keeps the port clean but for one thing: whatever
  line is run while frames are exchanged, what it adds to the octets on the port is a sequence of log
  lines of the database. (These are plain text among the frames: the commands themselves print only
  while the console owns the port.)\<close>

theorem session_port_gets_only_log_lines:
  assumes "hardware_only lib" and "isProtocolled (sh_mux lib) h"
    and "run_state (runLine lib depth line source user) h = (texts, h')"
  shows "isProtocolled (sh_mux lib) h' \<and>
    (log_step (store_lib_of lib))\<^sup>*\<^sup>* (mw_port (hb_mux h)) (mw_port (hb_mux h'))"
  using runLine_frame [OF assms(1) quiet_always assms(3)] assms(2) by (simp add: frame_def port_frame_def log_steps_def)


text \<open>A \<open>database -init\<close> that a desktop sends in a session, on a card that takes no directory.\<close>

lemma init_line:
  "splitTopLevelSemicolons ''database -init'' = [''database -init'']" "normalizeCommand ''database -init'' = ''database -init''"
  "argument_of databaseExecNoLogPrefix ''database -init'' = None" "argument_of databaseExecPrefix ''database -init'' = None"
  by code_simp+

lemma init_in_session:
  "mw_port (hb_mux (snd (run_state (runLine demo_shell 1 ''database -init'' ''serial'' []) (demo_system SsActive)))) =
     ([], bytes_of (''[database] falha ao preparar bootstrap no SD'' @ [LF]))"
  by (simp add: runLine.simps run_single_def dispatch_line_def init_line returned_def wrapper_database_init_def db_begin_def
      closeDatabase_def lockDb_def unlockDb_def ensureBootstrapAssets_def no_directory_def sdPathIsDirectory_def sdPathExists_def
      kDatabaseDir_def kDemoScript_def persist_line_def database_ready_def resetBuffers_def appendShellResponse_def
      setCurrentUserId_def commandOutputBuffer_def shellResponseBuffer_def demo_defs access_defs print_defs)

theorem session_port_gets_only_log_lines_witness:
  "(log_step (store_lib_of demo_shell))\<^sup>*\<^sup>* ([], []) ([], bytes_of (''[database] falha ao preparar bootstrap no SD'' @ [LF]))"
proof -
  let ?run = "run_state (runLine demo_shell 1 ''database -init'' ''serial'' []) (demo_system SsActive)"
  have start: "mw_port (hb_mux (demo_system SsActive)) = ([], [])" by (simp add: demo_system_def)
  from session_port_gets_only_log_lines [OF demo_hardware demo_protocolled prod.collapse [symmetric], of 1 "''database -init''" "''serial''" "[]"]
  show ?thesis unfolding start init_in_session by (rule conjunct2)
qed

section \<open>The lock of the database\<close>

lemma readers_leak:
  assumes "\<not> se_ready s" "se_mutex s" "fst (sl_take lib (Some 1000) (se_out s))"
  shows "se_locks (snd (run_state (readCommandLogsWithOutput lib limit) s)) = Suc (se_locks s)"
    and "se_locks (snd (run_state (readEspNowHistory lib limit) s)) = Suc (se_locks s)"
  using assms by (auto simp: readCommandLogsWithOutput_def readEspNowHistory_def lockDb_def outside_def split: prod.splits)


definition demo_store_state :: "(bytes \<times> bytes, demo_out) store_env" where
  "demo_store_state = store.extend (bd_store demo_board) (store_env.fields ([], []))"


section \<open>Refusals\<close>

definition destructive :: "shell_call \<Rightarrow> bool" where
  "destructive call \<longleftrightarrow> call \<in> {DongleSdWipe, DatabaseRebuild, DatabaseClearLogs} \<or> (\<exists>t. call = DatabaseDrop t)"

lemma refused:
  assumes "bd_currentUserId (board_of h) \<notin> bd_elevatedUsers (board_of h)"
  shows "run_state (elevated_only lib refusal m) h = run_state (failWithCode lib PERMISSION_DENIED refusal) h"
  using assms by (simp add: elevated_only_def currentUserId_def isElevated_def from_board_def)

text \<open>C34. Wiping the card, dropping a table, rebuilding the database and clearing its logs are refused to a
  user who is not elevated: the command fails with PERMISSION_DENIED, does nothing but print a refusal,
  and leaves the database, the card, the registered peers and the key as they are.\<close>

theorem destructive_needs_elevation:
  assumes "destructive call" and "bd_currentUserId (board_of h) \<notin> bd_elevatedUsers (board_of h)"
  shows "\<exists>refusal h'. run_state (call_command lib run call) h = (Some RESULT_ERROR, h') \<and>
    h' = snd (run_state (printLine lib (code_line ''erro'' PERMISSION_DENIED refusal)) h) \<and>
    bd_sd (board_of h') = bd_sd (board_of h) \<and> bd_keys (board_of h') = bd_keys (board_of h) \<and>
    se_open (bd_store (board_of h')) = se_open (bd_store (board_of h)) \<and>
    se_manager (bd_store (board_of h')) = se_manager (bd_store (board_of h)) \<and> hb_bindings h' = hb_bindings h"
proof -
  from assms(1) obtain refusal where call: "run_state (call_command lib run call) h =
      run_state (returned (failWithCode lib PERMISSION_DENIED refusal)) h"
    unfolding destructive_def
    by (auto simp: returned_def refused [OF assms(2)] wrapper_dongle_sd_wipe_def wrapper_database_rebuild_def
        wrapper_database_clear_logs_def wrapper_database_drop_def)
  let ?h = "snd (run_state (printLine lib (code_line ''erro'' PERMISSION_DENIED refusal)) h)"
  have "run_state (call_command lib run call) h = (Some RESULT_ERROR, ?h)"
    unfolding call by (simp add: returned_def failWithCode_def split: prod.splits)
  moreover have "bd_sd (board_of ?h) = bd_sd (board_of h)" "bd_keys (board_of ?h) = bd_keys (board_of h)"
    "se_open (bd_store (board_of ?h)) = se_open (bd_store (board_of h))"
    "se_manager (bd_store (board_of ?h)) = se_manager (bd_store (board_of h))" "hb_bindings ?h = hb_bindings h"
    by (simp_all add: printLine_def access_defs split: prod.splits)
  ultimately show ?thesis by blast
qed

theorem destructive_needs_elevation_witness:
  "fst (run_state (call_command demo_shell (\<lambda>line. ret None) DongleSdWipe) (demo_system SsIdle)) = Some RESULT_ERROR"
proof -
  have "destructive DongleSdWipe" by (simp add: destructive_def)
  moreover have "bd_currentUserId (board_of (demo_system SsIdle)) \<notin> bd_elevatedUsers (board_of (demo_system SsIdle))"
    by (simp add: demo_system_def demo_board_def board_of_def)
  ultimately show ?thesis
    using destructive_needs_elevation [of DongleSdWipe "demo_system SsIdle" demo_shell "\<lambda>line. ret None"] by auto
qed

section \<open>Scripts\<close>

text \<open>What a script needs to start, and what printing leaves.\<close>

definition script_ready :: "('p, 'n, 'd, 'e, 'o) system \<Rightarrow> bool" where
  "script_ready h \<longleftrightarrow> sd_ready (bd_sd (board_of h)) \<and> cx_shell (bd_context (board_of h))"

lemma ready_responses: "script_ready (snd (run_state (each appendShellResponse texts) h)) = script_ready h"
proof (induction texts arbitrary: h)
  case (Cons t texts)
  have "script_ready (snd (run_state (appendShellResponse t) h)) = script_ready h"
    by (simp add: script_ready_def appendShellResponse_def access_defs)
  with Cons show ?case by (simp add: case_prod_beta)
qed simp

lemma ready_print: "script_ready (snd (run_state (printLine lib txt) h)) = script_ready h"
  by (simp add: script_ready_def printLine_def access_defs split: prod.splits)

text \<open>A script that runs itself never comes back: if the first line of a script that is not blank and
  no comment is a command that runs this script, then no number of nested calls is enough for the line,
  so that the task that runs it uses up its stack, however large it is.\<close>

theorem script_running_itself_never_returns:
  assumes "sh_resolve lib line = (before, Some (DongleRunScript path), after)"
    and "\<forall>w. file_content lib (toFsPath (normalizeSdPath path)) w = Some (n, content)"
    and "fgets_lines 255 [] content = rawLine # rest" and "trimCopy (c_str rawLine) = line" "line \<noteq> []" "hd line \<noteq> CHR ''#''"
    and "sd_ready (bd_sd (board_of h))" "cx_shell (bd_context (board_of h))"
  shows "\<forall>depth. fst (run_state (run_command_line lib depth line) h) = None"
proof
  fix depth
  from assms(7,8) have "script_ready h" by (simp add: script_ready_def)
  then show "fst (run_state (run_command_line lib depth line) h) = None"
  proof (induction depth arbitrary: h)
    case (Suc depth)
    let ?h = "snd (run_state (each appendShellResponse before) h)"
    have ready: "script_ready ?h" using Suc.prems by (simp add: ready_responses)
    let ?h' = "snd (run_state (printLine lib (''[dongle] executando script: '' @ normalizeSdPath path)) ?h)"
    have "fst (run_state (run_command_line lib depth line) ?h') = None"
      using Suc.IH ready by (simp add: ready_print)
    then have nested: "fst (run_state (run_lines (run_command_line lib depth) (rawLine # rest) 0 0) ?h') = None"
      using assms(4-6) by (simp add: case_prod_beta)
    have "fst (run_state (wrapper_dongle_run_script lib (run_command_line lib depth) path) ?h) = None"
      using ready nested
      by (simp add: wrapper_dongle_run_script_def script_ready_def sd_isReady_def the_context_def from_board_def from_out_def
          assms(2,3) case_prod_beta Let_def del: run_lines.simps)
    then show ?case by (simp add: assms(1) case_prod_beta)
  qed simp
qed

theorem script_running_itself_never_returns_witness:
  "fst (run_state (run_command_line demo_shell 1000 ''dongle -run_script loop'') (demo_system SsIdle)) = None"
proof -
  have "toFsPath (normalizeSdPath ''loop'') = kDemoScript" by code_simp
  then have script: "\<forall>w. file_content demo_shell (toFsPath (normalizeSdPath ''loop'')) w = Some (23, ''dongle -run_script loop'' @ [LF])"
    by (simp add: file_content_def demo_defs kDemoScript_def c_str_def NUL_def)
  have lines: "fgets_lines 255 [] (''dongle -run_script loop'' @ [LF]) = (''dongle -run_script loop'' @ [LF]) # []"
    by (simp add: LF_def)
  have trimmed: "trimCopy (c_str (''dongle -run_script loop'' @ [LF])) = ''dongle -run_script loop''" by code_simp
  have resolved: "sh_resolve demo_shell ''dongle -run_script loop'' = ([], Some (DongleRunScript ''loop''), \<lambda>result. [])"
    by (simp add: demo_shell_def)
  have "sd_ready (bd_sd (board_of (demo_system SsIdle)))" "cx_shell (bd_context (board_of (demo_system SsIdle)))"
    by (simp_all add: demo_defs access_defs)
  from script_running_itself_never_returns [OF resolved script lines trimmed _ _ this] show ?thesis by simp
qed

end
