(* ===== verification/Shell_Lines.thy ===== *)
theory Shell_Lines
  imports Shell_Safety
begin

text \<open>
  How a line is taken apart: the commands between semicolons, the lines of a script, and the ids of
  robots that the hub commands read and print.
\<close>

section \<open>Semicolons\<close>

text \<open>The state of the scanner behind a text, \<open>None\<close> if a semicolon splits it on the way.\<close>

definition quote_step :: "bool \<times> bool \<Rightarrow> char \<Rightarrow> bool \<times> bool" where
  "quote_step st ch = (case st of (dq, qs) \<Rightarrow>
     (dq \<noteq> (ch = DQ \<and> \<not> qs), qs \<noteq> (\<not> (ch = DQ \<and> \<not> qs) \<and> ch = SQ \<and> \<not> dq)))"

fun scan_line :: "bool \<times> bool \<Rightarrow> string \<Rightarrow> (bool \<times> bool) option" where
  "scan_line st [] = Some st"
| "scan_line st (ch # line) =
     (if ch = CHR '';'' \<and> quote_step st ch = (False, False) then None else scan_line (quote_step st ch) line)"

lemma split_step:
  "split_semicolons dq qs current (ch # line) =
     (if ch = CHR '';'' \<and> quote_step (dq, qs) ch = (False, False) then current # split_semicolons False False [] line
      else case quote_step (dq, qs) ch of (dq', qs') \<Rightarrow> split_semicolons dq' qs' (current @ [ch]) line)"
  by (auto simp: quote_step_def Let_def)

lemma scan_append: "scan_line st (s @ t) = (case scan_line st s of None \<Rightarrow> None | Some st' \<Rightarrow> scan_line st' t)"
  by (induction s arbitrary: st) auto

lemma split_whole: "scan_line (dq, qs) line \<noteq> None \<Longrightarrow> split_semicolons dq qs current line = [current @ line]"
proof (induction line arbitrary: dq qs current)
  case (Cons ch line)
  then show ?case
    unfolding split_step by (cases "quote_step (dq, qs) ch") (auto split: if_splits)
qed simp

text \<open>Every part that the splitter yields is one that it would not split again.\<close>

lemma parts_scan:
  "scan_line (False, False) current = Some (dq, qs) \<Longrightarrow> part \<in> set (split_semicolons dq qs current line) \<Longrightarrow>
   scan_line (False, False) part \<noteq> None"
proof (induction line arbitrary: dq qs current)
  case (Cons ch line)
  obtain dq' qs' where step: "quote_step (dq, qs) ch = (dq', qs')" by fastforce
  show ?case
  proof (cases "ch = CHR '';'' \<and> (dq', qs') = (False, False)")
    case True
    with Cons.prems(2) step have "part = current \<or> part \<in> set (split_semicolons False False [] line)"
      unfolding split_step by simp
    then show ?thesis using Cons.prems(1) Cons.IH [of "[]" False False] by auto
  next
    case False
    with Cons.prems(2) step have "part \<in> set (split_semicolons dq' qs' (current @ [ch]) line)"
      unfolding split_step by (simp split: if_splits)
    moreover have "scan_line (False, False) (current @ [ch]) = Some (dq', qs')"
      using Cons.prems(1) False step by (auto simp: scan_append)
    ultimately show ?thesis using Cons.IH by blast
  qed
qed auto

lemma scan_blank: "list_all isspace s \<Longrightarrow> scan_line st s = Some st"
proof (induction s arbitrary: st)
  case (Cons ch s)
  have "ch \<noteq> CHR '';''" "ch \<noteq> DQ" "ch \<noteq> SQ"
    using Cons.prems by (auto simp: isspace_def DQ_def SQ_def)
  with Cons show ?case by (simp add: quote_step_def split: prod.splits)
qed simp

lemma trim_parts: "\<exists>l r. list_all isspace l \<and> list_all isspace r \<and> s = l @ trim s @ r"
proof -
  let ?t = "dropWhile isspace s"
  have "s = takeWhile isspace s @ ?t" by simp
  moreover have "?t = rev (takeWhile isspace (rev ?t) @ dropWhile isspace (rev ?t))" by simp
  then have "?t = trim s @ rev (takeWhile isspace (rev ?t))" by (simp only: rev_append trim_def)
  ultimately have "s = takeWhile isspace s @ trim s @ rev (takeWhile isspace (rev ?t))" by metis
  moreover have "list_all isspace (takeWhile isspace s)" "list_all isspace (rev (takeWhile isspace (rev ?t)))"
    by (auto simp: list_all_iff dest: set_takeWhileD)
  ultimately show ?thesis by blast
qed

lemma scan_trim: "scan_line (False, False) s \<noteq> None \<Longrightarrow> scan_line (False, False) (trimCopy s) \<noteq> None"
proof -
  obtain l r where "list_all isspace l" "s = l @ trim s @ r" using trim_parts by blast
  then show "scan_line (False, False) s \<noteq> None \<Longrightarrow> scan_line (False, False) (trimCopy s) \<noteq> None"
    by (metis (no_types, lifting) option.simps(4,5) scan_append scan_blank trimCopy_def)
qed

lemma segment_whole:
  assumes "part \<in> set (splitTopLevelSemicolons command)"
  shows "splitTopLevelSemicolons (trimCopy part) = [trimCopy part]"
proof -
  have "scan_line (False, False) part \<noteq> None"
    using assms parts_scan [of "[]" False False part command] by (simp add: splitTopLevelSemicolons_def)
  then show ?thesis
    using split_whole [of False False "trimCopy part" "[]"] scan_trim by (simp add: splitTopLevelSemicolons_def)
qed

text \<open>The parts put together again.\<close>

fun join_semicolons :: "string list \<Rightarrow> string" where
  "join_semicolons [] = []"
| "join_semicolons [s] = s"
| "join_semicolons (s # t # ss) = s @ '';'' @ join_semicolons (t # ss)"

lemma split_semicolons_nonempty: "split_semicolons dq qs current line \<noteq> []"
  by (induction dq qs current line rule: split_semicolons.induct) (auto simp: Let_def)

lemma join_split: "join_semicolons (split_semicolons dq qs current line) = current @ line"
proof (induction line arbitrary: dq qs current)
  case (Cons ch line)
  obtain dq' qs' where step: "quote_step (dq, qs) ch = (dq', qs')" by fastforce
  obtain t ts where "split_semicolons False False [] line = t # ts"
    using split_semicolons_nonempty [of False False "[]" line] by (meson neq_Nil_conv)
  then show ?case
    using Cons [of False False "[]"] Cons [of dq' qs' "current @ [ch]"] step unfolding split_step by auto
qed simp

text \<open>The reference: each command that is not blank runs as a line of its own, in order, and the texts are
  joined line by line.\<close>

definition commands_of :: "string \<Rightarrow> string list" where
  "commands_of command = filter (\<lambda>s. s \<noteq> []) (map trimCopy (splitTopLevelSemicolons command))"

fun run_commands ::
    "('p, 'n, 'd, 'e, 'o, 'c, 'x, shell_call) shell_lib \<Rightarrow> nat \<Rightarrow> string list \<Rightarrow> string \<Rightarrow> string \<Rightarrow> string \<times> string \<Rightarrow>
     ('p, 'n, 'd, 'e, 'o, (string \<times> string) option) shell_op" where
  "run_commands lib depth [] source userId combined = ret (Some combined)"
| "run_commands lib depth (c # cs) source userId combined = do {
     texts \<leftarrow> run_single lib depth c source userId;
     (case texts of None \<Rightarrow> ret None
      | Some texts \<Rightarrow> run_commands lib depth cs source userId (joined_texts combined texts)) }"

lemma run_segments_commands:
  "(\<And>s. s \<in> set segments \<Longrightarrow> splitTopLevelSemicolons (trimCopy s) = [trimCopy s]) \<Longrightarrow>
   run_segments lib depth segments source userId combined =
     run_commands lib depth (filter (\<lambda>s. s \<noteq> []) (map trimCopy segments)) source userId combined"
proof (induction segments arbitrary: combined)
  case (Cons s segments)
  then show ?case by (simp add: runLine.simps cong: option.case_cong)
qed simp


section \<open>Source ids\<close>

lemma hex_digit:
  "k < 16 \<Longrightarrow> digit_value (hex_upper k) = Some k"
  "k < 16 \<Longrightarrow> \<not> isspace (hex_upper k) \<and> hex_upper k \<notin> set [NUL, DQ, SQ, CHR ''-'', CHR ''+'', CHR ''x'', CHR ''X'']"
proof -
  have "\<forall>k\<in>set [0..<16]. digit_value (hex_upper k) = Some k \<and> \<not> isspace (hex_upper k) \<and>
      hex_upper k \<notin> set [NUL, DQ, SQ, CHR ''-'', CHR ''+'', CHR ''x'', CHR ''X'']" by code_simp
  then show "k < 16 \<Longrightarrow> digit_value (hex_upper k) = Some k"
    "k < 16 \<Longrightarrow> \<not> isspace (hex_upper k) \<and> hex_upper k \<notin> set [NUL, DQ, SQ, CHR ''-'', CHR ''+'', CHR ''x'', CHR ''X'']"
    by (simp_all del: upt_conv_Cons list.set)
qed

definition hex_text :: "string \<Rightarrow> bool" where "hex_text s \<longleftrightarrow> (\<forall>c\<in>set s. \<exists>k<16. c = hex_upper k)"

lemma hex_textD:
  assumes "hex_text s" "c \<in> set s"
  shows "\<not> isspace c" "c \<notin> set [NUL, DQ, SQ, CHR ''-'', CHR ''+'', CHR ''x'', CHR ''X'']" "is_digit 16 c"
proof -
  from assms obtain k where k: "k < 16" "c = hex_upper k" by (auto simp: hex_text_def)
  from hex_digit(2) [OF k(1)] show "\<not> isspace c" "c \<notin> set [NUL, DQ, SQ, CHR ''-'', CHR ''+'', CHR ''x'', CHR ''X'']"
    unfolding k(2) by blast+
  show "is_digit 16 c" using hex_digit(1) [OF k(1)] k by (simp add: is_digit_def)
qed

lemma hex8_text: "hex_text (hex8 v)" "length (hex8 v) = 8"
proof -
  have "\<exists>j<16. hex_upper (n mod 16) = hex_upper j" for n by (rule exI [of _ "n mod 16"]) simp
  then show "hex_text (hex8 v)" by (simp add: hex_text_def hex8_def)
qed (simp add: hex8_def)

text \<open>Such a text reaches the conversion as it is, and no sign and no prefix is seen in it.\<close>

lemma dropWhile_none: "(\<And>c. c \<in> set s \<Longrightarrow> \<not> P c) \<Longrightarrow> dropWhile P s = s"
  by (cases s) auto

lemma hex_trim: "hex_text s \<Longrightarrow> trim s = s"
  unfolding trim_def by (subst dropWhile_none, simp add: hex_textD(1) del: set_rev, subst dropWhile_none)
    (auto dest: hex_textD(1))

lemma hex_cleaned: "hex_text s \<Longrightarrow> s \<noteq> [] \<Longrightarrow> stripOuterQuotes s = s \<and> c_str s = s"
  using hex_textD(2) [of s "hd s"] hex_textD(2) [of s]
  by (auto simp: stripOuterQuotes_def trimCopy_def hex_trim c_str_def takeWhile_eq_all_conv)

lemma hex_scan:
  assumes "hex_text s" "s \<noteq> []"
  shows "scan_number base s = (let b = (if base \<noteq> 0 then base else if hd s = CHR ''0'' then 8 else 10);
     digits = takeWhile (is_digit b) s
   in if digits = [] then None else Some (False, number_of b digits, dropWhile (is_digit b) s))"
proof -
  have blank: "dropWhile isspace s = s" using hex_textD(1) [OF assms(1)] by (rule dropWhile_none)
  have sign: "sign_of s = (False, s)" using hex_textD(2) [OF assms(1)] assms(2) by (cases s) (auto simp: sign_of_def)
  have prefix: "\<not> hex_prefix s"
    using hex_textD(2) [OF assms(1)] by (auto simp: hex_prefix_def split: list.splits)
  have zero: "startsWith s ''0'' \<longleftrightarrow> hd s = CHR ''0''" using assms(2) by (cases s) (auto simp: startsWith_def)
  show ?thesis by (simp add: scan_number_def blank sign number_base_def prefix zero)
qed

lemma number_of_snoc: "number_of b (s @ [c]) = b * number_of b s + the (digit_value c)"
  by (simp add: number_of_def)

lemma number_of_bound: "list_all (is_digit b) s \<Longrightarrow> number_of b s < b ^ length s"
proof (induction s rule: rev_induct)
  case (snoc c s)
  then have "the (digit_value c) < b" "number_of b s + 1 \<le> b ^ length s" by (auto simp: is_digit_def split: option.splits)
  then have "b * number_of b s + the (digit_value c) < b * (number_of b s + 1)" by simp
  also have "\<dots> \<le> b * b ^ length s" using \<open>number_of b s + 1 \<le> _\<close> by (rule mult_le_mono2)
  finally show ?case by (simp add: number_of_snoc)
qed (simp add: number_of_def)

lemma number_of_zero: "0 < b \<Longrightarrow> number_of b s = 0 \<Longrightarrow> number_of 16 s = 0"
  by (induction s rule: rev_induct) (auto simp: number_of_snoc, simp add: number_of_def)

lemma number_of_hex: "number_of 16 (map (\<lambda>k. hex_upper (n div 16 ^ (m - 1 - k) mod 16)) [0..<m]) = n mod 16 ^ m"
proof (induction m arbitrary: n)
  case (Suc m)
  have "n div 16 ^ (m - k) = (n div 16) div 16 ^ (m - 1 - k)" if "k < m" for k
  proof -
    have "m - k = Suc (m - 1 - k)" using that by simp
    then show ?thesis by (simp only: power_Suc div_mult2_eq)
  qed
  then have digits: "map (\<lambda>k. hex_upper (n div 16 ^ (Suc m - 1 - k) mod 16)) [0..<Suc m] =
      map (\<lambda>k. hex_upper ((n div 16) div 16 ^ (m - 1 - k) mod 16)) [0..<m] @ [hex_upper (n mod 16)]"
    by (simp add: upt_Suc)
  show ?case
    unfolding digits number_of_snoc Suc by (simp add: hex_digit(1) mod_mult2_eq)
qed (simp add: number_of_def)

lemma number_of_hex8: "number_of 16 (hex8 v) = unat v"
proof -
  have "unat v < 16 ^ 8" using unsigned_less [of v, where ?'a = nat] by simp
  with number_of_hex [of "unat v" 8] show ?thesis by (simp add: hex8_def)
qed

text \<open>The base in which the text of an id is read.\<close>

definition read_base :: "string \<Rightarrow> nat" where
  "read_base s = (if list_all (is_digit 8) s \<and> hd s = CHR ''0'' then 8
                  else if list_all (is_digit 10) s \<and> hd s \<noteq> CHR ''0'' then 10 else 16)"

lemma takeWhile_list_all: "list_all P s \<Longrightarrow> takeWhile P s = s"
  by (induction s) auto

lemma dropWhile_list_all: "dropWhile P s = [] \<longleftrightarrow> list_all P s"
  by (induction s) auto

lemma strtoul_all:
  assumes "hex_text s" "s \<noteq> []" "list_all (is_digit b) s" "b = (if base \<noteq> 0 then base else if hd s = CHR ''0'' then 8 else 10)"
    and "number_of b s \<le> 0xFFFFFFFF"
  shows "strtoul base s = (of_nat (number_of b s), [])"
proof -
  have "scan_number base s = Some (False, number_of b s, [])"
    unfolding hex_scan [OF assms(1,2)] Let_def assms(4) [symmetric] takeWhile_list_all [OF assms(3)]
      dropWhile_list_all [THEN iffD2, OF assms(3)]
    using assms(2) by simp
  with assms(5) show ?thesis by (simp add: strtoul_def)
qed

lemma strtoul_rest:
  assumes "hex_text s" "s \<noteq> []" "\<not> list_all (is_digit (if hd s = CHR ''0'' then 8 else 10)) s"
  shows "snd (strtoul 0 s) \<noteq> []"
  using assms(3)
  by (simp add: strtoul_def hex_scan [OF assms(1,2)] Let_def assms(2) dropWhile_list_all split: option.splits del: dropWhile_eq_Nil_conv)

lemma parse_hex_text:
  assumes "hex_text s" "length s = 8" "number_of 16 s \<noteq> 0"
  shows "parseSourceId s = Some (of_nat (number_of (read_base s) s))"
proof -
  let ?b = "if hd s = CHR ''0'' then 8 else 10 :: nat"
  have s: "s \<noteq> []" using assms(2) by auto
  have all16: "list_all (is_digit 16) s" using hex_textD(3) [OF assms(1)] by (simp add: list_all_iff)
  have bound: "number_of b s \<le> 0xFFFFFFFF" if "list_all (is_digit b) s" "b \<le> 16" for b
  proof -
    have "b ^ 8 \<le> 16 ^ 8" using that(2) by (rule power_mono) simp
    with number_of_bound [OF that(1)] assms(2) show ?thesis by simp
  qed
  have nonzero: "(of_nat (number_of b s) :: u32) \<noteq> 0" if "list_all (is_digit b) s" "b \<le> 16" "0 < b" for b
  proof -
    have "0 < number_of b s" using assms(3) number_of_zero [OF that(3), of s] by auto
    moreover have "number_of b s < 2 ^ LENGTH(32)" using bound [OF that(1,2)] by simp
    ultimately show ?thesis unfolding word_of_nat_eq_0_iff by (rule nat_dvd_not_less)
  qed
  note clean = hex_cleaned [OF assms(1) s]
  show ?thesis
  proof (cases "list_all (is_digit ?b) s")
    case True
    then have "strtoul 0 s = (of_nat (number_of ?b s), [])" by (intro strtoul_all assms(1) s bound) auto
    moreover have "read_base s = ?b" using True by (auto simp: read_base_def split: if_splits)
    ultimately show ?thesis using clean nonzero [OF True] s by (simp add: parseSourceId_def split: if_splits)
  next
    case False
    then have rest: "snd (strtoul 0 s) \<noteq> []" by (rule strtoul_rest [OF assms(1) s])
    have "strtoul 16 s = (of_nat (number_of 16 s), [])" by (intro strtoul_all assms(1) s all16 bound) auto
    moreover have "scan_number 16 s \<noteq> None"
      using s all16 by (simp add: hex_scan [OF assms(1) s] Let_def takeWhile_list_all)
    moreover have "read_base s = 16" using False by (auto simp: read_base_def split: if_splits)
    ultimately show ?thesis
      using clean nonzero [OF all16] s rest by (cases "strtoul 0 s") (auto simp: parseSourceId_def)
  qed
qed

lemma hex8_examples: "hex8 0x33445566 = ''33445566''" "hex8 0x3344556A = ''3344556A''"
  by (simp_all add: hex8_def upt_rec [of _ 8] hex_upper_def)

lemma decimal_digits: "read_base ''33445566'' = 10" "number_of 10 ''33445566'' = 33445566"
proof -
  show "read_base ''33445566'' = 10" by code_simp
  have digit: "digit_value (CHR ''3'') = Some 3" "digit_value (CHR ''4'') = Some 4" "digit_value (CHR ''5'') = Some 5"
    "digit_value (CHR ''6'') = Some 6" by code_simp+
  show "number_of 10 ''33445566'' = 33445566" by (simp add: number_of_def digit)
qed



end
