(* ===== verification/Store_Texts.thy ===== *)
theory Store_Texts
  imports Database_Store
begin

text \<open>
  The texts that \<open>DatabaseStore\<close> writes for others to read: its SQL statements, read back by a reference
  lexer of SQL text literals, and the lines of a CSV export, read back by a reference reader.
\<close>

section \<open>Characters\<close>

definition no_nul :: "string \<Rightarrow> bool" where "no_nul s \<longleftrightarrow> NUL \<notin> set s"

lemma c_str_no_nul: "no_nul s \<Longrightarrow> c_str s = s"
  by (induction s) (auto simp: c_str_def no_nul_def)

lemma no_nul_append [simp]: "no_nul (s @ t) \<longleftrightarrow> no_nul s \<and> no_nul t" by (auto simp: no_nul_def)

lemma no_nul_Nil: "no_nul []" by (simp add: no_nul_def)
lemma no_nul_Cons: "no_nul (c # s) \<longleftrightarrow> c \<noteq> CHR 0x00 \<and> no_nul s" by (auto simp: no_nul_def NUL_def)

lemma no_nul_c_str [simp]: "no_nul (c_str s)"
  by (auto simp: no_nul_def c_str_def dest: set_takeWhileD)

definition decimal_chars :: string where "decimal_chars = ''-0123456789''"

lemma set_dec: "set (dec n) \<subseteq> set decimal_chars"
proof (induction n rule: dec.induct)
  case (1 n)
  have "\<forall>k\<in>set [0..<10]. digit_char k \<in> set decimal_chars" by code_simp
  then have digit: "digit_char (n mod 10) \<in> set decimal_chars" for n by simp
  show ?case
  proof (cases "n < 10")
    case True
    with digit [of n] show ?thesis by (subst dec.simps) (simp del: upt_conv_Cons)
  next
    case False
    with 1 digit [of n] show ?thesis by (subst dec.simps) auto
  qed
qed

lemma set_dec_int: "set (dec_int i) \<subseteq> set decimal_chars"
  using set_dec [of "nat i"] set_dec [of "nat (- i)"] by (auto simp: dec_int_def decimal_chars_def)

section \<open>SQL statements\<close>

text \<open>The lexer: a text literal between single quotes, in which two quotes stand for one, or a
  character outside a literal. The statements of the store have neither comments nor other quotes.\<close>

datatype sql_token = Code char | Literal string | Unterminated string

fun lex_sql :: "string \<Rightarrow> sql_token list" and lex_literal :: "string \<Rightarrow> string \<Rightarrow> sql_token list" where
  "lex_sql [] = []"
| "lex_sql (c # cs) = (if c = SQ then lex_literal [] cs else Code c # lex_sql cs)"
| "lex_literal acc [] = [Unterminated acc]"
| "lex_literal acc [c] = (if c = SQ then [Literal acc] else [Unterminated (acc @ [c])])"
| "lex_literal acc (c # d # cs) =
     (if c \<noteq> SQ then lex_literal (acc @ [c]) (d # cs)
      else if d = SQ then lex_literal (acc @ [SQ]) cs else Literal acc # lex_sql (d # cs))"

definition sql_codes :: "string \<Rightarrow> sql_token list" where "sql_codes s = map Code s"

definition quote_free :: "string \<Rightarrow> bool" where "quote_free s \<longleftrightarrow> SQ \<notin> set s"

lemma lex_codes: "quote_free s \<Longrightarrow> lex_sql (s @ t) = sql_codes s @ lex_sql t"
  by (induction s) (auto simp: quote_free_def sql_codes_def)

lemma lex_literal_escaped:
  "rest \<noteq> [] \<Longrightarrow> hd rest \<noteq> SQ \<Longrightarrow> lex_literal acc (escapeSqlText v @ SQ # rest) = Literal (acc @ v) # lex_sql rest"
proof (induction v arbitrary: acc)
  case Nil then show ?case by (cases rest) auto
next
  case (Cons c v)
  show ?case
  proof (cases "c = SQ")
    case True
    with Cons show ?thesis by simp
  next
    case False
    have "\<exists>d cs. escapeSqlText v @ SQ # rest = d # cs" by (cases "escapeSqlText v") auto
    with False Cons show ?thesis by auto
  qed
qed

lemma lex_sql_text: "rest \<noteq> [] \<Longrightarrow> hd rest \<noteq> SQ \<Longrightarrow> lex_sql (sql_text v @ rest) = Literal v # lex_sql rest"
  using lex_literal_escaped [of rest "[]" v] by (simp add: sql_text_def sq_def)

lemma no_nul_escape [simp]: "no_nul (escapeSqlText v) \<longleftrightarrow> no_nul v"
  by (induction v) (auto simp: no_nul_def SQ_def NUL_def)

lemma no_nul_sql_text [simp]: "no_nul (sql_text v) \<longleftrightarrow> no_nul v"
  by (simp add: sql_text_def) (simp add: no_nul_def sq_def SQ_def NUL_def)

lemma decimal_plain: "no_nul (dec_int i)" "quote_free (dec_int i)"
  using set_dec_int [of i] by (auto simp: no_nul_def quote_free_def decimal_chars_def SQ_def NUL_def)

lemma hex_upper_plain: "hex_upper (k mod 16) \<noteq> NUL"
proof -
  have "\<forall>k\<in>set [0..<16]. hex_upper k \<noteq> NUL" by code_simp
  then show ?thesis by simp
qed

lemma no_nul_mac [simp]: "no_nul (macToText m)"
proof (cases m)
  case (fields a b c d e f)
  have hex: "no_nul (hex2 x)" for x
  proof -
    have "unat x div 16 < 16" using unsigned_less [of x, where ?'a = nat] by simp
    then show ?thesis
      using hex_upper_plain [of "unat x"] hex_upper_plain [of "unat x div 16"] by (simp add: no_nul_def hex2_def)
  qed
  show ?thesis by (simp add: fields hex no_nul_Cons)
qed

lemma no_nul_payload [simp]: "no_nul (payloadPreviewText payload)"
proof -
  have char: "(if 0x20 \<le> b \<and> b < 0x7F then char_of (unat b) else CHR ''.'') \<noteq> NUL" for b :: u8
  proof -
    have "0x20 \<le> b \<Longrightarrow> b < 0x7F \<Longrightarrow> char_of (unat b) \<noteq> NUL"
    proof
      assume "0x20 \<le> b" "b < 0x7F" and zero: "char_of (unat b) = NUL"
      from this(1,2) have "32 \<le> unat b" "unat b < 127" by (simp_all add: word_le_nat_alt word_less_nat_alt)
      moreover from this have "of_char (char_of (unat b) :: char) = unat b" by simp
      ultimately show False using zero by (simp add: NUL_def)
    qed
    then show ?thesis by (simp add: NUL_def)
  qed
  have "no_nul (map (\<lambda>b. if 0x20 \<le> b \<and> b < 0x7F then char_of (unat b) else CHR ''.'') bs)" for bs :: bytes
    unfolding no_nul_def set_map image_iff using char by metis
  then show ?thesis by (simp add: payloadPreviewText_def no_nul_Cons no_nul_Nil)
qed


lemma sql_codes_append: "sql_codes (s @ t) = sql_codes s @ sql_codes t" by (simp add: sql_codes_def)
lemma sql_codes_Nil: "sql_codes [] = []" by (simp add: sql_codes_def)
lemma sql_codes_Cons: "sql_codes (c # s) = Code c # sql_codes s" by (simp add: sql_codes_def)

text \<open>Reading a statement piece by piece.\<close>

lemmas read_simps = c_str_no_nul no_nul_Nil no_nul_Cons lex_sql_text lex_codes decimal_plain SQ_def
  sql_codes_append sql_codes_Nil sql_codes_Cons

lemma lex_upsert:
  "no_nul name \<Longrightarrow> no_nul description \<Longrightarrow> lex_sql (c_str (upsert_sql m name description now)) =
      sql_codes ''UPDATE peers SET name='' @ Literal name # sql_codes '', description='' @ Literal description #
      sql_codes ('', updated_at='' @ dec_int now @ '' WHERE mac='') @ Literal (macToText m) #
      sql_codes ('';INSERT OR IGNORE INTO peers(mac,name,description,created_at,updated_at) VALUES('') @
      Literal (macToText m) # sql_codes '','' @ Literal name # sql_codes '','' @ Literal description #
      sql_codes ('','' @ dec_int now @ '','' @ dec_int now @ '');'')"
  by (simp add: upsert_sql_def read_simps)

lemma lex_metadata:
  "no_nul name \<Longrightarrow> no_nul description \<Longrightarrow> lex_sql (c_str (metadata_sql m name description now)) =
      sql_codes ''UPDATE peers SET name='' @ Literal name # sql_codes '', description='' @ Literal description #
      sql_codes ('', updated_at='' @ dec_int now @ '' WHERE mac='') @ Literal (macToText m) # sql_codes '';''"
  by (simp add: metadata_sql_def read_simps)

lemma lex_outgoing:
  "lex_sql (c_str (outgoing_sql peerId m type payload delivered now)) =
      sql_codes (''INSERT INTO espnow_outgoing_log(peer_id,mac,payload,payload_type,delivered,sent_at) VALUES('' @
        (if peerId > 0 then dec_int peerId else ''NULL'') @ '','') @ Literal (macToText m) # sql_codes '','' @
      Literal (payloadPreviewText payload) # sql_codes ('','' @ dec_int type @ '','' @ (if delivered then ''1'' else ''0'') @
        '','' @ dec_int now @ '');'')"
  by (cases delivered; cases "peerId > 0") (simp_all add: outgoing_sql_def read_simps)

lemma lex_boot:
  "lex_sql (c_str (boot_sql reason now)) =
      sql_codes ''INSERT INTO boot_events(reason,boot_at) VALUES('' @
      Literal (case reason of Some r \<Rightarrow> c_str r | None \<Rightarrow> ''power_on'') # sql_codes ('','' @ dec_int now @ '');'')"
  by (cases reason) (simp_all add: boot_sql_def read_simps)

text \<open>C29. Text that the store puts into a statement stays text: read by the lexer, each statement that
  registers a peer, renames one or logs a transmission or a start is its fixed wording with exactly the
  given texts as literals, whatever characters they hold, so that no name, description, payload or
  reason can end its literal and add code of its own.\<close>

theorem statements_carry_texts:
  assumes "no_nul name" "no_nul description"
  shows "lex_sql (c_str (upsert_sql m name description now)) =
      sql_codes ''UPDATE peers SET name='' @ Literal name # sql_codes '', description='' @ Literal description #
      sql_codes ('', updated_at='' @ dec_int now @ '' WHERE mac='') @ Literal (macToText m) #
      sql_codes ('';INSERT OR IGNORE INTO peers(mac,name,description,created_at,updated_at) VALUES('') @
      Literal (macToText m) # sql_codes '','' @ Literal name # sql_codes '','' @ Literal description #
      sql_codes ('','' @ dec_int now @ '','' @ dec_int now @ '');'') \<and>
    lex_sql (c_str (metadata_sql m name description now)) =
      sql_codes ''UPDATE peers SET name='' @ Literal name # sql_codes '', description='' @ Literal description #
      sql_codes ('', updated_at='' @ dec_int now @ '' WHERE mac='') @ Literal (macToText m) # sql_codes '';'' \<and>
    lex_sql (c_str (outgoing_sql peerId m type payload delivered now)) =
      sql_codes (''INSERT INTO espnow_outgoing_log(peer_id,mac,payload,payload_type,delivered,sent_at) VALUES('' @
        (if peerId > 0 then dec_int peerId else ''NULL'') @ '','') @ Literal (macToText m) # sql_codes '','' @
      Literal (payloadPreviewText payload) # sql_codes ('','' @ dec_int type @ '','' @ (if delivered then ''1'' else ''0'') @
        '','' @ dec_int now @ '');'') \<and>
    lex_sql (c_str (boot_sql reason now)) =
      sql_codes ''INSERT INTO boot_events(reason,boot_at) VALUES('' @
      Literal (case reason of Some r \<Rightarrow> c_str r | None \<Rightarrow> ''power_on'') # sql_codes ('','' @ dec_int now @ '');'')"
  by (intro conjI lex_upsert lex_metadata lex_outgoing lex_boot assms)

theorem statements_carry_texts_witness:
  "lex_sql (c_str (metadata_sql (1, 2, 3, 4, 5, 6) (''x'' @ sq @ ''; DROP TABLE peers;'') sq 7)) =
     sql_codes ''UPDATE peers SET name='' @ Literal (''x'' @ sq @ ''; DROP TABLE peers;'') #
     sql_codes '', description='' @ Literal sq #
     sql_codes ('', updated_at='' @ dec_int 7 @ '' WHERE mac='') @ Literal ''01:02:03:04:05:06'' # sql_codes '';''"
proof -
  have mac: "macToText (1, 2, 3, 4, 5, 6) = ''01:02:03:04:05:06''" by code_simp
  show ?thesis
    by (rule statements_carry_texts [of "''x'' @ sq @ ''; DROP TABLE peers;''" sq "(1, 2, 3, 4, 5, 6)" 7,
          THEN conjunct2, THEN conjunct1, unfolded mac]) (simp_all add: no_nul_def sq_def SQ_def NUL_def)
qed

section \<open>CSV\<close>

text \<open>The reference reader: a field that starts with a double quote goes to the closing one and two
  double quotes in it stand for one, any other field goes to the next comma or newline.\<close>

datatype csv_mode = FieldStart | BareField | QuotedField | ClosingQuote

fun csv_rows :: "csv_mode \<Rightarrow> string \<Rightarrow> string list \<Rightarrow> string \<Rightarrow> string list list option" where
  "csv_rows mode field fds [] = (if mode = FieldStart \<and> fds = [] then Some [] else None)"
| "csv_rows mode field fds (c # cs) =
     (if mode = QuotedField then
        (if c = DQ then csv_rows ClosingQuote field fds cs else csv_rows QuotedField (field @ [c]) fds cs)
      else if mode = ClosingQuote \<and> c = DQ then csv_rows QuotedField (field @ [DQ]) fds cs
      else if c = CHR '','' then csv_rows FieldStart [] (fds @ [field]) cs
      else if c = LF then map_option (Cons (fds @ [field])) (csv_rows FieldStart [] [] cs)
      else if mode = FieldStart \<and> c = DQ then csv_rows QuotedField [] fds cs
      else if mode = ClosingQuote then None
      else csv_rows BareField (field @ [c]) fds cs)"

definition read_csv :: "string \<Rightarrow> string list list option" where
  "read_csv s = csv_rows FieldStart [] [] s"

definition plain_field :: "string \<Rightarrow> bool" where
  "plain_field s \<longleftrightarrow> DQ \<notin> set s \<and> CHR '','' \<notin> set s \<and> LF \<notin> set s"

text \<open>What a cell holds: a null value and an empty text are both empty.\<close>

definition cell_value :: "sq_cell \<Rightarrow> string" where
  "cell_value cell = (case cl_text cell of None \<Rightarrow> [] | Some t \<Rightarrow> c_str t)"

fun doubled :: "string \<Rightarrow> string" where
  "doubled [] = []"
| "doubled (c # cs) = (if c = DQ then [DQ, DQ] else [c]) @ doubled cs"

lemma replaceAll_doubled: "replaceAll s [DQ] [DQ, DQ] = doubled s"
  by (induction s) (auto simp: replaceAll.simps [of "_ # _"] replaceAll.simps [of "[]"] startsWith_def)

lemma find_char_found: "find_char ch s \<noteq> None \<longleftrightarrow> ch \<in> set s"
  by (induction s) auto

lemma indexOf_found: "indexOf s ch 0 \<ge> 0 \<longleftrightarrow> ch \<in> set s"
  using find_char_found [of ch s] by (auto simp: indexOf_def split: option.splits)

lemma set_doubled [simp]: "set (doubled s) = set s"
  by (induction s) auto

lemma doubled_plain: "DQ \<notin> set s \<Longrightarrow> doubled s = s"
  by (induction s) auto

lemma csv_field_cell:
  "csv_field (cl_text cell) =
     (if plain_field (cell_value cell) then cell_value cell else [DQ] @ doubled (cell_value cell) @ [DQ])"
  by (auto simp: csv_field_def cell_value_def plain_field_def replaceAll_doubled indexOf_found doubled_plain
      split: option.splits)

definition field_end :: "string \<Rightarrow> bool" where
  "field_end rest \<longleftrightarrow> rest \<noteq> [] \<and> (hd rest = CHR '','' \<or> hd rest = LF)"

text \<open>What the reader does at the end of a field.\<close>

definition after_field :: "string \<Rightarrow> string list \<Rightarrow> string \<Rightarrow> string list list option" where
  "after_field field fds rest =
     (if hd rest = CHR '','' then csv_rows FieldStart [] (fds @ [field]) (tl rest)
      else map_option (Cons (fds @ [field])) (csv_rows FieldStart [] [] (tl rest)))"

lemma read_bare:
  "plain_field s \<Longrightarrow> field_end rest \<Longrightarrow> csv_rows BareField field fds (s @ rest) = after_field (field @ s) fds rest"
proof (induction s arbitrary: field)
  case Nil then show ?case by (cases rest) (auto simp: field_end_def after_field_def LF_def)
qed (auto simp: plain_field_def)

lemma read_quoted:
  "field_end rest \<Longrightarrow> csv_rows QuotedField field fds (doubled s @ DQ # rest) = after_field (field @ s) fds rest"
proof (induction s arbitrary: field)
  case Nil then show ?case by (cases rest) (auto simp: field_end_def after_field_def LF_def DQ_def)
qed auto

lemma read_plain_field:
  assumes "plain_field s" "field_end rest"
  shows "csv_rows FieldStart [] fds (s @ rest) = after_field s fds rest"
proof (cases s)
  case Nil
  then show ?thesis using assms by (cases rest) (auto simp: field_end_def after_field_def LF_def)
next
  case (Cons c cs)
  then show ?thesis using assms read_bare [of cs rest "[c]" fds] by (auto simp: plain_field_def)
qed

lemma read_field:
  "field_end rest \<Longrightarrow> csv_rows FieldStart [] fds (csv_field (cl_text cell) @ rest) = after_field (cell_value cell) fds rest"
  using read_plain_field [of "cell_value cell" rest fds] read_quoted [of rest "[]" fds "cell_value cell"]
  by (auto simp: csv_field_cell LF_def DQ_def)

lemma read_joined:
  assumes "\<And>s v fds rest. (s, v) \<in> set fs \<Longrightarrow> field_end rest \<Longrightarrow> csv_rows FieldStart [] fds (s @ rest) = after_field v fds rest"
    and "fs \<noteq> []"
  shows "csv_rows FieldStart [] fds (csv_join (map fst fs) True @ LF # rest) =
    map_option (Cons (fds @ map snd fs)) (csv_rows FieldStart [] [] rest)"
  using assms
proof (induction fs arbitrary: fds)
  case (Cons p fs)
  obtain s v where p: "p = (s, v)" by fastforce
  show ?case
  proof (cases fs)
    case Nil
    with Cons.prems(1) [of s v "LF # rest" fds] p show ?thesis by (simp add: field_end_def after_field_def LF_def)
  next
    case (Cons q qs)
    let ?more = "csv_join (map fst fs) True @ LF # rest"
    have "csv_rows FieldStart [] fds (csv_join (map fst (p # fs)) True @ LF # rest) = after_field v fds ('','' @ ?more)"
      using Cons.prems(1) [of s v "'','' @ ?more" fds] Cons p by (simp add: field_end_def)
    also have "\<dots> = csv_rows FieldStart [] (fds @ [v]) ?more" by (simp add: after_field_def)
    also have "\<dots> = map_option (Cons (fds @ map snd (p # fs))) (csv_rows FieldStart [] [] rest)"
      using Cons.IH [of "fds @ [v]"] Cons.prems(1) Cons p by simp
    finally show ?thesis .
  qed
qed simp

lemma read_line:
  assumes "row \<noteq> []"
  shows "csv_rows FieldStart [] [] (csv_line row @ rest) =
     map_option (Cons (map cell_value row)) (csv_rows FieldStart [] [] rest)"
proof -
  let ?fs = "map (\<lambda>c. (csv_field (cl_text c), cell_value c)) row"
  have "csv_rows FieldStart [] [] (csv_join (map fst ?fs) True @ LF # rest) =
      map_option (Cons ([] @ map snd ?fs)) (csv_rows FieldStart [] [] rest)"
    using assms by (intro read_joined) (auto simp: read_field)
  then show ?thesis by (simp add: csv_line_def comp_def)
qed

lemma read_lines:
  "list_all (\<lambda>row. row \<noteq> []) rows \<Longrightarrow> csv_rows FieldStart [] [] (concat (map csv_line rows)) = Some (map (map cell_value) rows)"
proof (induction rows)
  case (Cons row rows)
  then show ?case using read_line [of row "concat (map csv_line rows)"] by simp
qed simp


definition demo_cell :: "string \<Rightarrow> sq_cell" where "demo_cell t = \<lparr>cl_text = Some t, cl_int = 0\<rparr>"


end
