(* ===== verification/Firmware.thy ===== *)
theory Firmware
  imports Shell_Lines Store_Texts Hub_Subscriptions
begin

text \<open>
  The multiplexer with the real shell behind it: \<open>AppRuntime\<close> binds \<open>SerialMux\<close> to \<open>ShellConfig::runLine\<close>,
  so a command or a terminal line of the desktop runs on the hub that received it.
\<close>

text \<open>The full text goes back to the desktop. A line that needs more than \<open>depth\<close> nested calls has none.\<close>

definition firmware ::
    "('p, 'n, 'd, 'e, 'o, 'c, 'x, shell_call) shell_lib \<Rightarrow> nat \<Rightarrow> ('p, 'n, 'd, 'e, 'o board, 'c, 'x) mux_lib" where
  "firmware lib depth = (sh_mux lib)\<lparr>ml_run_line := \<lambda>line source userId h.
     case run_state (runLine lib depth line source userId) h of
       (texts, h) \<Rightarrow> (case texts of None \<Rightarrow> [] | Some (output, fullText) \<Rightarrow> fullText, h)\<rparr>"

lemma firmware_keeps_subs:
  assumes "hardware_only lib"
  shows "shell_keeps_subs (firmware lib depth)"
proof -
  have "frame lib True True h (snd (run_state (runLine lib depth line source userId) h))" for line source userId h
    by (rule runLine_frame [OF assms quiet_always prod.collapse [symmetric]])
  then show ?thesis
    by (simp add: shell_keeps_subs_def firmware_def frame_def same_hub_def case_prod_beta)
qed

lemma firmware_identity: "identity (firmware lib depth) self \<longleftrightarrow> identity (sh_mux lib) self"
  by (simp add: identity_def firmware_def)

text \<open>C25. The dongle publishes what is held, and nothing else: after any sequence of ticks, radio
  datagrams, session ends and commands, with whatever the shell lines among them do, each of its own hub.*
  topics is being published exactly while some desktop client holds a live subscription to it, with the
  period of the highest rate asked for (the highest the schema allows where a client asks for "as fast
  as possible").\<close>

theorem firmware_publishes_exactly_what_is_held:
  assumes "hardware_only lib" and "identity (sh_mux lib) self"
    and "hb_subs h = resetForTests" and "\<forall>t\<in>own_topics. \<not> ts_subscribed (topic_of t (hb_publisher h))"
    and "t \<in> own_topics"
  shows "let h' = fold (mux_step (firmware lib depth)) ops h; st = topic_of t (hb_publisher h'); held = live (hb_subs h') (self, ucast t)
    in (ts_subscribed st \<longleftrightarrow> held \<noteq> Map.empty) \<and>
       (held \<noteq> Map.empty \<longrightarrow>
          (let rate = Max (cs_requestedRateMillihz ` ran held)
           in ts_periodMs st = max 1 (1000000 div (if rate \<noteq> 0 then rate else schemaMaxRateFor t))))"
  by (rule publishes_what_is_held [OF firmware_keeps_subs firmware_identity [THEN iffD2]]) (fact assms)+

text \<open>A desktop that is bound to no robot subscribes to hub.link at half a hertz.\<close>

definition sub_demo_shell :: "(bytes \<times> bytes, demo_node, unit, bytes, demo_out, unit, unit, shell_call) shell_lib" where
  "sub_demo_shell = demo_shell\<lparr>sh_mux := shell_demo_mux\<lparr>ml_codec := demo_codec\<lparr>co_subscribe := \<lambda>bs. (MeOk,
     \<lparr>su_target_source_id = 100, su_topic_id = 0x0F01, su_requested_rate_millihz = 500, su_requested_lease_ms = 5000\<rparr>)\<rparr>\<rparr>\<rparr>"

definition sub_demo_system :: demo_system where
  "sub_demo_system = on_mux (\<lambda>m. m\<lparr>mw_port := ([4], [])\<rparr>) (demo_system SsActive)"

definition sub_demo_ops :: "mux_op list" where
  "sub_demo_ops = [Elsewhere hub_init peers_init (hb_manifests sub_demo_system), Tick 50]"

theorem firmware_publishes_exactly_what_is_held_witness:
  "ts_periodMs (pb_link (hb_publisher (fold (mux_step (firmware sub_demo_shell 3)) sub_demo_ops sub_demo_system))) = 2000 \<and>
   live (hb_subs (fold (mux_step (firmware sub_demo_shell 3)) sub_demo_ops sub_demo_system)) (100, ucast kLinkTopicId) \<noteq> Map.empty"
proof -
  let ?final = "fold (mux_step (firmware sub_demo_shell 3)) sub_demo_ops sub_demo_system"
  have "hardware_only sub_demo_shell" "identity (sh_mux sub_demo_shell) 100"
    by (simp_all add: hardware_only_def identity_def sub_demo_shell_def shell_demo_mux_def)
  moreover have "hb_subs sub_demo_system = resetForTests"
    "\<forall>t\<in>own_topics. \<not> ts_subscribed (topic_of t (hb_publisher sub_demo_system))"
    by (simp_all add: sub_demo_system_def demo_system_def on_mux_def publisher_init_def topic_of_def idleTopic_def)
  moreover have "kLinkTopicId \<in> own_topics" by (simp add: own_topics_def)
  moreover have "ts_subscribed (pb_link (hb_publisher ?final)) \<and> ts_periodMs (pb_link (hb_publisher ?final)) = 2000" by code_simp
  ultimately show ?thesis
    using firmware_publishes_exactly_what_is_held [of sub_demo_shell 100 sub_demo_system kLinkTopicId 3 sub_demo_ops]
    by (simp add: Let_def topic_of_def)
qed

end
