(* ===== verification/Lcd_Dashboard.thy ===== *)
theory Lcd_Dashboard
  imports Text_Format Radio_Ingress "HOL-Library.Signed_Division"
begin

text \<open>
  \<open>lib/LcdDashboard\<close>: the status pages on the small display. The graphics library is not modelled: an
  operation appends the calls it makes to \<open>ld_calls\<close>, in their order, and the two measures of a text are
  parameters. Coordinates are the \<open>int16_t\<close> of the code, read as integers. The clock, the button and
  the size of the panel are arguments of the operations that read them.
\<close>

section \<open>Data\<close>

text \<open>A cast to \<open>int16_t\<close>, to \<open>unsigned\<close> and to \<open>unsigned long\<close>.\<close>

definition i16 :: "int \<Rightarrow> int" where "i16 x = sint (word_of_int x :: 16 word)"
definition u32_of :: "'n::len word \<Rightarrow> nat" where "u32_of v = unat (ucast v :: u32)"

lemma i16_small [simp]: "- 32768 \<le> x \<Longrightarrow> x < 32768 \<Longrightarrow> i16 x = x"
  by (simp add: i16_def sint_sbintrunc' signed_take_bit_int_eq_self)

datatype lcd_call =
    FillScreen u16
  | FillRect int int int int u16
  | FillCircle int int int u16
  | DrawFastHLine int int int u16
  | DrawFastVLine int int int u16
  | SetTextSize u8
  | SetTextColor u16 u16
  | SetCursor int int
  | Print string
  | SetLcdBacklight bool

record rect =
  re_x :: int
  re_y :: int
  re_w :: int
  re_h :: int

datatype page = PgActivity | PgErrors | PgSession | PgPeers

record peer_row =
  pw_sourceId :: u32
  pw_lastSeenAgeMs :: u32
  pw_online :: bool

record error_counters =
  ec_droppedRx :: u32
  ec_droppedDecode :: u32
  ec_droppedCrc :: u32
  ec_droppedReassembly :: u32
  ec_droppedQueueFull :: u32
  ec_droppedAuth :: u32

record session_status =
  st_protocolled :: bool
  st_consoleOwned :: bool
  st_sdReady :: bool
  st_sdUsedMB :: u64
  st_sdTotalMB :: u64
  st_dbReady :: bool

text \<open>Where things are.\<close>

record layout =
  ly_screenW :: int
  ly_screenH :: int
  ly_messageRect :: rect
  ly_pageIndicatorRect :: rect
  ly_stateRect :: rect
  ly_contentRect :: rect
  ly_rxTile :: rect
  ly_txTile :: rect
  ly_peersTile :: rect

record dashboard =
  ld_calls :: "lcd_call list"
  ld_tft :: bool
  ld_ready :: bool
  ld_layout :: layout
  ld_lastRefreshMs :: u32
  ld_currentPage :: page
  ld_buttonPressedLast :: bool
  ld_messageExpireMs :: u32
  ld_messageActive :: bool
  ld_rxPulseUntilMs :: u32
  ld_rxCacheValid :: bool
  ld_rxHotDrawn :: bool
  ld_txPulseUntilMs :: u32
  ld_txHasResult :: bool
  ld_txLastOk :: bool
  ld_txCacheValid :: bool
  ld_txDrawn :: "bool \<times> bool \<times> bool"
  ld_peerRows :: "peer_row list"
  ld_peerTotalKnown :: nat
  ld_peerOnlineCount :: nat
  ld_peersTileCacheValid :: bool
  ld_peersTileDrawn :: "nat \<times> nat"
  ld_peersPageCacheValid :: bool
  ld_peersPageDrawnRows :: "peer_row list"
  ld_peersPageDrawnTotalKnown :: nat
  ld_errLive :: error_counters
  ld_errCacheValid :: bool
  ld_errDrawn :: error_counters
  ld_sessionLive :: session_status
  ld_sessionCacheValid :: bool
  ld_sessionDrawn :: session_status

text \<open>The two questions asked of the font.\<close>

record lcd_lib =
  ll_textWidth :: "u8 \<Rightarrow> string \<Rightarrow> int"
  ll_fontHeight :: "u8 \<Rightarrow> int"

definition REFRESH_INTERVAL_MS :: u32 where "REFRESH_INTERVAL_MS = 150"
definition PULSE_HOLD_MS :: u32 where "PULSE_HOLD_MS = 400"
definition MESSAGE_HOLD_MS :: u32 where "MESSAGE_HOLD_MS = 2000"
definition MAX_DISPLAYED_PEERS :: nat where "MAX_DISPLAYED_PEERS = 4"
definition kRawWhite :: u16 where "kRawWhite = 0xFFFF"
definition kRawBlack :: u16 where "kRawBlack = 0x0000"
definition kRawRed :: u16 where "kRawRed = 0xF800"
definition kRawYellow :: u16 where "kRawYellow = 0xFFE0"
definition kRawGreen :: u16 where "kRawGreen = 0x07E0"
definition kRawCyan :: u16 where "kRawCyan = 0x07FF"
definition kRawGridLine :: u16 where "kRawGridLine = 0xC618"
definition kNeutralGray565 :: u16 where "kNeutralGray565 = 0x8410"
definition kBarHeight :: int where "kBarHeight = 16"
definition kPageIndicatorWidth :: int where "kPageIndicatorWidth = 30"
definition kStateStripHeight :: int where "kStateStripHeight = 12"
definition kTextLineHeight :: int where "kTextLineHeight = 10"

definition no_rect :: rect where "no_rect = \<lparr>re_x = 0, re_y = 0, re_w = 0, re_h = 0\<rparr>"

definition no_errors :: error_counters where
  "no_errors = \<lparr>ec_droppedRx = 0, ec_droppedDecode = 0, ec_droppedCrc = 0, ec_droppedReassembly = 0,
     ec_droppedQueueFull = 0, ec_droppedAuth = 0\<rparr>"

definition no_session :: session_status where
  "no_session = \<lparr>st_protocolled = False, st_consoleOwned = False, st_sdReady = False, st_sdUsedMB = 0,
     st_sdTotalMB = 0, st_dbReady = False\<rparr>"

definition lcd_init :: dashboard where
  "lcd_init = \<lparr>ld_calls = [], ld_tft = False, ld_ready = False,
     ld_layout = \<lparr>ly_screenW = 0, ly_screenH = 0, ly_messageRect = no_rect, ly_pageIndicatorRect = no_rect,
       ly_stateRect = no_rect, ly_contentRect = no_rect, ly_rxTile = no_rect, ly_txTile = no_rect, ly_peersTile = no_rect\<rparr>,
     ld_lastRefreshMs = 0, ld_currentPage = PgActivity, ld_buttonPressedLast = False, ld_messageExpireMs = 0,
     ld_messageActive = False, ld_rxPulseUntilMs = 0, ld_rxCacheValid = False, ld_rxHotDrawn = False,
     ld_txPulseUntilMs = 0, ld_txHasResult = False, ld_txLastOk = False, ld_txCacheValid = False,
     ld_txDrawn = (False, False, False), ld_peerRows = [], ld_peerTotalKnown = 0, ld_peerOnlineCount = 0,
     ld_peersTileCacheValid = False, ld_peersTileDrawn = (0, 0), ld_peersPageCacheValid = False,
     ld_peersPageDrawnRows = [], ld_peersPageDrawnTotalKnown = 0, ld_errLive = no_errors, ld_errCacheValid = False,
     ld_errDrawn = no_errors, ld_sessionLive = no_session, ld_sessionCacheValid = False, ld_sessionDrawn = no_session\<rparr>"

definition draw :: "lcd_call list \<Rightarrow> dashboard \<Rightarrow> dashboard" where
  "draw calls d = d\<lparr>ld_calls := ld_calls d @ calls\<rparr>"

section \<open>Layout and colours\<close>

definition layoutChrome :: "int \<times> int \<Rightarrow> layout" where
  "layoutChrome sz =
     (let screenW = i16 (fst sz); screenH = i16 (snd sz);
          stateRect = \<lparr>re_x = 0, re_y = i16 (kBarHeight + 1), re_w = screenW, re_h = kStateStripHeight\<rparr>;
          contentY = i16 (re_y stateRect + re_h stateRect + 1);
          contentRect = \<lparr>re_x = 0, re_y = contentY, re_w = screenW, re_h = i16 (screenH - contentY)\<rparr>;
          colW = i16 (re_w contentRect sdiv 3);
          lastColW = i16 (re_w contentRect - colW * 2)
      in \<lparr>ly_screenW = screenW, ly_screenH = screenH,
          ly_messageRect = \<lparr>re_x = 0, re_y = 0, re_w = i16 (screenW - kPageIndicatorWidth), re_h = kBarHeight\<rparr>,
          ly_pageIndicatorRect =
            \<lparr>re_x = i16 (screenW - kPageIndicatorWidth), re_y = 0, re_w = kPageIndicatorWidth, re_h = kBarHeight\<rparr>,
          ly_stateRect = stateRect, ly_contentRect = contentRect,
          ly_rxTile = \<lparr>re_x = re_x contentRect, re_y = re_y contentRect, re_w = colW, re_h = re_h contentRect\<rparr>,
          ly_txTile = \<lparr>re_x = i16 (re_x contentRect + colW), re_y = re_y contentRect, re_w = colW, re_h = re_h contentRect\<rparr>,
          ly_peersTile = \<lparr>re_x = i16 (re_x contentRect + colW * 2), re_y = re_y contentRect, re_w = lastColW,
             re_h = re_h contentRect\<rparr>\<rparr>)"

definition resetCaches :: "dashboard \<Rightarrow> dashboard" where
  "resetCaches d = d\<lparr>ld_messageActive := False, ld_rxCacheValid := False, ld_txCacheValid := False,
     ld_peersTileCacheValid := False, ld_peersPageCacheValid := False, ld_errCacheValid := False,
     ld_sessionCacheValid := False\<rparr>"

definition lcd_toPanelColor :: "u16 \<Rightarrow> u16" where
  "lcd_toPanelColor desiredColor =
     (let inverted = NOT desiredColor;
          r = drop_bit 11 inverted AND 0x1F; g = drop_bit 5 inverted AND 0x3F; b = inverted AND 0x1F
      in push_bit 11 b OR push_bit 5 g OR r)"

section \<open>Drawing\<close>

definition fill_rect :: "rect \<Rightarrow> lcd_call" where
  "fill_rect r = FillRect (re_x r) (re_y r) (re_w r) (re_h r) kRawWhite"

definition valueArea :: "rect \<Rightarrow> rect" where
  "valueArea tile = \<lparr>re_x = i16 (re_x tile + 1), re_y = i16 (re_y tile + 10), re_w = i16 (re_w tile - 2),
     re_h = i16 (re_h tile - 11)\<rparr>"

definition drawLabel :: "rect \<Rightarrow> string \<Rightarrow> lcd_call list" where
  "drawLabel tile label = [SetTextSize 1, SetTextColor kRawBlack kRawWhite,
     SetCursor (i16 (re_x tile + 3)) (i16 (re_y tile + 2)), Print label]"

definition drawCenteredValue :: "lcd_lib \<Rightarrow> rect \<Rightarrow> string \<Rightarrow> u16 \<Rightarrow> u8 \<Rightarrow> lcd_call list" where
  "drawCenteredValue lib tile txt color textSize =
     (let area = valueArea tile;
          tw = i16 (ll_textWidth lib textSize txt); th = i16 (ll_fontHeight lib textSize);
          cx = i16 (re_x area + (re_w area - tw) sdiv 2); cy = i16 (re_y area + (re_h area - th) sdiv 2)
      in fill_rect area #
         (if txt = [] then []
          else [SetTextSize textSize, SetCursor cx cy, SetTextColor color kRawWhite, Print txt]))"

definition drawActivityDot :: "rect \<Rightarrow> string \<Rightarrow> u16 \<Rightarrow> lcd_call list" where
  "drawActivityDot tile label color =
     (let area = valueArea tile;
          shorterSide = (if re_w area < re_h area then re_w area else re_h area);
          radius = max 2 (i16 (shorterSide sdiv 2 - 2));
          cx = i16 (re_x tile + re_w tile sdiv 2);
          labelRight = i16 (re_x tile + 3 + i16 (int (length label)) * 6);
          labelBottom = i16 (re_y tile + 2 + 8);
          cy = (if labelRight > cx - radius then i16 (labelBottom + radius + 2) else i16 (re_y tile + re_h tile sdiv 2));
          clearSide = i16 (radius * 2 + 2)
      in [FillRect (i16 (cx - radius - 1)) (i16 (cy - radius - 1)) clearSide clearSide kRawWhite,
          FillCircle cx cy radius color])"

definition drawTextLine :: "int \<Rightarrow> int \<Rightarrow> string \<Rightarrow> u16 \<Rightarrow> lcd_call list" where
  "drawTextLine x y txt color = [SetTextSize 1, SetCursor x y, SetTextColor color kRawWhite, Print txt]"

definition page_number :: "page \<Rightarrow> nat" where
  "page_number p = (case p of PgActivity \<Rightarrow> 0 | PgErrors \<Rightarrow> 1 | PgSession \<Rightarrow> 2 | PgPeers \<Rightarrow> 3)"

definition pages :: "page list" where "pages = [PgActivity, PgErrors, PgSession, PgPeers]"

text \<open>\<open>switchToPage\<close> is given \<open>static_cast<Page>((page + 1) % kCount)\<close>.\<close>

definition next_page :: "page \<Rightarrow> page" where
  "next_page p = pages ! ((page_number p + 1) mod length pages)"

definition drawPageIndicator :: "layout \<Rightarrow> page \<Rightarrow> lcd_call list" where
  "drawPageIndicator ly p =
     (let r = ly_pageIndicatorRect ly in
      fill_rect r # drawTextLine (i16 (re_x r + 2)) (i16 (re_y r + (re_h r - 8) sdiv 2))
        (snprintf 8 (dec (page_number p + 1) @ ''/'' @ dec (length pages))) kRawBlack)"

definition drawDefaultState :: "layout \<Rightarrow> lcd_call list" where
  "drawDefaultState ly =
     (let r = ly_stateRect ly in
      fill_rect r # drawTextLine (i16 (re_x r + 2)) (i16 (re_y r + (re_h r - 8) sdiv 2)) ''estado: --''
        (lcd_toPanelColor kNeutralGray565))"

definition drawActivityChrome :: "layout \<Rightarrow> lcd_call list" where
  "drawActivityChrome ly =
     (let c = ly_contentRect ly in
      [DrawFastVLine (re_x (ly_txTile ly)) (re_y c) (re_h c) kRawGridLine,
       DrawFastVLine (re_x (ly_peersTile ly)) (re_y c) (re_h c) kRawGridLine] @
      drawLabel (ly_rxTile ly) ''RX'' @ drawLabel (ly_txTile ly) ''TX'' @ drawLabel (ly_peersTile ly) ''PEERS'')"

text \<open>What \<open>begin\<close> and \<open>clear\<close> paint first.\<close>

definition draw_frame :: "layout \<Rightarrow> lcd_call list" where
  "draw_frame ly =
     [FillScreen kRawWhite, DrawFastHLine 0 kBarHeight (ly_screenW ly) kRawGridLine,
      DrawFastHLine 0 (i16 (re_y (ly_stateRect ly) + re_h (ly_stateRect ly))) (ly_screenW ly) kRawGridLine] @
     drawDefaultState ly"

definition lcd_begin :: "bool \<Rightarrow> int \<times> int \<Rightarrow> u32 \<Rightarrow> bool \<Rightarrow> dashboard \<Rightarrow> bool \<times> dashboard" where
  "lcd_begin there sz now pressed d =
     (if \<not> there then (False, d\<lparr>ld_tft := False, ld_ready := False\<rparr>)
      else
        let ly = layoutChrome sz;
            d = resetCaches (draw [SetLcdBacklight True] d\<lparr>ld_tft := True, ld_layout := ly,
                  ld_currentPage := PgActivity, ld_buttonPressedLast := pressed\<rparr>);
            d = draw (draw_frame ly @ drawActivityChrome ly @ drawPageIndicator ly PgActivity) d
        in (True, d\<lparr>ld_ready := True, ld_lastRefreshMs := now - REFRESH_INTERVAL_MS\<rparr>))"

definition lcd_clear :: "int \<times> int \<Rightarrow> dashboard \<Rightarrow> dashboard" where
  "lcd_clear sz d =
     (if \<not> ld_ready d \<or> \<not> ld_tft d then d
      else
        let ly = layoutChrome sz; d = resetCaches (d\<lparr>ld_layout := ly\<rparr>) in
        draw (draw_frame ly @ (if ld_currentPage d = PgActivity then drawActivityChrome ly else []) @
              drawPageIndicator ly (ld_currentPage d)) d)"

section \<open>The button\<close>

definition switchToPage :: "page \<Rightarrow> dashboard \<Rightarrow> dashboard" where
  "switchToPage p d =
     (let ly = ld_layout d;
          d = d\<lparr>ld_currentPage := p, ld_rxCacheValid := False, ld_txCacheValid := False,
                ld_peersTileCacheValid := False, ld_peersPageCacheValid := False, ld_errCacheValid := False,
                ld_sessionCacheValid := False\<rparr>
      in draw (fill_rect (ly_contentRect ly) # (if p = PgActivity then drawActivityChrome ly else []) @
               drawPageIndicator ly p) d)"

definition pollButton :: "bool \<Rightarrow> dashboard \<Rightarrow> dashboard" where
  "pollButton pressed d =
     (let d = (if pressed \<and> \<not> ld_buttonPressedLast d then switchToPage (next_page (ld_currentPage d)) d else d)
      in d\<lparr>ld_buttonPressedLast := pressed\<rparr>)"

section \<open>Texts that are shown at once\<close>

definition message_chars :: "rect \<Rightarrow> int" where
  "message_chars r = (if re_w r > 4 then i16 ((re_w r - 4) sdiv 6) else 0)"

text \<open>A text that is too long for a line loses its end to three dots, where three dots fit.\<close>

definition fit_text :: "int \<Rightarrow> string \<Rightarrow> string" where
  "fit_text maxChars txt =
     (if maxChars > 0 \<and> int (length txt) > maxChars then
        (if maxChars > 3 then substring txt 0 (nat (maxChars - 3)) @ ''...'' else substring txt 0 (nat maxChars))
      else txt)"

definition showMessage :: "string \<Rightarrow> u16 \<Rightarrow> u32 \<Rightarrow> dashboard \<Rightarrow> dashboard" where
  "showMessage txt color now d =
     (if \<not> ld_ready d then d
      else
        let r = ly_messageRect (ld_layout d);
            oneLine = fit_text (message_chars r) (trim (replaceAll (replaceAll txt [CR] '' '') [LF] '' ''))
        in (draw [fill_rect r, SetTextSize 1, SetCursor (i16 (re_x r + 2)) (i16 (re_y r + (re_h r - 8) sdiv 2)),
              SetTextColor color kRawWhite, Print (c_str oneLine)] d)
             \<lparr>ld_messageExpireMs := now + MESSAGE_HOLD_MS, ld_messageActive := True\<rparr>)"

definition notifyRx :: "u32 \<Rightarrow> dashboard \<Rightarrow> dashboard" where
  "notifyRx now d = d\<lparr>ld_rxPulseUntilMs := now + PULSE_HOLD_MS\<rparr>"

definition notifyTx :: "bool \<Rightarrow> u32 \<Rightarrow> dashboard \<Rightarrow> dashboard" where
  "notifyTx delivered now d = d\<lparr>ld_txPulseUntilMs := now + PULSE_HOLD_MS, ld_txLastOk := delivered, ld_txHasResult := True\<rparr>"

fun mentions :: "string \<Rightarrow> string \<Rightarrow> bool" where
  "mentions s needle = (startsWith s needle \<or> (case s of [] \<Rightarrow> False | _ # rest \<Rightarrow> mentions rest needle))"

declare mentions.simps [simp del]

definition state_color :: "string \<Rightarrow> u16" where
  "state_color lower =
     (if list_ex (mentions lower) [''erro'', ''error'', ''fault''] then kRawRed
      else if list_ex (mentions lower) [''warn'', ''aviso''] then kRawYellow
      else if list_ex (mentions lower) [''ok'', ''pronto'', ''ready'', ''idle'', ''run''] then kRawGreen
      else kNeutralGray565)"

definition notifyRobotState :: "string \<Rightarrow> dashboard \<Rightarrow> dashboard" where
  "notifyRobotState robotState d =
     (if \<not> ld_ready d then d
      else
        let trimmed = trim robotState; txt = (if trimmed = [] then ''?'' else trimmed);
            r = ly_stateRect (ld_layout d); color = lcd_toPanelColor (state_color (toLowerCase txt))
        in draw (fill_rect r # drawTextLine (i16 (re_x r + 2)) (i16 (re_y r + (re_h r - 8) sdiv 2))
             (c_str (fit_text (message_chars r) txt)) color) d)"

section \<open>Values that are shown by the next refresh\<close>

definition notifyPeers :: "peer_row list \<Rightarrow> nat \<Rightarrow> dashboard \<Rightarrow> dashboard" where
  "notifyPeers rows totalKnown d =
     (let shown = take MAX_DISPLAYED_PEERS rows in
      d\<lparr>ld_peerRows := shown, ld_peerTotalKnown := totalKnown,
        ld_peerOnlineCount := length (filter pw_online shown)\<rparr>)"

definition notifyErrorCounters :: "error_counters \<Rightarrow> dashboard \<Rightarrow> dashboard" where
  "notifyErrorCounters live d = d\<lparr>ld_errLive := live\<rparr>"

definition notifySessionStatus :: "bool \<Rightarrow> bool \<Rightarrow> dashboard \<Rightarrow> dashboard" where
  "notifySessionStatus protocolled consoleOwned d =
     d\<lparr>ld_sessionLive := (ld_sessionLive d)\<lparr>st_protocolled := protocolled, st_consoleOwned := consoleOwned\<rparr>\<rparr>"

definition notifyStorageStatus :: "bool \<Rightarrow> u64 \<Rightarrow> u64 \<Rightarrow> bool \<Rightarrow> dashboard \<Rightarrow> dashboard" where
  "notifyStorageStatus sdReady sdUsedMB sdTotalMB dbReady d =
     d\<lparr>ld_sessionLive := (ld_sessionLive d)\<lparr>st_sdReady := sdReady, st_sdUsedMB := sdUsedMB,
        st_sdTotalMB := sdTotalMB, st_dbReady := dbReady\<rparr>\<rparr>"

section \<open>The refresh\<close>

definition refreshMessageExpiry :: "u32 \<Rightarrow> dashboard \<Rightarrow> dashboard" where
  "refreshMessageExpiry now d =
     (if \<not> ld_messageActive d \<or> sint (now - ld_messageExpireMs d) < 0 then d
      else draw [fill_rect (ly_messageRect (ld_layout d))] (d\<lparr>ld_messageActive := False\<rparr>))"

definition pulse_hot :: "u32 \<Rightarrow> u32 \<Rightarrow> bool" where
  "pulse_hot untilMs now \<longleftrightarrow> sint (untilMs - now) > 0"

definition refreshRxTile :: "u32 \<Rightarrow> dashboard \<Rightarrow> dashboard" where
  "refreshRxTile now d =
     (let hot = pulse_hot (ld_rxPulseUntilMs d) now in
      if ld_rxCacheValid d \<and> hot = ld_rxHotDrawn d then d
      else draw (drawActivityDot (ly_rxTile (ld_layout d)) ''RX'' (lcd_toPanelColor (if hot then kRawCyan else kNeutralGray565)))
             (d\<lparr>ld_rxCacheValid := True, ld_rxHotDrawn := hot\<rparr>))"

definition tx_color :: "bool \<times> bool \<times> bool \<Rightarrow> u16" where
  "tx_color v = (case v of (hot, hasResult, ok) \<Rightarrow>
     if hot then kRawCyan else if hasResult then (if ok then kRawGreen else kRawRed) else kNeutralGray565)"

definition refreshTxTile :: "u32 \<Rightarrow> dashboard \<Rightarrow> dashboard" where
  "refreshTxTile now d =
     (let v = (pulse_hot (ld_txPulseUntilMs d) now, ld_txHasResult d, ld_txLastOk d) in
      if ld_txCacheValid d \<and> v = ld_txDrawn d then d
      else draw (drawActivityDot (ly_txTile (ld_layout d)) ''TX'' (lcd_toPanelColor (tx_color v)))
             (d\<lparr>ld_txCacheValid := True, ld_txDrawn := v\<rparr>))"

definition peers_color :: "nat \<Rightarrow> nat \<Rightarrow> u16" where
  "peers_color online known =
     (if known > 0 then (if online = 0 then kRawRed else if online < known then kRawYellow else kRawGreen)
      else kNeutralGray565)"

definition refreshPeersTile :: "lcd_lib \<Rightarrow> dashboard \<Rightarrow> dashboard" where
  "refreshPeersTile lib d =
     (let online = ld_peerOnlineCount d; known = ld_peerTotalKnown d in
      if ld_peersTileCacheValid d \<and> (online, known) = ld_peersTileDrawn d then d
      else draw (drawCenteredValue lib (ly_peersTile (ld_layout d)) (snprintf 12 (dec online @ ''/'' @ dec known))
               (lcd_toPanelColor (peers_color online known)) 2)
             (d\<lparr>ld_peersTileCacheValid := True, ld_peersTileDrawn := (online, known)\<rparr>))"

text \<open>The lines of a page below each other, from two pixels inside its area.\<close>

fun draw_lines :: "int \<Rightarrow> int \<Rightarrow> (string \<times> u16) list \<Rightarrow> lcd_call list" where
  "draw_lines x y [] = []"
| "draw_lines x y ((txt, color) # rest) = drawTextLine x y txt color @ draw_lines x (i16 (y + kTextLineHeight)) rest"

definition draw_page :: "rect \<Rightarrow> (string \<times> u16) list \<Rightarrow> lcd_call list" where
  "draw_page r rows = fill_rect r # draw_lines (i16 (re_x r + 2)) (i16 (re_y r + 2)) rows"

definition errors_lines :: "error_counters \<Rightarrow> (string \<times> u16) list" where
  "errors_lines live =
     (let sum = ec_droppedRx live + ec_droppedDecode live + ec_droppedCrc live + ec_droppedReassembly live +
            ec_droppedQueueFull live + ec_droppedAuth live;
          color = lcd_toPanelColor (if sum > 0 then kRawRed else kNeutralGray565)
      in [(snprintf 24 (''RX:'' @ dec (unat (ec_droppedRx live)) @ ''  DEC:'' @ dec (unat (ec_droppedDecode live))), color),
          (snprintf 24 (''CRC:'' @ dec (unat (ec_droppedCrc live)) @ ''  REASM:'' @ dec (unat (ec_droppedReassembly live))), color),
          (snprintf 24 (''Q:'' @ dec (unat (ec_droppedQueueFull live)) @ ''  AUTH:'' @ dec (unat (ec_droppedAuth live))), color)])"

definition refreshErrorsPage :: "dashboard \<Rightarrow> dashboard" where
  "refreshErrorsPage d =
     (let live = ld_errLive d in
      if ld_errCacheValid d \<and> live = ld_errDrawn d then d
      else draw (draw_page (ly_contentRect (ld_layout d)) (errors_lines live))
             (d\<lparr>ld_errCacheValid := True, ld_errDrawn := live\<rparr>))"

definition session_lines :: "session_status \<Rightarrow> (string \<times> u16) list" where
  "session_lines live =
     [(snprintf 24 (''BTP: '' @ (if st_consoleOwned live then ''Console''
         else if st_protocolled live then ''Protocolado'' else ''Aguardando'')),
       lcd_toPanelColor (if st_consoleOwned live then kNeutralGray565 else if st_protocolled live then kRawGreen else kRawYellow)),
      (if st_sdReady live
       then snprintf 24 (''SD '' @ dec (u32_of (st_sdUsedMB live)) @ ''/'' @ dec (u32_of (st_sdTotalMB live)) @ ''MB'')
       else ''SD ausente'',
       lcd_toPanelColor (if st_sdReady live then kRawGreen else kNeutralGray565)),
      (if st_dbReady live then ''DB pronto'' else ''DB indisponivel'',
       lcd_toPanelColor (if st_dbReady live then kRawGreen else kNeutralGray565))]"

definition refreshSessionPage :: "dashboard \<Rightarrow> dashboard" where
  "refreshSessionPage d =
     (let live = ld_sessionLive d in
      if ld_sessionCacheValid d \<and> live = ld_sessionDrawn d then d
      else draw (draw_page (ly_contentRect (ld_layout d)) (session_lines live))
             (d\<lparr>ld_sessionCacheValid := True, ld_sessionDrawn := live\<rparr>))"

text \<open>\<open>%04lX\<close> of the low half.\<close>

definition hex4 :: "u32 \<Rightarrow> string" where
  "hex4 v = map (\<lambda>k. hex_upper (unat v div 16 ^ (3 - k) mod 16)) [0..<4]"

definition peer_line :: "peer_row \<Rightarrow> string \<times> u16" where
  "peer_line row =
     (snprintf 24 (hex4 (pw_sourceId row) @ ''  '' @ dec (unat (pw_lastSeenAgeMs row div 1000)) @ ''s''),
      lcd_toPanelColor (if pw_online row then kRawGreen else kNeutralGray565))"

definition peers_lines :: "peer_row list \<Rightarrow> nat \<Rightarrow> (string \<times> u16) list" where
  "peers_lines rows totalKnown =
     (if rows = [] then [(''sem peers'', lcd_toPanelColor kNeutralGray565)]
      else map peer_line rows @
        (if totalKnown > length rows
         then [(snprintf 24 (''+'' @ dec (totalKnown - length rows) @ '' mais''), lcd_toPanelColor kNeutralGray565)] else []))"

definition same_row :: "peer_row \<Rightarrow> peer_row \<Rightarrow> bool" where
  "same_row drawn live \<longleftrightarrow> pw_sourceId drawn = pw_sourceId live \<and>
     pw_lastSeenAgeMs drawn div 1000 = pw_lastSeenAgeMs live div 1000 \<and> pw_online drawn = pw_online live"

definition refreshPeersPage :: "dashboard \<Rightarrow> dashboard" where
  "refreshPeersPage d =
     (let rows = ld_peerRows d; totalKnown = ld_peerTotalKnown d in
      if ld_peersPageCacheValid d \<and> length rows = length (ld_peersPageDrawnRows d) \<and>
         totalKnown = ld_peersPageDrawnTotalKnown d \<and> list_all2 same_row (ld_peersPageDrawnRows d) rows then d
      else draw (draw_page (ly_contentRect (ld_layout d)) (peers_lines rows totalKnown))
             (d\<lparr>ld_peersPageCacheValid := True, ld_peersPageDrawnRows := rows,
                ld_peersPageDrawnTotalKnown := totalKnown\<rparr>))"

definition refreshPage :: "lcd_lib \<Rightarrow> u32 \<Rightarrow> dashboard \<Rightarrow> dashboard" where
  "refreshPage lib now d =
     (case ld_currentPage d of
        PgActivity \<Rightarrow> refreshPeersTile lib (refreshTxTile now (refreshRxTile now d))
      | PgErrors \<Rightarrow> refreshErrorsPage d
      | PgSession \<Rightarrow> refreshSessionPage d
      | PgPeers \<Rightarrow> refreshPeersPage d)"

definition refresh_due :: "u32 \<Rightarrow> dashboard \<Rightarrow> bool" where
  "refresh_due now d \<longleftrightarrow> ld_ready d \<and> \<not> now - ld_lastRefreshMs d < REFRESH_INTERVAL_MS"

definition lcd_tick :: "lcd_lib \<Rightarrow> u32 \<Rightarrow> bool \<Rightarrow> dashboard \<Rightarrow> dashboard" where
  "lcd_tick lib now pressed d =
     (if \<not> refresh_due now d then d
      else refreshMessageExpiry now (refreshPage lib now (pollButton pressed (d\<lparr>ld_lastRefreshMs := now\<rparr>))))"

end
