(* ===== verification/App_Runtime.thy ===== *)
theory App_Runtime
  imports Firmware Lcd_Dashboard Radio_Service
begin

text \<open>
  \<open>lib/AppRuntime\<close>: the main loop that drives the other modules, its console, the start of the store,
  the warnings about lost datagrams, the providers it binds and the heartbeat task; and \<open>lib/UsbHidMux\<close>,
  which the loop ticks. The line editor of the console is the one of the terminal (\<open>ml_editor\<close>). What the
  shell's own commands see of the display and of the radio counters are the parameters of \<open>shell_lib\<close>;
  the display the loop refreshes is \<open>ap_lcd\<close> and the receiver it drains \<open>ap_radio\<close>.
\<close>

section \<open>The echo on the HID interface\<close>

definition kReportSize :: nat where "kReportSize = 64"
definition kPayloadSize :: nat where "kPayloadSize = kReportSize - 1"

record hid_mux =
  hm_pendingOut :: bytes
  hm_hasPendingOut :: bool
  hm_started :: bool

definition hid_init :: hid_mux where
  "hid_init = \<lparr>hm_pendingOut = replicate kReportSize 0, hm_hasPendingOut = False, hm_started = False\<rparr>"

definition hid_begin :: "hid_mux \<Rightarrow> hid_mux" where "hid_begin s = s\<lparr>hm_started := True\<rparr>"

text \<open>\<open>buffer\<close> is the memory behind the pointer, which the USB stack fills with \<open>bufsize\<close> octets; the copy
  goes by the length in the first octet and not by \<open>bufsize\<close>.\<close>

definition hid_set_report :: "bytes option \<Rightarrow> nat \<Rightarrow> hid_mux \<Rightarrow> hid_mux" where
  "hid_set_report buffer bufsize s =
     (case buffer of
        None \<Rightarrow> s
      | Some memory \<Rightarrow>
          if bufsize = 0 then s
          else
            let validLength = min kPayloadSize (unat (memory ! 0)) in
            if validLength = 0 then s
            else s\<lparr>hm_pendingOut := of_nat validLength # take validLength (drop 1 memory) @ drop (validLength + 1) (hm_pendingOut s),
                   hm_hasPendingOut := True\<rparr>)"

text \<open>\<open>ready\<close> and \<open>report\<close> are TinyUSB's.\<close>

definition hid_tick :: "('o \<Rightarrow> bool) \<Rightarrow> (bytes \<Rightarrow> 'o \<Rightarrow> bool \<times> 'o) \<Rightarrow> hid_mux \<times> 'o \<Rightarrow> hid_mux \<times> 'o" where
  "hid_tick ready report st =
     (case st of (s, w) \<Rightarrow>
        if \<not> hm_started s \<or> \<not> hm_hasPendingOut s \<or> \<not> ready w then (s, w)
        else case report (hm_pendingOut s) w of
          (ok, w) \<Rightarrow> (if ok then s\<lparr>hm_hasPendingOut := False\<rparr> else s, w))"

section \<open>State and environment\<close>

definition kRxDisplayFlushBurst :: nat where "kRxDisplayFlushBurst = 48"
definition kWarnThrottleMs :: u32 where "kWarnThrottleMs = 5000"
definition kPeerOnlineWindowMs :: u32 where "kPeerOnlineWindowMs = 1500"
definition kDatabaseFirstAttemptMs :: u32 where "kDatabaseFirstAttemptMs = 400"
definition kDatabaseRetryMs :: u32 where "kDatabaseRetryMs = 3000"
definition kDatabaseForceMs :: u32 where "kDatabaseForceMs = 10000"
definition kDatabaseMaxAttempts :: u8 where "kDatabaseMaxAttempts = 5"
definition PING_TICK_EVERY_N_HEARTBEATS :: u32 where "PING_TICK_EVERY_N_HEARTBEATS = 5"

record ('p, 'n, 'd, 'e, 'o, 'r, 'w) app =
  ap_sys :: "('p, 'n, 'd, 'e, 'o) system"
  ap_radio :: "('r, 'w) hub_state"
  ap_lcd :: dashboard
  ap_hid :: hid_mux
  ap_serialShell :: 'e
  ap_editorOut :: string
  ap_databaseReady :: bool
  ap_databaseInitAttempts :: u8
  ap_lastDatabaseInitMs :: u32
  ap_lastConsumeRejected :: u32
  ap_lastIngestFailed :: u32
  ap_lastSyncFallback :: u32
  ap_emitted :: "u32 list"
  ap_lastAsyncOutputTime :: u32
  ap_pendingPromptRefresh :: bool

text \<open>\<open>rt_dtr\<close> is the console as a truth value, \<open>rt_waiting\<close> the number of octets the port holds,
  \<open>rt_history\<close> the capacity of the editor's history, \<open>rt_samples\<close> the radio library's sample reader.\<close>

record ('p, 'n, 'd, 'e, 'o, 'c, 'x, 'r, 'w) app_lib =
  rt_shell :: "('p, 'n, 'd, 'e, 'o, 'c, 'x, shell_call) shell_lib"
  rt_depth :: nat
  rt_hub :: "('r, 'w) hub_lib"
  rt_hub_env :: hub_env
  rt_lcd :: lcd_lib
  rt_dtr :: "'o \<Rightarrow> bool"
  rt_pressed :: "'o \<Rightarrow> bool"
  rt_waiting :: "'p \<Rightarrow> nat"
  rt_history :: nat
  rt_hid_ready :: "'o \<Rightarrow> bool"
  rt_hid_report :: "bytes \<Rightarrow> 'o \<Rightarrow> bool \<times> 'o"

type_synonym ('p, 'n, 'd, 'e, 'o, 'r, 'w, 'a) app_op = "(('p, 'n, 'd, 'e, 'o, 'r, 'w) app, 'a) State_Monad.state"

text \<open>The multiplexer with the shell bound to it.\<close>

definition rt_mux ::
    "('p, 'n, 'd, 'e, 'o, 'c, 'x, 'r, 'w) app_lib \<Rightarrow> ('p, 'n, 'd, 'e, 'o board, 'c, 'x) mux_lib" where
  "rt_mux lib = firmware (rt_shell lib) (rt_depth lib)"

definition in_sys :: "('p, 'n, 'd, 'e, 'o, 'a) shell_op \<Rightarrow> ('p, 'n, 'd, 'e, 'o, 'r, 'w, 'a) app_op" where
  "in_sys m = zoom ap_sys (\<lambda>s a. a\<lparr>ap_sys := s\<rparr>) m"

definition on_lcd :: "(dashboard \<Rightarrow> dashboard) \<Rightarrow> ('p, 'n, 'd, 'e, 'o, 'r, 'w, unit) app_op" where
  "on_lcd f = modify (\<lambda>a. a\<lparr>ap_lcd := f (ap_lcd a)\<rparr>)"

definition millis :: "('p, 'n, 'd, 'e, 'o, 'c, 'x, 'r, 'w) app_lib \<Rightarrow> ('p, 'n, 'd, 'e, 'o, 'r, 'w, u32) app_op" where
  "millis lib = in_sys (shell_millis (rt_shell lib))"

definition console_owned :: "('p, 'n, 'd, 'e, 'o, 'c, 'x, 'r, 'w) app_lib \<Rightarrow> ('p, 'n, 'd, 'e, 'o, 'r, 'w, bool) app_op" where
  "console_owned lib = gets (\<lambda>a. isConsole (rt_mux lib) (ap_sys a))"

definition to_port :: "('p \<Rightarrow> 'p) \<Rightarrow> ('p, 'n, 'd, 'e, 'o, 'r, 'w, unit) app_op" where
  "to_port f = in_sys (modify (on_mux (\<lambda>m. m\<lparr>mw_port := f (mw_port m)\<rparr>)))"

definition print_tagged ::
    "('p, 'n, 'd, 'e, 'o, 'c, 'x, 'r, 'w) app_lib \<Rightarrow> string \<Rightarrow> string \<Rightarrow> ('p, 'n, 'd, 'e, 'o, 'r, 'w, unit) app_op" where
  "print_tagged lib tag line = to_port (printTagged (wl_write (rt_mux lib)) (Some tag) line)"

section \<open>The heartbeat task\<close>

text \<open>One round of the loop of the task, with the round as a counter of 32 bits; \<open>rounds\<close> of them.\<close>

definition heartbeat_round :: "'c probe_env \<Rightarrow> 'c probe_env \<Rightarrow> u32 \<times> nat \<times> nat \<times> peer_table \<times> 'c \<Rightarrow> u32 \<times> nat \<times> nat \<times> peer_table \<times> 'c" where
  "heartbeat_round beat ping st =
     (case st of (n, beatCursor, pingCursor, peers, ctx) \<Rightarrow>
        case heartbeatTick beat (beatCursor, peers, ctx) of
          (beatCursor, peers, ctx) \<Rightarrow>
            if n mod PING_TICK_EVERY_N_HEARTBEATS = 0 then
              (case pingTick ping (pingCursor, peers, ctx) of
                 (pingCursor, peers, ctx) \<Rightarrow> (n + 1, beatCursor, pingCursor, peers, ctx))
            else (n + 1, beatCursor, pingCursor, peers, ctx))"

definition espNowHeartbeatWorkerTask ::
    "'c probe_env \<Rightarrow> 'c probe_env \<Rightarrow> nat \<Rightarrow> nat \<times> nat \<times> peer_table \<times> 'c \<Rightarrow> u32 \<times> nat \<times> nat \<times> peer_table \<times> 'c" where
  "espNowHeartbeatWorkerTask beat ping rounds st = (heartbeat_round beat ping ^^ rounds) (0, st)"

section \<open>The identity of the boot\<close>

definition resetReasonText :: "nat \<Rightarrow> string" where
  "resetReasonText reason =
     (case map_of [(1, ''POWERON''), (3, ''SW''), (4, ''PANIC (crash - see USB-Serial/JTAG)''), (5, ''INT_WDT''),
        (6, ''TASK_WDT''), (7, ''OTHER_WDT''), (9, ''BROWNOUT (power)''), (8, ''DEEPSLEEP''), (10, ''SDIO'')] reason of
        None \<Rightarrow> ''UNKNOWN'' | Some t \<Rightarrow> t)"

definition boot_id :: "u32 \<Rightarrow> u32" where "boot_id random = (if random = 0 then 1 else random)"

definition self_uuid :: "mac \<Rightarrow> bytes" where
  "self_uuid m = mac_octets m @ map (\<lambda>i. of_nat (0xB0 + i)) [6..<16]"

text \<open>A text formatted into the scratch buffer, if it fits with its end; the room that is left.\<close>

definition scratch_text :: "nat \<Rightarrow> string \<Rightarrow> string \<times> nat" where
  "scratch_text room t = (if t \<noteq> [] \<and> length t + 1 \<le> room then (t, room - (length t + 1)) else ([], room))"

record app_desc =
  ad_date :: string
  ad_time :: string
  ad_version :: string
  ad_idf_ver :: string

text \<open>\<open>git_rev\<close> is the revision the build defines, if it does; \<open>running\<close> the label of the partition.\<close>

definition buildDongleSourceInfo ::
    "string option \<Rightarrow> app_desc option \<Rightarrow> nat \<Rightarrow> string option \<Rightarrow> bytes \<Rightarrow> nat \<times> bytes" where
  "buildDongleSourceInfo git_rev app revision running buf =
     (let (built, room) = (case app of None \<Rightarrow> ([], 48) | Some a \<Rightarrow> scratch_text 48 (ad_date a @ '' '' @ ad_time a));
          (chipRev, room) = scratch_text room (dec (revision div 100) @ ''.'' @ dec (revision mod 100))
      in serializeSourceInfo (Some (map (\<lambda>(key, label, val). (Some key, Some label, Some val))
        [(''description'', ''Description'', ''Bally hub dongle''),
         (''model'', ''Model'', ''T-Dongle-S3''),
         (''fw_version'', ''Firmware'', case git_rev of Some revision_text \<Rightarrow> revision_text | None \<Rightarrow> (case app of None \<Rightarrow> [] | Some a \<Rightarrow> ad_version a)),
         (''fw_build'', ''Built'', built),
         (''idf_version'', ''ESP-IDF'', case app of None \<Rightarrow> [] | Some a \<Rightarrow> ad_idf_ver a),
         (''chip'', ''Chip'', ''ESP32-S3''),
         (''chip_revision'', ''Chip revision'', chipRev),
         (''ota_partition'', ''Running partition'', case running of None \<Rightarrow> [] | Some r \<Rightarrow> r)])) buf)"

section \<open>Providers\<close>

definition peer_online :: "u32 \<Rightarrow> peer_snapshot \<Rightarrow> bool" where
  "peer_online nowMs p \<longleftrightarrow> nowMs - ps_lastAuthenticatedMs p < kPeerOnlineWindowMs"

definition link_snapshot :: "rx_snapshot \<Rightarrow> link_counters" where
  "link_snapshot rx =
     \<lparr>lc_datagrams = sn_datagrams rx, lc_fragmentsAccepted = sn_fragmentsAccepted rx,
      lc_routedTelemetry = sn_routedTelemetry rx, lc_routedLog = sn_routedLog rx, lc_routedCommand = sn_routedCommand rx,
      lc_routedControl = sn_routedControl rx, lc_routedTerminal = sn_routedTerminal rx, lc_droppedRx = sn_droppedRx rx,
      lc_droppedDecode = sn_droppedDecode rx, lc_droppedCrc = sn_droppedCrc rx,
      lc_droppedReassembly = sn_droppedReassembly rx, lc_droppedQueueFull = sn_droppedQueueFull rx\<rparr>"

definition usb_snapshot :: "tx_counters \<Rightarrow> usb_counters" where
  "usb_snapshot tx =
     \<lparr>uc_framesRx = tc_framesRx tx, uc_framesTx = tc_framesTx tx, uc_crcErrors = tc_crcErrors tx,
      uc_decodeErrors = tc_decodeErrors tx, uc_reassemblyRejected = tc_reassemblyRejected tx,
      uc_telemetryDropped = tc_telemetryDropped tx,
      uc_droppedByClass = (tc_droppedByClass tx KSession, tc_droppedByClass tx KTerminal,
        tc_droppedByClass tx KLogStatus, tc_droppedByClass tx KTelemetry),
      uc_relayDownOk = tc_relayDownOk tx, uc_relayDownUnbound = tc_relayDownUnbound tx,
      uc_relayDownNoPeer = tc_relayDownNoPeer tx, uc_relayDownOversized = tc_relayDownOversized tx,
      uc_relayDownSendFailed = tc_relayDownSendFailed tx\<rparr>"

definition peer_snapshot_record :: "u32 \<Rightarrow> peer_snapshot \<Rightarrow> peer_record" where
  "peer_snapshot_record nowMs p =
     peer_record.make (ps_sourceId p) (ps_bootId p) (ps_mac p) (nowMs - ps_lastAuthenticatedMs p)
       (peer_online nowMs p) (ps_rssi p) (ps_rttMs p)"

text \<open>What \<open>setSnapshotProvider\<close> is given: the counters and the peers at the moment it is called.\<close>

definition snapshot_provider ::
    "('p, 'n, 'd, 'e, 'o, 'c, 'x, 'r, 'w) app_lib \<Rightarrow> ('p, 'n, 'd, 'e, 'o board) serial_mux \<times> peer_table \<Rightarrow>
       snapshot \<times> (('p, 'n, 'd, 'e, 'o board) serial_mux \<times> peer_table)" where
  "snapshot_provider lib e =
     (case e of (m, peers) \<Rightarrow>
        let rows = enumeratePeers False kPeerIdentityCapacity peers in
        case sl_millis (sh_store (rt_shell lib)) (se_out (bd_store (sm_world m))) of
          (nowMs, w) \<Rightarrow>
            (\<lparr>sn_link = link_snapshot (fst (sh_rx_counters (rt_shell lib) (se_out (bd_store (sm_world m))))),
              sn_usb = usb_snapshot (peekTxCounters m),
              sn_peers = map (peer_snapshot_record nowMs) rows, sn_peerCount = length rows\<rparr>,
             m\<lparr>sm_world := (sm_world m)\<lparr>bd_store := (bd_store (sm_world m))\<lparr>se_out := w\<rparr>\<rparr>\<rparr>, peers))"

section \<open>The start of the store\<close>

definition trimWhitespace :: "string \<Rightarrow> string" where
  "trimWhitespace t =
     (let from_first = dropWhile isspace t in
      if from_first = [] then [] else rev (dropWhile isspace (rev from_first)))"

text \<open>The pieces of a text between its line feeds.\<close>

fun text_lines :: "string \<Rightarrow> string \<Rightarrow> string list" where
  "text_lines line [] = [line]"
| "text_lines line (c # rest) = (if c = LF then line # text_lines [] rest else text_lines (line @ [c]) rest)"

text \<open>A stored command goes into the history of the console and into that of the terminal.\<close>

definition add_history ::
    "('p, 'n, 'd, 'e, 'o, 'c, 'x, 'r, 'w) app_lib \<Rightarrow> string \<Rightarrow> ('p, 'n, 'd, 'e, 'o, 'r, 'w, unit) app_op" where
  "add_history lib row =
     (let line = trimWhitespace row in
      only_if (line \<noteq> []) (do {
        modify (\<lambda>a. a\<lparr>ap_serialShell := ed_addHistory (ml_editor (rt_mux lib)) line (ap_serialShell a)\<rparr>);
        in_sys (modify (on_mux (addTerminalHistory (rt_mux lib) (Some line)))) }))"

definition restoreShellHistoryFromDatabase ::
    "('p, 'n, 'd, 'e, 'o, 'c, 'x, 'r, 'w) app_lib \<Rightarrow> ('p, 'n, 'd, 'e, 'o, 'r, 'w, unit) app_op" where
  "restoreShellHistoryFromDatabase lib = do {
     ready \<leftarrow> in_sys (from_board (\<lambda>b. se_ready (bd_store b)));
     if \<not> ready then ret ()
     else do {
       (ok, historyText) \<leftarrow> in_sys (database (readRecentCommands (store_lib_of (rt_shell lib)) (rt_history lib)));
       if \<not> ok \<or> historyText = [] then ret ()
       else each (add_history lib) (text_lines [] historyText) } }"

text \<open>What is done once, after the store is open.\<close>

definition database_opened ::
    "('p, 'n, 'd, 'e, 'o, 'c, 'x, 'r, 'w) app_lib \<Rightarrow> ('p, 'n, 'd, 'e, 'o, 'r, 'w, unit) app_op" where
  "database_opened lib = do {
     modify (\<lambda>a. a\<lparr>ap_databaseReady := True\<rparr>);
     in_sys (database (logBootEvent (store_lib_of (rt_shell lib)) (Some ''power_on'')));
     loaded \<leftarrow> in_sys (database (db_loadPeers (store_lib_of (rt_shell lib))));
     only_if (\<not> loaded) (print_tagged lib ''database'' ''banco aberto, mas falhou carga inicial de peers'');
     restoreShellHistoryFromDatabase lib;
     print_tagged lib ''database'' ''persistencia pronta'' }"

text \<open>Whether an attempt is due at \<open>now\<close>.\<close>

definition attempt_due :: "u32 \<Rightarrow> bool \<Rightarrow> u8 \<Rightarrow> u32 \<Rightarrow> bool" where
  "attempt_due now console attempts lastInitMs \<longleftrightarrow>
     (if attempts = 0 then \<not> now < kDatabaseFirstAttemptMs else \<not> now - lastInitMs < kDatabaseRetryMs) \<and>
     \<not> (\<not> console \<and> now < kDatabaseForceMs)"

definition attempt_database ::
    "('p, 'n, 'd, 'e, 'o, 'c, 'x, 'r, 'w) app_lib \<Rightarrow> u32 \<Rightarrow> ('p, 'n, 'd, 'e, 'o, 'r, 'w, unit) app_op" where
  "attempt_database lib now = do {
     modify (\<lambda>a. a\<lparr>ap_databaseInitAttempts := ap_databaseInitAttempts a + 1, ap_lastDatabaseInitMs := now\<rparr>);
     begun \<leftarrow> in_sys (database (db_begin (store_lib_of (rt_shell lib)) True));
     if \<not> begun then do {
       attempts \<leftarrow> gets ap_databaseInitAttempts;
       only_if (attempts \<ge> kDatabaseMaxAttempts)
         (print_tagged lib ''database'' ''init adiado desistiu -- seguindo sem persistencia'') }
     else database_opened lib }"

definition maybeInitDatabase ::
    "('p, 'n, 'd, 'e, 'o, 'c, 'x, 'r, 'w) app_lib \<Rightarrow> ('p, 'n, 'd, 'e, 'o, 'r, 'w, unit) app_op" where
  "maybeInitDatabase lib = do {
     done_before \<leftarrow> gets ap_databaseReady;
     if done_before then ret ()
     else do {
       open_now \<leftarrow> in_sys (from_board (\<lambda>b. se_ready (bd_store b)));
       if open_now then database_opened lib
       else do {
         attempts \<leftarrow> gets ap_databaseInitAttempts;
         if attempts \<ge> kDatabaseMaxAttempts then ret ()
         else do {
           now \<leftarrow> millis lib;
           console \<leftarrow> console_owned lib;
           lastInitMs \<leftarrow> gets ap_lastDatabaseInitMs;
           only_if (attempt_due now console attempts lastInitMs) (attempt_database lib now) } } } }"

section \<open>Warnings\<close>

text \<open>One category: its label, what was lost since the last call and altogether, and when it was
  printed last (0 is never).\<close>

type_synonym warn_category = "string \<times> u32 \<times> u32"

definition warn_line :: "warn_category \<Rightarrow> string" where
  "warn_line c = (case c of (label, lost, ever) \<Rightarrow>
     snprintf 96 (label @ '' +'' @ dec (unat lost) @ '' total='' @ dec (unat ever)))"

definition warn_step :: "u32 \<Rightarrow> warn_category \<Rightarrow> u32 \<Rightarrow> bool \<times> u32" where
  "warn_step nowMs c lastEmitMs =
     (if fst (snd c) = 0 \<or> lastEmitMs \<noteq> 0 \<and> nowMs - lastEmitMs < kWarnThrottleMs then (False, lastEmitMs)
      else (True, if nowMs = 0 then 1 else nowMs))"

definition take_drops :: "rx_counters \<Rightarrow> (u32 \<times> u32 \<times> u32 \<times> u32) \<times> rx_counters" where
  "take_drops c =
     (let (decode, c) = takeDroppedDecodeCount c; (reasm, c) = takeDroppedReassemblyCount c;
          (queue, c) = takeDroppedQueueFullCount c; (auth, c) = takeDroppedAuthCount c
      in ((decode, reasm, queue, auth), c))"

definition lcd_peer_row :: "u32 \<Rightarrow> peer_snapshot \<Rightarrow> peer_row" where
  "lcd_peer_row nowMs p =
     \<lparr>pw_sourceId = ps_sourceId p, pw_lastSeenAgeMs = nowMs - ps_lastAuthenticatedMs p, pw_online = peer_online nowMs p\<rparr>"

text \<open>What the display is told in every round, whoever owns the port.\<close>

definition feed_lcd ::
    "('p, 'n, 'd, 'e, 'o, 'c, 'x, 'r, 'w) app_lib \<Rightarrow> u32 \<Rightarrow> ('p, 'n, 'd, 'e, 'o, 'r, 'w, unit) app_op" where
  "feed_lcd lib nowMs = do {
     c \<leftarrow> gets (\<lambda>a. hs_counters (ap_radio a));
     on_lcd (notifyErrorCounters \<lparr>ec_droppedRx = ct_droppedRx c, ec_droppedDecode = ct_droppedDecode c,
       ec_droppedCrc = ct_droppedCrc c, ec_droppedReassembly = ct_droppedReassembly c,
       ec_droppedQueueFull = ct_droppedQueueFull c, ec_droppedAuth = peekDroppedAuthCount c\<rparr>);
     peers \<leftarrow> gets (\<lambda>a. enumeratePeers False kPeerIdentityCapacity (hb_peers (ap_sys a)));
     on_lcd (notifyPeers (map (lcd_peer_row nowMs) (take MAX_DISPLAYED_PEERS peers)) (length peers));
     protocolled \<leftarrow> gets (\<lambda>a. isProtocolled (rt_mux lib) (ap_sys a));
     console \<leftarrow> console_owned lib;
     on_lcd (notifySessionStatus protocolled console);
     sd \<leftarrow> in_sys sd_isReady;
     used \<leftarrow> in_sys (from_board (usedMB (rt_shell lib)));
     size_MB \<leftarrow> in_sys (from_board (totalMB (rt_shell lib)));
     ready \<leftarrow> gets ap_databaseReady;
     on_lcd (notifyStorageStatus sd used size_MB ready) }"

definition warn_categories ::
    "u32 \<times> u32 \<times> u32 \<times> u32 \<Rightarrow> (u32 \<times> u32) \<Rightarrow> (u32 \<times> u32) \<Rightarrow> (u32 \<times> u32) \<Rightarrow> rx_counters \<Rightarrow> warn_category list" where
  "warn_categories drops rejected failed deaf c =
     (case drops of (decode, reasm, queue, auth) \<Rightarrow>
        [(''auth_drop chave-L'', auth, peekDroppedAuthCount c),
         (''reassembly_drop'', reasm, ct_droppedReassembly c),
         (''decode_drop'', decode, ct_droppedDecode c),
         (''queue_full'', queue, ct_droppedQueueFull c),
         (''manifest_reject ref'', rejected),
         (''manifest_ingest_fail'', failed),
         (''rx_async_down heap'', deaf)])"

text \<open>The loop over the categories: which lines are printed, and the new moments.\<close>

fun warn_loop :: "u32 \<Rightarrow> warn_category list \<Rightarrow> u32 list \<Rightarrow> string list \<times> u32 list" where
  "warn_loop nowMs (c # cs) (e # es) =
     (case (warn_step nowMs c e, warn_loop nowMs cs es) of
        ((emit, e), printed, es) \<Rightarrow> ((if emit then [warn_line c] else []) @ printed, e # es))"
| "warn_loop nowMs cs es = ([], es)"

definition processAsyncWarnings ::
    "('p, 'n, 'd, 'e, 'o, 'c, 'x, 'r, 'w) app_lib \<Rightarrow> ('p, 'n, 'd, 'e, 'o, 'r, 'w, bool) app_op" where
  "processAsyncWarnings lib = do {
     drops \<leftarrow> State (\<lambda>a. case take_drops (hs_counters (ap_radio a)) of
         (drops, c) \<Rightarrow> (drops, a\<lparr>ap_radio := (ap_radio a)\<lparr>hs_counters := c\<rparr>\<rparr>));
     diag \<leftarrow> gets (\<lambda>a. mc_diag (hb_manifests (ap_sys a)));
     c \<leftarrow> gets (\<lambda>a. hs_counters (ap_radio a));
     (consumeRej, ingestFail, syncFb) \<leftarrow> gets (\<lambda>a. (dg_consumeRejected diag - ap_lastConsumeRejected a,
         dg_ingestFail diag - ap_lastIngestFailed a, peekSyncFallbackDropCount c - ap_lastSyncFallback a));
     modify (\<lambda>a. a\<lparr>ap_lastConsumeRejected := dg_consumeRejected diag, ap_lastIngestFailed := dg_ingestFail diag,
         ap_lastSyncFallback := peekSyncFallbackDropCount c\<rparr>);
     nowMs \<leftarrow> millis lib;
     feed_lcd lib nowMs;
     console \<leftarrow> console_owned lib;
     if \<not> console then ret False
     else do {
       printed \<leftarrow> State (\<lambda>a. case warn_loop nowMs
           (warn_categories drops (consumeRej, dg_consumeRejected diag) (ingestFail, dg_ingestFail diag)
              (syncFb, peekSyncFallbackDropCount c) c) (ap_emitted a) of
           (printed, es) \<Rightarrow> (printed, a\<lparr>ap_emitted := es\<rparr>));
       each (print_tagged lib ''hub warn'') printed;
       ret (printed \<noteq> []) } }"

section \<open>Routed messages\<close>

text \<open>The calls that draining the routed queues makes of the port, the relay and the display.\<close>

definition perform_call ::
    "('p, 'n, 'd, 'e, 'o, 'c, 'x, 'r, 'w) app_lib \<Rightarrow> hub_call \<Rightarrow> ('p, 'n, 'd, 'e, 'o, 'r, 'w, unit) app_op" where
  "perform_call lib c =
     (case c of
        hub_call.Print tag line \<Rightarrow> print_tagged lib tag line
      | ForwardRelay header payload \<Rightarrow>
          in_sys (State (\<lambda>h. ((), snd (forwardRelay (rt_mux lib) header (View payload) h))))
      | NotifyRobotState txt \<Rightarrow> on_lcd (notifyRobotState txt)
      | _ \<Rightarrow> ret ())"

definition flushPendingEspNowOutput ::
    "('p, 'n, 'd, 'e, 'o, 'c, 'x, 'r, 'w) app_lib \<Rightarrow> ('p, 'n, 'd, 'e, 'o, 'r, 'w, bool) app_op" where
  "flushPendingEspNowOutput lib = do {
     console \<leftarrow> console_owned lib;
     (flushed, calls) \<leftarrow> State (\<lambda>a. case drainRoutedQueues (rt_hub lib) ((rt_hub_env lib)\<lparr>ev_console := \<lambda>_. console\<rparr>)
           kRxDisplayFlushBurst (ap_radio a) of
         (n, radio) \<Rightarrow> ((n, drop (length (hs_log (ap_radio a))) (hs_log radio)), a\<lparr>ap_radio := radio\<rparr>));
     each (perform_call lib) calls;
     still \<leftarrow> console_owned lib;
     ret (flushed > 0 \<and> still) }"

section \<open>The console\<close>

definition flushEditorOutput ::
    "('p, 'n, 'd, 'e, 'o, 'c, 'x, 'r, 'w) app_lib \<Rightarrow> ('p, 'n, 'd, 'e, 'o, 'r, 'w, unit) app_op" where
  "flushEditorOutput lib = do {
     out \<leftarrow> gets ap_editorOut;
     if out = [] then ret ()
     else do {
       to_port (\<lambda>p. snd (wl_write (rt_mux lib) (bytes_of out) p));
       modify (\<lambda>a. a\<lparr>ap_editorOut := []\<rparr>) } }"

definition refresh_prompt ::
    "('p, 'n, 'd, 'e, 'o, 'c, 'x, 'r, 'w) app_lib \<Rightarrow> ('p, 'n, 'd, 'e, 'o, 'r, 'w, unit) app_op" where
  "refresh_prompt lib = do {
     modify (\<lambda>a. case ed_refreshLine (ml_editor (rt_mux lib)) (ap_editorOut a) (ap_serialShell a) of
         (out, e) \<Rightarrow> a\<lparr>ap_editorOut := out, ap_serialShell := e\<rparr>);
     flushEditorOutput lib }"

text \<open>Every octet the port holds goes to the editor; \<open>octets\<close> bounds how many there are.\<close>

fun feed_editor ::
    "('p, 'n, 'd, 'e, 'o, 'c, 'x, 'r, 'w) app_lib \<Rightarrow> nat \<Rightarrow> ('p, 'n, 'd, 'e, 'o, 'r, 'w, unit) app_op" where
  "feed_editor lib 0 = ret ()"
| "feed_editor lib (Suc octets) = do {
     waiting \<leftarrow> gets (\<lambda>a. ml_available (rt_mux lib) (mw_port (hb_mux (ap_sys a))));
     if \<not> waiting then ret ()
     else do {
       octet \<leftarrow> State (\<lambda>a. case ml_read (rt_mux lib) (mw_port (hb_mux (ap_sys a))) of
           (b, p) \<Rightarrow> (b, a\<lparr>ap_sys := on_mux (\<lambda>m. m\<lparr>mw_port := p\<rparr>) (ap_sys a)\<rparr>));
       (case octet of
          None \<Rightarrow> ret ()
        | Some b \<Rightarrow> do {
            modify (\<lambda>a. a\<lparr>ap_serialShell := ed_feed (ml_editor (rt_mux lib)) [b] (ap_serialShell a)\<rparr>);
            feed_editor lib octets }) } }"

definition poll_editor ::
    "('p, 'n, 'd, 'e, 'o, 'c, 'x, 'r, 'w) app_lib \<Rightarrow> ('p, 'n, 'd, 'e, 'o, 'r, 'w, string option) app_op" where
  "poll_editor lib = State (\<lambda>a. case ed_poll (ml_editor (rt_mux lib)) (ap_editorOut a) (ap_serialShell a) of
     (line, out, e) \<Rightarrow> (line, a\<lparr>ap_editorOut := out, ap_serialShell := e\<rparr>))"

text \<open>The response of a line typed at the console; a line that does not return within the depth has none.\<close>

definition console_response ::
    "('p, 'n, 'd, 'e, 'o, 'c, 'x, 'r, 'w) app_lib \<Rightarrow> string \<Rightarrow> ('p, 'n, 'd, 'e, 'o, 'r, 'w, string) app_op" where
  "console_response lib command = do {
     texts \<leftarrow> in_sys (runLine (rt_shell lib) (rt_depth lib) command ''serial'' []);
     ret (case texts of None \<Rightarrow> [] | Some (output, fullText) \<Rightarrow> output) }"

text \<open>The loop over the complete lines. Each line that is polled consumes at least one octet that was
  fed, so as many rounds as octets wait are enough. The flag tells that the loop left the function.\<close>

fun console_loop ::
    "('p, 'n, 'd, 'e, 'o, 'c, 'x, 'r, 'w) app_lib \<Rightarrow> nat \<Rightarrow> ('p, 'n, 'd, 'e, 'o, 'r, 'w, bool) app_op" where
  "console_loop lib 0 = ret False"
| "console_loop lib (Suc rounds) = do {
     line \<leftarrow> poll_editor lib;
     (case line of
        None \<Rightarrow> ret False
      | Some command \<Rightarrow> do {
          flushEditorOutput lib;
          now \<leftarrow> millis lib;
          entered \<leftarrow> in_sys (State (tryEnterFromConsoleLine (rt_mux lib) (Some (c_str command)) now));
          if entered then ret True
          else do {
            response \<leftarrow> console_response lib command;
            console \<leftarrow> console_owned lib;
            if \<not> console then ret True
            else do {
              only_if (response \<noteq> []) (to_port (printResponse (wl_write (rt_mux lib)) response));
              refresh_prompt lib;
              console_loop lib rounds } } }) }"

definition handleShellInput ::
    "('p, 'n, 'd, 'e, 'o, 'c, 'x, 'r, 'w) app_lib \<Rightarrow> ('p, 'n, 'd, 'e, 'o, 'r, 'w, unit) app_op" where
  "handleShellInput lib = do {
     console \<leftarrow> console_owned lib;
     if \<not> console then ret ()
     else do {
       waiting \<leftarrow> gets (\<lambda>a. rt_waiting lib (mw_port (hb_mux (ap_sys a))));
       feed_editor lib waiting;
       rounds \<leftarrow> gets (\<lambda>a. ed_buffered (ml_editor (rt_mux lib)) (ap_serialShell a) + 1);
       left_early \<leftarrow> console_loop lib rounds;
       only_if (\<not> left_early) (flushEditorOutput lib) } }"

section \<open>The main loop\<close>

definition lcd_round ::
    "('p, 'n, 'd, 'e, 'o, 'c, 'x, 'r, 'w) app_lib \<Rightarrow> ('p, 'n, 'd, 'e, 'o, 'r, 'w, unit) app_op" where
  "lcd_round lib = do {
     ready \<leftarrow> gets (\<lambda>a. ld_ready (ap_lcd a));
     only_if ready (do {
       now \<leftarrow> millis lib;
       pressed \<leftarrow> in_sys (from_out (rt_pressed lib));
       on_lcd (lcd_tick (rt_lcd lib) now pressed) }) }"

text \<open>A console without DTR ends the session; the input is read only while the console owns the port.\<close>

definition before_mux ::
    "('p, 'n, 'd, 'e, 'o, 'c, 'x, 'r, 'w) app_lib \<Rightarrow> ('p, 'n, 'd, 'e, 'o, 'r, 'w, bool) app_op" where
  "before_mux lib = do {
     warned \<leftarrow> processAsyncWarnings lib;
     flushed \<leftarrow> flushPendingEspNowOutput lib;
     lcd_round lib;
     dtr \<leftarrow> in_sys (from_out (rt_dtr lib));
     only_if (\<not> dtr) (do { now \<leftarrow> millis lib; in_sys (modify (mux_onTransportLost (rt_mux lib) now)) });
     handleShellInput lib;
     again \<leftarrow> flushPendingEspNowOutput lib;
     ret (warned \<or> flushed \<or> again) }"

definition hid_round ::
    "('p, 'n, 'd, 'e, 'o, 'c, 'x, 'r, 'w) app_lib \<Rightarrow> ('p, 'n, 'd, 'e, 'o, 'r, 'w, unit) app_op" where
  "hid_round lib = do {
     s \<leftarrow> gets ap_hid;
     s \<leftarrow> in_sys (act (\<lambda>w. hid_tick (rt_hid_ready lib) (rt_hid_report lib) (s, w)));
     modify (\<lambda>a. a\<lparr>ap_hid := s\<rparr>) }"

text \<open>The prompt is drawn again after 150 quiet milliseconds, on the console only.\<close>

definition prompt_round ::
    "('p, 'n, 'd, 'e, 'o, 'c, 'x, 'r, 'w) app_lib \<Rightarrow> bool \<Rightarrow> ('p, 'n, 'd, 'e, 'o, 'r, 'w, unit) app_op" where
  "prompt_round lib occurred = do {
     only_if occurred (do {
       now \<leftarrow> millis lib;
       modify (\<lambda>a. a\<lparr>ap_lastAsyncOutputTime := now, ap_pendingPromptRefresh := True\<rparr>) });
     pending \<leftarrow> gets ap_pendingPromptRefresh;
     console \<leftarrow> console_owned lib;
     only_if (pending \<and> console) (do {
       now \<leftarrow> millis lib;
       lastMs \<leftarrow> gets ap_lastAsyncOutputTime;
       only_if (now - lastMs > 150) (do {
         to_port (\<lambda>p. snd (wl_write (rt_mux lib) (bytes_of [CR, LF]) p));
         refresh_prompt lib;
         modify (\<lambda>a. a\<lparr>ap_pendingPromptRefresh := False\<rparr>) }) }) }"

definition app_tick ::
    "('p, 'n, 'd, 'e, 'o, 'c, 'x, 'r, 'w) app_lib \<Rightarrow> ('p, 'n, 'd, 'e, 'o, 'r, 'w, unit) app_op" where
  "app_tick lib = do {
     occurred \<leftarrow> before_mux lib;
     now \<leftarrow> millis lib;
     in_sys (modify (mux_tick (rt_mux lib) now));
     hid_round lib;
     prompt_round lib occurred }"

end
