(* ===== verification/Lcd_Proofs.thy ===== *)
theory Lcd_Proofs
  imports Lcd_Dashboard
begin

text \<open>
  What the display shows. The calls of the dashboard are given a meaning in pixels, with the glyphs and
  the discs of the graphics library as parameters, and what is on the screen after a refresh is compared
  with the values the dashboard was last told.
\<close>

section \<open>Pixels\<close>

text \<open>The pixels of a text relative to the cursor, and of a disc relative to its centre.\<close>

record font =
  fo_glyphs :: "u8 \<Rightarrow> string \<Rightarrow> u16 \<Rightarrow> u16 \<Rightarrow> int \<times> int \<Rightarrow> u16 option"
  fo_disc :: "int \<Rightarrow> int \<times> int \<Rightarrow> bool"

record canvas =
  ca_size :: u8
  ca_colors :: "u16 \<times> u16"
  ca_cursor :: "int \<times> int"
  ca_pixels :: "int \<times> int \<Rightarrow> u16"

definition in_box :: "int \<Rightarrow> int \<Rightarrow> int \<Rightarrow> int \<Rightarrow> int \<times> int \<Rightarrow> bool" where
  "in_box x y w h p \<longleftrightarrow> x \<le> fst p \<and> fst p < x + w \<and> y \<le> snd p \<and> snd p < y + h"

definition in_rect :: "rect \<Rightarrow> int \<times> int \<Rightarrow> bool" where
  "in_rect r = in_box (re_x r) (re_y r) (re_w r) (re_h r)"

definition put_where :: "(int \<times> int \<Rightarrow> u16 option) \<Rightarrow> canvas \<Rightarrow> canvas" where
  "put_where f c = c\<lparr>ca_pixels := \<lambda>p. case f p of None \<Rightarrow> ca_pixels c p | Some v \<Rightarrow> v\<rparr>"

definition put_box :: "int \<Rightarrow> int \<Rightarrow> int \<Rightarrow> int \<Rightarrow> u16 \<Rightarrow> canvas \<Rightarrow> canvas" where
  "put_box x y w h v = put_where (\<lambda>p. if in_box x y w h p then Some v else None)"

fun paint :: "font \<Rightarrow> lcd_call \<Rightarrow> canvas \<Rightarrow> canvas" where
  "paint f (FillScreen v) c = put_where (\<lambda>_. Some v) c"
| "paint f (FillRect x y w h v) c = put_box x y w h v c"
| "paint f (FillCircle x y r v) c = put_where (\<lambda>p. if fo_disc f r (fst p - x, snd p - y) then Some v else None) c"
| "paint f (DrawFastHLine x y w v) c = put_box x y w 1 v c"
| "paint f (DrawFastVLine x y h v) c = put_box x y 1 h v c"
| "paint f (SetTextSize s) c = c\<lparr>ca_size := s\<rparr>"
| "paint f (SetTextColor fg bg) c = c\<lparr>ca_colors := (fg, bg)\<rparr>"
| "paint f (SetCursor x y) c = c\<lparr>ca_cursor := (x, y)\<rparr>"
| "paint f (Print txt) c = put_where (\<lambda>p. fo_glyphs f (ca_size c) txt (fst (ca_colors c)) (snd (ca_colors c))
     (fst p - fst (ca_cursor c), snd p - snd (ca_cursor c))) c"
| "paint f (SetLcdBacklight on) c = c"

definition blank :: canvas where
  "blank = \<lparr>ca_size = 1, ca_colors = (kRawWhite, kRawBlack), ca_cursor = (0, 0), ca_pixels = \<lambda>_. kRawBlack\<rparr>"

definition paints :: "font \<Rightarrow> lcd_call list \<Rightarrow> canvas \<Rightarrow> canvas" where
  "paints f calls c = fold (paint f) calls c"

definition screen :: "font \<Rightarrow> lcd_call list \<Rightarrow> int \<times> int \<Rightarrow> u16" where
  "screen f calls = ca_pixels (paints f calls blank)"

text \<open>The font of the firmware has cells of eight rows per text size.\<close>

definition cell_font :: "font \<Rightarrow> bool" where
  "cell_font f \<longleftrightarrow> (\<forall>size txt fg bg p. snd p < 0 \<or> 8 * uint size \<le> snd p \<longrightarrow> fo_glyphs f size txt fg bg p = None)"

lemma paints_simps [simp]:
  "paints f [] c = c" "paints f (x # xs) c = paints f xs (paint f x c)"
  "paints f (xs @ ys) c = paints f ys (paints f xs c)"
  by (simp_all add: paints_def)

lemma put_where_pixels [simp]:
  "ca_pixels (put_where g c) p = (case g p of None \<Rightarrow> ca_pixels c p | Some v \<Rightarrow> v)"
  by (simp add: put_where_def)

lemma put_box_pixels [simp]: "ca_pixels (put_box x y w h v c) p = (if in_box x y w h p then v else ca_pixels c p)"
  by (simp add: put_box_def)

text \<open>A line of text does not reach the rows from the eighth on, and its pixels depend on what was on
  the screen only through them.\<close>

lemma drawTextLine_rows:
  "cell_font f \<Longrightarrow> y + 8 \<le> snd p \<Longrightarrow> ca_pixels (paints f (drawTextLine x y txt v) c) p = ca_pixels c p"
  by (simp add: drawTextLine_def cell_font_def)

lemma drawTextLine_cong:
  "ca_pixels c p = ca_pixels c' p \<Longrightarrow>
   ca_pixels (paints f (drawTextLine x y txt v) c) p = ca_pixels (paints f (drawTextLine x y txt v) c') p"
  by (simp add: drawTextLine_def put_where_def split: option.splits)

lemma draw_lines_cong:
  "ca_pixels c p = ca_pixels c' p \<Longrightarrow>
   ca_pixels (paints f (draw_lines x y rows) c) p = ca_pixels (paints f (draw_lines x y rows) c') p"
proof (induction rows arbitrary: y c c')
  case (Cons row rows)
  obtain t v where "row = (t, v)" by (cases row)
  with Cons.IH [OF drawTextLine_cong [OF Cons.prems]] show ?case by simp
qed simp

text \<open>So a page looks the same whatever was there before.\<close>

lemma draw_page_pixels:
  "in_rect r p \<Longrightarrow> ca_pixels (paints f (draw_page r rows) c) p = screen f (draw_page r rows) p"
  unfolding screen_def draw_page_def paints_simps
  by (rule draw_lines_cong) (simp add: fill_rect_def in_rect_def)

section \<open>Operations\<close>

datatype lcd_op =
    LoBegin bool "int \<times> int" u32 bool
  | LoClear "int \<times> int"
  | LoTick u32 bool
  | LoMessage string u16 u32
  | LoRx u32
  | LoTx bool u32
  | LoState string
  | LoPeers "peer_row list" nat
  | LoErrors error_counters
  | LoSession bool bool
  | LoStorage bool u64 u64 bool

fun lcd_step :: "lcd_lib \<Rightarrow> lcd_op \<Rightarrow> dashboard \<Rightarrow> dashboard" where
  "lcd_step lib (LoBegin there sz now pressed) d = snd (lcd_begin there sz now pressed d)"
| "lcd_step lib (LoClear sz) d = lcd_clear sz d"
| "lcd_step lib (LoTick now pressed) d = lcd_tick lib now pressed d"
| "lcd_step lib (LoMessage txt color now) d = showMessage txt color now d"
| "lcd_step lib (LoRx now) d = notifyRx now d"
| "lcd_step lib (LoTx delivered now) d = notifyTx delivered now d"
| "lcd_step lib (LoState txt) d = notifyRobotState txt d"
| "lcd_step lib (LoPeers rows known) d = notifyPeers rows known d"
| "lcd_step lib (LoErrors live) d = notifyErrorCounters live d"
| "lcd_step lib (LoSession protocolled console) d = notifySessionStatus protocolled console d"
| "lcd_step lib (LoStorage sd used all db) d = notifyStorageStatus sd used all db d"

definition lcd_run :: "lcd_lib \<Rightarrow> lcd_op list \<Rightarrow> dashboard" where
  "lcd_run lib ops = fold (lcd_step lib) ops lcd_init"

text \<open>The lines of the page on the screen, as the values are now and as they were drawn.\<close>

definition live_lines :: "dashboard \<Rightarrow> (string \<times> u16) list" where
  "live_lines d = (case ld_currentPage d of PgActivity \<Rightarrow> [] | PgErrors \<Rightarrow> errors_lines (ld_errLive d)
     | PgSession \<Rightarrow> session_lines (ld_sessionLive d) | PgPeers \<Rightarrow> peers_lines (ld_peerRows d) (ld_peerTotalKnown d))"

definition drawn_lines :: "dashboard \<Rightarrow> (string \<times> u16) list option" where
  "drawn_lines d = (case ld_currentPage d of PgActivity \<Rightarrow> None
     | PgErrors \<Rightarrow> if ld_errCacheValid d then Some (errors_lines (ld_errDrawn d)) else None
     | PgSession \<Rightarrow> if ld_sessionCacheValid d then Some (session_lines (ld_sessionDrawn d)) else None
     | PgPeers \<Rightarrow> if ld_peersPageCacheValid d
         then Some (peers_lines (ld_peersPageDrawnRows d) (ld_peersPageDrawnTotalKnown d)) else None)"

definition content :: "dashboard \<Rightarrow> rect" where "content d = ly_contentRect (ld_layout d)"

text \<open>The caches tell the truth about the screen.\<close>

definition on_screen :: "font \<Rightarrow> dashboard \<Rightarrow> (string \<times> u16) list \<Rightarrow> bool" where
  "on_screen f d rows \<longleftrightarrow> (\<forall>p. in_rect (content d) p \<longrightarrow> screen f (ld_calls d) p = screen f (draw_page (content d) rows) p)"

definition laid_out :: "layout \<Rightarrow> bool" where "laid_out ly \<longleftrightarrow> ly \<in> range layoutChrome"

lemma laid_out_chrome [simp]: "laid_out (layoutChrome sz)" by (simp add: laid_out_def)

definition lcd_inv :: "font \<Rightarrow> dashboard \<Rightarrow> bool" where
  "lcd_inv f d \<longleftrightarrow> (ld_ready d \<longrightarrow> laid_out (ld_layout d)) \<and>
     (ld_ready d \<longrightarrow> (case drawn_lines d of None \<Rightarrow> True | Some rows \<Rightarrow> on_screen f d rows))"

lemma layout_rows [simp]:
  "re_y (ly_contentRect (layoutChrome sz)) = 30" "re_y (ly_stateRect (layoutChrome sz)) = 17"
  "re_h (ly_stateRect (layoutChrome sz)) = 12" "re_y (ly_messageRect (layoutChrome sz)) = 0"
  "re_h (ly_messageRect (layoutChrome sz)) = 16" "re_y (ly_pageIndicatorRect (layoutChrome sz)) = 0"
  "re_h (ly_pageIndicatorRect (layoutChrome sz)) = 16"
  by (simp_all add: layoutChrome_def Let_def kBarHeight_def kStateStripHeight_def)

lemma draw_simps [simp]:
  "ld_calls (draw calls d) = ld_calls d @ calls" "ld_layout (draw calls d) = ld_layout d"
  "ld_ready (draw calls d) = ld_ready d" "ld_currentPage (draw calls d) = ld_currentPage d"
  "drawn_lines (draw calls d) = drawn_lines d" "live_lines (draw calls d) = live_lines d"
  by (simp_all add: draw_def drawn_lines_def live_lines_def cong: page.case_cong)

lemma screen_append: "screen f (calls @ later) p = ca_pixels (paints f later (paints f calls blank)) p"
  by (simp add: screen_def)

text \<open>A call that stays above the page leaves what is shown.\<close>

definition above :: "font \<Rightarrow> lcd_call list \<Rightarrow> bool" where
  "above f calls \<longleftrightarrow> (\<forall>c p. 30 \<le> snd p \<longrightarrow> ca_pixels (paints f calls c) p = ca_pixels c p)"

lemma above_line: "cell_font f \<Longrightarrow> y \<le> 22 \<Longrightarrow> above f (drawTextLine x y txt v)"
  unfolding above_def by (intro allI impI drawTextLine_rows) simp_all

lemma above_fill: "re_y r + re_h r \<le> 30 \<Longrightarrow> above f [fill_rect r]"
  by (auto simp: above_def fill_rect_def in_box_def)

lemma above_append: "above f xs \<Longrightarrow> above f ys \<Longrightarrow> above f (xs @ ys)"
  by (simp add: above_def)

lemma above_label: "cell_font f \<Longrightarrow> re_y r + re_h r \<le> 30 \<Longrightarrow> y \<le> 22 \<Longrightarrow> above f (fill_rect r # drawTextLine x y txt v)"
  using above_append [OF above_fill above_line, of r f y x "txt" v] by simp

lemma lcd_inv_draw:
  assumes "lcd_inv f d" "above f calls"
  shows "lcd_inv f (draw calls d)"
proof -
  have "on_screen f (draw calls d) rows" if "on_screen f d rows" "laid_out (ld_layout d)" for rows
    using that assms(2) by (auto simp: laid_out_def on_screen_def content_def screen_append in_rect_def in_box_def above_def screen_def)
  with assms(1) show ?thesis by (auto simp: lcd_inv_def split: option.splits)
qed

text \<open>Updates that touch none of the fields the invariant reads.\<close>

lemma lcd_inv_cong:
  assumes "ld_calls d' = ld_calls d" "ld_layout d' = ld_layout d" "ld_ready d' = ld_ready d"
    "drawn_lines d' = drawn_lines d"
  shows "lcd_inv f d' = lcd_inv f d"
proof -
  have "on_screen f d' = on_screen f d" by (rule ext) (simp add: on_screen_def content_def assms)
  then show ?thesis by (cases "drawn_lines d") (simp_all add: lcd_inv_def assms)
qed

lemma drawn_lines_frame [simp]:
  "drawn_lines (ld_messageExpireMs_update g1 d) = drawn_lines d"
  "drawn_lines (ld_messageActive_update g2 d) = drawn_lines d"
  "drawn_lines (ld_rxPulseUntilMs_update g3 d) = drawn_lines d"
  "drawn_lines (ld_txPulseUntilMs_update g4 d) = drawn_lines d"
  "drawn_lines (ld_txLastOk_update g5 d) = drawn_lines d"
  "drawn_lines (ld_txHasResult_update g6 d) = drawn_lines d"
  "drawn_lines (ld_peerRows_update g7 d) = drawn_lines d"
  "drawn_lines (ld_peerTotalKnown_update g8 d) = drawn_lines d"
  "drawn_lines (ld_peerOnlineCount_update g9 d) = drawn_lines d"
  "drawn_lines (ld_errLive_update g10 d) = drawn_lines d"
  "drawn_lines (ld_sessionLive_update g11 d) = drawn_lines d"
  "drawn_lines (ld_lastRefreshMs_update g12 d) = drawn_lines d"
  "drawn_lines (ld_ready_update g13 d) = drawn_lines d"
  "drawn_lines (ld_buttonPressedLast_update g14 d) = drawn_lines d"
  "drawn_lines (ld_rxCacheValid_update g15 d) = drawn_lines d"
  "drawn_lines (ld_rxHotDrawn_update g16 d) = drawn_lines d"
  "drawn_lines (ld_txCacheValid_update g17 d) = drawn_lines d"
  "drawn_lines (ld_txDrawn_update g18 d) = drawn_lines d"
  "drawn_lines (ld_peersTileCacheValid_update g19 d) = drawn_lines d"
  "drawn_lines (ld_peersTileDrawn_update g20 d) = drawn_lines d"
  by (simp_all add: drawn_lines_def cong: page.case_cong)

lemma lcd_inv_update [simp]:
  "lcd_inv f (ld_messageExpireMs_update g21 d) = lcd_inv f d"
  "lcd_inv f (ld_messageActive_update g22 d) = lcd_inv f d"
  "lcd_inv f (ld_rxPulseUntilMs_update g23 d) = lcd_inv f d"
  "lcd_inv f (ld_txPulseUntilMs_update g24 d) = lcd_inv f d"
  "lcd_inv f (ld_txLastOk_update g25 d) = lcd_inv f d"
  "lcd_inv f (ld_txHasResult_update g26 d) = lcd_inv f d"
  "lcd_inv f (ld_peerRows_update g27 d) = lcd_inv f d"
  "lcd_inv f (ld_peerTotalKnown_update g28 d) = lcd_inv f d"
  "lcd_inv f (ld_peerOnlineCount_update g29 d) = lcd_inv f d"
  "lcd_inv f (ld_errLive_update g30 d) = lcd_inv f d"
  "lcd_inv f (ld_sessionLive_update g31 d) = lcd_inv f d"
  "lcd_inv f (ld_lastRefreshMs_update g32 d) = lcd_inv f d"
  "lcd_inv f (ld_buttonPressedLast_update g33 d) = lcd_inv f d"
  "lcd_inv f (ld_rxCacheValid_update g34 d) = lcd_inv f d"
  "lcd_inv f (ld_rxHotDrawn_update g35 d) = lcd_inv f d"
  "lcd_inv f (ld_txCacheValid_update g36 d) = lcd_inv f d"
  "lcd_inv f (ld_txDrawn_update g37 d) = lcd_inv f d"
  "lcd_inv f (ld_peersTileCacheValid_update g38 d) = lcd_inv f d"
  "lcd_inv f (ld_peersTileDrawn_update g39 d) = lcd_inv f d"
  by (rule lcd_inv_cong; simp)+

text \<open>After a switch, a \<open>begin\<close> and a \<open>clear\<close> nothing counts as drawn.\<close>

lemma lcd_inv_nothing_drawn:
  "(ld_ready d \<Longrightarrow> laid_out (ld_layout d)) \<Longrightarrow> drawn_lines d = None \<Longrightarrow> lcd_inv f d"
  by (simp add: lcd_inv_def)

lemma drawn_lines_reset [simp]: "drawn_lines (resetCaches d) = None"
  by (simp add: drawn_lines_def resetCaches_def split: page.splits)

lemma drawn_lines_switch [simp]: "drawn_lines (switchToPage p d) = None"
  by (simp add: switchToPage_def Let_def) (simp add: drawn_lines_def split: page.splits)

lemma resetCaches_frame [simp]:
  "ld_ready (resetCaches d) = ld_ready d" "ld_layout (resetCaches d) = ld_layout d"
  "ld_currentPage (resetCaches d) = ld_currentPage d" "ld_calls (resetCaches d) = ld_calls d"
  by (simp_all add: resetCaches_def)

lemma lcd_inv_begin: "lcd_inv f (snd (lcd_begin there sz now pressed d))"
proof (cases there)
  case True
  then show ?thesis by (intro lcd_inv_nothing_drawn) (auto simp: lcd_begin_def Let_def)
qed (simp add: lcd_begin_def lcd_inv_def)

lemma lcd_inv_clear: "lcd_inv f d \<Longrightarrow> lcd_inv f (lcd_clear sz d)"
  by (cases "ld_ready d \<and> ld_tft d") (auto intro!: lcd_inv_nothing_drawn simp: lcd_clear_def Let_def)

lemma switch_frame [simp]:
  "ld_ready (switchToPage p d) = ld_ready d" "ld_layout (switchToPage p d) = ld_layout d"
  by (simp_all add: switchToPage_def Let_def)

lemma lcd_inv_switch: "lcd_inv f d \<Longrightarrow> lcd_inv f (switchToPage p d)"
  by (rule lcd_inv_nothing_drawn) (simp_all add: lcd_inv_def)

lemma lcd_inv_pollButton: "lcd_inv f d \<Longrightarrow> lcd_inv f (pollButton pressed d)"
  by (simp add: pollButton_def Let_def lcd_inv_switch)

text \<open>A page that is painted is what is shown.\<close>

lemma on_screen_painted: "on_screen f (draw (draw_page (content d) rows) d) rows"
  by (simp add: on_screen_def content_def screen_append draw_page_pixels)

lemma lcd_inv_painted:
  assumes "lcd_inv f d" "drawn_lines d' = Some rows" "ld_layout d' = ld_layout d" "ld_ready d' = ld_ready d"
    "ld_calls d' = ld_calls d"
  shows "lcd_inv f (draw (draw_page (ly_contentRect (ld_layout d)) rows) d')"
  using assms on_screen_painted [of f d' rows] by (simp add: lcd_inv_def content_def)

lemma lcd_inv_refreshErrorsPage: "lcd_inv f d \<Longrightarrow> ld_currentPage d = PgErrors \<Longrightarrow> lcd_inv f (refreshErrorsPage d)"
  by (auto simp: refreshErrorsPage_def Let_def drawn_lines_def intro!: lcd_inv_painted)

lemma lcd_inv_refreshSessionPage: "lcd_inv f d \<Longrightarrow> ld_currentPage d = PgSession \<Longrightarrow> lcd_inv f (refreshSessionPage d)"
  by (auto simp: refreshSessionPage_def Let_def drawn_lines_def intro!: lcd_inv_painted)

lemma lcd_inv_refreshPeersPage: "lcd_inv f d \<Longrightarrow> ld_currentPage d = PgPeers \<Longrightarrow> lcd_inv f (refreshPeersPage d)"
  by (auto simp: refreshPeersPage_def Let_def drawn_lines_def intro!: lcd_inv_painted)

lemma lcd_inv_activity:
  "lcd_inv f d \<Longrightarrow> ld_currentPage d = PgActivity \<Longrightarrow> ld_currentPage d' = PgActivity \<Longrightarrow>
   ld_layout d' = ld_layout d \<Longrightarrow> ld_ready d' = ld_ready d \<Longrightarrow> lcd_inv f d'"
  by (simp add: lcd_inv_def drawn_lines_def)

lemma tiles_frame [simp]:
  "ld_currentPage (refreshRxTile now d) = ld_currentPage d" "ld_layout (refreshRxTile now d) = ld_layout d"
  "ld_ready (refreshRxTile now d) = ld_ready d"
  "ld_currentPage (refreshTxTile now d) = ld_currentPage d" "ld_layout (refreshTxTile now d) = ld_layout d"
  "ld_ready (refreshTxTile now d) = ld_ready d"
  "ld_currentPage (refreshPeersTile lib d) = ld_currentPage d" "ld_layout (refreshPeersTile lib d) = ld_layout d"
  "ld_ready (refreshPeersTile lib d) = ld_ready d"
  by (simp_all add: refreshRxTile_def refreshTxTile_def refreshPeersTile_def Let_def)

lemma lcd_inv_refreshPage: "lcd_inv f d \<Longrightarrow> lcd_inv f (refreshPage lib now d)"
  by (cases "ld_currentPage d")
    (auto simp: refreshPage_def lcd_inv_refreshErrorsPage lcd_inv_refreshSessionPage lcd_inv_refreshPeersPage
       intro: lcd_inv_activity)

lemma message_area:
  "lcd_inv f d \<Longrightarrow> ld_ready d \<Longrightarrow> re_y (ly_messageRect (ld_layout d)) = 0 \<and> re_h (ly_messageRect (ld_layout d)) = 16 \<and>
     re_y (ly_stateRect (ld_layout d)) = 17 \<and> re_h (ly_stateRect (ld_layout d)) = 12 \<and> re_y (content d) = 30"
  by (auto simp: lcd_inv_def content_def laid_out_def)

lemma refreshPage_frame [simp]: "ld_ready (refreshPage lib now d) = ld_ready d"
  by (simp add: refreshPage_def refreshErrorsPage_def refreshSessionPage_def refreshPeersPage_def Let_def split: page.split)

lemma pollButton_frame [simp]: "ld_ready (pollButton pressed d) = ld_ready d"
  by (simp add: pollButton_def switchToPage_def Let_def)

lemma lcd_inv_expiry: "lcd_inv f d \<Longrightarrow> ld_ready d \<Longrightarrow> lcd_inv f (refreshMessageExpiry now d)"
  using message_area [of f d] by (auto simp: refreshMessageExpiry_def intro!: lcd_inv_draw above_fill)

lemma lcd_inv_tick: "lcd_inv f d \<Longrightarrow> lcd_inv f (lcd_tick lib now pressed d)"
  by (auto simp: lcd_tick_def refresh_due_def intro!: lcd_inv_expiry lcd_inv_refreshPage lcd_inv_pollButton)

lemma lcd_inv_step:
  assumes "cell_font f" and "lcd_inv f d"
  shows "lcd_inv f (lcd_step lib op d)"
  using message_area [OF assms(2)] assms(2)
proof (cases op)
  case (LoMessage m color now)
  then show ?thesis
    using message_area [OF assms(2)] assms
    by (auto simp: showMessage_def Let_def drawTextLine_def [symmetric] intro!: lcd_inv_draw above_label)
next
  case (LoState m)
  then show ?thesis
    using message_area [OF assms(2)] assms
    by (auto simp: notifyRobotState_def Let_def intro!: lcd_inv_draw above_label)
qed (auto simp: lcd_inv_begin lcd_inv_clear lcd_inv_tick notifyRx_def notifyTx_def notifyPeers_def Let_def
       notifyErrorCounters_def notifySessionStatus_def notifyStorageStatus_def)

lemma lcd_inv_run: "cell_font f \<Longrightarrow> lcd_inv f (lcd_run lib ops)"
proof (induction ops rule: rev_induct)
  case Nil
  then show ?case by (simp add: lcd_run_def lcd_init_def lcd_inv_def)
qed (simp add: lcd_run_def lcd_inv_step)

section \<open>The list pages show what is known\<close>

lemma same_rows_same_lines:
  assumes "list_all2 same_row drawn live"
  shows "peers_lines drawn n = peers_lines live n"
proof -
  have "map peer_line drawn = map peer_line live"
    using assms by (induction rule: list_all2_induct) (simp_all add: peer_line_def same_row_def)
  with list_all2_lengthD [OF assms] show ?thesis by (auto simp: peers_lines_def)
qed

lemma refreshPage_drawn:
  assumes "ld_currentPage d \<noteq> PgActivity"
  shows "drawn_lines (refreshPage lib now d) = Some (live_lines (refreshPage lib now d))"
proof (cases "ld_currentPage d")
  case PgPeers
  then show ?thesis
    using same_rows_same_lines [of "ld_peersPageDrawnRows d" "ld_peerRows d"]
    by (simp add: refreshPage_def refreshPeersPage_def Let_def) (auto simp: drawn_lines_def live_lines_def)
next
  case PgErrors
  then show ?thesis
    by (simp add: refreshPage_def refreshErrorsPage_def Let_def) (auto simp: drawn_lines_def live_lines_def)
next
  case PgSession
  then show ?thesis
    by (simp add: refreshPage_def refreshSessionPage_def Let_def) (auto simp: drawn_lines_def live_lines_def)
qed (use assms in simp)

lemma page_frame [simp]:
  "ld_currentPage (refreshPage lib now d) = ld_currentPage d" "ld_layout (refreshPage lib now d) = ld_layout d"
  "ld_currentPage (refreshMessageExpiry now d) = ld_currentPage d" "ld_layout (refreshMessageExpiry now d) = ld_layout d"
  "drawn_lines (refreshMessageExpiry now d) = drawn_lines d" "ld_ready (refreshMessageExpiry now d) = ld_ready d"
  "live_lines (refreshMessageExpiry now d) = live_lines d"
  by (simp_all add: refreshPage_def refreshErrorsPage_def refreshSessionPage_def refreshPeersPage_def Let_def
      refreshMessageExpiry_def split: page.split) (simp add: live_lines_def cong: page.case_cong)


definition demo_lcd :: lcd_lib where
  "demo_lcd = \<lparr>ll_textWidth = \<lambda>size s. 6 * uint size * int (length s), ll_fontHeight = \<lambda>size. 8 * uint size\<rparr>"

definition demo_font :: font where
  "demo_font = \<lparr>fo_glyphs = \<lambda>size s fg bg p. if 0 \<le> snd p \<and> snd p < 8 * uint size \<and> 0 \<le> fst p \<and> fst p < 6 * int (length s)
     then Some fg else None, fo_disc = \<lambda>r p. fst p * fst p + snd p * snd p \<le> r * r\<rparr>"

text \<open>The button shows the errors, and a new count is in the third line after the next refresh.\<close>

definition demo_lcd_ops :: "lcd_op list" where
  "demo_lcd_ops = [LoBegin True (160, 80) 1000 False, LoTick 1200 True, LoErrors (no_errors\<lparr>ec_droppedAuth := 7\<rparr>)]"


section \<open>The receive dot\<close>

text \<open>The colour that fills and discs leave at a point no text or line passes.\<close>

fun spot :: "int \<times> int \<Rightarrow> lcd_call \<Rightarrow> u16 \<Rightarrow> u16" where
  "spot p (FillScreen v) old = v"
| "spot p (FillRect x y w h v) old = (if in_box x y w h p then v else old)"
| "spot p (FillCircle x y r v) old = (if (x, y) = p then v else old)"
| "spot p _ old = old"

definition spot_color :: "int \<times> int \<Rightarrow> lcd_call list \<Rightarrow> u16" where
  "spot_color p calls = fold (spot p) calls kRawBlack"

fun off :: "int \<times> int \<Rightarrow> lcd_call \<Rightarrow> bool" where
  "off p (FillScreen v) = False"
| "off p (FillRect x y w h v) = (\<not> in_box x y w h p)"
| "off p (FillCircle x y r v) = ((x, y) \<noteq> p)"
| "off p _ = True"

abbreviation misses :: "int \<times> int \<Rightarrow> lcd_call list \<Rightarrow> bool" where "misses p \<equiv> list_all (off p)"

lemma spot_off: "off p call \<Longrightarrow> spot p call old = old" by (cases call) auto

lemma spot_append: "misses p calls \<Longrightarrow> spot_color p (before @ calls) = spot_color p before"
  by (induction calls rule: rev_induct) (simp_all add: spot_color_def spot_off)

lemma misses_line [simp]: "misses p (drawTextLine x y txt v)"
  by (simp add: drawTextLine_def)

text \<open>The display upright and turned.\<close>

definition panel_sizes :: "(int \<times> int) set" where "panel_sizes = {(160, 80), (80, 160)}"

fun sized :: "lcd_op \<Rightarrow> bool" where
  "sized (LoBegin there sz now pressed) = (sz \<in> panel_sizes)"
| "sized (LoClear sz) = (sz \<in> panel_sizes)"
| "sized _ = True"

fun is_rx :: "lcd_op \<Rightarrow> bool" where
  "is_rx (LoRx now) = True"
| "is_rx _ = False"

text \<open>The centre of the dot in the receive tile.\<close>

definition rx_centre :: "layout \<Rightarrow> int \<times> int" where
  "rx_centre ly = (case drawActivityDot (ly_rxTile ly) ''RX'' 0 of [_, FillCircle x y r v] \<Rightarrow> (x, y) | _ \<Rightarrow> (0, 0))"

lemma rx_dot_drawn: "spot_color (rx_centre ly) (before @ drawActivityDot (ly_rxTile ly) ''RX'' v) = v"
  by (simp add: spot_color_def rx_centre_def drawActivityDot_def Let_def)

definition at_panel :: "layout \<Rightarrow> bool" where "at_panel ly \<longleftrightarrow> (\<exists>sz\<in>panel_sizes. ly = layoutChrome sz)"

lemma at_panel_layouts [simp]: "sz \<in> panel_sizes \<Longrightarrow> at_panel (layoutChrome sz)"
  by (auto simp: at_panel_def)

lemma at_panel_cases: "at_panel ly \<Longrightarrow> ly = layoutChrome (160, 80) \<or> ly = layoutChrome (80, 160)"
  by (auto simp: at_panel_def panel_sizes_def)

lemma at_panel_facts:
  assumes "at_panel ly"
  shows "misses (rx_centre ly) (drawActivityDot (ly_txTile ly) ''TX'' v)"
    "misses (rx_centre ly) [fill_rect (valueArea (ly_peersTile ly))]"
    "off (rx_centre ly) (fill_rect (ly_messageRect ly))" "off (rx_centre ly) (fill_rect (ly_stateRect ly))"
  using at_panel_cases [OF assms] by (elim disjE; hypsubst; code_simp)+

lemma misses_peers: "at_panel ly \<Longrightarrow> misses (rx_centre ly) (drawCenteredValue lib (ly_peersTile ly) t v sz)"
  using at_panel_facts(2) by (simp add: drawCenteredValue_def Let_def)

definition rx_inv :: "dashboard \<Rightarrow> bool" where
  "rx_inv d \<longleftrightarrow> (ld_ready d \<longrightarrow> at_panel (ld_layout d) \<and>
     (ld_currentPage d = PgActivity \<and> ld_rxCacheValid d \<longrightarrow>
        spot_color (rx_centre (ld_layout d)) (ld_calls d) = lcd_toPanelColor (if ld_rxHotDrawn d then kRawCyan else kNeutralGray565)))"

lemma rx_inv_draw: "rx_inv d \<Longrightarrow> misses (rx_centre (ld_layout d)) calls \<Longrightarrow> rx_inv (draw calls d)"
  by (simp add: rx_inv_def spot_append) (simp add: draw_def)

lemma rx_inv_cong:
  assumes "ld_calls d' = ld_calls d" "ld_layout d' = ld_layout d" "ld_ready d' = ld_ready d"
    "ld_currentPage d' = ld_currentPage d" "ld_rxCacheValid d' = ld_rxCacheValid d" "ld_rxHotDrawn d' = ld_rxHotDrawn d"
  shows "rx_inv d' = rx_inv d"
  by (simp add: rx_inv_def assms)

lemma rx_inv_update [simp]:
  "rx_inv (ld_messageExpireMs_update g0 d) = rx_inv d"
  "rx_inv (ld_messageActive_update g1 d) = rx_inv d"
  "rx_inv (ld_rxPulseUntilMs_update g2 d) = rx_inv d"
  "rx_inv (ld_txPulseUntilMs_update g3 d) = rx_inv d"
  "rx_inv (ld_txLastOk_update g4 d) = rx_inv d"
  "rx_inv (ld_txHasResult_update g5 d) = rx_inv d"
  "rx_inv (ld_peerRows_update g6 d) = rx_inv d"
  "rx_inv (ld_peerTotalKnown_update g7 d) = rx_inv d"
  "rx_inv (ld_peerOnlineCount_update g8 d) = rx_inv d"
  "rx_inv (ld_errLive_update g9 d) = rx_inv d"
  "rx_inv (ld_sessionLive_update g10 d) = rx_inv d"
  "rx_inv (ld_lastRefreshMs_update g11 d) = rx_inv d"
  "rx_inv (ld_buttonPressedLast_update g12 d) = rx_inv d"
  "rx_inv (ld_txCacheValid_update g13 d) = rx_inv d"
  "rx_inv (ld_txDrawn_update g14 d) = rx_inv d"
  "rx_inv (ld_peersTileCacheValid_update g15 d) = rx_inv d"
  "rx_inv (ld_peersTileDrawn_update g16 d) = rx_inv d"
  by (rule rx_inv_cong; simp)+

lemma rx_inv_invalid: "(ld_ready d \<Longrightarrow> at_panel (ld_layout d)) \<Longrightarrow> \<not> ld_rxCacheValid d \<Longrightarrow> rx_inv d"
  by (simp add: rx_inv_def)

lemma rx_inv_other_page: "rx_inv d \<Longrightarrow> ld_currentPage d' \<noteq> PgActivity \<Longrightarrow> ld_layout d' = ld_layout d \<Longrightarrow>
    ld_ready d' = ld_ready d \<Longrightarrow> rx_inv d'"
  by (simp add: rx_inv_def)

lemma rx_cache_draw [simp]: "ld_rxCacheValid (draw calls d) = ld_rxCacheValid d" "ld_rxHotDrawn (draw calls d) = ld_rxHotDrawn d"
  by (simp_all add: draw_def)

lemma rx_inv_rxTile: "rx_inv d \<Longrightarrow> rx_inv (refreshRxTile now d)"
  by (auto simp: refreshRxTile_def Let_def rx_inv_def rx_dot_drawn)

lemma rx_inv_panel: "rx_inv d \<Longrightarrow> ld_ready d \<Longrightarrow> at_panel (ld_layout d)" by (simp add: rx_inv_def)

lemma rx_inv_tiles:
  "rx_inv d \<Longrightarrow> ld_ready d \<Longrightarrow> rx_inv (refreshTxTile now d)" "rx_inv d \<Longrightarrow> ld_ready d \<Longrightarrow> rx_inv (refreshPeersTile lib d)"
  using at_panel_facts(1) [OF rx_inv_panel] misses_peers [OF rx_inv_panel]
  by (auto simp: refreshTxTile_def refreshPeersTile_def Let_def intro!: rx_inv_draw)

lemma rx_inv_refreshPage: "rx_inv d \<Longrightarrow> ld_ready d \<Longrightarrow> rx_inv (refreshPage lib now d)"
proof (cases "ld_currentPage d = PgActivity")
  case False
  then show "rx_inv d \<Longrightarrow> ld_ready d \<Longrightarrow> rx_inv (refreshPage lib now d)" by (simp add: rx_inv_other_page [of d])
qed (simp add: refreshPage_def rx_inv_rxTile rx_inv_tiles)

lemma rx_inv_pollButton: "rx_inv d \<Longrightarrow> rx_inv (pollButton pressed d)"
  by (auto simp: pollButton_def Let_def intro!: rx_inv_invalid) (auto simp: switchToPage_def Let_def rx_inv_def)

lemma rx_inv_expiry: "rx_inv d \<Longrightarrow> ld_ready d \<Longrightarrow> rx_inv (refreshMessageExpiry now d)"
  using at_panel_facts(3) [OF rx_inv_panel] by (auto simp: refreshMessageExpiry_def intro!: rx_inv_draw)

lemma rx_inv_step:
  assumes "rx_inv d" "sized op"
  shows "rx_inv (lcd_step lib op d)"
proof (cases op)
  case (LoBegin there sz now pressed)
  then show ?thesis
    using assms(2) by (cases there) (auto simp: lcd_begin_def Let_def resetCaches_def rx_inv_def intro!: rx_inv_invalid)
next
  case (LoClear sz)
  then show ?thesis
    using assms by (cases "ld_ready d \<and> ld_tft d") (auto simp: lcd_clear_def Let_def resetCaches_def intro!: rx_inv_invalid)
next
  case (LoTick now pressed)
  then show ?thesis
    using assms(1) by (auto simp: lcd_tick_def refresh_due_def intro!: rx_inv_expiry rx_inv_refreshPage rx_inv_pollButton)
next
  case (LoMessage m color now)
  then show ?thesis
    using assms(1) at_panel_facts(3) [OF rx_inv_panel] by (auto simp: showMessage_def Let_def intro!: rx_inv_draw)
next
  case (LoState m)
  then show ?thesis
    using assms(1) at_panel_facts(4) [OF rx_inv_panel] by (auto simp: notifyRobotState_def Let_def intro!: rx_inv_draw)
qed (use assms(1) in \<open>simp_all add: notifyRx_def notifyTx_def notifyPeers_def Let_def
       notifyErrorCounters_def notifySessionStatus_def notifyStorageStatus_def\<close>)

lemma rx_inv_run: "\<forall>op\<in>set ops. sized op \<Longrightarrow> rx_inv (lcd_run lib ops)"
proof (induction ops rule: rev_induct)
  case Nil
  then show ?case by (simp add: lcd_run_def lcd_init_def rx_inv_def)
qed (simp add: lcd_run_def rx_inv_step)

text \<open>Only a received message starts a pulse.\<close>

lemma pulse_parts [simp]:
  "ld_rxPulseUntilMs (draw calls d) = ld_rxPulseUntilMs d"
  "ld_rxPulseUntilMs (resetCaches d) = ld_rxPulseUntilMs d"
  "ld_rxPulseUntilMs (switchToPage p d) = ld_rxPulseUntilMs d"
  "ld_rxPulseUntilMs (refreshMessageExpiry now d) = ld_rxPulseUntilMs d"
  by (simp_all add: draw_def resetCaches_def switchToPage_def refreshMessageExpiry_def Let_def)

lemma pulse_pages [simp]:
  "ld_rxPulseUntilMs (refreshRxTile now d) = ld_rxPulseUntilMs d"
  "ld_rxPulseUntilMs (refreshTxTile now d) = ld_rxPulseUntilMs d"
  "ld_rxPulseUntilMs (refreshPeersTile lib d) = ld_rxPulseUntilMs d"
  "ld_rxPulseUntilMs (refreshErrorsPage d) = ld_rxPulseUntilMs d"
  "ld_rxPulseUntilMs (refreshSessionPage d) = ld_rxPulseUntilMs d"
  "ld_rxPulseUntilMs (refreshPeersPage d) = ld_rxPulseUntilMs d"
  by (simp_all add: refreshRxTile_def refreshTxTile_def refreshPeersTile_def refreshErrorsPage_def refreshSessionPage_def
      refreshPeersPage_def Let_def)

lemma pulse_tick [simp]: "ld_rxPulseUntilMs (lcd_tick lib now pressed d) = ld_rxPulseUntilMs d"
  by (simp add: lcd_tick_def refreshPage_def pollButton_def Let_def split: page.split)

lemma pulse_frame: "\<not> is_rx op \<Longrightarrow> ld_rxPulseUntilMs (lcd_step lib op d) = ld_rxPulseUntilMs d"
  by (cases op) (simp_all add: lcd_begin_def lcd_clear_def showMessage_def notifyTx_def notifyRobotState_def
      notifyPeers_def notifyErrorCounters_def notifySessionStatus_def notifyStorageStatus_def Let_def)

lemma pulse_run: "\<forall>op\<in>set ops. \<not> is_rx op \<Longrightarrow> ld_rxPulseUntilMs (fold (lcd_step lib) ops d) = ld_rxPulseUntilMs d"
  by (induction ops arbitrary: d) (simp_all add: pulse_frame)

lemma sint_pos_iff: "sint (x :: u32) > 0 \<longleftrightarrow> 0 < unat x \<and> unat x < 2 ^ 31"
proof -
  have "sint x = (uint x + 2 ^ 31) mod 2 ^ 32 - 2 ^ 31"
    by (simp add: sint_uint signed_take_bit_eq_take_bit_shift take_bit_eq_mod)
  moreover have "(uint x + 2 ^ 31) mod 2 ^ 32 = (if uint x < 2 ^ 31 then uint x + 2 ^ 31 else uint x - 2 ^ 31)"
  proof (cases "uint x < 2 ^ 31")
    case False
    have "(uint x + 2 ^ 31) mod 2 ^ 32 = (uint x - 2 ^ 31 + 2 ^ 32) mod 2 ^ 32" by (simp add: algebra_simps)
    also have "\<dots> = (uint x - 2 ^ 31) mod 2 ^ 32" by (rule mod_add_self2)
    also have "\<dots> = uint x - 2 ^ 31" using False uint_lt2p [of x] by (intro mod_pos_pos_trivial) simp_all
    finally show ?thesis using False by simp
  qed (simp add: mod_pos_pos_trivial)
  ultimately have "0 < sint x \<longleftrightarrow> 0 < uint x \<and> uint x < 2 ^ 31"
    using uint_lt2p [of x] by (simp split: if_splits)
  then show ?thesis
    by (simp only: unat_eq_nat_uint zero_less_nat_eq nat_less_iff [OF uint_ge_0] of_nat_power of_nat_numeral)
qed

lemma pulse_hot_window:
  "pulse_hot (p + PULSE_HOLD_MS) now \<longleftrightarrow> unat (now - p) < 400 \<or> unat (now - p) > 2 ^ 31 + 400"
proof -
  define e where "e = now - p"
  have "p + PULSE_HOLD_MS - now = 400 - e" by (simp add: e_def PULSE_HOLD_MS_def)
  moreover have "unat (400 - e) = (if unat e \<le> 400 then 400 - unat e else 2 ^ 32 + 400 - unat e)"
    using unat_sub_if' [of "400 :: u32" e] by simp
  ultimately show ?thesis
    using unat_bound [of e] by (auto simp: pulse_hot_def sint_pos_iff e_def [symmetric])
qed

text \<open>The refresh of the activity page leaves the receive dot drawn for the moment it was made.\<close>

lemma rx_hot_drawn:
  assumes "refresh_due now d" and "ld_currentPage (lcd_tick lib now pressed d) = PgActivity"
  shows "ld_rxCacheValid (lcd_tick lib now pressed d)"
    "ld_rxHotDrawn (lcd_tick lib now pressed d) = pulse_hot (ld_rxPulseUntilMs d) now"
proof -
  let ?b = "pollButton pressed (d\<lparr>ld_lastRefreshMs := now\<rparr>)"
  have page: "ld_currentPage ?b = PgActivity" using assms by (simp add: lcd_tick_def)
  have pulse: "ld_rxPulseUntilMs ?b = ld_rxPulseUntilMs d" by (simp add: pollButton_def Let_def)
  have rx: "ld_rxCacheValid (refreshRxTile now b)" "ld_rxHotDrawn (refreshRxTile now b) = pulse_hot (ld_rxPulseUntilMs b) now" for b
    by (auto simp: refreshRxTile_def Let_def)
  have keep: "ld_rxCacheValid (refreshMessageExpiry now (refreshPeersTile lib (refreshTxTile now b))) = ld_rxCacheValid b"
    "ld_rxHotDrawn (refreshMessageExpiry now (refreshPeersTile lib (refreshTxTile now b))) = ld_rxHotDrawn b" for b
    by (simp_all add: refreshMessageExpiry_def refreshPeersTile_def refreshTxTile_def Let_def)
  show "ld_rxCacheValid (lcd_tick lib now pressed d)"
    "ld_rxHotDrawn (lcd_tick lib now pressed d) = pulse_hot (ld_rxPulseUntilMs d) now"
    using assms(1) page pulse by (simp_all add: lcd_tick_def refreshPage_def keep rx)
qed

text \<open>C38. When the receive dot is lit. After a message received at time \<open>p\<close> and any operations but another
  reception, a refresh of the activity page at time \<open>now\<close> leaves the dot lit exactly if less than 400
  milliseconds have passed, or more than 2147484048 (about 24.8 days): from then on until the clock comes
  round a dongle that hears nothing shows reception.\<close>

theorem rx_dot_lit:
  assumes "\<forall>op\<in>set (before @ after). sized op" and "\<forall>op\<in>set after. \<not> is_rx op"
    and "refresh_due now (lcd_run lib (before @ LoRx p # after))"
    and "d = lcd_run lib (before @ LoRx p # after @ [LoTick now pressed])" and "ld_currentPage d = PgActivity"
  shows "spot_color (rx_centre (ld_layout d)) (ld_calls d) =
     lcd_toPanelColor (if unat (now - p) < 400 \<or> unat (now - p) > 2 ^ 31 + 400 then kRawCyan else kNeutralGray565)"
proof -
  let ?d = "lcd_run lib (before @ LoRx p # after)"
  have "rx_inv d" unfolding assms(4) by (rule rx_inv_run) (use assms(1) in auto)
  moreover have d: "d = lcd_tick lib now pressed ?d" by (simp add: assms(4) lcd_run_def)
  moreover have "ld_rxPulseUntilMs ?d = p + PULSE_HOLD_MS"
    using assms(2) by (simp add: lcd_run_def pulse_run notifyRx_def)
  moreover have "ld_ready d" using assms(3) unfolding d by (simp add: lcd_tick_def refresh_due_def)
  ultimately show ?thesis
    using rx_hot_drawn [OF assms(3), of lib pressed] assms(5) by (simp add: rx_inv_def pulse_hot_window)
qed

text \<open>Thirty days after the last message.\<close>

theorem rx_dot_lit_witness:
  "spot_color (26, 59) (ld_calls (lcd_run demo_lcd [LoBegin True (160, 80) 0 False, LoRx 1000, LoTick 2592001000 False])) =
     lcd_toPanelColor kRawCyan"
proof -
  let ?d = "lcd_run demo_lcd [LoBegin True (160, 80) 0 False, LoRx 1000, LoTick 2592001000 False]"
  have "refresh_due 2592001000 (lcd_run demo_lcd [LoBegin True (160, 80) 0 False, LoRx 1000])"
    "ld_currentPage ?d = PgActivity" "rx_centre (ld_layout ?d) = (26, 59)"
    by code_simp+
  then show ?thesis
    using rx_dot_lit [of "[LoBegin True (160, 80) 0 False]" "[]" 2592001000 demo_lcd 1000 ?d False]
    by (simp add: panel_sizes_def)
qed

text \<open>The peers tile counts the peers that are on-line among the four it was given, out of all.\<close>

lemma peers_tile_green_iff:
  "peers_color (ld_peerOnlineCount (notifyPeers rows known d)) known = kRawGreen \<longleftrightarrow>
     0 < known \<and> known \<le> length (filter pw_online (take 4 rows))"
  by (auto simp: peers_color_def notifyPeers_def Let_def MAX_DISPLAYED_PEERS_def kRawGreen_def kRawRed_def kRawYellow_def
      kNeutralGray565_def)

end
