(* ===== verification/App_Proofs.thy ===== *)
theory App_Proofs
  imports App_Runtime Lcd_Proofs Radio_Ingress_Proofs
begin

text \<open>
  What the main loop does and does not do: the spacing of its warnings, who may touch the port while a
  session owns it, what the display is told of the store, the history that is restored, and the echo on
  the HID interface.
\<close>

section \<open>Warnings\<close>

text \<open>The moments at which the category at place \<open>i\<close> is printed over a sequence of rounds, each with its
  time and its categories.\<close>

fun warned :: "nat \<Rightarrow> (u32 \<times> warn_category list) list \<Rightarrow> u32 list \<Rightarrow> u32 list" where
  "warned i [] es = []"
| "warned i ((nowMs, cats) # rounds) es =
     (if fst (warn_step nowMs (cats ! i) (es ! i)) then [nowMs] else []) @ warned i rounds (snd (warn_loop nowMs cats es))"

lemma warn_loop_nth:
  "length cats = length es \<Longrightarrow> i < length es \<Longrightarrow>
     snd (warn_loop nowMs cats es) ! i = snd (warn_step nowMs (cats ! i) (es ! i)) \<and> length (snd (warn_loop nowMs cats es)) = length es"
proof (induction nowMs cats es arbitrary: i rule: warn_loop.induct)
  case (1 nowMs c cs e es)
  then show ?case
  proof (cases i)
    case 0
    have "length (snd (warn_loop nowMs cs es)) = length es"
      using 1 by (cases es) (auto simp: length_Suc_conv)
    with 0 show ?thesis by (simp add: case_prod_beta)
  qed (auto simp: case_prod_beta)
qed auto

text \<open>A line is printed for every category whose step says so, in the order of the categories.\<close>

lemma warn_loop_printed:
  "length cats = length es \<Longrightarrow>
     fst (warn_loop nowMs cats es) = map (warn_line \<circ> fst) (filter (\<lambda>(c, e). fst (warn_step nowMs c e)) (zip cats es))"
  by (induction nowMs cats es rule: warn_loop.induct) (auto simp: case_prod_beta)

definition paced :: "u32 \<Rightarrow> u32 list \<Rightarrow> bool" where
  "paced e ts \<longleftrightarrow> (ts \<noteq> [] \<longrightarrow> (e \<noteq> 0 \<longrightarrow> kWarnThrottleMs \<le> hd ts - e)) \<and>
     successively (\<lambda>s t. kWarnThrottleMs \<le> t - (if s = 0 then 1 else s)) ts"

lemma warned_paced:
  "\<forall>(nowMs, cats)\<in>set rounds. length cats = length es \<Longrightarrow> i < length es \<Longrightarrow> paced (es ! i) (warned i rounds es)"
proof (induction rounds arbitrary: es)
  case (Cons r rounds)
  obtain nowMs cats where r: "r = (nowMs, cats)" by (cases r)
  let ?es = "snd (warn_loop nowMs cats es)" and ?step = "warn_step nowMs (cats ! i) (es ! i)"
  have w: "?es ! i = snd ?step" "length ?es = length es"
    using warn_loop_nth [of cats es i nowMs] Cons.prems r by auto
  then have ih: "paced (snd ?step) (warned i rounds ?es)"
    using Cons.IH [of ?es] Cons.prems by auto
  show ?case
  proof (cases "fst ?step")
    case True
    then have "snd ?step = (if nowMs = 0 then 1 else nowMs)" "es ! i \<noteq> 0 \<Longrightarrow> kWarnThrottleMs \<le> nowMs - es ! i"
      by (auto simp: warn_step_def split: if_splits)
    with ih True show ?thesis
      by (cases "warned i rounds ?es") (auto simp: r paced_def)
  next
    case False
    then have "snd ?step = es ! i" by (auto simp: warn_step_def split: if_splits)
    with ih False show ?thesis by (simp add: r)
  qed
qed (simp add: paced_def)



section \<open>The port during a session\<close>

text \<open>The port, the session and the console's editor.\<close>

definition port_side where
  "port_side a = (mw_port (hb_mux (ap_sys a)), sm_session (hb_mux (ap_sys a)), ap_serialShell a, ap_editorOut a)"

definition in_session where
  "in_session lib a b \<longleftrightarrow> isConsole (rt_mux lib) (ap_sys a) \<or> port_side b = port_side a"

interpretation session: step_relation "in_session lib" for lib
  by unfold_locales (auto simp: in_session_def port_side_def isConsole_def)

abbreviation quiet where "quiet lib \<equiv> state_io_rel (in_session lib)"

lemma quiet_console: "quiet lib m \<Longrightarrow> quiet lib (do { console \<leftarrow> console_owned lib; if \<not> console then m else k console })"
  by (auto simp: state_io_rel_def in_session_def console_owned_def run_state_bind split: prod.splits)

lemma quiet_modify:
  "(\<And>a. port_side (f a) = port_side a) \<Longrightarrow> quiet lib (modify f)"
  by (simp add: state_io_rel_def in_session_def modify_def)

lemma quiet_State: "(\<And>a. port_side (snd (f a)) = port_side a) \<Longrightarrow> quiet lib (State f)"
  unfolding state_io_rel_def in_session_def by (auto split: prod.splits)

lemma quiet_on_lcd: "quiet lib (on_lcd f)"
  unfolding on_lcd_def by (rule quiet_modify) (simp add: port_side_def)

lemma quiet_sys:
  "quiet lib (in_sys (from_board f))" "quiet lib (in_sys (from_out g))" "quiet lib (in_sys sd_isReady)"
  "quiet lib (in_sys (act h))" "quiet lib (millis lib)"
  by (auto simp: state_io_rel_def in_session_def port_side_def in_sys_def from_board_def from_out_def sd_isReady_def act_def
      millis_def shell_millis_def on_board_def on_mux_def split: prod.splits)

text \<open>Relaying for a session and handling a robot's state write nothing; only a log line does, which the
  routed queues print on the console only.\<close>

lemma enqueued_leaves_port [simp]: "mw_port (snd (enqueueFrameBytes lib c fr m)) = mw_port m"
  by (auto simp: enqueueFrameBytes_def set_queue_def count_dropped_def Let_def split: option.splits prod.splits)

lemma enqueued_leaves_session [simp]:
  "sm_session (snd (enqueueFrameBytes lib c fr m)) = sm_session (m :: ('p, 'n, 'd, 'e, 'w) serial_mux)"
  by (auto simp: enqueueFrameBytes_def set_queue_def count_dropped_def Let_def split: option.splits prod.splits)

lemma forwardRelay_port:
  "mw_port (hb_mux (snd (forwardRelay lib header payload h))) = mw_port (hb_mux h)"
  "sm_session (hb_mux (snd (forwardRelay lib header payload h))) = sm_session (hb_mux h)"
  by (auto simp: forwardRelay_def not_listening_def refuse_unsubscribed_def queue_relayed_def on_mux_def case_prod_beta Let_def)

lemma quiet_perform: "(\<And>tag line. c \<noteq> hub_call.Print tag line) \<Longrightarrow> quiet lib (perform_call lib c)"
  by (cases c) (auto simp: perform_call_def quiet_on_lcd session.ret,
      auto simp: state_io_rel_def in_session_def in_sys_def port_side_def forwardRelay_port)

text \<open>What draining appends to the log.\<close>

definition only_relays :: "('r, 'w) hub_state \<Rightarrow> ('r, 'w) hub_state \<Rightarrow> bool" where
  "only_relays s t \<longleftrightarrow> (\<exists>calls. hs_log t = hs_log s @ calls \<and> (\<forall>c\<in>set calls. \<forall>tag line. c \<noteq> hub_call.Print tag line))"

lemma only_relays_same: "hs_log t = hs_log s \<Longrightarrow> only_relays s t" by (simp add: only_relays_def)

lemma only_relays_trans: "only_relays s t \<Longrightarrow> only_relays t u \<Longrightarrow> only_relays s u"
  unfolding only_relays_def by (metis Un_iff append.assoc set_append)

lemma drain_loop_relays:
  "(\<And>x s. only_relays s (handler x s)) \<Longrightarrow> only_relays s (snd (snd (drain_loop n handler xs k s)))"
  by (induction n handler xs k s rule: drain_loop.induct) (auto intro: only_relays_same only_relays_trans)

lemma drainOneQueue_relays:
  "(\<And>x s. only_relays s (handler x s)) \<Longrightarrow> only_relays s (snd (snd (drainOneQueue q n handler s)))"
  using drain_loop_relays [of handler] by (auto simp: drainOneQueue_def only_relays_same case_prod_beta split: option.split)

lemma handlers_relay:
  "\<not> ev_console env AtDispatch \<Longrightarrow> only_relays s (handleLogItem env routed s)"
  "only_relays s (handleTelemetryItem hlib env routed s)"
  "only_relays s (handleTerminalItem routed s)"
  by (auto simp: only_relays_def handleLogItem_def handleTelemetryItem_def handleTerminalItem_def handleRobotStateTelemetry_def
      log_call_def Let_def split: prod.splits)

lemma drainRoutedQueues_relays:
  assumes "\<not> ev_console env AtDispatch"
  shows "only_relays s (snd (drainRoutedQueues hlib env n s))"
proof -
  let ?a = "snd (snd (drainOneQueue (hs_logQueue s) n (handleLogItem env) s))"
  let ?a' = "?a\<lparr>hs_logQueue := fst (snd (drainOneQueue (hs_logQueue s) n (handleLogItem env) s))\<rparr>"
  let ?b = "drainOneQueue (hs_telemetryQueue ?a') n (handleTelemetryItem hlib env) ?a'"
  let ?b' = "(snd (snd ?b))\<lparr>hs_telemetryQueue := fst (snd ?b)\<rparr>"
  let ?c = "drainOneQueue (hs_terminalQueue ?b') n handleTerminalItem ?b'"
  have "only_relays s ?a" "only_relays ?a' (snd (snd ?b))" "only_relays ?b' (snd (snd ?c))"
    by (intro drainOneQueue_relays handlers_relay assms)+
  moreover have "only_relays ?a ?a'" "only_relays (snd (snd ?b)) ?b'"
    "only_relays (snd (snd ?c)) (snd (drainRoutedQueues hlib env n s))"
    by (auto intro!: only_relays_same simp: drainRoutedQueues_def case_prod_beta Let_def)
  ultimately show ?thesis by (blast intro: only_relays_trans)
qed

lemma quiet_each: "(\<And>x. x \<in> set xs \<Longrightarrow> quiet lib (f x)) \<Longrightarrow> quiet lib (each f xs)"
  by (rule session.each)

lemma quiet_flush: "quiet lib (flushPendingEspNowOutput lib)"
proof (unfold state_io_rel_def, intro allI)
  fix a
  show "in_session lib a (snd (run_state (flushPendingEspNowOutput lib) a))"
  proof (cases "isConsole (rt_mux lib) (ap_sys a)")
    case False
    let ?env = "(rt_hub_env lib)\<lparr>ev_console := \<lambda>_. False\<rparr>"
    let ?d = "drainRoutedQueues (rt_hub lib) ?env kRxDisplayFlushBurst (ap_radio a)"
    let ?a = "a\<lparr>ap_radio := snd ?d\<rparr>" and ?calls = "drop (length (hs_log (ap_radio a))) (hs_log (snd ?d))"
    have "only_relays (ap_radio a) (snd ?d)" by (rule drainRoutedQueues_relays) simp
    then have "\<forall>c\<in>set ?calls. \<forall>tag line. c \<noteq> hub_call.Print tag line"
      unfolding only_relays_def by fastforce
    then have "quiet lib (each (perform_call lib) ?calls)" by (intro quiet_each quiet_perform) blast
    then have "in_session lib ?a (snd (run_state (each (perform_call lib) ?calls) ?a))"
      by (auto simp: state_io_rel_def split: prod.splits)
    then have "port_side (snd (run_state (each (perform_call lib) ?calls) ?a)) = port_side a"
      using False by (simp add: in_session_def port_side_def)
    then show ?thesis
      using False by (simp add: flushPendingEspNowOutput_def console_owned_def run_state_bind in_session_def case_prod_beta)
  qed (simp add: in_session_def case_prod_beta)
qed

lemma quiet_feed_lcd: "quiet lib (feed_lcd lib nowMs)"
  unfolding feed_lcd_def console_owned_def by (intro session.rules quiet_on_lcd quiet_sys)

lemma quiet_warnings: "quiet lib (processAsyncWarnings lib)"
  unfolding processAsyncWarnings_def
  by (intro session.bind session.gets session.pair quiet_console session.ret quiet_feed_lcd quiet_sys quiet_State quiet_modify)
    (auto simp: port_side_def split: prod.splits)

lemma quiet_input: "quiet lib (handleShellInput lib)"
  unfolding handleShellInput_def by (rule quiet_console) (rule session.ret)

lemma quiet_lcd_round: "quiet lib (lcd_round lib)"
  unfolding lcd_round_def by (intro session.rules quiet_on_lcd quiet_sys)

lemma quiet_dtr:
  assumes "rt_dtr lib = (\<lambda>_. True)" and "quiet lib k"
  shows "quiet lib (do { dtr \<leftarrow> in_sys (from_out (rt_dtr lib)); only_if (\<not> dtr) m; k })"
  using assms(2) by (auto simp: assms(1) state_io_rel_def in_sys_def from_out_def from_board_def run_state_bind split: prod.splits)

lemma quiet_before_mux:
  assumes "rt_dtr lib = (\<lambda>_. True)"
  shows "quiet lib (before_mux lib)"
  unfolding before_mux_def
  by (rule session.bind [OF quiet_warnings], rule session.bind [OF quiet_flush], rule session.bind [OF quiet_lcd_round],
      rule quiet_dtr [OF assms], rule session.bind [OF quiet_input], rule session.bind [OF quiet_flush], rule session.ret)

text \<open>After the multiplexer's turn.\<close>

lemma quiet_hid: "quiet lib (hid_round lib)"
  unfolding hid_round_def
  by (intro session.bind session.gets quiet_sys quiet_modify) (simp add: port_side_def)

lemma quiet_prompt: "quiet lib (prompt_round lib occurred)"
proof -
  have console: "quiet lib (do { console \<leftarrow> console_owned lib; only_if (pending \<and> console) m })" for pending m
    by (auto simp: state_io_rel_def in_session_def console_owned_def run_state_bind)
  have noted: "quiet lib (only_if occurred (do { now \<leftarrow> millis lib;
      modify (\<lambda>a. a\<lparr>ap_lastAsyncOutputTime := now, ap_pendingPromptRefresh := True\<rparr>) }))"
    by (intro session.only_if session.bind quiet_sys quiet_modify) (simp add: port_side_def)
  show ?thesis unfolding prompt_round_def
    by (rule session.bind [OF noted], rule session.bind [OF session.gets], rule console)
qed

lemmas quiet_after = quiet_hid quiet_prompt

text \<open>C39. While a session owns the port, the multiplexer alone uses it. In a round of the main loop that
  starts outside the console, on a port whose host is there, nothing is written to the port and nothing is
  read from it before the multiplexer's turn, whatever was lost, received or shown meanwhile, and if the
  session goes on after that turn, nothing is written after it.\<close>

theorem session_owns_the_port:
  assumes "\<not> isConsole (rt_mux lib) (ap_sys a)" and "rt_dtr lib = (\<lambda>_. True)"
  shows "let b = snd (run_state (before_mux lib) a); (now, c) = run_state (millis lib) b;
      h = mux_tick (rt_mux lib) now (ap_sys c)
    in mw_port (hb_mux (ap_sys c)) = mw_port (hb_mux (ap_sys a)) \<and>
       (\<not> isConsole (rt_mux lib) h \<longrightarrow> mw_port (hb_mux (ap_sys (snd (run_state (app_tick lib) a)))) = mw_port (hb_mux h))"
proof -
  obtain occurred b where b: "run_state (before_mux lib) a = (occurred, b)" by fastforce
  obtain now c where c: "run_state (millis lib) b = (now, c)" by fastforce
  let ?h = "mux_tick (rt_mux lib) now (ap_sys c)" and ?d = "c\<lparr>ap_sys := mux_tick (rt_mux lib) now (ap_sys c)\<rparr>"
  have "in_session lib a b" by (rule state_io_relD [OF quiet_before_mux [OF assms(2)] b])
  with assms(1) have ab: "port_side b = port_side a" by (simp add: in_session_def)
  then have "\<not> isConsole (rt_mux lib) (ap_sys b)" using assms(1) by (simp add: port_side_def isConsole_def)
  moreover have "in_session lib b c" by (rule state_io_relD [OF quiet_sys(5) c])
  ultimately have "port_side c = port_side a" using ab by (simp add: in_session_def)
  moreover have "mw_port (hb_mux (ap_sys (snd (run_state (app_tick lib) a)))) = mw_port (hb_mux ?h)"
    if "\<not> isConsole (rt_mux lib) ?h"
  proof -
    have "quiet lib (do { hid_round lib; prompt_round lib occurred })"
      by (intro session.bind quiet_after)
    then have "in_session lib ?d (snd (run_state (do { hid_round lib; prompt_round lib occurred }) ?d))"
      by (simp add: state_io_rel_def)
    with that show ?thesis
      by (simp add: app_tick_def run_state_bind b c in_sys_def in_session_def port_side_def)
  qed
  ultimately show ?thesis by (simp add: b c port_side_def)
qed

text \<open>A round of a session with one octet of the client waiting and a prompt pending.\<close>

definition app_demo_lib :: "(bytes \<times> bytes, demo_node, unit, bytes, demo_out, unit, unit, bool, unit) app_lib" where
  "app_demo_lib = \<lparr>rt_shell = demo_shell, rt_depth = 3, rt_hub = Radio_Ingress_Proofs.demo_lib, rt_hub_env = demo_env False,
     rt_lcd = demo_lcd, rt_dtr = \<lambda>_. True, rt_pressed = \<lambda>_. False, rt_waiting = \<lambda>p. length (fst p), rt_history = 20,
     rt_hid_ready = \<lambda>_. True, rt_hid_report = \<lambda>report. Pair True\<rparr>"

definition app_demo :: "session_state \<Rightarrow> (bytes \<times> bytes, demo_node, unit, bytes, demo_out, bool, unit) app" where
  "app_demo st = \<lparr>ap_sys = on_mux (\<lambda>m. m\<lparr>mw_port := ([2], [])\<rparr>) (demo_system st), ap_radio = demo_boot, ap_lcd = lcd_init,
     ap_hid = hid_init, ap_serialShell = [], ap_editorOut = ''$ '', ap_databaseReady = False, ap_databaseInitAttempts = 0,
     ap_lastDatabaseInitMs = 0, ap_lastConsumeRejected = 0, ap_lastIngestFailed = 0, ap_lastSyncFallback = 0,
     ap_emitted = replicate 7 0, ap_lastAsyncOutputTime = 0, ap_pendingPromptRefresh = True\<rparr>"

theorem session_owns_the_port_witness:
  "mw_port (hb_mux (ap_sys (snd (run_state (before_mux app_demo_lib) (app_demo SsActive))))) = ([2], [])"
proof -
  have "\<not> isConsole (rt_mux app_demo_lib) (ap_sys (app_demo SsActive))"
    by (simp add: app_demo_def app_demo_lib_def rt_mux_def firmware_def demo_defs on_mux_def)
  from session_owns_the_port [OF this] show ?thesis
    by (simp add: app_demo_lib_def Let_def millis_def shell_millis_def in_sys_def act_def demo_defs app_demo_def on_mux_def
        on_board_def case_prod_beta)
qed

section \<open>The store on the display\<close>

text \<open>Nothing the main loop runs sets the flag the display is told the state of the store by.\<close>

definition store_hidden where
  "store_hidden a b \<longleftrightarrow> ap_databaseReady b = ap_databaseReady a \<and>
     (\<not> ap_databaseReady a \<and> \<not> st_dbReady (ld_sessionLive (ap_lcd a)) \<longrightarrow> \<not> st_dbReady (ld_sessionLive (ap_lcd b)))"

interpretation hidden: step_relation store_hidden
  by unfold_locales (auto simp: store_hidden_def)

abbreviation hides where "hides \<equiv> state_io_rel store_hidden"

lemma hides_in_sys: "hides (in_sys m)"
  by (auto simp: state_io_rel_def store_hidden_def in_sys_def split: prod.splits)

lemma hides_modify:
  "(\<And>a. ap_databaseReady (f a) = ap_databaseReady a \<and> ap_lcd (f a) = ap_lcd a) \<Longrightarrow> hides (modify f)"
  by (simp add: state_io_rel_def store_hidden_def)

lemma hides_State:
  "(\<And>a. ap_databaseReady (snd (f a)) = ap_databaseReady a \<and> ap_lcd (snd (f a)) = ap_lcd a) \<Longrightarrow> hides (State f)"
  by (simp add: state_io_rel_def store_hidden_def)

lemma hides_on_lcd: "(\<And>d. st_dbReady (ld_sessionLive (f d)) = st_dbReady (ld_sessionLive d)) \<Longrightarrow> hides (on_lcd f)"
  by (simp add: state_io_rel_def store_hidden_def on_lcd_def)

lemma hides_basic: "hides (millis lib)" "hides (console_owned lib)" "hides (to_port f)" "hides (print_tagged lib tag line)"
  by (simp_all add: millis_def console_owned_def to_port_def print_tagged_def hides_in_sys hidden.gets)

lemma sessionLive_parts [simp]:
  "ld_sessionLive (draw calls d) = ld_sessionLive d" "ld_sessionLive (switchToPage p d) = ld_sessionLive d"
  "ld_sessionLive (refreshMessageExpiry now d) = ld_sessionLive d" "ld_sessionLive (refreshRxTile now d) = ld_sessionLive d"
  "ld_sessionLive (refreshTxTile now d) = ld_sessionLive d" "ld_sessionLive (refreshPeersTile lib d) = ld_sessionLive d"
  "ld_sessionLive (refreshErrorsPage d) = ld_sessionLive d" "ld_sessionLive (refreshSessionPage d) = ld_sessionLive d"
  "ld_sessionLive (refreshPeersPage d) = ld_sessionLive d" "ld_sessionLive (notifyRobotState t d) = ld_sessionLive d"
  by (simp_all add: draw_def switchToPage_def refreshMessageExpiry_def refreshRxTile_def refreshTxTile_def refreshPeersTile_def
      refreshErrorsPage_def refreshSessionPage_def refreshPeersPage_def notifyRobotState_def Let_def)

lemma sessionLive_tick [simp]: "ld_sessionLive (lcd_tick lib now pressed d) = ld_sessionLive d"
  by (simp add: lcd_tick_def refreshPage_def pollButton_def Let_def split: page.split)

lemma hides_storage: "hides (do { ready \<leftarrow> gets ap_databaseReady; on_lcd (notifyStorageStatus sd used size_MB ready) })"
  by (simp add: state_io_rel_def store_hidden_def on_lcd_def notifyStorageStatus_def run_state_bind)

lemma hides_feed_lcd: "hides (feed_lcd lib nowMs)"
  unfolding feed_lcd_def
  by (rule hidden.bind hidden.gets hides_basic hides_in_sys hides_storage
      | (rule hides_on_lcd, simp add: notifyErrorCounters_def notifyPeers_def notifySessionStatus_def Let_def))+

lemma hides_warnings: "hides (processAsyncWarnings lib)"
  unfolding processAsyncWarnings_def
  by (intro hidden.bind hidden.gets hidden.pair hidden.branch hidden.ret hidden.each hides_feed_lcd hides_basic hides_State
      hides_modify) (auto split: prod.splits)

lemma hides_perform: "hides (perform_call lib c)"
  by (auto simp: perform_call_def hides_basic hides_in_sys hidden.ret intro: hides_on_lcd split: hub_call.splits)

lemma hides_flush: "hides (flushPendingEspNowOutput lib)"
  unfolding flushPendingEspNowOutput_def
  by (intro hidden.bind hidden.pair hidden.ret hidden.each hides_perform hides_basic hides_State) (auto split: prod.splits)

lemma hides_editor: "hides (flushEditorOutput lib)" "hides (refresh_prompt lib)" "hides (poll_editor lib)"
  unfolding refresh_prompt_def flushEditorOutput_def poll_editor_def
  by (intro hidden.rules hides_basic hides_State hides_modify; auto split: prod.splits)+

lemma hides_feed_editor: "hides (feed_editor lib octets)"
  by (induction octets)
    (simp add: hidden.ret, simp, intro hidden.rules hides_State hides_modify, auto split: prod.splits)

lemma hides_console_loop: "hides (console_loop lib rounds)"
proof (induction rounds)
  case (Suc rounds)
  then show ?case
    by (simp, intro hidden.rules hides_editor hides_basic hides_in_sys) (simp_all add: console_response_def hidden.rules hides_in_sys)
qed (simp add: hidden.ret)

lemma hides_input: "hides (handleShellInput lib)"
  unfolding handleShellInput_def
  by (intro hidden.rules hides_feed_editor hides_console_loop hides_editor hides_basic)

lemma hides_tick: "hides (app_tick lib)"
  unfolding app_tick_def before_mux_def lcd_round_def hid_round_def prompt_round_def
  by (intro hidden.rules hides_warnings hides_flush hides_input hides_in_sys hides_basic hides_editor hides_on_lcd hides_modify) auto

text \<open>The display never shows that the store is open. From a boot on, after any number of rounds of the
  main loop, with whatever commands are typed or received in them, the session page is told that the store is
  not ready: only \<open>maybeInitDatabase\<close> sets the flag it is told, and the loop does not call it, so a store that
  \<open>database -init\<close> opened is shown as missing.\<close>

theorem display_never_shows_store:
  assumes "\<not> ap_databaseReady a" and "\<not> st_dbReady (ld_sessionLive (ap_lcd a))"
  shows "let b = ((\<lambda>a. snd (run_state (app_tick lib) a)) ^^ rounds) a
    in \<not> ap_databaseReady b \<and> \<not> st_dbReady (ld_sessionLive (ap_lcd b))"
proof -
  have "store_hidden a (((\<lambda>a. snd (run_state (app_tick lib) a)) ^^ rounds) a)"
  proof (induction rounds)
    case (Suc rounds)
    then show ?case using hides_tick [of lib] by (auto simp: state_io_rel_def intro: hidden.trans)
  qed (simp add: hidden.refl)
  with assms show ?thesis by (simp add: Let_def store_hidden_def)
qed

text \<open>With a store that is open.\<close>

definition app_demo_open :: "(bytes \<times> bytes, demo_node, unit, bytes, demo_out, bool, unit) app" where
  "app_demo_open = (app_demo SsIdle)\<lparr>ap_sys := on_board (\<lambda>b. b\<lparr>bd_store := (bd_store b)\<lparr>se_ready := True, se_open := True\<rparr>\<rparr>)
     (ap_sys (app_demo SsIdle))\<rparr>"

theorem display_never_shows_store_witness:
  "se_ready (bd_store (board_of (ap_sys app_demo_open))) \<and>
   \<not> st_dbReady (ld_sessionLive (ap_lcd (((\<lambda>a. snd (run_state (app_tick app_demo_lib) a)) ^^ 7) app_demo_open)))"
proof -
  have "\<not> ap_databaseReady app_demo_open" "\<not> st_dbReady (ld_sessionLive (ap_lcd app_demo_open))"
    "se_ready (bd_store (board_of (ap_sys app_demo_open)))"
    by (simp_all add: app_demo_open_def app_demo_def lcd_init_def no_session_def on_board_def on_mux_def board_of_def)
  then show ?thesis using display_never_shows_store [of app_demo_open 7 app_demo_lib] by (simp add: Let_def)
qed

section \<open>The echo on the HID interface\<close>

text \<open>What the host wrote is what the next report carries: the length and as many octets.\<close>

lemma hid_echo:
  assumes "buffer = of_nat len # payload @ rest" and "length payload = len" and "0 < len" and "len \<le> kPayloadSize"
    and "bufsize \<noteq> 0" and "hm_started s" and "ready w" and "hid_tick ready report (hid_set_report (Some buffer) bufsize s, w) = (s', w')"
  shows "\<exists>stale ok. report (of_nat len # payload @ stale) w = (ok, w') \<and> hm_hasPendingOut s' = (\<not> ok)"
proof -
  have "unat (of_nat len :: u8) = len" using assms(4) by (simp add: kPayloadSize_def kReportSize_def unat_of_nat)
  then have "hid_set_report (Some buffer) bufsize s =
      s\<lparr>hm_pendingOut := of_nat len # payload @ drop (len + 1) (hm_pendingOut s), hm_hasPendingOut := True\<rparr>" (is "_ = ?s")
    using assms(1-5) by (simp add: hid_set_report_def Let_def)
  moreover obtain ok w1 where "report (of_nat len # payload @ drop (len + 1) (hm_pendingOut s)) w = (ok, w1)" by fastforce
  ultimately show ?thesis
    using assms(6-8) by (intro exI [of _ "drop (len + 1) (hm_pendingOut s)"] exI [of _ ok]) (auto simp: hid_tick_def)
qed

section \<open>The restored history\<close>

text \<open>Every stored line that is not blank enters the history of the console and of the terminal, in order.\<close>

definition history_lines :: "string \<Rightarrow> string list" where
  "history_lines t = filter (\<lambda>line. line \<noteq> []) (map trimWhitespace (text_lines [] t))"

lemma add_history_run:
  "run_state (each (add_history lib) rows) a = ((), a
     \<lparr>ap_serialShell := fold (ed_addHistory (ml_editor (rt_mux lib))) (filter (\<lambda>l. l \<noteq> []) (map trimWhitespace rows)) (ap_serialShell a),
      ap_sys := on_mux (\<lambda>m. m\<lparr>sm_terminalShell := fold (\<lambda>l. ed_addHistory (ml_editor (rt_mux lib)) (c_str l))
        (filter (\<lambda>l. l \<noteq> []) (map trimWhitespace rows)) (sm_terminalShell m)\<rparr>) (ap_sys a)\<rparr>)"
  by (induction rows arbitrary: a)
    (simp_all add: on_mux_def add_history_def Let_def run_state_bind in_sys_def addTerminalHistory_def)

lemma restored_history:
  assumes "se_ready (bd_store (board_of (ap_sys a)))"
    and "run_state (database (readRecentCommands (store_lib_of (rt_shell lib)) (rt_history lib))) (ap_sys a) = ((True, t), h)"
  shows "ap_serialShell (snd (run_state (restoreShellHistoryFromDatabase lib) a)) =
     fold (ed_addHistory (ml_editor (rt_mux lib))) (history_lines t) (ap_serialShell a)"
  using assms
  by (simp add: restoreShellHistoryFromDatabase_def run_state_bind in_sys_def from_board_def add_history_run history_lines_def
      trimWhitespace_def)

end
